(* ===== verification/Gel_Prelude.thy ===== *)
theory Gel_Prelude
  imports Main "HOL-Library.Word"
begin

text \<open>
  What every component of the development shares: the machine types of
  \<open>elm/types.h\<close> as words, memory blocks as byte lists with the little-endian
  loads and stores the host performs, the failures of the C++ code as values,
  and the two result types (a plain result, and a result with a state that
  survives the exception) in which the operations of GEL++ are written.
\<close>

unbundle bit_operations_syntax

section \<open>Machine types\<close>

type_synonym u8 = "8 word"
type_synonym u16 = "16 word"
type_synonym u32 = "32 word"
type_synonym u64 = "64 word"

text \<open>A block of memory, from its first byte on.\<close>

type_synonym mem = "u8 list"

section \<open>Failures\<close>

text \<open>
  One constructor for each message that the program throws with
  \<open>gel::Exception\<close> (or \<open>MessageException\<close>), with the values the message shows.
\<close>

datatype gel_exn =
    Cannot_Read u32
  | Cannot_Move u32
  | Not_An_ELF
  | Malformed_ELF
  | Bad_ELF_Header
  | Unknown_ELF_Class u8
  | Not_A_Binary
  | Unknown_Format "u8 list"
  | System_Error string
  | Garbage_In_Symtab string
  | Strtab_Out_Of_Bound
  | Malformed_Note
  | Stack_Too_Small
  | Strtab_Not_Loaded
  | Bad_String_Offset
  | Cannot_Find string
  | Debug_Line_Error
  | Dwarf_Version u16
  | Endless_Line_Program
  | Invalid_Extended_Opcode
  | Invalid_Standard_Opcode
  | Too_Many_Dir_Formats
  | No_Dir_Format
  | Unknown_Dir_Form
  | Unknown_File_Form
  | PE_IO_Error
  | PE_Short_Read nat int
  | Not_PECOFF "u8 list"
  | Unknown_PE_Type u16
  | PE_Bad_Pointer string
  | Coff_Cannot_Open string
  | Coff_No_Windows_Header string
  | Coff_Unknown_Architecture
  | Coff_No_Optional_Header
  | No_Section_Containing u64

text \<open>
  The other ways a call can fail to return: a failed \<open>ASSERT\<close>, an access
  outside of an allocated block or through a null pointer, the arithmetic that
  C++ leaves undefined, the use of a variable that was never assigned, the
  exhaustion of the stack and of the heap, the end of a function that should give a value
  (\<open>No_Value\<close>). \<open>No_Return\<close> is not a failure of the
  program: it is the value of a loop whose bound on its number of turns, given
  as an argument of the model, was reached.
\<close>

datatype gel_error =
    Throw gel_exn
  | Assert_Failure
  | Memory_Fault
  | Division_By_Zero
  | Undefined_Shift
  | Integer_Overflow
  | Stack_Overflow
  | Bad_Alloc
  | Uninitialised
  | No_Return
  | No_Value

type_synonym 'a res = "gel_error + 'a"

definition rbind :: "'a res \<Rightarrow> ('a \<Rightarrow> 'b res) \<Rightarrow> 'b res" where
  "rbind r f = (case r of Inl e \<Rightarrow> Inl e | Inr x \<Rightarrow> f x)"

definition require :: "bool \<Rightarrow> gel_error \<Rightarrow> unit res" where
  "require b e = (if b then Inr () else Inl e)"

text \<open>The collection of rules that read a successful result backwards.\<close>

named_theorems res_iff

lemma rbind_simps [simp]:
  "rbind (Inl e) f = Inl e"
  "rbind (Inr x) f = f x"
  by (simp_all add: rbind_def)

lemma rbind_Inr_iff [res_iff]:
  "rbind r f = Inr y \<longleftrightarrow> (\<exists>x. r = Inr x \<and> f x = Inr y)"
  by (cases r) auto

lemma rbind_Inl_iff [res_iff]:
  "rbind r f = Inl e \<longleftrightarrow> r = Inl e \<or> (\<exists>x. r = Inr x \<and> f x = Inl e)"
  by (cases r) auto

lemma require_simps [simp]:
  "require True e = Inr ()"
  "require False e = Inl e"
  by (simp_all add: require_def)

lemma require_Inr_iff [res_iff]: "require b e = Inr u \<longleftrightarrow> b"
  by (cases b) auto

lemma require_Inl_iff [res_iff]: "require b e = Inl e' \<longleftrightarrow> \<not> b \<and> e' = e"
  by (cases b) auto

lemma rbind_assoc: "rbind (rbind r f) g = rbind r (\<lambda>x. rbind (f x) g)"
  by (cases r) auto

lemma rbind_cong [fundef_cong]:
  "r = r' \<Longrightarrow> (\<And>x. r' = Inr x \<Longrightarrow> f x = f' x) \<Longrightarrow> rbind r f = rbind r' f'"
  by (cases r') auto

section \<open>Results with a state\<close>

text \<open>
  An operation of an object that may throw half-way: the state it leaves behind
  is kept in both cases, as the members of the C++ object are.
\<close>

type_synonym ('s, 'a) stm = "'s \<Rightarrow> 'a res \<times> 's"

definition sreturn :: "'a \<Rightarrow> ('s, 'a) stm" where
  "sreturn x s = (Inr x, s)"

definition sraise :: "gel_error \<Rightarrow> ('s, 'a) stm" where
  "sraise e s = (Inl e, s)"

definition slift :: "'a res \<Rightarrow> ('s, 'a) stm" where
  "slift r s = (r, s)"

definition sget :: "('s, 's) stm" where
  "sget s = (Inr s, s)"

definition smodify :: "('s \<Rightarrow> 's) \<Rightarrow> ('s, unit) stm" where
  "smodify f s = (Inr (), f s)"

definition sbind :: "('s, 'a) stm \<Rightarrow> ('a \<Rightarrow> ('s, 'b) stm) \<Rightarrow> ('s, 'b) stm" where
  "sbind m f s = (case m s of (Inl e, s') \<Rightarrow> (Inl e, s') | (Inr x, s') \<Rightarrow> f x s')"

lemma stm_simps [simp]:
  "sreturn x s = (Inr x, s)"
  "sraise e s = (Inl e, s)"
  "slift r s = (r, s)"
  "sget s = (Inr s, s)"
  "smodify h s = (Inr (), h s)"
  by (simp_all add: sreturn_def sraise_def slift_def sget_def smodify_def)

lemma sbind_Inl [simp]: "m s = (Inl e, s') \<Longrightarrow> sbind m f s = (Inl e, s')"
  by (simp add: sbind_def)

lemma sbind_Inr [simp]: "m s = (Inr x, s') \<Longrightarrow> sbind m f s = f x s'"
  by (simp add: sbind_def)

text \<open>The unit laws, without the state.\<close>

lemma sbind_units [simp]:
  "sbind (slift (Inr x)) f = f x" "sbind (slift (Inl e)) f = sraise e"
  "sbind (sreturn x) f = f x" "sbind (sraise e) f = sraise e"
  "sbind sget g = (\<lambda>s. g s s)" "sbind (smodify h) k = (\<lambda>s. k () (h s))"
  by (simp_all add: sbind_def fun_eq_iff)

lemma sbind_Inr_iff [res_iff]:
  "sbind m f s = (Inr y, t) \<longleftrightarrow> (\<exists>x s'. m s = (Inr x, s') \<and> f x s' = (Inr y, t))"
  by (auto simp: sbind_def split: prod.splits sum.splits)

section \<open>Bytes in memory\<close>

definition bytes_at :: "mem \<Rightarrow> nat \<Rightarrow> nat \<Rightarrow> mem" where
  "bytes_at m a n = take n (drop a m)"

definition store_at :: "mem \<Rightarrow> nat \<Rightarrow> mem \<Rightarrow> mem" where
  "store_at m a bs = take a m @ bs @ drop (a + length bs) m"

lemma length_bytes_at [simp]: "a + n \<le> length m \<Longrightarrow> length (bytes_at m a n) = n"
  by (simp add: bytes_at_def)

lemma nth_bytes_at [simp]:
  "i < n \<Longrightarrow> a + n \<le> length m \<Longrightarrow> bytes_at m a n ! i = m ! (a + i)"
  by (simp add: bytes_at_def)

lemma length_store_at [simp]:
  "a + length bs \<le> length m \<Longrightarrow> length (store_at m a bs) = length m"
  by (simp add: store_at_def)

lemma nth_store_at:
  "a + length bs \<le> length m \<Longrightarrow> i < length m \<Longrightarrow>
   store_at m a bs ! i = (if a \<le> i \<and> i < a + length bs then bs ! (i - a) else m ! i)"
  by (auto simp: store_at_def nth_append min_def)

lemma bytes_at_eqI:
  "a + n \<le> length m \<Longrightarrow> b + n \<le> length m' \<Longrightarrow>
   (\<And>i. i < n \<Longrightarrow> m ! (a + i) = m' ! (b + i)) \<Longrightarrow> bytes_at m a n = bytes_at m' b n"
  by (rule nth_equalityI) simp_all

lemma bytes_at_store_same [simp]:
  "a + length bs \<le> length m \<Longrightarrow> n = length bs \<Longrightarrow> bytes_at (store_at m a bs) a n = bs"
  by (rule nth_equalityI) (simp_all add: nth_store_at)

lemma bytes_at_store_other [simp]:
  "a + length bs \<le> length m \<Longrightarrow> c + n \<le> length m \<Longrightarrow> c + n \<le> a \<or> a + length bs \<le> c \<Longrightarrow>
   bytes_at (store_at m a bs) c n = bytes_at m c n"
  by (rule bytes_at_eqI) (auto simp: nth_store_at)

lemma bytes_at_append:
  "bytes_at m a (n + k) = bytes_at m a n @ bytes_at m (a + n) k"
  unfolding bytes_at_def take_add drop_drop by (simp add: add.commute)

lemma bytes_at_all: "n = length m \<Longrightarrow> bytes_at m 0 n = m"
  by (simp add: bytes_at_def)

section \<open>Integers in memory\<close>

text \<open>
  The host is little endian: a load composes the bytes from the least
  significant one, a store writes them in that order.
\<close>

fun le_word :: "mem \<Rightarrow> 'a::len word" where
  "le_word [] = 0"
| "le_word (b # bs) = ucast b OR push_bit 8 (le_word bs)"

definition to_le :: "nat \<Rightarrow> 'a::len word \<Rightarrow> mem" where
  "to_le n w = map (\<lambda>i. ucast (drop_bit (8 * i) w)) [0..<n]"

lemma length_to_le [simp]: "length (to_le n w) = n"
  by (simp add: to_le_def)

lemma bit_le_word:
  "bit (le_word bs :: 'a::len word) n \<longleftrightarrow>
   n < LENGTH('a) \<and> n div 8 < length bs \<and> bit (bs ! (n div 8)) (n mod 8)"
proof (induction bs arbitrary: n)
  case Nil
  then show ?case by simp
next
  case (Cons b bs)
  show ?case
  proof (cases "n < 8")
    case True
    then show ?thesis
      by (auto simp: bit_simps)
  next
    case False
    then obtain k where "n = k + 8"
      using le_Suc_ex by (metis add.commute not_less)
    moreover have "(k + 8) div 8 = Suc (k div 8)" "(k + 8) mod 8 = k mod 8"
      by simp_all
    ultimately show ?thesis
      using Cons.IH [of k] by (auto simp: bit_simps dest: bit_imp_le_length)
  qed
qed

lemma bit_to_le:
  "i < n \<Longrightarrow> bit (to_le n w ! i) k \<longleftrightarrow> k < 8 \<and> bit w (8 * i + k)"
  by (auto simp: to_le_def bit_simps dest: bit_imp_le_length)

lemma le_word_to_le [simp]:
  "LENGTH('a) = 8 * n \<Longrightarrow> le_word (to_le n w) = (w :: 'a::len word)"
  by (rule bit_word_eqI) (auto simp: bit_le_word bit_to_le)

lemma to_le_le_word [simp]:
  assumes "LENGTH('a) = 8 * n" and "length bs = n"
  shows "to_le n (le_word bs :: 'a::len word) = bs"
proof (rule nth_equalityI)
  fix i assume i: "i < length (to_le n (le_word bs :: 'a word))"
  show "to_le n (le_word bs :: 'a word) ! i = bs ! i"
    by (rule bit_word_eqI) (use i assms in \<open>auto simp: bit_to_le bit_le_word\<close>)
qed (use assms in simp)

definition load16 :: "mem \<Rightarrow> nat \<Rightarrow> u16" where
  "load16 m a = le_word (bytes_at m a 2)"

definition load32 :: "mem \<Rightarrow> nat \<Rightarrow> u32" where
  "load32 m a = le_word (bytes_at m a 4)"

definition load64 :: "mem \<Rightarrow> nat \<Rightarrow> u64" where
  "load64 m a = le_word (bytes_at m a 8)"

lemmas load_defs = load16_def load32_def load64_def

section \<open>C strings\<close>

text \<open>
  A \<open>cstring\<close> points into memory: its characters run to the first null byte.
  When the block ends before a null byte the read leaves the block.
\<close>

definition cstr_at :: "mem \<Rightarrow> nat \<Rightarrow> u8 list res" where
  "cstr_at m a =
     (if a \<le> length m \<and> 0 \<in> set (drop a m)
      then Inr (takeWhile (\<lambda>b. b \<noteq> 0) (drop a m)) else Inl Memory_Fault)"

lemma cstr_at_append:
  assumes "a = length pre" and "0 \<notin> set s"
  shows "cstr_at (pre @ s @ 0 # post) a = Inr s"
proof -
  have "takeWhile (\<lambda>b. b \<noteq> 0) (s @ 0 # post) = s"
    using assms(2) by (induction s) auto
  then show ?thesis
    using assms(1) by (simp add: cstr_at_def)
qed

text \<open>String literals of the source as byte lists.\<close>

definition str_bytes :: "string \<Rightarrow> u8 list" where
  "str_bytes s = map of_char s"

definition bytes_str :: "u8 list \<Rightarrow> string" where
  "bytes_str bs = map (\<lambda>b. char_of (unat b)) bs"

lemma ucast_down: "LENGTH('b) \<le> LENGTH('a) \<Longrightarrow>
    ucast (word_of_nat n :: 'a::len word) = (word_of_nat n :: 'b::len word)"
  by (rule bit_word_eqI) (auto simp: bit_simps)

end
