(* ===== verification/Gel_Base.thy ===== *)
theory Gel_Base
  imports Gel_Prelude
begin

text \<open>
  \<open>include/gel++/base.h\<close> with the code of \<open>src/gel_Manager.cpp\<close> that completes it:
  address ranges, the \<open>Decoder\<close> interface, \<open>Buffer\<close> (a block of an executable
  file with checked accesses) and \<open>Cursor\<close> (a position in a buffer). The
  \<open>elm::array\<close> functions are not part of the repository: they are the fields of
  a parameter of type \<open>elm_array\<close>, with their documented behaviour as the
  predicate \<open>elm_array_spec\<close>.
\<close>

section \<open>Address ranges\<close>

record range_t =
  r_addr :: u64
  r_size :: u64

definition range_of :: "u64 \<Rightarrow> u64 \<Rightarrow> range_t" where
  "range_of a s = \<lparr>r_addr = a, r_size = s\<rparr>"

definition range_top :: "range_t \<Rightarrow> u64" where
  "range_top r = r_addr r + r_size r"

definition range_last :: "range_t \<Rightarrow> u64" where
  "range_last r = range_top r - 1"

definition range_contains :: "range_t \<Rightarrow> u64 \<Rightarrow> bool" where
  "range_contains r a \<longleftrightarrow> r_addr r \<le> a \<and> a \<le> range_last r"

definition range_shift :: "range_t \<Rightarrow> u64 \<Rightarrow> range_t" where
  "range_shift r off = range_of (r_addr r + off) (r_size r)"

definition range_shift_back :: "range_t \<Rightarrow> u64 \<Rightarrow> range_t" where
  "range_shift_back r off = range_of (r_addr r - off) (r_size r)"

lemma range_of_simps [simp]:
  "r_addr (range_of a s) = a" "r_size (range_of a s) = s"
  by (simp_all add: range_of_def)

text \<open>A range that does not wrap around the address space is a half-open interval.\<close>

definition range_fits :: "range_t \<Rightarrow> bool" where
  "range_fits r \<longleftrightarrow> r_size r \<noteq> 0 \<and> unat (r_addr r) + unat (r_size r) \<le> 2 ^ 64"

lemma unat_range_last:
  assumes "range_fits r"
  shows "unat (range_last r) = unat (r_addr r) + unat (r_size r) - 1"
proof -
  have s: "unat (r_size r) \<noteq> 0"
    using assms by (simp add: range_fits_def unat_eq_0)
  have "range_last r = word_of_nat (unat (r_addr r) + unat (r_size r) - 1)"
    using s by (simp add: range_last_def range_top_def of_nat_diff)
  moreover have "unat (r_addr r) + unat (r_size r) - 1 < 2 ^ 64"
    using assms s unfolding range_fits_def by linarith
  ultimately show ?thesis
    by (simp add: unat_of_nat)
qed

lemma range_contains_iff:
  assumes "range_fits r"
  shows "range_contains r a \<longleftrightarrow>
    unat (r_addr r) \<le> unat a \<and> unat a < unat (r_addr r) + unat (r_size r)"
proof -
  have "unat (r_size r) \<noteq> 0"
    using assms by (simp add: range_fits_def unat_eq_0)
  then show ?thesis
    using unat_range_last [OF assms]
    by (auto simp: range_contains_def word_le_nat_alt)
qed

text \<open>An empty range contains no address, unless it starts at address 0.\<close>

lemma range_contains_empty:
  "r_size r = 0 \<Longrightarrow> range_contains r a \<longleftrightarrow> r_addr r = 0"
proof -
  assume s: "r_size r = 0"
  show ?thesis
  proof (cases "r_addr r = 0")
    case True
    then show ?thesis
      using s by (simp add: range_contains_def range_last_def range_top_def)
  next
    case False
    then have "r_addr r - 1 < r_addr r"
      by (simp add: word_less_nat_alt unat_minus_one unat_gt_0)
    then show ?thesis
      using s False
      by (auto simp: range_contains_def range_last_def range_top_def)
  qed
qed

section \<open>Address types and their output format\<close>

datatype address_type_t = address_8 | address_16 | address_32 | address_64

text \<open>
  \<open>gel::format\<close> builds an ELM integer format: hexadecimal, right justified, padded
  with zeros to a width that depends on the address type. The width is the part
  decided by the program.
\<close>

fun format_width :: "address_type_t \<Rightarrow> nat" where
  "format_width address_8 = 2"
| "format_width address_16 = 4"
| "format_width address_32 = 8"
| "format_width address_64 = 16"

section \<open>Decoders\<close>

text \<open>
  The virtual functions of \<open>Decoder\<close>. The signed overloads act on the same bits
  as the unsigned ones, so one field stands for both.
\<close>

record decoder =
  fix_u16 :: "u16 \<Rightarrow> u16"
  fix_u32 :: "u32 \<Rightarrow> u32"
  fix_u64 :: "u64 \<Rightarrow> u64"
  unfix_u16 :: "u16 \<Rightarrow> u16"
  unfix_u32 :: "u32 \<Rightarrow> u32"
  unfix_u64 :: "u64 \<Rightarrow> u64"

text \<open>The contract of a decoder: both directions undo each other.\<close>

locale decoder_laws =
  fixes d :: decoder
  assumes unfix_fix16: "unfix_u16 d (fix_u16 d x) = x"
    and fix_unfix16: "fix_u16 d (unfix_u16 d x) = x"
    and unfix_fix32: "unfix_u32 d (fix_u32 d y) = y"
    and fix_unfix32: "fix_u32 d (unfix_u32 d y) = y"
    and unfix_fix64: "unfix_u64 d (fix_u64 d z) = z"
    and fix_unfix64: "fix_u64 d (unfix_u64 d z) = z"

section \<open>ELM array primitives\<close>

record elm_array =
  arr_copy :: "mem \<Rightarrow> nat \<Rightarrow> mem \<Rightarrow> mem"
  arr_set :: "mem \<Rightarrow> nat \<Rightarrow> nat \<Rightarrow> u8 \<Rightarrow> mem"
  arr_clear :: "mem \<Rightarrow> nat \<Rightarrow> nat \<Rightarrow> mem"

definition elm_array_spec :: "elm_array \<Rightarrow> bool" where
  "elm_array_spec E \<longleftrightarrow>
     (\<forall>m a bs. a + length bs \<le> length m \<longrightarrow> arr_copy E m a bs = store_at m a bs) \<and>
     (\<forall>m a n v. a + n \<le> length m \<longrightarrow> arr_set E m a n v = store_at m a (replicate n v)) \<and>
     (\<forall>m a n. a + n \<le> length m \<longrightarrow> arr_clear E m a n = store_at m a (replicate n 0))"

text \<open>A concrete instance, for the witnesses.\<close>

definition elm_array_ref :: elm_array where
  "elm_array_ref =
     \<lparr>arr_copy = store_at, arr_set = (\<lambda>m a n v. store_at m a (replicate n v)),
      arr_clear = (\<lambda>m a n. store_at m a (replicate n 0))\<rparr>"

lemma elm_array_ref_spec: "elm_array_spec elm_array_ref"
  by (simp add: elm_array_spec_def elm_array_ref_def)

lemma elm_array_specD:
  assumes "elm_array_spec E"
  shows "a + length bs \<le> length m \<Longrightarrow> arr_copy E m a bs = store_at m a bs"
    and "a + n \<le> length m \<Longrightarrow> arr_set E m a n v = store_at m a (replicate n v)"
    and "a + n \<le> length m \<Longrightarrow> arr_clear E m a n = store_at m a (replicate n 0)"
  using assms by (simp_all add: elm_array_spec_def)

text \<open>Memory obtained with \<open>new t::uint8[n]\<close> is not initialised: its bytes are arbitrary.\<close>

definition new_block :: "(nat \<Rightarrow> u8) \<Rightarrow> nat \<Rightarrow> mem" where
  "new_block junk n = map junk [0..<n]"

lemma length_new_block [simp]: "length (new_block junk n) = n"
  by (simp add: new_block_def)

lemma nth_new_block [simp]: "i < n \<Longrightarrow> new_block junk n ! i = junk i"
  by (simp add: new_block_def)

text \<open>
  \<open>new\<close> fails for a block that is larger than half of the address space, the
  limit of the C++ implementations.
\<close>

definition alloc :: "(nat \<Rightarrow> u8) \<Rightarrow> nat \<Rightarrow> mem res" where
  "alloc junk n = (if n < 2 ^ 63 then Inr (new_block junk n) else Inl Bad_Alloc)"

lemma alloc_Inr [res_iff]: "alloc junk n = Inr m \<longleftrightarrow> n < 2 ^ 63 \<and> m = new_block junk n"
  by (auto simp: alloc_def)

section \<open>Buffers\<close>

text \<open>
  \<open>buf_bytes\<close> is the block from the buffer's pointer on (\<open>None\<close> for a null pointer).
  An access is legal when it stays in the block; no block reaches the end of the
  address space.
\<close>

record buffer =
  buf_dec :: "decoder option"
  buf_bytes :: "mem option"
  buf_size :: u64

definition make_buffer :: "decoder \<Rightarrow> mem option \<Rightarrow> u64 \<Rightarrow> buffer" where
  "make_buffer d b n = \<lparr>buf_dec = Some d, buf_bytes = b, buf_size = n\<rparr>"

definition null_buffer :: buffer where
  "null_buffer = \<lparr>buf_dec = None, buf_bytes = None, buf_size = 0\<rparr>"

definition buf_is_null :: "buffer \<Rightarrow> bool" where
  "buf_is_null b \<longleftrightarrow> buf_bytes b = None"

definition in_block :: "mem \<Rightarrow> nat \<Rightarrow> nat \<Rightarrow> bool" where
  "in_block m a n \<longleftrightarrow> a + n \<le> length m \<and> a + n < 2 ^ 64"

definition buf_at :: "buffer \<Rightarrow> u64 \<Rightarrow> u64 res" where
  "buf_at b off = (if off < buf_size b then Inr off else Inl Assert_Failure)"

definition buf_load :: "buffer \<Rightarrow> u64 \<Rightarrow> nat \<Rightarrow> mem res" where
  "buf_load b off n =
     (case buf_bytes b of
        None \<Rightarrow> Inl Memory_Fault
      | Some m \<Rightarrow>
          (if in_block m (unat off) n then Inr (bytes_at m (unat off) n) else Inl Memory_Fault))"

definition buf_decoder :: "buffer \<Rightarrow> decoder res" where
  "buf_decoder b = (case buf_dec b of None \<Rightarrow> Inl Memory_Fault | Some d \<Rightarrow> Inr d)"

definition get_u8 :: "buffer \<Rightarrow> u64 \<Rightarrow> u8 res" where
  "get_u8 b off =
     rbind (require (off + 1 \<le> buf_size b) Assert_Failure) (\<lambda>_.
     rbind (buf_load b off 1) (\<lambda>bs. Inr (le_word bs)))"

definition get_u16 :: "buffer \<Rightarrow> u64 \<Rightarrow> u16 res" where
  "get_u16 b off =
     rbind (require (off + 2 \<le> buf_size b) Assert_Failure) (\<lambda>_.
     rbind (buf_load b off 2) (\<lambda>bs.
     rbind (buf_decoder b) (\<lambda>d. Inr (fix_u16 d (le_word bs)))))"

definition get_u32 :: "buffer \<Rightarrow> u64 \<Rightarrow> u32 res" where
  "get_u32 b off =
     rbind (require (off + 4 \<le> buf_size b) Assert_Failure) (\<lambda>_.
     rbind (buf_load b off 4) (\<lambda>bs.
     rbind (buf_decoder b) (\<lambda>d. Inr (fix_u32 d (le_word bs)))))"

definition get_u64 :: "buffer \<Rightarrow> u64 \<Rightarrow> u64 res" where
  "get_u64 b off =
     rbind (require (off + 8 \<le> buf_size b) Assert_Failure) (\<lambda>_.
     rbind (buf_load b off 8) (\<lambda>bs.
     rbind (buf_decoder b) (\<lambda>d. Inr (fix_u64 d (le_word bs)))))"

text \<open>A C string of a buffer may run past the buffer, up to the end of its block.\<close>

definition get_cstr :: "buffer \<Rightarrow> u64 \<Rightarrow> u8 list res" where
  "get_cstr b off =
     rbind (require (off < buf_size b) Assert_Failure) (\<lambda>_.
       case buf_bytes b of None \<Rightarrow> Inl Memory_Fault | Some m \<Rightarrow> cstr_at m (unat off))"

definition buf_store :: "buffer \<Rightarrow> u64 \<Rightarrow> mem \<Rightarrow> buffer res" where
  "buf_store b off bs =
     (case buf_bytes b of
        None \<Rightarrow> Inl Memory_Fault
      | Some m \<Rightarrow>
          (if in_block m (unat off) (length bs)
           then Inr (b\<lparr>buf_bytes := Some (store_at m (unat off) bs)\<rparr>) else Inl Memory_Fault))"

definition set_u8 :: "buffer \<Rightarrow> u64 \<Rightarrow> u8 \<Rightarrow> buffer res" where
  "set_u8 b off v =
     rbind (require (off + 1 \<le> buf_size b) Assert_Failure) (\<lambda>_. buf_store b off (to_le 1 v))"

definition set_u16 :: "buffer \<Rightarrow> u64 \<Rightarrow> u16 \<Rightarrow> buffer res" where
  "set_u16 b off v =
     rbind (require (off + 2 \<le> buf_size b) Assert_Failure) (\<lambda>_. buf_store b off (to_le 2 v))"

definition set_u32 :: "buffer \<Rightarrow> u64 \<Rightarrow> u32 \<Rightarrow> buffer res" where
  "set_u32 b off v =
     rbind (require (off + 4 \<le> buf_size b) Assert_Failure) (\<lambda>_. buf_store b off (to_le 4 v))"

definition set_u64 :: "buffer \<Rightarrow> u64 \<Rightarrow> u64 \<Rightarrow> buffer res" where
  "set_u64 b off v =
     rbind (require (off + 8 \<le> buf_size b) Assert_Failure) (\<lambda>_. buf_store b off (to_le 8 v))"

text \<open>The string and its null byte are copied by \<open>elm::array::copy\<close>.\<close>

definition set_cstr :: "elm_array \<Rightarrow> buffer \<Rightarrow> u64 \<Rightarrow> u8 list \<Rightarrow> buffer res" where
  "set_cstr E b off s =
     (let ss = word_of_nat (length s) + 1 :: u64 in
      rbind (require (off + ss \<le> buf_size b) Assert_Failure) (\<lambda>_.
        case buf_bytes b of
          None \<Rightarrow> Inl Memory_Fault
        | Some m \<Rightarrow>
            (if in_block m (unat off) (unat ss)
             then Inr (b\<lparr>buf_bytes := Some (arr_copy E m (unat off) (s @ [0]))\<rparr>)
             else Inl Memory_Fault)))"

section \<open>Cursors\<close>

record cursor =
  cur_off :: u64
  cur_buf :: buffer

definition make_cursor :: "buffer \<Rightarrow> cursor" where
  "make_cursor b = \<lparr>cur_off = 0, cur_buf = b\<rparr>"

definition cur_size :: "cursor \<Rightarrow> u64" where
  "cur_size c = buf_size (cur_buf c)"

definition cur_ended :: "cursor \<Rightarrow> bool" where
  "cur_ended c \<longleftrightarrow> cur_size c \<le> cur_off c"

definition cur_avail :: "cursor \<Rightarrow> u64 \<Rightarrow> bool" where
  "cur_avail c s \<longleftrightarrow> cur_off c + s \<le> cur_size c"

definition cur_here :: "cursor \<Rightarrow> u64 res" where
  "cur_here c = buf_at (cur_buf c) (cur_off c)"

definition cur_finish :: "cursor \<Rightarrow> cursor" where
  "cur_finish c = c\<lparr>cur_off := cur_size c\<rparr>"

definition cur_skip :: "cursor \<Rightarrow> u64 \<Rightarrow> bool \<times> cursor" where
  "cur_skip c s = (if \<not> cur_avail c s then (False, c) else (True, c\<lparr>cur_off := cur_off c + s\<rparr>))"

definition cur_move :: "cursor \<Rightarrow> u64 \<Rightarrow> bool \<times> cursor" where
  "cur_move c o' = (if cur_size c < o' then (False, c) else (True, c\<lparr>cur_off := o'\<rparr>))"

text \<open>
  A read returns \<open>None\<close> for the \<open>false\<close> of the C++ function, which leaves its
  argument unchanged, and the value read otherwise.
\<close>

definition cur_read_u8 :: "cursor \<Rightarrow> (u8 option \<times> cursor) res" where
  "cur_read_u8 c =
     (if \<not> cur_avail c 1 then Inr (None, c)
      else rbind (get_u8 (cur_buf c) (cur_off c)) (\<lambda>v.
           Inr (Some v, c\<lparr>cur_off := cur_off c + 1\<rparr>)))"

definition cur_read_u16 :: "cursor \<Rightarrow> (u16 option \<times> cursor) res" where
  "cur_read_u16 c =
     (if \<not> cur_avail c 2 then Inr (None, c)
      else rbind (get_u16 (cur_buf c) (cur_off c)) (\<lambda>v.
           Inr (Some v, c\<lparr>cur_off := cur_off c + 2\<rparr>)))"

definition cur_read_u32 :: "cursor \<Rightarrow> (u32 option \<times> cursor) res" where
  "cur_read_u32 c =
     (if \<not> cur_avail c 4 then Inr (None, c)
      else rbind (get_u32 (cur_buf c) (cur_off c)) (\<lambda>v.
           Inr (Some v, c\<lparr>cur_off := cur_off c + 4\<rparr>)))"

definition cur_read_u64 :: "cursor \<Rightarrow> (u64 option \<times> cursor) res" where
  "cur_read_u64 c =
     (if \<not> cur_avail c 8 then Inr (None, c)
      else rbind (get_u64 (cur_buf c) (cur_off c)) (\<lambda>v.
           Inr (Some v, c\<lparr>cur_off := cur_off c + 8\<rparr>)))"

lemma get_u8_no_wrap:
  assumes "get_u8 b off = Inr v"
  shows "unat off + 1 < 2 ^ 64"
  using assms
  by (auto simp: get_u8_def res_iff buf_load_def in_block_def split: option.splits if_splits)

lemma unat_add_nowrap:
  "unat (a :: 'a::len word) + unat b < 2 ^ LENGTH('a) \<Longrightarrow> unat (a + b) = unat a + unat b"
  by (rule unat_add_lem [THEN iffD1])

text \<open>
  \<open>Cursor::read(cstring&)\<close>: a pointer to the string is taken at the current offset, then
  the bytes are skipped one by one up to a null byte; without one the read fails at the
  end of the buffer. The pointer stands for what its string is: the fault is that of its
  use, where no null byte is left in the block. The loop ends because no legal access
  wraps around the address space.
\<close>

function cur_skip_cstr :: "cursor \<Rightarrow> (bool \<times> cursor) res" where
  "cur_skip_cstr c =
     (if cur_avail c 1
      then (case get_u8 (cur_buf c) (cur_off c) of
              Inl e \<Rightarrow> Inl e
            | Inr b \<Rightarrow>
                (if b = 0 then Inr (True, c\<lparr>cur_off := cur_off c + 1\<rparr>)
                 else cur_skip_cstr (c\<lparr>cur_off := cur_off c + 1\<rparr>)))
      else Inr (False, c))"
  by pat_completeness auto

termination
proof (relation "measure (\<lambda>c. 2 ^ 64 - unat (cur_off c))", goal_cases)
  case (2 c b)
  then have "unat (cur_off c) + 1 < 2 ^ 64"
    by (metis get_u8_no_wrap)
  then show ?case
    by (simp add: unat_add_nowrap)
qed simp

declare cur_skip_cstr.simps [simp del]

definition cur_read_cstr :: "cursor \<Rightarrow> (u8 list res option \<times> bool \<times> cursor) res" where
  "cur_read_cstr c =
     (if \<not> cur_avail c 1 then Inr (None, False, c)
      else rbind (require (cur_off c < buf_size (cur_buf c)) Assert_Failure) (\<lambda>_.
           rbind (cur_skip_cstr c) (\<lambda>(ok, c').
             Inr (Some (get_cstr (cur_buf c) (cur_off c)), ok, c'))))"

text \<open>\<open>Cursor::read(size_t, const t::uint8 *&)\<close>: the pointer is an offset in the block.\<close>

definition cur_read_block :: "cursor \<Rightarrow> u64 \<Rightarrow> (u64 option \<times> cursor) res" where
  "cur_read_block c n =
     (if \<not> cur_avail c n then Inr (None, c)
      else rbind (buf_at (cur_buf c) (cur_off c)) (\<lambda>p.
           Inr (Some p, c\<lparr>cur_off := cur_off c + n\<rparr>)))"

definition cur_write_u8 :: "cursor \<Rightarrow> u8 \<Rightarrow> (bool \<times> cursor) res" where
  "cur_write_u8 c v =
     (if \<not> cur_avail c 1 then Inr (False, c)
      else rbind (set_u8 (cur_buf c) (cur_off c) v) (\<lambda>b.
           Inr (True, \<lparr>cur_off = cur_off c + 1, cur_buf = b\<rparr>)))"

definition cur_write_u16 :: "cursor \<Rightarrow> u16 \<Rightarrow> (bool \<times> cursor) res" where
  "cur_write_u16 c v =
     (if \<not> cur_avail c 2 then Inr (False, c)
      else rbind (set_u16 (cur_buf c) (cur_off c) v) (\<lambda>b.
           Inr (True, \<lparr>cur_off = cur_off c + 2, cur_buf = b\<rparr>)))"

definition cur_write_u32 :: "cursor \<Rightarrow> u32 \<Rightarrow> (bool \<times> cursor) res" where
  "cur_write_u32 c v =
     (if \<not> cur_avail c 4 then Inr (False, c)
      else rbind (set_u32 (cur_buf c) (cur_off c) v) (\<lambda>b.
           Inr (True, \<lparr>cur_off = cur_off c + 4, cur_buf = b\<rparr>)))"

definition cur_write_u64 :: "cursor \<Rightarrow> u64 \<Rightarrow> (bool \<times> cursor) res" where
  "cur_write_u64 c v =
     (if \<not> cur_avail c 8 then Inr (False, c)
      else rbind (set_u64 (cur_buf c) (cur_off c) v) (\<lambda>b.
           Inr (True, \<lparr>cur_off = cur_off c + 8, cur_buf = b\<rparr>)))"

text \<open>\<open>Cursor::write(cstring)\<close>: the null byte is written but not skipped.\<close>

definition cur_write_cstr :: "elm_array \<Rightarrow> cursor \<Rightarrow> u8 list \<Rightarrow> (bool \<times> cursor) res" where
  "cur_write_cstr E c s =
     (if \<not> cur_avail c (word_of_nat (length s) + 1) then Inr (False, c)
      else rbind (set_cstr E (cur_buf c) (cur_off c) s) (\<lambda>b.
           Inr (True, \<lparr>cur_off = cur_off c + word_of_nat (length s), cur_buf = b\<rparr>)))"

end
