(* ===== verification/Gel_File.thy ===== *)
theory Gel_File
  imports Gel_Base
begin

text \<open>
  \<open>include/gel++/File.h\<close> and \<open>src/gel_File.cpp\<close>: the types that the formats share
  (file, symbol and binding types), the default name of a segment and the
  operations that \<open>gel::File\<close> gives to the formats that do not override them.
\<close>

section \<open>Files, symbols and segments\<close>

datatype file_type = no_type | program | library

datatype symbol_type = NO_TYPE | OTHER_TYPE | FUNC | DATA | LABEL

datatype symbol_bind = NO_BIND | OTHER_BIND | LOCAL | GLOBAL | WEAK

text \<open>The labels of \<open>operator<<(Output&, File::type_t)\<close>.\<close>

fun file_type_label :: "file_type \<Rightarrow> string" where
  "file_type_label no_type = ''no_type''"
| "file_type_label program = ''program''"
| "file_type_label library = ''library''"

text \<open>
  A segment as its client sees it: the results of the virtual functions of
  \<open>gel::Segment\<close>, except for the content.
\<close>

record segment_view =
  sg_name :: "u8 list"
  sg_base :: u64
  sg_load :: u64
  sg_size :: u64
  sg_align :: u64
  sg_exec :: bool
  sg_write :: bool
  sg_content :: bool

definition defaultName :: "bool \<Rightarrow> bool \<Rightarrow> bool \<Rightarrow> u8 list" where
  "defaultName executable writable content =
     (if executable then str_bytes ''code''
      else if writable then str_bytes ''data''
      else if content then str_bytes ''rodata''
      else str_bytes ''unknown'')"

section \<open>Default operations of a file\<close>

definition gel_countSections :: int where "gel_countSections = 0"

definition gel_section :: "int \<Rightarrow> unit res" where "gel_section i = Inl Assert_Failure"

definition gel_machine :: string where "gel_machine = ''unknown machine''"

definition gel_os :: string where "gel_os = ''unknown OS''"

definition gel_elfMachine :: int where "gel_elfMachine = -1"

definition gel_elfOS :: int where "gel_elfOS = -1"

text \<open>
  \<open>File::findSection\<close>: the loop over the section indices \<open>i, ..., i + k - 1\<close>. The
  virtual functions it calls are its arguments.
\<close>

fun gel_find_from ::
  "(nat \<Rightarrow> ('f, 'sec) stm) \<Rightarrow> ('sec \<Rightarrow> ('f, u8 list) stm) \<Rightarrow> u8 list \<Rightarrow> nat \<Rightarrow> nat \<Rightarrow>
   ('f, 'sec option) stm" where
  "gel_find_from sect nm x i 0 = sreturn None"
| "gel_find_from sect nm x i (Suc k) =
     sbind (sect i) (\<lambda>s. sbind (nm s) (\<lambda>y.
       if y = x then sreturn (Some s) else gel_find_from sect nm x (Suc i) k))"

definition gel_findSection ::
  "('f, int) stm \<Rightarrow> (nat \<Rightarrow> ('f, 'sec) stm) \<Rightarrow> ('sec \<Rightarrow> ('f, u8 list) stm) \<Rightarrow> u8 list \<Rightarrow>
   ('f, 'sec option) stm" where
  "gel_findSection cnt sect nm x = sbind cnt (\<lambda>n. gel_find_from sect nm x 0 (nat n))"

text \<open>
  When accesses and names keep an invariant of the file, the search keeps it
  and gives the first section with the name.
\<close>

lemma gel_find_from_inv:
  assumes "I f"
    and "\<And>j g. i \<le> j \<Longrightarrow> j < i + k \<Longrightarrow> I g \<Longrightarrow> \<exists>g'. sect j g = (Inr (sec j), g') \<and> I g'"
    and "\<And>j g. i \<le> j \<Longrightarrow> j < i + k \<Longrightarrow> I g \<Longrightarrow> \<exists>g'. nm (sec j) g = (Inr (name_of j), g') \<and> I g'"
  shows "\<exists>g. gel_find_from sect nm x i k f =
    (Inr (map_option sec (find (\<lambda>j. name_of j = x) [i..<i + k])), g) \<and> I g"
  using assms
proof (induction k arbitrary: i f)
  case 0
  then show ?case by simp
next
  case (Suc k)
  obtain f1 where f1: "sect i f = (Inr (sec i), f1)" "I f1"
    using Suc.prems(1) Suc.prems(2) [of i f] by auto
  obtain f2 where f2: "nm (sec i) f1 = (Inr (name_of i), f2)" "I f2"
    using f1(2) Suc.prems(3) [of i f1] by auto
  have l: "[i..<i + Suc k] = i # [Suc i..<Suc i + k]"
    by (simp add: upt_conv_Cons del: upt_Suc)
  have "\<exists>g. gel_find_from sect nm x (Suc i) k f2 =
      (Inr (map_option sec (find (\<lambda>j. name_of j = x) [Suc i..<Suc i + k])), g) \<and> I g"
    by (rule Suc.IH [OF f2(2)]) (use Suc.prems(2,3) in simp_all)
  then show ?case
    unfolding l using f1(1) f2 by (simp del: upt_Suc)
qed

lemma gel_findSection_none: "gel_findSection (sreturn gel_countSections) sect nm x = sreturn None"
  by (rule ext) (simp add: gel_findSection_def gel_countSections_def)

end
