(* ===== verification/Elf_Common.thy ===== *)
theory Elf_Common
  imports Gel_Base
begin

text \<open>
  \<open>include/gel++/elf/common.h\<close>: the constants of the ELF format and the byte
  swapping macros, with the decoders built from them: \<open>elf::File::fix\<close> and
  \<open>unfix\<close> (\<open>src/elf_File.cpp\<close>) and \<open>LittleDecoder\<close> (\<open>src/gel_LittleDecoder.cpp\<close>).
  The host is little endian: the big-endian branches of \<open>gel_LittleDecoder.cpp\<close>
  and \<open>pecoff_File.cpp\<close> are not well-formed C++, so the program only builds on
  such a host.
\<close>

section \<open>Constants\<close>

named_theorems elf_consts

subsection \<open>Identification bytes\<close>

definition EI_CLASS :: nat where "EI_CLASS = 4"
definition EI_DATA :: nat where "EI_DATA = 5"
definition EI_OSABI :: nat where "EI_OSABI = 7"
definition EI_NIDENT :: nat where "EI_NIDENT = 16"

definition ELFMAG :: "u8 list" where "ELFMAG = [0x7f, 0x45, 0x4c, 0x46]"

definition ELFCLASSNONE :: u8 where "ELFCLASSNONE = 0"
definition ELFCLASS32 :: u8 where "ELFCLASS32 = 1"
definition ELFCLASS64 :: u8 where "ELFCLASS64 = 2"
definition ELFDATANONE :: u8 where "ELFDATANONE = 0"
definition ELFDATA2LSB :: u8 where "ELFDATA2LSB = 1"
definition ELFDATA2MSB :: u8 where "ELFDATA2MSB = 2"

definition ELFOSABI_SYSV :: u8 where "ELFOSABI_SYSV = 0"
definition ELFOSABI_HPUX :: u8 where "ELFOSABI_HPUX = 1"
definition ELFOSABI_STANDALONE :: u8 where "ELFOSABI_STANDALONE = 255"

subsection \<open>File, section, symbol and segment types\<close>

definition ET_NONE :: u16 where "ET_NONE = 0"
definition ET_REL :: u16 where "ET_REL = 1"
definition ET_EXEC :: u16 where "ET_EXEC = 2"
definition ET_DYN :: u16 where "ET_DYN = 3"
definition ET_CORE :: u16 where "ET_CORE = 4"

definition SHN_UNDEF :: u16 where "SHN_UNDEF = 0"
definition SHN_ABS :: u16 where "SHN_ABS = 0xFFF1"
definition SHN_COMMON :: u16 where "SHN_COMMON = 0xFFF2"

definition SHT_SYMTAB :: u32 where "SHT_SYMTAB = 2"
definition SHT_DYNAMIC :: u32 where "SHT_DYNAMIC = 6"
definition SHT_DYNSYM :: u32 where "SHT_DYNSYM = 11"

definition SHF_WRITE :: u32 where "SHF_WRITE = 0x1"
definition SHF_ALLOC :: u32 where "SHF_ALLOC = 0x2"
definition SHF_EXECINSTR :: u32 where "SHF_EXECINSTR = 0x4"

definition STB_LOCAL :: u8 where "STB_LOCAL = 0"
definition STB_GLOBAL :: u8 where "STB_GLOBAL = 1"
definition STB_WEAK :: u8 where "STB_WEAK = 2"
definition STT_OBJECT :: u8 where "STT_OBJECT = 1"
definition STT_FUNC :: u8 where "STT_FUNC = 2"

definition PT_LOAD :: u32 where "PT_LOAD = 1"
definition PT_DYNAMIC :: u32 where "PT_DYNAMIC = 2"
definition PT_INTERP :: u32 where "PT_INTERP = 3"
definition PT_NOTE :: u32 where "PT_NOTE = 4"
definition PT_SHLIB :: u32 where "PT_SHLIB = 5"
definition PT_PHDR :: u32 where "PT_PHDR = 6"

definition PF_X :: u32 where "PF_X = 0x1"
definition PF_W :: u32 where "PF_W = 0x2"
definition PF_R :: u32 where "PF_R = 0x4"

subsection \<open>Dynamic table entries\<close>

definition DT_NULL :: u32 where "DT_NULL = 0"
definition DT_NEEDED :: u32 where "DT_NEEDED = 1"
definition DT_PLTRELSZ :: u32 where "DT_PLTRELSZ = 2"
definition DT_PLTGOT :: u32 where "DT_PLTGOT = 3"
definition DT_HASH :: u32 where "DT_HASH = 4"
definition DT_STRTAB :: u32 where "DT_STRTAB = 5"
definition DT_SYMTAB :: u32 where "DT_SYMTAB = 6"
definition DT_RELA :: u32 where "DT_RELA = 7"
definition DT_RELASZ :: u32 where "DT_RELASZ = 8"
definition DT_RELAENT :: u32 where "DT_RELAENT = 9"
definition DT_STRSZ :: u32 where "DT_STRSZ = 10"
definition DT_SYMENT :: u32 where "DT_SYMENT = 11"
definition DT_INIT :: u32 where "DT_INIT = 12"
definition DT_FINI :: u32 where "DT_FINI = 13"
definition DT_SONAME :: u32 where "DT_SONAME = 14"
definition DT_RPATH :: u32 where "DT_RPATH = 15"
definition DT_SYMBOLIC :: u32 where "DT_SYMBOLIC = 16"
definition DT_REL :: u32 where "DT_REL = 17"
definition DT_RELSZ :: u32 where "DT_RELSZ = 18"
definition DT_RELENT :: u32 where "DT_RELENT = 19"
definition DT_PLTREL :: u32 where "DT_PLTREL = 20"
definition DT_DEBUG :: u32 where "DT_DEBUG = 21"
definition DT_TEXTREL :: u32 where "DT_TEXTREL = 22"
definition DT_JMPREL :: u32 where "DT_JMPREL = 23"
definition DT_BIND_NOW :: u32 where "DT_BIND_NOW = 24"

lemmas elf_ident_consts [elf_consts] =
  EI_CLASS_def EI_DATA_def EI_OSABI_def EI_NIDENT_def ELFMAG_def ELFCLASS32_def ELFCLASS64_def
  ELFDATA2LSB_def ELFDATA2MSB_def ELFOSABI_SYSV_def ELFOSABI_HPUX_def ELFOSABI_STANDALONE_def

lemmas elf_type_consts [elf_consts] =
  ET_NONE_def ET_REL_def ET_EXEC_def ET_DYN_def ET_CORE_def
  SHT_SYMTAB_def SHT_DYNAMIC_def SHT_DYNSYM_def SHF_WRITE_def SHF_ALLOC_def SHF_EXECINSTR_def
  STB_LOCAL_def STB_GLOBAL_def STB_WEAK_def STT_OBJECT_def STT_FUNC_def
  PT_LOAD_def PT_DYNAMIC_def PT_INTERP_def PT_NOTE_def PT_SHLIB_def PT_PHDR_def
  PF_X_def PF_W_def PF_R_def

lemmas elf_index_consts [elf_consts] =
  ELFCLASSNONE_def ELFDATANONE_def SHN_UNDEF_def SHN_ABS_def SHN_COMMON_def

lemmas elf_dyn_consts [elf_consts] =
  DT_NULL_def DT_NEEDED_def DT_PLTRELSZ_def DT_PLTGOT_def DT_HASH_def DT_STRTAB_def
  DT_SYMTAB_def DT_RELA_def DT_RELASZ_def DT_RELAENT_def DT_STRSZ_def DT_SYMENT_def
  DT_INIT_def DT_FINI_def DT_SONAME_def DT_RPATH_def DT_SYMBOLIC_def DT_REL_def DT_RELSZ_def
  DT_RELENT_def DT_PLTREL_def DT_DEBUG_def DT_TEXTREL_def DT_JMPREL_def DT_BIND_NOW_def

section \<open>Byte swapping\<close>

definition SWAP2 :: "'a::len word \<Rightarrow> 'a word" where
  "SWAP2 x = push_bit 8 (x AND 0xFF) OR drop_bit 8 (x AND 0xFF00)"

definition SWAP4 :: "'a::len word \<Rightarrow> 'a word" where
  "SWAP4 x = push_bit 16 (SWAP2 (x AND 0xFFFF)) OR SWAP2 (drop_bit 16 (x AND 0xFFFF0000))"

definition SWAP8 :: "'a::len word \<Rightarrow> 'a word" where
  "SWAP8 x = push_bit 32 (SWAP4 (x AND 0xFFFFFFFF)) OR SWAP4 (drop_bit 32 x AND 0xFFFFFFFF)"

text \<open>On a little-endian host only big-endian data is swapped.\<close>

definition ENDIAN2 :: "u8 \<Rightarrow> u16 \<Rightarrow> u16" where
  "ENDIAN2 e v = (if e = ELFDATA2LSB then v else ucast (SWAP2 (ucast v :: u32)))"

definition ENDIAN4 :: "u8 \<Rightarrow> u32 \<Rightarrow> u32" where
  "ENDIAN4 e v = (if e = ELFDATA2LSB then v else SWAP4 v)"

definition ENDIAN8 :: "u8 \<Rightarrow> u64 \<Rightarrow> u64" where
  "ENDIAN8 e v = (if e = ELFDATA2LSB then v else SWAP8 v)"

definition UN_ENDIAN2 :: "u8 \<Rightarrow> u16 \<Rightarrow> u16" where
  "UN_ENDIAN2 e v = ENDIAN2 e v"

definition UN_ENDIAN4 :: "u8 \<Rightarrow> u32 \<Rightarrow> u32" where
  "UN_ENDIAN4 e v = ENDIAN4 e v"

definition UN_ENDIAN8 :: "u8 \<Rightarrow> u64 \<Rightarrow> u64" where
  "UN_ENDIAN8 e v = ENDIAN8 e v"

text \<open>The masks as runs of bits.\<close>

lemma swap_masks:
  "(0xFF :: 'a::len word) = mask 8" "(0xFF00 :: 'a word) = push_bit 8 (mask 8)"
  "(0xFFFF :: 'a word) = mask 16" "(0xFFFF0000 :: 'a word) = push_bit 16 (mask 16)"
  "(0xFFFFFFFF :: 'a word) = mask 32"
  by (simp_all add: mask_eq_exp_minus_1 push_bit_eq_mult)

lemma bit_SWAP2:
  "bit (SWAP2 x :: 'a::len word) n \<longleftrightarrow>
   n < LENGTH('a) \<and> (if n < 8 then bit x (8 + n) else n < 16 \<and> bit x (n - 8))"
  by (auto simp: SWAP2_def swap_masks bit_simps add.commute dest: bit_imp_le_length)

text \<open>The bit at position \<open>k\<close> of byte \<open>q\<close> comes from the mirrored byte.\<close>

lemma byte_index_cases:
  fixes n :: nat
  assumes "n < 8 * w"
  obtains q k where "n = 8 * q + k" and "k < 8" and "q < w"
  using assms by (metis add.commute mod_less_divisor mod_mult_div_eq less_mult_imp_div_less
      mult.commute zero_less_numeral)

lemma bit_SWAP4_byte:
  assumes "32 \<le> LENGTH('a)" and "k < 8" and "q < 4"
  shows "bit (SWAP4 x :: 'a::len word) (8 * q + k) \<longleftrightarrow> bit x (8 * (3 - q) + k)"
proof -
  consider "q = 0" | "q = 1" | "q = 2" | "q = 3"
    using assms(3) by linarith
  then show ?thesis
    using assms(1,2)
    by cases (auto simp: SWAP4_def swap_masks bit_SWAP2 bit_simps)
qed

lemma bit_SWAP4_high:
  "32 \<le> n \<Longrightarrow> \<not> bit (SWAP4 x :: 'a::len word) n"
  by (auto simp: SWAP4_def swap_masks bit_SWAP2 bit_simps)

lemma bit_SWAP8_byte:
  fixes x :: u64
  assumes "k < 8" and "q < 8"
  shows "bit (SWAP8 x) (8 * q + k) \<longleftrightarrow> bit x (8 * (7 - q) + k)"
proof (cases "q < 4")
  case True
  then have e: "8 * (7 - q) = 32 + 8 * (3 - q)"
    by linarith
  have "8 * (3 - q) + k < 32" "8 * q + k < 32"
    using assms(1) True by linarith+
  then show ?thesis
    using assms True bit_SWAP4_byte [where 'a = 64, of k q "drop_bit 32 x AND mask 32"]
    by (simp add: SWAP8_def swap_masks bit_or_iff bit_push_bit_iff bit_and_iff bit_mask_iff
        bit_drop_bit_eq e add.assoc)
next
  case False
  then obtain p where p: "q = 4 + p"
    using le_Suc_ex not_less by blast
  then have "8 * q + k = 32 + (8 * p + k)" "8 * (7 - q) + k = 8 * (3 - p) + k"
    "8 * (3 - p) + k < 32" "p < 4"
    using assms by auto
  then show ?thesis
    using assms bit_SWAP4_byte [where 'a = 64, of k p "x AND mask 32"]
      bit_SWAP4_high [where 'a = 64, of "8 * q + k" "drop_bit 32 x AND mask 32"]
    by (simp add: SWAP8_def swap_masks bit_or_iff bit_push_bit_iff bit_and_iff bit_mask_iff)
qed

text \<open>The swaps reverse the bytes of a word.\<close>

lemma to_le_eqI:
  "(\<And>q k. q < n \<Longrightarrow> k < 8 \<Longrightarrow> bit w (8 * q + k) \<longleftrightarrow> bit (bs ! q) k) \<Longrightarrow>
   length bs = n \<Longrightarrow> to_le n w = bs"
  by (rule nth_equalityI) (auto intro!: bit_word_eqI simp: bit_to_le dest: bit_imp_le_length)

lemma to_le_SWAP2: "to_le 2 (ucast (SWAP2 (ucast x :: u32)) :: u16) = rev (to_le 2 (x :: u16))"
proof (rule to_le_eqI)
  fix q k :: nat
  assume q: "q < 2" and k: "k < 8"
  have "rev (to_le 2 x) ! q = to_le 2 x ! (1 - q)"
    using q by (simp add: rev_nth)
  moreover consider "q = 0" | "q = 1"
    using q by linarith
  then have "bit (ucast (SWAP2 (ucast x :: u32)) :: u16) (8 * q + k) \<longleftrightarrow> bit x (8 * (1 - q) + k)"
    using k by cases (simp_all add: bit_ucast_iff bit_SWAP2)
  ultimately show "bit (ucast (SWAP2 (ucast x :: u32)) :: u16) (8 * q + k) =
      bit (rev (to_le 2 x) ! q) k"
    using k by (simp add: bit_to_le)
qed simp

lemma to_le_SWAP4: "to_le 4 (SWAP4 x) = rev (to_le 4 (x :: u32))"
  by (rule to_le_eqI) (simp_all add: rev_nth bit_to_le bit_SWAP4_byte)

lemma to_le_SWAP8: "to_le 8 (SWAP8 x) = rev (to_le 8 (x :: u64))"
  by (rule to_le_eqI) (simp_all add: rev_nth bit_to_le bit_SWAP8_byte)

lemma to_le_inj:
  assumes "LENGTH('a) = 8 * n" and "to_le n x = to_le n (y :: 'a::len word)"
  shows "x = y"
  using assms by (metis le_word_to_le)

lemma SWAP2_SWAP2: "ucast (SWAP2 (ucast (ucast (SWAP2 (ucast x :: u32)) :: u16) :: u32)) = (x :: u16)"
  by (rule to_le_inj [of 2]) (simp_all add: to_le_SWAP2)

lemma SWAP4_SWAP4: "SWAP4 (SWAP4 x) = (x :: u32)"
  by (rule to_le_inj [of 4]) (simp_all add: to_le_SWAP4)

lemma SWAP8_SWAP8: "SWAP8 (SWAP8 x) = (x :: u64)"
  by (rule to_le_inj [of 8]) (simp_all add: to_le_SWAP8)

text \<open>Decoding bytes in the order of the file.\<close>

definition word_of_bytes :: "u8 \<Rightarrow> mem \<Rightarrow> 'a::len word" where
  "word_of_bytes e bs = le_word (if e = ELFDATA2LSB then bs else rev bs)"

lemma ENDIAN2_le_word: "length bs = 2 \<Longrightarrow> ENDIAN2 e (le_word bs) = word_of_bytes e bs"
  by (rule to_le_inj [of 2]) (simp_all add: ENDIAN2_def word_of_bytes_def to_le_SWAP2)

lemma ENDIAN4_le_word: "length bs = 4 \<Longrightarrow> ENDIAN4 e (le_word bs) = word_of_bytes e bs"
  by (rule to_le_inj [of 4]) (simp_all add: ENDIAN4_def word_of_bytes_def to_le_SWAP4)

lemma ENDIAN8_le_word: "length bs = 8 \<Longrightarrow> ENDIAN8 e (le_word bs) = word_of_bytes e bs"
  by (rule to_le_inj [of 8]) (simp_all add: ENDIAN8_def word_of_bytes_def to_le_SWAP8)

section \<open>Decoders\<close>

text \<open>The decoder of an ELF file, from its identification byte \<open>id[EI_DATA]\<close>.\<close>

definition elf_fix16 :: "u8 \<Rightarrow> u16 \<Rightarrow> u16" where "elf_fix16 e i = ENDIAN2 e i"
definition elf_fix32 :: "u8 \<Rightarrow> u32 \<Rightarrow> u32" where "elf_fix32 e i = ENDIAN4 e i"
definition elf_fix64 :: "u8 \<Rightarrow> u64 \<Rightarrow> u64" where "elf_fix64 e i = ENDIAN8 e i"
definition elf_unfix16 :: "u8 \<Rightarrow> u16 \<Rightarrow> u16" where "elf_unfix16 e i = UN_ENDIAN2 e i"
definition elf_unfix32 :: "u8 \<Rightarrow> u32 \<Rightarrow> u32" where "elf_unfix32 e i = UN_ENDIAN4 e i"
definition elf_unfix64 :: "u8 \<Rightarrow> u64 \<Rightarrow> u64" where "elf_unfix64 e i = UN_ENDIAN8 e i"

lemmas elf_fix_defs =
  elf_fix16_def elf_fix32_def elf_fix64_def elf_unfix16_def elf_unfix32_def elf_unfix64_def
  UN_ENDIAN2_def UN_ENDIAN4_def UN_ENDIAN8_def

definition elf_decoder :: "u8 \<Rightarrow> decoder" where
  "elf_decoder e =
     \<lparr>fix_u16 = elf_fix16 e, fix_u32 = elf_fix32 e, fix_u64 = elf_fix64 e,
      unfix_u16 = elf_unfix16 e, unfix_u32 = elf_unfix32 e, unfix_u64 = elf_unfix64 e\<rparr>"

text \<open>\<open>LittleDecoder\<close>: the swaps of a little-endian host are the identity.\<close>

definition swap16 :: "u16 \<Rightarrow> u16" where "swap16 x = x"
definition swap32 :: "u32 \<Rightarrow> u32" where "swap32 x = x"
definition swap64 :: "u64 \<Rightarrow> u64" where "swap64 x = x"

definition little_decoder :: decoder where
  "little_decoder =
     \<lparr>fix_u16 = swap16, fix_u32 = swap32, fix_u64 = swap64,
      unfix_u16 = swap16, unfix_u32 = swap32, unfix_u64 = swap64\<rparr>"

interpretation elf_dec: decoder_laws "elf_decoder e" for e
  by unfold_locales
    (simp_all add: elf_decoder_def elf_fix_defs ENDIAN2_def ENDIAN4_def ENDIAN8_def
      SWAP2_SWAP2 SWAP4_SWAP4 SWAP8_SWAP8)

interpretation little_dec: decoder_laws little_decoder
  by unfold_locales (simp_all add: little_decoder_def swap16_def swap32_def swap64_def)

lemma elf_decoder_fix [simp]:
  "fix_u16 (elf_decoder e) = elf_fix16 e" "fix_u32 (elf_decoder e) = elf_fix32 e"
  "fix_u64 (elf_decoder e) = elf_fix64 e"
  by (simp_all add: elf_decoder_def)

lemma elf_fix_le_word:
  "length bs = 2 \<Longrightarrow> elf_fix16 e (le_word bs) = word_of_bytes e bs"
  "length bs = 4 \<Longrightarrow> elf_fix32 e (le_word bs) = word_of_bytes e bs"
  "length bs = 8 \<Longrightarrow> elf_fix64 e (le_word bs) = word_of_bytes e bs"
  by (simp_all add: elf_fix_defs ENDIAN2_le_word ENDIAN4_le_word ENDIAN8_le_word)

lemma little_decoder_fix [simp]:
  "fix_u16 little_decoder x = x" "fix_u32 little_decoder y = y" "fix_u64 little_decoder z = z"
  by (simp_all add: little_decoder_def swap16_def swap32_def swap64_def)

end
