(* ===== verification/Elf_Struct.thy ===== *)
theory Elf_Struct
  imports Elf_Common
begin

text \<open>
  GEL++ reads the tables of an ELF file into a block and then converts the
  integers of each entry in place, through a pointer to the entry. This theory
  models the in-place conversion of one entry (\<open>fix_fields\<close>) and of a table
  (\<open>fix_table\<close>), and proves once, in the locale \<open>fixable_struct\<close>, what the
  conversion of a table gives for every structure of the format.
\<close>

section \<open>Conversion of the fields of a structure\<close>

datatype width = W16 | W32 | W64

fun bytes_of :: "width \<Rightarrow> nat" where
  "bytes_of W16 = 2"
| "bytes_of W32 = 4"
| "bytes_of W64 = 8"

fun fix_bytes :: "decoder \<Rightarrow> width \<Rightarrow> mem \<Rightarrow> mem" where
  "fix_bytes d W16 bs = to_le 2 (fix_u16 d (le_word bs))"
| "fix_bytes d W32 bs = to_le 4 (fix_u32 d (le_word bs))"
| "fix_bytes d W64 bs = to_le 8 (fix_u64 d (le_word bs))"

lemma length_fix_bytes [simp]: "length (fix_bytes d w bs) = bytes_of w"
  by (cases w) simp_all

text \<open>A field is its offset in the structure and its width.\<close>

type_synonym fields = "(nat \<times> width) list"

text \<open>\<open>decoder->fix(p->field)\<close> for a pointer at offset \<open>a\<close> of the block \<open>m\<close>.\<close>

definition fix_at :: "decoder \<Rightarrow> nat \<Rightarrow> width \<Rightarrow> mem \<Rightarrow> mem res" where
  "fix_at d a w m =
     (if in_block m a (bytes_of w)
      then Inr (store_at m a (fix_bytes d w (bytes_at m a (bytes_of w)))) else Inl Memory_Fault)"

fun fix_fields :: "decoder \<Rightarrow> nat \<Rightarrow> fields \<Rightarrow> mem \<Rightarrow> mem res" where
  "fix_fields d a [] m = Inr m"
| "fix_fields d a ((f, w) # fs) m = rbind (fix_at d (a + f) w m) (fix_fields d a fs)"

text \<open>The entries of a table, \<open>ent\<close> bytes apart, from the entry \<open>i\<close> on.\<close>

fun fix_table :: "decoder \<Rightarrow> fields \<Rightarrow> nat \<Rightarrow> nat \<Rightarrow> nat \<Rightarrow> mem \<Rightarrow> mem res" where
  "fix_table d fs ent i 0 m = Inr m"
| "fix_table d fs ent i (Suc k) m =
     rbind (fix_fields d (i * ent) fs m) (fix_table d fs ent (Suc i) k)"

lemma fix_fields_append:
  "fix_fields d a (fs @ gs) m = rbind (fix_fields d a fs m) (fix_fields d a gs)"
proof (induction fs arbitrary: m)
  case Nil
  show ?case by simp
next
  case (Cons x fs)
  have "fix_fields d a (fs @ gs) = (\<lambda>m. rbind (fix_fields d a fs m) (fix_fields d a gs))"
    using Cons.IH by (intro ext)
  then show ?case
    by (cases x) (simp add: rbind_assoc)
qed

text \<open>Fields that lie in the structure and do not overlap.\<close>

definition apart_from :: "nat \<Rightarrow> nat \<Rightarrow> fields \<Rightarrow> bool" where
  "apart_from f n fs \<longleftrightarrow> list_all (\<lambda>(g, w). f + n \<le> g \<or> g + bytes_of w \<le> f) fs"

fun fields_ok :: "nat \<Rightarrow> fields \<Rightarrow> bool" where
  "fields_ok sz [] = True"
| "fields_ok sz ((f, w) # fs) =
     (f + bytes_of w \<le> sz \<and> apart_from f (bytes_of w) fs \<and> fields_ok sz fs)"

lemma apart_from_simps [simp]:
  "apart_from f n []"
  "apart_from f n ((g, w) # fs) \<longleftrightarrow> (f + n \<le> g \<or> g + bytes_of w \<le> f) \<and> apart_from f n fs"
  by (simp_all add: apart_from_def)

lemma fields_ok_bound: "fields_ok sz fs \<Longrightarrow> (f, w) \<in> set fs \<Longrightarrow> f + bytes_of w \<le> sz"
  by (induction sz fs rule: fields_ok.induct) auto

lemma apart_fromD:
  "apart_from f n fs \<Longrightarrow> (g, w) \<in> set fs \<Longrightarrow> f + n \<le> g \<or> g + bytes_of w \<le> f"
  by (auto simp: apart_from_def list_all_iff)

text \<open>What the conversion of one structure does to the block.\<close>

lemma fix_at_eq:
  "a + bytes_of w \<le> length m \<Longrightarrow> length m < 2 ^ 63 \<Longrightarrow>
   fix_at d a w m = Inr (store_at m a (fix_bytes d w (bytes_at m a (bytes_of w))))"
  by (simp add: fix_at_def in_block_def)

lemma fix_fields_spec:
  assumes "fields_ok sz fs" and "a + sz \<le> length m" and "length m < 2 ^ 63"
  shows "\<exists>m'. fix_fields d a fs m = Inr m' \<and> length m' = length m \<and>
    (\<forall>c n. c + n \<le> length m \<longrightarrow>
       list_all (\<lambda>(g, w). c + n \<le> a + g \<or> a + g + bytes_of w \<le> c) fs \<longrightarrow>
       bytes_at m' c n = bytes_at m c n) \<and>
    (\<forall>f w. (f, w) \<in> set fs \<longrightarrow>
       bytes_at m' (a + f) (bytes_of w) = fix_bytes d w (bytes_at m (a + f) (bytes_of w)))"
  using assms
proof (induction fs arbitrary: m)
  case Nil
  then show ?case by simp
next
  case (Cons gv fs)
  obtain g v where gv: "gv = (g, v)"
    by (cases gv)
  let ?m = "store_at m (a + g) (fix_bytes d v (bytes_at m (a + g) (bytes_of v)))"
  have ok: "g + bytes_of v \<le> sz" "apart_from g (bytes_of v) fs" "fields_ok sz fs"
    using Cons.prems(1) by (simp_all add: gv)
  then have fit: "a + g + bytes_of v \<le> length m" and len: "length ?m = length m"
    using Cons.prems(2) by simp_all
  obtain m' where m': "fix_fields d a fs ?m = Inr m'" "length m' = length ?m"
    and frame: "\<And>c n. c + n \<le> length ?m \<Longrightarrow>
       list_all (\<lambda>(g, w). c + n \<le> a + g \<or> a + g + bytes_of w \<le> c) fs \<Longrightarrow>
       bytes_at m' c n = bytes_at ?m c n"
    and val: "\<And>f w. (f, w) \<in> set fs \<Longrightarrow>
       bytes_at m' (a + f) (bytes_of w) = fix_bytes d w (bytes_at ?m (a + f) (bytes_of w))"
    using Cons.IH [OF ok(3), of ?m] Cons.prems(2,3) unfolding len by blast
  have "fix_fields d a (gv # fs) m = Inr m'"
    using m'(1) fit Cons.prems(3) by (simp add: gv fix_at_eq)
  moreover have "bytes_at m' c n = bytes_at m c n"
    if "c + n \<le> length m"
      and "list_all (\<lambda>(g, w). c + n \<le> a + g \<or> a + g + bytes_of w \<le> c) (gv # fs)" for c n
    using frame [of c n] that fit len by (simp add: gv)
  moreover have "bytes_at m' (a + f) (bytes_of w) = fix_bytes d w (bytes_at m (a + f) (bytes_of w))"
    if fw: "(f, w) \<in> set (gv # fs)" for f w
  proof (cases "(f, w) \<in> set fs")
    case True
    then show ?thesis
      using val [OF True] apart_fromD [OF ok(2) True] fields_ok_bound [OF ok(3) True] fit
        Cons.prems(2)
      by auto
  next
    case False
    then have "f = g" "w = v"
      using fw by (auto simp: gv)
    moreover have "list_all (\<lambda>(h, u). a + g + bytes_of v \<le> a + h \<or> a + h + bytes_of u \<le> a + g) fs"
      using ok(2) by (auto simp: apart_from_def list_all_iff)
    ultimately show ?thesis
      using frame [of "a + g" "bytes_of v"] fit len by simp
  qed
  ultimately show ?case
    using m'(2) len by auto
qed

text \<open>The same on the values loaded.\<close>

definition load8 :: "mem \<Rightarrow> nat \<Rightarrow> u8" where
  "load8 m a = le_word (bytes_at m a 1)"

lemma bytes_at_slice: "f + n \<le> sz \<Longrightarrow> bytes_at (bytes_at m a sz) f n = bytes_at m (a + f) n"
  by (simp add: bytes_at_def drop_take add.commute min_def)

lemma load_slice [simp]:
  "f + 1 \<le> sz \<Longrightarrow> load8 (bytes_at m a sz) f = load8 m (a + f)"
  "f + 2 \<le> sz \<Longrightarrow> load16 (bytes_at m a sz) f = load16 m (a + f)"
  "f + 4 \<le> sz \<Longrightarrow> load32 (bytes_at m a sz) f = load32 m (a + f)"
  "f + 8 \<le> sz \<Longrightarrow> load64 (bytes_at m a sz) f = load64 m (a + f)"
  by (simp_all add: load_defs load8_def bytes_at_slice)

lemma bytes_at_slice0 [simp]: "n \<le> sz \<Longrightarrow> bytes_at (bytes_at m a sz) 0 n = bytes_at m a n"
  using bytes_at_slice [of 0 n sz m a] by simp

lemma converted_loads:
  assumes "fields_ok sz fs" and "a + sz \<le> length m" and "length m < 2 ^ 63"
    and "fix_fields d a fs m = Inr m'"
  shows "(f, W16) \<in> set fs \<Longrightarrow> load16 m' (a + f) = fix_u16 d (load16 m (a + f))"
    and "(f, W32) \<in> set fs \<Longrightarrow> load32 m' (a + f) = fix_u32 d (load32 m (a + f))"
    and "(f, W64) \<in> set fs \<Longrightarrow> load64 m' (a + f) = fix_u64 d (load64 m (a + f))"
    and "f + n \<le> sz \<Longrightarrow> apart_from f n fs \<Longrightarrow> bytes_at m' (a + f) n = bytes_at m (a + f) n"
    and "f + 1 \<le> sz \<Longrightarrow> apart_from f 1 fs \<Longrightarrow> load8 m' (a + f) = load8 m (a + f)"
    and "f + 2 \<le> sz \<Longrightarrow> apart_from f 2 fs \<Longrightarrow> load16 m' (a + f) = load16 m (a + f)"
    and "f + 4 \<le> sz \<Longrightarrow> apart_from f 4 fs \<Longrightarrow> load32 m' (a + f) = load32 m (a + f)"
proof -
  have frame: "\<And>c n. c + n \<le> length m \<Longrightarrow>
       list_all (\<lambda>(g, w). c + n \<le> a + g \<or> a + g + bytes_of w \<le> c) fs \<Longrightarrow>
       bytes_at m' c n = bytes_at m c n"
    and val: "\<And>f w. (f, w) \<in> set fs \<Longrightarrow>
       bytes_at m' (a + f) (bytes_of w) = fix_bytes d w (bytes_at m (a + f) (bytes_of w))"
    using fix_fields_spec [OF assms(1-3), of d] assms(4) by auto
  show "(f, W16) \<in> set fs \<Longrightarrow> load16 m' (a + f) = fix_u16 d (load16 m (a + f))"
    "(f, W32) \<in> set fs \<Longrightarrow> load32 m' (a + f) = fix_u32 d (load32 m (a + f))"
    "(f, W64) \<in> set fs \<Longrightarrow> load64 m' (a + f) = fix_u64 d (load64 m (a + f))"
    using val [of f W16] val [of f W32] val [of f W64] by (simp_all add: load_defs)
  have keep: "bytes_at m' (a + f) n = bytes_at m (a + f) n"
    if "f + n \<le> sz" "apart_from f n fs" for n
    using that assms(2)
    by (intro frame) (auto simp: apart_from_def list_all_iff)
  then show "f + n \<le> sz \<Longrightarrow> apart_from f n fs \<Longrightarrow> bytes_at m' (a + f) n = bytes_at m (a + f) n"
    by blast
  show "f + 1 \<le> sz \<Longrightarrow> apart_from f 1 fs \<Longrightarrow> load8 m' (a + f) = load8 m (a + f)"
    "f + 2 \<le> sz \<Longrightarrow> apart_from f 2 fs \<Longrightarrow> load16 m' (a + f) = load16 m (a + f)"
    "f + 4 \<le> sz \<Longrightarrow> apart_from f 4 fs \<Longrightarrow> load32 m' (a + f) = load32 m (a + f)"
    using keep [of 1] keep [of 2] keep [of 4] by (simp_all add: load_defs load8_def)
qed

section \<open>Tables of structures\<close>

text \<open>
  A structure of \<open>sz\<close> bytes: \<open>load m a\<close> reads the one at offset \<open>a\<close>, \<open>conv d\<close> is
  its conversion as a value. The laws say that the value depends on the bytes
  of the structure only, and that the in-place conversion computes \<open>conv\<close>.
\<close>

locale fixable_struct =
  fixes sz :: nat
    and fs :: fields
    and load :: "mem \<Rightarrow> nat \<Rightarrow> 'r"
    and conv :: "decoder \<Rightarrow> 'r \<Rightarrow> 'r"
  assumes ok: "fields_ok sz fs"
    and load_local: "\<lbrakk>a + sz \<le> length m; b + sz \<le> length m'; bytes_at m a sz = bytes_at m' b sz\<rbrakk>
      \<Longrightarrow> load m a = load m' b"
    and load_conv: "\<lbrakk>a + sz \<le> length m; length m < 2 ^ 63; fix_fields d a fs m = Inr m'\<rbrakk>
      \<Longrightarrow> load m' a = conv d (load m a)"
begin

lemma fix_entry:
  assumes "a + sz \<le> length m" and "length m < 2 ^ 63"
  shows "\<exists>m'. fix_fields d a fs m = Inr m' \<and> length m' = length m \<and>
    load m' a = conv d (load m a) \<and>
    (\<forall>b. b + sz \<le> length m \<longrightarrow> b + sz \<le> a \<or> a + sz \<le> b \<longrightarrow> load m' b = load m b)"
proof -
  obtain m' where m': "fix_fields d a fs m = Inr m'" "length m' = length m"
    and frame: "\<And>c n. c + n \<le> length m \<Longrightarrow>
       list_all (\<lambda>(g, w). c + n \<le> a + g \<or> a + g + bytes_of w \<le> c) fs \<Longrightarrow>
       bytes_at m' c n = bytes_at m c n"
    using fix_fields_spec [OF ok assms] by blast
  have "load m' b = load m b"
    if "b + sz \<le> length m" and sep: "b + sz \<le> a \<or> a + sz \<le> b" for b
  proof -
    have "b + sz \<le> a + g \<or> a + g + bytes_of w \<le> b" if "(g, w) \<in> set fs" for g w
      using fields_ok_bound [OF ok that] sep by auto
    then have "bytes_at m' b sz = bytes_at m b sz"
      using frame [of b sz] \<open>b + sz \<le> length m\<close> by (auto simp: list_all_iff)
    then show ?thesis
      using that m'(2) by (intro load_local) simp_all
  qed
  then show ?thesis
    using m' load_conv [OF assms m'(1)] by blast
qed

lemma fix_table_spec:
  assumes "sz \<le> ent" and "(i + k) * ent \<le> length m" and "length m < 2 ^ 63"
  shows "\<exists>m'. fix_table d fs ent i k m = Inr m' \<and> length m' = length m \<and>
    (\<forall>j. i \<le> j \<and> j < i + k \<longrightarrow> load m' (j * ent) = conv d (load m (j * ent))) \<and>
    (\<forall>j < i. load m' (j * ent) = load m (j * ent))"
  using assms(2,3)
proof (induction k arbitrary: i m)
  case 0
  show ?case by (rule exI [of _ m]) auto
next
  case (Suc k)
  have fit: "i * ent + sz \<le> length m"
    using Suc.prems(1) assms(1) by (simp add: algebra_simps)
  obtain m1 where m1: "fix_fields d (i * ent) fs m = Inr m1" "length m1 = length m"
    "load m1 (i * ent) = conv d (load m (i * ent))"
    and keep: "\<And>b. b + sz \<le> length m \<Longrightarrow> b + sz \<le> i * ent \<or> i * ent + sz \<le> b \<Longrightarrow>
      load m1 b = load m b"
    using fix_entry [OF fit Suc.prems(2)] by blast
  obtain m2 where m2: "fix_table d fs ent (Suc i) k m1 = Inr m2" "length m2 = length m1"
    and new: "\<And>j. Suc i \<le> j \<Longrightarrow> j < Suc i + k \<Longrightarrow> load m2 (j * ent) = conv d (load m1 (j * ent))"
    and old: "\<And>j. j < Suc i \<Longrightarrow> load m2 (j * ent) = load m1 (j * ent)"
    using Suc.IH [of "Suc i" m1] Suc.prems m1(2) by (auto simp: algebra_simps)
  have below: "load m1 (j * ent) = load m (j * ent)" if "j < i" for j
  proof (rule keep)
    have "Suc j * ent \<le> i * ent"
      using that by (intro mult_le_mono1) simp
    then show "j * ent + sz \<le> i * ent \<or> i * ent + sz \<le> j * ent" "j * ent + sz \<le> length m"
      using assms(1) fit by simp_all
  qed
  have above: "load m1 (j * ent) = load m (j * ent)" if "Suc i \<le> j" "j < Suc i + k" for j
  proof (rule keep)
    have "Suc i * ent \<le> j * ent"
      using that by (intro mult_le_mono1)
    moreover have "Suc j * ent \<le> (i + Suc k) * ent"
      by (rule mult_le_mono1) (use that in simp)
    then have "Suc j * ent \<le> length m"
      using Suc.prems(1) by (rule order_trans)
    ultimately show "j * ent + sz \<le> i * ent \<or> i * ent + sz \<le> j * ent" "j * ent + sz \<le> length m"
      using assms(1) by simp_all
  qed
  have "load m2 (j * ent) = conv d (load m (j * ent))" if "i \<le> j" "j < i + Suc k" for j
    using that new [of j] old [of j] above [of j] m1(3) by (cases "j = i") auto
  moreover have "load m2 (j * ent) = load m (j * ent)" if "j < i" for j
    using that old [of j] below [of j] by simp
  ultimately show ?case
    using m1 m2 by auto
qed

text \<open>A table that was read from the offset \<open>p\<close> of the file content \<open>c\<close>.\<close>

lemma load_bytes_at:
  "a + sz \<le> n \<Longrightarrow> p + n \<le> length c \<Longrightarrow> load (bytes_at c p n) a = load c (p + a)"
  by (rule load_local) (simp_all add: bytes_at_slice)

lemma fix_loaded_table:
  assumes "sz \<le> ent" and "p + k * ent \<le> length c" and "k * ent < 2 ^ 63"
  shows "\<exists>m'. fix_table d fs ent 0 k (bytes_at c p (k * ent)) = Inr m' \<and> length m' = k * ent \<and>
    (\<forall>j < k. load m' (j * ent) = conv d (load c (p + j * ent)))"
proof -
  obtain m' where m': "fix_table d fs ent 0 k (bytes_at c p (k * ent)) = Inr m'"
    "length m' = k * ent"
    and ld: "\<And>j. j < k \<Longrightarrow> load m' (j * ent) = conv d (load (bytes_at c p (k * ent)) (j * ent))"
    using fix_table_spec [of ent 0 k "bytes_at c p (k * ent)" d] assms by auto
  have "load (bytes_at c p (k * ent)) (j * ent) = load c (p + j * ent)" if "j < k" for j
  proof (rule load_bytes_at)
    have "Suc j * ent \<le> k * ent"
      using that by (intro mult_le_mono1) simp
    then show "j * ent + sz \<le> k * ent"
      using assms(1) by simp
  qed (use assms(2) in simp)
  then show ?thesis
    using m' ld by auto
qed

end

end
