(* ===== verification/Elf_Defs32.thy ===== *)
theory Elf_Defs32
  imports Elf_Struct
begin

text \<open>
  The structures of \<open>include/gel++/elf/defs.h\<close>: each as a record, with its layout in
  memory (the natural alignment of C gives no padding), the fields that GEL++
  converts from the endianness of the file, and the interpretation of
  \<open>fixable_struct\<close> that makes the conversion of its tables available.
\<close>

section \<open>ELF header\<close>

record Elf32_Ehdr =
  e_ident32 :: "u8 list"
  e_type32 :: u16
  e_machine32 :: u16
  e_version32 :: u32
  e_entry32 :: u32
  e_phoff32 :: u32
  e_shoff32 :: u32
  e_flags32 :: u32
  e_ehsize32 :: u16
  e_phentsize32 :: u16
  e_phnum32 :: u16
  e_shentsize32 :: u16
  e_shnum32 :: u16
  e_shstrndx32 :: u16

definition sizeof_Elf32_Ehdr :: nat where "sizeof_Elf32_Ehdr = 52"

definition load_Elf32_Ehdr :: "mem \<Rightarrow> nat \<Rightarrow> Elf32_Ehdr" where
  "load_Elf32_Ehdr m a =
     \<lparr>e_ident32 = bytes_at m a 16, e_type32 = load16 m (a + 16),
      e_machine32 = load16 m (a + 18), e_version32 = load32 m (a + 20),
      e_entry32 = load32 m (a + 24), e_phoff32 = load32 m (a + 28),
      e_shoff32 = load32 m (a + 32), e_flags32 = load32 m (a + 36),
      e_ehsize32 = load16 m (a + 40), e_phentsize32 = load16 m (a + 42),
      e_phnum32 = load16 m (a + 44), e_shentsize32 = load16 m (a + 46),
      e_shnum32 = load16 m (a + 48), e_shstrndx32 = load16 m (a + 50)\<rparr>"

text \<open>The fields in the order in which the code converts them:
  \<open>e_type\<close>, \<open>e_machine\<close>, \<open>e_version\<close>, \<open>e_entry\<close>, \<open>e_shnum\<close>, \<open>e_phnum\<close>, \<open>e_shentsize\<close>, \<open>e_phentsize\<close>, \<open>e_shstrndx\<close>, \<open>e_shoff\<close>, \<open>e_phoff\<close>.\<close>

definition Elf32_Ehdr_fields :: fields where
  "Elf32_Ehdr_fields =
     [(16, W16), (18, W16), (20, W32), (24, W32), (48, W16), (44, W16), (46, W16), (42, W16),
      (50, W16), (32, W32), (28, W32)]"

definition conv_Elf32_Ehdr :: "decoder \<Rightarrow> Elf32_Ehdr \<Rightarrow> Elf32_Ehdr" where
  "conv_Elf32_Ehdr d p =
     \<lparr>e_ident32 = e_ident32 p, e_type32 = fix_u16 d (e_type32 p),
      e_machine32 = fix_u16 d (e_machine32 p), e_version32 = fix_u32 d (e_version32 p),
      e_entry32 = fix_u32 d (e_entry32 p), e_phoff32 = fix_u32 d (e_phoff32 p),
      e_shoff32 = fix_u32 d (e_shoff32 p), e_flags32 = e_flags32 p, e_ehsize32 = e_ehsize32 p,
      e_phentsize32 = fix_u16 d (e_phentsize32 p), e_phnum32 = fix_u16 d (e_phnum32 p),
      e_shentsize32 = fix_u16 d (e_shentsize32 p), e_shnum32 = fix_u16 d (e_shnum32 p),
      e_shstrndx32 = fix_u16 d (e_shstrndx32 p)\<rparr>"

lemma load_Elf32_Ehdr_slice: "load_Elf32_Ehdr (bytes_at m a 52) 0 = load_Elf32_Ehdr m a"
  by (simp add: load_Elf32_Ehdr_def)

interpretation elf32_Ehdr: fixable_struct sizeof_Elf32_Ehdr Elf32_Ehdr_fields
    load_Elf32_Ehdr conv_Elf32_Ehdr
proof (unfold_locales, goal_cases)
  case 1
  show ?case by (simp add: Elf32_Ehdr_fields_def sizeof_Elf32_Ehdr_def)
next
  case (2 a m b m')
  then show ?case by (metis load_Elf32_Ehdr_slice sizeof_Elf32_Ehdr_def)
next
  case (3 a m d m')
  note c = converted_loads [OF _ 3,
    unfolded Elf32_Ehdr_fields_def sizeof_Elf32_Ehdr_def, simplified]
  note c0 = converted_loads [where f = 0, OF _ 3,
    unfolded Elf32_Ehdr_fields_def sizeof_Elf32_Ehdr_def, simplified]
  show ?case
    by (simp add: load_Elf32_Ehdr_def conv_Elf32_Ehdr_def c c0)
qed

section \<open>Section header\<close>

record Elf32_Shdr =
  sh_name32 :: u32
  sh_type32 :: u32
  sh_flags32 :: u32
  sh_addr32 :: u32
  sh_offset32 :: u32
  sh_size32 :: u32
  sh_link32 :: u32
  sh_info32 :: u32
  sh_addralign32 :: u32
  sh_entsize32 :: u32

definition sizeof_Elf32_Shdr :: nat where "sizeof_Elf32_Shdr = 40"

definition load_Elf32_Shdr :: "mem \<Rightarrow> nat \<Rightarrow> Elf32_Shdr" where
  "load_Elf32_Shdr m a =
     \<lparr>sh_name32 = load32 m a, sh_type32 = load32 m (a + 4), sh_flags32 = load32 m (a + 8),
      sh_addr32 = load32 m (a + 12), sh_offset32 = load32 m (a + 16),
      sh_size32 = load32 m (a + 20), sh_link32 = load32 m (a + 24),
      sh_info32 = load32 m (a + 28), sh_addralign32 = load32 m (a + 32),
      sh_entsize32 = load32 m (a + 36)\<rparr>"

text \<open>The fields in the order in which the code converts them:
  \<open>sh_addr\<close>, \<open>sh_addralign\<close>, \<open>sh_entsize\<close>, \<open>sh_flags\<close>, \<open>sh_info\<close>, \<open>sh_link\<close>, \<open>sh_name\<close>, \<open>sh_offset\<close>, \<open>sh_size\<close>, \<open>sh_type\<close>.\<close>

definition Elf32_Shdr_fields :: fields where
  "Elf32_Shdr_fields =
     [(12, W32), (32, W32), (36, W32), (8, W32), (28, W32), (24, W32), (0, W32), (16, W32),
      (20, W32), (4, W32)]"

definition conv_Elf32_Shdr :: "decoder \<Rightarrow> Elf32_Shdr \<Rightarrow> Elf32_Shdr" where
  "conv_Elf32_Shdr d p =
     \<lparr>sh_name32 = fix_u32 d (sh_name32 p), sh_type32 = fix_u32 d (sh_type32 p),
      sh_flags32 = fix_u32 d (sh_flags32 p), sh_addr32 = fix_u32 d (sh_addr32 p),
      sh_offset32 = fix_u32 d (sh_offset32 p), sh_size32 = fix_u32 d (sh_size32 p),
      sh_link32 = fix_u32 d (sh_link32 p), sh_info32 = fix_u32 d (sh_info32 p),
      sh_addralign32 = fix_u32 d (sh_addralign32 p), sh_entsize32 = fix_u32 d (sh_entsize32 p)\<rparr>"

lemma load_Elf32_Shdr_slice: "load_Elf32_Shdr (bytes_at m a 40) 0 = load_Elf32_Shdr m a"
  by (simp add: load_Elf32_Shdr_def)

interpretation elf32_Shdr: fixable_struct sizeof_Elf32_Shdr Elf32_Shdr_fields
    load_Elf32_Shdr conv_Elf32_Shdr
proof (unfold_locales, goal_cases)
  case 1
  show ?case by (simp add: Elf32_Shdr_fields_def sizeof_Elf32_Shdr_def)
next
  case (2 a m b m')
  then show ?case by (metis load_Elf32_Shdr_slice sizeof_Elf32_Shdr_def)
next
  case (3 a m d m')
  note c = converted_loads [OF _ 3,
    unfolded Elf32_Shdr_fields_def sizeof_Elf32_Shdr_def, simplified]
  note c0 = converted_loads [where f = 0, OF _ 3,
    unfolded Elf32_Shdr_fields_def sizeof_Elf32_Shdr_def, simplified]
  show ?case
    by (simp add: load_Elf32_Shdr_def conv_Elf32_Shdr_def c c0)
qed

section \<open>Program header\<close>

record Elf32_Phdr =
  p_type32 :: u32
  p_offset32 :: u32
  p_vaddr32 :: u32
  p_paddr32 :: u32
  p_filesz32 :: u32
  p_memsz32 :: u32
  p_flags32 :: u32
  p_align32 :: u32

definition sizeof_Elf32_Phdr :: nat where "sizeof_Elf32_Phdr = 32"

definition load_Elf32_Phdr :: "mem \<Rightarrow> nat \<Rightarrow> Elf32_Phdr" where
  "load_Elf32_Phdr m a =
     \<lparr>p_type32 = load32 m a, p_offset32 = load32 m (a + 4), p_vaddr32 = load32 m (a + 8),
      p_paddr32 = load32 m (a + 12), p_filesz32 = load32 m (a + 16),
      p_memsz32 = load32 m (a + 20), p_flags32 = load32 m (a + 24),
      p_align32 = load32 m (a + 28)\<rparr>"

text \<open>The fields in the order in which the code converts them:
  \<open>p_align\<close>, \<open>p_filesz\<close>, \<open>p_flags\<close>, \<open>p_memsz\<close>, \<open>p_offset\<close>, \<open>p_paddr\<close>, \<open>p_type\<close>, \<open>p_vaddr\<close>.\<close>

definition Elf32_Phdr_fields :: fields where
  "Elf32_Phdr_fields =
     [(28, W32), (16, W32), (24, W32), (20, W32), (4, W32), (12, W32), (0, W32), (8, W32)]"

definition conv_Elf32_Phdr :: "decoder \<Rightarrow> Elf32_Phdr \<Rightarrow> Elf32_Phdr" where
  "conv_Elf32_Phdr d p =
     \<lparr>p_type32 = fix_u32 d (p_type32 p), p_offset32 = fix_u32 d (p_offset32 p),
      p_vaddr32 = fix_u32 d (p_vaddr32 p), p_paddr32 = fix_u32 d (p_paddr32 p),
      p_filesz32 = fix_u32 d (p_filesz32 p), p_memsz32 = fix_u32 d (p_memsz32 p),
      p_flags32 = fix_u32 d (p_flags32 p), p_align32 = fix_u32 d (p_align32 p)\<rparr>"

lemma load_Elf32_Phdr_slice: "load_Elf32_Phdr (bytes_at m a 32) 0 = load_Elf32_Phdr m a"
  by (simp add: load_Elf32_Phdr_def)

interpretation elf32_Phdr: fixable_struct sizeof_Elf32_Phdr Elf32_Phdr_fields
    load_Elf32_Phdr conv_Elf32_Phdr
proof (unfold_locales, goal_cases)
  case 1
  show ?case by (simp add: Elf32_Phdr_fields_def sizeof_Elf32_Phdr_def)
next
  case (2 a m b m')
  then show ?case by (metis load_Elf32_Phdr_slice sizeof_Elf32_Phdr_def)
next
  case (3 a m d m')
  note c = converted_loads [OF _ 3,
    unfolded Elf32_Phdr_fields_def sizeof_Elf32_Phdr_def, simplified]
  note c0 = converted_loads [where f = 0, OF _ 3,
    unfolded Elf32_Phdr_fields_def sizeof_Elf32_Phdr_def, simplified]
  show ?case
    by (simp add: load_Elf32_Phdr_def conv_Elf32_Phdr_def c c0)
qed

section \<open>Entry of the dynamic section\<close>

record Elf32_Dyn =
  d_tag32 :: u32
  d_val32 :: u32

definition sizeof_Elf32_Dyn :: nat where "sizeof_Elf32_Dyn = 8"

definition load_Elf32_Dyn :: "mem \<Rightarrow> nat \<Rightarrow> Elf32_Dyn" where
  "load_Elf32_Dyn m a =
     \<lparr>d_tag32 = load32 m a, d_val32 = load32 m (a + 4)\<rparr>"

text \<open>The fields in the order in which the code converts them:
  \<open>d_tag\<close>, \<open>d_val\<close>.\<close>

definition Elf32_Dyn_fields :: fields where
  "Elf32_Dyn_fields =
     [(0, W32), (4, W32)]"

definition conv_Elf32_Dyn :: "decoder \<Rightarrow> Elf32_Dyn \<Rightarrow> Elf32_Dyn" where
  "conv_Elf32_Dyn d p =
     \<lparr>d_tag32 = fix_u32 d (d_tag32 p), d_val32 = fix_u32 d (d_val32 p)\<rparr>"

lemma load_Elf32_Dyn_slice: "load_Elf32_Dyn (bytes_at m a 8) 0 = load_Elf32_Dyn m a"
  by (simp add: load_Elf32_Dyn_def)

interpretation elf32_Dyn: fixable_struct sizeof_Elf32_Dyn Elf32_Dyn_fields
    load_Elf32_Dyn conv_Elf32_Dyn
proof (unfold_locales, goal_cases)
  case 1
  show ?case by (simp add: Elf32_Dyn_fields_def sizeof_Elf32_Dyn_def)
next
  case (2 a m b m')
  then show ?case by (metis load_Elf32_Dyn_slice sizeof_Elf32_Dyn_def)
next
  case (3 a m d m')
  note c = converted_loads [OF _ 3,
    unfolded Elf32_Dyn_fields_def sizeof_Elf32_Dyn_def, simplified]
  note c0 = converted_loads [where f = 0, OF _ 3,
    unfolded Elf32_Dyn_fields_def sizeof_Elf32_Dyn_def, simplified]
  show ?case
    by (simp add: load_Elf32_Dyn_def conv_Elf32_Dyn_def c c0)
qed

section \<open>Symbol table entry\<close>

record Elf32_Sym =
  st_name32 :: u32
  st_value32 :: u32
  st_size32 :: u32
  st_info32 :: u8
  st_other32 :: u8
  st_shndx32 :: u16

definition sizeof_Elf32_Sym :: nat where "sizeof_Elf32_Sym = 16"

definition load_Elf32_Sym :: "mem \<Rightarrow> nat \<Rightarrow> Elf32_Sym" where
  "load_Elf32_Sym m a =
     \<lparr>st_name32 = load32 m a, st_value32 = load32 m (a + 4), st_size32 = load32 m (a + 8),
      st_info32 = load8 m (a + 12), st_other32 = load8 m (a + 13),
      st_shndx32 = load16 m (a + 14)\<rparr>"

text \<open>The fields in the order in which the code converts them:
  \<open>st_name\<close>, \<open>st_value\<close>, \<open>st_size\<close>, \<open>st_shndx\<close>.\<close>

definition Elf32_Sym_fields :: fields where
  "Elf32_Sym_fields =
     [(0, W32), (4, W32), (8, W32), (14, W16)]"

definition conv_Elf32_Sym :: "decoder \<Rightarrow> Elf32_Sym \<Rightarrow> Elf32_Sym" where
  "conv_Elf32_Sym d p =
     \<lparr>st_name32 = fix_u32 d (st_name32 p), st_value32 = fix_u32 d (st_value32 p),
      st_size32 = fix_u32 d (st_size32 p), st_info32 = st_info32 p, st_other32 = st_other32 p,
      st_shndx32 = fix_u16 d (st_shndx32 p)\<rparr>"

lemma load_Elf32_Sym_slice: "load_Elf32_Sym (bytes_at m a 16) 0 = load_Elf32_Sym m a"
  by (simp add: load_Elf32_Sym_def)

interpretation elf32_Sym: fixable_struct sizeof_Elf32_Sym Elf32_Sym_fields
    load_Elf32_Sym conv_Elf32_Sym
proof (unfold_locales, goal_cases)
  case 1
  show ?case by (simp add: Elf32_Sym_fields_def sizeof_Elf32_Sym_def)
next
  case (2 a m b m')
  then show ?case by (metis load_Elf32_Sym_slice sizeof_Elf32_Sym_def)
next
  case (3 a m d m')
  note c = converted_loads [OF _ 3,
    unfolded Elf32_Sym_fields_def sizeof_Elf32_Sym_def, simplified]
  note c0 = converted_loads [where f = 0, OF _ 3,
    unfolded Elf32_Sym_fields_def sizeof_Elf32_Sym_def, simplified]
  show ?case
    by (simp add: load_Elf32_Sym_def conv_Elf32_Sym_def c c0)
qed

section \<open>Packed symbol information\<close>

definition ELF32_ST_BIND :: "u8 \<Rightarrow> u8" where "ELF32_ST_BIND i = drop_bit 4 i"
definition ELF32_ST_TYPE :: "u8 \<Rightarrow> u8" where "ELF32_ST_TYPE i = i AND 0xf"
definition ELF32_ST_INFO :: "u8 \<Rightarrow> u8 \<Rightarrow> u8" where
  "ELF32_ST_INFO b t = push_bit 4 b + (t AND 0xf)"

end
