(* ===== verification/Elf_Defs64.thy ===== *)
theory Elf_Defs64
  imports Elf_Struct
begin

text \<open>
  The structures of \<open>include/gel++/elf/defs64.h\<close>: each as a record, with its layout in
  memory (the natural alignment of C gives no padding), the fields that GEL++
  converts from the endianness of the file, and the interpretation of
  \<open>fixable_struct\<close> that makes the conversion of its tables available.
\<close>

section \<open>ELF header\<close>

record Elf64_Ehdr =
  e_ident64 :: "u8 list"
  e_type64 :: u16
  e_machine64 :: u16
  e_version64 :: u32
  e_entry64 :: u64
  e_phoff64 :: u64
  e_shoff64 :: u64
  e_flags64 :: u32
  e_ehsize64 :: u16
  e_phentsize64 :: u16
  e_phnum64 :: u16
  e_shentsize64 :: u16
  e_shnum64 :: u16
  e_shstrndx64 :: u16

definition sizeof_Elf64_Ehdr :: nat where "sizeof_Elf64_Ehdr = 64"

definition load_Elf64_Ehdr :: "mem \<Rightarrow> nat \<Rightarrow> Elf64_Ehdr" where
  "load_Elf64_Ehdr m a =
     \<lparr>e_ident64 = bytes_at m a 16, e_type64 = load16 m (a + 16),
      e_machine64 = load16 m (a + 18), e_version64 = load32 m (a + 20),
      e_entry64 = load64 m (a + 24), e_phoff64 = load64 m (a + 32),
      e_shoff64 = load64 m (a + 40), e_flags64 = load32 m (a + 48),
      e_ehsize64 = load16 m (a + 52), e_phentsize64 = load16 m (a + 54),
      e_phnum64 = load16 m (a + 56), e_shentsize64 = load16 m (a + 58),
      e_shnum64 = load16 m (a + 60), e_shstrndx64 = load16 m (a + 62)\<rparr>"

text \<open>The fields in the order in which the code converts them:
  \<open>e_type\<close>, \<open>e_machine\<close>, \<open>e_version\<close>, \<open>e_entry\<close>, \<open>e_shnum\<close>, \<open>e_phnum\<close>, \<open>e_shentsize\<close>, \<open>e_phentsize\<close>, \<open>e_shstrndx\<close>, \<open>e_shoff\<close>, \<open>e_phoff\<close>.\<close>

definition Elf64_Ehdr_fields :: fields where
  "Elf64_Ehdr_fields =
     [(16, W16), (18, W16), (20, W32), (24, W64), (60, W16), (56, W16), (58, W16), (54, W16),
      (62, W16), (40, W64), (32, W64)]"

definition conv_Elf64_Ehdr :: "decoder \<Rightarrow> Elf64_Ehdr \<Rightarrow> Elf64_Ehdr" where
  "conv_Elf64_Ehdr d p =
     \<lparr>e_ident64 = e_ident64 p, e_type64 = fix_u16 d (e_type64 p),
      e_machine64 = fix_u16 d (e_machine64 p), e_version64 = fix_u32 d (e_version64 p),
      e_entry64 = fix_u64 d (e_entry64 p), e_phoff64 = fix_u64 d (e_phoff64 p),
      e_shoff64 = fix_u64 d (e_shoff64 p), e_flags64 = e_flags64 p, e_ehsize64 = e_ehsize64 p,
      e_phentsize64 = fix_u16 d (e_phentsize64 p), e_phnum64 = fix_u16 d (e_phnum64 p),
      e_shentsize64 = fix_u16 d (e_shentsize64 p), e_shnum64 = fix_u16 d (e_shnum64 p),
      e_shstrndx64 = fix_u16 d (e_shstrndx64 p)\<rparr>"

lemma load_Elf64_Ehdr_slice: "load_Elf64_Ehdr (bytes_at m a 64) 0 = load_Elf64_Ehdr m a"
  by (simp add: load_Elf64_Ehdr_def)

interpretation elf64_Ehdr: fixable_struct sizeof_Elf64_Ehdr Elf64_Ehdr_fields
    load_Elf64_Ehdr conv_Elf64_Ehdr
proof (unfold_locales, goal_cases)
  case 1
  show ?case by (simp add: Elf64_Ehdr_fields_def sizeof_Elf64_Ehdr_def)
next
  case (2 a m b m')
  then show ?case by (metis load_Elf64_Ehdr_slice sizeof_Elf64_Ehdr_def)
next
  case (3 a m d m')
  note c = converted_loads [OF _ 3,
    unfolded Elf64_Ehdr_fields_def sizeof_Elf64_Ehdr_def, simplified]
  note c0 = converted_loads [where f = 0, OF _ 3,
    unfolded Elf64_Ehdr_fields_def sizeof_Elf64_Ehdr_def, simplified]
  show ?case
    by (simp add: load_Elf64_Ehdr_def conv_Elf64_Ehdr_def c c0)
qed

section \<open>Section header\<close>

record Elf64_Shdr =
  sh_name64 :: u32
  sh_type64 :: u32
  sh_flags64 :: u64
  sh_addr64 :: u64
  sh_offset64 :: u64
  sh_size64 :: u64
  sh_link64 :: u32
  sh_info64 :: u32
  sh_addralign64 :: u64
  sh_entsize64 :: u64

definition sizeof_Elf64_Shdr :: nat where "sizeof_Elf64_Shdr = 64"

definition load_Elf64_Shdr :: "mem \<Rightarrow> nat \<Rightarrow> Elf64_Shdr" where
  "load_Elf64_Shdr m a =
     \<lparr>sh_name64 = load32 m a, sh_type64 = load32 m (a + 4), sh_flags64 = load64 m (a + 8),
      sh_addr64 = load64 m (a + 16), sh_offset64 = load64 m (a + 24),
      sh_size64 = load64 m (a + 32), sh_link64 = load32 m (a + 40),
      sh_info64 = load32 m (a + 44), sh_addralign64 = load64 m (a + 48),
      sh_entsize64 = load64 m (a + 56)\<rparr>"

text \<open>The fields in the order in which the code converts them:
  \<open>sh_addr\<close>, \<open>sh_addralign\<close>, \<open>sh_entsize\<close>, \<open>sh_flags\<close>, \<open>sh_info\<close>, \<open>sh_link\<close>, \<open>sh_name\<close>, \<open>sh_offset\<close>, \<open>sh_size\<close>, \<open>sh_type\<close>.\<close>

definition Elf64_Shdr_fields :: fields where
  "Elf64_Shdr_fields =
     [(16, W64), (48, W64), (56, W64), (8, W64), (44, W32), (40, W32), (0, W32), (24, W64),
      (32, W64), (4, W32)]"

definition conv_Elf64_Shdr :: "decoder \<Rightarrow> Elf64_Shdr \<Rightarrow> Elf64_Shdr" where
  "conv_Elf64_Shdr d p =
     \<lparr>sh_name64 = fix_u32 d (sh_name64 p), sh_type64 = fix_u32 d (sh_type64 p),
      sh_flags64 = fix_u64 d (sh_flags64 p), sh_addr64 = fix_u64 d (sh_addr64 p),
      sh_offset64 = fix_u64 d (sh_offset64 p), sh_size64 = fix_u64 d (sh_size64 p),
      sh_link64 = fix_u32 d (sh_link64 p), sh_info64 = fix_u32 d (sh_info64 p),
      sh_addralign64 = fix_u64 d (sh_addralign64 p), sh_entsize64 = fix_u64 d (sh_entsize64 p)\<rparr>"

lemma load_Elf64_Shdr_slice: "load_Elf64_Shdr (bytes_at m a 64) 0 = load_Elf64_Shdr m a"
  by (simp add: load_Elf64_Shdr_def)

interpretation elf64_Shdr: fixable_struct sizeof_Elf64_Shdr Elf64_Shdr_fields
    load_Elf64_Shdr conv_Elf64_Shdr
proof (unfold_locales, goal_cases)
  case 1
  show ?case by (simp add: Elf64_Shdr_fields_def sizeof_Elf64_Shdr_def)
next
  case (2 a m b m')
  then show ?case by (metis load_Elf64_Shdr_slice sizeof_Elf64_Shdr_def)
next
  case (3 a m d m')
  note c = converted_loads [OF _ 3,
    unfolded Elf64_Shdr_fields_def sizeof_Elf64_Shdr_def, simplified]
  note c0 = converted_loads [where f = 0, OF _ 3,
    unfolded Elf64_Shdr_fields_def sizeof_Elf64_Shdr_def, simplified]
  show ?case
    by (simp add: load_Elf64_Shdr_def conv_Elf64_Shdr_def c c0)
qed

section \<open>Program header\<close>

record Elf64_Phdr =
  p_type64 :: u32
  p_flags64 :: u32
  p_offset64 :: u64
  p_vaddr64 :: u64
  p_paddr64 :: u64
  p_filesz64 :: u64
  p_memsz64 :: u64
  p_align64 :: u64

definition sizeof_Elf64_Phdr :: nat where "sizeof_Elf64_Phdr = 56"

definition load_Elf64_Phdr :: "mem \<Rightarrow> nat \<Rightarrow> Elf64_Phdr" where
  "load_Elf64_Phdr m a =
     \<lparr>p_type64 = load32 m a, p_flags64 = load32 m (a + 4), p_offset64 = load64 m (a + 8),
      p_vaddr64 = load64 m (a + 16), p_paddr64 = load64 m (a + 24),
      p_filesz64 = load64 m (a + 32), p_memsz64 = load64 m (a + 40),
      p_align64 = load64 m (a + 48)\<rparr>"

text \<open>The fields in the order in which the code converts them:
  \<open>p_align\<close>, \<open>p_filesz\<close>, \<open>p_flags\<close>, \<open>p_memsz\<close>, \<open>p_offset\<close>, \<open>p_paddr\<close>, \<open>p_type\<close>, \<open>p_vaddr\<close>.\<close>

definition Elf64_Phdr_fields :: fields where
  "Elf64_Phdr_fields =
     [(48, W64), (32, W64), (4, W32), (40, W64), (8, W64), (24, W64), (0, W32), (16, W64)]"

definition conv_Elf64_Phdr :: "decoder \<Rightarrow> Elf64_Phdr \<Rightarrow> Elf64_Phdr" where
  "conv_Elf64_Phdr d p =
     \<lparr>p_type64 = fix_u32 d (p_type64 p), p_flags64 = fix_u32 d (p_flags64 p),
      p_offset64 = fix_u64 d (p_offset64 p), p_vaddr64 = fix_u64 d (p_vaddr64 p),
      p_paddr64 = fix_u64 d (p_paddr64 p), p_filesz64 = fix_u64 d (p_filesz64 p),
      p_memsz64 = fix_u64 d (p_memsz64 p), p_align64 = fix_u64 d (p_align64 p)\<rparr>"

lemma load_Elf64_Phdr_slice: "load_Elf64_Phdr (bytes_at m a 56) 0 = load_Elf64_Phdr m a"
  by (simp add: load_Elf64_Phdr_def)

interpretation elf64_Phdr: fixable_struct sizeof_Elf64_Phdr Elf64_Phdr_fields
    load_Elf64_Phdr conv_Elf64_Phdr
proof (unfold_locales, goal_cases)
  case 1
  show ?case by (simp add: Elf64_Phdr_fields_def sizeof_Elf64_Phdr_def)
next
  case (2 a m b m')
  then show ?case by (metis load_Elf64_Phdr_slice sizeof_Elf64_Phdr_def)
next
  case (3 a m d m')
  note c = converted_loads [OF _ 3,
    unfolded Elf64_Phdr_fields_def sizeof_Elf64_Phdr_def, simplified]
  note c0 = converted_loads [where f = 0, OF _ 3,
    unfolded Elf64_Phdr_fields_def sizeof_Elf64_Phdr_def, simplified]
  show ?case
    by (simp add: load_Elf64_Phdr_def conv_Elf64_Phdr_def c c0)
qed

section \<open>Entry of the dynamic section\<close>

record Elf64_Dyn =
  d_tag64 :: u64
  d_val64 :: u64

definition sizeof_Elf64_Dyn :: nat where "sizeof_Elf64_Dyn = 16"

definition load_Elf64_Dyn :: "mem \<Rightarrow> nat \<Rightarrow> Elf64_Dyn" where
  "load_Elf64_Dyn m a =
     \<lparr>d_tag64 = load64 m a, d_val64 = load64 m (a + 8)\<rparr>"

text \<open>The fields in the order in which the code converts them:
  \<open>d_tag\<close>, \<open>d_val\<close>.\<close>

definition Elf64_Dyn_fields :: fields where
  "Elf64_Dyn_fields =
     [(0, W64), (8, W64)]"

definition conv_Elf64_Dyn :: "decoder \<Rightarrow> Elf64_Dyn \<Rightarrow> Elf64_Dyn" where
  "conv_Elf64_Dyn d p =
     \<lparr>d_tag64 = fix_u64 d (d_tag64 p), d_val64 = fix_u64 d (d_val64 p)\<rparr>"

lemma load_Elf64_Dyn_slice: "load_Elf64_Dyn (bytes_at m a 16) 0 = load_Elf64_Dyn m a"
  by (simp add: load_Elf64_Dyn_def)

interpretation elf64_Dyn: fixable_struct sizeof_Elf64_Dyn Elf64_Dyn_fields
    load_Elf64_Dyn conv_Elf64_Dyn
proof (unfold_locales, goal_cases)
  case 1
  show ?case by (simp add: Elf64_Dyn_fields_def sizeof_Elf64_Dyn_def)
next
  case (2 a m b m')
  then show ?case by (metis load_Elf64_Dyn_slice sizeof_Elf64_Dyn_def)
next
  case (3 a m d m')
  note c = converted_loads [OF _ 3,
    unfolded Elf64_Dyn_fields_def sizeof_Elf64_Dyn_def, simplified]
  note c0 = converted_loads [where f = 0, OF _ 3,
    unfolded Elf64_Dyn_fields_def sizeof_Elf64_Dyn_def, simplified]
  show ?case
    by (simp add: load_Elf64_Dyn_def conv_Elf64_Dyn_def c c0)
qed

section \<open>Symbol table entry\<close>

record Elf64_Sym =
  st_name64 :: u32
  st_info64 :: u8
  st_other64 :: u8
  st_shndx64 :: u16
  st_value64 :: u64
  st_size64 :: u64

definition sizeof_Elf64_Sym :: nat where "sizeof_Elf64_Sym = 24"

definition load_Elf64_Sym :: "mem \<Rightarrow> nat \<Rightarrow> Elf64_Sym" where
  "load_Elf64_Sym m a =
     \<lparr>st_name64 = load32 m a, st_info64 = load8 m (a + 4), st_other64 = load8 m (a + 5),
      st_shndx64 = load16 m (a + 6), st_value64 = load64 m (a + 8),
      st_size64 = load64 m (a + 16)\<rparr>"

text \<open>The fields in the order in which the code converts them:
  \<open>st_name\<close>, \<open>st_value\<close>, \<open>st_size\<close>, \<open>st_shndx\<close>.\<close>

definition Elf64_Sym_fields :: fields where
  "Elf64_Sym_fields =
     [(0, W32), (8, W64), (16, W64), (6, W16)]"

definition conv_Elf64_Sym :: "decoder \<Rightarrow> Elf64_Sym \<Rightarrow> Elf64_Sym" where
  "conv_Elf64_Sym d p =
     \<lparr>st_name64 = fix_u32 d (st_name64 p), st_info64 = st_info64 p, st_other64 = st_other64 p,
      st_shndx64 = fix_u16 d (st_shndx64 p), st_value64 = fix_u64 d (st_value64 p),
      st_size64 = fix_u64 d (st_size64 p)\<rparr>"

lemma load_Elf64_Sym_slice: "load_Elf64_Sym (bytes_at m a 24) 0 = load_Elf64_Sym m a"
  by (simp add: load_Elf64_Sym_def)

interpretation elf64_Sym: fixable_struct sizeof_Elf64_Sym Elf64_Sym_fields
    load_Elf64_Sym conv_Elf64_Sym
proof (unfold_locales, goal_cases)
  case 1
  show ?case by (simp add: Elf64_Sym_fields_def sizeof_Elf64_Sym_def)
next
  case (2 a m b m')
  then show ?case by (metis load_Elf64_Sym_slice sizeof_Elf64_Sym_def)
next
  case (3 a m d m')
  note c = converted_loads [OF _ 3,
    unfolded Elf64_Sym_fields_def sizeof_Elf64_Sym_def, simplified]
  note c0 = converted_loads [where f = 0, OF _ 3,
    unfolded Elf64_Sym_fields_def sizeof_Elf64_Sym_def, simplified]
  show ?case
    by (simp add: load_Elf64_Sym_def conv_Elf64_Sym_def c c0)
qed

section \<open>Packed symbol information\<close>

definition ELF64_ST_BIND :: "u8 \<Rightarrow> u8" where "ELF64_ST_BIND i = drop_bit 4 i"
definition ELF64_ST_TYPE :: "u8 \<Rightarrow> u8" where "ELF64_ST_TYPE i = i AND 0xf"
definition ELF64_ST_INFO :: "u8 \<Rightarrow> u8 \<Rightarrow> u8" where
  "ELF64_ST_INFO b t = push_bit 4 b + (t AND 0xf)"

end
