(* ===== verification/Gel_Cursor.thy ===== *)
theory Gel_Cursor
  imports Gel_Base
begin

text \<open>
  The contract of \<open>Buffer\<close> and \<open>Cursor\<close>: on a well-formed cursor every read is a
  step on the list of the bytes that are left. The clients of the cursor (the
  ELF notes, the DWARF line program, the image dump) are reasoned about on that
  list; the wrap-around of the 64-bit offsets is dealt with once, here.
\<close>

section \<open>Well-formed buffers and cursors\<close>

definition buffer_wf :: "buffer \<Rightarrow> bool" where
  "buffer_wf b \<longleftrightarrow>
     (\<exists>m d. buf_bytes b = Some m \<and> buf_dec b = Some d \<and>
            length m = unat (buf_size b) \<and> length m < 2 ^ 63)"

definition cursor_wf :: "cursor \<Rightarrow> bool" where
  "cursor_wf c \<longleftrightarrow> buffer_wf (cur_buf c) \<and> cur_off c \<le> cur_size c"

definition cur_mem :: "cursor \<Rightarrow> mem" where
  "cur_mem c = the (buf_bytes (cur_buf c))"

definition cur_dec :: "cursor \<Rightarrow> decoder" where
  "cur_dec c = the (buf_dec (cur_buf c))"

text \<open>The bytes that are left, and the cursor \<open>n\<close> bytes further.\<close>

definition cur_rest :: "cursor \<Rightarrow> mem" where
  "cur_rest c = drop (unat (cur_off c)) (cur_mem c)"

definition cur_adv :: "cursor \<Rightarrow> nat \<Rightarrow> cursor" where
  "cur_adv c n = c\<lparr>cur_off := cur_off c + word_of_nat n\<rparr>"

lemma cursor_wfE:
  assumes "cursor_wf c"
  obtains "buf_bytes (cur_buf c) = Some (cur_mem c)" and "buf_dec (cur_buf c) = Some (cur_dec c)"
    and "length (cur_mem c) = unat (buf_size (cur_buf c))" and "length (cur_mem c) < 2 ^ 63"
    and "unat (cur_off c) \<le> length (cur_mem c)"
  using assms
  by (auto simp: cursor_wf_def buffer_wf_def cur_mem_def cur_dec_def cur_size_def word_le_nat_alt)

lemma length_cur_rest:
  "cursor_wf c \<Longrightarrow> length (cur_rest c) = unat (cur_size c) - unat (cur_off c)"
  by (erule cursor_wfE) (simp add: cur_rest_def cur_size_def)

lemma length_cur_rest_bound: "cursor_wf c \<Longrightarrow> length (cur_rest c) < 2 ^ 63"
  by (erule cursor_wfE) (simp add: cur_rest_def)

lemma unat_of_nat_64: "n < 2 ^ 64 \<Longrightarrow> unat (word_of_nat n :: u64) = n"
  by (simp add: unat_of_nat)

lemma unat_cur_off_add:
  assumes "cursor_wf c" and "n < 2 ^ 63"
  shows "unat (cur_off c + word_of_nat n) = unat (cur_off c) + n"
proof -
  have "unat (cur_off c) + n < 2 ^ 64"
    using assms by (elim cursor_wfE) simp
  then show ?thesis
    using assms(2) by (simp add: unat_add_nowrap unat_of_nat_64)
qed

lemma cur_avail_iff:
  assumes "cursor_wf c" and "n < 2 ^ 63"
  shows "cur_avail c (word_of_nat n) \<longleftrightarrow> n \<le> length (cur_rest c)"
proof -
  have "unat (cur_off c) \<le> unat (cur_size c)"
    using assms(1) by (simp add: cursor_wf_def word_le_nat_alt)
  then show ?thesis
    using assms by (auto simp: cur_avail_def word_le_nat_alt unat_cur_off_add length_cur_rest)
qed

lemma cur_ended_iff: "cursor_wf c \<Longrightarrow> cur_ended c \<longleftrightarrow> cur_rest c = []"
  by (elim cursor_wfE) (auto simp: cur_ended_def cur_rest_def cur_size_def word_le_nat_alt)

lemma cur_adv_simps [simp]:
  "cur_buf (cur_adv c n) = cur_buf c" "cur_mem (cur_adv c n) = cur_mem c"
  "cur_dec (cur_adv c n) = cur_dec c" "cur_size (cur_adv c n) = cur_size c"
  "cur_adv c 0 = c" "cur_adv (cur_adv c n) k = cur_adv c (n + k)"
  by (simp_all add: cur_adv_def cur_mem_def cur_dec_def cur_size_def)

lemma cursor_wf_adv:
  assumes "cursor_wf c" and "n \<le> length (cur_rest c)"
  shows "cursor_wf (cur_adv c n)" and "cur_rest (cur_adv c n) = drop n (cur_rest c)"
proof -
  have n: "n < 2 ^ 63"
    using assms length_cur_rest_bound by fastforce
  have off: "unat (cur_off (cur_adv c n)) = unat (cur_off c) + n"
    using unat_cur_off_add [OF assms(1) n] by (simp add: cur_adv_def)
  show "cursor_wf (cur_adv c n)"
    using assms off by (auto simp: cursor_wf_def word_le_nat_alt length_cur_rest)
  show "cur_rest (cur_adv c n) = drop n (cur_rest c)"
    by (simp add: cur_rest_def off add.commute)
qed

lemma make_cursor_wf: "buffer_wf b \<Longrightarrow> cursor_wf (make_cursor b)"
  by (auto simp: cursor_wf_def make_cursor_def cur_size_def)

lemma make_cursor_simps [simp]:
  "cur_buf (make_cursor b) = b" "cur_rest (make_cursor b) = the (buf_bytes b)"
  "cur_dec (make_cursor b) = the (buf_dec b)" "cur_size (make_cursor b) = buf_size b"
  by (simp_all add: make_cursor_def cur_rest_def cur_mem_def cur_dec_def cur_size_def)

lemma make_buffer_wf:
  "length m < 2 ^ 63 \<Longrightarrow> buffer_wf (make_buffer d (Some m) (word_of_nat (length m)))"
  by (simp add: buffer_wf_def make_buffer_def unat_of_nat_64)

section \<open>Reads\<close>

lemma buf_load_cur:
  assumes "cursor_wf c" and "n \<le> length (cur_rest c)"
  shows "buf_load (cur_buf c) (cur_off c) n = Inr (take n (cur_rest c))"
  using assms
  by (elim cursor_wfE) (auto simp: buf_load_def in_block_def bytes_at_def cur_rest_def)

lemma cur_buf_decoder: "cursor_wf c \<Longrightarrow> buf_decoder (cur_buf c) = Inr (cur_dec c)"
  by (auto simp: cursor_wf_def buffer_wf_def buf_decoder_def cur_dec_def)

lemma require_avail:
  "cur_avail c n \<Longrightarrow> require (cur_off c + n \<le> buf_size (cur_buf c)) e = Inr ()"
  by (simp add: cur_avail_def cur_size_def)

lemma cur_read_u8_eq:
  assumes "cursor_wf c"
  shows "cur_read_u8 c =
    (case cur_rest c of [] \<Rightarrow> Inr (None, c) | b # _ \<Rightarrow> Inr (Some b, cur_adv c 1))"
proof (cases "cur_rest c")
  case Nil
  then show ?thesis
    using cur_avail_iff [OF assms, of 1] by (simp add: cur_read_u8_def)
next
  case (Cons b bs)
  then have "cur_avail c 1"
    using cur_avail_iff [OF assms, of 1] by simp
  moreover have "le_word [b] = b"
    by (rule bit_word_eqI) (auto simp: bit_le_word)
  ultimately show ?thesis
    using Cons buf_load_cur [OF assms, of 1]
    by (simp add: cur_read_u8_def get_u8_def require_avail cur_adv_def)
qed

lemma cur_read_u16_eq:
  assumes "cursor_wf c"
  shows "cur_read_u16 c =
    (if length (cur_rest c) < 2 then Inr (None, c)
     else Inr (Some (fix_u16 (cur_dec c) (le_word (take 2 (cur_rest c)))), cur_adv c 2))"
  using cur_avail_iff [OF assms, of 2] buf_load_cur [OF assms, of 2] cur_buf_decoder [OF assms]
  by (auto simp: cur_read_u16_def get_u16_def require_avail cur_adv_def)

lemma cur_read_u32_eq:
  assumes "cursor_wf c"
  shows "cur_read_u32 c =
    (if length (cur_rest c) < 4 then Inr (None, c)
     else Inr (Some (fix_u32 (cur_dec c) (le_word (take 4 (cur_rest c)))), cur_adv c 4))"
  using cur_avail_iff [OF assms, of 4] buf_load_cur [OF assms, of 4] cur_buf_decoder [OF assms]
  by (auto simp: cur_read_u32_def get_u32_def require_avail cur_adv_def)

lemma cur_read_u64_eq:
  assumes "cursor_wf c"
  shows "cur_read_u64 c =
    (if length (cur_rest c) < 8 then Inr (None, c)
     else Inr (Some (fix_u64 (cur_dec c) (le_word (take 8 (cur_rest c)))), cur_adv c 8))"
  using cur_avail_iff [OF assms, of 8] buf_load_cur [OF assms, of 8] cur_buf_decoder [OF assms]
  by (auto simp: cur_read_u64_def get_u64_def require_avail cur_adv_def)

section \<open>Strings, blocks and moves\<close>

lemma cur_skip_cstr_eq:
  "cursor_wf c \<Longrightarrow> cur_skip_cstr c =
    (if 0 \<in> set (cur_rest c)
     then Inr (True, cur_adv c (length (takeWhile (\<lambda>b. b \<noteq> 0) (cur_rest c)) + 1))
     else Inr (False, cur_adv c (length (cur_rest c))))"
proof (induction "cur_rest c" arbitrary: c)
  case Nil
  then have "\<not> cur_avail c 1"
    using cur_avail_iff [of c 1] by simp
  then show ?case
    using Nil.hyps [symmetric] by (simp add: cur_skip_cstr.simps [of c])
next
  case (Cons b bs)
  have rest: "cur_rest c = b # bs"
    using Cons.hyps(2) by simp
  then have av: "cur_avail c 1"
    using cur_avail_iff [OF Cons.prems, of 1] by simp
  have get: "get_u8 (cur_buf c) (cur_off c) = Inr b"
    using cur_read_u8_eq [OF Cons.prems] rest av
    by (cases "get_u8 (cur_buf c) (cur_off c)") (auto simp: cur_read_u8_def)
  have adv: "c\<lparr>cur_off := cur_off c + 1\<rparr> = cur_adv c 1"
    by (simp add: cur_adv_def)
  have wf: "cursor_wf (cur_adv c 1)" and r: "cur_rest (cur_adv c 1) = bs"
    using cursor_wf_adv [OF Cons.prems, of 1] rest by simp_all
  show ?case
    using Cons.hyps(1) [OF r [symmetric] wf] r
    by (simp add: cur_skip_cstr.simps [of c] av get adv rest)
qed

lemma cur_read_cstr_eq:
  assumes "cursor_wf c"
  shows "cur_read_cstr c =
    (if cur_rest c = [] then Inr (None, False, c)
     else if 0 \<in> set (cur_rest c)
     then Inr (Some (Inr (takeWhile (\<lambda>b. b \<noteq> 0) (cur_rest c))), True,
               cur_adv c (length (takeWhile (\<lambda>b. b \<noteq> 0) (cur_rest c)) + 1))
     else Inr (Some (Inl Memory_Fault), False, cur_adv c (length (cur_rest c))))"
proof -
  have av: "cur_avail c 1 \<longleftrightarrow> cur_rest c \<noteq> []"
    using cur_avail_iff [OF assms, of 1] by (cases "cur_rest c") auto
  have "get_cstr (cur_buf c) (cur_off c) =
      (if 0 \<in> set (cur_rest c) then Inr (takeWhile (\<lambda>b. b \<noteq> 0) (cur_rest c))
       else Inl Memory_Fault)" if "cur_rest c \<noteq> []"
    using assms that
    by (elim cursor_wfE) (auto simp: get_cstr_def cstr_at_def cur_rest_def word_less_nat_alt)
  moreover have "cur_off c < buf_size (cur_buf c)" if "cur_rest c \<noteq> []"
    using assms that by (elim cursor_wfE) (auto simp: cur_rest_def word_less_nat_alt)
  ultimately show ?thesis
    using av cur_skip_cstr_eq [OF assms] by (auto simp: cur_read_cstr_def)
qed

lemma cur_skip_eq:
  assumes "cursor_wf c" and "n < 2 ^ 63"
  shows "cur_skip c (word_of_nat n) =
    (if n \<le> length (cur_rest c) then (True, cur_adv c n) else (False, c))"
  using cur_avail_iff [OF assms] by (simp add: cur_skip_def cur_adv_def)

lemma cur_read_block_eq:
  assumes "cursor_wf c" and "n < 2 ^ 63"
  shows "cur_read_block c (word_of_nat n) =
    (if length (cur_rest c) < n then Inr (None, c)
     else if cur_rest c = [] then Inl Assert_Failure
     else Inr (Some (cur_off c), cur_adv c n))"
proof -
  have "cur_off c < buf_size (cur_buf c) \<longleftrightarrow> cur_rest c \<noteq> []"
    using cur_ended_iff [OF assms(1)] by (auto simp: cur_ended_def cur_size_def)
  then show ?thesis
    using cur_avail_iff [OF assms]
    by (auto simp: cur_read_block_def buf_at_def cur_adv_def)
qed

lemma cur_move_wf: "cursor_wf c \<Longrightarrow> cursor_wf (snd (cur_move c o'))"
  by (auto simp: cur_move_def cursor_wf_def cur_size_def)

lemma cur_finish_wf: "cursor_wf c \<Longrightarrow> cursor_wf (cur_finish c)"
  by (auto simp: cur_finish_def cursor_wf_def cur_size_def)

section \<open>Writes\<close>

text \<open>
  A cursor used for output splits its block in the bytes already passed and the
  bytes left; a write moves the boundary.
\<close>

definition cur_done :: "cursor \<Rightarrow> mem" where
  "cur_done c = take (unat (cur_off c)) (cur_mem c)"

lemma cur_done_rest: "cur_done c @ cur_rest c = cur_mem c"
  by (simp add: cur_done_def cur_rest_def)

definition cur_after :: "cursor \<Rightarrow> cursor \<Rightarrow> mem \<Rightarrow> mem \<Rightarrow> bool" where
  "cur_after c c' bs rest \<longleftrightarrow>
     cursor_wf c' \<and> cur_dec c' = cur_dec c \<and> cur_size c' = cur_size c \<and>
     cur_done c' = cur_done c @ bs \<and> cur_rest c' = rest"

lemma cur_store:
  assumes wf: "cursor_wf c" and len: "length ws \<le> length (cur_rest c)" and k: "k \<le> length ws"
  defines "c' \<equiv> \<lparr>cur_off = cur_off c + word_of_nat k,
      cur_buf = (cur_buf c)\<lparr>buf_bytes := Some (store_at (cur_mem c) (unat (cur_off c)) ws)\<rparr>\<rparr>"
  shows "cur_after c c' (take k ws) (drop k ws @ drop (length ws) (cur_rest c))"
    and "buf_store (cur_buf c) (cur_off c) ws = Inr (cur_buf c')"
proof -
  have wl: "length ws < 2 ^ 63"
    using len length_cur_rest_bound [OF wf] by simp
  have off: "unat (cur_off c + word_of_nat k) = unat (cur_off c) + k"
    using k wl by (intro unat_cur_off_add [OF wf]) simp
  have fit: "unat (cur_off c) + length ws \<le> length (cur_mem c)"
    using len wf by (elim cursor_wfE) (simp add: cur_rest_def)
  have c': "cur_off c' = cur_off c + word_of_nat k"
      "cur_mem c' = store_at (cur_mem c) (unat (cur_off c)) ws"
      "buf_bytes (cur_buf c') = Some (store_at (cur_mem c) (unat (cur_off c)) ws)"
      "buf_dec (cur_buf c') = buf_dec (cur_buf c)" "cur_size c' = cur_size c"
      "buf_size (cur_buf c') = buf_size (cur_buf c)" "cur_dec c' = cur_dec c"
    by (simp_all add: c'_def cur_mem_def cur_dec_def cur_size_def)
  have wf': "cursor_wf c'"
    using wf fit off k c'(2-)
    by (elim cursor_wfE) (simp add: cursor_wf_def buffer_wf_def c'(1) cur_size_def word_le_nat_alt)
  show "cur_after c c' (take k ws) (drop k ws @ drop (length ws) (cur_rest c))"
    using wf fit off k c'(2-)
    by (elim cursor_wfE)
      (simp add: wf' cur_after_def cur_done_def cur_rest_def c'(1) store_at_def add.commute)
  show "buf_store (cur_buf c) (cur_off c) ws = Inr (cur_buf c')"
    using wf fit
    by (elim cursor_wfE) (simp add: buf_store_def in_block_def c'_def)
qed

lemma cur_write_u32_eq:
  assumes "cursor_wf c" and "4 \<le> length (cur_rest c)"
  shows "\<exists>c'. cur_write_u32 c v = Inr (True, c') \<and>
    cur_after c c' (to_le 4 v) (drop 4 (cur_rest c))"
  using cur_store [OF assms(1), of "to_le 4 v" 4] cur_avail_iff [OF assms(1), of 4] assms(2)
  by (simp add: cur_write_u32_def set_u32_def require_avail)

lemma cur_write_cstr_eq:
  assumes E: "elm_array_spec E" and wf: "cursor_wf c"
    and len: "length s + 1 \<le> length (cur_rest c)"
  shows "\<exists>c'. cur_write_cstr E c s = Inr (True, c') \<and>
    cur_after c c' s (0 # drop (length s + 1) (cur_rest c))"
proof -
  have sl: "length s + 1 < 2 ^ 63"
    using len length_cur_rest_bound [OF wf] by simp
  have w: "word_of_nat (length s) + 1 = (word_of_nat (length s + 1) :: u64)"
    by simp
  have u: "unat (word_of_nat (length s) + 1 :: u64) = length s + 1"
    unfolding w by (rule unat_of_nat_64) (use sl in simp)
  have av: "cur_avail c (word_of_nat (length s) + 1)"
    unfolding w using cur_avail_iff [OF wf sl] len by simp
  have fit: "unat (cur_off c) + length (s @ [0]) \<le> length (cur_mem c)"
    using len wf by (elim cursor_wfE) (simp add: cur_rest_def)
  have cp: "arr_copy E (cur_mem c) (unat (cur_off c)) (s @ [0]) =
      store_at (cur_mem c) (unat (cur_off c)) (s @ [0])"
    using elm_array_specD(1) [OF E fit] .
  have "set_cstr E (cur_buf c) (cur_off c) s =
      Inr ((cur_buf c)\<lparr>buf_bytes := Some (store_at (cur_mem c) (unat (cur_off c)) (s @ [0]))\<rparr>)"
    using wf fit u cp require_avail [OF av]
    by (elim cursor_wfE) (simp add: set_cstr_def Let_def in_block_def)
  then show ?thesis
    using cur_store(1) [OF wf, of "s @ [0]" "length s"] len av
    by (simp add: cur_write_cstr_def)
qed

text \<open>A word written through \<open>unfix\<close> is the word that a read gives back.\<close>

context decoder_laws
begin

lemma write_read_u32:
  assumes wf: "cursor_wf c" and dec: "cur_dec c = d" and len: "4 \<le> length (cur_rest c)"
    and w: "cur_write_u32 c (unfix_u32 d v) = Inr (True, c')"
  shows "cur_read_u32 (c'\<lparr>cur_off := cur_off c\<rparr>) = Inr (Some v, c')"
proof -
  have av: "cur_avail c 4"
    using cur_avail_iff [OF wf, of 4] len by simp
  have fit: "unat (cur_off c) + 4 \<le> length (cur_mem c)"
    using len wf by (elim cursor_wfE) (simp add: cur_rest_def)
  have c': "c' = \<lparr>cur_off = cur_off c + 4, cur_buf = (cur_buf c)\<lparr>buf_bytes :=
      Some (store_at (cur_mem c) (unat (cur_off c)) (to_le 4 (unfix_u32 d v)))\<rparr>\<rparr>"
    using w wf av fit require_avail [OF av]
    by (elim cursor_wfE)
      (simp add: cur_write_u32_def set_u32_def buf_store_def in_block_def split: if_splits)
  show ?thesis
    using wf av fit dec
    by (elim cursor_wfE)
      (simp add: cur_read_u32_def get_u32_def c' buf_load_def in_block_def buf_decoder_def
        cur_avail_def cur_size_def fix_unfix32)
qed

end

end
