(* ===== verification/Elf_Core.thy ===== *)
theory Elf_Core
  imports Elf_Defs32 Elf_Defs64 Gel_Cursor Gel_File
begin

text \<open>
  What the two classes of ELF files share: the random access stream of ELM (a
  parameter, with its documented behaviour as \<open>rstream_spec\<close>),
  \<open>elf::File::read\<close> and \<open>readAt\<close> (\<open>src/elf_File.cpp\<close>), and the state of an
  \<open>elf::File\<close> object: its stream, header, the blocks its tables were read into,
  the program headers and sections built from them, the symbol table and the
  segments, each created on first use.
\<close>

section \<open>The random access stream\<close>

text \<open>
  \<open>rs_move p\<close> is \<open>moveTo(p)\<close>; \<open>rs_read n\<close> is \<open>read(buf, n)\<close> with its result and the
  bytes it wrote in the buffer; \<open>rs_back n\<close> is \<open>moveBackward(n)\<close>; \<open>rs_reset\<close> is
  \<open>resetPos()\<close>.
\<close>

record 's rstream =
  rs_move :: "nat \<Rightarrow> 's \<Rightarrow> bool \<times> 's"
  rs_read :: "nat \<Rightarrow> 's \<Rightarrow> int \<times> mem \<times> 's"
  rs_back :: "nat \<Rightarrow> 's \<Rightarrow> bool \<times> 's"
  rs_reset :: "'s \<Rightarrow> bool \<times> 's"

text \<open>
  The behaviour of a stream opened on a file: \<open>ct s\<close> is the content of the file,
  which reading does not change, \<open>ps s\<close> the current position.
\<close>

definition rstream_spec :: "'s rstream \<Rightarrow> ('s \<Rightarrow> mem) \<Rightarrow> ('s \<Rightarrow> nat) \<Rightarrow> bool" where
  "rstream_spec R ct ps \<longleftrightarrow>
     (\<forall>p s. p \<le> length (ct s) \<longrightarrow>
        fst (rs_move R p s) \<and> ct (snd (rs_move R p s)) = ct s \<and> ps (snd (rs_move R p s)) = p) \<and>
     (\<forall>p s. ct (snd (rs_move R p s)) = ct s) \<and>
     (\<forall>n s k bs s'. rs_read R n s = (k, bs, s') \<longrightarrow> ps s \<le> length (ct s) \<longrightarrow>
        k = int (min n (length (ct s) - ps s)) \<and> bs = bytes_at (ct s) (ps s) (nat k) \<and>
        ct s' = ct s \<and> ps s' = ps s + nat k) \<and>
     (\<forall>n s. n \<le> ps s \<longrightarrow> fst (rs_back R n s) \<and> ct (snd (rs_back R n s)) = ct s \<and>
        ps (snd (rs_back R n s)) = ps s - n) \<and>
     (\<forall>s. fst (rs_reset R s) \<and> ct (snd (rs_reset R s)) = ct s \<and> ps (snd (rs_reset R s)) = 0)"

text \<open>A stream on a block of memory satisfies it.\<close>

definition mem_stream :: "(mem \<times> nat) rstream" where
  "mem_stream =
     \<lparr>rs_move = (\<lambda>p (m, q). if p \<le> length m then (True, (m, p)) else (False, (m, q))),
      rs_read = (\<lambda>n (m, q). let k = min n (length m - q) in (int k, bytes_at m q k, (m, q + k))),
      rs_back = (\<lambda>n (m, q). if n \<le> q then (True, (m, q - n)) else (False, (m, q))),
      rs_reset = (\<lambda>(m, q). (True, (m, 0)))\<rparr>"

lemma mem_stream_spec: "rstream_spec mem_stream fst snd"
  by (auto simp: rstream_spec_def mem_stream_def Let_def)

text \<open>
  The code outside of the repository and the memory that \<open>new\<close> returns, the
  parameters of the model: the stream, the array primitives, and the content of
  memory that is not initialised yet.
\<close>

record 's elf_env =
  env_stream :: "'s rstream"
  env_array :: elm_array
  env_junk :: "nat \<Rightarrow> u8"

section \<open>Reading from the stream\<close>

text \<open>
  \<open>File::read\<close>: the bytes read replace the first bytes of the block; a stream
  that gives more bytes than the block can hold writes outside of it.
\<close>

definition elf_read :: "'s rstream \<Rightarrow> mem \<Rightarrow> u32 \<Rightarrow> ('s, mem) stm" where
  "elf_read R blk n s =
     (case rs_read R (unat n) s of (k, bs, s') \<Rightarrow>
        if length blk < length bs then (Inl Memory_Fault, s')
        else if (word_of_int k :: u32) \<noteq> n then (Inl (Throw (Cannot_Read n)), s')
        else (Inr (store_at blk 0 bs), s'))"

definition elf_readAt :: "'s rstream \<Rightarrow> u32 \<Rightarrow> mem \<Rightarrow> u32 \<Rightarrow> ('s, mem) stm" where
  "elf_readAt R pos blk n s =
     (case rs_move R (unat pos) s of (ok, s') \<Rightarrow>
        if \<not> ok then (Inl (Throw (Cannot_Move pos)), s') else elf_read R blk n s')"

lemma elf_readAt_ok:
  assumes R: "rstream_spec R ct ps" and fit: "unat pos + unat n \<le> length (ct s)"
    and blk: "unat n \<le> length blk"
  shows "\<exists>s'. elf_readAt R pos blk n s =
    (Inr (store_at blk 0 (bytes_at (ct s) (unat pos) (unat n))), s') \<and> ct s' = ct s"
proof -
  obtain ok s1 where mv: "rs_move R (unat pos) s = (ok, s1)"
    by (cases "rs_move R (unat pos) s")
  have s1: "ok" "ct s1 = ct s" "ps s1 = unat pos"
    using R fit mv unfolding rstream_spec_def by (metis add_leD1 fst_conv snd_conv)+
  obtain k bs s2 where rd: "rs_read R (unat n) s1 = (k, bs, s2)"
    by (cases "rs_read R (unat n) s1") auto
  have "k = int (min (unat n) (length (ct s1) - ps s1)) \<and>
      bs = bytes_at (ct s1) (ps s1) (nat k) \<and> ct s2 = ct s1"
    using R rd s1 fit unfolding rstream_spec_def by (metis add_leD1)
  moreover have "min (unat n) (length (ct s) - unat pos) = unat n"
    using fit by linarith
  ultimately have "k = int (unat n)" "bs = bytes_at (ct s) (unat pos) (unat n)" "ct s2 = ct s"
    using s1 by simp_all
  then show ?thesis
    using mv rd s1 blk fit by (simp add: elf_readAt_def elf_read_def)
qed

lemma elf_readAt_short:
  assumes R: "rstream_spec R ct ps" and pos: "unat pos \<le> length (ct s)"
    and short: "length (ct s) < unat pos + unat n" and blk: "unat n \<le> length blk"
  shows "\<exists>s'. elf_readAt R pos blk n s = (Inl (Throw (Cannot_Read n)), s') \<and> ct s' = ct s"
proof -
  obtain ok s1 where mv: "rs_move R (unat pos) s = (ok, s1)"
    by (cases "rs_move R (unat pos) s")
  have s1: "ok" "ct s1 = ct s" "ps s1 = unat pos"
    using R pos mv unfolding rstream_spec_def by (metis fst_conv snd_conv)+
  obtain k bs s2 where rd: "rs_read R (unat n) s1 = (k, bs, s2)"
    by (cases "rs_read R (unat n) s1") auto
  have "k = int (min (unat n) (length (ct s1) - ps s1)) \<and>
      bs = bytes_at (ct s1) (ps s1) (nat k) \<and> ct s2 = ct s1"
    using R rd s1 pos unfolding rstream_spec_def by metis
  moreover define j where "j = length (ct s) - unat pos"
  moreover have j: "j < unat n" "min (unat n) (length (ct s) - unat pos) = j"
    using pos short unfolding j_def by linarith+
  ultimately have k: "k = int j" "bs = bytes_at (ct s) (unat pos) j" "ct s2 = ct s"
    using s1 by simp_all
  have lb: "length bs = j"
    using k(2) pos by (simp add: j_def)
  have "unat n < 2 ^ 32"
    using unsigned_less [of n, where ?'a = nat] by simp
  then have "unat (word_of_nat j :: u32) = j"
    using j(1) by (simp add: unat_of_nat)
  then have "(word_of_nat j :: u32) \<noteq> n"
    using j(1) by auto
  then show ?thesis
    using mv rd s1 blk k lb j(1) by (simp add: elf_readAt_def elf_read_def)
qed

text \<open>The same when the block has the size of what is read.\<close>

lemma store_at_whole: "length bs = length m \<Longrightarrow> store_at m 0 bs = bs"
  by (simp add: store_at_def)

lemma elf_readAt_whole:
  assumes "rstream_spec R ct ps" and "unat pos + unat n \<le> length (ct s)" and "length blk = unat n"
  obtains s' where "elf_readAt R pos blk n s = (Inr (bytes_at (ct s) (unat pos) (unat n)), s')"
    and "ct s' = ct s"
proof -
  have "store_at blk 0 (bytes_at (ct s) (unat pos) (unat n)) = bytes_at (ct s) (unat pos) (unat n)"
    by (rule store_at_whole) (use assms in simp)
  then show ?thesis
    using elf_readAt_ok [OF assms(1,2), of blk] assms(3) that by auto
qed

lemma alloc_u32: "alloc junk (unat (w :: u32)) = Inr (new_block junk (unat w))"
proof -
  have "unat w < 2 ^ 32"
    using unsigned_less [of w, where ?'a = nat] by simp
  then show ?thesis by (simp add: alloc_def)
qed

lemma unat_ucast_u32:
  "unat (w :: u64) < 2 ^ 32 \<Longrightarrow> unat (ucast w :: u32) = unat w"
  by (simp add: unsigned_ucast_eq take_bit_nat_eq_self)

text \<open>The test for garbage at the end of a table.\<close>

lemma word_div_mult_iff: "a div b * b = a \<longleftrightarrow> unat b dvd unat (a :: 'a::len word)"
proof -
  have le: "unat a div unat b * unat b \<le> unat a"
    by (rule div_times_less_eq_dividend)
  then have "unat a div unat b * unat b < 2 ^ LENGTH('a)"
    using unsigned_less [of a, where ?'a = nat] by linarith
  then have "unat (a div b * b) = unat a div unat b * unat b"
    using unat_mult_lem [of "a div b" b] by (simp add: unat_div)
  then show ?thesis
    by (metis dvd_div_mult_self dvd_triv_right word_unat_eq_iff)
qed

section \<open>The state of an ELF file\<close>

datatype elf_header = H32 Elf32_Ehdr | H64 Elf64_Ehdr
datatype phdr_info = PH32 Elf32_Phdr | PH64 Elf64_Phdr
datatype shdr_info = SH32 Elf32_Shdr | SH64 Elf64_Shdr

text \<open>Program headers and sections keep the block of their content once it is read.\<close>

record ProgramHeader =
  ph_info :: phdr_info
  ph_cache :: "mem option"

record Section =
  sec_info :: shdr_info
  sec_cache :: "mem option"

text \<open>
  A symbol points to its entry in one of the blocks recorded by the symbol table.
\<close>

record symbol =
  sym_is64 :: bool
  sym_mem :: nat
  sym_off :: nat

record symbol_table =
  st_mems :: "mem list"
  st_map :: "u8 list \<Rightarrow> symbol option"

definition empty_symbol_table :: symbol_table where
  "empty_symbol_table = \<lparr>st_mems = [], st_map = Map.empty\<rparr>"

record 's elf_file =
  el_s :: 's
  el_head :: elf_header
  el_sec_buf :: "mem option"
  el_ph_buf :: "mem option"
  el_ph_loaded :: bool
  el_phs :: "ProgramHeader list"
  el_sects_loaded :: bool
  el_sects :: "Section list"
  el_syms :: "symbol_table option"
  el_segs :: "nat list"
  el_segs_init :: bool

text \<open>The constructor of \<open>elf::File\<close>, for the header read by the subclass.\<close>

definition new_elf_file :: "'s \<Rightarrow> elf_header \<Rightarrow> 's elf_file" where
  "new_elf_file s h =
     \<lparr>el_s = s, el_head = h, el_sec_buf = None, el_ph_buf = None, el_ph_loaded = False,
      el_phs = [], el_sects_loaded = False, el_sects = [], el_syms = None, el_segs = [],
      el_segs_init = False\<rparr>"

fun elf_ident :: "elf_header \<Rightarrow> u8 list" where
  "elf_ident (H32 h) = e_ident32 h"
| "elf_ident (H64 h) = e_ident64 h"

definition file_decoder :: "'s elf_file \<Rightarrow> decoder" where
  "file_decoder f = elf_decoder (elf_ident (el_head f) ! EI_DATA)"

text \<open>A stream operation as an operation of the file.\<close>

definition on_stream :: "('s, 'a) stm \<Rightarrow> ('s elf_file, 'a) stm" where
  "on_stream g f = (case g (el_s f) of (r, s) \<Rightarrow> (r, f\<lparr>el_s := s\<rparr>))"

lemma on_stream_eq [simp]: "g (el_s f) = (r, s) \<Longrightarrow> on_stream g f = (r, f\<lparr>el_s := s\<rparr>)"
  by (simp add: on_stream_def)

text \<open>The product of two 16-bit fields is computed with C's \<open>int\<close>.\<close>

definition int_mul16 :: "u16 \<Rightarrow> u16 \<Rightarrow> nat res" where
  "int_mul16 a b =
     (if unat a * unat b < 2 ^ 31 then Inr (unat a * unat b) else Inl Integer_Overflow)"

text \<open>
  The loop over a symbol table (\<open>while(c.avail(entsize))\<close>) that converts its
  entries in place. The guard on \<open>ent\<close> is the division that precedes the loop.
\<close>

function sym_loop :: "decoder \<Rightarrow> fields \<Rightarrow> nat \<Rightarrow> nat \<Rightarrow> nat \<Rightarrow> mem \<Rightarrow> mem res" where
  "sym_loop d fs ent len off m =
     (if 0 < ent \<and> off + ent \<le> len
      then rbind (fix_fields d off fs m) (\<lambda>m'. sym_loop d fs ent len (off + ent) m') else Inr m)"
  by pat_completeness auto
termination
  by (relation "measure (\<lambda>(d, fs, ent, len, off, m). len - off)") auto

declare sym_loop.simps [simp del]

lemma sym_loop_eq_table:
  "0 < ent \<Longrightarrow> len = (i + k) * ent \<Longrightarrow> sym_loop d fs ent len (i * ent) m = fix_table d fs ent i k m"
proof (induction k arbitrary: i m)
  case 0
  then show ?case by (simp add: sym_loop.simps [of d fs ent "i * ent" "i * ent"])
next
  case (Suc k)
  have "i * ent + ent \<le> len"
    using Suc.prems by (simp add: algebra_simps)
  moreover have "sym_loop d fs ent len (i * ent + ent) m' = fix_table d fs ent (Suc i) k m'" for m'
    using Suc.IH [of "Suc i" m'] Suc.prems by (simp add: add.commute)
  ultimately show ?case
    using Suc.prems(1) by (simp add: sym_loop.simps [of d fs ent len "i * ent"] cong: rbind_cong)
qed

section \<open>Filling the symbol table\<close>

text \<open>
  \<open>symtab.record(buf)\<close>: the block is kept by the symbol table of the file; the
  result is its index.
\<close>

definition record_block :: "mem \<Rightarrow> ('s elf_file, nat) stm" where
  "record_block b f =
     (case el_syms f of
        None \<Rightarrow> (Inl Memory_Fault, f)
      | Some t \<Rightarrow>
          (Inr (length (st_mems t)), f\<lparr>el_syms := Some (t\<lparr>st_mems := st_mems t @ [b]\<rparr>)\<rparr>))"

text \<open>The in-place conversion of the symbol at offset \<open>off\<close> of the block \<open>i\<close>.\<close>

definition fix_symbol :: "fields \<Rightarrow> nat \<Rightarrow> nat \<Rightarrow> ('s elf_file, mem) stm" where
  "fix_symbol fs i off f =
     (case el_syms f of
        None \<Rightarrow> (Inl Memory_Fault, f)
      | Some t \<Rightarrow>
          (case fix_fields (file_decoder f) off fs (st_mems t ! i) of
             Inl e \<Rightarrow> (Inl e, f)
           | Inr m \<Rightarrow> (Inr m, f\<lparr>el_syms := Some (t\<lparr>st_mems := (st_mems t)[i := m]\<rparr>)\<rparr>)))"

definition put_symbol :: "u8 list \<Rightarrow> symbol \<Rightarrow> ('s elf_file, unit) stm" where
  "put_symbol x s f =
     (case el_syms f of
        None \<Rightarrow> (Inl Memory_Fault, f)
      | Some t \<Rightarrow> (Inr (), f\<lparr>el_syms := Some (t\<lparr>st_map := (st_map t)(x \<mapsto> s)\<rparr>)\<rparr>))"

text \<open>
  The loop of \<open>fillSymbolTable\<close> on a block of \<open>len\<close> bytes: convert the entry, look
  its name up, put the symbol in the table. \<open>st_name\<close> is the first word of the
  entry in both classes.
\<close>

function fill_loop ::
  "(u64 \<Rightarrow> ('s elf_file, u8 list) stm) \<Rightarrow> bool \<Rightarrow> fields \<Rightarrow> nat \<Rightarrow> nat \<Rightarrow> nat \<Rightarrow> nat \<Rightarrow>
   ('s elf_file, unit) stm" where
  "fill_loop str is64 fs ent len i off =
     (if 0 < ent \<and> off + ent \<le> len then
        sbind (fix_symbol fs i off) (\<lambda>m.
        sbind (str (ucast (load32 m off))) (\<lambda>x.
        sbind (put_symbol x \<lparr>sym_is64 = is64, sym_mem = i, sym_off = off\<rparr>) (\<lambda>_.
          fill_loop str is64 fs ent len i (off + ent))))
      else sreturn ())"
  by pat_completeness auto
termination
  by (relation "measure (\<lambda>(str, is64, fs, ent, len, i, off). len - off)") auto

declare fill_loop.simps [simp del]

text \<open>An entry of the dynamic section, as \<open>File::dyn_t\<close>.\<close>

record dyn_t =
  dyn_tag :: u32
  dyn_val :: u64

end
