(* ===== verification/Pecoff_File.thy ===== *)
theory Pecoff_File
  imports Gel_File Elf_Core
begin

text \<open>
  \<open>include/gel++/pecoff/File.h\<close> and \<open>src/pecoff_File.cpp\<close>: the files of Windows. The
  headers are read by the constructor; names, contents and flags of the sections on
  demand. The host is little endian, so that \<open>swap\<close> does nothing. A header block is
  kept as the bytes that were read, and its fields are loads in that block.
\<close>

section \<open>Constants\<close>

definition PE_MSDOS_OFFSET :: nat where "PE_MSDOS_OFFSET = 0x3C"
definition PE_MAGIC :: mem where "PE_MAGIC = [0x50, 0x45, 0, 0]"
definition PE32 :: u16 where "PE32 = 0x10b"
definition PE32P :: u16 where "PE32P = 0x20b"

definition IMAGE_FILE_MACHINE_UNKNOWN :: u16 where "IMAGE_FILE_MACHINE_UNKNOWN = 0x0"
definition IMAGE_FILE_MACHINE_AM33 :: u16 where "IMAGE_FILE_MACHINE_AM33 = 0x1d3"
definition IMAGE_FILE_MACHINE_AMD64 :: u16 where "IMAGE_FILE_MACHINE_AMD64 = 0x8664"
definition IMAGE_FILE_MACHINE_ARM :: u16 where "IMAGE_FILE_MACHINE_ARM = 0x1c0"
definition IMAGE_FILE_MACHINE_ARMNT :: u16 where "IMAGE_FILE_MACHINE_ARMNT = 0x1c4"
definition IMAGE_FILE_MACHINE_ARM64 :: u16 where "IMAGE_FILE_MACHINE_ARM64 = 0xaa64"
definition IMAGE_FILE_MACHINE_EBC :: u16 where "IMAGE_FILE_MACHINE_EBC = 0xebc"
definition IMAGE_FILE_MACHINE_I386 :: u16 where "IMAGE_FILE_MACHINE_I386 = 0x14c"
definition IMAGE_FILE_MACHINE_IA64 :: u16 where "IMAGE_FILE_MACHINE_IA64 = 0x200"
definition IMAGE_FILE_MACHINE_LOONGARCH32 :: u16 where "IMAGE_FILE_MACHINE_LOONGARCH32 = 0x6232"
definition IMAGE_FILE_MACHINE_M32R :: u16 where "IMAGE_FILE_MACHINE_M32R = 0x9041"
definition IMAGE_FILE_MACHINE_MIPS16 :: u16 where "IMAGE_FILE_MACHINE_MIPS16 = 0x266"
definition IMAGE_FILE_MACHINE_MIPSFPU :: u16 where "IMAGE_FILE_MACHINE_MIPSFPU = 0x366"
definition IMAGE_FILE_MACHINE_MIPSFPU16 :: u16 where "IMAGE_FILE_MACHINE_MIPSFPU16 = 0x466"
definition IMAGE_FILE_MACHINE_POWERPC :: u16 where "IMAGE_FILE_MACHINE_POWERPC = 0x1f0"
definition IMAGE_FILE_MACHINE_POWERPCFP :: u16 where "IMAGE_FILE_MACHINE_POWERPCFP = 0x1f1"
definition IMAGE_FILE_MACHINE_R4000 :: u16 where "IMAGE_FILE_MACHINE_R4000 = 0x166"
definition IMAGE_FILE_MACHINE_RISCV32 :: u16 where "IMAGE_FILE_MACHINE_RISCV32 = 0x5032"
definition IMAGE_FILE_MACHINE_RISCV64 :: u16 where "IMAGE_FILE_MACHINE_RISCV64 = 0x5064"
definition IMAGE_FILE_MACHINE_RISCV128 :: u16 where "IMAGE_FILE_MACHINE_RISCV128 = 0x5128"
definition IMAGE_FILE_MACHINE_SH3 :: u16 where "IMAGE_FILE_MACHINE_SH3 = 0x1a2"
definition IMAGE_FILE_MACHINE_SH3DSP :: u16 where "IMAGE_FILE_MACHINE_SH3DSP = 0x1a3"
definition IMAGE_FILE_MACHINE_SH4 :: u16 where "IMAGE_FILE_MACHINE_SH4 = 0x1a6"
definition IMAGE_FILE_MACHINE_SH5 :: u16 where "IMAGE_FILE_MACHINE_SH5 = 0x1a8"
definition IMAGE_FILE_MACHINE_THUMB :: u16 where "IMAGE_FILE_MACHINE_THUMB = 0x1c2"
definition IMAGE_FILE_MACHINE_WCEMIPSV2 :: u16 where "IMAGE_FILE_MACHINE_WCEMIPSV2 = 0x169"

definition IMAGE_FILE_EXECUTABLE_IMAGE :: u16 where "IMAGE_FILE_EXECUTABLE_IMAGE = 0x0002"
definition IMAGE_FILE_32BIT_MACHINE :: u16 where "IMAGE_FILE_32BIT_MACHINE = 0x0100"
definition IMAGE_FILE_DLL :: u16 where "IMAGE_FILE_DLL = 0x2000"
definition IMAGE_SCN_CNT_INITIALIZED_DATA :: u32 where "IMAGE_SCN_CNT_INITIALIZED_DATA = 0x00000040"
definition IMAGE_SCN_LNK_REMOVE :: u32 where "IMAGE_SCN_LNK_REMOVE = 0x00000800"
definition IMAGE_SCN_ALIGN_1BYTES :: u32 where "IMAGE_SCN_ALIGN_1BYTES = 0x00100000"
definition IMAGE_SCN_MEM_DISCARDABLE :: u32 where "IMAGE_SCN_MEM_DISCARDABLE = 0x02000000"
definition IMAGE_SCN_MEM_EXECUTE :: u32 where "IMAGE_SCN_MEM_EXECUTE = 0x20000000"
definition IMAGE_SCN_MEM_READ :: u32 where "IMAGE_SCN_MEM_READ = 0x40000000"
definition IMAGE_SCN_MEM_WRITE :: u32 where "IMAGE_SCN_MEM_WRITE = 0x80000000"

text \<open>The flags of a section of \<open>gel::File\<close>.\<close>

definition IS_EXECUTABLE_SECTION :: u32 where "IS_EXECUTABLE_SECTION = 0x0001"
definition IS_WRITABLE_SECTION :: u32 where "IS_WRITABLE_SECTION = 0x0002"
definition IS_READABLE_SECTION :: u32 where "IS_READABLE_SECTION = 0x0004"
definition HAS_CONTENT :: u32 where "HAS_CONTENT = 0x0008"
definition IS_LOADABLE :: u32 where "IS_LOADABLE = 0x0010"

text \<open>The two tables of machines.\<close>

definition pe_machine_table :: "(u16 \<times> string) list" where
  "pe_machine_table =
    [(IMAGE_FILE_MACHINE_AM33, ''Matsushita AM33''),
     (IMAGE_FILE_MACHINE_ARM, ''ARM''),
     (IMAGE_FILE_MACHINE_ARMNT, ''ARM Thumb-2''),
     (IMAGE_FILE_MACHINE_ARM64, ''ARM64''),
     (IMAGE_FILE_MACHINE_EBC, ''EFI byte-code''),
     (IMAGE_FILE_MACHINE_I386, ''Intel 386''),
     (IMAGE_FILE_MACHINE_IA64, ''Intel Itanium''),
     (IMAGE_FILE_MACHINE_LOONGARCH32, ''LoongArch''),
     (IMAGE_FILE_MACHINE_M32R, ''Mitsubishi M32R''),
     (IMAGE_FILE_MACHINE_MIPS16, ''MIPS16''),
     (IMAGE_FILE_MACHINE_MIPSFPU, ''MIPS with FPU''),
     (IMAGE_FILE_MACHINE_MIPSFPU16, ''MIPS16 with FPU''),
     (IMAGE_FILE_MACHINE_POWERPC, ''Power PC''),
     (IMAGE_FILE_MACHINE_POWERPCFP, ''Power PC with FPU''),
     (IMAGE_FILE_MACHINE_R4000, ''MIPS''),
     (IMAGE_FILE_MACHINE_RISCV32, ''RISC-V 32-bit''),
     (IMAGE_FILE_MACHINE_RISCV64, ''RISC-V 64-bit''),
     (IMAGE_FILE_MACHINE_RISCV128, ''RISC-V 128-bit''),
     (IMAGE_FILE_MACHINE_SH3, ''Hitachi SH3''),
     (IMAGE_FILE_MACHINE_SH3DSP, ''Hitachi SH3 DSP''),
     (IMAGE_FILE_MACHINE_SH4, ''Hitachi SH4''),
     (IMAGE_FILE_MACHINE_SH5, ''Hitachi SH5''),
     (IMAGE_FILE_MACHINE_THUMB, ''Thumb''),
     (IMAGE_FILE_MACHINE_WCEMIPSV2, ''MIPS WCET v2'')]"

definition pe_elf_table :: "(u16 \<times> int) list" where
  "pe_elf_table =
    [(IMAGE_FILE_MACHINE_AM33, 89),
     (IMAGE_FILE_MACHINE_ARM, 40),
     (IMAGE_FILE_MACHINE_ARMNT, 40),
     (IMAGE_FILE_MACHINE_ARM64, 183),
     (IMAGE_FILE_MACHINE_EBC, 0),
     (IMAGE_FILE_MACHINE_I386, 3),
     (IMAGE_FILE_MACHINE_IA64, 50),
     (IMAGE_FILE_MACHINE_LOONGARCH32, 258),
     (IMAGE_FILE_MACHINE_M32R, 88),
     (IMAGE_FILE_MACHINE_MIPS16, 8),
     (IMAGE_FILE_MACHINE_MIPSFPU, 8),
     (IMAGE_FILE_MACHINE_MIPSFPU16, 8),
     (IMAGE_FILE_MACHINE_POWERPC, 20),
     (IMAGE_FILE_MACHINE_POWERPCFP, 20),
     (IMAGE_FILE_MACHINE_R4000, 8),
     (IMAGE_FILE_MACHINE_RISCV32, 243),
     (IMAGE_FILE_MACHINE_RISCV64, 243),
     (IMAGE_FILE_MACHINE_RISCV128, 243),
     (IMAGE_FILE_MACHINE_SH3, 42),
     (IMAGE_FILE_MACHINE_SH3DSP, 42),
     (IMAGE_FILE_MACHINE_SH4, 42),
     (IMAGE_FILE_MACHINE_SH5, 42),
     (IMAGE_FILE_MACHINE_THUMB, 40),
     (IMAGE_FILE_MACHINE_WCEMIPSV2, 8)]"

lemmas pe_machines =
  IMAGE_FILE_MACHINE_UNKNOWN_def
  IMAGE_FILE_MACHINE_AM33_def
  IMAGE_FILE_MACHINE_AMD64_def
  IMAGE_FILE_MACHINE_ARM_def
  IMAGE_FILE_MACHINE_ARMNT_def
  IMAGE_FILE_MACHINE_ARM64_def
  IMAGE_FILE_MACHINE_EBC_def
  IMAGE_FILE_MACHINE_I386_def
  IMAGE_FILE_MACHINE_IA64_def
  IMAGE_FILE_MACHINE_LOONGARCH32_def
  IMAGE_FILE_MACHINE_M32R_def
  IMAGE_FILE_MACHINE_MIPS16_def
  IMAGE_FILE_MACHINE_MIPSFPU_def
  IMAGE_FILE_MACHINE_MIPSFPU16_def
  IMAGE_FILE_MACHINE_POWERPC_def
  IMAGE_FILE_MACHINE_POWERPCFP_def
  IMAGE_FILE_MACHINE_R4000_def
  IMAGE_FILE_MACHINE_RISCV32_def
  IMAGE_FILE_MACHINE_RISCV64_def
  IMAGE_FILE_MACHINE_RISCV128_def
  IMAGE_FILE_MACHINE_SH3_def
  IMAGE_FILE_MACHINE_SH3DSP_def
  IMAGE_FILE_MACHINE_SH4_def
  IMAGE_FILE_MACHINE_SH5_def
  IMAGE_FILE_MACHINE_THUMB_def
  IMAGE_FILE_MACHINE_WCEMIPSV2_def
section \<open>Structures\<close>

record coff_header_t =
  ch_signature :: "u8 list"
  ch_machine :: u16
  ch_number_of_sections :: u16
  ch_time_date_stamp :: u32
  ch_pointer_to_symbol_table :: u32
  ch_number_of_symbols :: u32
  ch_size_of_optional_header :: u16
  ch_characteristics :: u16

definition sizeof_coff_header :: nat where "sizeof_coff_header = 24"

definition load_coff_header :: "mem \<Rightarrow> coff_header_t" where
  "load_coff_header m =
     \<lparr>ch_signature = bytes_at m 0 4, ch_machine = load16 m 4, ch_number_of_sections = load16 m 6,
      ch_time_date_stamp = load32 m 8, ch_pointer_to_symbol_table = load32 m 12,
      ch_number_of_symbols = load32 m 16, ch_size_of_optional_header = load16 m 20,
      ch_characteristics = load16 m 22\<rparr>"

record standard_coff_fields_t =
  sf_magic :: u16
  sf_major_linker_version :: u8
  sf_minor_linker_version :: u8
  sf_size_of_code :: u32
  sf_size_of_initialized_data :: u32
  sf_size_of_unitialized_data :: u32
  sf_address_of_entry_point :: u32
  sf_base_of_code :: u32
  sf_base_of_data :: u32

definition sizeof_standard_fields :: nat where "sizeof_standard_fields = 28"

definition load_standard_fields :: "mem \<Rightarrow> standard_coff_fields_t" where
  "load_standard_fields m =
     \<lparr>sf_magic = load16 m 0, sf_major_linker_version = m ! 2, sf_minor_linker_version = m ! 3,
      sf_size_of_code = load32 m 4, sf_size_of_initialized_data = load32 m 8,
      sf_size_of_unitialized_data = load32 m 12, sf_address_of_entry_point = load32 m 16,
      sf_base_of_code = load32 m 20, sf_base_of_data = load32 m 24\<rparr>"

record windows_specific_fields_t =
  wf_image_base :: u64
  wf_section_alignment :: u32
  wf_file_alignment :: u32
  wf_major_operating_system_version :: u16
  wf_minor_operating_system_version :: u16
  wf_major_image_version :: u16
  wf_minor_image_version :: u16
  wf_major_subsystem_version :: u16
  wf_minor_subsystem_version :: u16
  wf_win32_version_value :: u32
  wf_size_of_image :: u32
  wf_size_of_headers :: u32
  wf_checksum :: u32
  wf_subsystem :: u16
  wf_dll_characteristics :: u16
  wf_size_of_stack_reserve :: u64
  wf_size_of_stack_commit :: u64
  wf_size_of_heap_reserve :: u64
  wf_size_of_heap_commit :: u64
  wf_loader_flags :: u32
  wf_number_of_rva_and_sizes :: u32

definition sizeof_windows_fields :: nat where "sizeof_windows_fields = 88"
definition sizeof_windows_fields_32 :: nat where "sizeof_windows_fields_32 = 68"

definition load_windows_fields :: "mem \<Rightarrow> windows_specific_fields_t" where
  "load_windows_fields m =
     \<lparr>wf_image_base = load64 m 0, wf_section_alignment = load32 m 8,
      wf_file_alignment = load32 m 12, wf_major_operating_system_version = load16 m 16,
      wf_minor_operating_system_version = load16 m 18, wf_major_image_version = load16 m 20,
      wf_minor_image_version = load16 m 22, wf_major_subsystem_version = load16 m 24,
      wf_minor_subsystem_version = load16 m 26, wf_win32_version_value = load32 m 28,
      wf_size_of_image = load32 m 32, wf_size_of_headers = load32 m 36,
      wf_checksum = load32 m 40, wf_subsystem = load16 m 44, wf_dll_characteristics = load16 m 46,
      wf_size_of_stack_reserve = load64 m 48, wf_size_of_stack_commit = load64 m 56,
      wf_size_of_heap_reserve = load64 m 64, wf_size_of_heap_commit = load64 m 72,
      wf_loader_flags = load32 m 80, wf_number_of_rva_and_sizes = load32 m 84\<rparr>"

text \<open>The fields of PE32, read in \<open>windows_specific_fields_32_t\<close> and copied one by one.\<close>

definition load_windows_fields_32 :: "mem \<Rightarrow> windows_specific_fields_t" where
  "load_windows_fields_32 m =
     \<lparr>wf_image_base = ucast (load32 m 0), wf_section_alignment = load32 m 4,
      wf_file_alignment = load32 m 8, wf_major_operating_system_version = load16 m 12,
      wf_minor_operating_system_version = load16 m 14, wf_major_image_version = load16 m 16,
      wf_minor_image_version = load16 m 18, wf_major_subsystem_version = load16 m 20,
      wf_minor_subsystem_version = load16 m 22, wf_win32_version_value = load32 m 24,
      wf_size_of_image = load32 m 28, wf_size_of_headers = load32 m 32,
      wf_checksum = load32 m 36, wf_subsystem = load16 m 40, wf_dll_characteristics = load16 m 42,
      wf_size_of_stack_reserve = ucast (load32 m 44), wf_size_of_stack_commit = ucast (load32 m 48),
      wf_size_of_heap_reserve = ucast (load32 m 52), wf_size_of_heap_commit = ucast (load32 m 56),
      wf_loader_flags = load32 m 60, wf_number_of_rva_and_sizes = load32 m 64\<rparr>"

record section_header_t =
  hd_name :: "u8 list"
  hd_virtual_size :: u32
  hd_virtual_address :: u32
  hd_size_of_raw_data :: u32
  hd_pointer_to_raw_data :: u32
  hd_pointer_to_relocations :: u32
  hd_pointer_to_line_numbers :: u32
  hd_number_of_relocations :: u16
  hd_number_of_line_numbers :: u16
  hd_characteristics :: u32

definition sizeof_section_header :: nat where "sizeof_section_header = 40"
definition sizeof_data_directory :: nat where "sizeof_data_directory = 8"

definition load_section_header :: "mem \<Rightarrow> nat \<Rightarrow> section_header_t" where
  "load_section_header m a =
     \<lparr>hd_name = bytes_at m a 8, hd_virtual_size = load32 m (a + 8),
      hd_virtual_address = load32 m (a + 12), hd_size_of_raw_data = load32 m (a + 16),
      hd_pointer_to_raw_data = load32 m (a + 20), hd_pointer_to_relocations = load32 m (a + 24),
      hd_pointer_to_line_numbers = load32 m (a + 28), hd_number_of_relocations = load16 m (a + 32),
      hd_number_of_line_numbers = load16 m (a + 34), hd_characteristics = load32 m (a + 36)\<rparr>"

section \<open>Files\<close>

text \<open>
  The section of index \<open>i\<close> points to the header of index \<open>i\<close> of the table. Its flags are
  \<open>- 1\<close> as long as they are not computed.
\<close>

record pe_section =
  ps_name :: "u8 list"
  ps_buf :: "mem option"
  ps_flags :: u32

definition pe_section_new :: pe_section where
  "pe_section_new = \<lparr>ps_name = [], ps_buf = None, ps_flags = - 1\<rparr>"

record 's pe_file =
  pe_s :: 's
  pe_coff :: coff_header_t
  pe_std :: standard_coff_fields_t
  pe_win :: windows_specific_fields_t
  pe_dirs :: mem
  pe_table :: mem
  pe_strings :: "mem option"
  pe_strings_size :: u32
  pe_sects :: "pe_section list"

text \<open>
  What is outside of the repository: the stream (with \<open>px_neg\<close> for a read of a negative
  number of bytes), the array primitives, the content of fresh memory, the hexadecimal
  output of a byte and the input of a number from a string.
\<close>

record 's pe_env =
  px_stream :: "'s rstream"
  px_neg :: "int \<Rightarrow> 's \<Rightarrow> int \<times> mem \<times> 's"
  px_array :: elm_array
  px_junk :: "nat \<Rightarrow> u8"
  px_hex :: "u8 \<Rightarrow> u8 list"
  px_number :: "u8 list \<Rightarrow> u32 option"

text \<open>
  \<open>File::read\<close> in a block: the result, the block after the read (changed also when the
  read is short) and the stream.
\<close>

definition pe_fill :: "'s pe_env \<Rightarrow> mem \<Rightarrow> int \<Rightarrow> 's \<Rightarrow> unit res \<times> mem \<times> 's" where
  "pe_fill X blk len s =
     (case (if len < 0 then px_neg X len s else rs_read (px_stream X) (nat len) s) of (k, bs, s') \<Rightarrow>
        if length blk < length bs then (Inl Memory_Fault, blk, s')
        else
          (if k < 0 then Inl (Throw PE_IO_Error)
           else if k \<noteq> len then Inl (Throw (PE_Short_Read (nat len) k))
           else Inr (), store_at blk 0 bs, s'))"

definition pe_read :: "'s pe_env \<Rightarrow> mem \<Rightarrow> int \<Rightarrow> ('s, mem) stm" where
  "pe_read X blk len s =
     (case pe_fill X blk len s of
        (Inl e, _, s') \<Rightarrow> (Inl e, s') | (Inr _, blk', s') \<Rightarrow> (Inr blk', s'))"

definition pe_move :: "'s pe_env \<Rightarrow> nat \<Rightarrow> ('s, unit) stm" where
  "pe_move X off s =
     (case rs_move (px_stream X) off s of (ok, s') \<Rightarrow>
        (if ok then Inr () else Inl (Throw PE_IO_Error), s'))"

text \<open>The conversion of a \<open>size_t\<close> to the \<open>int\<close> of \<open>read\<close>.\<close>

definition to_int :: "nat \<Rightarrow> int" where
  "to_int n = sint (word_of_nat n :: u32)"

fun escape_char :: "(u8 \<Rightarrow> u8 list) \<Rightarrow> u8 \<Rightarrow> u8 list" where
  "escape_char hx c =
     (if 32 \<le> c \<and> c < 128 then [c]
      else if c = 0 then str_bytes [CHR 0x5C, CHR ''0'']
      else if c = 10 then str_bytes [CHR 0x5C, CHR ''n'']
      else if c = 9 then str_bytes [CHR 0x5C, CHR ''t'']
      else if c = 13 then str_bytes [CHR 0x5C, CHR ''r'']
      else str_bytes [CHR 0x5C, CHR ''x''] @ hx c)"

definition escape :: "(u8 \<Rightarrow> u8 list) \<Rightarrow> u8 list \<Rightarrow> u8 list" where
  "escape hx s = concat (map (escape_char hx) s)"

definition pe_matches :: "u8 list \<Rightarrow> bool" where
  "pe_matches magic \<longleftrightarrow> magic ! 0 = 0x4D \<and> magic ! 1 = 0x5A"

text \<open>The constructor, step by step.\<close>

definition pe_read_coff :: "'s pe_env \<Rightarrow> ('s, coff_header_t) stm" where
  "pe_read_coff X =
     sbind (pe_move X PE_MSDOS_OFFSET) (\<lambda>_.
     sbind (pe_read X (new_block (px_junk X) 4) 4) (\<lambda>o'.
     sbind (pe_move X (unat (load32 o' 0))) (\<lambda>_.
     sbind (pe_read X (new_block (px_junk X) sizeof_coff_header) (int sizeof_coff_header)) (\<lambda>m.
       let h = load_coff_header m in
       if ch_signature h \<noteq> PE_MAGIC
       then sraise (Throw (Not_PECOFF (escape (px_hex X) (ch_signature h)))) else sreturn h))))"

definition pe_read_standard :: "'s pe_env \<Rightarrow> ('s, standard_coff_fields_t) stm" where
  "pe_read_standard X =
     sbind (pe_read X (new_block (px_junk X) sizeof_standard_fields) (int sizeof_standard_fields)) (\<lambda>m.
       let f = load_standard_fields m in
       if sf_magic f = PE32 \<or> sf_magic f = PE32P then sreturn f
       else sraise (Throw (Unknown_PE_Type (sf_magic f))))"

definition pe_read_windows :: "'s pe_env \<Rightarrow> u16 \<Rightarrow> ('s, windows_specific_fields_t) stm" where
  "pe_read_windows X magic =
     (if magic = PE32P
      then sbind (\<lambda>s. (Inr (), snd (rs_back (px_stream X) 4 s))) (\<lambda>_.
           sbind (pe_read X (new_block (px_junk X) sizeof_windows_fields) (int sizeof_windows_fields))
             (\<lambda>m. sreturn (load_windows_fields m)))
      else sbind (pe_read X (new_block (px_junk X) sizeof_windows_fields_32)
                    (int sizeof_windows_fields_32)) (\<lambda>m. sreturn (load_windows_fields_32 m)))"

definition pe_read_table :: "'s pe_env \<Rightarrow> nat \<Rightarrow> ('s, mem) stm" where
  "pe_read_table X n =
     sbind (slift (alloc (px_junk X) n)) (\<lambda>b. pe_read X b (to_int n))"

definition pe_File_new :: "'s pe_env \<Rightarrow> ('s, 's pe_file) stm" where
  "pe_File_new X =
     sbind (pe_read_coff X) (\<lambda>coff.
     sbind (pe_read_standard X) (\<lambda>std.
     sbind (pe_read_windows X (sf_magic std)) (\<lambda>win.
     sbind (pe_read_table X (unat (wf_number_of_rva_and_sizes win) * sizeof_data_directory)) (\<lambda>dirs.
     sbind (pe_read_table X (unat (ch_number_of_sections coff) * sizeof_section_header)) (\<lambda>table.
     sbind sget (\<lambda>s. sreturn
       \<lparr>pe_s = s, pe_coff = coff, pe_std = std, pe_win = win, pe_dirs = dirs, pe_table = table,
        pe_strings = None, pe_strings_size = 0,
        pe_sects = replicate (unat (ch_number_of_sections coff)) pe_section_new\<rparr>))))))"

section \<open>The file interface\<close>

definition pe_machine :: "'s pe_file \<Rightarrow> string" where
  "pe_machine f =
     (case map_of pe_machine_table (ch_machine (pe_coff f)) of Some x \<Rightarrow> x | None \<Rightarrow> ''unknown'')"

definition pe_os :: string where "pe_os = ''windows''"

definition pe_elfMachine :: "'s pe_file \<Rightarrow> int" where
  "pe_elfMachine f =
     (case map_of pe_elf_table (ch_machine (pe_coff f)) of Some x \<Rightarrow> x | None \<Rightarrow> 0)"

definition pe_elfOS :: int where "pe_elfOS = 0"

definition pe_type :: "'s pe_file \<Rightarrow> file_type" where
  "pe_type f =
     (if ch_characteristics (pe_coff f) AND IMAGE_FILE_EXECUTABLE_IMAGE \<noteq> 0 then program
      else if ch_characteristics (pe_coff f) AND IMAGE_FILE_DLL \<noteq> 0 then library
      else no_type)"

definition pe_isBigEndian :: bool where "pe_isBigEndian = False"

definition pe_addressType :: "'s pe_file \<Rightarrow> address_type_t" where
  "pe_addressType f =
     (if ch_characteristics (pe_coff f) AND IMAGE_FILE_32BIT_MACHINE \<noteq> 0 then address_32
      else address_16)"

definition pe_entry :: "'s pe_file \<Rightarrow> u64" where
  "pe_entry f = ucast (sf_address_of_entry_point (pe_std f)) + wf_image_base (pe_win f)"

definition pe_count :: "'s pe_file \<Rightarrow> int" where "pe_count f = int (length (pe_sects f))"

definition pe_segment :: "'s pe_file \<Rightarrow> int \<Rightarrow> nat res" where
  "pe_segment f i =
     (if 0 \<le> i \<and> nat i < length (pe_sects f) then Inr (nat i) else Inl Memory_Fault)"

definition pe_make :: "'p \<Rightarrow> 'i option" where "pe_make params = None"

text \<open>The body of \<open>symbols\<close> is empty: it ends without a value.\<close>

definition pe_symbols :: "unit res" where "pe_symbols = Inl No_Value"

text \<open>\<open>fix\<close> and \<open>unfix\<close> are the identity on a little-endian host.\<close>

definition pe_decoder :: decoder where
  "pe_decoder =
     \<lparr>fix_u16 = (\<lambda>w. w), fix_u32 = (\<lambda>w. w), fix_u64 = (\<lambda>w. w),
      unfix_u16 = (\<lambda>w. w), unfix_u32 = (\<lambda>w. w), unfix_u64 = (\<lambda>w. w)\<rparr>"

interpretation pe_dec: decoder_laws pe_decoder
  by unfold_locales (simp_all add: pe_decoder_def)

section \<open>Strings\<close>

text \<open>
  The string table is read on the first use. It is kept, and its size too, when the read
  fails. The offsets count the four bytes of the size, which are not in the block.
\<close>

definition pe_load_strings :: "'s pe_env \<Rightarrow> ('s pe_file, unit) stm" where
  "pe_load_strings X f =
     (case pe_strings f of
        Some m \<Rightarrow> (Inr (), f)
      | None \<Rightarrow>
          let pos = ch_pointer_to_symbol_table (pe_coff f) + 18 * ch_number_of_symbols (pe_coff f);
              s1 = snd (rs_move (px_stream X) (unat pos) (pe_s f))
          in case pe_fill X (to_le 4 (pe_strings_size f)) 4 s1 of
               (Inl e, b, s2) \<Rightarrow> (Inl e, f\<lparr>pe_s := s2, pe_strings_size := load32 b 0\<rparr>)
             | (Inr _, b, s2) \<Rightarrow>
                 let n = load32 b 0 - 4 in
                 (case pe_fill X (new_block (px_junk X) (unat n)) (sint n) s2 of
                    (r, m, s3) \<Rightarrow>
                      (r, f\<lparr>pe_s := s3, pe_strings_size := n, pe_strings := Some m\<rparr>)))"

definition pe_getString :: "'s pe_env \<Rightarrow> u32 \<Rightarrow> ('s pe_file, u8 list) stm" where
  "pe_getString X off =
     sbind (pe_load_strings X) (\<lambda>_.
     sbind sget (\<lambda>f.
       case pe_strings f of
         None \<Rightarrow> sraise Memory_Fault
       | Some m \<Rightarrow> if unat off < 4 then sraise Memory_Fault else slift (cstr_at m (unat off - 4))))"

section \<open>Sections\<close>

definition pe_hd :: "'s pe_file \<Rightarrow> nat \<Rightarrow> section_header_t" where
  "pe_hd f i = load_section_header (pe_table f) (i * sizeof_section_header)"

definition c_part :: "u8 list \<Rightarrow> u8 list" where
  "c_part s = takeWhile (\<lambda>b. b \<noteq> 0) s"

definition pe_put_name :: "nat \<Rightarrow> u8 list \<Rightarrow> ('s pe_file, u8 list) stm" where
  "pe_put_name i nm f = (Inr (c_part nm), f\<lparr>pe_sects := (pe_sects f)[i := (pe_sects f ! i)\<lparr>ps_name := nm\<rparr>]\<rparr>)"

text \<open>The name is given as a C string. The number after a slash is read in the string that starts at the second character.\<close>

definition pe_name :: "'s pe_env \<Rightarrow> nat \<Rightarrow> ('s pe_file, u8 list) stm" where
  "pe_name X i f =
     (let nm = hd_name (pe_hd f i) in
      if ps_name (pe_sects f ! i) \<noteq> [] then (Inr (c_part (ps_name (pe_sects f ! i))), f)
      else if nm ! 0 = of_char CHR ''/'' then
        sbind (slift (cstr_at (pe_table f) (i * sizeof_section_header + 1))) (\<lambda>t.
          case px_number X t of
            None \<Rightarrow> sraise Uninitialised
          | Some off \<Rightarrow> sbind (pe_getString X off) (pe_put_name i)) f
      else if nm ! 7 = 0 then pe_put_name i (c_part nm) f
      else pe_put_name i nm f)"

definition pe_baseAddress :: "'s pe_file \<Rightarrow> nat \<Rightarrow> u64" where
  "pe_baseAddress f i = ucast (hd_virtual_address (pe_hd f i))"

definition pe_loadAddress :: "'s pe_file \<Rightarrow> nat \<Rightarrow> u64" where
  "pe_loadAddress f i = ucast (hd_virtual_address (pe_hd f i))"

definition pe_size :: "'s pe_file \<Rightarrow> nat \<Rightarrow> u64" where
  "pe_size f i = ucast (hd_virtual_size (pe_hd f i))"

text \<open>The shift of the mask binds tighter than its conjunction with the characteristics.\<close>

definition pe_alignment :: "'s pe_file \<Rightarrow> nat \<Rightarrow> u64 res" where
  "pe_alignment f i =
     (let msk = (hd_characteristics (pe_hd f i) AND drop_bit 20 IMAGE_SCN_ALIGN_1BYTES) AND 0xf in
      if msk = 0 then Inl Undefined_Shift else Inr (push_bit (unat (msk - 1)) 1))"

definition pe_isExecutable :: "'s pe_file \<Rightarrow> nat \<Rightarrow> bool" where
  "pe_isExecutable f i \<longleftrightarrow> hd_characteristics (pe_hd f i) AND IMAGE_SCN_MEM_EXECUTE \<noteq> 0"

definition pe_isWritable :: "'s pe_file \<Rightarrow> nat \<Rightarrow> bool" where
  "pe_isWritable f i \<longleftrightarrow> hd_characteristics (pe_hd f i) AND IMAGE_SCN_MEM_WRITE \<noteq> 0"

definition pe_hasContent :: "'s pe_file \<Rightarrow> nat \<Rightarrow> bool" where
  "pe_hasContent f i \<longleftrightarrow> hd_characteristics (pe_hd f i) AND IMAGE_SCN_MEM_DISCARDABLE = 0"

definition pe_offset :: "'s pe_file \<Rightarrow> nat \<Rightarrow> u64" where
  "pe_offset f i = ucast (hd_pointer_to_raw_data (pe_hd f i))"

definition pe_fileSize :: "'s pe_file \<Rightarrow> nat \<Rightarrow> u64" where
  "pe_fileSize f i = ucast (hd_size_of_raw_data (pe_hd f i))"

definition pe_compute_flags :: "section_header_t \<Rightarrow> u32" where
  "pe_compute_flags h =
     (let c = hd_characteristics h in
      (if c AND IMAGE_SCN_MEM_EXECUTE \<noteq> 0 then IS_EXECUTABLE_SECTION else 0) OR
      (if c AND IMAGE_SCN_CNT_INITIALIZED_DATA \<noteq> 0 then HAS_CONTENT else 0) OR
      (if c AND IMAGE_SCN_LNK_REMOVE = 0 \<and> c AND IMAGE_SCN_MEM_DISCARDABLE = 0
       then IS_LOADABLE else 0) OR
      (if c AND IMAGE_SCN_MEM_READ \<noteq> 0 then IS_READABLE_SECTION else 0) OR
      (if c AND IMAGE_SCN_MEM_WRITE \<noteq> 0 then IS_WRITABLE_SECTION else 0))"

definition pe_flags :: "nat \<Rightarrow> ('s pe_file, u32) stm" where
  "pe_flags i f =
     (let p = pe_sects f ! i in
      if ps_flags p = - 1
      then let v = pe_compute_flags (pe_hd f i) in
           (Inr v, f\<lparr>pe_sects := (pe_sects f)[i := p\<lparr>ps_flags := v\<rparr>]\<rparr>)
      else (Inr (ps_flags p), f))"

text \<open>
  \<open>Section::buffer\<close>. The block stays when the read throws; the clearing starts after the
  block of the section.
\<close>

definition pe_put_buf :: "nat \<Rightarrow> mem option \<Rightarrow> ('s pe_file, unit) stm" where
  "pe_put_buf i b = smodify (\<lambda>f. f\<lparr>pe_sects := (pe_sects f)[i := (pe_sects f ! i)\<lparr>ps_buf := b\<rparr>]\<rparr>)"

definition pe_read_raw :: "'s pe_env \<Rightarrow> nat \<Rightarrow> ('s pe_file, unit) stm" where
  "pe_read_raw X i f =
     (let h = pe_hd f i; blk = the (ps_buf (pe_sects f ! i)) in
      case rs_move (px_stream X) (unat (hd_pointer_to_raw_data h)) (pe_s f) of (ok, s1) \<Rightarrow>
        if \<not> ok then
          sbind (pe_put_buf i None) (\<lambda>_.
          sbind (pe_name X i) (\<lambda>nm. sraise (Throw (PE_Bad_Pointer (bytes_str nm))))) (f\<lparr>pe_s := s1\<rparr>)
        else
          (case pe_fill X blk (sint (hd_size_of_raw_data h)) s1 of
             (r, blk', s2) \<Rightarrow>
               sbind (pe_put_buf i (Some blk')) (\<lambda>_. slift r) (f\<lparr>pe_s := s2\<rparr>)))"

text \<open>The clearing starts at the end of the block and clears at least one byte: it is outside
  of the block also for the sizes that are negative as the \<open>int\<close> of \<open>array::clear\<close>.\<close>

definition pe_clear_tail :: "'s pe_env \<Rightarrow> nat \<Rightarrow> ('s pe_file, unit) stm" where
  "pe_clear_tail X i f =
     (let h = pe_hd f i; blk = the (ps_buf (pe_sects f ! i));
          a = unat (hd_virtual_size h); n = unat (hd_virtual_size h - hd_size_of_raw_data h) in
      if length blk < a + n then (Inl Memory_Fault, f)
      else pe_put_buf i (Some (arr_clear (px_array X) blk a n)) f)"

definition pe_buffer :: "'s pe_env \<Rightarrow> nat \<Rightarrow> ('s pe_file, buffer) stm" where
  "pe_buffer X i =
     sbind sget (\<lambda>f.
     let h = pe_hd f i in
     sbind (if ps_buf (pe_sects f ! i) = None then
              sbind (pe_put_buf i (Some (new_block (px_junk X) (unat (hd_virtual_size h))))) (\<lambda>_.
              sbind (if hd_size_of_raw_data h \<noteq> 0 then pe_read_raw X i else sreturn ()) (\<lambda>_.
                if hd_size_of_raw_data h < hd_virtual_size h then pe_clear_tail X i
                else sreturn ()))
            else sreturn ()) (\<lambda>_.
     sbind sget (\<lambda>f. sreturn
       (make_buffer pe_decoder (ps_buf (pe_sects f ! i)) (ucast (hd_virtual_size h))))))"

end
