(* ===== verification/Elf_File32.thy ===== *)
theory Elf_File32
  imports Elf_Core
begin

text \<open>
  \<open>src/elf_File32.cpp\<close>: the constructor of \<open>File32\<close>, the loading of its program
  headers, sections and symbols, and the classes \<open>Symbol32\<close>, \<open>Section32\<close> and
  \<open>ProgramHeader32\<close>. What a method calls back on \<open>elf::File\<close> (the name of a
  section, a string of a string table) is an argument; \<open>Elf_File\<close> ties the knot.
\<close>

section \<open>Construction\<close>

definition File32_new :: "'s elf_env \<Rightarrow> 's \<Rightarrow> 's elf_file res" where
  "File32_new E s =
     (case elf_readAt (env_stream E) 0 (new_block (env_junk E) sizeof_Elf32_Ehdr)
             (word_of_nat sizeof_Elf32_Ehdr) s of
        (Inl e, _) \<Rightarrow> Inl e
      | (Inr m, s') \<Rightarrow>
          rbind (require (take 4 m = ELFMAG) (Throw Not_An_ELF)) (\<lambda>_.
          rbind (require (m ! EI_CLASS = ELFCLASS32) Assert_Failure) (\<lambda>_.
          rbind (fix_fields (elf_decoder (m ! EI_DATA)) 0 (take 9 Elf32_Ehdr_fields) m) (\<lambda>m1.
          rbind (require (e_shstrndx32 (load_Elf32_Ehdr m1 0) < e_shnum32 (load_Elf32_Ehdr m1 0))
                   (Throw Malformed_ELF)) (\<lambda>_.
          rbind (fix_fields (elf_decoder (m ! EI_DATA)) 0 (drop 9 Elf32_Ehdr_fields) m1) (\<lambda>m2.
            Inr (new_elf_file s' (H32 (load_Elf32_Ehdr m2 0)))))))))"

section \<open>Accessors of the header\<close>

definition File32_type :: "Elf32_Ehdr \<Rightarrow> file_type" where
  "File32_type h =
     (if e_type32 h = ET_NONE \<or> e_type32 h = ET_REL then no_type
      else if e_type32 h = ET_EXEC then program
      else if e_type32 h = ET_DYN then library
      else if e_type32 h = ET_CORE then program
      else no_type)"

definition File32_elfType :: "Elf32_Ehdr \<Rightarrow> int" where
  "File32_elfType h = uint (e_type32 h)"

definition File32_elfMachine :: "Elf32_Ehdr \<Rightarrow> int" where
  "File32_elfMachine h = uint (e_machine32 h)"

definition File32_elfOS :: "Elf32_Ehdr \<Rightarrow> int" where
  "File32_elfOS h = uint (e_ident32 h ! EI_OSABI)"

definition File32_version :: "Elf32_Ehdr \<Rightarrow> u16" where
  "File32_version h = ucast (e_version32 h)"

definition File32_ident :: "Elf32_Ehdr \<Rightarrow> u8 list" where
  "File32_ident h = e_ident32 h"

definition File32_addressType :: address_type_t where
  "File32_addressType = address_32"

definition File32_entry :: "Elf32_Ehdr \<Rightarrow> u64" where
  "File32_entry h = ucast (e_entry32 h)"

definition File32_getStrTab :: "Elf32_Ehdr \<Rightarrow> int" where
  "File32_getStrTab h = uint (e_shstrndx32 h)"

section \<open>Loading the tables\<close>

text \<open>
  \<open>ph_buf\<close> is set before the read: it stays set when the read throws, and the
  bytes read so far are never looked at.
\<close>

definition loadProgramHeaders32 :: "'s elf_env \<Rightarrow> Elf32_Ehdr \<Rightarrow> ('s elf_file, unit) stm" where
  "loadProgramHeaders32 E h f =
     (if el_ph_buf f \<noteq> None then (Inr (), f)
      else
        sbind (slift (int_mul16 (e_phentsize32 h) (e_phnum32 h))) (\<lambda>n.
        sbind (slift (alloc (env_junk E) n)) (\<lambda>b.
        sbind (smodify (\<lambda>f. f\<lparr>el_ph_buf := Some b\<rparr>)) (\<lambda>_.
        sbind (on_stream (elf_readAt (env_stream E) (e_phoff32 h) b (word_of_nat n))) (\<lambda>b.
        sbind (slift (fix_table (file_decoder f) Elf32_Phdr_fields (unat (e_phentsize32 h)) 0
                        (unat (e_phnum32 h)) b)) (\<lambda>b.
        smodify (\<lambda>f. f\<lparr>el_ph_buf := Some b,
          el_phs := map (\<lambda>i. \<lparr>ph_info = PH32 (load_Elf32_Phdr b (i * unat (e_phentsize32 h))),
                              ph_cache = None\<rparr>) [0..<unat (e_phnum32 h)]\<rparr>)))))) f)"

definition loadSections32 :: "'s elf_env \<Rightarrow> Elf32_Ehdr \<Rightarrow> ('s elf_file, unit) stm" where
  "loadSections32 E h f =
     sbind (slift (int_mul16 (e_shentsize32 h) (e_shnum32 h))) (\<lambda>n.
     sbind (slift (alloc (env_junk E) n)) (\<lambda>b.
     sbind (smodify (\<lambda>f. f\<lparr>el_sec_buf := Some (arr_set (env_array E) b 0 n 0)\<rparr>)) (\<lambda>_.
     sbind (on_stream (elf_readAt (env_stream E) (e_shoff32 h) (arr_set (env_array E) b 0 n 0)
                         (word_of_nat n))) (\<lambda>b.
     sbind (slift (fix_table (file_decoder f) Elf32_Shdr_fields (unat (e_shentsize32 h)) 0
                     (unat (e_shnum32 h)) b)) (\<lambda>b.
     smodify (\<lambda>f. f\<lparr>el_sec_buf := Some b,
       el_sects := map (\<lambda>i. \<lparr>sec_info = SH32 (load_Elf32_Shdr b (i * unat (e_shentsize32 h))),
                             sec_cache = None\<rparr>) [0..<unat (e_shnum32 h)]\<rparr>)))))) f"

definition fetchDyn32 :: "decoder \<Rightarrow> mem \<Rightarrow> nat \<Rightarrow> dyn_t res" where
  "fetchDyn32 d m a =
     (if in_block m a sizeof_Elf32_Dyn
      then (let e = conv_Elf32_Dyn d (load_Elf32_Dyn m a) in
            Inr \<lparr>dyn_tag = d_tag32 e, dyn_val = ucast (d_val32 e)\<rparr>)
      else Inl Memory_Fault)"

section \<open>Symbols\<close>

definition Symbol32_elfBind :: "Elf32_Sym \<Rightarrow> u8" where
  "Symbol32_elfBind s = ELF32_ST_BIND (st_info32 s)"

definition Symbol32_elfType :: "Elf32_Sym \<Rightarrow> u8" where
  "Symbol32_elfType s = ELF32_ST_TYPE (st_info32 s)"

definition Symbol32_shndx :: "Elf32_Sym \<Rightarrow> int" where
  "Symbol32_shndx s = uint (st_shndx32 s)"

definition Symbol32_value :: "Elf32_Sym \<Rightarrow> u64" where
  "Symbol32_value s = ucast (st_value32 s)"

definition Symbol32_size :: "Elf32_Sym \<Rightarrow> u64" where
  "Symbol32_size s = ucast (st_size32 s)"

definition Symbol32_type :: "Elf32_Sym \<Rightarrow> symbol_type" where
  "Symbol32_type s =
     (if ELF32_ST_TYPE (st_info32 s) = STT_OBJECT then DATA
      else if ELF32_ST_TYPE (st_info32 s) = STT_FUNC then FUNC
      else OTHER_TYPE)"

definition Symbol32_bind :: "Elf32_Sym \<Rightarrow> symbol_bind" where
  "Symbol32_bind s =
     (if ELF32_ST_BIND (st_info32 s) = STB_LOCAL then LOCAL
      else if ELF32_ST_BIND (st_info32 s) = STB_GLOBAL then GLOBAL
      else if ELF32_ST_BIND (st_info32 s) = STB_WEAK then WEAK
      else OTHER_BIND)"

section \<open>Sections\<close>

definition Section32_baseAddress :: "Elf32_Shdr \<Rightarrow> u64" where
  "Section32_baseAddress p = ucast (sh_addr32 p)"

definition Section32_loadAddress :: "Elf32_Shdr \<Rightarrow> u64" where
  "Section32_loadAddress p = 0"

definition Section32_alignment :: "Elf32_Shdr \<Rightarrow> u64" where
  "Section32_alignment p = ucast (sh_addralign32 p)"

definition Section32_isExecutable :: "Elf32_Shdr \<Rightarrow> bool" where
  "Section32_isExecutable p \<longleftrightarrow> sh_flags32 p AND ucast SHF_EXECINSTR \<noteq> 0"

definition Section32_isWritable :: "Elf32_Shdr \<Rightarrow> bool" where
  "Section32_isWritable p \<longleftrightarrow> sh_flags32 p AND ucast SHF_WRITE \<noteq> 0"

definition Section32_hasContent :: "Elf32_Shdr \<Rightarrow> bool" where
  "Section32_hasContent p \<longleftrightarrow> sh_size32 p \<noteq> 0"

definition Section32_fileSize :: "Elf32_Shdr \<Rightarrow> u64" where
  "Section32_fileSize p = ucast (sh_size32 p)"

definition Section32_flags :: "Elf32_Shdr \<Rightarrow> u32" where
  "Section32_flags p = ucast (sh_flags32 p)"

definition Section32_type :: "Elf32_Shdr \<Rightarrow> u32" where
  "Section32_type p = sh_type32 p"

definition Section32_link :: "Elf32_Shdr \<Rightarrow> u32" where
  "Section32_link p = sh_link32 p"

definition Section32_offset :: "Elf32_Shdr \<Rightarrow> u64" where
  "Section32_offset p = ucast (sh_offset32 p)"

definition Section32_addr :: "Elf32_Shdr \<Rightarrow> u64" where
  "Section32_addr p = ucast (sh_addr32 p)"

definition Section32_size :: "Elf32_Shdr \<Rightarrow> u64" where
  "Section32_size p = ucast (sh_size32 p)"

definition Section32_entsize :: "Elf32_Shdr \<Rightarrow> u64" where
  "Section32_entsize p = ucast (sh_entsize32 p)"

text \<open>\<open>Section32::read\<close>: the position and the size go through 32-bit arguments.\<close>

definition Section32_read :: "'s elf_env \<Rightarrow> Elf32_Shdr \<Rightarrow> mem \<Rightarrow> ('s elf_file, mem) stm" where
  "Section32_read E p b =
     on_stream (elf_readAt (env_stream E) (ucast (sh_offset32 p)) b (ucast (sh_size32 p)))"

definition symtab_aligned32 :: "Elf32_Shdr \<Rightarrow> bool" where
  "symtab_aligned32 p \<longleftrightarrow> sh_size32 p div sh_entsize32 p * sh_entsize32 p = sh_size32 p"

definition Section32_readBuf ::
  "'s elf_env \<Rightarrow> ('s elf_file, u8 list) stm \<Rightarrow> Elf32_Shdr \<Rightarrow> ('s elf_file, mem) stm" where
  "Section32_readBuf E nm p =
     sbind (slift (alloc (env_junk E) (unat (sh_size32 p)))) (\<lambda>b.
     sbind (Section32_read E p b) (\<lambda>b.
       if sh_type32 p = SHT_SYMTAB \<or> sh_type32 p = SHT_DYNSYM then
         if sh_entsize32 p = 0 then sraise Division_By_Zero
         else if \<not> symtab_aligned32 p then
           sbind nm (\<lambda>x. sraise (Throw (Garbage_In_Symtab (bytes_str x))))
         else
           sbind sget (\<lambda>f. slift
             (sym_loop (file_decoder f) Elf32_Sym_fields (unat (sh_entsize32 p))
                (unat (sh_size32 p)) 0 b))
       else sreturn b))"

text \<open>\<open>File32::fillSymbolTable\<close>: \<open>str k off\<close> is \<open>stringAt(off, k)\<close>.\<close>

definition fillSymbolTable32 ::
  "'s elf_env \<Rightarrow> ('s elf_file, u8 list) stm \<Rightarrow> (int \<Rightarrow> u64 \<Rightarrow> ('s elf_file, u8 list) stm) \<Rightarrow>
   Elf32_Shdr \<Rightarrow> ('s elf_file, unit) stm" where
  "fillSymbolTable32 E nm str p =
     sbind (slift (alloc (env_junk E) (unat (Section32_size p)))) (\<lambda>b.
     sbind (Section32_read E p b) (\<lambda>b.
     sbind (record_block b) (\<lambda>i.
       if Section32_entsize p = 0 then sraise Division_By_Zero
       else if Section32_size p div Section32_entsize p * Section32_entsize p \<noteq> Section32_size p
       then sbind nm (\<lambda>x. sraise (Throw (Garbage_In_Symtab (bytes_str x))))
       else fill_loop (str (sint (Section32_link p))) False Elf32_Sym_fields
              (unat (Section32_entsize p)) (unat (Section32_size p)) i 0)))"

section \<open>Program headers\<close>

definition ProgramHeader32_flags :: "Elf32_Phdr \<Rightarrow> u32" where
  "ProgramHeader32_flags p = p_flags32 p"

definition ProgramHeader32_vaddr :: "Elf32_Phdr \<Rightarrow> u64" where
  "ProgramHeader32_vaddr p = ucast (p_vaddr32 p)"

definition ProgramHeader32_paddr :: "Elf32_Phdr \<Rightarrow> u64" where
  "ProgramHeader32_paddr p = ucast (p_paddr32 p)"

definition ProgramHeader32_memsz :: "Elf32_Phdr \<Rightarrow> u64" where
  "ProgramHeader32_memsz p = ucast (p_memsz32 p)"

definition ProgramHeader32_align :: "Elf32_Phdr \<Rightarrow> u64" where
  "ProgramHeader32_align p = ucast (p_align32 p)"

definition ProgramHeader32_type :: "Elf32_Phdr \<Rightarrow> u32" where
  "ProgramHeader32_type p = p_type32 p"

definition ProgramHeader32_filesz :: "Elf32_Phdr \<Rightarrow> u64" where
  "ProgramHeader32_filesz p = ucast (p_filesz32 p)"

definition ProgramHeader32_offset :: "Elf32_Phdr \<Rightarrow> u64" where
  "ProgramHeader32_offset p = ucast (p_offset32 p)"

definition ProgramHeader32_readBuf :: "'s elf_env \<Rightarrow> Elf32_Phdr \<Rightarrow> ('s elf_file, mem) stm" where
  "ProgramHeader32_readBuf E p =
     sbind (slift (alloc (env_junk E) (unat (p_memsz32 p)))) (\<lambda>b.
     sbind (if p_filesz32 p \<noteq> 0
            then on_stream (elf_readAt (env_stream E) (ucast (p_offset32 p)) b (ucast (p_filesz32 p)))
            else sreturn b) (\<lambda>b.
       if p_filesz32 p < p_memsz32 p
       then sreturn (arr_set (env_array E) b 0 (unat (p_memsz32 p - p_filesz32 p)) 0)
       else sreturn b))"

section \<open>What the tables of a file contain\<close>

text \<open>The header and the entries of the tables of the file content \<open>c\<close>, as values.\<close>

definition elf32_header :: "mem \<Rightarrow> Elf32_Ehdr" where
  "elf32_header c = conv_Elf32_Ehdr (elf_decoder (c ! EI_DATA)) (load_Elf32_Ehdr c 0)"

definition elf32_phdr :: "mem \<Rightarrow> Elf32_Ehdr \<Rightarrow> nat \<Rightarrow> Elf32_Phdr" where
  "elf32_phdr c h i =
     conv_Elf32_Phdr (elf_decoder (e_ident32 h ! EI_DATA))
       (load_Elf32_Phdr c (unat (e_phoff32 h) + i * unat (e_phentsize32 h)))"

definition elf32_shdr :: "mem \<Rightarrow> Elf32_Ehdr \<Rightarrow> nat \<Rightarrow> Elf32_Shdr" where
  "elf32_shdr c h i =
     conv_Elf32_Shdr (elf_decoder (e_ident32 h ! EI_DATA))
       (load_Elf32_Shdr c (unat (e_shoff32 h) + i * unat (e_shentsize32 h)))"

text \<open>The tables lie in the file, and the product of their dimensions is an \<open>int\<close>.\<close>

definition phdrs_fit32 :: "mem \<Rightarrow> Elf32_Ehdr \<Rightarrow> bool" where
  "phdrs_fit32 c h \<longleftrightarrow>
     sizeof_Elf32_Phdr \<le> unat (e_phentsize32 h) \<and>
     unat (e_phentsize32 h) * unat (e_phnum32 h) < 2 ^ 31 \<and>
     unat (e_phoff32 h) + unat (e_phentsize32 h) * unat (e_phnum32 h) \<le> length c"

definition shdrs_fit32 :: "mem \<Rightarrow> Elf32_Ehdr \<Rightarrow> bool" where
  "shdrs_fit32 c h \<longleftrightarrow>
     sizeof_Elf32_Shdr \<le> unat (e_shentsize32 h) \<and>
     unat (e_shentsize32 h) * unat (e_shnum32 h) < 2 ^ 31 \<and>
     unat (e_shoff32 h) + unat (e_shentsize32 h) * unat (e_shnum32 h) \<le> length c"

section \<open>Lemmas on the constructor\<close>

lemma Elf32_Ehdr_take_ok: "fields_ok sizeof_Elf32_Ehdr (take 9 Elf32_Ehdr_fields)"
  by (simp add: Elf32_Ehdr_fields_def sizeof_Elf32_Ehdr_def)

lemma Elf32_Ehdr_fix_halves:
  assumes "length m = sizeof_Elf32_Ehdr"
  obtains m1 m2 where "fix_fields d 0 (take 9 Elf32_Ehdr_fields) m = Inr m1"
    and "fix_fields d 0 (drop 9 Elf32_Ehdr_fields) m1 = Inr m2"
    and "load_Elf32_Ehdr m2 0 = conv_Elf32_Ehdr d (load_Elf32_Ehdr m 0)"
    and "e_shstrndx32 (load_Elf32_Ehdr m1 0) = fix_u16 d (e_shstrndx32 (load_Elf32_Ehdr m 0))"
    and "e_shnum32 (load_Elf32_Ehdr m1 0) = fix_u16 d (e_shnum32 (load_Elf32_Ehdr m 0))"
proof -
  have sz: "0 + sizeof_Elf32_Ehdr \<le> length m" "length m < 2 ^ 63"
    using assms by (simp_all add: sizeof_Elf32_Ehdr_def)
  obtain m2 where m2: "fix_fields d 0 Elf32_Ehdr_fields m = Inr m2"
    "load_Elf32_Ehdr m2 0 = conv_Elf32_Ehdr d (load_Elf32_Ehdr m 0)"
    using elf32_Ehdr.fix_entry [OF sz] by blast
  have "rbind (fix_fields d 0 (take 9 Elf32_Ehdr_fields) m)
      (fix_fields d 0 (drop 9 Elf32_Ehdr_fields)) = Inr m2"
    using m2(1) fix_fields_append [of d 0 "take 9 Elf32_Ehdr_fields" "drop 9 Elf32_Ehdr_fields" m]
    by simp
  then obtain m1 where m1: "fix_fields d 0 (take 9 Elf32_Ehdr_fields) m = Inr m1"
    "fix_fields d 0 (drop 9 Elf32_Ehdr_fields) m1 = Inr m2"
    by (auto simp: res_iff)
  have "(50, W16) \<in> set (take 9 Elf32_Ehdr_fields)" "(48, W16) \<in> set (take 9 Elf32_Ehdr_fields)"
    by (simp_all add: Elf32_Ehdr_fields_def)
  then have "load16 m1 50 = fix_u16 d (load16 m 50)" "load16 m1 48 = fix_u16 d (load16 m 48)"
    using converted_loads(1) [OF Elf32_Ehdr_take_ok sz m1(1)] by force+
  then show ?thesis
    using that m1 m2(2) by (simp add: load_Elf32_Ehdr_def)
qed

lemma File32_new_eq:
  assumes R: "rstream_spec (env_stream E) ct ps" and len: "sizeof_Elf32_Ehdr \<le> length (ct s)"
  defines "c \<equiv> ct s"
  shows "\<exists>s'. ct s' = c \<and> File32_new E s =
    (if take 4 c \<noteq> ELFMAG then Inl (Throw Not_An_ELF)
     else if c ! EI_CLASS \<noteq> ELFCLASS32 then Inl Assert_Failure
     else if e_shnum32 (elf32_header c) \<le> e_shstrndx32 (elf32_header c)
       then Inl (Throw Malformed_ELF)
     else Inr (new_elf_file s' (H32 (elf32_header c))))"
proof -
  have n: "unat (word_of_nat sizeof_Elf32_Ehdr :: u32) = sizeof_Elf32_Ehdr"
    by (simp add: sizeof_Elf32_Ehdr_def)
  obtain s' where rd: "elf_readAt (env_stream E) 0 (new_block (env_junk E) sizeof_Elf32_Ehdr)
      (word_of_nat sizeof_Elf32_Ehdr) s = (Inr (bytes_at c 0 sizeof_Elf32_Ehdr), s')" "ct s' = c"
    using elf_readAt_whole [OF R, of 0 "word_of_nat sizeof_Elf32_Ehdr" s
        "new_block (env_junk E) sizeof_Elf32_Ehdr"] len n unfolding c_def by auto
  let ?m = "bytes_at c 0 sizeof_Elf32_Ehdr"
  let ?d = "elf_decoder (c ! EI_DATA)"
  have ld: "load_Elf32_Ehdr ?m 0 = load_Elf32_Ehdr c 0"
    by (simp add: sizeof_Elf32_Ehdr_def load_Elf32_Ehdr_slice)
  have lm: "length ?m = sizeof_Elf32_Ehdr"
    using len by (simp add: c_def)
  have id: "take 4 ?m = take 4 c" "?m ! EI_CLASS = c ! EI_CLASS" "?m ! EI_DATA = c ! EI_DATA"
    using len by (simp_all add: c_def bytes_at_def sizeof_Elf32_Ehdr_def elf_ident_consts min_def)
  obtain m1 m2 where m: "fix_fields ?d 0 (take 9 Elf32_Ehdr_fields) ?m = Inr m1"
    "fix_fields ?d 0 (drop 9 Elf32_Ehdr_fields) m1 = Inr m2"
    "load_Elf32_Ehdr m2 0 = elf32_header c"
    "e_shstrndx32 (load_Elf32_Ehdr m1 0) = e_shstrndx32 (elf32_header c)"
    "e_shnum32 (load_Elf32_Ehdr m1 0) = e_shnum32 (elf32_header c)"
    using Elf32_Ehdr_fix_halves [OF lm, of ?d]
    unfolding ld elf32_header_def conv_Elf32_Ehdr_def by auto
  show ?thesis
    by (rule exI [of _ s']) (auto simp: File32_new_def rd id m require_def not_less)
qed

lemma File32_new_short:
  assumes R: "rstream_spec (env_stream E) ct ps" and len: "length (ct s) < sizeof_Elf32_Ehdr"
  shows "File32_new E s = Inl (Throw (Cannot_Read (word_of_nat sizeof_Elf32_Ehdr)))"
proof -
  have n: "unat (word_of_nat sizeof_Elf32_Ehdr :: u32) = sizeof_Elf32_Ehdr"
    by (simp add: sizeof_Elf32_Ehdr_def)
  show ?thesis
    using elf_readAt_short [OF R, of 0 s "word_of_nat sizeof_Elf32_Ehdr"
        "new_block (env_junk E) sizeof_Elf32_Ehdr"] len n
    by (auto simp: File32_new_def)
qed

section \<open>Lemmas on the tables\<close>

lemma loadProgramHeaders32_eq:
  assumes R: "rstream_spec (env_stream E) ct ps" and fit: "phdrs_fit32 (ct (el_s f)) h"
    and fresh: "el_ph_buf f = None" and hd: "el_head f = H32 h"
  shows "\<exists>s' b. ct s' = ct (el_s f) \<and> loadProgramHeaders32 E h f =
    (Inr (), f\<lparr>el_s := s', el_ph_buf := Some b, el_phs :=
       map (\<lambda>i. \<lparr>ph_info = PH32 (elf32_phdr (ct (el_s f)) h i), ph_cache = None\<rparr>)
         [0..<unat (e_phnum32 h)]\<rparr>)"
proof -
  define k where "k = unat (e_phnum32 h)"
  define ent where "ent = unat (e_phentsize32 h)"
  define pos where "pos = unat (e_phoff32 h)"
  let ?c = "ct (el_s f)"
  have fit': "sizeof_Elf32_Phdr \<le> ent" "k * ent < 2 ^ 31" "pos + k * ent \<le> length ?c"
    using fit by (simp_all add: phdrs_fit32_def k_def ent_def pos_def mult.commute)
  have n: "unat (word_of_nat (k * ent) :: u32) = k * ent"
    using fit'(2) by (simp add: unat_of_nat del: of_nat_mult)
  obtain s' where rd: "elf_readAt (env_stream E) (e_phoff32 h) (new_block (env_junk E) (k * ent))
      (word_of_nat (k * ent)) (el_s f) = (Inr (bytes_at ?c pos (k * ent)), s')" "ct s' = ?c"
    using elf_readAt_whole [OF R, of "e_phoff32 h" "word_of_nat (k * ent)" "el_s f"
        "new_block (env_junk E) (k * ent)"] fit'(3) n unfolding pos_def by auto
  obtain m' where m': "fix_table (file_decoder f) Elf32_Phdr_fields ent 0 k
      (bytes_at ?c pos (k * ent)) = Inr m'"
    and ld: "\<And>j. j < k \<Longrightarrow> load_Elf32_Phdr m' (j * ent) =
      conv_Elf32_Phdr (file_decoder f) (load_Elf32_Phdr ?c (pos + j * ent))"
    using elf32_Phdr.fix_loaded_table [of ent pos k ?c "file_decoder f"] fit' by auto
  have "map (\<lambda>i. \<lparr>ph_info = PH32 (load_Elf32_Phdr m' (i * ent)), ph_cache = None\<rparr>) [0..<k] =
      map (\<lambda>i. \<lparr>ph_info = PH32 (elf32_phdr ?c h i), ph_cache = None\<rparr>) [0..<k]"
    using ld hd by (simp add: elf32_phdr_def file_decoder_def k_def ent_def pos_def)
  then show ?thesis
    using fit'(2) fresh rd m'
    by (intro exI [of _ s'] exI [of _ m'])
      (simp add: loadProgramHeaders32_def int_mul16_def alloc_def mult.commute
        flip: k_def ent_def)
qed

lemma loadSections32_eq:
  assumes R: "rstream_spec (env_stream E) ct ps" and A: "elm_array_spec (env_array E)"
    and fit: "shdrs_fit32 (ct (el_s f)) h" and hd: "el_head f = H32 h"
  shows "\<exists>s' b. ct s' = ct (el_s f) \<and> loadSections32 E h f =
    (Inr (), f\<lparr>el_s := s', el_sec_buf := Some b, el_sects :=
       map (\<lambda>i. \<lparr>sec_info = SH32 (elf32_shdr (ct (el_s f)) h i), sec_cache = None\<rparr>)
         [0..<unat (e_shnum32 h)]\<rparr>)"
proof -
  define k where "k = unat (e_shnum32 h)"
  define ent where "ent = unat (e_shentsize32 h)"
  define pos where "pos = unat (e_shoff32 h)"
  let ?c = "ct (el_s f)"
  have fit': "sizeof_Elf32_Shdr \<le> ent" "k * ent < 2 ^ 31" "pos + k * ent \<le> length ?c"
    using fit by (simp_all add: shdrs_fit32_def k_def ent_def pos_def mult.commute)
  have n: "unat (word_of_nat (k * ent) :: u32) = k * ent"
    using fit'(2) by (simp add: unat_of_nat del: of_nat_mult)
  define z where "z = arr_set (env_array E) (new_block (env_junk E) (k * ent)) 0 (k * ent) 0"
  have z: "length z = k * ent"
    by (simp add: z_def elm_array_specD(2) [OF A])
  obtain s' where rd: "elf_readAt (env_stream E) (e_shoff32 h) z
      (word_of_nat (k * ent)) (el_s f) = (Inr (bytes_at ?c pos (k * ent)), s')" "ct s' = ?c"
    using elf_readAt_whole [OF R, of "e_shoff32 h" "word_of_nat (k * ent)" "el_s f" z]
      fit'(3) n z unfolding pos_def by auto
  obtain m' where m': "fix_table (file_decoder f) Elf32_Shdr_fields ent 0 k
      (bytes_at ?c pos (k * ent)) = Inr m'"
    and ld: "\<And>j. j < k \<Longrightarrow> load_Elf32_Shdr m' (j * ent) =
      conv_Elf32_Shdr (file_decoder f) (load_Elf32_Shdr ?c (pos + j * ent))"
    using elf32_Shdr.fix_loaded_table [of ent pos k ?c "file_decoder f"] fit' by auto
  have "map (\<lambda>i. \<lparr>sec_info = SH32 (load_Elf32_Shdr m' (i * ent)), sec_cache = None\<rparr>) [0..<k] =
      map (\<lambda>i. \<lparr>sec_info = SH32 (elf32_shdr ?c h i), sec_cache = None\<rparr>) [0..<k]"
    using ld hd by (simp add: elf32_shdr_def file_decoder_def k_def ent_def pos_def)
  then show ?thesis
    using fit'(2) rd m'
    by (intro exI [of _ s'] exI [of _ m'])
      (simp add: loadSections32_def int_mul16_def alloc_def mult.commute z_def
        flip: k_def ent_def)
qed

section \<open>Lemmas on the contents\<close>

lemma Section32_read_eq:
  assumes R: "rstream_spec (env_stream E) ct ps"
    and fit: "unat (sh_offset32 p) + unat (sh_size32 p) \<le> length (ct (el_s f))"
    and b: "length b = unat (sh_size32 p)"
  shows "\<exists>s'. ct s' = ct (el_s f) \<and> Section32_read E p b f =
    (Inr (bytes_at (ct (el_s f)) (unat (sh_offset32 p)) (unat (sh_size32 p))), f\<lparr>el_s := s'\<rparr>)"
proof -
  obtain s' where "elf_readAt (env_stream E) (sh_offset32 p) b (sh_size32 p) (el_s f) =
      (Inr (bytes_at (ct (el_s f)) (unat (sh_offset32 p)) (unat (sh_size32 p))), s')"
    "ct s' = ct (el_s f)"
    using elf_readAt_whole [OF R fit b] .
  then show ?thesis
    by (intro exI [of _ s']) (simp add: Section32_read_def)
qed

lemma Section32_readBuf_plain:
  assumes R: "rstream_spec (env_stream E) ct ps"
    and fit: "unat (sh_offset32 p) + unat (sh_size32 p) \<le> length (ct (el_s f))"
    and ty: "sh_type32 p \<noteq> SHT_SYMTAB" "sh_type32 p \<noteq> SHT_DYNSYM"
  shows "\<exists>s'. ct s' = ct (el_s f) \<and> Section32_readBuf E nm p f =
    (Inr (bytes_at (ct (el_s f)) (unat (sh_offset32 p)) (unat (sh_size32 p))), f\<lparr>el_s := s'\<rparr>)"
  using Section32_read_eq [OF R fit, of "new_block (env_junk E) (unat (sh_size32 p))"] ty
  by (auto simp: Section32_readBuf_def alloc_u32)

lemma symtab_aligned32_iff: "symtab_aligned32 p \<longleftrightarrow> unat (sh_entsize32 p) dvd unat (sh_size32 p)"
  by (simp add: symtab_aligned32_def word_div_mult_iff)

lemma Section32_readBuf_symtab:
  assumes R: "rstream_spec (env_stream E) ct ps"
    and fit: "unat (sh_offset32 p) + unat (sh_size32 p) \<le> length (ct (el_s f))"
    and ty: "sh_type32 p = SHT_SYMTAB \<or> sh_type32 p = SHT_DYNSYM"
    and ent: "sizeof_Elf32_Sym \<le> unat (sh_entsize32 p)"
    and al: "unat (sh_size32 p) = k * unat (sh_entsize32 p)"
  shows "\<exists>s' m. ct s' = ct (el_s f) \<and> Section32_readBuf E nm p f = (Inr m, f\<lparr>el_s := s'\<rparr>) \<and>
    sym_loop (file_decoder f) Elf32_Sym_fields (unat (sh_entsize32 p)) (unat (sh_size32 p)) 0
      (bytes_at (ct (el_s f)) (unat (sh_offset32 p)) (unat (sh_size32 p))) = Inr m \<and>
    length m = unat (sh_size32 p) \<and>
    (\<forall>j < k. load_Elf32_Sym m (j * unat (sh_entsize32 p)) =
       conv_Elf32_Sym (file_decoder f)
         (load_Elf32_Sym (ct (el_s f)) (unat (sh_offset32 p) + j * unat (sh_entsize32 p))))"
proof -
  define e where "e = unat (sh_entsize32 p)"
  define pos where "pos = unat (sh_offset32 p)"
  let ?c = "ct (el_s f)"
  have e: "0 < e" "sh_entsize32 p \<noteq> 0" "sizeof_Elf32_Sym \<le> e"
    using ent by (auto simp: e_def sizeof_Elf32_Sym_def)
  have al': "unat (sh_size32 p) = k * e"
    using al by (simp add: e_def)
  have ke: "k * e < 2 ^ 63"
    using unsigned_less [of "sh_size32 p", where ?'a = nat] unfolding al' by simp
  obtain s' where rd: "Section32_read E p (new_block (env_junk E) (k * e)) f =
      (Inr (bytes_at ?c pos (k * e)), f\<lparr>el_s := s'\<rparr>)" "ct s' = ?c"
    using Section32_read_eq [OF R fit, of "new_block (env_junk E) (k * e)"] al'
    by (auto simp: pos_def)
  obtain m where m: "fix_table (file_decoder f) Elf32_Sym_fields e 0 k
      (bytes_at ?c pos (k * e)) = Inr m" "length m = k * e"
    and ld: "\<And>j. j < k \<Longrightarrow> load_Elf32_Sym m (j * e) =
      conv_Elf32_Sym (file_decoder f) (load_Elf32_Sym ?c (pos + j * e))"
    using elf32_Sym.fix_loaded_table [of e pos k ?c "file_decoder f"] e(3) fit al' ke
    by (auto simp: pos_def)
  have sl: "sym_loop (file_decoder f) Elf32_Sym_fields e (k * e) 0 (bytes_at ?c pos (k * e)) = Inr m"
    using sym_loop_eq_table [of e "k * e" 0 k] m(1) e(1) by simp
  have "symtab_aligned32 p"
    by (simp add: symtab_aligned32_iff al)
  with sl have "Section32_readBuf E nm p f = (Inr m, f\<lparr>el_s := s'\<rparr>)"
    using rd ty e(2) unfolding Section32_readBuf_def alloc_u32
    unfolding al' e_def [symmetric]
    by (simp add: file_decoder_def)
  then show ?thesis
    using rd(2) m(2) ld al' sl by (auto simp: e_def pos_def)
qed

lemma ProgramHeader32_readBuf_eq:
  assumes R: "rstream_spec (env_stream E) ct ps" and A: "elm_array_spec (env_array E)"
    and fit: "unat (p_offset32 p) + unat (p_filesz32 p) \<le> length (ct (el_s f))"
    and le: "p_filesz32 p \<le> p_memsz32 p"
  shows "\<exists>s'. ct s' = ct (el_s f) \<and> ProgramHeader32_readBuf E p f =
    (Inr (replicate (unat (p_memsz32 p) - unat (p_filesz32 p)) 0 @
          drop (unat (p_memsz32 p) - unat (p_filesz32 p))
            (store_at (new_block (env_junk E) (unat (p_memsz32 p))) 0
              (bytes_at (ct (el_s f)) (unat (p_offset32 p)) (unat (p_filesz32 p))))),
     f\<lparr>el_s := s'\<rparr>)"
proof -
  define b where "b = new_block (env_junk E) (unat (p_memsz32 p))"
  define raw where "raw =
    store_at b 0 (bytes_at (ct (el_s f)) (unat (p_offset32 p)) (unat (p_filesz32 p)))"
  have le': "unat (p_filesz32 p) \<le> unat (p_memsz32 p)"
    using le by (simp add: word_le_nat_alt)
  have b: "unat (p_filesz32 p) \<le> length b"
    using le' by (simp add: b_def)
  have raw: "length raw = unat (p_memsz32 p)"
    using b fit by (simp add: raw_def b_def)
  obtain s' where rd: "(if p_filesz32 p \<noteq> 0
      then on_stream (elf_readAt (env_stream E) (ucast (p_offset32 p)) b (ucast (p_filesz32 p)))
      else sreturn b) f = (Inr raw, f\<lparr>el_s := s'\<rparr>)" "ct s' = ct (el_s f)"
  proof (cases "p_filesz32 p = 0")
    case True
    then have "raw = b"
      by (simp add: raw_def store_at_def bytes_at_def)
    then show ?thesis
      using True that [of "el_s f"] by simp
  next
    case False
    then show ?thesis
      using elf_readAt_ok [OF R fit b] that by (auto simp: raw_def)
  qed
  have sub: "unat (p_memsz32 p - p_filesz32 p) = unat (p_memsz32 p) - unat (p_filesz32 p)"
    using le by (simp add: unat_sub_if_size word_le_nat_alt word_size)
  have lt: "p_filesz32 p < p_memsz32 p \<longleftrightarrow> unat (p_filesz32 p) < unat (p_memsz32 p)"
    by (simp add: word_less_nat_alt)
  have K: "(if p_filesz32 p < p_memsz32 p
      then sreturn (arr_set (env_array E) raw 0 (unat (p_memsz32 p - p_filesz32 p)) 0)
      else sreturn raw) (f\<lparr>el_s := s'\<rparr>) =
      (Inr (replicate (unat (p_memsz32 p) - unat (p_filesz32 p)) 0 @
        drop (unat (p_memsz32 p) - unat (p_filesz32 p)) raw), f\<lparr>el_s := s'\<rparr>)"
    using raw sub le' by (auto simp: lt elm_array_specD(2) [OF A] store_at_def)
  have "ProgramHeader32_readBuf E p f =
      (Inr (replicate (unat (p_memsz32 p) - unat (p_filesz32 p)) 0 @
        drop (unat (p_memsz32 p) - unat (p_filesz32 p)) raw), f\<lparr>el_s := s'\<rparr>)"
    unfolding ProgramHeader32_readBuf_def alloc_u32 b_def [symmetric]
    by (simp only: sbind_units) (simp only: sbind_def rd(1) prod.case sum.case K)
  then show ?thesis
    using rd(2) unfolding raw_def b_def by blast
qed

end
