(* ===== verification/Elf_File64.thy ===== *)
theory Elf_File64
  imports Elf_Core
begin

text \<open>
  \<open>src/elf_File64.cpp\<close>: the constructor of \<open>File64\<close>, the loading of its program
  headers, sections and symbols, and the classes \<open>Symbol64\<close>, \<open>Section64\<close> and
  \<open>ProgramHeader64\<close>. What a method calls back on \<open>elf::File\<close> (the name of a
  section, a string of a string table) is an argument; \<open>Elf_File\<close> ties the knot.
\<close>

section \<open>Construction\<close>

definition File64_new :: "'s elf_env \<Rightarrow> 's \<Rightarrow> 's elf_file res" where
  "File64_new E s =
     (case elf_readAt (env_stream E) 0 (new_block (env_junk E) sizeof_Elf64_Ehdr)
             (word_of_nat sizeof_Elf64_Ehdr) s of
        (Inl e, _) \<Rightarrow> Inl e
      | (Inr m, s') \<Rightarrow>
          rbind (require (take 4 m = ELFMAG) (Throw Not_An_ELF)) (\<lambda>_.
          rbind (require (m ! EI_CLASS = ELFCLASS64) Assert_Failure) (\<lambda>_.
          rbind (fix_fields (elf_decoder (m ! EI_DATA)) 0 (take 9 Elf64_Ehdr_fields) m) (\<lambda>m1.
          rbind (require (e_shstrndx64 (load_Elf64_Ehdr m1 0) < e_shnum64 (load_Elf64_Ehdr m1 0))
                   (Throw Malformed_ELF)) (\<lambda>_.
          rbind (fix_fields (elf_decoder (m ! EI_DATA)) 0 (drop 9 Elf64_Ehdr_fields) m1) (\<lambda>m2.
            Inr (new_elf_file s' (H64 (load_Elf64_Ehdr m2 0)))))))))"

section \<open>Accessors of the header\<close>

definition File64_type :: "Elf64_Ehdr \<Rightarrow> file_type" where
  "File64_type h =
     (if e_type64 h = ET_NONE \<or> e_type64 h = ET_REL then no_type
      else if e_type64 h = ET_EXEC then program
      else if e_type64 h = ET_DYN then library
      else if e_type64 h = ET_CORE then program
      else no_type)"

definition File64_elfType :: "Elf64_Ehdr \<Rightarrow> int" where
  "File64_elfType h = uint (e_type64 h)"

definition File64_elfMachine :: "Elf64_Ehdr \<Rightarrow> int" where
  "File64_elfMachine h = uint (e_machine64 h)"

definition File64_elfOS :: "Elf64_Ehdr \<Rightarrow> int" where
  "File64_elfOS h = uint (e_ident64 h ! EI_OSABI)"

definition File64_version :: "Elf64_Ehdr \<Rightarrow> u16" where
  "File64_version h = ucast (e_version64 h)"

definition File64_ident :: "Elf64_Ehdr \<Rightarrow> u8 list" where
  "File64_ident h = e_ident64 h"

definition File64_addressType :: address_type_t where
  "File64_addressType = address_64"

definition File64_entry :: "Elf64_Ehdr \<Rightarrow> u64" where
  "File64_entry h = ucast (e_entry64 h)"

definition File64_getStrTab :: "Elf64_Ehdr \<Rightarrow> int" where
  "File64_getStrTab h = uint (e_shstrndx64 h)"

section \<open>Loading the tables\<close>

text \<open>
  \<open>ph_buf\<close> is set before the read: it stays set when the read throws, and the
  bytes read so far are never looked at.
\<close>

definition loadProgramHeaders64 :: "'s elf_env \<Rightarrow> Elf64_Ehdr \<Rightarrow> ('s elf_file, unit) stm" where
  "loadProgramHeaders64 E h f =
     (if el_ph_buf f \<noteq> None then (Inr (), f)
      else
        sbind (slift (int_mul16 (e_phentsize64 h) (e_phnum64 h))) (\<lambda>n.
        sbind (slift (alloc (env_junk E) n)) (\<lambda>b.
        sbind (smodify (\<lambda>f. f\<lparr>el_ph_buf := Some b\<rparr>)) (\<lambda>_.
        sbind (on_stream (elf_readAt (env_stream E) (ucast (e_phoff64 h)) b (word_of_nat n))) (\<lambda>b.
        sbind (slift (fix_table (file_decoder f) Elf64_Phdr_fields (unat (e_phentsize64 h)) 0
                        (unat (e_phnum64 h)) b)) (\<lambda>b.
        smodify (\<lambda>f. f\<lparr>el_ph_buf := Some b,
          el_phs := map (\<lambda>i. \<lparr>ph_info = PH64 (load_Elf64_Phdr b (i * unat (e_phentsize64 h))),
                              ph_cache = None\<rparr>) [0..<unat (e_phnum64 h)]\<rparr>)))))) f)"

definition loadSections64 :: "'s elf_env \<Rightarrow> Elf64_Ehdr \<Rightarrow> ('s elf_file, unit) stm" where
  "loadSections64 E h f =
     sbind (slift (int_mul16 (e_shentsize64 h) (e_shnum64 h))) (\<lambda>n.
     sbind (slift (alloc (env_junk E) n)) (\<lambda>b.
     sbind (smodify (\<lambda>f. f\<lparr>el_sec_buf := Some (arr_set (env_array E) b 0 n 0)\<rparr>)) (\<lambda>_.
     sbind (on_stream (elf_readAt (env_stream E) (ucast (e_shoff64 h)) (arr_set (env_array E) b 0 n 0)
                         (word_of_nat n))) (\<lambda>b.
     sbind (slift (fix_table (file_decoder f) Elf64_Shdr_fields (unat (e_shentsize64 h)) 0
                     (unat (e_shnum64 h)) b)) (\<lambda>b.
     smodify (\<lambda>f. f\<lparr>el_sec_buf := Some b,
       el_sects := map (\<lambda>i. \<lparr>sec_info = SH64 (load_Elf64_Shdr b (i * unat (e_shentsize64 h))),
                             sec_cache = None\<rparr>) [0..<unat (e_shnum64 h)]\<rparr>)))))) f"

definition fetchDyn64 :: "decoder \<Rightarrow> mem \<Rightarrow> nat \<Rightarrow> dyn_t res" where
  "fetchDyn64 d m a =
     (if in_block m a sizeof_Elf64_Dyn
      then (let e = conv_Elf64_Dyn d (load_Elf64_Dyn m a) in
            Inr \<lparr>dyn_tag = ucast (d_tag64 e), dyn_val = ucast (d_val64 e)\<rparr>)
      else Inl Memory_Fault)"

section \<open>Symbols\<close>

definition Symbol64_elfBind :: "Elf64_Sym \<Rightarrow> u8" where
  "Symbol64_elfBind s = ELF64_ST_BIND (st_info64 s)"

definition Symbol64_elfType :: "Elf64_Sym \<Rightarrow> u8" where
  "Symbol64_elfType s = ELF64_ST_TYPE (st_info64 s)"

definition Symbol64_shndx :: "Elf64_Sym \<Rightarrow> int" where
  "Symbol64_shndx s = uint (st_shndx64 s)"

definition Symbol64_value :: "Elf64_Sym \<Rightarrow> u64" where
  "Symbol64_value s = ucast (st_value64 s)"

definition Symbol64_size :: "Elf64_Sym \<Rightarrow> u64" where
  "Symbol64_size s = ucast (st_size64 s)"

definition Symbol64_type :: "Elf64_Sym \<Rightarrow> symbol_type" where
  "Symbol64_type s =
     (if ELF64_ST_TYPE (st_info64 s) = STT_OBJECT then DATA
      else if ELF64_ST_TYPE (st_info64 s) = STT_FUNC then FUNC
      else OTHER_TYPE)"

definition Symbol64_bind :: "Elf64_Sym \<Rightarrow> symbol_bind" where
  "Symbol64_bind s =
     (if ELF64_ST_BIND (st_info64 s) = STB_LOCAL then LOCAL
      else if ELF64_ST_BIND (st_info64 s) = STB_GLOBAL then GLOBAL
      else if ELF64_ST_BIND (st_info64 s) = STB_WEAK then WEAK
      else OTHER_BIND)"

section \<open>Sections\<close>

definition Section64_baseAddress :: "Elf64_Shdr \<Rightarrow> u64" where
  "Section64_baseAddress p = ucast (sh_addr64 p)"

definition Section64_loadAddress :: "Elf64_Shdr \<Rightarrow> u64" where
  "Section64_loadAddress p = 0"

definition Section64_alignment :: "Elf64_Shdr \<Rightarrow> u64" where
  "Section64_alignment p = ucast (sh_addralign64 p)"

definition Section64_isExecutable :: "Elf64_Shdr \<Rightarrow> bool" where
  "Section64_isExecutable p \<longleftrightarrow> sh_flags64 p AND ucast SHF_EXECINSTR \<noteq> 0"

definition Section64_isWritable :: "Elf64_Shdr \<Rightarrow> bool" where
  "Section64_isWritable p \<longleftrightarrow> sh_flags64 p AND ucast SHF_WRITE \<noteq> 0"

definition Section64_hasContent :: "Elf64_Shdr \<Rightarrow> bool" where
  "Section64_hasContent p \<longleftrightarrow> sh_size64 p \<noteq> 0"

definition Section64_fileSize :: "Elf64_Shdr \<Rightarrow> u64" where
  "Section64_fileSize p = ucast (sh_size64 p)"

definition Section64_flags :: "Elf64_Shdr \<Rightarrow> u32" where
  "Section64_flags p = ucast (sh_flags64 p)"

definition Section64_type :: "Elf64_Shdr \<Rightarrow> u32" where
  "Section64_type p = sh_type64 p"

definition Section64_link :: "Elf64_Shdr \<Rightarrow> u32" where
  "Section64_link p = sh_link64 p"

definition Section64_offset :: "Elf64_Shdr \<Rightarrow> u64" where
  "Section64_offset p = ucast (sh_offset64 p)"

definition Section64_addr :: "Elf64_Shdr \<Rightarrow> u64" where
  "Section64_addr p = ucast (sh_addr64 p)"

definition Section64_size :: "Elf64_Shdr \<Rightarrow> u64" where
  "Section64_size p = ucast (sh_size64 p)"

definition Section64_entsize :: "Elf64_Shdr \<Rightarrow> u64" where
  "Section64_entsize p = ucast (sh_entsize64 p)"

text \<open>\<open>Section64::read\<close>: the position and the size go through 32-bit arguments.\<close>

definition Section64_read :: "'s elf_env \<Rightarrow> Elf64_Shdr \<Rightarrow> mem \<Rightarrow> ('s elf_file, mem) stm" where
  "Section64_read E p b =
     on_stream (elf_readAt (env_stream E) (ucast (sh_offset64 p)) b (ucast (sh_size64 p)))"

definition symtab_aligned64 :: "Elf64_Shdr \<Rightarrow> bool" where
  "symtab_aligned64 p \<longleftrightarrow> sh_size64 p div sh_entsize64 p * sh_entsize64 p = sh_size64 p"

definition Section64_readBuf ::
  "'s elf_env \<Rightarrow> ('s elf_file, u8 list) stm \<Rightarrow> Elf64_Shdr \<Rightarrow> ('s elf_file, mem) stm" where
  "Section64_readBuf E nm p =
     sbind (slift (alloc (env_junk E) (unat (sh_size64 p)))) (\<lambda>b.
     sbind (Section64_read E p b) (\<lambda>b.
       if sh_type64 p = SHT_SYMTAB \<or> sh_type64 p = SHT_DYNSYM then
         if sh_entsize64 p = 0 then sraise Division_By_Zero
         else if \<not> symtab_aligned64 p then
           sbind nm (\<lambda>x. sraise (Throw (Garbage_In_Symtab (bytes_str x))))
         else
           sbind sget (\<lambda>f. slift
             (sym_loop (file_decoder f) Elf64_Sym_fields (unat (sh_entsize64 p))
                (unat (sh_size64 p)) 0 b))
       else sreturn b))"

text \<open>\<open>File64::fillSymbolTable\<close>: \<open>str k off\<close> is \<open>stringAt(off, k)\<close>.\<close>

definition fillSymbolTable64 ::
  "'s elf_env \<Rightarrow> ('s elf_file, u8 list) stm \<Rightarrow> (int \<Rightarrow> u64 \<Rightarrow> ('s elf_file, u8 list) stm) \<Rightarrow>
   Elf64_Shdr \<Rightarrow> ('s elf_file, unit) stm" where
  "fillSymbolTable64 E nm str p =
     sbind (slift (alloc (env_junk E) (unat (Section64_size p)))) (\<lambda>b.
     sbind (Section64_read E p b) (\<lambda>b.
     sbind (record_block b) (\<lambda>i.
       if Section64_entsize p = 0 then sraise Division_By_Zero
       else if Section64_size p div Section64_entsize p * Section64_entsize p \<noteq> Section64_size p
       then sbind nm (\<lambda>x. sraise (Throw (Garbage_In_Symtab (bytes_str x))))
       else fill_loop (str (sint (Section64_link p))) True Elf64_Sym_fields
              (unat (Section64_entsize p)) (unat (Section64_size p)) i 0)))"

section \<open>Program headers\<close>

definition ProgramHeader64_flags :: "Elf64_Phdr \<Rightarrow> u32" where
  "ProgramHeader64_flags p = p_flags64 p"

definition ProgramHeader64_vaddr :: "Elf64_Phdr \<Rightarrow> u64" where
  "ProgramHeader64_vaddr p = ucast (p_vaddr64 p)"

definition ProgramHeader64_paddr :: "Elf64_Phdr \<Rightarrow> u64" where
  "ProgramHeader64_paddr p = ucast (p_paddr64 p)"

definition ProgramHeader64_memsz :: "Elf64_Phdr \<Rightarrow> u64" where
  "ProgramHeader64_memsz p = ucast (p_memsz64 p)"

definition ProgramHeader64_align :: "Elf64_Phdr \<Rightarrow> u64" where
  "ProgramHeader64_align p = ucast (p_align64 p)"

definition ProgramHeader64_type :: "Elf64_Phdr \<Rightarrow> u32" where
  "ProgramHeader64_type p = p_type64 p"

definition ProgramHeader64_filesz :: "Elf64_Phdr \<Rightarrow> u64" where
  "ProgramHeader64_filesz p = ucast (p_filesz64 p)"

definition ProgramHeader64_offset :: "Elf64_Phdr \<Rightarrow> u64" where
  "ProgramHeader64_offset p = ucast (p_offset64 p)"

definition ProgramHeader64_readBuf :: "'s elf_env \<Rightarrow> Elf64_Phdr \<Rightarrow> ('s elf_file, mem) stm" where
  "ProgramHeader64_readBuf E p =
     sbind (slift (alloc (env_junk E) (unat (p_memsz64 p)))) (\<lambda>b.
     sbind (if p_filesz64 p \<noteq> 0
            then on_stream (elf_readAt (env_stream E) (ucast (p_offset64 p)) b (ucast (p_filesz64 p)))
            else sreturn b) (\<lambda>b.
       if p_filesz64 p < p_memsz64 p
       then sreturn (arr_set (env_array E) b 0 (unat (p_memsz64 p - p_filesz64 p)) 0)
       else sreturn b))"

section \<open>What the tables of a file contain\<close>

text \<open>The header and the entries of the tables of the file content \<open>c\<close>, as values.\<close>

definition elf64_header :: "mem \<Rightarrow> Elf64_Ehdr" where
  "elf64_header c = conv_Elf64_Ehdr (elf_decoder (c ! EI_DATA)) (load_Elf64_Ehdr c 0)"

definition elf64_phdr :: "mem \<Rightarrow> Elf64_Ehdr \<Rightarrow> nat \<Rightarrow> Elf64_Phdr" where
  "elf64_phdr c h i =
     conv_Elf64_Phdr (elf_decoder (e_ident64 h ! EI_DATA))
       (load_Elf64_Phdr c (unat (e_phoff64 h) + i * unat (e_phentsize64 h)))"

definition elf64_shdr :: "mem \<Rightarrow> Elf64_Ehdr \<Rightarrow> nat \<Rightarrow> Elf64_Shdr" where
  "elf64_shdr c h i =
     conv_Elf64_Shdr (elf_decoder (e_ident64 h ! EI_DATA))
       (load_Elf64_Shdr c (unat (e_shoff64 h) + i * unat (e_shentsize64 h)))"

text \<open>
  The tables lie in the file, at a position that fits in 32 bits, and the product
  of their dimensions is an \<open>int\<close>.
\<close>

definition phdrs_fit64 :: "mem \<Rightarrow> Elf64_Ehdr \<Rightarrow> bool" where
  "phdrs_fit64 c h \<longleftrightarrow>
     sizeof_Elf64_Phdr \<le> unat (e_phentsize64 h) \<and>
     unat (e_phentsize64 h) * unat (e_phnum64 h) < 2 ^ 31 \<and>
     unat (e_phoff64 h) < 2 ^ 32 \<and>
     unat (e_phoff64 h) + unat (e_phentsize64 h) * unat (e_phnum64 h) \<le> length c"

definition shdrs_fit64 :: "mem \<Rightarrow> Elf64_Ehdr \<Rightarrow> bool" where
  "shdrs_fit64 c h \<longleftrightarrow>
     sizeof_Elf64_Shdr \<le> unat (e_shentsize64 h) \<and>
     unat (e_shentsize64 h) * unat (e_shnum64 h) < 2 ^ 31 \<and>
     unat (e_shoff64 h) < 2 ^ 32 \<and>
     unat (e_shoff64 h) + unat (e_shentsize64 h) * unat (e_shnum64 h) \<le> length c"

section \<open>Lemmas on the constructor\<close>

lemma Elf64_Ehdr_take_ok: "fields_ok sizeof_Elf64_Ehdr (take 9 Elf64_Ehdr_fields)"
  by (simp add: Elf64_Ehdr_fields_def sizeof_Elf64_Ehdr_def)

lemma Elf64_Ehdr_fix_halves:
  assumes "length m = sizeof_Elf64_Ehdr"
  obtains m1 m2 where "fix_fields d 0 (take 9 Elf64_Ehdr_fields) m = Inr m1"
    and "fix_fields d 0 (drop 9 Elf64_Ehdr_fields) m1 = Inr m2"
    and "load_Elf64_Ehdr m2 0 = conv_Elf64_Ehdr d (load_Elf64_Ehdr m 0)"
    and "e_shstrndx64 (load_Elf64_Ehdr m1 0) = fix_u16 d (e_shstrndx64 (load_Elf64_Ehdr m 0))"
    and "e_shnum64 (load_Elf64_Ehdr m1 0) = fix_u16 d (e_shnum64 (load_Elf64_Ehdr m 0))"
proof -
  have sz: "0 + sizeof_Elf64_Ehdr \<le> length m" "length m < 2 ^ 63"
    using assms by (simp_all add: sizeof_Elf64_Ehdr_def)
  obtain m2 where m2: "fix_fields d 0 Elf64_Ehdr_fields m = Inr m2"
    "load_Elf64_Ehdr m2 0 = conv_Elf64_Ehdr d (load_Elf64_Ehdr m 0)"
    using elf64_Ehdr.fix_entry [OF sz] by blast
  have "rbind (fix_fields d 0 (take 9 Elf64_Ehdr_fields) m)
      (fix_fields d 0 (drop 9 Elf64_Ehdr_fields)) = Inr m2"
    using m2(1) fix_fields_append [of d 0 "take 9 Elf64_Ehdr_fields" "drop 9 Elf64_Ehdr_fields" m]
    by simp
  then obtain m1 where m1: "fix_fields d 0 (take 9 Elf64_Ehdr_fields) m = Inr m1"
    "fix_fields d 0 (drop 9 Elf64_Ehdr_fields) m1 = Inr m2"
    by (auto simp: res_iff)
  have "(62, W16) \<in> set (take 9 Elf64_Ehdr_fields)" "(60, W16) \<in> set (take 9 Elf64_Ehdr_fields)"
    by (simp_all add: Elf64_Ehdr_fields_def)
  then have "load16 m1 62 = fix_u16 d (load16 m 62)" "load16 m1 60 = fix_u16 d (load16 m 60)"
    using converted_loads(1) [OF Elf64_Ehdr_take_ok sz m1(1)] by force+
  then show ?thesis
    using that m1 m2(2) by (simp add: load_Elf64_Ehdr_def)
qed

lemma File64_new_eq:
  assumes R: "rstream_spec (env_stream E) ct ps" and len: "sizeof_Elf64_Ehdr \<le> length (ct s)"
  defines "c \<equiv> ct s"
  shows "\<exists>s'. ct s' = c \<and> File64_new E s =
    (if take 4 c \<noteq> ELFMAG then Inl (Throw Not_An_ELF)
     else if c ! EI_CLASS \<noteq> ELFCLASS64 then Inl Assert_Failure
     else if e_shnum64 (elf64_header c) \<le> e_shstrndx64 (elf64_header c)
       then Inl (Throw Malformed_ELF)
     else Inr (new_elf_file s' (H64 (elf64_header c))))"
proof -
  have n: "unat (word_of_nat sizeof_Elf64_Ehdr :: u32) = sizeof_Elf64_Ehdr"
    by (simp add: sizeof_Elf64_Ehdr_def)
  obtain s' where rd: "elf_readAt (env_stream E) 0 (new_block (env_junk E) sizeof_Elf64_Ehdr)
      (word_of_nat sizeof_Elf64_Ehdr) s = (Inr (bytes_at c 0 sizeof_Elf64_Ehdr), s')" "ct s' = c"
    using elf_readAt_whole [OF R, of 0 "word_of_nat sizeof_Elf64_Ehdr" s
        "new_block (env_junk E) sizeof_Elf64_Ehdr"] len n unfolding c_def by auto
  let ?m = "bytes_at c 0 sizeof_Elf64_Ehdr"
  let ?d = "elf_decoder (c ! EI_DATA)"
  have ld: "load_Elf64_Ehdr ?m 0 = load_Elf64_Ehdr c 0"
    by (simp add: sizeof_Elf64_Ehdr_def load_Elf64_Ehdr_slice)
  have lm: "length ?m = sizeof_Elf64_Ehdr"
    using len by (simp add: c_def)
  have id: "take 4 ?m = take 4 c" "?m ! EI_CLASS = c ! EI_CLASS" "?m ! EI_DATA = c ! EI_DATA"
    using len by (simp_all add: c_def bytes_at_def sizeof_Elf64_Ehdr_def elf_ident_consts min_def)
  obtain m1 m2 where m: "fix_fields ?d 0 (take 9 Elf64_Ehdr_fields) ?m = Inr m1"
    "fix_fields ?d 0 (drop 9 Elf64_Ehdr_fields) m1 = Inr m2"
    "load_Elf64_Ehdr m2 0 = elf64_header c"
    "e_shstrndx64 (load_Elf64_Ehdr m1 0) = e_shstrndx64 (elf64_header c)"
    "e_shnum64 (load_Elf64_Ehdr m1 0) = e_shnum64 (elf64_header c)"
    using Elf64_Ehdr_fix_halves [OF lm, of ?d]
    unfolding ld elf64_header_def conv_Elf64_Ehdr_def by auto
  show ?thesis
    by (rule exI [of _ s']) (auto simp: File64_new_def rd id m require_def not_less)
qed

lemma File64_new_short:
  assumes R: "rstream_spec (env_stream E) ct ps" and len: "length (ct s) < sizeof_Elf64_Ehdr"
  shows "File64_new E s = Inl (Throw (Cannot_Read (word_of_nat sizeof_Elf64_Ehdr)))"
proof -
  have n: "unat (word_of_nat sizeof_Elf64_Ehdr :: u32) = sizeof_Elf64_Ehdr"
    by (simp add: sizeof_Elf64_Ehdr_def)
  show ?thesis
    using elf_readAt_short [OF R, of 0 s "word_of_nat sizeof_Elf64_Ehdr"
        "new_block (env_junk E) sizeof_Elf64_Ehdr"] len n
    by (auto simp: File64_new_def)
qed

section \<open>Lemmas on the tables\<close>

lemma loadProgramHeaders64_eq:
  assumes R: "rstream_spec (env_stream E) ct ps" and fit: "phdrs_fit64 (ct (el_s f)) h"
    and fresh: "el_ph_buf f = None" and hd: "el_head f = H64 h"
  shows "\<exists>s' b. ct s' = ct (el_s f) \<and> loadProgramHeaders64 E h f =
    (Inr (), f\<lparr>el_s := s', el_ph_buf := Some b, el_phs :=
       map (\<lambda>i. \<lparr>ph_info = PH64 (elf64_phdr (ct (el_s f)) h i), ph_cache = None\<rparr>)
         [0..<unat (e_phnum64 h)]\<rparr>)"
proof -
  define k where "k = unat (e_phnum64 h)"
  define ent where "ent = unat (e_phentsize64 h)"
  define pos where "pos = unat (e_phoff64 h)"
  let ?c = "ct (el_s f)"
  have fit': "sizeof_Elf64_Phdr \<le> ent" "k * ent < 2 ^ 31" "pos + k * ent \<le> length ?c"
    "unat (ucast (e_phoff64 h) :: u32) = pos"
    using fit by (simp_all add: unat_ucast_u32 phdrs_fit64_def k_def ent_def pos_def mult.commute)
  have n: "unat (word_of_nat (k * ent) :: u32) = k * ent"
    using fit'(2) by (simp add: unat_of_nat del: of_nat_mult)
  obtain s' where rd: "elf_readAt (env_stream E) (ucast (e_phoff64 h)) (new_block (env_junk E) (k * ent))
      (word_of_nat (k * ent)) (el_s f) = (Inr (bytes_at ?c pos (k * ent)), s')" "ct s' = ?c"
    using elf_readAt_whole [OF R, of "ucast (e_phoff64 h)" "word_of_nat (k * ent)" "el_s f"
        "new_block (env_junk E) (k * ent)"] fit'(3,4) n by auto
  obtain m' where m': "fix_table (file_decoder f) Elf64_Phdr_fields ent 0 k
      (bytes_at ?c pos (k * ent)) = Inr m'"
    and ld: "\<And>j. j < k \<Longrightarrow> load_Elf64_Phdr m' (j * ent) =
      conv_Elf64_Phdr (file_decoder f) (load_Elf64_Phdr ?c (pos + j * ent))"
    using elf64_Phdr.fix_loaded_table [of ent pos k ?c "file_decoder f"] fit' by auto
  have "map (\<lambda>i. \<lparr>ph_info = PH64 (load_Elf64_Phdr m' (i * ent)), ph_cache = None\<rparr>) [0..<k] =
      map (\<lambda>i. \<lparr>ph_info = PH64 (elf64_phdr ?c h i), ph_cache = None\<rparr>) [0..<k]"
    using ld hd by (simp add: elf64_phdr_def file_decoder_def k_def ent_def pos_def)
  then show ?thesis
    using fit'(2) fresh rd m'
    by (intro exI [of _ s'] exI [of _ m'])
      (simp add: loadProgramHeaders64_def int_mul16_def alloc_def mult.commute
        flip: k_def ent_def)
qed

lemma loadSections64_eq:
  assumes R: "rstream_spec (env_stream E) ct ps" and A: "elm_array_spec (env_array E)"
    and fit: "shdrs_fit64 (ct (el_s f)) h" and hd: "el_head f = H64 h"
  shows "\<exists>s' b. ct s' = ct (el_s f) \<and> loadSections64 E h f =
    (Inr (), f\<lparr>el_s := s', el_sec_buf := Some b, el_sects :=
       map (\<lambda>i. \<lparr>sec_info = SH64 (elf64_shdr (ct (el_s f)) h i), sec_cache = None\<rparr>)
         [0..<unat (e_shnum64 h)]\<rparr>)"
proof -
  define k where "k = unat (e_shnum64 h)"
  define ent where "ent = unat (e_shentsize64 h)"
  define pos where "pos = unat (e_shoff64 h)"
  let ?c = "ct (el_s f)"
  have fit': "sizeof_Elf64_Shdr \<le> ent" "k * ent < 2 ^ 31" "pos + k * ent \<le> length ?c"
    "unat (ucast (e_shoff64 h) :: u32) = pos"
    using fit by (simp_all add: unat_ucast_u32 shdrs_fit64_def k_def ent_def pos_def mult.commute)
  have n: "unat (word_of_nat (k * ent) :: u32) = k * ent"
    using fit'(2) by (simp add: unat_of_nat del: of_nat_mult)
  define z where "z = arr_set (env_array E) (new_block (env_junk E) (k * ent)) 0 (k * ent) 0"
  have z: "length z = k * ent"
    by (simp add: z_def elm_array_specD(2) [OF A])
  obtain s' where rd: "elf_readAt (env_stream E) (ucast (e_shoff64 h)) z
      (word_of_nat (k * ent)) (el_s f) = (Inr (bytes_at ?c pos (k * ent)), s')" "ct s' = ?c"
    using elf_readAt_whole [OF R, of "ucast (e_shoff64 h)" "word_of_nat (k * ent)" "el_s f" z]
      fit'(3,4) n z by auto
  obtain m' where m': "fix_table (file_decoder f) Elf64_Shdr_fields ent 0 k
      (bytes_at ?c pos (k * ent)) = Inr m'"
    and ld: "\<And>j. j < k \<Longrightarrow> load_Elf64_Shdr m' (j * ent) =
      conv_Elf64_Shdr (file_decoder f) (load_Elf64_Shdr ?c (pos + j * ent))"
    using elf64_Shdr.fix_loaded_table [of ent pos k ?c "file_decoder f"] fit' by auto
  have "map (\<lambda>i. \<lparr>sec_info = SH64 (load_Elf64_Shdr m' (i * ent)), sec_cache = None\<rparr>) [0..<k] =
      map (\<lambda>i. \<lparr>sec_info = SH64 (elf64_shdr ?c h i), sec_cache = None\<rparr>) [0..<k]"
    using ld hd by (simp add: elf64_shdr_def file_decoder_def k_def ent_def pos_def)
  then show ?thesis
    using fit'(2) rd m'
    by (intro exI [of _ s'] exI [of _ m'])
      (simp add: loadSections64_def int_mul16_def alloc_def mult.commute z_def
        flip: k_def ent_def)
qed

section \<open>Lemmas on the contents\<close>

lemma Section64_read_eq:
  assumes R: "rstream_spec (env_stream E) ct ps"
    and fit: "unat (sh_offset64 p) + unat (sh_size64 p) \<le> length (ct (el_s f))"
    and small: "unat (sh_offset64 p) < 2 ^ 32" "unat (sh_size64 p) < 2 ^ 32"
    and b: "length b = unat (sh_size64 p)"
  shows "\<exists>s'. ct s' = ct (el_s f) \<and> Section64_read E p b f =
    (Inr (bytes_at (ct (el_s f)) (unat (sh_offset64 p)) (unat (sh_size64 p))), f\<lparr>el_s := s'\<rparr>)"
proof -
  have u: "unat (ucast (sh_offset64 p) :: u32) = unat (sh_offset64 p)"
    "unat (ucast (sh_size64 p) :: u32) = unat (sh_size64 p)"
    using small by (simp_all add: unat_ucast_u32)
  obtain s' where "elf_readAt (env_stream E) (ucast (sh_offset64 p)) b (ucast (sh_size64 p))
      (el_s f) = (Inr (bytes_at (ct (el_s f)) (unat (sh_offset64 p)) (unat (sh_size64 p))), s')"
    "ct s' = ct (el_s f)"
    using elf_readAt_whole [OF R, of "ucast (sh_offset64 p)" "ucast (sh_size64 p)" "el_s f" b]
      fit b u by auto
  then show ?thesis
    by (intro exI [of _ s']) (simp add: Section64_read_def)
qed

lemma Section64_readBuf_plain:
  assumes R: "rstream_spec (env_stream E) ct ps"
    and fit: "unat (sh_offset64 p) + unat (sh_size64 p) \<le> length (ct (el_s f))"
    and small: "unat (sh_offset64 p) < 2 ^ 32" "unat (sh_size64 p) < 2 ^ 32"
    and ty: "sh_type64 p \<noteq> SHT_SYMTAB" "sh_type64 p \<noteq> SHT_DYNSYM"
  shows "\<exists>s'. ct s' = ct (el_s f) \<and> Section64_readBuf E nm p f =
    (Inr (bytes_at (ct (el_s f)) (unat (sh_offset64 p)) (unat (sh_size64 p))), f\<lparr>el_s := s'\<rparr>)"
  using Section64_read_eq [OF R fit small, of "new_block (env_junk E) (unat (sh_size64 p))"] ty
    small(2) by (auto simp: Section64_readBuf_def alloc_def)

lemma symtab_aligned64_iff: "symtab_aligned64 p \<longleftrightarrow> unat (sh_entsize64 p) dvd unat (sh_size64 p)"
  by (simp add: symtab_aligned64_def word_div_mult_iff)

lemma Section64_readBuf_symtab:
  assumes R: "rstream_spec (env_stream E) ct ps"
    and fit: "unat (sh_offset64 p) + unat (sh_size64 p) \<le> length (ct (el_s f))"
    and small: "unat (sh_offset64 p) < 2 ^ 32" "unat (sh_size64 p) < 2 ^ 32"
    and ty: "sh_type64 p = SHT_SYMTAB \<or> sh_type64 p = SHT_DYNSYM"
    and ent: "sizeof_Elf64_Sym \<le> unat (sh_entsize64 p)"
    and al: "unat (sh_size64 p) = k * unat (sh_entsize64 p)"
  shows "\<exists>s' m. ct s' = ct (el_s f) \<and> Section64_readBuf E nm p f = (Inr m, f\<lparr>el_s := s'\<rparr>) \<and>
    sym_loop (file_decoder f) Elf64_Sym_fields (unat (sh_entsize64 p)) (unat (sh_size64 p)) 0
      (bytes_at (ct (el_s f)) (unat (sh_offset64 p)) (unat (sh_size64 p))) = Inr m \<and>
    length m = unat (sh_size64 p) \<and>
    (\<forall>j < k. load_Elf64_Sym m (j * unat (sh_entsize64 p)) =
       conv_Elf64_Sym (file_decoder f)
         (load_Elf64_Sym (ct (el_s f)) (unat (sh_offset64 p) + j * unat (sh_entsize64 p))))"
proof -
  define e where "e = unat (sh_entsize64 p)"
  define pos where "pos = unat (sh_offset64 p)"
  let ?c = "ct (el_s f)"
  have e: "0 < e" "sh_entsize64 p \<noteq> 0" "sizeof_Elf64_Sym \<le> e"
    using ent by (auto simp: e_def sizeof_Elf64_Sym_def)
  have al': "unat (sh_size64 p) = k * e"
    using al by (simp add: e_def)
  have ke: "k * e < 2 ^ 63"
    using small(2) unfolding al' by simp
  obtain s' where rd: "Section64_read E p (new_block (env_junk E) (k * e)) f =
      (Inr (bytes_at ?c pos (k * e)), f\<lparr>el_s := s'\<rparr>)" "ct s' = ?c"
    using Section64_read_eq [OF R fit small, of "new_block (env_junk E) (k * e)"] al'
    by (auto simp: pos_def)
  obtain m where m: "fix_table (file_decoder f) Elf64_Sym_fields e 0 k
      (bytes_at ?c pos (k * e)) = Inr m" "length m = k * e"
    and ld: "\<And>j. j < k \<Longrightarrow> load_Elf64_Sym m (j * e) =
      conv_Elf64_Sym (file_decoder f) (load_Elf64_Sym ?c (pos + j * e))"
    using elf64_Sym.fix_loaded_table [of e pos k ?c "file_decoder f"] e(3) fit al' ke
    by (auto simp: pos_def)
  have sl: "sym_loop (file_decoder f) Elf64_Sym_fields e (k * e) 0 (bytes_at ?c pos (k * e)) = Inr m"
    using sym_loop_eq_table [of e "k * e" 0 k] m(1) e(1) by simp
  have "symtab_aligned64 p"
    by (simp add: symtab_aligned64_iff al)
  with sl have "Section64_readBuf E nm p f = (Inr m, f\<lparr>el_s := s'\<rparr>)"
    using rd ty e(2) ke unfolding Section64_readBuf_def
    unfolding al' e_def [symmetric]
    by (simp add: file_decoder_def alloc_def)
  then show ?thesis
    using rd(2) m(2) ld al' sl by (auto simp: e_def pos_def)
qed

lemma ProgramHeader64_readBuf_eq:
  assumes R: "rstream_spec (env_stream E) ct ps" and A: "elm_array_spec (env_array E)"
    and fit: "unat (p_offset64 p) + unat (p_filesz64 p) \<le> length (ct (el_s f))"
    and le: "p_filesz64 p \<le> p_memsz64 p"
    and small: "unat (p_offset64 p) < 2 ^ 32" "unat (p_memsz64 p) < 2 ^ 32"
  shows "\<exists>s'. ct s' = ct (el_s f) \<and> ProgramHeader64_readBuf E p f =
    (Inr (replicate (unat (p_memsz64 p) - unat (p_filesz64 p)) 0 @
          drop (unat (p_memsz64 p) - unat (p_filesz64 p))
            (store_at (new_block (env_junk E) (unat (p_memsz64 p))) 0
              (bytes_at (ct (el_s f)) (unat (p_offset64 p)) (unat (p_filesz64 p))))),
     f\<lparr>el_s := s'\<rparr>)"
proof -
  define b where "b = new_block (env_junk E) (unat (p_memsz64 p))"
  define raw where "raw =
    store_at b 0 (bytes_at (ct (el_s f)) (unat (p_offset64 p)) (unat (p_filesz64 p)))"
  have le': "unat (p_filesz64 p) \<le> unat (p_memsz64 p)"
    using le by (simp add: word_le_nat_alt)
  have u: "unat (ucast (p_offset64 p) :: u32) = unat (p_offset64 p)"
    "unat (ucast (p_filesz64 p) :: u32) = unat (p_filesz64 p)"
    using small le' by (simp_all add: unat_ucast_u32)
  have b: "unat (p_filesz64 p) \<le> length b"
    using le' by (simp add: b_def)
  have raw: "length raw = unat (p_memsz64 p)"
    using b fit by (simp add: raw_def b_def)
  obtain s' where rd: "(if p_filesz64 p \<noteq> 0
      then on_stream (elf_readAt (env_stream E) (ucast (p_offset64 p)) b (ucast (p_filesz64 p)))
      else sreturn b) f = (Inr raw, f\<lparr>el_s := s'\<rparr>)" "ct s' = ct (el_s f)"
  proof (cases "p_filesz64 p = 0")
    case True
    then have "raw = b"
      by (simp add: raw_def store_at_def bytes_at_def)
    then show ?thesis
      using True that [of "el_s f"] by simp
  next
    case False
    then show ?thesis
      using elf_readAt_ok [OF R, of "ucast (p_offset64 p)" "ucast (p_filesz64 p)" "el_s f" b]
        fit b u that by (auto simp: raw_def)
  qed
  have sub: "unat (p_memsz64 p - p_filesz64 p) = unat (p_memsz64 p) - unat (p_filesz64 p)"
    using le by (simp add: unat_sub_if_size word_le_nat_alt word_size)
  have lt: "p_filesz64 p < p_memsz64 p \<longleftrightarrow> unat (p_filesz64 p) < unat (p_memsz64 p)"
    by (simp add: word_less_nat_alt)
  have K: "(if p_filesz64 p < p_memsz64 p
      then sreturn (arr_set (env_array E) raw 0 (unat (p_memsz64 p - p_filesz64 p)) 0)
      else sreturn raw) (f\<lparr>el_s := s'\<rparr>) =
      (Inr (replicate (unat (p_memsz64 p) - unat (p_filesz64 p)) 0 @
        drop (unat (p_memsz64 p) - unat (p_filesz64 p)) raw), f\<lparr>el_s := s'\<rparr>)"
    using raw sub le' by (auto simp: lt elm_array_specD(2) [OF A] store_at_def)
  have al: "alloc (env_junk E) (unat (p_memsz64 p)) = Inr (new_block (env_junk E) (unat (p_memsz64 p)))"
    using small(2) by (simp add: alloc_def)
  have "ProgramHeader64_readBuf E p f =
      (Inr (replicate (unat (p_memsz64 p) - unat (p_filesz64 p)) 0 @
        drop (unat (p_memsz64 p) - unat (p_filesz64 p)) raw), f\<lparr>el_s := s'\<rparr>)"
    unfolding ProgramHeader64_readBuf_def al b_def [symmetric]
    by (simp only: sbind_units) (simp only: sbind_def rd(1) prod.case sum.case K)
  then show ?thesis
    using rd(2) unfolding raw_def b_def by blast
qed

end
