(* ===== verification/Elf_File.thy ===== *)
theory Elf_File
  imports Elf_File32 Elf_File64
begin

text \<open>
  \<open>src/elf_File.cpp\<close> and \<open>include/gel++/elf/File.h\<close>: what \<open>elf::File\<close> does for both
  classes of files. Its tables are loaded on first use; the content of a section
  or of a program header is read once and kept. The virtual functions that
  \<open>File32\<close> and \<open>File64\<close> implement are dispatched on the constructors of
  \<open>elf_header\<close>, \<open>phdr_info\<close> and \<open>shdr_info\<close>.

  Reading the content of a section may need its name (for the message about
  garbage in a symbol table), reading a name needs the content of the string
  table: the recursion is bounded by the number of nested calls the stack can
  hold, the argument \<open>n\<close> of \<open>stringAt\<close> and of its callers.
\<close>

section \<open>Virtual functions\<close>

fun ph_flags :: "phdr_info \<Rightarrow> u32" where
  "ph_flags (PH32 p) = ProgramHeader32_flags p"
| "ph_flags (PH64 p) = ProgramHeader64_flags p"

fun ph_vaddr :: "phdr_info \<Rightarrow> u64" where
  "ph_vaddr (PH32 p) = ProgramHeader32_vaddr p"
| "ph_vaddr (PH64 p) = ProgramHeader64_vaddr p"

fun ph_paddr :: "phdr_info \<Rightarrow> u64" where
  "ph_paddr (PH32 p) = ProgramHeader32_paddr p"
| "ph_paddr (PH64 p) = ProgramHeader64_paddr p"

fun ph_memsz :: "phdr_info \<Rightarrow> u64" where
  "ph_memsz (PH32 p) = ProgramHeader32_memsz p"
| "ph_memsz (PH64 p) = ProgramHeader64_memsz p"

fun ph_align :: "phdr_info \<Rightarrow> u64" where
  "ph_align (PH32 p) = ProgramHeader32_align p"
| "ph_align (PH64 p) = ProgramHeader64_align p"

fun ph_type :: "phdr_info \<Rightarrow> u32" where
  "ph_type (PH32 p) = ProgramHeader32_type p"
| "ph_type (PH64 p) = ProgramHeader64_type p"

fun ph_filesz :: "phdr_info \<Rightarrow> u64" where
  "ph_filesz (PH32 p) = ProgramHeader32_filesz p"
| "ph_filesz (PH64 p) = ProgramHeader64_filesz p"

fun ph_offset :: "phdr_info \<Rightarrow> u64" where
  "ph_offset (PH32 p) = ProgramHeader32_offset p"
| "ph_offset (PH64 p) = ProgramHeader64_offset p"

fun sh_flags :: "shdr_info \<Rightarrow> u32" where
  "sh_flags (SH32 p) = Section32_flags p"
| "sh_flags (SH64 p) = Section64_flags p"

fun sh_type :: "shdr_info \<Rightarrow> u32" where
  "sh_type (SH32 p) = Section32_type p"
| "sh_type (SH64 p) = Section64_type p"

fun sh_link :: "shdr_info \<Rightarrow> u32" where
  "sh_link (SH32 p) = Section32_link p"
| "sh_link (SH64 p) = Section64_link p"

fun sh_offset :: "shdr_info \<Rightarrow> u64" where
  "sh_offset (SH32 p) = Section32_offset p"
| "sh_offset (SH64 p) = Section64_offset p"

fun sh_addr :: "shdr_info \<Rightarrow> u64" where
  "sh_addr (SH32 p) = Section32_addr p"
| "sh_addr (SH64 p) = Section64_addr p"

fun sh_size :: "shdr_info \<Rightarrow> u64" where
  "sh_size (SH32 p) = Section32_size p"
| "sh_size (SH64 p) = Section64_size p"

fun sh_entsize :: "shdr_info \<Rightarrow> u64" where
  "sh_entsize (SH32 p) = Section32_entsize p"
| "sh_entsize (SH64 p) = Section64_entsize p"

fun sh_name :: "shdr_info \<Rightarrow> u64" where
  "sh_name (SH32 p) = ucast (sh_name32 p)"
| "sh_name (SH64 p) = ucast (sh_name64 p)"

fun elf_getStrTab :: "elf_header \<Rightarrow> int" where
  "elf_getStrTab (H32 h) = File32_getStrTab h"
| "elf_getStrTab (H64 h) = File64_getStrTab h"

fun elf_elfMachine :: "elf_header \<Rightarrow> int" where
  "elf_elfMachine (H32 h) = File32_elfMachine h"
| "elf_elfMachine (H64 h) = File64_elfMachine h"

fun elf_elfOS :: "elf_header \<Rightarrow> int" where
  "elf_elfOS (H32 h) = File32_elfOS h"
| "elf_elfOS (H64 h) = File64_elfOS h"

fun elf_entry :: "elf_header \<Rightarrow> u64" where
  "elf_entry (H32 h) = File32_entry h"
| "elf_entry (H64 h) = File64_entry h"

fun elf_type :: "elf_header \<Rightarrow> file_type" where
  "elf_type (H32 h) = File32_type h"
| "elf_type (H64 h) = File64_type h"

fun elf_addressType :: "elf_header \<Rightarrow> address_type_t" where
  "elf_addressType (H32 h) = File32_addressType"
| "elf_addressType (H64 h) = File64_addressType"

section \<open>Identification\<close>

definition elf_matches :: "u8 list \<Rightarrow> bool" where
  "elf_matches magic \<longleftrightarrow>
     magic ! 0 = ELFMAG ! 0 \<and> magic ! 1 = ELFMAG ! 1 \<and>
     magic ! 2 = ELFMAG ! 2 \<and> magic ! 3 = ELFMAG ! 3"

definition elf_isBigEndian :: "elf_header \<Rightarrow> bool" where
  "elf_isBigEndian h \<longleftrightarrow> elf_ident h ! EI_DATA = ELFDATA2MSB"

text \<open>The decimal digits of an integer in a message.\<close>

fun show_nat :: "nat \<Rightarrow> string" where
  "show_nat n =
     (if n < 10 then [char_of (48 + n)] else show_nat (n div 10) @ [char_of (48 + n mod 10)])"

declare show_nat.simps [simp del]

definition elf_machine_table :: "(int \<times> string) list" where
  "elf_machine_table =
    [(0, ''no machine''), (1, ''we32100''), (2, ''sparc''), (3, ''i386''), (4, ''m68k''),
     (5, ''m88k''), (6, ''iMCU''), (7, ''i860''), (8, ''r3000''), (9, ''S370''),
     (10, ''r4000''), (14, ''pa-risc''), (17, ''vpp500''), (18, ''sparc32+''), (19, ''i960''),
     (20, ''ppc''), (21, ''ppc64''), (22, ''S390''), (23, ''SPUC/SPC''), (36, ''v800''),
     (37, ''fr20''), (38, ''rh32''), (39, ''rce''), (40, ''arm''), (41, ''alpha''),
     (42, ''superh''), (43, ''sparcv9''), (44, ''tricore''), (45, ''arc''), (46, ''h8/300''),
     (47, ''h8/300h''), (48, ''h8s''), (49, ''h8/500''), (50, ''ia-64''), (51, ''mips-x''),
     (52, ''coldfire''), (53, ''m68hc12''), (54, ''mma''), (55, ''pcp''), (56, ''ncpu''),
     (57, ''ndr1''), (58, ''star*core''), (59, ''me16''), (60, ''st100''), (61, ''tinyj''),
     (62, ''x86-64''), (66, ''fx663''), (67, ''st9+''), (68, ''st7''), (69, ''68hc16''),
     (70, ''68hc11''), (71, ''68hc08''), (72, ''68hc05''), (73, ''svx''), (74, ''st19''),
     (75, ''vax''), (76, ''cris''), (77, ''javelin''), (78, ''firepath''), (79, ''zsp''),
     (80, ''mmix''), (81, ''huany''), (82, ''prism''), (140, ''tms320c6000''),
     (183, ''arm64''), (243, ''riscv''), (247, ''bpf''), (257, ''wdc65c816'')]"

definition elf_machine :: "elf_header \<Rightarrow> string" where
  "elf_machine h =
     (case map_of elf_machine_table (elf_elfMachine h) of
        Some x \<Rightarrow> x
      | None \<Rightarrow> ''unknown ('' @ show_nat (nat (elf_elfMachine h)) @ '')'')"

definition elf_os_table :: "(int \<times> string) list" where
  "elf_os_table =
    [(uint ELFOSABI_SYSV, ''SysV''), (uint ELFOSABI_HPUX, ''HPUX''), (2, ''NetBSD''),
     (3, ''Linux''), (4, ''GNU-Hurd''), (6, ''Solaris''), (7, ''AIX''), (8, ''IRIX''),
     (9, ''FreeBSD''), (10, ''Tru64''), (11, ''Novel-Modesto''), (12, ''OpenBSD''),
     (13, ''OpenVMS''), (14, ''NonStop-Kernel''), (15, ''AROS''), (16, ''Fenix-OS''),
     (17, ''CloudABI''), (18, ''OpenVOS''), (uint ELFOSABI_STANDALONE, ''standalone'')]"

definition elf_os :: "elf_header \<Rightarrow> string" where
  "elf_os h = (case map_of elf_os_table (elf_elfOS h) of Some x \<Rightarrow> x | None \<Rightarrow> gel_os)"

section \<open>Program headers\<close>

definition programHeaders :: "'s elf_env \<Rightarrow> ('s elf_file, ProgramHeader list) stm" where
  "programHeaders E f =
     (if el_ph_loaded f then (Inr (el_phs f), f)
      else
        sbind (case el_head f of
                 H32 h \<Rightarrow> loadProgramHeaders32 E h
               | H64 h \<Rightarrow> loadProgramHeaders64 E h) (\<lambda>_.
        sbind (smodify (\<lambda>f. f\<lparr>el_ph_loaded := True\<rparr>)) (\<lambda>_.
        sbind sget (\<lambda>f. sreturn (el_phs f)))) f)"

definition ph_contains :: "phdr_info \<Rightarrow> u64 \<Rightarrow> bool" where
  "ph_contains p a \<longleftrightarrow> ph_vaddr p \<le> a \<and> a < ph_vaddr p + ph_memsz p"

definition ph_readBuf :: "'s elf_env \<Rightarrow> phdr_info \<Rightarrow> ('s elf_file, mem) stm" where
  "ph_readBuf E p =
     (case p of PH32 q \<Rightarrow> ProgramHeader32_readBuf E q | PH64 q \<Rightarrow> ProgramHeader64_readBuf E q)"

text \<open>\<open>ProgramHeader::content\<close> of the header at index \<open>i\<close>.\<close>

definition ph_content :: "'s elf_env \<Rightarrow> nat \<Rightarrow> ('s elf_file, buffer) stm" where
  "ph_content E i f =
     (if length (el_phs f) \<le> i then (Inl Memory_Fault, f)
      else
        let p = el_phs f ! i in
        case ph_cache p of
          Some b \<Rightarrow>
            (Inr (make_buffer (file_decoder f) (Some b) (ph_memsz (ph_info p))), f)
        | None \<Rightarrow>
            sbind (ph_readBuf E (ph_info p)) (\<lambda>b.
            sbind (smodify (\<lambda>f. f\<lparr>el_phs := (el_phs f)[i := p\<lparr>ph_cache := Some b\<rparr>]\<rparr>)) (\<lambda>_.
            sbind sget (\<lambda>f. sreturn
              (make_buffer (file_decoder f) (Some b) (ph_memsz (ph_info p)))))) f)"

section \<open>Sections\<close>

definition initSections :: "'s elf_env \<Rightarrow> ('s elf_file, unit) stm" where
  "initSections E f =
     (if el_sects_loaded f then (Inr (), f)
      else
        sbind (case el_head f of
                 H32 h \<Rightarrow> loadSections32 E h
               | H64 h \<Rightarrow> loadSections64 E h) (\<lambda>_.
        smodify (\<lambda>f. f\<lparr>el_sects_loaded := True\<rparr>)) f)"

definition sections :: "'s elf_env \<Rightarrow> ('s elf_file, Section list) stm" where
  "sections E = sbind (initSections E) (\<lambda>_. sbind sget (\<lambda>f. sreturn (el_sects f)))"

definition countSections :: "'s elf_env \<Rightarrow> ('s elf_file, int) stm" where
  "countSections E =
     sbind (initSections E) (\<lambda>_. sbind sget (\<lambda>f. sreturn (int (length (el_sects f)))))"

text \<open>A section is known by its index; an index out of the vector is an invalid access.\<close>

definition elf_section :: "'s elf_env \<Rightarrow> int \<Rightarrow> ('s elf_file, nat) stm" where
  "elf_section E i =
     sbind (initSections E) (\<lambda>_. sbind sget (\<lambda>f.
       if 0 \<le> i \<and> nat i < length (el_sects f) then sreturn (nat i) else sraise Memory_Fault))"

definition sec_contains :: "shdr_info \<Rightarrow> u64 \<Rightarrow> bool" where
  "sec_contains p a \<longleftrightarrow>
     sh_flags p AND SHF_ALLOC \<noteq> 0 \<and> sh_addr p \<le> a \<and> a < sh_addr p + sh_size p"

definition sec_readBuf ::
  "'s elf_env \<Rightarrow> ('s elf_file, u8 list) stm \<Rightarrow> shdr_info \<Rightarrow> ('s elf_file, mem) stm" where
  "sec_readBuf E nm p =
     (case p of SH32 q \<Rightarrow> Section32_readBuf E nm q | SH64 q \<Rightarrow> Section64_readBuf E nm q)"

text \<open>\<open>Section::content\<close> of the section at index \<open>i\<close>, whose name is given by \<open>nm\<close>.\<close>

definition sec_content ::
  "'s elf_env \<Rightarrow> ('s elf_file, u8 list) stm \<Rightarrow> nat \<Rightarrow> ('s elf_file, buffer) stm" where
  "sec_content E nm i f =
     (if length (el_sects f) \<le> i then (Inl Memory_Fault, f)
      else
        let p = el_sects f ! i in
        case sec_cache p of
          Some b \<Rightarrow>
            (Inr (make_buffer (file_decoder f) (Some b) (sh_size (sec_info p))), f)
        | None \<Rightarrow>
            sbind (sec_readBuf E nm (sec_info p)) (\<lambda>b.
            sbind (smodify (\<lambda>f. f\<lparr>el_sects := (el_sects f)[i := p\<lparr>sec_cache := Some b\<rparr>]\<rparr>)) (\<lambda>_.
            sbind sget (\<lambda>f. sreturn
              (make_buffer (file_decoder f) (Some b) (sh_size (sec_info p)))))) f)"

section \<open>Strings\<close>

text \<open>\<open>stringAt(off, k)\<close>, with \<open>n\<close> nested calls left on the stack.\<close>

fun stringAt :: "'s elf_env \<Rightarrow> nat \<Rightarrow> int \<Rightarrow> u64 \<Rightarrow> ('s elf_file, u8 list) stm" where
  "stringAt E 0 k off = sraise Stack_Overflow"
| "stringAt E (Suc n) k off =
     sbind (sections E) (\<lambda>ss.
       if int (length ss) \<le> k then sraise (Throw Strtab_Out_Of_Bound)
       else if k < 0 then sraise Memory_Fault
       else
         sbind (sec_content E
                  (sbind sget (\<lambda>f. stringAt E n (elf_getStrTab (el_head f))
                                     (sh_name (sec_info (ss ! nat k))))) (nat k))
           (\<lambda>b. slift (get_cstr b off)))"

definition elf_stringAt :: "'s elf_env \<Rightarrow> nat \<Rightarrow> u64 \<Rightarrow> ('s elf_file, u8 list) stm" where
  "elf_stringAt E n off = sbind sget (\<lambda>f. stringAt E n (elf_getStrTab (el_head f)) off)"

text \<open>\<open>Section32::name\<close> and \<open>Section64::name\<close> of the section at index \<open>i\<close>.\<close>

definition section_name :: "'s elf_env \<Rightarrow> nat \<Rightarrow> nat \<Rightarrow> ('s elf_file, u8 list) stm" where
  "section_name E n i =
     sbind sget (\<lambda>f.
       if length (el_sects f) \<le> i then sraise Memory_Fault
       else elf_stringAt E n (sh_name (sec_info (el_sects f ! i))))"

definition section_content :: "'s elf_env \<Rightarrow> nat \<Rightarrow> nat \<Rightarrow> ('s elf_file, buffer) stm" where
  "section_content E n i = sec_content E (section_name E n i) i"

definition findSection :: "'s elf_env \<Rightarrow> nat \<Rightarrow> u8 list \<Rightarrow> ('s elf_file, nat option) stm" where
  "findSection E n x =
     sbind (sections E) (\<lambda>ss. gel_find_from sreturn (section_name E n) x 0 (length ss))"

section \<open>Symbols\<close>

definition fillSymbolTable :: "'s elf_env \<Rightarrow> nat \<Rightarrow> nat \<Rightarrow> ('s elf_file, unit) stm" where
  "fillSymbolTable E n i =
     sbind sget (\<lambda>f.
       case sec_info (el_sects f ! i) of
         SH32 p \<Rightarrow> fillSymbolTable32 E (section_name E n i) (stringAt E n) p
       | SH64 p \<Rightarrow> fillSymbolTable64 E (section_name E n i) (stringAt E n) p)"

text \<open>The loop of \<open>symbols()\<close> over the sections of index \<open>i, ..., i + k - 1\<close>.\<close>

fun fill_tables :: "'s elf_env \<Rightarrow> nat \<Rightarrow> nat \<Rightarrow> nat \<Rightarrow> ('s elf_file, unit) stm" where
  "fill_tables E n i 0 = sreturn ()"
| "fill_tables E n i (Suc k) =
     sbind sget (\<lambda>f.
     sbind (if sh_type (sec_info (el_sects f ! i)) = SHT_SYMTAB \<or>
               sh_type (sec_info (el_sects f ! i)) = SHT_DYNSYM
            then fillSymbolTable E n i else sreturn ()) (\<lambda>_.
       fill_tables E n (Suc i) k))"

definition symbols :: "'s elf_env \<Rightarrow> nat \<Rightarrow> ('s elf_file, symbol_table) stm" where
  "symbols E n f =
     (case el_syms f of
        Some t \<Rightarrow> (Inr t, f)
      | None \<Rightarrow>
          sbind (smodify (\<lambda>f. f\<lparr>el_syms := Some empty_symbol_table\<rparr>)) (\<lambda>_.
          sbind (sections E) (\<lambda>ss.
          sbind (fill_tables E n 0 (length ss)) (\<lambda>_.
          sbind sget (\<lambda>f. sreturn (the (el_syms f)))))) f)"

text \<open>The value, the size and the type of a symbol are read in the blocks of the table.\<close>

definition sym_block :: "symbol_table \<Rightarrow> symbol \<Rightarrow> mem" where
  "sym_block t s = st_mems t ! sym_mem s"

definition sym_value :: "symbol_table \<Rightarrow> symbol \<Rightarrow> u64" where
  "sym_value t s =
     (if sym_is64 s then Symbol64_value (load_Elf64_Sym (sym_block t s) (sym_off s))
      else Symbol32_value (load_Elf32_Sym (sym_block t s) (sym_off s)))"

definition sym_size :: "symbol_table \<Rightarrow> symbol \<Rightarrow> u64" where
  "sym_size t s =
     (if sym_is64 s then Symbol64_size (load_Elf64_Sym (sym_block t s) (sym_off s))
      else Symbol32_size (load_Elf32_Sym (sym_block t s) (sym_off s)))"

definition sym_type :: "symbol_table \<Rightarrow> symbol \<Rightarrow> symbol_type" where
  "sym_type t s =
     (if sym_is64 s then Symbol64_type (load_Elf64_Sym (sym_block t s) (sym_off s))
      else Symbol32_type (load_Elf32_Sym (sym_block t s) (sym_off s)))"

definition sym_bind :: "symbol_table \<Rightarrow> symbol \<Rightarrow> symbol_bind" where
  "sym_bind t s =
     (if sym_is64 s then Symbol64_bind (load_Elf64_Sym (sym_block t s) (sym_off s))
      else Symbol32_bind (load_Elf32_Sym (sym_block t s) (sym_off s)))"

definition sym_elfBind :: "symbol_table \<Rightarrow> symbol \<Rightarrow> u8" where
  "sym_elfBind t s =
     (if sym_is64 s then Symbol64_elfBind (load_Elf64_Sym (sym_block t s) (sym_off s))
      else Symbol32_elfBind (load_Elf32_Sym (sym_block t s) (sym_off s)))"

definition sym_elfType :: "symbol_table \<Rightarrow> symbol \<Rightarrow> u8" where
  "sym_elfType t s =
     (if sym_is64 s then Symbol64_elfType (load_Elf64_Sym (sym_block t s) (sym_off s))
      else Symbol32_elfType (load_Elf32_Sym (sym_block t s) (sym_off s)))"

definition sym_shndx :: "symbol_table \<Rightarrow> symbol \<Rightarrow> int" where
  "sym_shndx t s =
     (if sym_is64 s then Symbol64_shndx (load_Elf64_Sym (sym_block t s) (sym_off s))
      else Symbol32_shndx (load_Elf32_Sym (sym_block t s) (sym_off s)))"

section \<open>Segments\<close>

text \<open>A segment is the index of its program header.\<close>

definition initSegments :: "'s elf_env \<Rightarrow> ('s elf_file, unit) stm" where
  "initSegments E f =
     (if el_segs_init f then (Inr (), f)
      else
        sbind (programHeaders E) (\<lambda>phs.
        smodify (\<lambda>f. f\<lparr>el_segs := el_segs f @
            filter (\<lambda>i. ph_type (ph_info (phs ! i)) = PT_LOAD) [0..<length phs],
          el_segs_init := True\<rparr>)) f)"

definition elf_count :: "'s elf_env \<Rightarrow> ('s elf_file, int) stm" where
  "elf_count E = sbind (initSegments E) (\<lambda>_. sbind sget (\<lambda>f. sreturn (int (length (el_segs f)))))"

definition elf_segment :: "'s elf_env \<Rightarrow> int \<Rightarrow> ('s elf_file, nat) stm" where
  "elf_segment E i =
     sbind (initSegments E) (\<lambda>_. sbind sget (\<lambda>f.
       if 0 \<le> i \<and> nat i < length (el_segs f) then sreturn (el_segs f ! nat i)
       else sraise Memory_Fault))"

text \<open>The class \<open>elf::Segment\<close>; its name is computed by the constructor.\<close>

definition elf_Segment :: "phdr_info \<Rightarrow> segment_view" where
  "elf_Segment p =
     \<lparr>sg_name = defaultName (ph_flags p AND PF_X \<noteq> 0) (ph_flags p AND PF_W \<noteq> 0) True,
      sg_base = ph_vaddr p, sg_load = ph_paddr p, sg_size = ph_memsz p, sg_align = ph_align p,
      sg_exec = (ph_flags p AND PF_X \<noteq> 0), sg_write = (ph_flags p AND PF_W \<noteq> 0),
      sg_content = True\<rparr>"

definition elf_segment_view :: "nat \<Rightarrow> ('s elf_file, segment_view) stm" where
  "elf_segment_view i f =
     (if length (el_phs f) \<le> i then (Inl Memory_Fault, f)
      else (Inr (elf_Segment (ph_info (el_phs f ! i))), f))"

section \<open>Iterators\<close>

text \<open>
  \<open>NoteIter\<close>: the name and the descriptor are pointers in the content of the program
  header; the traversal is ended when the descriptor is null.
\<close>

record note_iter =
  ni_cur :: cursor
  ni_name :: u64
  ni_descsz :: u32
  ni_desc :: "u64 option"
  ni_type :: u32

definition note_ended :: "note_iter \<Rightarrow> bool" where
  "note_ended it \<longleftrightarrow> ni_desc it = None"

text \<open>An unread argument of \<open>Cursor::read\<close> keeps its value \<open>old\<close>.\<close>

definition read_u32_or :: "cursor \<Rightarrow> u32 \<Rightarrow> (u32 \<times> cursor) res" where
  "read_u32_or c old = rbind (cur_read_u32 c) (\<lambda>(v, c'). Inr (case v of None \<Rightarrow> old | Some x \<Rightarrow> x, c'))"

definition note_next :: "note_iter \<Rightarrow> note_iter res" where
  "note_next it =
     (let c = ni_cur it in
      if cur_ended c then Inr (it\<lparr>ni_desc := None\<rparr>)
      else if \<not> cur_avail c 12 then Inl (Throw Malformed_Note)
      else
        rbind (read_u32_or c 0) (\<lambda>(namesz, c).
        rbind (read_u32_or c (ni_descsz it)) (\<lambda>(descsz, c).
        rbind (read_u32_or c (ni_type it)) (\<lambda>(type, c).
        rbind (cur_read_block c (ucast namesz)) (\<lambda>(np, c).
          case np of
            None \<Rightarrow> Inl (Throw Malformed_Note)
          | Some x \<Rightarrow>
              rbind (cur_read_block c (ucast descsz)) (\<lambda>(dp, c).
                case dp of
                  None \<Rightarrow> Inl (Throw Malformed_Note)
                | Some y \<Rightarrow>
                    Inr \<lparr>ni_cur = c, ni_name = x, ni_descsz = descsz, ni_desc = Some y,
                         ni_type = type\<rparr>))))))"

definition note_start :: "'s elf_env \<Rightarrow> nat \<Rightarrow> ('s elf_file, note_iter) stm" where
  "note_start E i =
     sbind (ph_content E i) (\<lambda>b.
     sbind sget (\<lambda>f.
       if ph_type (ph_info (el_phs f ! i)) \<noteq> PT_NOTE then sraise Assert_Failure
       else slift (note_next
         \<lparr>ni_cur = make_cursor b, ni_name = 0, ni_descsz = 0, ni_desc = None, ni_type = 0\<rparr>)))"

text \<open>
  \<open>EntryIter\<close> and \<open>DynIter\<close>; \<open>fetch\<close> is \<open>fetchDyn\<close> of the class of the file. The item
  is \<open>None\<close> as long as no entry was fetched.
\<close>

record dyn_iter =
  di_size :: u64
  di_cur :: cursor
  di_item :: "dyn_t option"

fun fetchDyn :: "elf_header \<Rightarrow> decoder \<Rightarrow> mem \<Rightarrow> nat \<Rightarrow> dyn_t res" where
  "fetchDyn (H32 h) d m a = fetchDyn32 d m a"
| "fetchDyn (H64 h) d m a = fetchDyn64 d m a"

definition entry_ended :: "dyn_iter \<Rightarrow> bool" where
  "entry_ended it \<longleftrightarrow> \<not> cur_avail (di_cur it) (di_size it)"

definition dyn_fetch :: "elf_header \<Rightarrow> dyn_iter \<Rightarrow> dyn_iter res" where
  "dyn_fetch h it =
     (let c = di_cur it in
      if cur_ended c then Inr it
      else
        rbind (cur_here c) (\<lambda>p.
        rbind (buf_decoder (cur_buf c)) (\<lambda>d.
          case buf_bytes (cur_buf c) of
            None \<Rightarrow> Inl Memory_Fault
          | Some m \<Rightarrow>
              rbind (fetchDyn h d m (unat p)) (\<lambda>e. Inr (it\<lparr>di_item := Some e\<rparr>)))))"

definition dyn_start :: "elf_header \<Rightarrow> u64 \<Rightarrow> buffer \<Rightarrow> dyn_iter res" where
  "dyn_start h ent b = dyn_fetch h \<lparr>di_size = ent, di_cur = make_cursor b, di_item = None\<rparr>"

definition dyn_end :: "u64 \<Rightarrow> buffer \<Rightarrow> dyn_iter" where
  "dyn_end ent b = \<lparr>di_size = ent, di_cur = cur_finish (make_cursor b), di_item = None\<rparr>"

definition dyn_next :: "elf_header \<Rightarrow> dyn_iter \<Rightarrow> dyn_iter res" where
  "dyn_next h it = dyn_fetch h (it\<lparr>di_cur := snd (cur_skip (di_cur it) (di_size it))\<rparr>)"

text \<open>Buffers are compared by the address of their block; here by what the block holds. The two
  agree where the program compares iterators: both ends of a range are on the content of one
  section, which is kept in one block.\<close>

definition entry_equals :: "dyn_iter \<Rightarrow> dyn_iter \<Rightarrow> bool" where
  "entry_equals a b \<longleftrightarrow>
     cur_off (di_cur a) = cur_off (di_cur b) \<and>
     buf_bytes (cur_buf (di_cur a)) = buf_bytes (cur_buf (di_cur b)) \<and>
     cur_size (di_cur a) = cur_size (di_cur b)"

text \<open>\<open>dyns()\<close>: the first dynamic section among the sections loaded so far.\<close>

definition elf_dyns :: "'s elf_env \<Rightarrow> nat \<Rightarrow> ('s elf_file, dyn_iter) stm" where
  "elf_dyns E n =
     sbind sget (\<lambda>f.
       case find (\<lambda>i. sh_type (sec_info (el_sects f ! i)) = SHT_DYNAMIC)
              [0..<length (el_sects f)] of
         None \<Rightarrow> sraise Assert_Failure
       | Some i \<Rightarrow>
           sbind (section_content E n i) (\<lambda>b.
           sbind sget (\<lambda>f. slift
             (dyn_start (el_head f) (sh_entsize (sec_info (el_sects f ! i))) b))))"

end
