(* ===== verification/Elf_Spec.thy ===== *)
theory Elf_Spec
  imports Elf_File
begin

text \<open>
  The contract of \<open>elf::File\<close>: what its operations return is a function of the
  content of the file, whatever was loaded before. The specification functions
  read the content directly; the invariant \<open>elf_inv\<close> says that everything the
  object has cached agrees with them, and every operation keeps it.
\<close>

section \<open>The tables as functions of the content\<close>

fun sec_infos :: "mem \<Rightarrow> elf_header \<Rightarrow> shdr_info list" where
  "sec_infos c (H32 h) = map (\<lambda>i. SH32 (elf32_shdr c h i)) [0..<unat (e_shnum32 h)]"
| "sec_infos c (H64 h) = map (\<lambda>i. SH64 (elf64_shdr c h i)) [0..<unat (e_shnum64 h)]"

fun phdr_infos :: "mem \<Rightarrow> elf_header \<Rightarrow> phdr_info list" where
  "phdr_infos c (H32 h) = map (\<lambda>i. PH32 (elf32_phdr c h i)) [0..<unat (e_phnum32 h)]"
| "phdr_infos c (H64 h) = map (\<lambda>i. PH64 (elf64_phdr c h i)) [0..<unat (e_phnum64 h)]"

fun secs_fit :: "mem \<Rightarrow> elf_header \<Rightarrow> bool" where
  "secs_fit c (H32 h) = shdrs_fit32 c h"
| "secs_fit c (H64 h) = shdrs_fit64 c h"

fun phs_fit :: "mem \<Rightarrow> elf_header \<Rightarrow> bool" where
  "phs_fit c (H32 h) = phdrs_fit32 c h"
| "phs_fit c (H64 h) = phdrs_fit64 c h"

definition head_decoder :: "elf_header \<Rightarrow> decoder" where
  "head_decoder h = elf_decoder (elf_ident h ! EI_DATA)"

lemma file_decoder_head: "file_decoder f = head_decoder (el_head f)"
  by (simp add: file_decoder_def head_decoder_def)

section \<open>The content of sections and program headers\<close>

fun sym_fields :: "shdr_info \<Rightarrow> fields" where
  "sym_fields (SH32 p) = Elf32_Sym_fields"
| "sym_fields (SH64 p) = Elf64_Sym_fields"

fun sizeof_sym :: "shdr_info \<Rightarrow> nat" where
  "sizeof_sym (SH32 p) = sizeof_Elf32_Sym"
| "sizeof_sym (SH64 p) = sizeof_Elf64_Sym"

definition is_symtab :: "shdr_info \<Rightarrow> bool" where
  "is_symtab p \<longleftrightarrow> sh_type p = SHT_SYMTAB \<or> sh_type p = SHT_DYNSYM"

text \<open>
  A section that can be read: it lies in the file, within what 32-bit positions
  reach, and a symbol table is made of whole entries.
\<close>

definition sec_ok :: "mem \<Rightarrow> shdr_info \<Rightarrow> bool" where
  "sec_ok c p \<longleftrightarrow>
     unat (sh_offset p) + unat (sh_size p) \<le> length c \<and>
     unat (sh_offset p) < 2 ^ 32 \<and> unat (sh_size p) < 2 ^ 32 \<and>
     (is_symtab p \<longrightarrow>
        sizeof_sym p \<le> unat (sh_entsize p) \<and> unat (sh_entsize p) dvd unat (sh_size p))"

definition sec_raw :: "mem \<Rightarrow> shdr_info \<Rightarrow> mem" where
  "sec_raw c p = bytes_at c (unat (sh_offset p)) (unat (sh_size p))"

definition sec_data :: "decoder \<Rightarrow> mem \<Rightarrow> shdr_info \<Rightarrow> mem" where
  "sec_data d c p =
     (if is_symtab p
      then (case sym_loop d (sym_fields p) (unat (sh_entsize p)) (unat (sh_size p)) 0 (sec_raw c p)
            of Inr m \<Rightarrow> m | Inl _ \<Rightarrow> [])
      else sec_raw c p)"

text \<open>
  What \<open>ProgramHeader::content\<close> holds: the bytes of the file in a block that is not
  initialised, whose first \<open>memsz - filesz\<close> bytes are then cleared.
\<close>

definition ph_ok :: "mem \<Rightarrow> phdr_info \<Rightarrow> bool" where
  "ph_ok c p \<longleftrightarrow>
     unat (ph_offset p) + unat (ph_filesz p) \<le> length c \<and> ph_filesz p \<le> ph_memsz p \<and>
     unat (ph_offset p) < 2 ^ 32 \<and> unat (ph_memsz p) < 2 ^ 32"

definition ph_data :: "(nat \<Rightarrow> u8) \<Rightarrow> mem \<Rightarrow> phdr_info \<Rightarrow> mem" where
  "ph_data junk c p =
     (let z = unat (ph_memsz p) - unat (ph_filesz p) in
      replicate z 0 @
      drop z (store_at (new_block junk (unat (ph_memsz p))) 0
                (bytes_at c (unat (ph_offset p)) (unat (ph_filesz p)))))"

definition load_indices :: "mem \<Rightarrow> elf_header \<Rightarrow> nat list" where
  "load_indices c h =
     filter (\<lambda>i. ph_type (phdr_infos c h ! i) = PT_LOAD) [0..<length (phdr_infos c h)]"

section \<open>The invariant\<close>

definition elf_inv :: "'s elf_env \<Rightarrow> ('s \<Rightarrow> mem) \<Rightarrow> mem \<Rightarrow> elf_header \<Rightarrow> 's elf_file \<Rightarrow> bool" where
  "elf_inv E ct c h f \<longleftrightarrow>
     ct (el_s f) = c \<and> el_head f = h \<and>
     (if el_sects_loaded f then map sec_info (el_sects f) = sec_infos c h else el_sects f = []) \<and>
     (\<forall>s \<in> set (el_sects f). \<forall>b. sec_cache s = Some b \<longrightarrow>
        b = sec_data (head_decoder h) c (sec_info s)) \<and>
     (if el_ph_loaded f then map ph_info (el_phs f) = phdr_infos c h
      else el_phs f = [] \<and> el_ph_buf f = None) \<and>
     (\<forall>p \<in> set (el_phs f). \<forall>b. ph_cache p = Some b \<longrightarrow>
        b = ph_data (env_junk E) c (ph_info p)) \<and>
     (if el_segs_init f then el_ph_loaded f \<and> el_segs f = load_indices c h else el_segs f = [])"

lemma new_elf_file_inv: "elf_inv E ct (ct s) h (new_elf_file s h)"
  by (simp add: elf_inv_def new_elf_file_def)

lemma set_list_update: "x \<in> set (xs[i := y]) \<Longrightarrow> x = y \<or> x \<in> set xs"
  using set_update_subset_insert [of xs i y] by auto

text \<open>Reading a section gives its data.\<close>

lemma sizeof_sym_pos: "0 < sizeof_sym p"
  by (cases p) (simp_all add: sizeof_Elf32_Sym_def sizeof_Elf64_Sym_def)

lemma unat_ucast_u64: "unat (ucast (w :: u32) :: u64) = unat w"
  using unsigned_less [of w, where ?'a = nat]
  by (simp add: unsigned_ucast_eq take_bit_nat_eq_self)

lemmas sec_defs32 =
  Section32_offset_def Section32_size_def Section32_entsize_def Section32_type_def unat_ucast_u64

lemmas sec_defs64 =
  Section64_offset_def Section64_size_def Section64_entsize_def Section64_type_def

locale elf_host =
  fixes E :: "'s elf_env" and ct :: "'s \<Rightarrow> mem" and ps :: "'s \<Rightarrow> nat"
  assumes stream: "rstream_spec (env_stream E) ct ps"
    and array: "elm_array_spec (env_array E)"
begin

lemma sec_readBuf_ok:
  assumes ok: "sec_ok c p" and c: "ct (el_s f) = c"
  shows "\<exists>s'. ct s' = c \<and>
    sec_readBuf E nm p f = (Inr (sec_data (file_decoder f) c p), f\<lparr>el_s := s'\<rparr>) \<and>
    length (sec_data (file_decoder f) c p) = unat (sh_size p)"
proof (cases p)
  case (SH32 q)
  have fit: "unat (sh_offset32 q) + unat (sh_size32 q) \<le> length (ct (el_s f))"
    using ok c SH32 by (simp add: sec_ok_def sec_defs32)
  show ?thesis
  proof (cases "is_symtab p")
    case False
    then have "sh_type32 q \<noteq> SHT_SYMTAB" "sh_type32 q \<noteq> SHT_DYNSYM"
      by (simp_all add: is_symtab_def SH32 sec_defs32)
    then show ?thesis
      using Section32_readBuf_plain [OF stream fit] False SH32 c fit
      by (simp add: sec_readBuf_def sec_data_def sec_raw_def sec_defs32)
  next
    case True
    then have ty: "sh_type32 q = SHT_SYMTAB \<or> sh_type32 q = SHT_DYNSYM"
      by (simp add: is_symtab_def SH32 sec_defs32)
    have ent: "sizeof_Elf32_Sym \<le> unat (sh_entsize32 q)"
      using ok True by (simp add: sec_ok_def SH32 sec_defs32)
    obtain k where al: "unat (sh_size32 q) = k * unat (sh_entsize32 q)"
      using ok True by (auto simp: sec_ok_def SH32 sec_defs32 dvd_def mult.commute)
    show ?thesis
      using Section32_readBuf_symtab [OF stream fit ty ent al, of nm] True SH32 c
      by (elim exE) (auto simp: sec_readBuf_def sec_data_def sec_raw_def sec_defs32)
  qed
next
  case (SH64 q)
  have fit: "unat (sh_offset64 q) + unat (sh_size64 q) \<le> length (ct (el_s f))"
    and small: "unat (sh_offset64 q) < 2 ^ 32" "unat (sh_size64 q) < 2 ^ 32"
    using ok c SH64 by (simp_all add: sec_ok_def sec_defs64)
  show ?thesis
  proof (cases "is_symtab p")
    case False
    then have "sh_type64 q \<noteq> SHT_SYMTAB" "sh_type64 q \<noteq> SHT_DYNSYM"
      by (simp_all add: is_symtab_def SH64 sec_defs64)
    then show ?thesis
      using Section64_readBuf_plain [OF stream fit small] False SH64 c fit
      by (simp add: sec_readBuf_def sec_data_def sec_raw_def sec_defs64)
  next
    case True
    then have ty: "sh_type64 q = SHT_SYMTAB \<or> sh_type64 q = SHT_DYNSYM"
      by (simp add: is_symtab_def SH64 sec_defs64)
    have ent: "sizeof_Elf64_Sym \<le> unat (sh_entsize64 q)"
      using ok True by (simp add: sec_ok_def SH64 sec_defs64)
    obtain k where al: "unat (sh_size64 q) = k * unat (sh_entsize64 q)"
      using ok True by (auto simp: sec_ok_def SH64 sec_defs64 dvd_def mult.commute)
    show ?thesis
      using Section64_readBuf_symtab [OF stream fit small ty ent al, of nm] True SH64 c
      by (elim exE) (auto simp: sec_readBuf_def sec_data_def sec_raw_def sec_defs64)
  qed
qed

lemma ph_readBuf_ok:
  assumes ok: "ph_ok c p" and c: "ct (el_s f) = c"
  shows "\<exists>s'. ct s' = c \<and> ph_readBuf E p f = (Inr (ph_data (env_junk E) c p), f\<lparr>el_s := s'\<rparr>)"
proof (cases p)
  case (PH32 q)
  have "unat (p_offset32 q) + unat (p_filesz32 q) \<le> length (ct (el_s f))"
    and "p_filesz32 q \<le> p_memsz32 q"
    using ok c PH32
    by (simp_all add: ph_ok_def ProgramHeader32_offset_def ProgramHeader32_filesz_def
        ProgramHeader32_memsz_def unat_ucast_u64 word_le_nat_alt)
  then show ?thesis
    using ProgramHeader32_readBuf_eq [OF stream array, of q f] PH32 c
    by (simp add: ph_readBuf_def ph_data_def ProgramHeader32_offset_def unat_ucast_u64
        ProgramHeader32_filesz_def ProgramHeader32_memsz_def Let_def)
next
  case (PH64 q)
  have "unat (p_offset64 q) + unat (p_filesz64 q) \<le> length (ct (el_s f))"
    and "p_filesz64 q \<le> p_memsz64 q"
    and "unat (p_offset64 q) < 2 ^ 32" "unat (p_memsz64 q) < 2 ^ 32"
    using ok c PH64
    by (simp_all add: ph_ok_def ProgramHeader64_offset_def ProgramHeader64_filesz_def
        ProgramHeader64_memsz_def)
  then show ?thesis
    using ProgramHeader64_readBuf_eq [OF stream array, of q f] PH64 c
    by (simp add: ph_readBuf_def ph_data_def ProgramHeader64_offset_def
        ProgramHeader64_filesz_def ProgramHeader64_memsz_def Let_def)
qed

text \<open>The loading of the tables, once.\<close>

lemma loadSections_ok:
  assumes inv: "elf_inv E ct c h f" and fit: "secs_fit c h" and nl: "\<not> el_sects_loaded f"
  shows "\<exists>s' b ss. ct s' = c \<and> map sec_info ss = sec_infos c h \<and>
    (\<forall>x \<in> set ss. sec_cache x = None) \<and>
    (case h of H32 g \<Rightarrow> loadSections32 E g | H64 g \<Rightarrow> loadSections64 E g) f =
      (Inr (), f\<lparr>el_s := s', el_sec_buf := Some b, el_sects := ss\<rparr>)"
proof (cases h)
  case (H32 g)
  have c: "ct (el_s f) = c" "el_head f = H32 g" and fit': "shdrs_fit32 (ct (el_s f)) g"
    using inv fit H32 by (simp_all add: elf_inv_def)
  obtain s' b where "ct s' = c" "loadSections32 E g f =
      (Inr (), f\<lparr>el_s := s', el_sec_buf := Some b, el_sects :=
         map (\<lambda>i. \<lparr>sec_info = SH32 (elf32_shdr c g i), sec_cache = None\<rparr>)
           [0..<unat (e_shnum32 g)]\<rparr>)"
    using loadSections32_eq [OF stream array fit' c(2)] c(1) by auto
  then show ?thesis
    using H32
    by (intro exI [of _ s'] exI [of _ b] exI [of _ "map (\<lambda>i. \<lparr>sec_info = SH32 (elf32_shdr c g i),
          sec_cache = None\<rparr>) [0..<unat (e_shnum32 g)]"]) (simp add: comp_def)
next
  case (H64 g)
  have c: "ct (el_s f) = c" "el_head f = H64 g" and fit': "shdrs_fit64 (ct (el_s f)) g"
    using inv fit H64 by (simp_all add: elf_inv_def)
  obtain s' b where "ct s' = c" "loadSections64 E g f =
      (Inr (), f\<lparr>el_s := s', el_sec_buf := Some b, el_sects :=
         map (\<lambda>i. \<lparr>sec_info = SH64 (elf64_shdr c g i), sec_cache = None\<rparr>)
           [0..<unat (e_shnum64 g)]\<rparr>)"
    using loadSections64_eq [OF stream array fit' c(2)] c(1) by auto
  then show ?thesis
    using H64
    by (intro exI [of _ s'] exI [of _ b] exI [of _ "map (\<lambda>i. \<lparr>sec_info = SH64 (elf64_shdr c g i),
          sec_cache = None\<rparr>) [0..<unat (e_shnum64 g)]"]) (simp add: comp_def)
qed

lemma loadProgramHeaders_ok:
  assumes inv: "elf_inv E ct c h f" and fit: "phs_fit c h" and nl: "\<not> el_ph_loaded f"
  shows "\<exists>s' b xs. ct s' = c \<and> map ph_info xs = phdr_infos c h \<and>
    (\<forall>x \<in> set xs. ph_cache x = None) \<and>
    (case h of H32 g \<Rightarrow> loadProgramHeaders32 E g | H64 g \<Rightarrow> loadProgramHeaders64 E g) f =
      (Inr (), f\<lparr>el_s := s', el_ph_buf := Some b, el_phs := xs\<rparr>)"
proof (cases h)
  case (H32 g)
  have c: "ct (el_s f) = c" "el_head f = H32 g" "el_ph_buf f = None"
    and fit': "phdrs_fit32 (ct (el_s f)) g"
    using inv fit nl H32 by (simp_all add: elf_inv_def)
  obtain s' b where "ct s' = c" "loadProgramHeaders32 E g f =
      (Inr (), f\<lparr>el_s := s', el_ph_buf := Some b, el_phs :=
         map (\<lambda>i. \<lparr>ph_info = PH32 (elf32_phdr c g i), ph_cache = None\<rparr>)
           [0..<unat (e_phnum32 g)]\<rparr>)"
    using loadProgramHeaders32_eq [OF stream fit' c(3,2)] c(1) by auto
  then show ?thesis
    using H32
    by (intro exI [of _ s'] exI [of _ b] exI [of _ "map (\<lambda>i. \<lparr>ph_info = PH32 (elf32_phdr c g i),
          ph_cache = None\<rparr>) [0..<unat (e_phnum32 g)]"]) (simp add: comp_def)
next
  case (H64 g)
  have c: "ct (el_s f) = c" "el_head f = H64 g" "el_ph_buf f = None"
    and fit': "phdrs_fit64 (ct (el_s f)) g"
    using inv fit nl H64 by (simp_all add: elf_inv_def)
  obtain s' b where "ct s' = c" "loadProgramHeaders64 E g f =
      (Inr (), f\<lparr>el_s := s', el_ph_buf := Some b, el_phs :=
         map (\<lambda>i. \<lparr>ph_info = PH64 (elf64_phdr c g i), ph_cache = None\<rparr>)
           [0..<unat (e_phnum64 g)]\<rparr>)"
    using loadProgramHeaders64_eq [OF stream fit' c(3,2)] c(1) by auto
  then show ?thesis
    using H64
    by (intro exI [of _ s'] exI [of _ b] exI [of _ "map (\<lambda>i. \<lparr>ph_info = PH64 (elf64_phdr c g i),
          ph_cache = None\<rparr>) [0..<unat (e_phnum64 g)]"]) (simp add: comp_def)
qed

lemma initSections_ok:
  assumes inv: "elf_inv E ct c h f" and fit: "secs_fit c h"
  shows "\<exists>f'. initSections E f = (Inr (), f') \<and> elf_inv E ct c h f' \<and> el_sects_loaded f' \<and>
    el_syms f' = el_syms f"
proof (cases "el_sects_loaded f")
  case True
  then show ?thesis
    using inv by (simp add: initSections_def)
next
  case False
  have hd: "el_head f = h"
    using inv by (simp add: elf_inv_def)
  obtain s' b ss where "ct s' = c" "map sec_info ss = sec_infos c h"
    "\<forall>x \<in> set ss. sec_cache x = None"
    "(case h of H32 g \<Rightarrow> loadSections32 E g | H64 g \<Rightarrow> loadSections64 E g) f =
      (Inr (), f\<lparr>el_s := s', el_sec_buf := Some b, el_sects := ss\<rparr>)"
    using loadSections_ok [OF inv fit False] by blast
  then show ?thesis
    using False inv
    by (intro exI [of _ "f\<lparr>el_s := s', el_sec_buf := Some b, el_sects := ss, el_sects_loaded := True\<rparr>"])
      (simp add: initSections_def hd elf_inv_def)
qed

lemma programHeaders_ok:
  assumes inv: "elf_inv E ct c h f" and fit: "phs_fit c h"
  shows "\<exists>f'. programHeaders E f = (Inr (el_phs f'), f') \<and> elf_inv E ct c h f' \<and>
    el_ph_loaded f' \<and> map ph_info (el_phs f') = phdr_infos c h \<and> el_syms f' = el_syms f \<and>
    el_segs_init f' = el_segs_init f"
proof (cases "el_ph_loaded f")
  case True
  then show ?thesis
    using inv by (simp add: programHeaders_def elf_inv_def)
next
  case False
  have hd: "el_head f = h"
    using inv by (simp add: elf_inv_def)
  obtain s' b xs where "ct s' = c" "map ph_info xs = phdr_infos c h"
    "\<forall>x \<in> set xs. ph_cache x = None"
    "(case h of H32 g \<Rightarrow> loadProgramHeaders32 E g | H64 g \<Rightarrow> loadProgramHeaders64 E g) f =
      (Inr (), f\<lparr>el_s := s', el_ph_buf := Some b, el_phs := xs\<rparr>)"
    using loadProgramHeaders_ok [OF inv fit False] by blast
  then show ?thesis
    using False inv
    by (intro exI [of _ "f\<lparr>el_s := s', el_ph_buf := Some b, el_phs := xs, el_ph_loaded := True\<rparr>"])
      (simp add: programHeaders_def hd elf_inv_def split: if_splits)
qed

text \<open>Contents, with their cache.\<close>

lemma sec_content_ok:
  assumes inv: "elf_inv E ct c h f" and ld: "el_sects_loaded f"
    and i: "i < length (sec_infos c h)" and ok: "sec_ok c (sec_infos c h ! i)"
  defines "p \<equiv> sec_infos c h ! i"
  shows "\<exists>f'. sec_content E nm i f =
      (Inr (make_buffer (head_decoder h) (Some (sec_data (head_decoder h) c p)) (sh_size p)), f') \<and>
    length (sec_data (head_decoder h) c p) = unat (sh_size p) \<and>
    elf_inv E ct c h f' \<and> el_sects_loaded f' \<and> el_syms f' = el_syms f"
proof -
  have hd: "el_head f = h" "ct (el_s f) = c" and map: "map sec_info (el_sects f) = sec_infos c h"
    using inv ld by (simp_all add: elf_inv_def)
  have i': "i < length (el_sects f)"
    using i map by (metis length_map)
  have p: "sec_info (el_sects f ! i) = p"
    unfolding p_def map [symmetric] using i' by simp
  obtain s' where rd: "ct s' = c"
    "sec_readBuf E nm p f = (Inr (sec_data (head_decoder h) c p), f\<lparr>el_s := s'\<rparr>)"
    and len: "length (sec_data (head_decoder h) c p) = unat (sh_size p)"
    using sec_readBuf_ok [OF ok hd(2), of nm] by (auto simp: file_decoder_head hd p_def)
  show ?thesis
  proof (cases "sec_cache (el_sects f ! i)")
    case None
    let ?f' = "f\<lparr>el_s := s', el_sects := (el_sects f)[i :=
      (el_sects f ! i)\<lparr>sec_cache := Some (sec_data (head_decoder h) c p)\<rparr>]\<rparr>"
    have "sec_content E nm i f =
        (Inr (make_buffer (head_decoder h) (Some (sec_data (head_decoder h) c p)) (sh_size p)), ?f')"
      using i' None rd p by (simp add: sec_content_def Let_def file_decoder_head hd)
    moreover have "map sec_info (el_sects ?f') = map sec_info (el_sects f)"
      using i' by (simp add: map_update p) (metis list_update_id nth_map p)
    then have "elf_inv E ct c h ?f'"
      using inv ld rd(1) p by (auto simp: elf_inv_def map dest!: set_list_update)
    ultimately show ?thesis
      using len ld by auto
  next
    case (Some b)
    then have "b = sec_data (head_decoder h) c p"
      using inv i' p by (auto simp: elf_inv_def)
    then show ?thesis
      using i' Some inv ld len p
      by (simp add: sec_content_def Let_def file_decoder_head hd)
  qed
qed

lemma ph_content_ok:
  assumes inv: "elf_inv E ct c h f" and ld: "el_ph_loaded f"
    and i: "i < length (phdr_infos c h)" and ok: "ph_ok c (phdr_infos c h ! i)"
  defines "p \<equiv> phdr_infos c h ! i"
  shows "\<exists>f'. ph_content E i f =
      (Inr (make_buffer (head_decoder h) (Some (ph_data (env_junk E) c p)) (ph_memsz p)), f') \<and>
    elf_inv E ct c h f' \<and> el_ph_loaded f' \<and> el_syms f' = el_syms f"
proof -
  have hd: "el_head f = h" "ct (el_s f) = c" and map: "map ph_info (el_phs f) = phdr_infos c h"
    using inv ld by (simp_all add: elf_inv_def)
  have i': "i < length (el_phs f)"
    using i map by (metis length_map)
  have p: "ph_info (el_phs f ! i) = p"
    unfolding p_def map [symmetric] using i' by simp
  obtain s' where rd: "ct s' = c"
    "ph_readBuf E p f = (Inr (ph_data (env_junk E) c p), f\<lparr>el_s := s'\<rparr>)"
    using ph_readBuf_ok [OF ok hd(2)] by (auto simp: p_def)
  show ?thesis
  proof (cases "ph_cache (el_phs f ! i)")
    case None
    let ?f' = "f\<lparr>el_s := s', el_phs := (el_phs f)[i :=
      (el_phs f ! i)\<lparr>ph_cache := Some (ph_data (env_junk E) c p)\<rparr>]\<rparr>"
    have "ph_content E i f =
        (Inr (make_buffer (head_decoder h) (Some (ph_data (env_junk E) c p)) (ph_memsz p)), ?f')"
      using i' None rd p by (simp add: ph_content_def Let_def file_decoder_head hd)
    moreover have "map ph_info (el_phs ?f') = map ph_info (el_phs f)"
      using i' by (simp add: map_update p) (metis list_update_id nth_map p)
    then have "elf_inv E ct c h ?f'"
      using inv ld rd(1) p by (auto simp: elf_inv_def map dest!: set_list_update)
    ultimately show ?thesis
      using ld by auto
  next
    case (Some b)
    then have "b = ph_data (env_junk E) c p"
      using inv i' p by (auto simp: elf_inv_def)
    then show ?thesis
      using i' Some inv ld p
      by (simp add: ph_content_def Let_def file_decoder_head hd)
  qed
qed

text \<open>Sections, strings and names.\<close>

lemma sections_ok:
  assumes "elf_inv E ct c h f" and "secs_fit c h"
  shows "\<exists>f'. sections E f = (Inr (el_sects f'), f') \<and> elf_inv E ct c h f' \<and> el_sects_loaded f' \<and>
    map sec_info (el_sects f') = sec_infos c h \<and> el_syms f' = el_syms f"
  using initSections_ok [OF assms] by (auto simp: sections_def elf_inv_def)

lemma stringAt_ok:
  assumes inv: "elf_inv E ct c h f" and fit: "secs_fit c h"
    and k: "0 \<le> k" "nat k < length (sec_infos c h)"
    and ok: "sec_ok c (sec_infos c h ! nat k)" and off: "off < sh_size (sec_infos c h ! nat k)"
  shows "\<exists>f'. stringAt E (Suc n) k off f =
      (cstr_at (sec_data (head_decoder h) c (sec_infos c h ! nat k)) (unat off), f') \<and>
    elf_inv E ct c h f' \<and> el_sects_loaded f' \<and> el_syms f' = el_syms f"
proof -
  obtain f1 where f1: "sections E f = (Inr (el_sects f1), f1)" "elf_inv E ct c h f1"
    "el_sects_loaded f1" "map sec_info (el_sects f1) = sec_infos c h" "el_syms f1 = el_syms f"
    using sections_ok [OF inv fit] by blast
  have len: "length (el_sects f1) = length (sec_infos c h)"
    using f1(4) by (metis length_map)
  let ?p = "sec_infos c h ! nat k"
  let ?nm = "sbind sget (\<lambda>f. stringAt E n (elf_getStrTab (el_head f))
    (sh_name (sec_info (el_sects f1 ! nat k))))"
  obtain f2 where f2: "sec_content E ?nm (nat k) f1 =
      (Inr (make_buffer (head_decoder h) (Some (sec_data (head_decoder h) c ?p)) (sh_size ?p)), f2)"
    "elf_inv E ct c h f2" "el_sects_loaded f2" "el_syms f2 = el_syms f1"
    using sec_content_ok [OF f1(2,3) k(2) ok] by blast
  have "get_cstr (make_buffer (head_decoder h) (Some (sec_data (head_decoder h) c ?p)) (sh_size ?p))
      off = cstr_at (sec_data (head_decoder h) c ?p) (unat off)"
    using off by (simp add: get_cstr_def make_buffer_def)
  moreover have "\<not> int (length (el_sects f1)) \<le> k"
    using k len by linarith
  ultimately have "stringAt E (Suc n) k off f =
      (cstr_at (sec_data (head_decoder h) c ?p) (unat off), f2)"
    using f1(1) k(1) f2(1) by simp
  then show ?thesis
    using f2 f1(5) by auto
qed

lemma stringAt_out_of_bound:
  assumes inv: "elf_inv E ct c h f" and fit: "secs_fit c h" and k: "int (length (sec_infos c h)) \<le> k"
  shows "\<exists>f'. stringAt E (Suc n) k off f = (Inl (Throw Strtab_Out_Of_Bound), f') \<and>
    elf_inv E ct c h f'"
proof -
  obtain f1 where f1: "sections E f = (Inr (el_sects f1), f1)" "elf_inv E ct c h f1"
    "map sec_info (el_sects f1) = sec_infos c h"
    using sections_ok [OF inv fit] by blast
  moreover have "length (el_sects f1) = length (sec_infos c h)"
    using f1(3) by (metis length_map)
  ultimately show ?thesis
    using k by auto
qed

end

text \<open>The name of a section, when the string table of the section names can be read.\<close>

definition strtab_info :: "mem \<Rightarrow> elf_header \<Rightarrow> shdr_info" where
  "strtab_info c h = sec_infos c h ! nat (elf_getStrTab h)"

definition strtab_ok :: "mem \<Rightarrow> elf_header \<Rightarrow> bool" where
  "strtab_ok c h \<longleftrightarrow>
     nat (elf_getStrTab h) < length (sec_infos c h) \<and> sec_ok c (strtab_info c h)"

definition spec_name :: "mem \<Rightarrow> elf_header \<Rightarrow> nat \<Rightarrow> u8 list res" where
  "spec_name c h i =
     cstr_at (sec_data (head_decoder h) c (strtab_info c h)) (unat (sh_name (sec_infos c h ! i)))"

definition name_ok :: "mem \<Rightarrow> elf_header \<Rightarrow> nat \<Rightarrow> bool" where
  "name_ok c h i \<longleftrightarrow>
     sh_name (sec_infos c h ! i) < sh_size (strtab_info c h) \<and> (\<exists>x. spec_name c h i = Inr x)"

lemma elf_getStrTab_nonneg: "0 \<le> elf_getStrTab h"
  by (cases h) (simp_all add: File32_getStrTab_def File64_getStrTab_def)

context elf_host
begin

lemma section_name_ok:
  assumes inv: "elf_inv E ct c h f" and fit: "secs_fit c h" and ld: "el_sects_loaded f"
    and tab: "strtab_ok c h" and i: "i < length (sec_infos c h)"
    and nm: "sh_name (sec_infos c h ! i) < sh_size (strtab_info c h)"
  shows "\<exists>f'. section_name E (Suc n) i f = (spec_name c h i, f') \<and>
    elf_inv E ct c h f' \<and> el_sects_loaded f' \<and> el_syms f' = el_syms f"
proof -
  have hd: "el_head f = h" and map: "map sec_info (el_sects f) = sec_infos c h"
    using inv ld by (simp_all add: elf_inv_def)
  have i': "i < length (el_sects f)" "sec_info (el_sects f ! i) = sec_infos c h ! i"
    using i map by (metis length_map, metis i length_map map nth_map)
  obtain f' where "stringAt E (Suc n) (elf_getStrTab h) (sh_name (sec_infos c h ! i)) f =
      (spec_name c h i, f')" "elf_inv E ct c h f'" "el_sects_loaded f'" "el_syms f' = el_syms f"
    using stringAt_ok [OF inv fit elf_getStrTab_nonneg [of h]] tab nm
    unfolding strtab_ok_def strtab_info_def spec_name_def by blast
  then show ?thesis
    using i' hd
    by (intro exI [of _ f']) (simp add: section_name_def elf_stringAt_def del: stringAt.simps)
qed

lemma section_content_ok:
  assumes "elf_inv E ct c h f" and "el_sects_loaded f"
    and "i < length (sec_infos c h)" and "sec_ok c (sec_infos c h ! i)"
  shows "\<exists>f'. section_content E n i f =
      (Inr (make_buffer (head_decoder h) (Some (sec_data (head_decoder h) c (sec_infos c h ! i)))
              (sh_size (sec_infos c h ! i))), f') \<and>
    elf_inv E ct c h f' \<and> el_sects_loaded f' \<and> el_syms f' = el_syms f"
  using sec_content_ok [OF assms, of "section_name E n i"] unfolding section_content_def by blast

lemma findSection_ok:
  assumes inv: "elf_inv E ct c h f" and fit: "secs_fit c h" and tab: "strtab_ok c h"
    and nm: "\<forall>i < length (sec_infos c h). name_ok c h i"
  shows "\<exists>f'. findSection E (Suc n) x f =
      (Inr (find (\<lambda>i. spec_name c h i = Inr x) [0..<length (sec_infos c h)]), f') \<and>
    elf_inv E ct c h f' \<and> el_sects_loaded f' \<and> el_syms f' = el_syms f"
proof -
  obtain f1 where f1: "sections E f = (Inr (el_sects f1), f1)" "elf_inv E ct c h f1"
    "el_sects_loaded f1" "map sec_info (el_sects f1) = sec_infos c h"
    "el_syms f1 = el_syms f"
    using sections_ok [OF inv fit] by blast
  have len: "length (el_sects f1) = length (sec_infos c h)"
    using f1(4) by (metis length_map)
  define name_of where "name_of i = projr (spec_name c h i)" for i
  have sn: "spec_name c h i = Inr (name_of i)" if "i < length (sec_infos c h)" for i
    using nm that by (auto simp: name_ok_def name_of_def)
  let ?I = "\<lambda>g. elf_inv E ct c h g \<and> el_sects_loaded g \<and> el_syms g = el_syms f"
  have "\<exists>g. gel_find_from sreturn (section_name E (Suc n)) x 0 (length (sec_infos c h)) f1 =
      (Inr (map_option id (find (\<lambda>j. name_of j = x) [0..<0 + length (sec_infos c h)])), g) \<and> ?I g"
  proof (rule gel_find_from_inv)
    show "?I f1"
      using f1 by simp
    fix j g
    assume j: "0 \<le> j" "j < 0 + length (sec_infos c h)" and I: "?I g"
    show "\<exists>g'. sreturn j g = (Inr (id j), g') \<and> ?I g'"
      using I by simp
    show "\<exists>g'. section_name E (Suc n) (id j) g = (Inr (name_of j), g') \<and> ?I g'"
      using section_name_ok [of c h g j n] fit tab nm I j sn [of j] by (auto simp: name_ok_def)
  qed
  then obtain g where g: "gel_find_from sreturn (section_name E (Suc n)) x 0
        (length (sec_infos c h)) f1 =
      (Inr (find (\<lambda>j. name_of j = x) [0..<length (sec_infos c h)]), g)" "?I g"
    by (auto simp: option.map_id)
  moreover have "find (\<lambda>j. name_of j = x) [0..<length (sec_infos c h)] =
      find (\<lambda>i. spec_name c h i = Inr x) [0..<length (sec_infos c h)]"
    by (rule find_cong) (simp_all add: sn)
  ultimately show ?thesis
    using f1(1) len by (intro exI [of _ g]) (simp add: findSection_def)
qed

text \<open>Segments.\<close>

lemma initSegments_ok:
  assumes inv: "elf_inv E ct c h f" and fit: "phs_fit c h"
  shows "\<exists>f'. initSegments E f = (Inr (), f') \<and> elf_inv E ct c h f' \<and> el_ph_loaded f' \<and>
    el_segs f' = load_indices c h \<and> el_syms f' = el_syms f"
proof (cases "el_segs_init f")
  case True
  then show ?thesis
    using inv by (simp add: initSegments_def elf_inv_def)
next
  case False
  obtain f1 where f1: "programHeaders E f = (Inr (el_phs f1), f1)" "elf_inv E ct c h f1"
    "el_ph_loaded f1" "map ph_info (el_phs f1) = phdr_infos c h" "el_syms f1 = el_syms f"
    "\<not> el_segs_init f1"
    using programHeaders_ok [OF inv fit] False by auto
  have len: "length (el_phs f1) = length (phdr_infos c h)"
    using f1(4) by (metis length_map)
  have "filter (\<lambda>i. ph_type (ph_info (el_phs f1 ! i)) = PT_LOAD) [0..<length (el_phs f1)] =
      load_indices c h"
    unfolding load_indices_def f1(4) [symmetric] by (rule filter_cong) simp_all
  moreover have "el_segs f1 = []"
    using f1(2,6) by (simp add: elf_inv_def)
  ultimately have "initSegments E f =
      (Inr (), f1\<lparr>el_segs := load_indices c h, el_segs_init := True\<rparr>)"
    using False f1(1) by (simp add: initSegments_def)
  moreover have "elf_inv E ct c h (f1\<lparr>el_segs := load_indices c h, el_segs_init := True\<rparr>)"
    using f1(2,3) by (simp add: elf_inv_def)
  ultimately show ?thesis
    using f1(3,5) by auto
qed

lemma elf_count_ok:
  assumes "elf_inv E ct c h f" and "phs_fit c h"
  shows "\<exists>f'. elf_count E f = (Inr (int (length (load_indices c h))), f') \<and>
    elf_inv E ct c h f' \<and> el_ph_loaded f' \<and> el_segs f' = load_indices c h \<and> el_syms f' = el_syms f"
  using initSegments_ok [OF assms] by (auto simp: elf_count_def)

lemma elf_segment_ok:
  assumes "elf_inv E ct c h f" and "phs_fit c h"
    and "0 \<le> i" and "nat i < length (load_indices c h)"
  shows "\<exists>f'. elf_segment E i f = (Inr (load_indices c h ! nat i), f') \<and>
    elf_inv E ct c h f' \<and> el_ph_loaded f' \<and> el_segs f' = load_indices c h \<and> el_syms f' = el_syms f"
  using initSegments_ok [OF assms(1,2)] assms(3,4) by (auto simp: elf_segment_def)

end

end
