(* ===== verification/Elf_Symbols.thy ===== *)
theory Elf_Symbols
  imports Elf_Spec
begin

text \<open>
  The symbol table of an ELF file: what \<open>symbols()\<close> and \<open>fillSymbolTable\<close> of both
  classes put in it, as a function of the content of the file.
\<close>

section \<open>The loop on the entries\<close>

text \<open>Converting an entry leaves the bytes below it as they are.\<close>

lemma fix_at_below: "fix_at d a w m = Inr m' \<Longrightarrow> b \<le> a \<Longrightarrow> take b m' = take b m"
  by (auto simp: fix_at_def in_block_def store_at_def min_def split: if_splits)

lemma fix_fields_below: "fix_fields d a fs m = Inr m' \<Longrightarrow> b \<le> a \<Longrightarrow> take b m' = take b m"
proof (induction fs arbitrary: m)
  case Nil
  then show ?case by simp
next
  case (Cons x fs)
  obtain f w where x: "x = (f, w)"
    by (cases x)
  then obtain m1 where m1: "fix_at d (a + f) w m = Inr m1" "fix_fields d a fs m1 = Inr m'"
    using Cons.prems(1) by (auto simp: res_iff)
  have "take b m1 = take b m"
    by (rule fix_at_below [OF m1(1)]) (use Cons.prems(2) in simp)
  moreover have "take b m' = take b m1"
    by (rule Cons.IH [OF m1(2) Cons.prems(2)])
  ultimately show ?case
    by simp
qed

lemma sym_loop_below:
  "sym_loop d fs ent len off m = Inr m' \<Longrightarrow> b \<le> off \<Longrightarrow> take b m' = take b m"
proof (induction d fs ent len off m rule: sym_loop.induct)
  case (1 d fs ent len off m)
  show ?case
  proof (cases "0 < ent \<and> off + ent \<le> len")
    case True
    then obtain m1 where m1: "fix_fields d off fs m = Inr m1"
      "sym_loop d fs ent len (off + ent) m1 = Inr m'"
      using "1.prems"(1) by (auto simp: sym_loop.simps [of d fs ent len off m] res_iff)
    have "take b m' = take b m1"
      by (rule "1.IH" [OF True m1(1) m1(2)]) (use "1.prems"(2) in simp)
    then show ?thesis
      using fix_fields_below [OF m1(1) "1.prems"(2)] by simp
  next
    case False
    then have "m' = m"
      using "1.prems"(1) by (auto simp: sym_loop.simps [of d fs ent len off m])
    then show ?thesis by simp
  qed
qed

lemma load32_take:
  assumes "p + 4 \<le> b" and "take b m = take b m'"
  shows "load32 m p = load32 m' p"
proof -
  have "bytes_at x p 4 = bytes_at (take b x) p 4" for x :: mem
    using assms(1) by (simp add: bytes_at_def drop_take min_def)
  then have "bytes_at m p 4 = bytes_at m' p 4"
    using assms(2) by metis
  then show ?thesis
    by (simp add: load32_def)
qed

text \<open>The entries that the loop puts in the table, in order.\<close>

definition entry_offsets :: "nat \<Rightarrow> nat \<Rightarrow> nat \<Rightarrow> nat list" where
  "entry_offsets ent off k = map (\<lambda>j. off + j * ent) [0..<k]"

lemma entry_offsets_simps [simp]:
  "entry_offsets ent off 0 = []"
  "entry_offsets ent off (Suc k) = off # entry_offsets ent (off + ent) k"
proof -
  have "[0..<Suc k] = 0 # map Suc [0..<k]"
    by (simp add: map_Suc_upt upt_conv_Cons del: upt_Suc)
  then show "entry_offsets ent off (Suc k) = off # entry_offsets ent (off + ent) k"
    unfolding entry_offsets_def by (simp add: add.assoc del: upt_Suc)
qed (simp add: entry_offsets_def)

lemma st_update_simps [simp]:
  "elf_inv E ct c h (f\<lparr>el_syms := x\<rparr>) \<longleftrightarrow> elf_inv E ct c h f"
  "file_decoder (f\<lparr>el_syms := x\<rparr>) = file_decoder f"
  by (simp_all add: elf_inv_def file_decoder_def)

text \<open>One turn of the loop: an entry is converted, and the table has its name.\<close>

lemma fill_step_ok:
  assumes f: "I f" "el_syms f = Some t" and stable: "\<And>g x. I g \<Longrightarrow> I (g\<lparr>el_syms := x\<rparr>)"
    and dec: "file_decoder f = d" and step: "4 \<le> ent" "off + ent \<le> len"
    and lp: "sym_loop d fs ent len off (st_mems t ! i) = Inr mf"
    and str: "\<And>g. I g \<Longrightarrow> \<exists>g'. str (ucast (load32 mf off)) g = (Inr x, g') \<and> I g' \<and> el_syms g' = el_syms g"
  shows "\<exists>m g. sym_loop d fs ent len (off + ent) m = Inr mf \<and> I g \<and>
    el_syms g = Some \<lparr>st_mems = (st_mems t)[i := m],
      st_map = (st_map t)(x \<mapsto> \<lparr>sym_is64 = b, sym_mem = i, sym_off = off\<rparr>)\<rparr> \<and>
    fill_loop str b fs ent len i off f = fill_loop str b fs ent len i (off + ent) g"
proof -
  obtain m where m: "fix_fields d off fs (st_mems t ! i) = Inr m" "sym_loop d fs ent len (off + ent) m = Inr mf"
    using lp step by (auto simp: sym_loop.simps [of d fs ent len off] res_iff)
  define f1 where "f1 = f\<lparr>el_syms := Some (t\<lparr>st_mems := (st_mems t)[i := m]\<rparr>)\<rparr>"
  have fx: "fix_symbol fs i off f = (Inr m, f1)"
    using f(2) m(1) dec by (simp add: fix_symbol_def f1_def)
  have "load32 m off = load32 mf off"
    by (rule load32_take [of off "off + ent"]) (use step sym_loop_below [OF m(2), of "off + ent"] in simp_all)
  then obtain f2 where f2: "str (ucast (load32 m off)) f1 = (Inr x, f2)" "I f2" "el_syms f2 = el_syms f1"
    using str [of f1] stable [OF f(1)] by (auto simp: f1_def)
  then obtain g where "put_symbol x \<lparr>sym_is64 = b, sym_mem = i, sym_off = off\<rparr> f2 = (Inr (), g)" "I g"
    "el_syms g = Some \<lparr>st_mems = (st_mems t)[i := m],
      st_map = (st_map t)(x \<mapsto> \<lparr>sym_is64 = b, sym_mem = i, sym_off = off\<rparr>)\<rparr>"
    using stable [OF f2(2)] by (cases t) (simp add: put_symbol_def f1_def)
  then show ?thesis
    using m(2) fx f2(1) step
    by (intro exI [of _ m] exI [of _ g]) (simp add: fill_loop.simps [of str b fs ent len i off])
qed

lemma fill_loop_ok:
  assumes "I f" and stable: "\<And>g x. I g \<Longrightarrow> I (g\<lparr>el_syms := x\<rparr>)"
    and dec: "\<And>g. I g \<Longrightarrow> file_decoder g = d"
    and "el_syms f = Some t" and "i < length (st_mems t)"
    and "sym_loop d fs ent len off (st_mems t ! i) = Inr mf"
    and "len = off + k * ent" and ent: "4 \<le> ent"
    and "\<And>p g. p \<in> set (entry_offsets ent off k) \<Longrightarrow> I g \<Longrightarrow>
      \<exists>g'. str (ucast (load32 mf p)) g = (Inr (nm p), g') \<and> I g' \<and> el_syms g' = el_syms g"
  shows "\<exists>g. fill_loop str b fs ent len i off f = (Inr (), g) \<and> I g \<and>
    el_syms g = Some \<lparr>st_mems = (st_mems t)[i := mf],
      st_map = st_map t ++ map_of (rev (map (\<lambda>p. (nm p, \<lparr>sym_is64 = b, sym_mem = i, sym_off = p\<rparr>))
        (entry_offsets ent off k)))\<rparr>"
  using assms(1,4-7,9)
proof (induction k arbitrary: off f t)
  case 0
  have "mf = st_mems t ! i"
    using 0(4,5) ent by (simp add: sym_loop.simps [of d fs ent off off])
  then show ?case
    using 0(1-3,5) ent by (cases t) (simp add: fill_loop.simps [of str b fs ent off i off])
next
  case (Suc k)
  note prems = Suc.prems
  let ?t = "\<lambda>m. \<lparr>st_mems = (st_mems t)[i := m],
    st_map = (st_map t)(nm off \<mapsto> \<lparr>sym_is64 = b, sym_mem = i, sym_off = off\<rparr>)\<rparr>"
  have step: "off + ent \<le> len"
    using prems(5) by simp
  have first: "\<exists>g'. str (ucast (load32 mf off)) g = (Inr (nm off), g') \<and> I g' \<and> el_syms g' = el_syms g"
    if "I g" for g
    using prems(6) that by simp
  obtain m f1 where f1: "sym_loop d fs ent len (off + ent) m = Inr mf" "I f1" "el_syms f1 = Some (?t m)"
    "fill_loop str b fs ent len i off f = fill_loop str b fs ent len i (off + ent) f1"
    using fill_step_ok [where I = I and b = b and str = str and x = "nm off",
        OF prems(1,2) stable dec [OF prems(1)] ent step prems(4)] first by blast
  have "\<exists>g. fill_loop str b fs ent len i (off + ent) f1 = (Inr (), g) \<and> I g \<and>
      el_syms g = Some \<lparr>st_mems = (st_mems (?t m))[i := mf],
        st_map = st_map (?t m) ++ map_of (rev (map (\<lambda>p. (nm p, \<lparr>sym_is64 = b, sym_mem = i, sym_off = p\<rparr>))
          (entry_offsets ent (off + ent) k)))\<rparr>"
    by (rule Suc.IH [OF f1(2,3)]) (use f1(1) prems(3,5,6) in simp_all)
  then show ?case
    using f1(4) by auto
qed

section \<open>The symbols of a section\<close>

fun is_info64 :: "shdr_info \<Rightarrow> bool" where
  "is_info64 (SH32 p) = False"
| "is_info64 (SH64 p) = True"

definition sym_count :: "shdr_info \<Rightarrow> nat" where
  "sym_count p = unat (sh_size p) div unat (sh_entsize p)"

definition sym_offsets :: "shdr_info \<Rightarrow> nat list" where
  "sym_offsets p = entry_offsets (unat (sh_entsize p)) 0 (sym_count p)"

text \<open>The string table of the names of the symbols, and the name of the entry at \<open>a\<close>.\<close>

definition link_info :: "mem \<Rightarrow> elf_header \<Rightarrow> shdr_info \<Rightarrow> shdr_info" where
  "link_info c h p = sec_infos c h ! unat (sh_link p)"

definition sym_name_off :: "mem \<Rightarrow> elf_header \<Rightarrow> shdr_info \<Rightarrow> nat \<Rightarrow> u32" where
  "sym_name_off c h p a = load32 (sec_data (head_decoder h) c p) a"

definition spec_sym_name :: "mem \<Rightarrow> elf_header \<Rightarrow> shdr_info \<Rightarrow> nat \<Rightarrow> u8 list res" where
  "spec_sym_name c h p a =
     cstr_at (sec_data (head_decoder h) c (link_info c h p)) (unat (sym_name_off c h p a))"

definition symtab_ok :: "mem \<Rightarrow> elf_header \<Rightarrow> shdr_info \<Rightarrow> bool" where
  "symtab_ok c h p \<longleftrightarrow>
     sec_ok c p \<and> unat (sh_link p) < length (sec_infos c h) \<and> sec_ok c (link_info c h p) \<and>
     list_all (\<lambda>a. unat (sym_name_off c h p a) < unat (sh_size (link_info c h p)) \<and>
       \<not> isl (spec_sym_name c h p a)) (sym_offsets p)"

text \<open>The entries of a symbol table, from the bytes of the file.\<close>

lemma sec_data_entries32:
  assumes ok: "sec_ok c (SH32 q)" and st: "is_symtab (SH32 q)"
  shows "sym_loop d Elf32_Sym_fields (unat (sh_entsize32 q)) (unat (sh_size32 q)) 0
      (sec_raw c (SH32 q)) = Inr (sec_data d c (SH32 q)) \<and>
    length (sec_data d c (SH32 q)) = unat (sh_size32 q) \<and>
    (\<forall>j < sym_count (SH32 q). load_Elf32_Sym (sec_data d c (SH32 q)) (j * unat (sh_entsize32 q)) =
      conv_Elf32_Sym d (load_Elf32_Sym c (unat (sh_offset32 q) + j * unat (sh_entsize32 q))))"
proof -
  define e where "e = unat (sh_entsize32 q)"
  define k where "k = sym_count (SH32 q)"
  have e: "sizeof_Elf32_Sym \<le> e" "0 < e" and size: "unat (sh_size32 q) = k * e"
    using ok st sizeof_sym_pos [of "SH32 q"]
    by (simp_all add: sec_ok_def e_def k_def sym_count_def sec_defs32)
  have fit: "unat (sh_offset32 q) + k * e \<le> length c" "k * e < 2 ^ 63"
    using ok size by (simp_all add: sec_ok_def sec_defs32)
  obtain m where m: "fix_table d Elf32_Sym_fields e 0 k
      (bytes_at c (unat (sh_offset32 q)) (k * e)) = Inr m" "length m = k * e"
    "\<forall>j < k. load_Elf32_Sym m (j * e) =
      conv_Elf32_Sym d (load_Elf32_Sym c (unat (sh_offset32 q) + j * e))"
    using elf32_Sym.fix_loaded_table [OF e(1) fit] by blast
  have "sym_loop d Elf32_Sym_fields e (k * e) 0 (sec_raw c (SH32 q)) = Inr m"
    using sym_loop_eq_table [of e "k * e" 0 k] m(1) e(2)
    by (simp add: sec_raw_def sec_defs32 size)
  then show ?thesis
    using m st by (simp add: sec_data_def sec_defs32 size flip: e_def k_def)
qed

lemma sec_data_entries64:
  assumes ok: "sec_ok c (SH64 q)" and st: "is_symtab (SH64 q)"
  shows "sym_loop d Elf64_Sym_fields (unat (sh_entsize64 q)) (unat (sh_size64 q)) 0
      (sec_raw c (SH64 q)) = Inr (sec_data d c (SH64 q)) \<and>
    length (sec_data d c (SH64 q)) = unat (sh_size64 q) \<and>
    (\<forall>j < sym_count (SH64 q). load_Elf64_Sym (sec_data d c (SH64 q)) (j * unat (sh_entsize64 q)) =
      conv_Elf64_Sym d (load_Elf64_Sym c (unat (sh_offset64 q) + j * unat (sh_entsize64 q))))"
proof -
  define e where "e = unat (sh_entsize64 q)"
  define k where "k = sym_count (SH64 q)"
  have e: "sizeof_Elf64_Sym \<le> e" "0 < e" and size: "unat (sh_size64 q) = k * e"
    using ok st sizeof_sym_pos [of "SH64 q"]
    by (simp_all add: sec_ok_def e_def k_def sym_count_def sec_defs64)
  have fit: "unat (sh_offset64 q) + k * e \<le> length c" "k * e < 2 ^ 63"
    using ok size by (simp_all add: sec_ok_def sec_defs64)
  obtain m where m: "fix_table d Elf64_Sym_fields e 0 k
      (bytes_at c (unat (sh_offset64 q)) (k * e)) = Inr m" "length m = k * e"
    "\<forall>j < k. load_Elf64_Sym m (j * e) =
      conv_Elf64_Sym d (load_Elf64_Sym c (unat (sh_offset64 q) + j * e))"
    using elf64_Sym.fix_loaded_table [OF e(1) fit] by blast
  have "sym_loop d Elf64_Sym_fields e (k * e) 0 (sec_raw c (SH64 q)) = Inr m"
    using sym_loop_eq_table [of e "k * e" 0 k] m(1) e(2)
    by (simp add: sec_raw_def sec_defs64 size)
  then show ?thesis
    using m st by (simp add: sec_data_def sec_defs64 size flip: e_def k_def)
qed

lemma sec_data_loop:
  assumes "sec_ok c p" and "is_symtab p"
  shows "sym_loop d (sym_fields p) (unat (sh_entsize p)) (unat (sh_size p)) 0 (sec_raw c p) =
    Inr (sec_data d c p)"
  using assms sec_data_entries32 sec_data_entries64 by (cases p) (simp_all add: sec_defs32 sec_defs64)

lemma length_sec_infos: "length (sec_infos c h) < 2 ^ 16"
proof (cases h)
  case (H32 g)
  then show ?thesis
    using unsigned_less [of "e_shnum32 g", where ?'a = nat] by simp
next
  case (H64 g)
  then show ?thesis
    using unsigned_less [of "e_shnum64 g", where ?'a = nat] by simp
qed

lemma sint_small: "unat (w :: u32) < 2 ^ 31 \<Longrightarrow> sint w = int (unat w)"
proof -
  assume "unat w < 2 ^ 31"
  then have "int (unat w) < int (2 ^ 31)"
    by (simp only: of_nat_less_iff)
  then have "uint w < 2 ^ 31"
    by simp
  moreover have "- (2 ^ 31) \<le> uint w"
    by (rule order_trans [OF _ uint_ge_0]) simp
  ultimately show ?thesis
    by (simp add: sint_uint signed_take_bit_int_eq_self)
qed

context elf_host
begin

lemma Section_read_ok:
  assumes ok: "sec_ok c p" and c: "ct (el_s f) = c" and b: "length b = unat (sh_size p)"
  shows "\<exists>s'. ct s' = c \<and>
    (case p of SH32 q \<Rightarrow> Section32_read E q b | SH64 q \<Rightarrow> Section64_read E q b) f =
      (Inr (sec_raw c p), f\<lparr>el_s := s'\<rparr>)"
proof (cases p)
  case (SH32 q)
  then have "unat (sh_offset32 q) + unat (sh_size32 q) \<le> length (ct (el_s f))"
    "length b = unat (sh_size32 q)"
    using ok c b by (simp_all add: sec_ok_def sec_defs32)
  from Section32_read_eq [OF stream this] show ?thesis
    using SH32 c by (simp add: sec_raw_def sec_defs32)
next
  case (SH64 q)
  then have "unat (sh_offset64 q) + unat (sh_size64 q) \<le> length (ct (el_s f))"
    "unat (sh_offset64 q) < 2 ^ 32" "unat (sh_size64 q) < 2 ^ 32"
    "length b = unat (sh_size64 q)"
    using ok c b by (simp_all add: sec_ok_def sec_defs64)
  from Section64_read_eq [OF stream this] show ?thesis
    using SH64 c by (simp add: sec_raw_def sec_defs64)
qed

text \<open>What precedes the loop of \<open>fillSymbolTable\<close>.\<close>

lemma fillSymbolTable_start:
  assumes inv: "elf_inv E ct c h f" and ld: "el_sects_loaded f" and syms: "el_syms f = Some t"
    and i: "i < length (sec_infos c h)" and p: "p = sec_infos c h ! i"
    and ok: "sec_ok c p" and st: "is_symtab p"
  shows "\<exists>s'. ct s' = c \<and> fillSymbolTable E n i f =
    fill_loop (stringAt E n (sint (sh_link p))) (is_info64 p) (sym_fields p)
      (unat (sh_entsize p)) (unat (sh_size p)) (length (st_mems t)) 0
      (f\<lparr>el_s := s', el_syms := Some (t\<lparr>st_mems := st_mems t @ [sec_raw c p]\<rparr>)\<rparr>)"
proof -
  have map: "map sec_info (el_sects f) = sec_infos c h" and c: "ct (el_s f) = c"
    using inv ld by (simp_all add: elf_inv_def)
  have info: "sec_info (el_sects f ! i) = p"
    using i map p by (metis length_map nth_map)
  have small: "unat (sh_size p) < 2 ^ 63" and ent: "sh_entsize p \<noteq> 0"
    and al: "sh_size p div sh_entsize p * sh_entsize p = sh_size p"
    using ok st sizeof_sym_pos [of p] by (auto simp: sec_ok_def word_div_mult_iff)
  obtain s' where s': "ct s' = c"
    "(case p of SH32 q \<Rightarrow> Section32_read E q (new_block (env_junk E) (unat (sh_size p)))
      | SH64 q \<Rightarrow> Section64_read E q (new_block (env_junk E) (unat (sh_size p)))) f =
      (Inr (sec_raw c p), f\<lparr>el_s := s'\<rparr>)"
    using Section_read_ok [OF ok c, of "new_block (env_junk E) (unat (sh_size p))"] by auto
  have alc: "alloc (env_junk E) (unat (sh_size p)) =
      Inr (new_block (env_junk E) (unat (sh_size p)))"
    using small by (simp add: alloc_def)
  have rec: "record_block (sec_raw c p) (f\<lparr>el_s := s'\<rparr>) = (Inr (length (st_mems t)),
      f\<lparr>el_s := s', el_syms := Some (t\<lparr>st_mems := st_mems t @ [sec_raw c p]\<rparr>)\<rparr>)"
    using syms by (simp add: record_block_def)
  show ?thesis
  proof (cases p)
    case (SH32 q)
    then show ?thesis
      using s' alc rec ent al info
      by (intro exI [of _ s']) (simp add: fillSymbolTable_def fillSymbolTable32_def)
  next
    case (SH64 q)
    then show ?thesis
      using s' alc rec ent al info
      by (intro exI [of _ s']) (simp add: fillSymbolTable_def fillSymbolTable64_def)
  qed
qed

end

text \<open>The symbols of the section \<open>p\<close> when its block is the one of index \<open>q\<close>.\<close>

definition section_symbols ::
  "mem \<Rightarrow> elf_header \<Rightarrow> shdr_info \<Rightarrow> nat \<Rightarrow> (u8 list \<times> symbol) list" where
  "section_symbols c h p q =
     map (\<lambda>a. (projr (spec_sym_name c h p a), \<lparr>sym_is64 = is_info64 p, sym_mem = q, sym_off = a\<rparr>))
       (sym_offsets p)"

context elf_host
begin

lemma fillSymbolTable_ok:
  assumes inv: "elf_inv E ct c h f" and ld: "el_sects_loaded f" and fit: "secs_fit c h"
    and syms: "el_syms f = Some t" and i: "i < length (sec_infos c h)"
    and p: "p = sec_infos c h ! i" and ok: "symtab_ok c h p" and st: "is_symtab p"
  shows "\<exists>g. fillSymbolTable E (Suc n) i f = (Inr (), g) \<and> elf_inv E ct c h g \<and>
    el_sects_loaded g \<and> el_syms g = Some
      \<lparr>st_mems = st_mems t @ [sec_data (head_decoder h) c p],
       st_map = st_map t ++ map_of (rev (section_symbols c h p (length (st_mems t))))\<rparr>"
proof -
  have sok: "sec_ok c p" and link: "unat (sh_link p) < length (sec_infos c h)"
    and lok: "sec_ok c (link_info c h p)"
    using ok by (simp_all add: symtab_ok_def)
  have sl: "sint (sh_link p) = int (unat (sh_link p))"
    by (rule sint_small) (use link length_sec_infos [of c h] in simp)
  let ?t1 = "t\<lparr>st_mems := st_mems t @ [sec_raw c p]\<rparr>"
  obtain s' where s': "ct s' = c" "fillSymbolTable E (Suc n) i f =
    fill_loop (stringAt E (Suc n) (int (unat (sh_link p)))) (is_info64 p) (sym_fields p)
      (unat (sh_entsize p)) (unat (sh_size p)) (length (st_mems t)) 0
      (f\<lparr>el_s := s', el_syms := Some ?t1\<rparr>)"
    using fillSymbolTable_start [OF inv ld syms i p sok st, of "Suc n"] unfolding sl by blast
  let ?f1 = "f\<lparr>el_s := s', el_syms := Some ?t1\<rparr>"
  let ?I = "\<lambda>g. elf_inv E ct c h g \<and> el_sects_loaded g"
  have hd: "el_head f = h" "ct (el_s f) = c"
    using inv by (simp_all add: elf_inv_def)
  have I1: "?I ?f1"
    using inv ld s'(1) by (simp add: elf_inv_def)
  obtain k where k: "unat (sh_size p) = k * unat (sh_entsize p)" "4 \<le> unat (sh_entsize p)"
    using sok st by (cases p) (auto simp: sec_ok_def dvd_def mult.commute
        sizeof_Elf32_Sym_def sizeof_Elf64_Sym_def)
  have offs: "sym_offsets p = entry_offsets (unat (sh_entsize p)) 0 k"
    using k by (simp add: sym_offsets_def sym_count_def)
  have sd: "sym_loop (head_decoder h) (sym_fields p) (unat (sh_entsize p))
      (unat (sh_size p)) 0 (sec_raw c p) = Inr (sec_data (head_decoder h) c p)"
    by (rule sec_data_loop [OF sok st])
  have "\<exists>g. fill_loop (stringAt E (Suc n) (int (unat (sh_link p)))) (is_info64 p) (sym_fields p)
      (unat (sh_entsize p)) (unat (sh_size p)) (length (st_mems t)) 0 ?f1 = (Inr (), g) \<and> ?I g \<and>
    el_syms g = Some \<lparr>st_mems = (st_mems ?t1)[length (st_mems t) := sec_data (head_decoder h) c p],
      st_map = st_map ?t1 ++ map_of (rev (map (\<lambda>a. (projr (spec_sym_name c h p a),
        \<lparr>sym_is64 = is_info64 p, sym_mem = length (st_mems t), sym_off = a\<rparr>))
        (entry_offsets (unat (sh_entsize p)) 0 k)))\<rparr>"
  proof (rule fill_loop_ok [where d = "head_decoder h"])
    fix a g
    assume a: "a \<in> set (entry_offsets (unat (sh_entsize p)) 0 k)" and I: "?I g"
    have nm: "unat (sym_name_off c h p a) < unat (sh_size (link_info c h p))"
      "spec_sym_name c h p a = Inr (projr (spec_sym_name c h p a))"
      using ok a by (auto simp: symtab_ok_def offs list_all_iff)
    then have "ucast (sym_name_off c h p a) < sh_size (link_info c h p)"
      by (simp add: word_less_nat_alt unat_ucast_u64)
    then show "\<exists>g'. stringAt E (Suc n) (int (unat (sh_link p)))
        (ucast (load32 (sec_data (head_decoder h) c p) a)) g =
        (Inr (projr (spec_sym_name c h p a)), g') \<and> ?I g' \<and> el_syms g' = el_syms g"
      using stringAt_ok [OF conjunct1 [OF I] fit, of "int (unat (sh_link p))"
          "ucast (sym_name_off c h p a)" n] link lok nm(2)
      by (auto simp: link_info_def sym_name_off_def spec_sym_name_def unat_ucast_u64
          simp del: stringAt.simps)
  qed (use I1 k sd in \<open>auto simp: file_decoder_head elf_inv_def\<close>)
  then show ?thesis
    unfolding s'(2) section_symbols_def offs by simp
qed

end

section \<open>The symbols of the file\<close>

definition symtabs_from :: "mem \<Rightarrow> elf_header \<Rightarrow> nat \<Rightarrow> nat \<Rightarrow> nat list" where
  "symtabs_from c h i k = filter (\<lambda>j. is_symtab (sec_infos c h ! j)) [i..<i + k]"

fun spec_symbols :: "mem \<Rightarrow> elf_header \<Rightarrow> nat \<Rightarrow> nat list \<Rightarrow> (u8 list \<times> symbol) list" where
  "spec_symbols c h q [] = []"
| "spec_symbols c h q (i # is) = section_symbols c h (sec_infos c h ! i) q @ spec_symbols c h (Suc q) is"

definition spec_table :: "mem \<Rightarrow> elf_header \<Rightarrow> symbol_table \<Rightarrow> nat list \<Rightarrow> symbol_table" where
  "spec_table c h t is =
     \<lparr>st_mems = st_mems t @ map (\<lambda>i. sec_data (head_decoder h) c (sec_infos c h ! i)) is,
      st_map = st_map t ++ map_of (rev (spec_symbols c h (length (st_mems t)) is))\<rparr>"

definition symbols_ok :: "mem \<Rightarrow> elf_header \<Rightarrow> bool" where
  "symbols_ok c h \<longleftrightarrow>
     list_all (\<lambda>i. symtab_ok c h (sec_infos c h ! i)) (symtabs_from c h 0 (length (sec_infos c h)))"

lemma symtabs_from_simps [simp]:
  "symtabs_from c h i 0 = []"
  "symtabs_from c h i (Suc k) =
     (if is_symtab (sec_infos c h ! i) then [i] else []) @ symtabs_from c h (Suc i) k"
proof -
  have "[i..<i + Suc k] = i # [Suc i..<Suc i + k]"
    by (simp add: upt_conv_Cons del: upt_Suc)
  then show "symtabs_from c h i (Suc k) =
      (if is_symtab (sec_infos c h ! i) then [i] else []) @ symtabs_from c h (Suc i) k"
    by (simp add: symtabs_from_def del: upt_Suc)
qed (simp add: symtabs_from_def)

lemma spec_table_Nil: "spec_table c h t [] = t"
  by (cases t) (simp add: spec_table_def)

lemma spec_table_Cons:
  "spec_table c h t (i # is) =
   spec_table c h
     \<lparr>st_mems = st_mems t @ [sec_data (head_decoder h) c (sec_infos c h ! i)],
      st_map = st_map t ++
        map_of (rev (section_symbols c h (sec_infos c h ! i) (length (st_mems t))))\<rparr> is"
  by (simp add: spec_table_def)

context elf_host
begin

lemma fill_tables_ok:
  assumes "elf_inv E ct c h f" and "el_sects_loaded f" and fit: "secs_fit c h"
    and "el_syms f = Some t" and "i + k \<le> length (sec_infos c h)"
    and "list_all (\<lambda>j. symtab_ok c h (sec_infos c h ! j)) (symtabs_from c h i k)"
  shows "\<exists>g. fill_tables E (Suc n) i k f = (Inr (), g) \<and> elf_inv E ct c h g \<and>
    el_sects_loaded g \<and> el_syms g = Some (spec_table c h t (symtabs_from c h i k))"
  using assms(1,2,4-6)
proof (induction k arbitrary: i f t)
  case 0
  then show ?case
    by (simp add: spec_table_Nil)
next
  case (Suc k)
  note prems = Suc.prems
  have i: "i < length (sec_infos c h)"
    using prems(4) by simp
  have map: "map sec_info (el_sects f) = sec_infos c h"
    using prems(1,2) by (simp add: elf_inv_def)
  have info: "sec_info (el_sects f ! i) = sec_infos c h ! i"
    using i map by (metis length_map nth_map)
  have cond: "sh_type (sec_info (el_sects f ! i)) = SHT_SYMTAB \<or>
      sh_type (sec_info (el_sects f ! i)) = SHT_DYNSYM \<longleftrightarrow> is_symtab (sec_infos c h ! i)"
    by (simp add: info is_symtab_def)
  show ?case
  proof (cases "is_symtab (sec_infos c h ! i)")
    case True
    then obtain g where g: "fillSymbolTable E (Suc n) i f = (Inr (), g)" "elf_inv E ct c h g"
      "el_sects_loaded g" "el_syms g = Some \<lparr>st_mems = st_mems t @
         [sec_data (head_decoder h) c (sec_infos c h ! i)],
       st_map = st_map t ++
         map_of (rev (section_symbols c h (sec_infos c h ! i) (length (st_mems t))))\<rparr>"
      using fillSymbolTable_ok [OF prems(1,2) fit prems(3) i refl, of n] prems(5) by auto
    then show ?thesis
      using Suc.IH [OF g(2,3,4), of "Suc i"] True prems(4,5) cond
      by (auto simp: spec_table_Cons)
  next
    case False
    then show ?thesis
      using Suc.IH [OF prems(1,2,3), of "Suc i"] prems(4,5) cond by auto
  qed
qed

lemma symbols_refine:
  assumes inv: "elf_inv E ct c h f" and fit: "secs_fit c h" and none: "el_syms f = None"
    and ok: "symbols_ok c h"
  shows "\<exists>g. symbols E (Suc n) f =
      (Inr (spec_table c h empty_symbol_table (symtabs_from c h 0 (length (sec_infos c h)))), g) \<and>
    elf_inv E ct c h g \<and> el_sects_loaded g \<and>
    el_syms g = Some (spec_table c h empty_symbol_table (symtabs_from c h 0 (length (sec_infos c h))))"
proof -
  let ?f1 = "f\<lparr>el_syms := Some empty_symbol_table\<rparr>"
  obtain f2 where f2: "sections E ?f1 = (Inr (el_sects f2), f2)" "elf_inv E ct c h f2"
    "el_sects_loaded f2" "map sec_info (el_sects f2) = sec_infos c h"
    "el_syms f2 = Some empty_symbol_table"
    using sections_ok [of c h ?f1] inv fit by auto
  have len: "length (el_sects f2) = length (sec_infos c h)"
    using f2(4) by (metis length_map)
  obtain g where "fill_tables E (Suc n) 0 (length (sec_infos c h)) f2 = (Inr (), g)"
    "elf_inv E ct c h g" "el_sects_loaded g" "el_syms g = Some (spec_table c h empty_symbol_table
       (symtabs_from c h 0 (length (sec_infos c h))))"
    using fill_tables_ok [OF f2(2,3) fit f2(5), of 0 "length (sec_infos c h)" n] ok
    by (auto simp: symbols_ok_def)
  then show ?thesis
    using none f2(1) len by (intro exI [of _ g]) (simp add: symbols_def)
qed

end

text \<open>What a symbol of the table shows.\<close>

lemma nth_spec_table:
  "t = spec_table c h empty_symbol_table is \<Longrightarrow> q < length is \<Longrightarrow>
   st_mems t ! q = sec_data (head_decoder h) c (sec_infos c h ! (is ! q))"
  by (simp add: spec_table_def empty_symbol_table_def)

end
