(* ===== verification/Elf_Errors.thy ===== *)
theory Elf_Errors
  imports Elf_Symbols
begin

text \<open>
  What \<open>elf::File\<close> does when a read fails: what stays cached, and the nested calls
  made to report garbage in a symbol table.
\<close>

section \<open>Program headers after a failed read\<close>

text \<open>The table of program headers starts in the file and runs past its end.\<close>

fun phs_cut :: "mem \<Rightarrow> elf_header \<Rightarrow> bool" where
  "phs_cut c (H32 h) \<longleftrightarrow>
     unat (e_phentsize32 h) * unat (e_phnum32 h) < 2 ^ 31 \<and>
     unat (e_phoff32 h) \<le> length c \<and>
     length c < unat (e_phoff32 h) + unat (e_phentsize32 h) * unat (e_phnum32 h)"
| "phs_cut c (H64 h) \<longleftrightarrow>
     unat (e_phentsize64 h) * unat (e_phnum64 h) < 2 ^ 31 \<and>
     unat (e_phoff64 h) < 2 ^ 32 \<and> unat (e_phoff64 h) \<le> length c \<and>
     length c < unat (e_phoff64 h) + unat (e_phentsize64 h) * unat (e_phnum64 h)"

fun phs_size :: "elf_header \<Rightarrow> nat" where
  "phs_size (H32 h) = unat (e_phentsize32 h) * unat (e_phnum32 h)"
| "phs_size (H64 h) = unat (e_phentsize64 h) * unat (e_phnum64 h)"

text \<open>A section that is a symbol table with bytes left after its last entry.\<close>

definition sec_garbage :: "mem \<Rightarrow> shdr_info \<Rightarrow> bool" where
  "sec_garbage c p \<longleftrightarrow>
     unat (sh_offset p) + unat (sh_size p) \<le> length c \<and>
     unat (sh_offset p) < 2 ^ 32 \<and> unat (sh_size p) < 2 ^ 32 \<and> is_symtab p \<and>
     sh_entsize p \<noteq> 0 \<and> \<not> unat (sh_entsize p) dvd unat (sh_size p)"

context elf_host
begin

lemma programHeaders_cut:
  assumes c: "ct (el_s f) = c" "el_head f = h" and nl: "\<not> el_ph_loaded f"
    and none: "el_ph_buf f = None" and cut: "phs_cut c h"
  shows "\<exists>s' b. ct s' = c \<and> programHeaders E f =
    (Inl (Throw (Cannot_Read (word_of_nat (phs_size h)))), f\<lparr>el_s := s', el_ph_buf := Some b\<rparr>)"
proof -
  define n where "n = phs_size h"
  define pos where "pos = (case h of H32 g \<Rightarrow> e_phoff32 g | H64 g \<Rightarrow> ucast (e_phoff64 g))"
  have n: "n < 2 ^ 31" "unat pos \<le> length c" "length c < unat pos + n"
    using cut by (cases h; simp add: n_def pos_def unat_ucast_u32)+
  then have u: "unat (word_of_nat n :: u32) = n"
    by (simp add: unat_of_nat)
  obtain s' where rd: "elf_readAt (env_stream E) pos (new_block (env_junk E) n) (word_of_nat n)
      (el_s f) = (Inl (Throw (Cannot_Read (word_of_nat n))), s')" "ct s' = c"
    using elf_readAt_short [OF stream, of pos "el_s f" "word_of_nat n" "new_block (env_junk E) n"]
      n u c(1) by auto
  have al: "alloc (env_junk E) n = Inr (new_block (env_junk E) n)"
    using n(1) by (simp add: alloc_def)
  have "(case h of H32 g \<Rightarrow> loadProgramHeaders32 E g | H64 g \<Rightarrow> loadProgramHeaders64 E g) f =
      (Inl (Throw (Cannot_Read (word_of_nat n))),
       f\<lparr>el_s := s', el_ph_buf := Some (new_block (env_junk E) n)\<rparr>)"
  proof (cases h)
    case (H32 g)
    then have "int_mul16 (e_phentsize32 g) (e_phnum32 g) = Inr n"
      using n(1) by (simp add: int_mul16_def n_def)
    then show ?thesis
      using H32 none rd al by (simp add: loadProgramHeaders32_def pos_def)
  next
    case (H64 g)
    then have "int_mul16 (e_phentsize64 g) (e_phnum64 g) = Inr n"
      using n(1) by (simp add: int_mul16_def n_def)
    then show ?thesis
      using H64 none rd al by (simp add: loadProgramHeaders64_def pos_def)
  qed
  then show ?thesis
    using nl c(2) rd(2) by (auto simp: programHeaders_def n_def)
qed

lemma programHeaders_again:
  assumes "\<not> el_ph_loaded f" and "el_ph_buf f = Some b"
  shows "programHeaders E f = (Inr (el_phs f), f\<lparr>el_ph_loaded := True\<rparr>)"
  using assms
  by (cases "el_head f") (simp_all add: programHeaders_def loadProgramHeaders32_def
      loadProgramHeaders64_def)

section \<open>Garbage in the table of section names\<close>

lemma sec_readBuf_garbage:
  assumes g: "sec_garbage c p" and c: "ct (el_s f) = c"
  shows "\<exists>s'. ct s' = c \<and> sec_readBuf E nm p f =
    sbind nm (\<lambda>x. sraise (Throw (Garbage_In_Symtab (bytes_str x)))) (f\<lparr>el_s := s'\<rparr>)"
proof (cases p)
  case (SH32 q)
  then have fit: "unat (sh_offset32 q) + unat (sh_size32 q) \<le> length (ct (el_s f))"
    and ty: "sh_type32 q = SHT_SYMTAB \<or> sh_type32 q = SHT_DYNSYM" and ent: "sh_entsize32 q \<noteq> 0"
    and na: "\<not> symtab_aligned32 q"
    using g c by (auto simp: sec_garbage_def sec_defs32 is_symtab_def symtab_aligned32_iff)
  obtain s' where "ct s' = c" "Section32_read E q (new_block (env_junk E) (unat (sh_size32 q))) f =
      (Inr (bytes_at c (unat (sh_offset32 q)) (unat (sh_size32 q))), f\<lparr>el_s := s'\<rparr>)"
    using Section32_read_eq [OF stream fit, of "new_block (env_junk E) (unat (sh_size32 q))"] c
    by auto
  then show ?thesis
    using SH32 ty ent na
    by (intro exI [of _ s']) (simp add: sec_readBuf_def Section32_readBuf_def alloc_u32)
next
  case (SH64 q)
  then have fit: "unat (sh_offset64 q) + unat (sh_size64 q) \<le> length (ct (el_s f))"
    and small: "unat (sh_offset64 q) < 2 ^ 32" "unat (sh_size64 q) < 2 ^ 32"
    and ty: "sh_type64 q = SHT_SYMTAB \<or> sh_type64 q = SHT_DYNSYM" and ent: "sh_entsize64 q \<noteq> 0"
    and na: "\<not> symtab_aligned64 q"
    using g c by (auto simp: sec_garbage_def sec_defs64 is_symtab_def symtab_aligned64_iff)
  obtain s' where "ct s' = c" "Section64_read E q (new_block (env_junk E) (unat (sh_size64 q))) f =
      (Inr (bytes_at c (unat (sh_offset64 q)) (unat (sh_size64 q))), f\<lparr>el_s := s'\<rparr>)"
    using Section64_read_eq [OF stream fit small, of "new_block (env_junk E) (unat (sh_size64 q))"] c
    by auto
  then show ?thesis
    using SH64 ty ent na small(2)
    by (intro exI [of _ s']) (simp add: sec_readBuf_def Section64_readBuf_def alloc_def)
qed

lemma sec_content_garbage:
  assumes ld: "el_sects_loaded f" and inv: "elf_inv E ct c h f"
    and i: "i < length (sec_infos c h)" and g: "sec_garbage c (sec_infos c h ! i)"
    and none: "sec_cache (el_sects f ! i) = None"
    and nm: "\<And>s'. ct s' = c \<Longrightarrow> \<exists>f'. nm (f\<lparr>el_s := s'\<rparr>) = (Inl e, f') \<and> P f'"
  shows "\<exists>f'. sec_content E nm i f = (Inl e, f') \<and> P f'"
proof -
  have c: "ct (el_s f) = c" and map: "map sec_info (el_sects f) = sec_infos c h"
    using inv ld by (simp_all add: elf_inv_def)
  have i': "i < length (el_sects f)" and info: "sec_info (el_sects f ! i) = sec_infos c h ! i"
    using i map by (metis length_map, metis i length_map map nth_map)
  obtain s' where s': "ct s' = c" "sec_readBuf E nm (sec_infos c h ! i) f =
      sbind nm (\<lambda>x. sraise (Throw (Garbage_In_Symtab (bytes_str x)))) (f\<lparr>el_s := s'\<rparr>)"
    using sec_readBuf_garbage [OF g c] by blast
  obtain f' where "nm (f\<lparr>el_s := s'\<rparr>) = (Inl e, f')" "P f'"
    using nm [OF s'(1)] by blast
  then show ?thesis
    using i' none s'(2) by (intro exI [of _ f']) (simp add: sec_content_def Let_def info)
qed

lemma sections_fresh:
  assumes inv: "elf_inv E ct c h f" and fit: "secs_fit c h" and nl: "\<not> el_sects_loaded f"
  shows "\<exists>f'. sections E f = (Inr (el_sects f'), f') \<and> elf_inv E ct c h f' \<and>
    el_sects_loaded f' \<and> (\<forall>x \<in> set (el_sects f'). sec_cache x = None)"
proof -
  have hd: "el_head f = h"
    using inv by (simp add: elf_inv_def)
  obtain s' b ss where "ct s' = c" "map sec_info ss = sec_infos c h"
    "\<forall>x \<in> set ss. sec_cache x = None"
    "(case h of H32 g \<Rightarrow> loadSections32 E g | H64 g \<Rightarrow> loadSections64 E g) f =
      (Inr (), f\<lparr>el_s := s', el_sec_buf := Some b, el_sects := ss\<rparr>)"
    using loadSections_ok [OF inv fit nl] by blast
  then show ?thesis
    using nl inv
    by (intro exI [of _ "f\<lparr>el_s := s', el_sec_buf := Some b, el_sects := ss, el_sects_loaded := True\<rparr>"])
      (simp add: sections_def initSections_def hd elf_inv_def)
qed

text \<open>No depth of the stack is enough when the names themselves are in such a table.\<close>

lemma stringAt_garbage:
  assumes fit: "secs_fit c h" and i: "nat (elf_getStrTab h) < length (sec_infos c h)"
    and g: "sec_garbage c (strtab_info c h)"
  shows "elf_inv E ct c h f \<Longrightarrow> el_sects f = [] \<or> (el_sects_loaded f \<and>
      sec_cache (el_sects f ! nat (elf_getStrTab h)) = None) \<Longrightarrow>
    \<exists>f'. stringAt E n (elf_getStrTab h) off f = (Inl Stack_Overflow, f') \<and> elf_inv E ct c h f'"
proof (induction n arbitrary: f off)
  case 0
  then show ?case by simp
next
  case (Suc n)
  let ?k = "nat (elf_getStrTab h)"
  obtain f1 where f1: "sections E f = (Inr (el_sects f1), f1)" "elf_inv E ct c h f1"
    "el_sects_loaded f1" "sec_cache (el_sects f1 ! ?k) = None"
  proof (cases "el_sects_loaded f")
    case True
    then have "el_sects f \<noteq> []"
      using Suc.prems(1) i by (auto simp: elf_inv_def)
    then show ?thesis
      using True Suc.prems that [of f] by (simp add: sections_def initSections_def)
  next
    case False
    obtain f1 where "sections E f = (Inr (el_sects f1), f1)" "elf_inv E ct c h f1"
      "el_sects_loaded f1" "\<forall>x \<in> set (el_sects f1). sec_cache x = None"
      using sections_fresh [OF Suc.prems(1) fit False] by blast
    moreover from this have "?k < length (el_sects f1)"
      using i unfolding elf_inv_def by (metis length_map)
    ultimately show ?thesis
      using that by simp
  qed
  have map: "map sec_info (el_sects f1) = sec_infos c h"
    using f1(2,3) by (simp add: elf_inv_def)
  have len: "length (el_sects f1) = length (sec_infos c h)"
    using map by (metis length_map)
  have hd: "el_head f1 = h"
    using f1(2) by (simp add: elf_inv_def)
  let ?nm = "sbind sget (\<lambda>f. stringAt E n (elf_getStrTab (el_head f))
    (sh_name (sec_info (el_sects f1 ! ?k))))"
  have "\<exists>f'. sec_content E ?nm ?k f1 = (Inl Stack_Overflow, f') \<and> elf_inv E ct c h f'"
  proof (rule sec_content_garbage [OF f1(3,2) i g [unfolded strtab_info_def] f1(4)])
    fix s' assume s': "ct s' = c"
    have "elf_inv E ct c h (f1\<lparr>el_s := s'\<rparr>)"
      using f1(2) s' by (simp add: elf_inv_def)
    then show "\<exists>f'. ?nm (f1\<lparr>el_s := s'\<rparr>) = (Inl Stack_Overflow, f') \<and> elf_inv E ct c h f'"
      using Suc.IH [of "f1\<lparr>el_s := s'\<rparr>"] f1(3,4) hd by simp
  qed
  then show ?case
    using f1(1) i len elf_getStrTab_nonneg [of h] by (auto simp: nat_less_iff)
qed

end

end
