(* ===== verification/Gel_Image.thy ===== *)
theory Gel_Image
  imports Gel_File Gel_Cursor
begin

text \<open>
  \<open>include/gel++/Image.h\<close> and \<open>src/gel_Image.cpp\<close>: image segments, images, the
  parameters of the image builders and \<open>SimpleBuilder\<close>. A file is known by an
  identifier of type \<open>'f\<close>, a segment of a file by one of type \<open>'g\<close>. The virtual
  functions of the file and of its segments that the builder calls are the
  fields of \<open>segment_ops\<close>, with their contract as the locale \<open>segment_provider\<close>.
\<close>

section \<open>Image segments\<close>

definition IS_WRITABLE :: u32 where "IS_WRITABLE = 0x01"
definition IS_EXECUTABLE :: u32 where "IS_EXECUTABLE = 0x02"
definition IS_READABLE :: u32 where "IS_READABLE = 0x04"
definition IS_CONTENT :: u32 where "IS_CONTENT = 0x08"
definition IS_STACK :: u32 where "IS_STACK = 0x10"
definition IS_TO_FREE :: u32 where "IS_TO_FREE = 0x20"

lemmas image_flags =
  IS_WRITABLE_def IS_EXECUTABLE_def IS_READABLE_def IS_CONTENT_def IS_STACK_def IS_TO_FREE_def

record ('f, 'g) image_segment =
  is_name :: "u8 list"
  is_file :: "'f option"
  is_seg :: "'g option"
  is_base :: u64
  is_buf :: buffer
  is_flags :: u32

definition is_isExecutable :: "('f, 'g) image_segment \<Rightarrow> bool" where
  "is_isExecutable s \<longleftrightarrow> is_flags s AND IS_EXECUTABLE \<noteq> 0"

definition is_isWritable :: "('f, 'g) image_segment \<Rightarrow> bool" where
  "is_isWritable s \<longleftrightarrow> is_flags s AND IS_WRITABLE \<noteq> 0"

definition is_hasContent :: "('f, 'g) image_segment \<Rightarrow> bool" where
  "is_hasContent s \<longleftrightarrow> is_flags s AND IS_CONTENT \<noteq> 0"

definition is_isReadable :: "('f, 'g) image_segment \<Rightarrow> bool" where
  "is_isReadable s \<longleftrightarrow> is_flags s AND IS_READABLE \<noteq> 0"

definition is_isStack :: "('f, 'g) image_segment \<Rightarrow> bool" where
  "is_isStack s \<longleftrightarrow> is_flags s AND IS_STACK \<noteq> 0"

definition is_size :: "('f, 'g) image_segment \<Rightarrow> u64" where
  "is_size s = buf_size (is_buf s)"

definition is_alignment :: "('f, 'g) image_segment \<Rightarrow> u64" where
  "is_alignment s = 0"

definition is_range :: "('f, 'g) image_segment \<Rightarrow> range_t" where
  "is_range s = range_of (is_base s) (is_size s)"

definition is_clean :: "('f, 'g) image_segment \<Rightarrow> ('f, 'g) image_segment" where
  "is_clean s = s\<lparr>is_file := None, is_seg := None\<rparr>"

text \<open>A segment on allocated memory, which belongs to no file or to \<open>file\<close>.\<close>

definition ImageSegment_buf ::
  "'f option \<Rightarrow> buffer \<Rightarrow> u64 \<Rightarrow> u32 \<Rightarrow> u8 list \<Rightarrow> ('f, 'g) image_segment" where
  "ImageSegment_buf file b addr flags nm =
     (let s = \<lparr>is_name = nm, is_file = file, is_seg = None, is_base = addr, is_buf = b,
               is_flags = flags\<rparr> in
      if nm = []
      then s\<lparr>is_name := defaultName (is_isExecutable s) (is_isWritable s) (is_hasContent s)\<rparr>
      else s)"

text \<open>
  A segment on a copy of a segment of a file. The name that the constructor
  computes when it is given none is assigned to its argument, not to the member.
\<close>

definition segment_flags :: "segment_view \<Rightarrow> u32" where
  "segment_flags v =
     IS_TO_FREE OR (if sg_write v then IS_WRITABLE else 0) OR
     (if sg_exec v then IS_EXECUTABLE else 0)"

definition segment_block :: "elm_array \<Rightarrow> (nat \<Rightarrow> u8) \<Rightarrow> segment_view \<Rightarrow> mem \<Rightarrow> u64 \<Rightarrow> mem res" where
  "segment_block A junk v m n =
     rbind (alloc junk (unat (sg_size v))) (\<lambda>b.
     rbind (if sg_content v
            then (if unat n \<le> length m \<and> n \<le> sg_size v
                  then Inr (arr_copy A b 0 (take (unat n) m), n) else Inl Memory_Fault)
            else Inr (b, 0)) (\<lambda>(b, sz).
       if sz < sg_size v then Inr (arr_clear A b (unat sz) (unat (sg_size v - sz))) else Inr b))"

definition ImageSegment_seg ::
  "elm_array \<Rightarrow> (nat \<Rightarrow> u8) \<Rightarrow> 'f \<Rightarrow> 'g \<Rightarrow> segment_view \<Rightarrow> buffer \<Rightarrow> u64 \<Rightarrow> u8 list \<Rightarrow>
   ('f, 'g) image_segment res" where
  "ImageSegment_seg A junk file g v sbuf addr nm =
     (case buf_bytes sbuf of
        None \<Rightarrow> Inl Assert_Failure
      | Some m \<Rightarrow>
          rbind (segment_block A junk v m (buf_size sbuf)) (\<lambda>b.
            Inr \<lparr>is_name = nm, is_file = Some file, is_seg = Some g, is_base = addr,
                 is_buf = \<lparr>buf_dec = buf_dec sbuf, buf_bytes = Some b, buf_size = sg_size v\<rparr>,
                 is_flags = segment_flags v\<rparr>))"

section \<open>Images\<close>

record ('f, 'g) image =
  im_prog :: 'f
  im_links :: "('f \<times> u64) list"
  im_segs :: "('f, 'g) image_segment list"

definition image_add_file :: "'f \<Rightarrow> u64 \<Rightarrow> ('f, 'g) image \<Rightarrow> ('f, 'g) image" where
  "image_add_file file b im = im\<lparr>im_links := im_links im @ [(file, b)]\<rparr>"

definition image_add :: "('f, 'g) image_segment \<Rightarrow> ('f, 'g) image \<Rightarrow> ('f, 'g) image" where
  "image_add s im = im\<lparr>im_segs := im_segs im @ [s]\<rparr>"

definition image_new :: "'f \<Rightarrow> ('f, 'g) image" where
  "image_new p = image_add_file p 0 \<lparr>im_prog = p, im_links = [], im_segs = []\<rparr>"

definition image_at :: "('f, 'g) image \<Rightarrow> u64 \<Rightarrow> ('f, 'g) image_segment option" where
  "image_at im a = find (\<lambda>s. range_contains (is_range s) a) (im_segs im)"

text \<open>The files deleted by \<open>clean\<close> are its first result.\<close>

definition image_clean :: "('f, 'g) image \<Rightarrow> 'f list \<times> ('f, 'g) image" where
  "image_clean im =
     (filter (\<lambda>f. f \<noteq> im_prog im) (map fst (im_links im)),
      im\<lparr>im_links := [],
         im_segs := map (\<lambda>s. if is_file s \<noteq> Some (im_prog im) then is_clean s else s) (im_segs im)\<rparr>)"

section \<open>Parameters\<close>

text \<open>
  \<open>pa_sp\<close> and \<open>pa_sp_segment\<close> tell whether the pointers to the results are given.
\<close>

record parameter =
  pa_arg :: "u8 list list"
  pa_env :: "u8 list list"
  pa_stack_alloc :: bool
  pa_stack_at :: bool
  pa_stack_addr :: u64
  pa_stack_size :: u64
  pa_paths :: "u8 list list"
  pa_sp :: bool
  pa_sp_segment :: bool

definition parameter_null :: parameter where
  "parameter_null =
     \<lparr>pa_arg = [], pa_env = [], pa_stack_alloc = True, pa_stack_at = False, pa_stack_addr = 0,
      pa_stack_size = 4096, pa_paths = [], pa_sp = False, pa_sp_segment = False\<rparr>"

fun getenv_from :: "u8 list list \<Rightarrow> u8 list \<Rightarrow> u8 list" where
  "getenv_from [] nm = []"
| "getenv_from (e # es) nm =
     (if take (length nm) e = nm \<and> length nm + 1 \<le> length e \<and> e ! length nm = of_char CHR ''=''
      then drop (length nm + 1) e else getenv_from es nm)"

definition parameter_getenv :: "parameter \<Rightarrow> u8 list \<Rightarrow> u8 list" where
  "parameter_getenv p nm = getenv_from (pa_env p) nm"

section \<open>The simple builder\<close>

record ('s, 'g) segment_ops =
  so_count :: "('s, int) stm"
  so_segment :: "int \<Rightarrow> ('s, 'g) stm"
  so_view :: "'g \<Rightarrow> ('s, segment_view) stm"
  so_buffer :: "'g \<Rightarrow> ('s, buffer) stm"

text \<open>
  The loop of \<open>build\<close> from the index \<open>i\<close>; \<open>k\<close> bounds the number of turns: the
  function returns \<open>None\<close> when it is not enough. \<open>count()\<close> is asked at every turn.
\<close>

fun build_from ::
  "elm_array \<Rightarrow> (nat \<Rightarrow> u8) \<Rightarrow> ('s, 'g) segment_ops \<Rightarrow> 'f \<Rightarrow> nat \<Rightarrow> int \<Rightarrow> ('f, 'g) image \<Rightarrow>
   ('s, ('f, 'g) image option) stm" where
  "build_from A junk ops file 0 i im = sreturn None"
| "build_from A junk ops file (Suc k) i im =
     sbind (so_count ops) (\<lambda>n.
       if \<not> i < n then sreturn (Some im)
       else
         sbind (so_segment ops i) (\<lambda>g.
         sbind (so_view ops g) (\<lambda>v.
           if sg_size v = 0 then build_from A junk ops file k (i + 1) im
           else
             sbind (so_buffer ops g) (\<lambda>b.
               if buf_bytes b = None then build_from A junk ops file k (i + 1) im
               else
                 sbind (so_buffer ops g) (\<lambda>b.
                 sbind (slift (ImageSegment_seg A junk file g v b (sg_load v) (sg_name v))) (\<lambda>s.
                   build_from A junk ops file k (i + 1) (image_add s im)))))))"

definition SimpleBuilder_build ::
  "elm_array \<Rightarrow> (nat \<Rightarrow> u8) \<Rightarrow> ('s, 'g) segment_ops \<Rightarrow> nat \<Rightarrow> 'f \<Rightarrow>
   ('s, ('f, 'g) image option) stm" where
  "SimpleBuilder_build A junk ops k file = build_from A junk ops file k 0 (image_new file)"

definition SimpleBuilder_retrieve :: "u8 list \<Rightarrow> 'f res" where
  "SimpleBuilder_retrieve nm = Inl (Throw (Cannot_Find (bytes_str nm)))"

section \<open>What the segments of an image hold\<close>

text \<open>
  The block of an image segment: the buffer of the segment if it has content,
  then zeros up to the size of the segment.
\<close>

definition spec_block :: "segment_view \<Rightarrow> mem \<Rightarrow> u64 \<Rightarrow> mem" where
  "spec_block v m n =
     (if sg_content v then take (unat n) m @ replicate (unat (sg_size v) - unat n) 0
      else replicate (unat (sg_size v)) 0)"

lemma segment_block_eq:
  assumes A: "elm_array_spec A" and sz: "unat (sg_size v) < 2 ^ 63"
    and n: "sg_content v \<longrightarrow> unat n \<le> length m \<and> n \<le> sg_size v"
  shows "segment_block A junk v m n = Inr (spec_block v m n)"
proof -
  let ?b = "new_block junk (unat (sg_size v))"
  have al: "alloc junk (unat (sg_size v)) = Inr ?b"
    using sz by (simp add: alloc_def)
  show ?thesis
  proof (cases "sg_content v")
    case True
    have le: "unat n \<le> length m" "unat n \<le> unat (sg_size v)"
      using n True by (simp_all add: word_le_nat_alt)
    let ?c = "store_at ?b 0 (take (unat n) m)"
    have cp: "arr_copy A ?b 0 (take (unat n) m) = ?c"
      using le by (intro elm_array_specD(1) [OF A]) simp
    have sub: "unat (sg_size v - n) = unat (sg_size v) - unat n"
      using le(2) by (simp add: unat_sub_if_size)
    have cl: "arr_clear A ?c (unat n) (unat (sg_size v - n)) =
        store_at ?c (unat n) (replicate (unat (sg_size v) - unat n) 0)"
      unfolding sub using le by (intro elm_array_specD(3) [OF A]) simp
    have lt: "n < sg_size v \<longleftrightarrow> unat n < unat (sg_size v)"
      by (rule word_less_nat_alt)
    show ?thesis
      using True le n al cp cl lt
      by (auto simp: segment_block_def spec_block_def store_at_def min_def)
  next
    case False
    have cl: "arr_clear A ?b 0 (unat (sg_size v)) = replicate (unat (sg_size v)) 0"
      using elm_array_specD(3) [OF A, of 0 "unat (sg_size v)" ?b]
      by (simp add: store_at_def new_block_def)
    have "sg_size v = 0 \<longleftrightarrow> unat (sg_size v) = 0"
      by (simp add: unat_eq_0)
    then show ?thesis
      using False al cl by (auto simp: segment_block_def spec_block_def word_gt_0 new_block_def)
  qed
qed

definition mapped :: "segment_view \<Rightarrow> buffer \<Rightarrow> bool" where
  "mapped v b \<longleftrightarrow> sg_size v \<noteq> 0 \<and> buf_bytes b \<noteq> None"

definition spec_segment :: "'f \<Rightarrow> 'g \<Rightarrow> segment_view \<Rightarrow> buffer \<Rightarrow> ('f, 'g) image_segment" where
  "spec_segment file g v b =
     \<lparr>is_name = sg_name v, is_file = Some file, is_seg = Some g, is_base = sg_load v,
      is_buf = \<lparr>buf_dec = buf_dec b,
                buf_bytes = Some (spec_block v (the (buf_bytes b)) (buf_size b)),
                buf_size = sg_size v\<rparr>,
      is_flags = segment_flags v\<rparr>"

definition buffer_fits :: "segment_view \<Rightarrow> buffer \<Rightarrow> bool" where
  "buffer_fits v b \<longleftrightarrow>
     unat (sg_size v) < 2 ^ 63 \<and>
     (\<forall>m. buf_bytes b = Some m \<longrightarrow> sg_content v \<longrightarrow>
        unat (buf_size b) \<le> length m \<and> buf_size b \<le> sg_size v)"

lemma ImageSegment_seg_eq:
  assumes A: "elm_array_spec A" and fit: "buffer_fits v b" and m: "buf_bytes b = Some m"
  shows "ImageSegment_seg A junk file g v b (sg_load v) (sg_name v) =
    Inr (spec_segment file g v b)"
  using fit m segment_block_eq [OF A, of v "buf_size b" m]
  by (simp add: ImageSegment_seg_def spec_segment_def buffer_fits_def)

lemma length_spec_block:
  "sg_content v \<longrightarrow> unat n \<le> length m \<and> n \<le> sg_size v \<Longrightarrow>
   length (spec_block v m n) = unat (sg_size v)"
  by (auto simp: spec_block_def word_le_nat_alt)

section \<open>The contract of a file that gives segments\<close>

text \<open>
  \<open>J\<close> is the invariant of the file, \<open>I\<close> that of the file once its segments have been
  counted, \<open>gs\<close> its segments, \<open>vw\<close> and \<open>bf\<close> what they show.
\<close>

locale segment_provider =
  fixes ops :: "('s, 'g) segment_ops"
    and J :: "'s \<Rightarrow> bool"
    and I :: "'s \<Rightarrow> bool"
    and gs :: "'g list"
    and vw :: "'g \<Rightarrow> segment_view"
    and bf :: "'g \<Rightarrow> buffer"
  assumes weaken: "I s \<Longrightarrow> J s"
    and count: "J s \<Longrightarrow> \<exists>s'. so_count ops s = (Inr (int (length gs)), s') \<and> I s'"
    and segment: "\<lbrakk>I s; i < length gs\<rbrakk> \<Longrightarrow> \<exists>s'. so_segment ops (int i) s = (Inr (gs ! i), s') \<and> I s'"
    and view: "\<lbrakk>I s; g \<in> set gs\<rbrakk> \<Longrightarrow> \<exists>s'. so_view ops g s = (Inr (vw g), s') \<and> I s'"
    and buffer: "\<lbrakk>I s; g \<in> set gs\<rbrakk> \<Longrightarrow> \<exists>s'. so_buffer ops g s = (Inr (bf g), s') \<and> I s'"
begin

text \<open>One turn of the loop: the segment of the index is added when it has bytes.\<close>

lemma build_from_step:
  assumes A: "elm_array_spec A" and fit: "buffer_fits (vw (gs ! i)) (bf (gs ! i))"
    and J: "J s" and i: "i < length gs"
  shows "\<exists>s'. J s' \<and> build_from A junk ops file (Suc k) (int i) im s =
    build_from A junk ops file k (int i + 1)
      (if mapped (vw (gs ! i)) (bf (gs ! i))
       then image_add (spec_segment file (gs ! i) (vw (gs ! i)) (bf (gs ! i))) im else im) s'"
proof -
  let ?g = "gs ! i" and ?v = "vw (gs ! i)" and ?b = "bf (gs ! i)"
  have g: "?g \<in> set gs"
    using i by simp
  obtain s1 where s1: "so_count ops s = (Inr (int (length gs)), s1)" "I s1"
    using count [OF J] by blast
  obtain s2 where s2: "so_segment ops (int i) s1 = (Inr ?g, s2)" "I s2"
    using segment [OF s1(2) i] by blast
  obtain s3 where s3: "so_view ops ?g s2 = (Inr ?v, s3)" "I s3"
    using view [OF s2(2) g] by blast
  obtain s4 where s4: "so_buffer ops ?g s3 = (Inr ?b, s4)" "I s4"
    using buffer [OF s3(2) g] by blast
  obtain s5 where s5: "so_buffer ops ?g s4 = (Inr ?b, s5)" "I s5"
    using buffer [OF s4(2) g] by blast
  note J' = weaken [OF s3(2)] weaken [OF s4(2)] weaken [OF s5(2)]
  consider "sg_size ?v = 0" | "sg_size ?v \<noteq> 0" "buf_bytes ?b = None"
    | m where "sg_size ?v \<noteq> 0" "buf_bytes ?b = Some m"
    by (cases "buf_bytes ?b") auto
  then show ?thesis
  proof cases
    case (3 m)
    have "ImageSegment_seg A junk file ?g ?v ?b (sg_load ?v) (sg_name ?v) = Inr (spec_segment file ?g ?v ?b)"
      by (rule ImageSegment_seg_eq [OF A fit 3(2)])
    then show ?thesis
      using s1(1) s2(1) s3(1) s4(1) s5(1) J' i 3 by (intro exI [of _ s5]) (simp add: mapped_def)
  qed (use s1(1) s2(1) s3(1) s4(1) J' i in \<open>auto simp: mapped_def intro: exI [of _ s3] exI [of _ s4]\<close>)
qed

lemma build_from_ok:
  assumes A: "elm_array_spec A" and fit: "\<forall>g \<in> set gs. buffer_fits (vw g) (bf g)"
  shows "J s \<Longrightarrow> i \<le> length gs \<Longrightarrow> length gs < i + k \<Longrightarrow>
    \<exists>s'. build_from A junk ops file k (int i) im s =
      (Inr (Some (im\<lparr>im_segs := im_segs im @
         map (\<lambda>g. spec_segment file g (vw g) (bf g))
           (filter (\<lambda>g. mapped (vw g) (bf g)) (drop i gs))\<rparr>)), s') \<and> I s'"
proof (induction k arbitrary: i im s)
  case 0
  then show ?case by simp
next
  case (Suc k)
  show ?case
  proof (cases "i < length gs")
    case False
    then show ?thesis
      using count [OF Suc.prems(1)] Suc.prems(2) by auto
  next
    case True
    let ?im = "if mapped (vw (gs ! i)) (bf (gs ! i))
      then image_add (spec_segment file (gs ! i) (vw (gs ! i)) (bf (gs ! i))) im else im"
    obtain s1 where s1: "J s1" "build_from A junk ops file (Suc k) (int i) im s =
        build_from A junk ops file k (int i + 1) ?im s1"
      using build_from_step [OF A _ Suc.prems(1) True, where k = k and im = im] fit nth_mem [OF True]
      by blast
    have si: "int i + 1 = int (Suc i)"
      by simp
    have dr: "drop i gs = gs ! i # drop (Suc i) gs"
      using True by (simp add: Cons_nth_drop_Suc)
    show ?thesis
      using Suc.IH [OF s1(1), of "Suc i" ?im] True Suc.prems(3)
      by (cases "mapped (vw (gs ! i)) (bf (gs ! i))")
        (simp_all add: dr image_add_def s1(2) si del: build_from.simps of_nat_Suc)
  qed
qed

lemma SimpleBuilder_build_ok:
  assumes "elm_array_spec A" and "\<forall>g \<in> set gs. buffer_fits (vw g) (bf g)" and "J s" and "length gs < k"
  shows "\<exists>s'. SimpleBuilder_build A junk ops k file s =
    (Inr (Some \<lparr>im_prog = file, im_links = [(file, 0)],
       im_segs = map (\<lambda>g. spec_segment file g (vw g) (bf g))
         (filter (\<lambda>g. mapped (vw g) (bf g)) gs)\<rparr>), s') \<and> I s'"
  using build_from_ok [OF assms(1-3), where i = 0 and k = k and im = "image_new file"] assms(4)
  by (simp add: SimpleBuilder_build_def image_new_def image_add_file_def)

end

end
