(* ===== verification/Gel_DebugLine.thy ===== *)
theory Gel_DebugLine
  imports Gel_Base
begin

text \<open>
  \<open>include/gel++/DebugLine.h\<close> and \<open>src/gel_DebugLine.cpp\<close>: source files, line numbers,
  compilation units and the lookups in both directions. Files are known by their
  position in \<open>dl_files\<close>, compilation units by their position in \<open>dl_cus\<close>; a path is
  the list of its bytes, and the hash map of the files is a map on paths.
\<close>

section \<open>Data\<close>

definition IS_STMT :: u32 where "IS_STMT = 1"
definition BASIC_BLOCK :: u32 where "BASIC_BLOCK = 2"
definition PROLOGUE_END :: u32 where "PROLOGUE_END = 4"
definition EPILOGUE_BEGIN :: u32 where "EPILOGUE_BEGIN = 8"

lemmas line_flags = IS_STMT_def BASIC_BLOCK_def PROLOGUE_END_def EPILOGUE_BEGIN_def

record dl_file =
  fl_path :: "u8 list"
  fl_date :: u64
  fl_size :: u64
  fl_units :: "nat list"

record line_number =
  ln_file :: nat
  ln_line :: u32
  ln_col :: u32
  ln_flags :: u32
  ln_addr :: u64
  ln_isa :: u8
  ln_disc :: u8
  ln_opi :: u8

text \<open>\<open>line\<close> and \<open>col\<close> are signed, \<open>isa\<close>, \<open>desc\<close> and \<open>opi\<close> are cut to a byte by the call.\<close>

definition LineNumber_new ::
  "u64 \<Rightarrow> nat \<Rightarrow> u32 \<Rightarrow> u32 \<Rightarrow> u32 \<Rightarrow> u8 \<Rightarrow> u8 \<Rightarrow> u8 \<Rightarrow> line_number" where
  "LineNumber_new addr fi line col flags isa desc opi =
     \<lparr>ln_file = fi, ln_line = line, ln_col = col, ln_flags = flags, ln_addr = addr,
      ln_isa = isa, ln_disc = desc, ln_opi = opi\<rparr>"

record comp_unit =
  cu_files :: "nat list"
  cu_lines :: "line_number list"

record debug_line =
  dl_files :: "dl_file list"
  dl_map :: "u8 list \<Rightarrow> nat option"
  dl_cus :: "comp_unit list"

definition new_debug_line :: debug_line where
  "new_debug_line = \<lparr>dl_files = [], dl_map = Map.empty, dl_cus = []\<rparr>"

definition new_comp_unit :: comp_unit where
  "new_comp_unit = \<lparr>cu_files = [], cu_lines = []\<rparr>"

section \<open>Construction\<close>

definition cu_add_line :: "line_number \<Rightarrow> comp_unit \<Rightarrow> comp_unit" where
  "cu_add_line l u = u\<lparr>cu_lines := cu_lines u @ [l]\<rparr>"

text \<open>
  \<open>CompilationUnit::add(File *)\<close> for the file of number \<open>i\<close>, which gets the unit of
  number \<open>u\<close> in front of its units.
\<close>

definition cu_add_file :: "nat \<Rightarrow> nat \<Rightarrow> comp_unit \<Rightarrow> debug_line \<Rightarrow> comp_unit \<times> debug_line" where
  "cu_add_file i u cu dl =
     (cu\<lparr>cu_files := cu_files cu @ [i]\<rparr>,
      dl\<lparr>dl_files := (dl_files dl)[i := (dl_files dl ! i)\<lparr>fl_units := u # fl_units (dl_files dl ! i)\<rparr>]\<rparr>)"

definition dl_add_cu :: "comp_unit \<Rightarrow> debug_line \<Rightarrow> debug_line" where
  "dl_add_cu cu dl = dl\<lparr>dl_cus := dl_cus dl @ [cu]\<rparr>"

definition dl_add_file :: "dl_file \<Rightarrow> debug_line \<Rightarrow> debug_line" where
  "dl_add_file f dl =
     dl\<lparr>dl_map := (dl_map dl)(fl_path f \<mapsto> length (dl_files dl)), dl_files := dl_files dl @ [f]\<rparr>"

section \<open>Lookups\<close>

definition cu_baseAddress :: "comp_unit \<Rightarrow> u64 res" where
  "cu_baseAddress u = (case cu_lines u of [] \<Rightarrow> Inl Memory_Fault | l # _ \<Rightarrow> Inr (ln_addr l))"

definition cu_topAddress :: "comp_unit \<Rightarrow> u64 res" where
  "cu_topAddress u =
     (if cu_lines u = [] then Inl Memory_Fault else Inr (ln_addr (last (cu_lines u))))"

definition cu_size_of :: "comp_unit \<Rightarrow> u64 res" where
  "cu_size_of u = rbind (cu_topAddress u) (\<lambda>t. rbind (cu_baseAddress u) (\<lambda>b. Inr (t - b)))"

fun line_between :: "line_number list \<Rightarrow> u64 \<Rightarrow> line_number option" where
  "line_between (x # y # ls) a =
     (if ln_addr x \<le> a \<and> a < ln_addr y then Some x else line_between (y # ls) a)"
| "line_between ls a = None"

definition cu_lineAt :: "comp_unit \<Rightarrow> u64 \<Rightarrow> line_number option" where
  "cu_lineAt u a = line_between (cu_lines u) a"

fun units_lineAt :: "comp_unit list \<Rightarrow> u64 \<Rightarrow> line_number option res" where
  "units_lineAt [] a = Inr None"
| "units_lineAt (u # us) a =
     rbind (cu_baseAddress u) (\<lambda>b.
     rbind (if b \<le> a then rbind (cu_topAddress u) (\<lambda>t. Inr (a < t)) else Inr False) (\<lambda>inside.
       if inside then Inr (cu_lineAt u a) else units_lineAt us a))"

definition dl_lineAt :: "debug_line \<Rightarrow> u64 \<Rightarrow> line_number option res" where
  "dl_lineAt dl a = units_lineAt (dl_cus dl) a"

fun line_ranges :: "nat \<Rightarrow> int \<Rightarrow> line_number list \<Rightarrow> (u64 \<times> u64) list" where
  "line_ranges i line (x # y # ls) =
     (if ln_file x = i \<and> sint (ln_line x) = line
      then (ln_addr x, ln_addr y) # line_ranges i line (y # ls) else line_ranges i line (y # ls))"
| "line_ranges i line ls = []"

text \<open>\<open>File::find\<close>: what it adds to the vector it is given.\<close>

definition file_find :: "debug_line \<Rightarrow> nat \<Rightarrow> int \<Rightarrow> (u64 \<times> u64) list" where
  "file_find dl i line =
     concat (map (\<lambda>u. line_ranges i line (cu_lines (dl_cus dl ! u))) (fl_units (dl_files dl ! i)))"

end
