(* ===== verification/Dwarf_DebugLine.thy ===== *)
theory Dwarf_DebugLine
  imports Gel_DebugLine Gel_Cursor
begin

text \<open>
  \<open>include/gel++/dwarf/DebugLine.h\<close> and \<open>src/dwarf_DebugLine.cpp\<close>: the reader of the
  section \<open>.debug_line\<close>. The cursor and the state machine that the functions
  receive by reference, the object itself and the compilation unit under
  construction make one state. \<open>J d s\<close> is the path \<open>sys::Path(d) / s\<close>. Loops that the
  input may prolong without end take a bound on their number of turns and give
  \<open>No_Return\<close> when it is reached.
\<close>

section \<open>Constants\<close>

definition DW_LNS_copy :: u8 where "DW_LNS_copy = 1"
definition DW_LNS_advance_pc :: u8 where "DW_LNS_advance_pc = 2"
definition DW_LNS_advance_line :: u8 where "DW_LNS_advance_line = 3"
definition DW_LNS_set_file :: u8 where "DW_LNS_set_file = 4"
definition DW_LNS_set_column :: u8 where "DW_LNS_set_column = 5"
definition DW_LNS_negate_stmt :: u8 where "DW_LNS_negate_stmt = 6"
definition DW_LNS_set_basic_block :: u8 where "DW_LNS_set_basic_block = 7"
definition DW_LNS_const_add_pc :: u8 where "DW_LNS_const_add_pc = 8"
definition DW_LNS_fixed_advance_pc :: u8 where "DW_LNS_fixed_advance_pc = 9"
definition DW_LNS_set_prologue_end :: u8 where "DW_LNS_set_prologue_end = 10"
definition DW_LNS_set_epilogue_begin :: u8 where "DW_LNS_set_epilogue_begin = 11"
definition DW_LNS_set_isa :: u8 where "DW_LNS_set_isa = 12"

definition DW_LNE_end_sequence :: u8 where "DW_LNE_end_sequence = 1"
definition DW_LNE_set_address :: u8 where "DW_LNE_set_address = 2"
definition DW_LNE_define_file :: u8 where "DW_LNE_define_file = 3"
definition DW_LNE_set_discriminator :: u8 where "DW_LNE_set_discriminator = 4"

definition DW_LNCT_path :: u64 where "DW_LNCT_path = 0x1"
definition DW_LNCT_directory_index :: u64 where "DW_LNCT_directory_index = 0x2"
definition DW_LNCT_MD5 :: u64 where "DW_LNCT_MD5 = 0x5"

definition DW_FORM_string :: u64 where "DW_FORM_string = 0x08"
definition DW_FORM_strp :: u64 where "DW_FORM_strp = 0x0e"
definition DW_FORM_line_strp :: u64 where "DW_FORM_line_strp = 0x1f"

lemmas dw_opcodes =
  DW_LNS_copy_def DW_LNS_advance_pc_def DW_LNS_advance_line_def DW_LNS_set_file_def
  DW_LNS_set_column_def DW_LNS_negate_stmt_def DW_LNS_set_basic_block_def
  DW_LNS_const_add_pc_def DW_LNS_fixed_advance_pc_def DW_LNS_set_prologue_end_def
  DW_LNS_set_epilogue_begin_def DW_LNS_set_isa_def DW_LNE_end_sequence_def
  DW_LNE_set_address_def DW_LNE_define_file_def DW_LNE_set_discriminator_def

section \<open>State\<close>

text \<open>
  The members of \<open>StateMachine\<close> that the code uses; \<open>line_base\<close> is signed, and
  \<open>standard_opcode_lengths\<close> is an offset in the block of the cursor.
\<close>

record state_machine =
  sm_version :: u16
  sm_address :: u64
  sm_op_index :: u32
  sm_file :: u32
  sm_line :: u32
  sm_column :: u32
  sm_isa :: u32
  sm_discriminator :: u32
  sm_end_sequence :: bool
  sm_flags :: u8
  sm_line_base :: u8
  sm_line_range :: u8
  sm_opcode_base :: u8
  sm_lengths :: "u64 option"
  sm_min_length :: u8
  sm_max_ops :: u8
  sm_address_size :: u8
  sm_selector_size :: u8
  sm_dirs :: "u8 list list"

definition new_state_machine :: state_machine where
  "new_state_machine =
     \<lparr>sm_version = 0, sm_address = 0, sm_op_index = 0, sm_file = 1, sm_line = 1, sm_column = 0,
      sm_isa = 0, sm_discriminator = 0, sm_end_sequence = False, sm_flags = 0, sm_line_base = 0,
      sm_line_range = 0, sm_opcode_base = 0, sm_lengths = None, sm_min_length = 0,
      sm_max_ops = 0, sm_address_size = 0, sm_selector_size = 0, sm_dirs = [str_bytes ''.'']\<rparr>"

definition sm_set :: "u32 \<Rightarrow> state_machine \<Rightarrow> state_machine" where
  "sm_set m sm = sm\<lparr>sm_flags := sm_flags sm OR ucast m\<rparr>"

definition sm_clear :: "u32 \<Rightarrow> state_machine \<Rightarrow> state_machine" where
  "sm_clear m sm = sm\<lparr>sm_flags := sm_flags sm AND NOT (ucast m)\<rparr>"

definition sm_bit :: "u32 \<Rightarrow> state_machine \<Rightarrow> bool" where
  "sm_bit m sm \<longleftrightarrow> sm_flags sm AND ucast m \<noteq> 0"

record dwarf =
  dw_c :: cursor
  dw_is64 :: bool
  dw_str :: cursor
  dw_line_str :: cursor
  dw_sm :: state_machine
  dw_cu :: comp_unit
  dw_dl :: debug_line

definition on_cursor :: "(cursor \<Rightarrow> ('a \<times> cursor) res) \<Rightarrow> (dwarf, 'a) stm" where
  "on_cursor g d =
     (case g (dw_c d) of Inl e \<Rightarrow> (Inl e, d) | Inr (x, c) \<Rightarrow> (Inr x, d\<lparr>dw_c := c\<rparr>))"

definition on_sm :: "(state_machine \<Rightarrow> state_machine) \<Rightarrow> (dwarf, unit) stm" where
  "on_sm f = smodify (\<lambda>d. d\<lparr>dw_sm := f (dw_sm d)\<rparr>)"

definition with_sm :: "(state_machine \<Rightarrow> (dwarf, 'a) stm) \<Rightarrow> (dwarf, 'a) stm" where
  "with_sm f d = f (dw_sm d) d"

text \<open>\<open>error_if(!c.read(v))\<close>, and a read whose failure leaves the variable as it was.\<close>

definition error_if_not :: "(cursor \<Rightarrow> ('a option \<times> cursor) res) \<Rightarrow> (dwarf, 'a) stm" where
  "error_if_not rd = sbind (on_cursor rd) (\<lambda>x.
     case x of None \<Rightarrow> sraise (Throw Debug_Line_Error) | Some v \<Rightarrow> sreturn v)"

definition keep_on_fail :: "(cursor \<Rightarrow> ('a option \<times> cursor) res) \<Rightarrow> 'a option \<Rightarrow> (dwarf, 'a) stm" where
  "keep_on_fail rd old = sbind (on_cursor rd) (\<lambda>x.
     case (x, old) of
       (Some v, _) \<Rightarrow> sreturn v
     | (None, Some v) \<Rightarrow> sreturn v
     | (None, None) \<Rightarrow> sraise Uninitialised)"

text \<open>The same for strings; reading one may assign it and fail. A string that is kept
  without the test is used afterwards, and read outside of its block when it has no end.\<close>

definition cstr_ok :: "cursor \<Rightarrow> (u8 list option \<times> cursor) res" where
  "cstr_ok c = rbind (cur_read_cstr c) (\<lambda>(s, ok, c').
     case (ok, s) of (True, Some r) \<Rightarrow> rbind r (\<lambda>x. Inr (Some x, c')) | _ \<Rightarrow> Inr (None, c'))"

definition cstr_keep :: "cursor \<Rightarrow> (u8 list option \<times> cursor) res" where
  "cstr_keep c = rbind (cur_read_cstr c) (\<lambda>(s, ok, c').
     case s of Some r \<Rightarrow> rbind r (\<lambda>x. Inr (Some x, c')) | None \<Rightarrow> Inr (None, c'))"

definition move_cursor :: "u64 \<Rightarrow> (dwarf, unit) stm" where
  "move_cursor o' = smodify (\<lambda>d. d\<lparr>dw_c := snd (cur_move (dw_c d) o')\<rparr>)"

section \<open>Numbers\<close>

text \<open>
  LEB128. The position of the shift is at most 63 where the shift is defined; a
  longer number is refused here as the undefined shift that it is.
\<close>

function leb_loop :: "cursor \<Rightarrow> nat \<Rightarrow> u64 \<Rightarrow> ((u64 \<times> nat) \<times> cursor) res" where
  "leb_loop c p r =
     rbind (cur_read_u8 c) (\<lambda>(x, c').
       case x of
         None \<Rightarrow> Inl (Throw Debug_Line_Error)
       | Some b \<Rightarrow>
           if 64 \<le> p then Inl Undefined_Shift
           else
             (let r' = r OR push_bit p (ucast (b AND 0x7f)) in
              if b AND 0x80 \<noteq> 0 then leb_loop c' (p + 7) r' else Inr ((r', p + 7), c')))"
  by pat_completeness auto

termination
  by (relation "measure (\<lambda>(c, p, r). 71 - p)") auto

declare leb_loop.simps [simp del]

definition leb128_u :: "cursor \<Rightarrow> (u64 \<times> cursor) res" where
  "leb128_u c = rbind (leb_loop c 0 0) (\<lambda>((r, p), c'). Inr (r, c'))"

definition leb128_s :: "cursor \<Rightarrow> (u64 \<times> cursor) res" where
  "leb128_s c =
     rbind (leb_loop c 0 0) (\<lambda>((r, p), c').
       Inr (if 0 < p \<and> p < 64 then signed_drop_bit (64 - p) (push_bit (64 - p) r) else r, c'))"

definition readLEB128U :: "(dwarf, u64) stm" where
  "readLEB128U = on_cursor leb128_u"

definition readLEB128S :: "(dwarf, u64) stm" where
  "readLEB128S = on_cursor leb128_s"

definition readAddress :: "(dwarf, u64) stm" where
  "readAddress d =
     (if \<not> dw_is64 d then sbind (error_if_not cur_read_u32) (\<lambda>a. sreturn (ucast a)) d
      else error_if_not cur_read_u64 d)"

definition readHeaderLength :: "(dwarf, u64) stm" where
  "readHeaderLength d =
     (if \<not> dw_is64 d then sbind (keep_on_fail cur_read_u32 None) (\<lambda>a. sreturn (ucast a)) d
      else keep_on_fail cur_read_u64 None d)"

definition readUnitLength :: "(dwarf, u64) stm" where
  "readUnitLength =
     sbind (error_if_not cur_read_u32) (\<lambda>l.
       if l < 0xffffff00
       then sbind (smodify (\<lambda>d. d\<lparr>dw_is64 := False\<rparr>)) (\<lambda>_. sreturn (ucast l))
       else sbind (error_if_not cur_read_u64) (\<lambda>ll.
            sbind (smodify (\<lambda>d. d\<lparr>dw_is64 := True\<rparr>)) (\<lambda>_. sreturn ll)))"

section \<open>Directories\<close>

text \<open>A string at an offset in another section, through the cursor on that section.\<close>

definition read_line_str :: "u64 \<Rightarrow> u8 list \<Rightarrow> (dwarf, u8 list) stm" where
  "read_line_str off old d =
     (let c = snd (cur_move (dw_line_str d) off) in
      case cstr_keep c of
        Inl e \<Rightarrow> (Inl e, d)
      | Inr (s, c') \<Rightarrow> (Inr (case s of None \<Rightarrow> old | Some s \<Rightarrow> s), d\<lparr>dw_line_str := c'\<rparr>))"

definition read_str :: "u64 \<Rightarrow> u8 list \<Rightarrow> (dwarf, u8 list) stm" where
  "read_str off old d =
     (let c = snd (cur_move (dw_str d) off) in
      case cstr_keep c of
        Inl e \<Rightarrow> (Inl e, d)
      | Inr (s, c') \<Rightarrow> (Inr (case s of None \<Rightarrow> old | Some s \<Rightarrow> s), d\<lparr>dw_str := c'\<rparr>))"

definition read_path_form :: "gel_exn \<Rightarrow> u64 \<Rightarrow> u8 list \<Rightarrow> (dwarf, u8 list) stm" where
  "read_path_form e form old =
     (if form = DW_FORM_string then keep_on_fail cstr_keep (Some old)
      else if form = DW_FORM_line_strp then sbind readAddress (\<lambda>off. read_line_str off old)
      else if form = DW_FORM_strp then sbind readAddress (\<lambda>off. read_str off old)
      else sraise (Throw e))"

fun readDir4 :: "nat \<Rightarrow> (dwarf, unit) stm" where
  "readDir4 0 = sraise No_Return"
| "readDir4 (Suc n) =
     sbind (error_if_not cstr_ok) (\<lambda>s.
       if s \<noteq> []
       then sbind (on_sm (\<lambda>sm. sm\<lparr>sm_dirs := sm_dirs sm @ [s]\<rparr>)) (\<lambda>_. readDir4 n)
       else sreturn ())"

fun read_formats :: "nat \<Rightarrow> (dwarf, (u64 \<times> u64) list) stm" where
  "read_formats 0 = sreturn []"
| "read_formats (Suc n) =
     sbind readLEB128U (\<lambda>ty. sbind readLEB128U (\<lambda>form.
     sbind (read_formats n) (\<lambda>fs. sreturn ((ty, form) # fs))))"

fun read_dir_formats :: "(u64 \<times> u64) list \<Rightarrow> u8 list \<Rightarrow> (dwarf, u8 list) stm" where
  "read_dir_formats [] nm = sreturn nm"
| "read_dir_formats ((ty, form) # fs) nm =
     sbind (if ty = DW_LNCT_path then read_path_form Unknown_Dir_Form form nm
            else sraise (Throw Unknown_Dir_Form)) (\<lambda>nm'.
       read_dir_formats fs nm')"

fun read_dirs5 :: "(u64 \<times> u64) list \<Rightarrow> nat \<Rightarrow> (dwarf, unit) stm" where
  "read_dirs5 fs 0 = sreturn ()"
| "read_dirs5 fs (Suc n) =
     sbind (read_dir_formats fs []) (\<lambda>nm.
     sbind (on_sm (\<lambda>sm. sm\<lparr>sm_dirs := sm_dirs sm @ [nm]\<rparr>)) (\<lambda>_.
       read_dirs5 fs n))"

definition readDir5 :: "(dwarf, unit) stm" where
  "readDir5 =
     sbind (keep_on_fail cur_read_u8 None) (\<lambda>k.
       if 1 < k then sraise (Throw Too_Many_Dir_Formats)
       else if k = 0 then sraise (Throw No_Dir_Format)
       else
         sbind (read_formats (unat k)) (\<lambda>fs.
         sbind readLEB128U (\<lambda>cnt.
           read_dirs5 fs (unat cnt))))"

definition readDir :: "nat \<Rightarrow> (dwarf, unit) stm" where
  "readDir n = with_sm (\<lambda>sm. if sm_version sm < 5 then readDir4 n else readDir5)"

section \<open>Files\<close>

text \<open>
  The file of a path is looked up in the map, or created; the unit under
  construction has the number of the next unit.
\<close>

definition put_file :: "u8 list \<Rightarrow> u64 \<Rightarrow> u64 \<Rightarrow> comp_unit \<times> debug_line \<Rightarrow> comp_unit \<times> debug_line" where
  "put_file p date sz = (\<lambda>(cu, dl).
     let dl' = (if dl_map dl p = None
                then dl_add_file \<lparr>fl_path = p, fl_date = date, fl_size = sz, fl_units = []\<rparr> dl
                else dl)
     in cu_add_file (the (dl_map dl' p)) (length (dl_cus dl)) cu dl')"

definition add_file :: "u8 list \<Rightarrow> u64 \<Rightarrow> u64 \<Rightarrow> (dwarf, unit) stm" where
  "add_file p date sz = smodify (\<lambda>d.
     let (cu, dl) = put_file p date sz (dw_cu d, dw_dl d) in d\<lparr>dw_cu := cu, dw_dl := dl\<rparr>)"

text \<open>\<open>include_directories[dir]\<close> takes an \<open>int\<close>.\<close>

definition dir_at :: "u64 \<Rightarrow> state_machine \<Rightarrow> u8 list res" where
  "dir_at dir sm =
     (let i = sint (ucast dir :: u32) in
      if 0 \<le> i \<and> nat i < length (sm_dirs sm) then Inr (sm_dirs sm ! nat i) else Inl Memory_Fault)"

fun readFile4 :: "(u8 list \<Rightarrow> u8 list \<Rightarrow> u8 list) \<Rightarrow> nat \<Rightarrow> u8 list \<Rightarrow> (dwarf, unit) stm" where
  "readFile4 J 0 s = sraise No_Return"
| "readFile4 J (Suc n) s =
     (if s = [] then sreturn ()
      else
        sbind readLEB128U (\<lambda>dir. sbind readLEB128U (\<lambda>date. sbind readLEB128U (\<lambda>sz.
        sbind (if dir = 0 then sreturn (J (str_bytes ''.'') s)
               else with_sm (\<lambda>sm. sbind (slift (dir_at dir sm)) (\<lambda>d. sreturn (J d s)))) (\<lambda>p.
        sbind (add_file p date sz) (\<lambda>_.
        sbind (error_if_not cstr_ok) (\<lambda>s'.
          readFile4 J n s')))))))"

text \<open>The name and the directory of a file of DWARF 5, from its attributes.\<close>

fun read_file_formats ::
  "(u64 \<times> u64) list \<Rightarrow> u8 list \<Rightarrow> u8 list \<Rightarrow> (dwarf, u8 list \<times> u8 list) stm" where
  "read_file_formats [] nm dir = sreturn (nm, dir)"
| "read_file_formats ((ty, form) # fs) nm dir =
     (if ty = DW_LNCT_path
      then sbind (read_path_form Unknown_File_Form form nm) (\<lambda>nm'. read_file_formats fs nm' dir)
      else if ty = DW_LNCT_directory_index
      then sbind readLEB128U (\<lambda>i. with_sm (\<lambda>sm.
             if i < word_of_nat (length (sm_dirs sm))
             then sbind (slift (dir_at i sm)) (\<lambda>dir'. read_file_formats fs nm dir')
             else read_file_formats fs nm dir))
      else if ty = DW_LNCT_MD5
      then sbind (on_cursor cur_read_u16) (\<lambda>_. read_file_formats fs nm dir)
      else sraise (Throw Unknown_File_Form))"

fun read_files5 ::
  "(u8 list \<Rightarrow> u8 list \<Rightarrow> u8 list) \<Rightarrow> (u64 \<times> u64) list \<Rightarrow> nat \<Rightarrow> (dwarf, unit) stm" where
  "read_files5 J fs 0 = sreturn ()"
| "read_files5 J fs (Suc n) =
     sbind (read_file_formats fs [] (str_bytes ''.'')) (\<lambda>(nm, dir).
     sbind (if nm \<noteq> [] then add_file (J dir nm) 0 0 else sreturn ()) (\<lambda>_.
       read_files5 J fs n))"

definition readFile :: "(u8 list \<Rightarrow> u8 list \<Rightarrow> u8 list) \<Rightarrow> nat \<Rightarrow> (dwarf, unit) stm" where
  "readFile J n = with_sm (\<lambda>sm.
     if sm_version sm < 5
     then sbind (error_if_not cstr_ok) (\<lambda>s. readFile4 J n s)
     else
       sbind readLEB128U (\<lambda>k.
       sbind (read_formats (unat (ucast k :: u8))) (\<lambda>fs.
       sbind readLEB128U (\<lambda>cnt.
         read_files5 J fs (unat cnt)))))"

section \<open>The header\<close>

text \<open>
  The reads of the header whose result the code ignores leave the field as it is
  at the end of the cursor.
\<close>

definition read_sm_u8 ::
  "(state_machine \<Rightarrow> u8) \<Rightarrow> (u8 \<Rightarrow> state_machine \<Rightarrow> state_machine) \<Rightarrow> (dwarf, unit) stm" where
  "read_sm_u8 get put = with_sm (\<lambda>sm.
     sbind (keep_on_fail cur_read_u8 (Some (get sm))) (\<lambda>v. on_sm (put v)))"

definition read_lengths :: "(dwarf, unit) stm" where
  "read_lengths = with_sm (\<lambda>sm.
     let n = ucast (sm_opcode_base sm) - 1 in
     sbind sget (\<lambda>d.
     if \<not> cur_avail (dw_c d) n then sraise (Throw Debug_Line_Error)
     else
       sbind (slift (cur_here (dw_c d))) (\<lambda>p.
       sbind (on_sm (\<lambda>sm. sm\<lparr>sm_lengths := Some p\<rparr>)) (\<lambda>_.
       smodify (\<lambda>d. d\<lparr>dw_c := snd (cur_skip (dw_c d) n)\<rparr>)))))"

definition read_parameters :: "(dwarf, unit) stm" where
  "read_parameters =
     sbind (read_sm_u8 sm_min_length (\<lambda>v sm. sm\<lparr>sm_min_length := v\<rparr>)) (\<lambda>_.
     sbind (with_sm (\<lambda>sm. if 4 \<le> sm_version sm
              then read_sm_u8 sm_max_ops (\<lambda>v sm. sm\<lparr>sm_max_ops := v\<rparr>)
              else on_sm (\<lambda>sm. sm\<lparr>sm_max_ops := 1\<rparr>))) (\<lambda>_.
     sbind (keep_on_fail cur_read_u8 None) (\<lambda>st.
     sbind (if st \<noteq> 0 then on_sm (sm_set IS_STMT) else sreturn ()) (\<lambda>_.
     sbind (read_sm_u8 sm_line_base (\<lambda>v sm. sm\<lparr>sm_line_base := v\<rparr>)) (\<lambda>_.
     sbind (read_sm_u8 sm_line_range (\<lambda>v sm. sm\<lparr>sm_line_range := v\<rparr>)) (\<lambda>_.
     sbind (read_sm_u8 sm_opcode_base (\<lambda>v sm. sm\<lparr>sm_opcode_base := v\<rparr>)) (\<lambda>_.
       read_lengths)))))))"

definition readHeader :: "(u8 list \<Rightarrow> u8 list \<Rightarrow> u8 list) \<Rightarrow> nat \<Rightarrow> (dwarf, unit) stm" where
  "readHeader J n =
     sbind (error_if_not cur_read_u16) (\<lambda>v.
     sbind (on_sm (\<lambda>sm. sm\<lparr>sm_version := v\<rparr>)) (\<lambda>_.
     if 5 < v then sraise (Throw (Dwarf_Version v))
     else
       sbind (if 5 \<le> v
              then sbind (read_sm_u8 sm_address_size (\<lambda>v sm. sm\<lparr>sm_address_size := v\<rparr>)) (\<lambda>_.
                   read_sm_u8 sm_selector_size (\<lambda>v sm. sm\<lparr>sm_selector_size := v\<rparr>))
              else sreturn ()) (\<lambda>_.
       sbind readHeaderLength (\<lambda>len.
       sbind sget (\<lambda>d.
       let lines = cur_off (dw_c d) + len in
       sbind read_parameters (\<lambda>_.
       sbind (readDir n) (\<lambda>_.
       sbind (readFile J n) (\<lambda>_.
         move_cursor lines))))))))"

section \<open>The line program\<close>

definition advancePC :: "u64 \<Rightarrow> (dwarf, unit) stm" where
  "advancePC adv = with_sm (\<lambda>sm.
     if sm_max_ops sm = 1
     then on_sm (\<lambda>sm. sm\<lparr>sm_address := sm_address sm + ucast (sm_min_length sm) * adv\<rparr>)
     else if sm_max_ops sm = 0 then sraise Division_By_Zero
     else
       on_sm (\<lambda>sm. sm\<lparr>
         sm_address := sm_address sm +
           ucast (sm_min_length sm) * ((ucast (sm_op_index sm) + adv) div ucast (sm_max_ops sm)),
         sm_op_index := ucast ((ucast (sm_op_index sm) + adv) mod ucast (sm_max_ops sm))\<rparr>))"

definition advanceLine :: "u64 \<Rightarrow> (dwarf, unit) stm" where
  "advanceLine adv = on_sm (\<lambda>sm. sm\<lparr>sm_line := sm_line sm + ucast adv\<rparr>)"

text \<open>\<open>files()[sm.file - 1]\<close> takes an \<open>int\<close>.\<close>

definition recordLine :: "(dwarf, unit) stm" where
  "recordLine = sbind sget (\<lambda>d.
     let sm = dw_sm d; i = sint (sm_file sm - 1) in
     if i < 0 \<or> int (length (cu_files (dw_cu d))) \<le> i then sraise Memory_Fault
     else
       sbind (smodify (\<lambda>d. d\<lparr>dw_cu := cu_add_line
         (LineNumber_new (sm_address sm) (cu_files (dw_cu d) ! nat i) (sm_line sm) (sm_column sm)
            (ucast (sm_flags sm)) (ucast (sm_isa sm)) (ucast (sm_discriminator sm))
            (ucast (sm_op_index sm))) (dw_cu d)\<rparr>)) (\<lambda>_.
       on_sm (\<lambda>sm. (sm_set (BASIC_BLOCK OR PROLOGUE_END OR EPILOGUE_BEGIN) sm)
                \<lparr>sm_discriminator := 0\<rparr>)))"

text \<open>The signed line advance of a special opcode, and the two of them.\<close>

definition exec_special :: "u8 \<Rightarrow> (dwarf, unit) stm" where
  "exec_special opcode = with_sm (\<lambda>sm.
     let k = opcode - sm_opcode_base sm in
     if sm_line_range sm = 0 then sraise Division_By_Zero
     else
       sbind (advanceLine (scast (sm_line_base sm) + ucast (k mod sm_line_range sm))) (\<lambda>_.
       sbind (advancePC (ucast (k div sm_line_range sm))) (\<lambda>_.
         recordLine)))"

definition exec_extended :: "(u8 list \<Rightarrow> u8 list \<Rightarrow> u8 list) \<Rightarrow> nat \<Rightarrow> (dwarf, unit) stm" where
  "exec_extended J n =
     sbind readLEB128U (\<lambda>len.
     sbind sget (\<lambda>d.
     let off = (ucast (scast (ucast len :: u32) + cur_off (dw_c d)) :: u32) in
     sbind (error_if_not cur_read_u8) (\<lambda>opcode.
     sbind (if opcode = DW_LNE_end_sequence
            then sbind recordLine (\<lambda>_. on_sm (\<lambda>sm. sm\<lparr>sm_end_sequence := True\<rparr>))
            else if opcode = DW_LNE_set_address
            then sbind readAddress (\<lambda>a. on_sm (\<lambda>sm. sm\<lparr>sm_address := a\<rparr>))
            else if opcode = DW_LNE_define_file
            then readFile J n
            else if opcode = DW_LNE_set_discriminator
            then sbind readLEB128U (\<lambda>v. on_sm (\<lambda>sm. sm\<lparr>sm_discriminator := ucast v\<rparr>))
            else sraise (Throw Invalid_Extended_Opcode)) (\<lambda>_.
       move_cursor (scast off)))))"

definition exec_standard :: "u8 \<Rightarrow> (dwarf, unit) stm" where
  "exec_standard opcode =
     (if opcode = DW_LNS_copy then recordLine
      else if opcode = DW_LNS_advance_pc then sbind readLEB128U (\<lambda>a. advancePC a)
      else if opcode = DW_LNS_advance_line then sbind readLEB128S (\<lambda>l. advanceLine l)
      else if opcode = DW_LNS_set_file
      then sbind readLEB128U (\<lambda>v. on_sm (\<lambda>sm. sm\<lparr>sm_file := ucast v\<rparr>))
      else if opcode = DW_LNS_set_column
      then sbind readLEB128U (\<lambda>v. on_sm (\<lambda>sm. sm\<lparr>sm_column := ucast v\<rparr>))
      else if opcode = DW_LNS_negate_stmt
      then on_sm (\<lambda>sm. if sm_bit IS_STMT sm then sm_clear IS_STMT sm else sm_set IS_STMT sm)
      else if opcode = DW_LNS_set_basic_block then on_sm (sm_set BASIC_BLOCK)
      else if opcode = DW_LNS_const_add_pc
      then with_sm (\<lambda>sm. if sm_line_range sm = 0 then sraise Division_By_Zero
             else advancePC (ucast ((255 - sm_opcode_base sm) div sm_line_range sm)))
      else if opcode = DW_LNS_fixed_advance_pc
      then sbind (error_if_not cur_read_u16) (\<lambda>v.
             on_sm (\<lambda>sm. sm\<lparr>sm_address := sm_address sm + ucast v, sm_op_index := 0\<rparr>))
      else if opcode = DW_LNS_set_prologue_end then on_sm (sm_set PROLOGUE_END)
      else if opcode = DW_LNS_set_epilogue_begin then on_sm (sm_set EPILOGUE_BEGIN)
      else if opcode = DW_LNS_set_isa
      then sbind readLEB128U (\<lambda>v. on_sm (\<lambda>sm. sm\<lparr>sm_isa := ucast v\<rparr>))
      else sraise (Throw Invalid_Standard_Opcode))"

definition exec_opcode :: "(u8 list \<Rightarrow> u8 list \<Rightarrow> u8 list) \<Rightarrow> nat \<Rightarrow> u8 \<Rightarrow> (dwarf, unit) stm" where
  "exec_opcode J n opcode = with_sm (\<lambda>sm.
     if sm_opcode_base sm \<le> opcode then exec_special opcode
     else if opcode = 0 then exec_extended J n
     else exec_standard opcode)"

text \<open>\<open>n\<close> bounds the number of opcodes, and the files that one of them defines.\<close>

fun runSM :: "(u8 list \<Rightarrow> u8 list \<Rightarrow> u8 list) \<Rightarrow> nat \<Rightarrow> u64 \<Rightarrow> (dwarf, unit) stm" where
  "runSM J 0 end_off = with_sm (\<lambda>sm. if sm_end_sequence sm then sreturn () else sraise No_Return)"
| "runSM J (Suc n) end_off =
     sbind sget (\<lambda>d.
       if sm_end_sequence (dw_sm d) then sreturn ()
       else if end_off \<le> cur_off (dw_c d) then sraise (Throw Endless_Line_Program)
       else
         sbind (error_if_not cur_read_u8) (\<lambda>opcode.
         sbind (exec_opcode J n opcode) (\<lambda>_.
           runSM J n end_off)))"

section \<open>Units\<close>

definition readCU :: "(u8 list \<Rightarrow> u8 list \<Rightarrow> u8 list) \<Rightarrow> nat \<Rightarrow> (dwarf, unit) stm" where
  "readCU J n =
     sbind (smodify (\<lambda>d. d\<lparr>dw_sm := new_state_machine\<rparr>)) (\<lambda>_.
     sbind readUnitLength (\<lambda>len.
     sbind sget (\<lambda>d.
     let end_off = cur_off (dw_c d) + len in
     sbind (smodify (\<lambda>d. d\<lparr>dw_cu := new_comp_unit\<rparr>)) (\<lambda>_.
     sbind (readHeader J n) (\<lambda>_.
     sbind sget (\<lambda>d.
     sbind (if cur_off (dw_c d) < end_off then runSM J n end_off else sreturn ()) (\<lambda>_.
     sbind (smodify (\<lambda>d. d\<lparr>dw_dl := dl_add_cu (dw_cu d) (dw_dl d)\<rparr>)) (\<lambda>_.
       move_cursor end_off))))))))"

fun readCUs :: "(u8 list \<Rightarrow> u8 list \<Rightarrow> u8 list) \<Rightarrow> nat \<Rightarrow> nat \<Rightarrow> (dwarf, unit) stm" where
  "readCUs J n 0 = sbind sget (\<lambda>d. if cur_ended (dw_c d) then sreturn () else sraise No_Return)"
| "readCUs J n (Suc k) =
     sbind sget (\<lambda>d.
       if cur_ended (dw_c d) then sreturn ()
       else sbind (readCU J n) (\<lambda>_. readCUs J n k))"

definition new_dwarf :: "buffer \<Rightarrow> buffer \<Rightarrow> buffer \<Rightarrow> dwarf" where
  "new_dwarf b str line_str =
     \<lparr>dw_c = make_cursor b, dw_is64 = False, dw_str = make_cursor str,
      dw_line_str = make_cursor line_str, dw_sm = new_state_machine, dw_cu = new_comp_unit,
      dw_dl = new_debug_line\<rparr>"

text \<open>The constructor on a buffer, for at most \<open>k\<close> units of at most \<open>n\<close> opcodes.\<close>

definition DebugLine_buffer ::
  "(u8 list \<Rightarrow> u8 list \<Rightarrow> u8 list) \<Rightarrow> nat \<Rightarrow> nat \<Rightarrow> buffer \<Rightarrow> debug_line res" where
  "DebugLine_buffer J n k b =
     (case readCUs J n k (new_dwarf b null_buffer null_buffer) of
        (Inl e, _) \<Rightarrow> Inl e | (Inr _, d) \<Rightarrow> Inr (dw_dl d))"

end
