(* ===== verification/Coffi_File.thy ===== *)
theory Coffi_File
  imports Gel_Image Dwarf_DebugLine Elf_Common
begin

text \<open>
  The COFF files read through the COFFI library: \<open>src/coffi_File.cpp\<close>. The library is not
  part of the program: what it read from the file (\<open>coffi_reader\<close>, \<open>coffi_section\<close>,
  \<open>coffi_symbol\<close>), the values of its constants and its functions are parameters of the model.
  A section or a segment of the file is known by its index.
\<close>

section \<open>The library\<close>

text \<open>The values are those that the code gets from the library, after the conversion to the
  type of the function or of the member that keeps them.\<close>

record coffi_section =
  cs_name :: "u8 list"
  cs_virtual_address :: u64
  cs_physical_address :: u64
  cs_data_size :: u64
  cs_alignment :: u64
  cs_flags :: u32
  cs_data :: "mem option"
  cs_data_offset :: u64

record coffi_symbol =
  cy_name :: "u8 list"
  cy_value :: u32
  cy_type :: u16
  cy_storage_class :: u8
  cy_section_number :: int

datatype coffi_architecture =
    COFFI_ARCHITECTURE_NONE
  | COFFI_ARCHITECTURE_PE
  | COFFI_ARCHITECTURE_CEVA
  | COFFI_ARCHITECTURE_TI

record coffi_optional =
  co_code_base :: u64
  co_entry :: u64

record coffi_reader =
  cr_arch :: coffi_architecture
  cr_win_base :: "u64 option"
  cr_optional :: "coffi_optional option"
  cr_sections :: "coffi_section list"
  cr_symbols :: "coffi_symbol list"

text \<open>\<open>cl_load\<close> is \<open>coffi::load\<close>, \<open>cl_at\<close> the operator that gives the section of an index
  of a list of sections (a null pointer is \<open>None\<close>); the other fields are constants.\<close>

record coffi_lib =
  cl_load :: "string \<Rightarrow> coffi_reader option"
  cl_at :: "coffi_section list \<Rightarrow> int \<Rightarrow> coffi_section option res"
  cl_MEM_EXECUTE :: u32
  cl_CNT_CODE :: u32
  cl_CNT_INITIALIZED_DATA :: u32
  cl_CNT_UNINITIALIZED_DATA :: u32
  cl_STYP_TEXT :: u32
  cl_STYP_DATA :: u32
  cl_STYP_BSS :: u32
  cl_STYP_COPY :: u32

section \<open>Sections and segments\<close>

definition coffi_isExecutable :: "coffi_lib \<Rightarrow> coffi_section \<Rightarrow> bool" where
  "coffi_isExecutable L s \<longleftrightarrow> cs_flags s AND (cl_MEM_EXECUTE L OR cl_CNT_CODE L) \<noteq> 0"

definition coffi_hasContent :: "coffi_lib \<Rightarrow> coffi_section \<Rightarrow> bool" where
  "coffi_hasContent L s \<longleftrightarrow> cs_flags s AND cl_CNT_UNINITIALIZED_DATA L = 0"

definition coffi_Segment :: "coffi_lib \<Rightarrow> coffi_section \<Rightarrow> segment_view" where
  "coffi_Segment L s =
     \<lparr>sg_name = cs_name s, sg_base = cs_virtual_address s, sg_load = cs_physical_address s,
      sg_size = cs_data_size s, sg_align = cs_alignment s, sg_exec = coffi_isExecutable L s,
      sg_write = True, sg_content = coffi_hasContent L s\<rparr>"

text \<open>The functions that only a section has: \<open>offset\<close>, \<open>fileSize\<close> and \<open>flags\<close>.\<close>

record coffi_section_view =
  cv_segment :: segment_view
  cv_offset :: u64
  cv_file_size :: u64
  cv_flags :: u32

definition coffi_Section :: "coffi_lib \<Rightarrow> coffi_section \<Rightarrow> coffi_section_view" where
  "coffi_Section L s =
     \<lparr>cv_segment = coffi_Segment L s, cv_offset = cs_data_offset s, cv_file_size = cs_data_size s,
      cv_flags = 0\<rparr>"

definition coffi_buffer :: "coffi_section \<Rightarrow> buffer" where
  "coffi_buffer s = make_buffer little_decoder (cs_data s) (cs_data_size s)"

section \<open>Files\<close>

record coffi_sym =
  cm_name :: "u8 list"
  cm_type :: symbol_type
  cm_bind :: symbol_bind
  cm_value :: u32

text \<open>\<open>cf_sections\<close> and \<open>cf_segments\<close> are the vectors of the file.\<close>

record coffi_file =
  cf_reader :: coffi_reader
  cf_base :: u64
  cf_sections :: "coffi_section list"
  cf_segments :: "coffi_section list"
  cf_symtab :: "(u8 list \<Rightarrow> coffi_sym option) option"
  cf_debug :: "debug_line option"
  cf_debug_init :: bool

definition coffi_base :: "coffi_reader \<Rightarrow> string \<Rightarrow> u64 res" where
  "coffi_base r path =
     (case cr_arch r of
        COFFI_ARCHITECTURE_PE \<Rightarrow>
          (case cr_win_base r of
             None \<Rightarrow> Inl (Throw (Coff_No_Windows_Header path)) | Some b \<Rightarrow> Inr b)
      | COFFI_ARCHITECTURE_CEVA \<Rightarrow>
          (case cr_optional r of None \<Rightarrow> Inr 0 | Some h \<Rightarrow> Inr (co_code_base h))
      | COFFI_ARCHITECTURE_TI \<Rightarrow>
          (case cr_optional r of None \<Rightarrow> Inr 0 | Some h \<Rightarrow> Inr (co_code_base h))
      | COFFI_ARCHITECTURE_NONE \<Rightarrow> Inl (Throw Coff_Unknown_Architecture))"

definition coffi_is_segment :: "coffi_lib \<Rightarrow> coffi_section \<Rightarrow> bool" where
  "coffi_is_segment L s \<longleftrightarrow>
     cs_flags s AND (cl_CNT_CODE L OR cl_CNT_INITIALIZED_DATA L OR cl_CNT_UNINITIALIZED_DATA L) \<noteq> 0 \<and>
     cs_data_size s \<noteq> 0"

fun coffi_add_sections :: "coffi_lib \<Rightarrow> coffi_section list \<Rightarrow> coffi_file \<Rightarrow> coffi_file" where
  "coffi_add_sections L [] f = f"
| "coffi_add_sections L (s # ss) f =
     (let f1 = f\<lparr>cf_sections := cf_sections f @ [s]\<rparr>;
          f2 = (if coffi_is_segment L s then f1\<lparr>cf_segments := cf_segments f1 @ [s]\<rparr> else f1) in
      coffi_add_sections L ss f2)"

definition coffi_File_new :: "coffi_lib \<Rightarrow> string \<Rightarrow> coffi_file res" where
  "coffi_File_new L path =
     (case cl_load L path of
        None \<Rightarrow> Inl (Throw (Coff_Cannot_Open path))
      | Some r \<Rightarrow>
          rbind (coffi_base r path) (\<lambda>b.
            Inr (coffi_add_sections L (cr_sections r)
              \<lparr>cf_reader = r, cf_base = b, cf_sections = [], cf_segments = [], cf_symtab = None,
               cf_debug = None, cf_debug_init = False\<rparr>)))"

definition coffi_matches :: "u8 list \<Rightarrow> bool" where
  "coffi_matches magic \<longleftrightarrow> (magic ! 0 = 0xc2 \<or> magic ! 0 = 0xc1) \<and> magic ! 1 = 0"

definition coffi_type :: file_type where "coffi_type = program"
definition coffi_isBigEndian :: bool where "coffi_isBigEndian = False"
definition coffi_addressType :: address_type_t where "coffi_addressType = address_32"
definition coffi_machine :: string where "coffi_machine = ''unknown''"
definition coffi_os :: string where "coffi_os = ''unknown''"

definition coffi_entry :: "coffi_file \<Rightarrow> u64 res" where
  "coffi_entry f =
     (case cr_optional (cf_reader f) of
        None \<Rightarrow> Inl (Throw Coff_No_Optional_Header) | Some h \<Rightarrow> Inr (co_entry h))"

definition vec_at :: "'a list \<Rightarrow> int \<Rightarrow> 'a res" where
  "vec_at xs i = (if 0 \<le> i \<and> nat i < length xs then Inr (xs ! nat i) else Inl Memory_Fault)"

definition coffi_count :: "(coffi_file, int) stm" where
  "coffi_count = sbind sget (\<lambda>f. sreturn (int (length (cf_segments f))))"

definition coffi_segment :: "int \<Rightarrow> (coffi_file, coffi_section) stm" where
  "coffi_segment i = sbind sget (\<lambda>f. slift (vec_at (cf_segments f) i))"

definition coffi_countSections :: "(coffi_file, int) stm" where
  "coffi_countSections = sbind sget (\<lambda>f. sreturn (int (length (cf_sections f))))"

definition coffi_section_at :: "int \<Rightarrow> (coffi_file, coffi_section) stm" where
  "coffi_section_at i = sbind sget (\<lambda>f. slift (vec_at (cf_sections f) i))"

text \<open>\<open>make\<close>: the builder on the virtual functions of the segments.\<close>

definition coffi_segment_ops :: "coffi_lib \<Rightarrow> (coffi_file, coffi_section) segment_ops" where
  "coffi_segment_ops L =
     \<lparr>so_count = coffi_count, so_segment = coffi_segment,
      so_view = (\<lambda>s. sreturn (coffi_Segment L s)), so_buffer = (\<lambda>s. sreturn (coffi_buffer s))\<rparr>"

definition coffi_make ::
  "elm_array \<Rightarrow> (nat \<Rightarrow> u8) \<Rightarrow> coffi_lib \<Rightarrow> nat \<Rightarrow> 'f \<Rightarrow>
   (coffi_file, ('f, coffi_section) image option) stm" where
  "coffi_make A junk L k file = SimpleBuilder_build A junk (coffi_segment_ops L) k file"

section \<open>Symbols\<close>

text \<open>The number of the section of a symbol is converted to 16 bits for the test, and used as
  it is for the access.\<close>

definition coffi_container :: "coffi_lib \<Rightarrow> coffi_section list \<Rightarrow> int \<Rightarrow> coffi_section option res" where
  "coffi_container L ss n =
     (if unat (word_of_int n :: u16) < length ss then cl_at L ss (n - 1) else Inr None)"

definition coffi_symbol_type :: "coffi_lib \<Rightarrow> coffi_symbol \<Rightarrow> coffi_section option \<Rightarrow> symbol_type" where
  "coffi_symbol_type L y cs =
     (case cs of
        None \<Rightarrow> NO_TYPE
      | Some s \<Rightarrow>
          if cs_flags s AND (cl_STYP_DATA L OR cl_STYP_BSS L OR cl_STYP_COPY L) \<noteq> 0 then DATA
          else if cs_flags s AND cl_STYP_TEXT L \<noteq> 0
          then (if cy_type y = 0 then OTHER_TYPE
                else if cy_storage_class y AND 4 \<noteq> 0 then LABEL else FUNC)
          else NO_TYPE)"

definition coffi_put_symbol :: "coffi_symbol \<Rightarrow> symbol_type \<Rightarrow> coffi_file \<Rightarrow> coffi_file" where
  "coffi_put_symbol y t f =
     f\<lparr>cf_symtab := map_option (\<lambda>m. m(cy_name y \<mapsto>
         \<lparr>cm_name = cy_name y, cm_type = t, cm_bind = GLOBAL, cm_value = cy_value y\<rparr>)) (cf_symtab f)\<rparr>"

fun coffi_fill :: "coffi_lib \<Rightarrow> coffi_section list \<Rightarrow> coffi_symbol list \<Rightarrow> (coffi_file, unit) stm" where
  "coffi_fill L ss [] = sreturn ()"
| "coffi_fill L ss (y # ys) =
     sbind (slift (coffi_container L ss (cy_section_number y))) (\<lambda>cs.
     sbind (smodify (coffi_put_symbol y (coffi_symbol_type L y cs))) (\<lambda>_.
       coffi_fill L ss ys))"

definition coffi_symbols :: "coffi_lib \<Rightarrow> (coffi_file, u8 list \<Rightarrow> coffi_sym option) stm" where
  "coffi_symbols L f =
     (case cf_symtab f of
        Some m \<Rightarrow> (Inr m, f)
      | None \<Rightarrow>
          sbind (smodify (\<lambda>f. f\<lparr>cf_symtab := Some Map.empty\<rparr>)) (\<lambda>_.
          sbind (slift (require (cr_arch (cf_reader f) = COFFI_ARCHITECTURE_TI) Assert_Failure)) (\<lambda>_.
          sbind (coffi_fill L (cr_sections (cf_reader f)) (cr_symbols (cf_reader f))) (\<lambda>_.
          sbind sget (\<lambda>f. sreturn (the (cf_symtab f)))))) f)"

section \<open>Debug lines\<close>

definition coffi_findSection :: "u8 list \<Rightarrow> (coffi_file, coffi_section option) stm" where
  "coffi_findSection x =
     gel_findSection coffi_countSections (\<lambda>i. coffi_section_at (int i)) (\<lambda>s. sreturn (cs_name s)) x"

text \<open>At most \<open>k\<close> units, of at most \<open>n\<close> opcodes each, are read.\<close>

definition coffi_debugLines ::
  "(u8 list \<Rightarrow> u8 list \<Rightarrow> u8 list) \<Rightarrow> nat \<Rightarrow> nat \<Rightarrow> (coffi_file, debug_line option) stm" where
  "coffi_debugLines J n k f =
     (if cf_debug_init f then (Inr (cf_debug f), f)
      else
        sbind (smodify (\<lambda>f. f\<lparr>cf_debug_init := True\<rparr>)) (\<lambda>_.
        sbind (coffi_findSection (str_bytes ''.debug_line'')) (\<lambda>r.
        sbind (case r of
                 None \<Rightarrow> sreturn ()
               | Some s \<Rightarrow>
                   sbind (slift (DebugLine_buffer J n k (coffi_buffer s))) (\<lambda>d.
                     smodify (\<lambda>f. f\<lparr>cf_debug := Some d\<rparr>))) (\<lambda>_.
        sbind sget (\<lambda>f. sreturn (cf_debug f))))) f)"

end
