(* ===== verification/Gel_Manager.thy ===== *)
theory Gel_Manager
  imports Pecoff_File Elf_Errors Coffi_File
begin

text \<open>
  \<open>include/gel++.h\<close> and \<open>src/gel_Manager.cpp\<close>: the manager, which opens a file with the class
  that its first bytes call for, and the dump of a buffer. The opening of a stream and the
  formatting of a byte belong to ELM and are parameters, as is the presence of COFFI in the
  configuration.
\<close>

section \<open>Opening files\<close>

text \<open>\<open>mg_open\<close> is \<open>System::openRandomFile\<close>, with the message of the exception it throws.\<close>

record 's manager_env =
  mg_open :: "string \<Rightarrow> string + 's"
  mg_pe :: "'s pe_env"
  mg_coffi :: "coffi_lib option"

definition mg_elf :: "'s manager_env \<Rightarrow> 's elf_env" where
  "mg_elf M =
     \<lparr>env_stream = px_stream (mg_pe M), env_array = px_array (mg_pe M), env_junk = px_junk (mg_pe M)\<rparr>"

datatype 's gel_object =
    ELF_file "'s elf_file"
  | COFF_file coffi_file
  | PE_file "'s pe_file"

text \<open>A read in an array of \<open>n\<close> bytes on the stack.\<close>

definition mg_read :: "'s manager_env \<Rightarrow> nat \<Rightarrow> 's \<Rightarrow> int \<times> mem \<times> 's" where
  "mg_read M n s =
     (case rs_read (px_stream (mg_pe M)) n s of
        (k, bs, s') \<Rightarrow> (k, store_at (new_block (px_junk (mg_pe M)) n) 0 bs, s'))"

definition openELFFile_stream :: "'s manager_env \<Rightarrow> 's \<Rightarrow> 's elf_file res" where
  "openELFFile_stream M s =
     (case mg_read M EI_NIDENT s of
        (bufs, buf, s') \<Rightarrow>
          rbind (require (\<not> bufs < int EI_NIDENT) (Throw Not_An_ELF)) (\<lambda>_.
          rbind (require (elf_matches buf) (Throw Bad_ELF_Header)) (\<lambda>_.
            if buf ! EI_CLASS = ELFCLASS32 then File32_new (mg_elf M) s'
            else if buf ! EI_CLASS = ELFCLASS64 then File64_new (mg_elf M) s'
            else Inl (Throw (Unknown_ELF_Class (buf ! EI_CLASS))))))"

definition openELFFile :: "'s manager_env \<Rightarrow> string \<Rightarrow> 's elf_file res" where
  "openELFFile M path =
     (case mg_open M path of
        Inl msg \<Rightarrow> Inl (Throw (System_Error msg)) | Inr s \<Rightarrow> openELFFile_stream M s)"

definition openPECOFFFile :: "'s manager_env \<Rightarrow> 's \<Rightarrow> 's pe_file res" where
  "openPECOFFFile M s = fst (pe_File_new (mg_pe M) s)"

text \<open>The result of the read is converted to \<open>t::size\<close>.\<close>

definition openFile :: "'s manager_env \<Rightarrow> string \<Rightarrow> 's gel_object res" where
  "openFile M path =
     (case mg_open M path of
        Inl msg \<Rightarrow> Inl (Throw (System_Error msg))
      | Inr s \<Rightarrow>
          (case mg_read M 4 s of
             (n, magic, s1) \<Rightarrow>
               (let s2 = snd (rs_reset (px_stream (mg_pe M)) s1) in
                rbind (require (\<not> (word_of_int n :: u64) < 4) (Throw Not_A_Binary)) (\<lambda>_.
                  if elf_matches magic then map_sum id ELF_file (openELFFile_stream M s2)
                  else if mg_coffi M \<noteq> None \<and> coffi_matches magic
                  then map_sum id COFF_file (coffi_File_new (the (mg_coffi M)) path)
                  else if pe_matches magic then map_sum id PE_file (openPECOFFFile M s2)
                  else Inl (Throw (Unknown_Format magic))))))"

section \<open>The dump of a buffer\<close>

text \<open>\<open>H\<close> gives the two digits of a byte.\<close>

definition dump_digits :: "(u8 \<Rightarrow> u8 list) \<Rightarrow> buffer \<Rightarrow> u64 \<Rightarrow> u8 list res" where
  "dump_digits H b k =
     (if k < buf_size b then rbind (get_u8 b k) (\<lambda>v. Inr (H v)) else Inr [32, 32])"

definition dump_char :: "u8 \<Rightarrow> u8" where
  "dump_char c = (if 32 \<le> c \<and> c < 127 then c else 46)"

definition dump_text :: "buffer \<Rightarrow> u64 \<Rightarrow> u8 list res" where
  "dump_text b k =
     (if k < buf_size b then rbind (get_u8 b k) (\<lambda>c. Inr [dump_char c]) else Inr [32])"

text \<open>The loop over \<open>j\<close>, at \<open>k = i + j\<close> with \<open>n\<close> turns left.\<close>

fun dump_cells :: "(u64 \<Rightarrow> u8 list res) \<Rightarrow> u64 \<Rightarrow> nat \<Rightarrow> u8 list res" where
  "dump_cells f k 0 = Inr []"
| "dump_cells f k (Suc n) = rbind (f k) (\<lambda>x. rbind (dump_cells f (k + 1) n) (\<lambda>y. Inr (x @ y)))"

text \<open>The loop over \<open>i\<close>, with at most \<open>t\<close> turns.\<close>

fun dump_loop :: "(u8 \<Rightarrow> u8 list) \<Rightarrow> buffer \<Rightarrow> nat \<Rightarrow> u64 \<Rightarrow> u8 list res" where
  "dump_loop H b 0 i = Inl No_Return"
| "dump_loop H b (Suc t) i =
     (if \<not> i < buf_size b then Inr []
      else rbind (dump_cells (dump_digits H b) i 8) (\<lambda>x.
           rbind (dump_cells (dump_text b) i 8) (\<lambda>y.
           rbind (dump_loop H b t (i + 8)) (\<lambda>z. Inr (x @ [32] @ y @ [10] @ z)))))"

definition buffer_dump :: "(u8 \<Rightarrow> u8 list) \<Rightarrow> nat \<Rightarrow> buffer \<Rightarrow> u8 list res" where
  "buffer_dump H t b = dump_loop H b t 0"

end
