(* ===== verification/Elf_Sample.thy ===== *)
theory Elf_Sample
  imports Elf_Errors
begin

text \<open>
  A small executable file, on which the properties are applied: a big-endian
  32-bit ELF file with one program header to load, a table of section names
  (\<open>.n\<close>), a symbol table (\<open>.s\<close>) with one function \<open>f\<close> and its string table (\<open>.t\<close>).
  Its tables are evaluated here once, by the simplifier.
\<close>

section \<open>Evaluation of loads\<close>

fun le_nat :: "mem \<Rightarrow> nat" where
  "le_nat [] = 0"
| "le_nat (b # bs) = unat b + 256 * le_nat bs"

lemma le_word_nat: "le_word bs = (word_of_nat (le_nat bs) :: 'a::len word)" if "8 \<le> LENGTH('a)"
proof (induction bs)
  case Nil
  show ?case by simp
next
  case (Cons b bs)
  have "(ucast b :: 'a word) OR push_bit 8 (le_word bs) = ucast b + push_bit 8 (le_word bs)"
    by (rule disjunctive_add [symmetric]) (auto simp: bit_simps dest: bit_imp_le_length)
  moreover have "(ucast b :: 'a word) = word_of_nat (unat b)"
    by (rule bit_word_eqI) (auto simp: bit_simps dest: bit_imp_le_length)
  moreover have "push_bit 8 (word_of_nat k :: 'a word) = word_of_nat (256 * k)" for k
    by (simp add: push_bit_eq_mult mult.commute)
  ultimately show ?case
    by (simp only: le_word.simps le_nat.simps Cons of_nat_add)
qed

text \<open>The conversion of a field keeps or reverses its bytes.\<close>

lemma fix_bytes_elf:
  "length bs = bytes_of w \<Longrightarrow>
   fix_bytes (elf_decoder e) w bs = (if e = ELFDATA2LSB then bs else rev bs)"
  by (cases w) (simp_all add: elf_fix_le_word word_of_bytes_def)

lemma fix_load:
  "a + 2 \<le> length m \<Longrightarrow> elf_fix16 e (load16 m a) = word_of_bytes e (bytes_at m a 2)"
  "a + 4 \<le> length m \<Longrightarrow> elf_fix32 e (load32 m a) = word_of_bytes e (bytes_at m a 4)"
  by (simp_all add: load_defs elf_fix_le_word)

lemma word_of_bytes_big:
  "8 \<le> LENGTH('a) \<Longrightarrow> word_of_bytes 2 bs = (word_of_nat (le_nat (rev bs)) :: 'a::len word)"
  by (simp add: word_of_bytes_def ELFDATA2LSB_def le_word_nat)

section \<open>The file\<close>

definition sample :: mem where
  "sample =
    [127, 69, 76, 70, 1, 2, 1, 0, 0, 0, 0, 0, 0, 0, 0, 0, 0, 2, 0, 20, 0, 0, 0, 1, 0, 0, 128,
     0, 0, 0, 0, 52, 0, 0, 0, 117, 0, 0, 0, 0, 0, 52, 0, 32, 0, 1, 0, 40, 0, 4, 0, 1, 0, 0,
     0, 1, 0, 0, 0, 84, 0, 0, 128, 0, 0, 0, 144, 0, 0, 0, 0, 4, 0, 0, 0, 6, 0, 0, 0, 5, 0, 0,
     0, 4, 1, 2, 3, 4, 0, 46, 110, 0, 46, 115, 0, 46, 116, 0, 0, 0, 0, 1, 0, 0, 128, 0, 0, 0,
     0, 8, 18, 0, 0, 0, 0, 102, 0, 0, 0, 0, 0, 0, 0, 0, 0, 0, 0, 0, 0, 0, 0, 0, 0, 0, 0, 0,
     0, 0, 0, 0, 0, 0, 0, 0, 0, 0, 0, 0, 0, 0, 0, 0, 1, 0, 0, 0, 0, 0, 0, 0, 1, 0, 0, 0, 3,
     0, 0, 0, 0, 0, 0, 0, 0, 0, 0, 0, 88, 0, 0, 0, 10, 0, 0, 0, 0, 0, 0, 0, 0, 0, 0, 0, 1, 0,
     0, 0, 0, 0, 0, 0, 4, 0, 0, 0, 2, 0, 0, 0, 0, 0, 0, 0, 0, 0, 0, 0, 98, 0, 0, 0, 16, 0, 0,
     0, 3, 0, 0, 0, 0, 0, 0, 0, 1, 0, 0, 0, 16, 0, 0, 0, 7, 0, 0, 0, 3, 0, 0, 0, 0, 0, 0, 0,
     0, 0, 0, 0, 114, 0, 0, 0, 3, 0, 0, 0, 0, 0, 0, 0, 0, 0, 0, 0, 1, 0, 0, 0, 0]"


lemma length_sample: "length sample = 277"
  by (simp add: sample_def)

lemma load_sample:
  "a + 2 \<le> 277 \<Longrightarrow> elf_fix16 2 (load16 sample a) = word_of_nat (le_nat (rev (bytes_at sample a 2)))"
  "a + 4 \<le> 277 \<Longrightarrow> elf_fix32 2 (load32 sample a) = word_of_nat (le_nat (rev (bytes_at sample a 4)))"
  by (simp_all add: fix_load length_sample word_of_bytes_big)

definition sample_header :: Elf32_Ehdr where
  "sample_header =
     \<lparr>e_ident32 = [127, 69, 76, 70, 1, 2, 1, 0, 0, 0, 0, 0, 0, 0, 0, 0], e_type32 = 2,
      e_machine32 = 20, e_version32 = 1, e_entry32 = 0x8000, e_phoff32 = 52, e_shoff32 = 117,
      e_flags32 = 0, e_ehsize32 = 0x3400, e_phentsize32 = 32, e_phnum32 = 1,
      e_shentsize32 = 40, e_shnum32 = 4, e_shstrndx32 = 1\<rparr>"

lemma sample_bytes:
  "sample ! EI_DATA = 2" "sample ! EI_CLASS = 1"
  by (simp_all add: sample_def elf_ident_consts)

lemma header_sample: "elf32_header sample = sample_header"
  by (simp add: elf32_header_def sample_header_def conv_Elf32_Ehdr_def load_Elf32_Ehdr_def
      sample_bytes load_sample)
   (simp add: load_defs sample_def bytes_at_def le_word_nat)

definition sample_sh :: "u32 \<Rightarrow> u32 \<Rightarrow> u32 \<Rightarrow> u32 \<Rightarrow> u32 \<Rightarrow> u32 \<Rightarrow> Elf32_Shdr" where
  "sample_sh name ty off sz link ent =
     \<lparr>sh_name32 = name, sh_type32 = ty, sh_flags32 = 0, sh_addr32 = 0, sh_offset32 = off,
      sh_size32 = sz, sh_link32 = link, sh_info32 = 0, sh_addralign32 = 1,
      sh_entsize32 = ent\<rparr>"

definition sample_ph :: Elf32_Phdr where
  "sample_ph =
     \<lparr>p_type32 = 1, p_offset32 = 84, p_vaddr32 = 0x8000, p_paddr32 = 0x9000, p_filesz32 = 4,
      p_memsz32 = 6, p_flags32 = 5, p_align32 = 4\<rparr>"

abbreviation sample_head :: elf_header where
  "sample_head \<equiv> H32 sample_header"

lemma sample_header_simps:
  "e_ident32 sample_header ! EI_DATA = 2" "unat (e_shoff32 sample_header) = 117"
  "unat (e_shentsize32 sample_header) = 40" "unat (e_shnum32 sample_header) = 4"
  "unat (e_phoff32 sample_header) = 52" "unat (e_phentsize32 sample_header) = 32"
  "unat (e_phnum32 sample_header) = 1" "uint (e_shstrndx32 sample_header) = 1"
  by (simp_all add: sample_header_def elf_ident_consts)

lemma upto4: "[0..<4] = [0, 1, 2, 3 :: nat]"
  by (simp add: upt_rec)

lemma sec_infos_sample:
  "sec_infos sample sample_head =
    [SH32 (sample_sh 0 0 0 0 0 0), SH32 (sample_sh 1 3 88 10 0 0),
     SH32 (sample_sh 4 2 98 16 3 16), SH32 (sample_sh 7 3 114 3 0 0)]"
  by (simp add: sample_header_simps upto4 elf32_shdr_def conv_Elf32_Shdr_def load_Elf32_Shdr_def
      load_sample) (simp add: bytes_at_def sample_def sample_sh_def)

lemma phdr_infos_sample: "phdr_infos sample sample_head = [PH32 sample_ph]"
  by (simp add: sample_header_simps elf32_phdr_def conv_Elf32_Phdr_def load_Elf32_Phdr_def
      load_sample) (simp add: bytes_at_def sample_def sample_ph_def)

declare sec_infos.simps [simp del] phdr_infos.simps [simp del]

lemma length_sec_infos_sample: "length (sec_infos sample sample_head) = 4"
  by (simp add: sec_infos_sample)

lemma fit_sample: "secs_fit sample sample_head" "phs_fit sample sample_head"
  by (simp_all add: shdrs_fit32_def phdrs_fit32_def sample_header_simps length_sample
      sizeof_Elf32_Shdr_def sizeof_Elf32_Phdr_def)

lemma load_indices_sample: "load_indices sample sample_head = [0]"
  by (simp add: load_indices_def phdr_infos_sample ProgramHeader32_type_def sample_ph_def
      PT_LOAD_def)

section \<open>Its sections\<close>

lemmas sample_sec_simps =
  sec_defs32 sample_sh_def is_symtab_def SHT_SYMTAB_def SHT_DYNSYM_def Section32_link_def

lemma sec_ok_sample:
  "sec_ok sample (SH32 (sample_sh 1 3 88 10 0 0))"
  "sec_ok sample (SH32 (sample_sh 4 2 98 16 3 16))"
  "sec_ok sample (SH32 (sample_sh 7 3 114 3 0 0))"
  by (simp_all add: sec_ok_def length_sample sample_sec_simps sizeof_Elf32_Sym_def)

lemma sec_data_sample:
  "sec_data d sample (SH32 (sample_sh 1 3 88 10 0 0)) = [0, 46, 110, 0, 46, 115, 0, 46, 116, 0]"
  "sec_data d sample (SH32 (sample_sh 7 3 114 3 0 0)) = [0, 102, 0]"
  by (simp_all add: sec_data_def sec_raw_def sample_sec_simps)
    (simp_all add: bytes_at_def sample_def)

lemma getStrTab_sample: "nat (elf_getStrTab sample_head) = 1"
  by (simp add: File32_getStrTab_def sample_header_simps)

lemma strtab_sample: "strtab_info sample sample_head = SH32 (sample_sh 1 3 88 10 0 0)"
  unfolding strtab_info_def getStrTab_sample by (simp add: sec_infos_sample)

lemma strtab_ok_sample: "strtab_ok sample sample_head"
  unfolding strtab_ok_def getStrTab_sample by (simp add: strtab_sample sec_infos_sample sec_ok_sample)

lemma less4: "i < 4 \<Longrightarrow> i = 0 \<or> i = 1 \<or> i = 2 \<or> i = (3 :: nat)"
  by linarith

lemma spec_name_sample:
  "spec_name sample sample_head 0 = Inr []"
  "spec_name sample sample_head (Suc 0) = Inr [46, 110]"
  "spec_name sample sample_head 2 = Inr [46, 115]"
  "spec_name sample sample_head 3 = Inr [46, 116]"
  by (simp_all add: spec_name_def strtab_sample sec_data_sample sec_infos_sample)
    (simp_all add: sample_sh_def cstr_at_def)

lemma name_ok_sample: "i < 4 \<Longrightarrow> name_ok sample sample_head i"
  by (drule less4) (auto simp: name_ok_def spec_name_sample strtab_sample sec_infos_sample
      sample_sec_simps)

lemma symtabs_sample:
  "symtabs_from sample sample_head 0 (length (sec_infos sample sample_head)) = [2]"
  by (simp add: sec_infos_sample sample_sec_simps)

lemma symbol_data_sample:
  "sec_data (head_decoder sample_head) sample (SH32 (sample_sh 4 2 98 16 3 16)) =
    [1, 0, 0, 0, 0, 128, 0, 0, 8, 0, 0, 0, 18, 0, 0, 0]"
proof -
  have "sec_raw sample (SH32 (sample_sh 4 2 98 16 3 16)) =
      [0, 0, 0, 1, 0, 0, 128, 0, 0, 0, 0, 8, 18, 0, 0, 0]"
    by (simp add: sec_raw_def sample_sec_simps) (simp add: bytes_at_def sample_def)
  moreover have "head_decoder sample_head = elf_decoder 2"
    by (simp add: head_decoder_def sample_header_simps)
  ultimately show ?thesis
    by (simp add: sec_data_def sample_sec_simps sym_loop.simps Elf32_Sym_fields_def fix_at_def
        in_block_def bytes_at_def store_at_def fix_bytes_elf ELFDATA2LSB_def del: fix_bytes.simps)
qed

lemma sample_sh_simps [simp]:
  "sh_link (SH32 (sample_sh nm ty off sz link ent)) = link"
  "sh_size (SH32 (sample_sh nm ty off sz link ent)) = ucast sz"
  "sh_entsize (SH32 (sample_sh nm ty off sz link ent)) = ucast ent"
  by (simp_all add: sample_sh_def sec_defs32 Section32_link_def)

lemma sample_symtab:
  "is_symtab (SH32 (sample_sh 4 2 98 16 3 16))" "sym_count (SH32 (sample_sh 4 2 98 16 3 16)) = 1"
  "unat (sh_offset32 (sample_sh 4 2 98 16 3 16)) = 98"
  "unat (sh_entsize32 (sample_sh 4 2 98 16 3 16)) = 16"
  by (simp_all add: sym_count_def) (simp_all add: sample_sec_simps)

declare sh_link.simps [simp del] sh_size.simps [simp del] sh_entsize.simps [simp del]

lemma symbols_ok_sample: "symbols_ok sample sample_head"
  unfolding symbols_ok_def symtabs_sample
  by (simp add: sec_infos_sample symtab_ok_def sec_ok_sample link_info_def sym_offsets_def
      sym_count_def sym_name_off_def spec_sym_name_def symbol_data_sample load32_def
      sec_data_sample bytes_at_def cstr_at_def le_word_nat)

section \<open>An open file\<close>

text \<open>A file held in memory, whatever its content and whatever the memory that \<open>new\<close> returns.\<close>

definition mem_env :: "(nat \<Rightarrow> u8) \<Rightarrow> (mem \<times> nat) elf_env" where
  "mem_env junk = \<lparr>env_stream = mem_stream, env_array = elm_array_ref, env_junk = junk\<rparr>"

interpretation mem_host: elf_host "mem_env junk" fst snd for junk
  by unfold_locales (simp_all add: mem_env_def mem_stream_spec elm_array_ref_spec)

definition sample_env :: "(mem \<times> nat) elf_env" where
  "sample_env = \<lparr>env_stream = mem_stream, env_array = elm_array_ref, env_junk = (\<lambda>i. 0xAA)\<rparr>"

definition sample_file :: "(mem \<times> nat) elf_file" where
  "sample_file = new_elf_file (sample, 0) sample_head"

interpretation sample_host: elf_host sample_env fst snd
  by unfold_locales (simp_all add: sample_env_def mem_stream_spec elm_array_ref_spec)

lemma sample_inv: "elf_inv sample_env fst sample sample_head sample_file"
  using new_elf_file_inv [of sample_env fst "(sample, 0)" sample_head]
  by (simp add: sample_file_def)

end
