(* ===== verification/Elf_Image.thy ===== *)
theory Elf_Image
  imports Gel_Image Elf_Sample
begin

text \<open>
  \<open>File::make(const Parameter&)\<close> of \<open>src/elf_File.cpp\<close>: the image of an ELF file, and the
  ELF file as a provider of segments for \<open>SimpleBuilder\<close>.
\<close>

section \<open>The virtual functions of the segments\<close>

definition elf_segment_buffer :: "'s elf_env \<Rightarrow> nat \<Rightarrow> ('s elf_file, buffer) stm" where
  "elf_segment_buffer E i = ph_content E i"

definition elf_segment_ops :: "'s elf_env \<Rightarrow> ('s elf_file, nat) segment_ops" where
  "elf_segment_ops E =
     \<lparr>so_count = elf_count E, so_segment = elf_segment E, so_view = elf_segment_view,
      so_buffer = elf_segment_buffer E\<rparr>"

text \<open>\<open>k\<close> bounds the number of turns of the loop over the segments.\<close>

definition elf_make ::
  "'s elf_env \<Rightarrow> nat \<Rightarrow> 'f \<Rightarrow> ('s elf_file, ('f, nat) image option) stm" where
  "elf_make E k file =
     SimpleBuilder_build (env_array E) (env_junk E) (elf_segment_ops E) k file"

section \<open>The contract\<close>

definition seg_file_ok :: "'s elf_env \<Rightarrow> ('s \<Rightarrow> mem) \<Rightarrow> ('s \<Rightarrow> nat) \<Rightarrow> mem \<Rightarrow> elf_header \<Rightarrow> bool" where
  "seg_file_ok E ct ps c h \<longleftrightarrow>
     elf_host E ct ps \<and> phs_fit c h \<and> (\<forall>i < length (phdr_infos c h). ph_ok c (phdr_infos c h ! i))"

definition seg_view :: "mem \<Rightarrow> elf_header \<Rightarrow> nat \<Rightarrow> segment_view" where
  "seg_view c h i = elf_Segment (phdr_infos c h ! i)"

definition seg_buffer :: "'s elf_env \<Rightarrow> mem \<Rightarrow> elf_header \<Rightarrow> nat \<Rightarrow> buffer" where
  "seg_buffer E c h i =
     make_buffer (head_decoder h) (Some (ph_data (env_junk E) c (phdr_infos c h ! i)))
       (ph_memsz (phdr_infos c h ! i))"

lemma load_indices_bound: "i \<in> set (load_indices c h) \<Longrightarrow> i < length (phdr_infos c h)"
  by (simp add: load_indices_def)

lemma elf_segment_view_ok:
  assumes "elf_inv E ct c h f" and "el_ph_loaded f" and "i < length (phdr_infos c h)"
  shows "elf_segment_view i f = (Inr (seg_view c h i), f)"
proof -
  have m: "map ph_info (el_phs f) = phdr_infos c h"
    using assms(1,2) by (simp add: elf_inv_def)
  then have "i < length (el_phs f)"
    using assms(3) by (metis length_map)
  then show ?thesis
    by (simp add: elf_segment_view_def seg_view_def flip: m)
qed

interpretation elf_segs: segment_provider "elf_segment_ops E"
  "\<lambda>f. seg_file_ok E ct ps c h \<and> elf_inv E ct c h f"
  "\<lambda>f. seg_file_ok E ct ps c h \<and> elf_inv E ct c h f \<and> el_ph_loaded f"
  "load_indices c h" "seg_view c h" "seg_buffer E c h"
  for E ct ps c h
proof unfold_locales
  fix f
  assume f: "seg_file_ok E ct ps c h \<and> elf_inv E ct c h f"
  then show "\<exists>f'. so_count (elf_segment_ops E) f = (Inr (int (length (load_indices c h))), f') \<and>
      seg_file_ok E ct ps c h \<and> elf_inv E ct c h f' \<and> el_ph_loaded f'"
    using elf_host.elf_count_ok [of E ct ps c h f]
    by (auto simp: seg_file_ok_def elf_segment_ops_def)
next
  fix f i
  assume "seg_file_ok E ct ps c h \<and> elf_inv E ct c h f \<and> el_ph_loaded f"
    and "i < length (load_indices c h)"
  then show "\<exists>f'. so_segment (elf_segment_ops E) (int i) f = (Inr (load_indices c h ! i), f') \<and>
      seg_file_ok E ct ps c h \<and> elf_inv E ct c h f' \<and> el_ph_loaded f'"
    using elf_host.elf_segment_ok [of E ct ps c h f "int i"]
    by (auto simp: seg_file_ok_def elf_segment_ops_def)
next
  fix f g
  assume "seg_file_ok E ct ps c h \<and> elf_inv E ct c h f \<and> el_ph_loaded f"
    and "g \<in> set (load_indices c h)"
  then show "\<exists>f'. so_view (elf_segment_ops E) g f = (Inr (seg_view c h g), f') \<and>
      seg_file_ok E ct ps c h \<and> elf_inv E ct c h f' \<and> el_ph_loaded f'"
    using elf_segment_view_ok [of E ct c h f g]
    by (auto simp: elf_segment_ops_def load_indices_bound)
next
  fix f g
  assume a: "seg_file_ok E ct ps c h \<and> elf_inv E ct c h f \<and> el_ph_loaded f"
    and g: "g \<in> set (load_indices c h)"
  then obtain f' where "ph_content E g f = (Inr (seg_buffer E c h g), f')"
      "elf_inv E ct c h f'" "el_ph_loaded f'"
    using elf_host.ph_content_ok [of E ct ps c h f g] load_indices_bound [OF g]
    unfolding seg_file_ok_def seg_buffer_def by blast
  then show "\<exists>f'. so_buffer (elf_segment_ops E) g f = (Inr (seg_buffer E c h g), f') \<and>
      seg_file_ok E ct ps c h \<and> elf_inv E ct c h f' \<and> el_ph_loaded f'"
    using a by (auto simp: elf_segment_ops_def elf_segment_buffer_def)
qed simp

section \<open>The segments of the image\<close>

text \<open>What the image holds for the program header of index \<open>i\<close>.\<close>

definition spec_image_segment ::
  "'s elf_env \<Rightarrow> mem \<Rightarrow> elf_header \<Rightarrow> 'f \<Rightarrow> nat \<Rightarrow> ('f, nat) image_segment" where
  "spec_image_segment E c h file i =
     (let p = phdr_infos c h ! i; x = (ph_flags p AND PF_X \<noteq> 0); w = (ph_flags p AND PF_W \<noteq> 0) in
      \<lparr>is_name = defaultName x w True, is_file = Some file, is_seg = Some i,
       is_base = ph_paddr p,
       is_buf = make_buffer (head_decoder h) (Some (ph_data (env_junk E) c p)) (ph_memsz p),
       is_flags = IS_TO_FREE OR (if w then IS_WRITABLE else 0) OR
         (if x then IS_EXECUTABLE else 0)\<rparr>)"

definition spec_image :: "'s elf_env \<Rightarrow> mem \<Rightarrow> elf_header \<Rightarrow> 'f \<Rightarrow> ('f, nat) image" where
  "spec_image E c h file =
     \<lparr>im_prog = file, im_links = [(file, 0)],
      im_segs = map (spec_image_segment E c h file)
        (filter (\<lambda>i. ph_memsz (phdr_infos c h ! i) \<noteq> 0) (load_indices c h))\<rparr>"

lemma length_ph_data: "ph_ok c p \<Longrightarrow> length (ph_data junk c p) = unat (ph_memsz p)"
  by (auto simp: ph_ok_def ph_data_def Let_def store_at_def word_le_nat_alt bytes_at_def new_block_def)

lemma seg_buffer_fits: "ph_ok c (phdr_infos c h ! i) \<Longrightarrow> buffer_fits (seg_view c h i) (seg_buffer E c h i)"
  using length_ph_data [of c "phdr_infos c h ! i" "env_junk E"]
  by (auto simp: buffer_fits_def seg_view_def seg_buffer_def elf_Segment_def make_buffer_def ph_ok_def)

lemma mapped_seg:
  "mapped (seg_view c h i) (seg_buffer E c h i) \<longleftrightarrow> ph_memsz (phdr_infos c h ! i) \<noteq> 0"
  by (simp add: mapped_def seg_view_def seg_buffer_def elf_Segment_def make_buffer_def)

lemma spec_segment_elf:
  assumes "ph_ok c (phdr_infos c h ! i)"
  shows "spec_segment file i (seg_view c h i) (seg_buffer E c h i) = spec_image_segment E c h file i"
  using length_ph_data [OF assms, of "env_junk E"]
  by (simp add: spec_segment_def spec_image_segment_def seg_view_def seg_buffer_def
      elf_Segment_def make_buffer_def spec_block_def segment_flags_def Let_def)

lemma elf_make_ok:
  assumes ok: "seg_file_ok E ct ps c h" and inv: "elf_inv E ct c h f"
    and k: "length (load_indices c h) < k"
  shows "\<exists>f'. elf_make E k file f = (Inr (Some (spec_image E c h file)), f') \<and> elf_inv E ct c h f'"
proof -
  have ph: "ph_ok c (phdr_infos c h ! i)" if "i \<in> set (load_indices c h)" for i
    using ok load_indices_bound [OF that] by (simp add: seg_file_ok_def)
  have A: "elm_array_spec (env_array E)"
    using ok by (simp add: seg_file_ok_def elf_host_def)
  have "(\<lambda>i. mapped (seg_view c h i) (seg_buffer E c h i)) =
      (\<lambda>i. ph_memsz (phdr_infos c h ! i) \<noteq> 0)"
    by (simp add: mapped_seg)
  moreover have "map (\<lambda>i. spec_segment file i (seg_view c h i) (seg_buffer E c h i))
        (filter (\<lambda>i. ph_memsz (phdr_infos c h ! i) \<noteq> 0) (load_indices c h)) =
      map (spec_image_segment E c h file)
        (filter (\<lambda>i. ph_memsz (phdr_infos c h ! i) \<noteq> 0) (load_indices c h))"
    by (rule map_cong) (auto simp: spec_segment_elf ph)
  moreover have "\<forall>i \<in> set (load_indices c h). buffer_fits (seg_view c h i) (seg_buffer E c h i)"
    using ph seg_buffer_fits by blast
  ultimately show ?thesis
    using elf_segs.SimpleBuilder_build_ok [OF A _ conjI [OF ok inv] k, of "env_junk E" "file"]
    unfolding elf_make_def spec_image_def by auto
qed

section \<open>Reading in the image\<close>

text \<open>The \<open>j\<close>-th loadable program header has no memory in common with those before it.\<close>

definition seg_range :: "mem \<Rightarrow> elf_header \<Rightarrow> nat \<Rightarrow> range_t" where
  "seg_range c h i = range_of (ph_paddr (phdr_infos c h ! i)) (ph_memsz (phdr_infos c h ! i))"

lemma find_unique:
  assumes "x \<in> set xs" and "P x" and "\<And>y. y \<in> set xs \<Longrightarrow> P y \<Longrightarrow> y = x"
  shows "find P xs = Some x"
proof (cases "find P xs")
  case None
  then show ?thesis
    using assms(1,2) by (simp add: find_None_iff)
next
  case (Some y)
  then have "y \<in> set xs" "P y"
    by (auto simp: find_Some_iff)
  then show ?thesis
    using assms(3) Some by blast
qed

lemma image_range:
  "is_range (spec_image_segment E c h file i) = seg_range c h i"
  by (simp add: is_range_def is_size_def spec_image_segment_def seg_range_def make_buffer_def Let_def)

lemma image_at_segment:
  assumes i: "i \<in> set (load_indices c h)" and nz: "ph_memsz (phdr_infos c h ! i) \<noteq> 0"
    and a: "range_contains (seg_range c h i) a"
    and only: "\<forall>j \<in> set (load_indices c h). j \<noteq> i \<longrightarrow> \<not> range_contains (seg_range c h j) a"
  shows "image_at (spec_image E c h file) a = Some (spec_image_segment E c h file i)"
  unfolding image_at_def spec_image_def using i nz a only
  by (intro find_unique) (auto simp: image_range)

lemma ph_data_plain:
  assumes ok: "ph_ok c p" and eq: "ph_filesz p = ph_memsz p"
  shows "ph_data junk c p = bytes_at c (unat (ph_offset p)) (unat (ph_memsz p))"
proof -
  have "unat (ph_memsz p) \<le> length c - unat (ph_offset p)"
    using ok eq by (auto simp: ph_ok_def)
  then show ?thesis
    using eq by (simp add: ph_data_def store_at_def new_block_def bytes_at_def)
qed

lemma range_offset:
  assumes fits: "range_fits r" and a: "range_contains r a"
  shows "a - r_addr r < r_size r" "unat (a - r_addr r) = unat a - unat (r_addr r)"
proof -
  have *: "unat (r_addr r) \<le> unat a" "unat a < unat (r_addr r) + unat (r_size r)"
    using a range_contains_iff [OF fits] by simp_all
  then show "unat (a - r_addr r) = unat a - unat (r_addr r)"
    by (simp add: unat_sub_if_size)
  then show "a - r_addr r < r_size r"
    using * by (simp add: word_less_nat_alt)
qed

lemma nth_ph_data:
  assumes ok: "ph_ok c p" and lo: "unat (ph_memsz p) - unat (ph_filesz p) \<le> d"
    and hi: "d < unat (ph_filesz p)"
  shows "ph_data junk c p ! d = c ! (unat (ph_offset p) + d)"
proof -
  have "unat (ph_offset p) + d < length c" and "d < unat (ph_memsz p)"
    using ok hi by (auto simp: ph_ok_def word_le_nat_alt)
  then show ?thesis
    using ok lo hi
    by (auto simp: ph_ok_def ph_data_def Let_def nth_append store_at_def bytes_at_def
        new_block_def word_le_nat_alt)
qed

lemma ph_paddr_range: "ph_ok c p \<Longrightarrow> unat (ph_memsz p) < 2 ^ 32"
  by (simp add: ph_ok_def)

lemma get_u8_make_buffer:
  assumes "i < n" and "unat n = length m" and "length m < 2 ^ 63"
  shows "get_u8 (make_buffer d (Some m) n) i = Inr (m ! unat i)"
proof -
  have i: "unat i < length m"
    using assms(1,2) by (simp add: word_less_nat_alt)
  then have "unat (i + 1) = Suc (unat i)"
    using assms(3) by (simp add: unat_word_ariths(1))
  then have "i + 1 \<le> n"
    using i assms(2) by (simp add: word_le_nat_alt)
  then show ?thesis
    using i assms(3) by (simp add: get_u8_def require_def buf_load_def make_buffer_def bytes_at_def
        in_block_def
        Cons_nth_drop_Suc [symmetric])
qed

section \<open>Properties\<close>

lemma sample_seg_file: "seg_file_ok sample_env fst snd sample sample_head"
proof -
  have "\<forall>i < length (phdr_infos sample sample_head). ph_ok sample (phdr_infos sample sample_head ! i)"
    by (simp add: phdr_infos_sample ph_ok_def length_sample sample_ph_def
        ProgramHeader32_offset_def ProgramHeader32_filesz_def ProgramHeader32_memsz_def)
  then show ?thesis
    using sample_host.elf_host_axioms fit_sample by (simp add: seg_file_ok_def)
qed

text \<open>C7. The image of an ELF file whose program headers and their contents fit in it has one
  segment for each loadable program header that is not empty in memory, in the order of the
  table, at the physical address of the header, with its name, its protection and its content;
  the loop ends within one more turn than there are loadable program headers, and the file
  stays usable.\<close>

theorem elf_make_segments:
  assumes "seg_file_ok E ct ps c h" and "elf_inv E ct c h f" and "length (load_indices c h) < k"
  shows "\<exists>f'. elf_make E k p f = (Inr (Some (spec_image E c h p)), f') \<and> elf_inv E ct c h f'"
  by (rule elf_make_ok [OF assms])

theorem elf_make_segments_witness:
  "\<exists>f'. elf_make sample_env 2 () sample_file =
    (Inr (Some (spec_image sample_env sample sample_head ())), f')"
  using elf_make_segments [OF sample_seg_file sample_inv, of 2 "()"]
  by (auto simp: load_indices_sample)

text \<open>C8. Loading and looking up agree: at an address of a loadable segment that no other
  segment covers, the image has a segment, and its buffer gives there the byte that the
  file has at the corresponding offset. It holds for the bytes that the file gives and
  that the clearing of \<open>ProgramHeader::content\<close> spares, which are all the bytes of the
  segment when its sizes in the file and in memory are the same.\<close>

theorem image_reads_file:
  assumes ok: "seg_file_ok E ct ps c h" and inv: "elf_inv E ct c h f"
    and k: "length (load_indices c h) < k"
    and i: "i \<in> set (load_indices c h)" and hdr: "phdr_infos c h ! i = p"
    and fits: "range_fits (seg_range c h i)"
    and only: "\<forall>j \<in> set (load_indices c h). j \<noteq> i \<longrightarrow> \<not> range_contains (seg_range c h j) a"
    and a: "unat a = unat (ph_paddr p) + d"
    and lo: "unat (ph_memsz p) - unat (ph_filesz p) \<le> d" and hi: "d < unat (ph_filesz p)"
  shows "\<exists>f' im s. elf_make E k prog f = (Inr (Some im), f') \<and> image_at im a = Some s \<and>
    get_u8 (is_buf s) (a - is_base s) = Inr (c ! (unat (ph_offset p) + d))"
proof -
  have pok: "ph_ok c p"
    using ok load_indices_bound [OF i] hdr by (auto simp: seg_file_ok_def)
  then have d: "d < unat (ph_memsz p)" "ph_memsz p \<noteq> 0"
    using hi by (auto simp: ph_ok_def word_le_nat_alt)
  have rc: "range_contains (seg_range c h i) a"
    using range_contains_iff [OF fits] a d hdr by (simp add: seg_range_def)
  note off = range_offset [OF fits rc]
  have base: "is_base (spec_image_segment E c h prog i) = ph_paddr p"
    "is_buf (spec_image_segment E c h prog i) =
      make_buffer (head_decoder h) (Some (ph_data (env_junk E) c p)) (ph_memsz p)"
    by (simp_all add: spec_image_segment_def Let_def hdr)
  have len: "length (ph_data (env_junk E) c p) = unat (ph_memsz p)"
    by (rule length_ph_data [OF pok])
  have off': "a - ph_paddr p < ph_memsz p" "unat (a - ph_paddr p) = d"
    using off a by (simp_all add: seg_range_def hdr)
  have "get_u8 (is_buf (spec_image_segment E c h prog i)) (a - ph_paddr p) =
      Inr (c ! (unat (ph_offset p) + d))"
    using get_u8_make_buffer [OF off'(1) len [symmetric]] ph_paddr_range [OF pok]
      nth_ph_data [OF pok lo hi, of "env_junk E"] by (simp add: base len off'(2))
  moreover have "image_at (spec_image E c h prog) a = Some (spec_image_segment E c h prog i)"
    using image_at_segment [OF i _ rc only] d(2) hdr by simp
  ultimately show ?thesis
    using elf_make_ok [OF ok inv k, of prog] base(1) by auto
qed

theorem image_reads_file_witness:
  "\<exists>f' im s. elf_make sample_env 2 () sample_file = (Inr (Some im), f') \<and>
    image_at im 0x9003 = Some s \<and> get_u8 (is_buf s) (0x9003 - is_base s) = Inr (sample ! 87)"
  using image_reads_file [OF sample_seg_file sample_inv, of 2 0 "PH32 sample_ph" "0x9003" 3 "()"]
  by (simp add: load_indices_sample phdr_infos_sample seg_range_def range_fits_def sample_ph_def
      ProgramHeader32_offset_def ProgramHeader32_filesz_def ProgramHeader32_memsz_def
      ProgramHeader32_paddr_def)

text \<open>A segment that an image copies from a file has the name it is given, is
  writable or executable exactly as the segment of the file, is to be freed, and never
  claims to be readable, to be a stack or to have content, even when its bytes come
  from the file.\<close>

theorem image_segment_flags:
  assumes "ImageSegment_seg A junk prog g v b addr nm = Inr s"
  shows "is_name s = nm \<and> is_base s = addr \<and> is_size s = sg_size v \<and>
    is_isWritable s = sg_write v \<and> is_isExecutable s = sg_exec v \<and>
    \<not> is_hasContent s \<and> \<not> is_isReadable s \<and> \<not> is_isStack s \<and>
    is_flags s AND IS_TO_FREE \<noteq> 0"
  using assms
  by (auto simp: ImageSegment_seg_def rbind_def is_isWritable_def is_isExecutable_def
      is_hasContent_def is_isReadable_def is_isStack_def is_size_def segment_flags_def image_flags
      split: option.splits sum.splits if_splits)

theorem image_segment_flags_witness:
  "\<exists>s. ImageSegment_seg elm_array_ref (\<lambda>i. 0xAA) () () (elf_Segment (PH32 sample_ph))
      (make_buffer little_decoder (Some [1, 2, 3, 4, 5, 6]) 6) 0x9000 [46] = Inr s \<and>
    \<not> is_hasContent s"
proof -
  let ?v = "elf_Segment (PH32 sample_ph)"
  let ?b = "make_buffer little_decoder (Some [1, 2, 3, 4, 5, 6]) 6"
  have v: "sg_size ?v = 6" "sg_content ?v"
    by (simp_all add: elf_Segment_def sample_ph_def ProgramHeader32_memsz_def)
  have "segment_block elm_array_ref (\<lambda>i. 0xAA) ?v [1, 2, 3, 4, 5, 6] 6 =
      Inr (spec_block ?v [1, 2, 3, 4, 5, 6] 6)"
    by (rule segment_block_eq [OF elm_array_ref_spec]) (simp_all add: v)
  then obtain s where s: "ImageSegment_seg elm_array_ref (\<lambda>i. 0xAA) () () ?v ?b 0x9000 [46] = Inr s"
    by (simp add: ImageSegment_seg_def make_buffer_def)
  then show ?thesis
    using image_segment_flags [OF s] by blast
qed

text \<open>Cleaning an image deletes the files other than the program and forgets them: no
  segment refers to a deleted file or to its segments any more, while the addresses, the
  content and the protection of the segments are kept, so that an address is looked up
  in the same segment.\<close>

theorem image_clean_forgets:
  "case image_clean im of (deleted, im') \<Rightarrow>
     im_links im' = [] \<and> im_prog im' = im_prog im \<and> im_prog im \<notin> set deleted \<and>
     set deleted \<union> {im_prog im} = set (map fst (im_links im)) \<union> {im_prog im} \<and>
     (\<forall>s \<in> set (im_segs im'). is_file s = None \<and> is_seg s = None \<or> is_file s = Some (im_prog im)) \<and>
     (\<forall>a. map_option (\<lambda>s. (is_base s, is_buf s, is_flags s, is_name s)) (image_at im' a) =
          map_option (\<lambda>s. (is_base s, is_buf s, is_flags s, is_name s)) (image_at im a))"
proof -
  let ?g = "\<lambda>s. if is_file s \<noteq> Some (im_prog im) then is_clean s else s"
  let ?v = "\<lambda>s. (is_base s, is_buf s, is_flags s, is_name s)"
  have "map_option ?v (find (\<lambda>s. range_contains (is_range s) a) (map ?g ss)) =
      map_option ?v (find (\<lambda>s. range_contains (is_range s) a) ss)" for a and ss :: "('a, 'b) image_segment list"
    by (induction ss) (auto simp: is_clean_def is_range_def is_size_def)
  then show ?thesis
    by (auto simp: image_clean_def image_at_def is_clean_def)
qed

theorem image_clean_forgets_witness:
  "\<exists>im :: (nat, nat) image. fst (image_clean im) = [1] \<and> im_links (snd (image_clean im)) = [] \<and>
    map is_file (im_segs (snd (image_clean im))) = [None]"
proof -
  let ?s = "\<lparr>is_name = [], is_file = Some 1, is_seg = Some 0, is_base = 0, is_buf = null_buffer,
    is_flags = 0\<rparr>"
  let ?im = "\<lparr>im_prog = 0, im_links = [(0, 0), (1, 0)], im_segs = [?s]\<rparr> :: (nat, nat) image"
  have "fst (image_clean ?im) = [1]" "map is_file (im_segs (snd (image_clean ?im))) = [None]"
    by (simp_all add: image_clean_def is_clean_def)
  moreover have "im_links (snd (image_clean ?im)) = []"
    using image_clean_forgets [of ?im] by (simp only: case_prod_unfold)
  ultimately show ?thesis
    by (intro exI [of _ ?im] conjI)
qed

text \<open>\<open>getenv\<close> returns what follows the first \<open>NAME=\<close> in the environment of the
  parameters, and the empty string when no entry starts so.\<close>

theorem getenv_first:
  "parameter_getenv p nm =
     (case find (\<lambda>e. \<exists>v. e = nm @ [of_char CHR ''=''] @ v) (pa_env p) of
        None \<Rightarrow> [] | Some e \<Rightarrow> drop (length nm + 1) e)"
proof -
  have eq: "take (length nm) e = nm \<and> length nm + 1 \<le> length e \<and> e ! length nm = of_char CHR ''=''
      \<longleftrightarrow> (\<exists>v. e = nm @ [of_char CHR ''=''] @ v)" for e :: "u8 list"
  proof
    assume e: "take (length nm) e = nm \<and> length nm + 1 \<le> length e \<and> e ! length nm = of_char CHR ''=''"
    then have "e = take (length nm) e @ e ! length nm # drop (Suc (length nm)) e"
      using id_take_nth_drop [of "length nm" e] by simp
    then show "\<exists>v. e = nm @ [of_char CHR ''=''] @ v"
      using e by (metis append_Cons append_Nil)
  qed auto
  have "getenv_from es nm = (case find (\<lambda>e. \<exists>v. e = nm @ [of_char CHR ''=''] @ v) es of
      None \<Rightarrow> [] | Some e \<Rightarrow> drop (length nm + 1) e)" for es
  proof (induction es)
    case Nil
    show ?case by simp
  next
    case (Cons e es)
    then show ?case
      unfolding getenv_from.simps eq find.simps by (simp del: append.simps)
  qed
  then show ?thesis
    by (simp add: parameter_getenv_def)
qed

end
