(* ===== verification/Pecoff_Props.thy ===== *)
theory Pecoff_Props
  imports Pecoff_File Elf_Sample
begin

text \<open>
  The properties of the PE-COFF files: the constructor as a parser of the content of the
  file, the content of the sections and its limits, the values derived from the headers.
\<close>

section \<open>Reading the headers\<close>

text \<open>The parser that the constructor implements, on the content of the file.\<close>

definition slice :: "mem \<Rightarrow> nat \<Rightarrow> nat \<Rightarrow> mem res" where
  "slice c a n =
     (if a + n \<le> length c then Inr (bytes_at c a n)
      else Inl (Throw (PE_Short_Read n (int (length c - a)))))"

definition pe_start :: "mem \<Rightarrow> nat" where
  "pe_start c = unat (load32 c PE_MSDOS_OFFSET)"

text \<open>
  The fields at their places in the file, as Microsoft's description of the format gives
  them: from the signature on for the COFF header, and from the optional header on
  (\<open>pe_opt\<close>) for the others, whose places depend on the kind of the file (PE32+ is \<open>wide\<close>).
\<close>

definition pe_opt :: "mem \<Rightarrow> nat" where
  "pe_opt c = pe_start c + 24"

definition spec_coff_header :: "mem \<Rightarrow> coff_header_t" where
  "spec_coff_header c = (let p = pe_start c in
     \<lparr>ch_signature = PE_MAGIC, ch_machine = load16 c (p + 4),
      ch_number_of_sections = load16 c (p + 6), ch_time_date_stamp = load32 c (p + 8),
      ch_pointer_to_symbol_table = load32 c (p + 12), ch_number_of_symbols = load32 c (p + 16),
      ch_size_of_optional_header = load16 c (p + 20), ch_characteristics = load16 c (p + 22)\<rparr>)"

definition spec_standard_fields :: "mem \<Rightarrow> standard_coff_fields_t" where
  "spec_standard_fields c = (let p = pe_opt c in
     \<lparr>sf_magic = load16 c p, sf_major_linker_version = c ! (p + 2),
      sf_minor_linker_version = c ! (p + 3), sf_size_of_code = load32 c (p + 4),
      sf_size_of_initialized_data = load32 c (p + 8),
      sf_size_of_unitialized_data = load32 c (p + 12),
      sf_address_of_entry_point = load32 c (p + 16), sf_base_of_code = load32 c (p + 20),
      sf_base_of_data = load32 c (p + 24)\<rparr>)"

definition load_size :: "bool \<Rightarrow> mem \<Rightarrow> nat \<Rightarrow> u64" where
  "load_size wide c a = (if wide then load64 c a else ucast (load32 c a))"

definition spec_windows_fields :: "mem \<Rightarrow> bool \<Rightarrow> windows_specific_fields_t" where
  "spec_windows_fields c wide = (let p = pe_opt c in
     \<lparr>wf_image_base = load_size wide c (p + (if wide then 24 else 28)),
      wf_section_alignment = load32 c (p + 32), wf_file_alignment = load32 c (p + 36),
      wf_major_operating_system_version = load16 c (p + 40),
      wf_minor_operating_system_version = load16 c (p + 42),
      wf_major_image_version = load16 c (p + 44), wf_minor_image_version = load16 c (p + 46),
      wf_major_subsystem_version = load16 c (p + 48),
      wf_minor_subsystem_version = load16 c (p + 50),
      wf_win32_version_value = load32 c (p + 52), wf_size_of_image = load32 c (p + 56),
      wf_size_of_headers = load32 c (p + 60), wf_checksum = load32 c (p + 64),
      wf_subsystem = load16 c (p + 68), wf_dll_characteristics = load16 c (p + 70),
      wf_size_of_stack_reserve = load_size wide c (p + 72),
      wf_size_of_stack_commit = load_size wide c (p + (if wide then 80 else 76)),
      wf_size_of_heap_reserve = load_size wide c (p + (if wide then 88 else 80)),
      wf_size_of_heap_commit = load_size wide c (p + (if wide then 96 else 84)),
      wf_loader_flags = load32 c (p + (if wide then 104 else 88)),
      wf_number_of_rva_and_sizes = load32 c (p + (if wide then 108 else 92))\<rparr>)"

definition parse_coff :: "(u8 \<Rightarrow> u8 list) \<Rightarrow> mem \<Rightarrow> coff_header_t res" where
  "parse_coff hx c =
     rbind (slice c (pe_start c) 24) (\<lambda>m.
       if take 4 m = PE_MAGIC then Inr (spec_coff_header c)
       else Inl (Throw (Not_PECOFF (escape hx (take 4 m)))))"

definition parse_standard :: "mem \<Rightarrow> standard_coff_fields_t res" where
  "parse_standard c =
     rbind (slice c (pe_opt c) 28) (\<lambda>_.
       if load16 c (pe_opt c) \<in> {PE32, PE32P} then Inr (spec_standard_fields c)
       else Inl (Throw (Unknown_PE_Type (load16 c (pe_opt c)))))"

text \<open>The Windows fields and the position that follows them, for both kinds of files.\<close>

definition win_pos :: "mem \<Rightarrow> bool \<Rightarrow> nat" where
  "win_pos c wide = pe_start c + (if wide then 48 else 52)"

definition win_len :: "bool \<Rightarrow> nat" where
  "win_len wide = (if wide then 88 else 68)"

definition parse_windows :: "mem \<Rightarrow> bool \<Rightarrow> windows_specific_fields_t res" where
  "parse_windows c wide =
     rbind (slice c (win_pos c wide) (win_len wide)) (\<lambda>_. Inr (spec_windows_fields c wide))"

definition parse_pe ::
  "(u8 \<Rightarrow> u8 list) \<Rightarrow> mem \<Rightarrow>
   (coff_header_t \<times> standard_coff_fields_t \<times> windows_specific_fields_t \<times> mem \<times> mem) res" where
  "parse_pe hx c =
     rbind (slice c PE_MSDOS_OFFSET 4) (\<lambda>_.
     rbind (parse_coff hx c) (\<lambda>h.
     rbind (parse_standard c) (\<lambda>f.
     let wide = (sf_magic f = PE32P) in
     rbind (parse_windows c wide) (\<lambda>w.
     let d = win_pos c wide + win_len wide; n = unat (wf_number_of_rva_and_sizes w) * 8 in
     rbind (slice c d n) (\<lambda>dirs.
     rbind (slice c (d + n) (unat (ch_number_of_sections h) * 40)) (\<lambda>table.
       Inr (h, f, w, dirs, table)))))))"

text \<open>
  The size in bytes of the data directories, which the constructor passes to \<open>read\<close> as an
  \<open>int\<close>, is one.
\<close>

definition dirs_fit :: "mem \<Rightarrow> bool" where
  "dirs_fit c \<longleftrightarrow>
     (case parse_standard c of
        Inl _ \<Rightarrow> True
      | Inr f \<Rightarrow>
          (case parse_windows c (sf_magic f = PE32P) of
             Inl _ \<Rightarrow> True
           | Inr w \<Rightarrow> unat (wf_number_of_rva_and_sizes w) * 8 < 2 ^ 31))"

text \<open>A read at a position of the file.\<close>

definition at_pos :: "('s \<Rightarrow> mem) \<Rightarrow> ('s \<Rightarrow> nat) \<Rightarrow> mem \<Rightarrow> nat \<Rightarrow> 's \<Rightarrow> bool" where
  "at_pos ct ps c p s \<longleftrightarrow> ct s = c \<and> ps s = p \<and> p \<le> length c"

lemma pe_fill_at:
  assumes R: "rstream_spec (px_stream X) ct ps" and at: "at_pos ct ps c p s" and b: "length blk = n"
  shows "\<exists>s'. at_pos ct ps c (p + min n (length c - p)) s' \<and>
    pe_fill X blk (int n) s =
      (map_sum id (\<lambda>_. ()) (slice c p n), store_at blk 0 (bytes_at c p (min n (length c - p))), s')"
proof -
  obtain k bs s' where rd: "rs_read (px_stream X) n s = (k, bs, s')"
    by (cases "rs_read (px_stream X) n s") auto
  have le: "ps s \<le> length (ct s)" and eq: "ct s = c" "ps s = p"
    using at by (simp_all add: at_pos_def)
  have spec: "rs_read (px_stream X) n s = (k, bs, s') \<longrightarrow> ps s \<le> length (ct s) \<longrightarrow>
      k = int (min n (length (ct s) - ps s)) \<and> bs = bytes_at (ct s) (ps s) (nat k) \<and>
      ct s' = ct s \<and> ps s' = ps s + nat k"
    using R unfolding rstream_spec_def by blast
  have k: "k = int (min n (length c - p))" and bs: "bs = bytes_at c p (min n (length c - p))"
    and s': "at_pos ct ps c (p + min n (length c - p)) s'"
    using spec rd le unfolding eq at_pos_def by auto
  have "length bs \<le> n"
    by (simp add: bs bytes_at_def)
  then have "pe_fill X blk (int n) s =
      (map_sum id (\<lambda>_. ()) (slice c p n), store_at blk 0 bs, s')"
    using rd k b le eq by (auto simp: pe_fill_def slice_def)
  then show ?thesis
    using s' bs by blast
qed

lemma pe_read_at:
  assumes R: "rstream_spec (px_stream X) ct ps" and at: "at_pos ct ps c p s" and b: "length blk = n"
  shows "\<exists>s'. pe_read X blk (int n) s = (slice c p n, s') \<and>
    (p + n \<le> length c \<longrightarrow> at_pos ct ps c (p + n) s')"
proof -
  obtain s' where s': "at_pos ct ps c (p + min n (length c - p)) s'"
    "pe_fill X blk (int n) s =
      (map_sum id (\<lambda>_. ()) (slice c p n), store_at blk 0 (bytes_at c p (min n (length c - p))), s')"
    using pe_fill_at [OF R at b] by blast
  show ?thesis
  proof (cases "p + n \<le> length c")
    case True
    then have "min n (length c - p) = n" "slice c p n = Inr (bytes_at c p n)"
      by (simp_all add: slice_def)
    moreover have "store_at blk 0 (bytes_at c p n) = bytes_at c p n"
      by (rule store_at_whole) (use True b in simp)
    ultimately show ?thesis
      using s' True by (simp add: pe_read_def)
  next
    case False
    then show ?thesis
      using s'(2) by (simp add: pe_read_def slice_def)
  qed
qed

lemma pe_move_at:
  assumes R: "rstream_spec (px_stream X) ct ps" and "ct s = c" and "p \<le> length c"
  shows "\<exists>s'. pe_move X p s = (Inr (), s') \<and> at_pos ct ps c p s'"
proof -
  obtain ok s' where mv: "rs_move (px_stream X) p s = (ok, s')"
    by (cases "rs_move (px_stream X) p s")
  have "p \<le> length (ct s) \<longrightarrow> fst (rs_move (px_stream X) p s) \<and>
      ct (snd (rs_move (px_stream X) p s)) = ct s \<and> ps (snd (rs_move (px_stream X) p s)) = p"
    using R unfolding rstream_spec_def by blast
  then show ?thesis
    using assms(2,3) mv by (simp add: pe_move_def at_pos_def)
qed

text \<open>The steps of the constructor; each leaves the stream after what it read.\<close>

lemma load32_bytes_at: "n = 4 \<Longrightarrow> load32 (bytes_at c a n) 0 = load32 c a"
  by (simp add: load32_def bytes_at_def)

lemma load_bytes_at_slice:
  "k + 2 \<le> n \<Longrightarrow> load16 (bytes_at m a n) k = load16 m (a + k)"
  "k + 4 \<le> n \<Longrightarrow> load32 (bytes_at m a n) k = load32 m (a + k)"
  "k + 8 \<le> n \<Longrightarrow> load64 (bytes_at m a n) k = load64 m (a + k)"
  by (simp_all add: load16_def load32_def load64_def bytes_at_def drop_take min_def add.commute)

lemma take_bytes_at: "k \<le> n \<Longrightarrow> take k (bytes_at m a n) = bytes_at m a k"
  by (simp add: bytes_at_def)

text \<open>The structures that the code reads have the fields at these places.\<close>

lemma load_coff_signature: "ch_signature (load_coff_header m) = take 4 m"
  by (simp add: load_coff_header_def bytes_at_def)

lemma load_coff_header_spec:
  "bytes_at c (pe_start c) 4 = PE_MAGIC \<Longrightarrow>
   load_coff_header (bytes_at c (pe_start c) 24) = spec_coff_header c"
  by (simp add: load_coff_header_def spec_coff_header_def Let_def load_bytes_at_slice)

lemma load_standard_fields_spec:
  "pe_opt c + 28 \<le> length c \<Longrightarrow> load_standard_fields (bytes_at c (pe_opt c) 28) = spec_standard_fields c"
  by (simp add: load_standard_fields_def spec_standard_fields_def Let_def load_bytes_at_slice)

lemma load_windows_fields_spec:
  "load_windows_fields (bytes_at c (win_pos c True) (win_len True)) = spec_windows_fields c True"
  "load_windows_fields_32 (bytes_at c (win_pos c False) (win_len False)) = spec_windows_fields c False"
  by (simp_all add: load_windows_fields_def load_windows_fields_32_def spec_windows_fields_def Let_def
      load_size_def load_bytes_at_slice win_pos_def win_len_def pe_opt_def add.commute)

lemma slice_InrD: "slice c a n = Inr m \<Longrightarrow> a + n \<le> length c \<and> m = bytes_at c a n"
  by (auto simp: slice_def split: if_splits)

lemma pe_read_coff_ok:
  assumes R: "rstream_spec (px_stream X) ct ps" and c: "ct s = c"
    and len: "PE_MSDOS_OFFSET \<le> length c" "pe_start c \<le> length c"
  shows "\<exists>s'. pe_read_coff X s = (rbind (slice c PE_MSDOS_OFFSET 4) (\<lambda>_. parse_coff (px_hex X) c), s') \<and>
    (\<forall>h. rbind (slice c PE_MSDOS_OFFSET 4) (\<lambda>_. parse_coff (px_hex X) c) = Inr h \<longrightarrow>
       at_pos ct ps c (pe_start c + 24) s')"
proof -
  obtain s1 where s1: "pe_move X PE_MSDOS_OFFSET s = (Inr (), s1)" "at_pos ct ps c PE_MSDOS_OFFSET s1"
    using pe_move_at [OF R c len(1)] by blast
  obtain s2 where s2: "pe_read X (new_block (px_junk X) 4) 4 s1 = (slice c PE_MSDOS_OFFSET 4, s2)"
      "PE_MSDOS_OFFSET + 4 \<le> length c \<longrightarrow> at_pos ct ps c (PE_MSDOS_OFFSET + 4) s2"
    using pe_read_at [OF R s1(2), of "new_block (px_junk X) 4" 4] by auto
  show ?thesis
  proof (cases "PE_MSDOS_OFFSET + 4 \<le> length c")
    case False
    then show ?thesis
      using s1(1) s2(1) by (simp add: pe_read_coff_def slice_def)
  next
    case True
    then have o': "slice c PE_MSDOS_OFFSET 4 = Inr (bytes_at c PE_MSDOS_OFFSET 4)"
      and "ct s2 = c"
      using s2(2) by (simp_all add: slice_def at_pos_def)
    then obtain s3 where s3: "pe_move X (pe_start c) s2 = (Inr (), s3)" "at_pos ct ps c (pe_start c) s3"
      using pe_move_at [OF R _ len(2)] by blast
    obtain s4 where s4: "pe_read X (new_block (px_junk X) 24) 24 s3 = (slice c (pe_start c) 24, s4)"
        "pe_start c + 24 \<le> length c \<longrightarrow> at_pos ct ps c (pe_start c + 24) s4"
      using pe_read_at [OF R s3(2), of "new_block (px_junk X) 24" 24] by auto
    have "pe_read_coff X s = (parse_coff (px_hex X) c, s4)"
      using s1(1) s2(1) o' s3(1) s4(1) load_coff_header_spec [of c]
      by (cases "slice c (pe_start c) 24")
        (auto simp: pe_read_coff_def sizeof_coff_header_def load32_bytes_at
          parse_coff_def load_coff_signature take_bytes_at simp flip: pe_start_def dest: slice_InrD)
    moreover have "parse_coff (px_hex X) c = Inr h \<Longrightarrow> pe_start c + 24 \<le> length c" for h
      by (auto simp: parse_coff_def slice_def split: if_splits)
    ultimately show ?thesis
      using s4(2) o' by auto
  qed
qed

lemma pe_read_standard_ok:
  assumes R: "rstream_spec (px_stream X) ct ps" and at: "at_pos ct ps c (pe_start c + 24) s"
  shows "\<exists>s'. pe_read_standard X s = (parse_standard c, s') \<and>
    (\<forall>f. parse_standard c = Inr f \<longrightarrow> at_pos ct ps c (pe_start c + 52) s')"
proof -
  obtain s' where s': "pe_read X (new_block (px_junk X) 28) 28 s = (slice c (pe_start c + 24) 28, s')"
      "pe_start c + 24 + 28 \<le> length c \<longrightarrow> at_pos ct ps c (pe_start c + 24 + 28) s'"
    using pe_read_at [OF R at, of "new_block (px_junk X) 28" 28] by auto
  have "pe_read_standard X s = (parse_standard c, s')"
    using s'(1) load_standard_fields_spec [of c]
    by (cases "slice c (pe_opt c) 28")
      (auto simp: pe_read_standard_def sizeof_standard_fields_def parse_standard_def pe_opt_def
        spec_standard_fields_def Let_def dest!: slice_InrD)
  moreover have "parse_standard c = Inr f \<Longrightarrow> pe_start c + 24 + 28 \<le> length c" for f
    by (auto simp: parse_standard_def pe_opt_def slice_def split: if_splits)
  ultimately show ?thesis
    using s'(2) by (auto simp: add.assoc)
qed

lemma pe_read_windows_ok:
  assumes R: "rstream_spec (px_stream X) ct ps" and at: "at_pos ct ps c (pe_start c + 52) s"
  shows "\<exists>s'. pe_read_windows X magic s = (parse_windows c (magic = PE32P), s') \<and>
    (\<forall>w. parse_windows c (magic = PE32P) = Inr w \<longrightarrow>
       at_pos ct ps c (win_pos c (magic = PE32P) + win_len (magic = PE32P)) s')"
proof -
  define s1 where "s1 = (if magic = PE32P then snd (rs_back (px_stream X) 4 s) else s)"
  have "4 \<le> ps s \<longrightarrow> ct (snd (rs_back (px_stream X) 4 s)) = ct s \<and>
      ps (snd (rs_back (px_stream X) 4 s)) = ps s - 4"
    using R unfolding rstream_spec_def by blast
  then have at1: "at_pos ct ps c (win_pos c (magic = PE32P)) s1"
    using at by (auto simp: s1_def at_pos_def win_pos_def)
  let ?n = "win_len (magic = PE32P)"
  obtain s' where s': "pe_read X (new_block (px_junk X) ?n) (int ?n) s1 =
        (slice c (win_pos c (magic = PE32P)) ?n, s')"
      "win_pos c (magic = PE32P) + ?n \<le> length c \<longrightarrow>
        at_pos ct ps c (win_pos c (magic = PE32P) + ?n) s'"
    using pe_read_at [OF R at1, of "new_block (px_junk X) ?n" ?n] by auto
  have "pe_read_windows X magic s = (parse_windows c (magic = PE32P), s')"
    using s'(1)
    by (cases "slice c (win_pos c (magic = PE32P)) ?n")
      (auto simp: pe_read_windows_def s1_def parse_windows_def load_windows_fields_spec [unfolded win_len_def, simplified]
        win_len_def sizeof_windows_fields_def sizeof_windows_fields_32_def sbind_def dest!: slice_InrD)
  moreover have "parse_windows c (magic = PE32P) = Inr w \<Longrightarrow>
      win_pos c (magic = PE32P) + ?n \<le> length c" for w
    by (auto simp: parse_windows_def slice_def split: if_splits)
  ultimately show ?thesis
    using s'(2) by auto
qed

lemma pe_read_table_ok:
  assumes R: "rstream_spec (px_stream X) ct ps" and at: "at_pos ct ps c p s" and n: "n < 2 ^ 31"
  shows "\<exists>s'. pe_read_table X n s = (slice c p n, s') \<and>
    (\<forall>m. slice c p n = Inr m \<longrightarrow> at_pos ct ps c (p + n) s')"
proof -
  have i: "to_int n = int n"
    using n by (simp add: to_int_def signed_of_nat signed_take_bit_int_eq_self)
  obtain s' where "pe_read X (new_block (px_junk X) n) (int n) s = (slice c p n, s')"
      "p + n \<le> length c \<longrightarrow> at_pos ct ps c (p + n) s'"
    using pe_read_at [OF R at, of "new_block (px_junk X) n" n] by auto
  then show ?thesis
    using n by (auto simp: pe_read_table_def alloc_def i slice_def split: if_splits)
qed

definition pe_object ::
  "'s \<Rightarrow> coff_header_t \<times> standard_coff_fields_t \<times> windows_specific_fields_t \<times> mem \<times> mem \<Rightarrow>
   's pe_file" where
  "pe_object s = (\<lambda>(h, f, w, dirs, table).
     \<lparr>pe_s = s, pe_coff = h, pe_std = f, pe_win = w, pe_dirs = dirs, pe_table = table,
      pe_strings = None, pe_strings_size = 0,
      pe_sects = replicate (unat (ch_number_of_sections h)) pe_section_new\<rparr>)"

text \<open>A part of the constructor that gives what a part of the parser gives, and its rest.\<close>

lemma parse_bind:
  assumes "m s = (r, s1)"
    and "\<And>v. r = Inr v \<Longrightarrow> \<exists>s'. (\<not> isl (k' v) \<longrightarrow> P s') \<and> k v s1 = (map_sum id (G s') (k' v), s')"
  shows "\<exists>s'. (\<not> isl (rbind r k') \<longrightarrow> P s') \<and> sbind m k s = (map_sum id (G s') (rbind r k'), s')"
  using assms by (cases r) auto

lemma pe_tables_ok:
  assumes R: "rstream_spec (px_stream X) ct ps" and at: "at_pos ct ps c p s" and n: "n < 2 ^ 31" "k < 2 ^ 31"
  shows "\<exists>s'. (\<not> isl (rbind (slice c p n) (\<lambda>dirs. rbind (slice c (p + n) k) (\<lambda>table. Inr (F dirs table)))) \<longrightarrow>
      ct s' = c) \<and>
    sbind (pe_read_table X n) (\<lambda>dirs. sbind (pe_read_table X k) (\<lambda>table.
      sbind sget (\<lambda>s. sreturn (G s (F dirs table))))) s =
    (map_sum id (G s') (rbind (slice c p n) (\<lambda>dirs. rbind (slice c (p + n) k) (\<lambda>table. Inr (F dirs table)))), s')"
proof -
  obtain s1 where s1: "pe_read_table X n s = (slice c p n, s1)"
      "\<forall>m. slice c p n = Inr m \<longrightarrow> at_pos ct ps c (p + n) s1"
    using pe_read_table_ok [OF R at n(1)] by blast
  show ?thesis
  proof (rule parse_bind [where P = "\<lambda>s. ct s = c"], rule s1(1))
    fix dirs assume "slice c p n = Inr dirs"
    then have "at_pos ct ps c (p + n) s1"
      using s1(2) by simp
    then obtain s2 where s2: "pe_read_table X k s1 = (slice c (p + n) k, s2)"
        "\<forall>m. slice c (p + n) k = Inr m \<longrightarrow> ct s2 = c"
      using pe_read_table_ok [OF R _ n(2), of c "p + n" s1] by (auto simp: at_pos_def)
    show "\<exists>s'. (\<not> isl (rbind (slice c (p + n) k) (\<lambda>table. Inr (F dirs table))) \<longrightarrow> ct s' = c) \<and>
        sbind (pe_read_table X k) (\<lambda>table. sbind sget (\<lambda>s. sreturn (G s (F dirs table)))) s1 =
        (map_sum id (G s') (rbind (slice c (p + n) k) (\<lambda>table. Inr (F dirs table))), s')"
      by (rule parse_bind [where P = "\<lambda>s. ct s = c"], rule s2(1)) (use s2(2) in auto)
  qed
qed

text \<open>The constructor; the stream keeps its content when it succeeds.\<close>

lemma pe_File_new_ok:
  assumes R: "rstream_spec (px_stream X) ct ps" and c: "ct s = c"
    and len: "PE_MSDOS_OFFSET \<le> length c" "pe_start c \<le> length c"
    and rva: "dirs_fit c"
  shows "\<exists>s'. (\<not> isl (parse_pe (px_hex X) c) \<longrightarrow> ct s' = c) \<and>
    pe_File_new X s = (map_sum id (pe_object s') (parse_pe (px_hex X) c), s')"
proof -
  let ?coff = "rbind (slice c PE_MSDOS_OFFSET 4) (\<lambda>_. parse_coff (px_hex X) c)"
  obtain s1 where s1: "pe_read_coff X s = (?coff, s1)"
      "\<forall>h. ?coff = Inr h \<longrightarrow> at_pos ct ps c (pe_start c + 24) s1"
    using pe_read_coff_ok [OF R c len] by blast
  have parse: "parse_pe (px_hex X) c = rbind ?coff (\<lambda>h. rbind (parse_standard c) (\<lambda>f.
      rbind (parse_windows c (sf_magic f = PE32P)) (\<lambda>w.
      rbind (slice c (win_pos c (sf_magic f = PE32P) + win_len (sf_magic f = PE32P))
          (unat (wf_number_of_rva_and_sizes w) * 8)) (\<lambda>dirs.
      rbind (slice c (win_pos c (sf_magic f = PE32P) + win_len (sf_magic f = PE32P) +
            unat (wf_number_of_rva_and_sizes w) * 8) (unat (ch_number_of_sections h) * 40)) (\<lambda>table.
        Inr (h, f, w, dirs, table))))))"
    by (simp only: parse_pe_def Let_def rbind_assoc)
  show ?thesis
    unfolding pe_File_new_def parse
  proof (rule parse_bind [where P = "\<lambda>s. ct s = c"], rule s1(1), goal_cases)
    case (1 h)
    then obtain s2 where s2: "pe_read_standard X s1 = (parse_standard c, s2)"
        "\<forall>f. parse_standard c = Inr f \<longrightarrow> at_pos ct ps c (pe_start c + 52) s2"
      using pe_read_standard_ok [OF R] s1(2) by blast
    have k: "unat (ch_number_of_sections h) * 40 < 2 ^ 31"
      using unsigned_less [of "ch_number_of_sections h", where ?'a = nat] by simp
    show ?case
    proof (rule parse_bind [where P = "\<lambda>s. ct s = c"], rule s2(1), goal_cases)
      case (1 f)
      note std = 1
      then obtain s3 where s3: "pe_read_windows X (sf_magic f) s2 =
            (parse_windows c (sf_magic f = PE32P), s3)"
          "\<forall>w. parse_windows c (sf_magic f = PE32P) = Inr w \<longrightarrow>
            at_pos ct ps c (win_pos c (sf_magic f = PE32P) + win_len (sf_magic f = PE32P)) s3"
        using pe_read_windows_ok [OF R] s2(2) by blast
      show ?case
      proof (rule parse_bind [where P = "\<lambda>s. ct s = c"], rule s3(1), goal_cases)
        case (1 w)
        then have "unat (wf_number_of_rva_and_sizes w) * 8 < 2 ^ 31"
          using rva 1 std by (simp add: dirs_fit_def)
        from pe_tables_ok [OF R _ this k, where c = c and s = s3 and G = pe_object
            and F = "\<lambda>dirs table. (h, f, w, dirs, table)"]
        show ?case
          using s3(2) 1 by (simp add: pe_object_def sizeof_data_directory_def sizeof_section_header_def)
      qed
    qed
  qed
qed

text \<open>C14. The constructor of a PE-COFF file: on a file that holds the offset of the
  header and that position, and whose data directories have a size in bytes that is an
  \<open>int\<close> (fewer than \<open>2 ^ 28\<close> of them), it gives exactly what the parser of the content gives:
  the fields and tables in their places for both PE32 and PE32+, or the exception for a bad
  signature, an unknown type or the first part that the file cuts. (With more directories
  the size passed to \<open>read\<close> wraps around, see \<open>pe_dirs_wrap\<close>.)\<close>

theorem pe_File_new_parses:
  assumes R: "rstream_spec (px_stream X) ct ps" and c: "ct s = c"
    and len: "PE_MSDOS_OFFSET \<le> length c" "pe_start c \<le> length c"
    and rva: "dirs_fit c"
  shows "\<exists>s'. pe_File_new X s = (map_sum id (pe_object s') (parse_pe (px_hex X) c), s')"
  using pe_File_new_ok [OF assms] by blast

text \<open>With \<open>2 ^ 29\<close> data directories, of 4 GB, nothing is read: the size is 0 as an \<open>int\<close>, and
  the block that was allocated for them keeps what its memory had.\<close>

lemma pe_dirs_wrap:
  assumes "rstream_spec (px_stream X) ct ps" and "ps s \<le> length (ct s)"
  shows "\<exists>s'. pe_read_table X (2 ^ 29 * 8) s = (Inr (new_block (px_junk X) (2 ^ 29 * 8)), s')"
proof -
  let ?b = "new_block (px_junk X) (2 ^ 29 * 8)"
  obtain k bs s' where rd: "rs_read (px_stream X) 0 s = (k, bs, s')"
    by (cases "rs_read (px_stream X) 0 s") auto
  have "rs_read (px_stream X) 0 s = (k, bs, s') \<longrightarrow> ps s \<le> length (ct s) \<longrightarrow>
      k = int (min 0 (length (ct s) - ps s)) \<and> bs = bytes_at (ct s) (ps s) (nat k)"
    using assms(1) unfolding rstream_spec_def by blast
  then have "k = 0" "bs = []"
    using rd assms(2) by (simp_all add: bytes_at_def)
  then have "pe_read X ?b 0 s = (Inr ?b, s')"
    using rd by (simp add: pe_read_def pe_fill_def store_at_def)
  moreover have "to_int (2 ^ 29 * 8) = 0" "alloc (px_junk X) (2 ^ 29 * 8) = Inr ?b"
    by (simp_all add: to_int_def alloc_def)
  ultimately show ?thesis
    by (simp only: pe_read_table_def sbind_Inr slift_def) simp
qed

text \<open>A file with one section of four bytes.\<close>

definition pe_sample :: mem where
  "pe_sample =
    [77, 90, 0, 0, 0, 0, 0, 0, 0, 0, 0, 0, 0, 0, 0, 0, 0, 0, 0, 0, 0, 0, 0, 0, 0, 0, 0, 0, 0,
     0, 0, 0, 0, 0, 0, 0, 0, 0, 0, 0, 0, 0, 0, 0, 0, 0, 0, 0, 0, 0, 0, 0, 0, 0, 0, 0, 0, 0, 0,
     0, 64, 0, 0, 0, 80, 69, 0, 0, 76, 1, 1, 0, 0, 0, 0, 0, 0, 0, 0, 0, 0, 0, 0, 0, 96, 0, 2,
     1, 11, 1, 1, 2, 4, 0, 0, 0, 0, 0, 0, 0, 0, 0, 0, 0, 0, 16, 0, 0, 0, 16, 0, 0, 0, 32, 0,
     0, 0, 0, 64, 0, 0, 16, 0, 0, 0, 2, 0, 0, 6, 0, 0, 0, 0, 0, 0, 0, 6, 0, 0, 0, 0, 0, 0, 0,
     0, 48, 0, 0, 0, 2, 0, 0, 0, 0, 0, 0, 3, 0, 0, 0, 0, 16, 0, 0, 0, 16, 0, 0, 0, 16, 0, 0,
     0, 16, 0, 0, 0, 0, 0, 0, 0, 0, 0, 0, 46, 116, 101, 120, 116, 0, 0, 0, 4, 0, 0, 0, 0, 16,
     0, 0, 4, 0, 0, 0, 224, 0, 0, 0, 0, 0, 0, 0, 0, 0, 0, 0, 0, 0, 0, 0, 32, 0, 0, 96, 144,
     144, 195, 204]"

lemma length_pe_sample: "length pe_sample = 228"
  by (simp add: pe_sample_def)

definition pe_sample_env :: "(mem \<times> nat) pe_env" where
  "pe_sample_env =
     \<lparr>px_stream = mem_stream, px_neg = (\<lambda>n s. (- 1, [], s)), px_array = elm_array_ref,
      px_junk = (\<lambda>i. 0xAA), px_hex = (\<lambda>b. []), px_number = (\<lambda>s. None)\<rparr>"

lemma pe_sample_stream: "rstream_spec (px_stream pe_sample_env) fst snd"
  by (simp add: pe_sample_env_def mem_stream_spec)

lemma pe_sample_start: "pe_start pe_sample = 64"
  by (simp add: pe_start_def PE_MSDOS_OFFSET_def load32_def bytes_at_def pe_sample_def le_word_nat)

lemma pe_sample_fields:
  "load16 pe_sample 70 = 1" "load16 pe_sample 86 = 0x102" "load16 pe_sample 88 = PE32"
  "load32 pe_sample 104 = 0x1000" "load32 pe_sample 116 = 0x400000" "load32 pe_sample 180 = 0"
  "load32 pe_sample 196 = 0x1000" "bytes_at pe_sample 64 4 = PE_MAGIC"
  by (simp_all add: load16_def load32_def bytes_at_def pe_sample_def le_word_nat PE32_def
      PE_MAGIC_def)

lemma pe_sample_dirs: "dirs_fit pe_sample"
  by (simp add: dirs_fit_def parse_standard_def parse_windows_def slice_def win_pos_def win_len_def
      pe_opt_def pe_sample_start length_pe_sample spec_standard_fields_def spec_windows_fields_def
      pe_sample_fields PE32_def PE32P_def)

theorem pe_File_new_parses_witness:
  "\<exists>f s'. pe_File_new pe_sample_env (pe_sample, 0) = (Inr f, s') \<and>
    length (pe_sects f) = 1 \<and> pe_type f = program \<and> pe_entry f = 0x401000"
proof -
  have "\<exists>s'. pe_File_new pe_sample_env (pe_sample, 0) =
      (map_sum id (pe_object s') (parse_pe (px_hex pe_sample_env) pe_sample), s')"
    by (rule pe_File_new_parses [OF pe_sample_stream])
      (use pe_sample_dirs in \<open>auto simp: PE_MSDOS_OFFSET_def length_pe_sample pe_sample_start\<close>)
  moreover obtain h f w d t where "parse_pe (px_hex pe_sample_env) pe_sample = Inr (h, f, w, d, t)"
      "ch_number_of_sections h = 1" "ch_characteristics h = 0x102"
      "sf_address_of_entry_point f = 0x1000" "wf_image_base w = 0x400000"
    by (simp add: parse_pe_def slice_def length_pe_sample pe_sample_start PE_MSDOS_OFFSET_def
        parse_coff_def parse_standard_def parse_windows_def win_pos_def win_len_def pe_opt_def Let_def
        spec_coff_header_def spec_standard_fields_def spec_windows_fields_def load_size_def
        pe_sample_fields take_bytes_at PE32_def PE32P_def)
  ultimately show ?thesis
    by (auto simp: pe_object_def pe_type_def pe_entry_def IMAGE_FILE_EXECUTABLE_IMAGE_def)
qed

section \<open>The content of a section\<close>

lemma sbind_assoc: "sbind (sbind m f) g = sbind m (\<lambda>x. sbind (f x) g)"
  by (rule ext) (auto simp: sbind_def split: prod.splits sum.splits)

lemma pe_put_buf_simps:
  assumes "i < length (pe_sects f)" and "f' = f\<lparr>pe_sects := (pe_sects f)[i := (pe_sects f ! i)\<lparr>ps_buf := b\<rparr>]\<rparr>"
  shows "ps_buf (pe_sects f' ! i) = b" "length (pe_sects f') = length (pe_sects f)"
    "pe_hd f' i = pe_hd f i" "pe_s f' = pe_s f"
  using assms by (simp_all add: pe_hd_def)

lemma pe_read_raw_at:
  assumes R: "rstream_spec (px_stream X) ct ps" and c: "ct (pe_s f) = c"
    and i: "i < length (pe_sects f)" and blk: "ps_buf (pe_sects f ! i) = Some blk"
    and h: "h = pe_hd f i" and raw: "unat (hd_size_of_raw_data h) < 2 ^ 31"
    and in': "unat (hd_pointer_to_raw_data h) + unat (hd_size_of_raw_data h) \<le> length c"
  shows "if length blk < unat (hd_size_of_raw_data h)
    then fst (pe_read_raw X i f) = Inl Memory_Fault
    else \<exists>s. ct s = c \<and> pe_read_raw X i f =
      (Inr (), f\<lparr>pe_s := s, pe_sects := (pe_sects f)[i := (pe_sects f ! i)\<lparr>ps_buf :=
         Some (store_at blk 0 (bytes_at c (unat (hd_pointer_to_raw_data h))
           (unat (hd_size_of_raw_data h))))\<rparr>]\<rparr>)"
proof -
  let ?p = "unat (hd_pointer_to_raw_data h)" and ?n = "unat (hd_size_of_raw_data h)"
  have n: "sint (hd_size_of_raw_data h) = int ?n"
    using raw by (rule sint_small)
  obtain ok s1 where mv: "rs_move (px_stream X) ?p (pe_s f) = (ok, s1)"
    by (cases "rs_move (px_stream X) ?p (pe_s f)")
  have "?p \<le> length (ct (pe_s f)) \<longrightarrow> fst (rs_move (px_stream X) ?p (pe_s f)) \<and>
      ct (snd (rs_move (px_stream X) ?p (pe_s f))) = ct (pe_s f) \<and>
      ps (snd (rs_move (px_stream X) ?p (pe_s f))) = ?p"
    using R unfolding rstream_spec_def by blast
  then have s1: "ok" "ct s1 = c" "ps s1 = ?p"
    using mv c in' by simp_all
  obtain k bs s2 where rd: "rs_read (px_stream X) ?n s1 = (k, bs, s2)"
    by (cases "rs_read (px_stream X) ?n s1") auto
  have "rs_read (px_stream X) ?n s1 = (k, bs, s2) \<longrightarrow> ps s1 \<le> length (ct s1) \<longrightarrow>
      k = int (min ?n (length (ct s1) - ps s1)) \<and> bs = bytes_at (ct s1) (ps s1) (nat k) \<and>
      ct s2 = ct s1"
    using R unfolding rstream_spec_def by blast
  moreover have "min ?n (length c - ?p) = ?n"
    using in' by linarith
  ultimately have k: "k = int ?n" "bs = bytes_at c ?p ?n" "ct s2 = c"
    using rd s1 in' by simp_all
  have lb: "length bs = ?n"
    using k(2) in' by simp
  show ?thesis
  proof (cases "length blk < ?n")
    case True
    then show ?thesis
      using s1(1) mv blk rd lb by (simp add: pe_read_raw_def Let_def n pe_fill_def h [symmetric] pe_put_buf_def)
  next
    case False
    then show ?thesis
      using s1(1) mv blk rd k lb
      by (auto simp: pe_read_raw_def Let_def n pe_fill_def h [symmetric] pe_put_buf_def)
  qed
qed

lemma pe_buffer_fresh:
  fixes X :: "'s pe_env"
  assumes i: "i < length (pe_sects f)" and fresh: "ps_buf (pe_sects f ! i) = None" and h: "h = pe_hd f i"
  defines "f1 \<equiv> f\<lparr>pe_sects := (pe_sects f)[i := (pe_sects f ! i)\<lparr>ps_buf :=
      Some (new_block (px_junk X) (unat (hd_virtual_size h)))\<rparr>]\<rparr>"
  shows "pe_buffer X i f =
    sbind (if hd_size_of_raw_data h \<noteq> 0 then pe_read_raw X i else sreturn ()) (\<lambda>_.
    sbind (if hd_size_of_raw_data h < hd_virtual_size h then pe_clear_tail X i else sreturn ()) (\<lambda>_.
    sbind sget (\<lambda>f. sreturn (make_buffer pe_decoder (ps_buf (pe_sects f ! i)) (ucast (hd_virtual_size h)))))) f1"
proof -
  have put: "pe_put_buf i (Some (new_block (px_junk X) (unat (hd_virtual_size h)))) f = (Inr (), f1)"
    by (simp add: pe_put_buf_def f1_def)
  show ?thesis
    by (simp only: pe_buffer_def sbind_units Let_def h [symmetric] fresh if_True simp_thms sbind_assoc
        sbind_Inr put)
qed

text \<open>The read of raw data that fit in the new block of the section.\<close>

lemma pe_read_fits:
  assumes R: "rstream_spec (px_stream X) ct ps" and c: "ct (pe_s f) = c"
    and i: "i < length (pe_sects f)" and h: "h = pe_hd f i"
    and raw: "unat (hd_size_of_raw_data h) < 2 ^ 31" "unat (hd_size_of_raw_data h) \<le> unat (hd_virtual_size h)"
    and in': "unat (hd_pointer_to_raw_data h) + unat (hd_size_of_raw_data h) \<le> length c"
    and blk: "ps_buf (pe_sects f ! i) = Some (new_block (px_junk X) (unat (hd_virtual_size h)))"
  shows "\<exists>f' m. (if hd_size_of_raw_data h \<noteq> 0 then pe_read_raw X i else sreturn ()) f = (Inr (), f') \<and>
    ps_buf (pe_sects f' ! i) = Some m \<and> length m = unat (hd_virtual_size h) \<and> pe_hd f' i = h \<and>
    (hd_size_of_raw_data h = hd_virtual_size h \<longrightarrow>
       m = bytes_at c (unat (hd_pointer_to_raw_data h)) (unat (hd_virtual_size h)))"
proof -
  let ?v = "unat (hd_virtual_size h)" and ?r = "unat (hd_size_of_raw_data h)"
  let ?b = "new_block (px_junk X) ?v" and ?d = "bytes_at c (unat (hd_pointer_to_raw_data h)) ?r"
  show ?thesis
  proof (cases "hd_size_of_raw_data h = 0")
    case True
    then show ?thesis
      using blk h by (intro exI [of _ f] exI [of _ ?b]) (auto simp: new_block_def bytes_at_def)
  next
    case False
    obtain s where s: "pe_read_raw X i f = (Inr (), f\<lparr>pe_s := s, pe_sects := (pe_sects f)
        [i := (pe_sects f ! i)\<lparr>ps_buf := Some (store_at ?b 0 ?d)\<rparr>]\<rparr>)" (is "_ = (_, ?f')")
      using pe_read_raw_at [OF R c i blk h raw(1) in'] raw(2) by auto
    have "length (store_at ?b 0 ?d) = ?v" "?r = ?v \<longrightarrow> store_at ?b 0 ?d = ?d"
      using in' raw(2) by (auto intro: store_at_whole)
    moreover have "ps_buf (pe_sects ?f' ! i) = Some (store_at ?b 0 ?d)" "pe_hd ?f' i = h"
      using i h by (simp_all add: pe_hd_def)
    ultimately show ?thesis
      using s False by (intro exI [of _ ?f'] exI [of _ "store_at ?b 0 ?d"]) auto
  qed
qed

lemma pe_clear_tail_fault:
  assumes "ps_buf (pe_sects f ! i) = Some m" and "length m = unat (hd_virtual_size h)" and "pe_hd f i = h"
    and "hd_size_of_raw_data h < hd_virtual_size h"
  shows "pe_clear_tail X i f = (Inl Memory_Fault, f)"
proof -
  have "unat (hd_virtual_size h - hd_size_of_raw_data h) =
      unat (hd_virtual_size h) - unat (hd_size_of_raw_data h)"
    using assms(4) by (simp add: unat_sub word_le_nat_alt word_less_nat_alt)
  then have "length m < unat (hd_virtual_size h) + unat (hd_virtual_size h - hd_size_of_raw_data h)"
    using assms(2,4) by (simp add: word_less_nat_alt)
  then show ?thesis
    using assms(1,3) by (simp add: pe_clear_tail_def Let_def)
qed

text \<open>C39. The content of a section that lies in the file can be had only when its size in
  memory is its size in the file: then it is the bytes of the file, and it is kept. When
  the file has more (the usual case, as sizes in the file are rounded up) they are written
  past the end of the block; when it has less, the zeros are.\<close>

theorem pe_buffer_outcome:
  assumes R: "rstream_spec (px_stream X) ct ps" and c: "ct (pe_s f) = c"
    and i: "i < length (pe_sects f)" and fresh: "ps_buf (pe_sects f ! i) = None"
    and h: "h = pe_hd f i" and raw: "unat (hd_size_of_raw_data h) < 2 ^ 31"
    and in': "unat (hd_pointer_to_raw_data h) + unat (hd_size_of_raw_data h) \<le> length c"
  shows "if hd_size_of_raw_data h = hd_virtual_size h
    then \<exists>f' m. pe_buffer X i f =
        (Inr (make_buffer pe_decoder (Some m) (ucast (hd_virtual_size h))), f') \<and>
      m = bytes_at c (unat (hd_pointer_to_raw_data h)) (unat (hd_virtual_size h)) \<and>
      ps_buf (pe_sects f' ! i) = Some m
    else fst (pe_buffer X i f) = Inl Memory_Fault"
proof -
  let ?v = "hd_virtual_size h" and ?r = "hd_size_of_raw_data h"
  define f1 where "f1 = f\<lparr>pe_sects := (pe_sects f)[i := (pe_sects f ! i)\<lparr>ps_buf :=
      Some (new_block (px_junk X) (unat ?v))\<rparr>]\<rparr>"
  define rd where "rd = (if ?r \<noteq> 0 then pe_read_raw X i else sreturn ())"
  define cl where "cl = (if ?r < ?v then pe_clear_tail X i else sreturn ())"
  note eq = pe_buffer_fresh [OF i fresh h, of X, folded f1_def rd_def cl_def]
  note f1 = pe_put_buf_simps [OF i f1_def]
  have i1: "i < length (pe_sects f1)" and h1: "h = pe_hd f1 i" and c1: "ct (pe_s f1) = c"
    using f1 i h c by simp_all
  show ?thesis
  proof (cases "unat ?r \<le> unat ?v")
    case True
    from pe_read_fits [OF R c1 i1 h1 raw True in' f1(1)]
    obtain f2 m where f2: "rd f1 = (Inr (), f2)"
      "ps_buf (pe_sects f2 ! i) = Some m" "length m = unat ?v" "pe_hd f2 i = h"
      "?r = ?v \<longrightarrow> m = bytes_at c (unat (hd_pointer_to_raw_data h)) (unat ?v)"
      unfolding rd_def [symmetric] by blast
    show ?thesis
    proof (cases "?r = ?v")
      case same: True
      then show ?thesis
        unfolding eq using f2 by (simp add: cl_def)
    next
      case False
      then have "?r < ?v"
        using True by (simp add: word_less_nat_alt word_unat_eq_iff)
      then have "cl f2 = (Inl Memory_Fault, f2)"
        using pe_clear_tail_fault [OF f2(2,3,4)] by (simp add: cl_def)
      then show ?thesis
        unfolding eq using f2(1) False by simp
    qed
  next
    case False
    then have "?r \<noteq> ?v" "?r \<noteq> 0"
      by auto
    moreover have "fst (pe_read_raw X i f1) = Inl Memory_Fault"
      using pe_read_raw_at [OF R c1 i1 f1(1) h1 raw in'] False by simp
    ultimately show ?thesis
      unfolding eq rd_def by (cases "pe_read_raw X i f1") (simp add: sbind_def)
  qed
qed

definition pe_sample_file :: "mem \<Rightarrow> (mem \<times> nat) pe_file" where
  "pe_sample_file table =
     \<lparr>pe_s = (pe_sample, 0), pe_coff = load_coff_header (drop 64 pe_sample),
      pe_std = load_standard_fields (drop 88 pe_sample),
      pe_win = load_windows_fields_32 (drop 116 pe_sample), pe_dirs = [], pe_table = table,
      pe_strings = None, pe_strings_size = 0, pe_sects = [pe_section_new]\<rparr>"

definition pe_row :: mem where
  "pe_row = bytes_at pe_sample 184 40"

lemma pe_sample_hd:
  "hd_virtual_size (pe_hd (pe_sample_file pe_row) 0) = 4"
  "hd_size_of_raw_data (pe_hd (pe_sample_file pe_row) 0) = 4"
  "hd_pointer_to_raw_data (pe_hd (pe_sample_file pe_row) 0) = 224"
  "hd_characteristics (pe_hd (pe_sample_file pe_row) 0) = 0x60000020"
  by (simp_all add: pe_hd_def pe_sample_file_def sizeof_section_header_def load_section_header_def
      pe_row_def load_bytes_at_slice)
    (simp_all add: load32_def bytes_at_def pe_sample_def le_word_nat)

theorem pe_buffer_outcome_witness:
  "\<exists>f' m. pe_buffer pe_sample_env 0 (pe_sample_file pe_row) =
    (Inr (make_buffer pe_decoder (Some m) 4), f') \<and> m = [0x90, 0x90, 0xC3, 0xCC]"
proof -
  have "if hd_size_of_raw_data (pe_hd (pe_sample_file pe_row) 0) =
      hd_virtual_size (pe_hd (pe_sample_file pe_row) 0)
    then \<exists>f' m. pe_buffer pe_sample_env 0 (pe_sample_file pe_row) =
        (Inr (make_buffer pe_decoder (Some m)
          (ucast (hd_virtual_size (pe_hd (pe_sample_file pe_row) 0)))), f') \<and>
      m = bytes_at pe_sample (unat (hd_pointer_to_raw_data (pe_hd (pe_sample_file pe_row) 0)))
        (unat (hd_virtual_size (pe_hd (pe_sample_file pe_row) 0))) \<and>
      ps_buf (pe_sects f' ! 0) = Some m
    else fst (pe_buffer pe_sample_env 0 (pe_sample_file pe_row)) = Inl Memory_Fault"
    by (rule pe_buffer_outcome [OF pe_sample_stream _ _ _ refl])
      (simp_all add: pe_sample_hd length_pe_sample, simp_all add: pe_sample_file_def pe_section_new_def)
  moreover have "bytes_at pe_sample 224 4 = [0x90, 0x90, 0xC3, 0xCC]"
    by (simp add: bytes_at_def pe_sample_def)
  ultimately show ?thesis
    by (auto simp: pe_sample_hd)
qed

section \<open>Values from the headers\<close>

text \<open>The alignment of a section: as the shift of the mask comes before the
  conjunction, the field of the alignment is never read. The result is 1 when the lowest
  bit, which is reserved, is set, and a shift by a negative number otherwise.\<close>

theorem pe_alignment_outcome:
  "pe_alignment f i =
    (if bit (hd_characteristics (pe_hd f i)) 0 then Inr 1 else Inl Undefined_Shift)"
proof -
  have "(hd_characteristics (pe_hd f i) AND drop_bit 20 IMAGE_SCN_ALIGN_1BYTES) AND 0xf =
      (if bit (hd_characteristics (pe_hd f i)) 0 then 1 else 0)"
    by (rule bit_word_eqI) (auto simp: IMAGE_SCN_ALIGN_1BYTES_def bit_simps)
  then show ?thesis
    by (simp add: pe_alignment_def Let_def)
qed

text \<open>The type of a file: \<open>program\<close> for every image that can be executed, dynamic
  libraries included (the two bits are set together in a library), \<open>library\<close> only for a
  file that is not executable; the entry point and the address type follow the headers.\<close>

theorem pe_type_outcome:
  "(pe_type f = program \<longleftrightarrow> bit (ch_characteristics (pe_coff f)) 1) \<and>
   (pe_type f = library \<longleftrightarrow> bit (ch_characteristics (pe_coff f)) 13 \<and>
     \<not> bit (ch_characteristics (pe_coff f)) 1) \<and>
   (pe_addressType f = address_32 \<longleftrightarrow> bit (ch_characteristics (pe_coff f)) 8) \<and>
   pe_addressType f \<noteq> address_64"
proof -
  have m: "(w AND IMAGE_FILE_EXECUTABLE_IMAGE \<noteq> 0) = bit w 1" "(w AND IMAGE_FILE_DLL \<noteq> 0) = bit w 13"
    "(w AND IMAGE_FILE_32BIT_MACHINE \<noteq> 0) = bit w 8" for w
    unfolding IMAGE_FILE_EXECUTABLE_IMAGE_def IMAGE_FILE_DLL_def IMAGE_FILE_32BIT_MACHINE_def
    using and_exp_eq_0_iff_not_bit [of w 1] and_exp_eq_0_iff_not_bit [of w 13]
      and_exp_eq_0_iff_not_bit [of w 8] by simp_all
  show ?thesis
    using m by (auto simp: pe_type_def pe_addressType_def)
qed

text \<open>The flags computed for a section do not change once they are known.\<close>

definition flags_ok :: "'s pe_file \<Rightarrow> bool" where
  "flags_ok f \<longleftrightarrow> (\<forall>i < length (pe_sects f).
     ps_flags (pe_sects f ! i) = - 1 \<or> ps_flags (pe_sects f ! i) = pe_compute_flags (pe_hd f i))"

text \<open>The flags of a section: whether they were computed before or not, they are the
  ones of the characteristics of its header, and the cache stays right.\<close>

theorem pe_flags_cached:
  assumes "flags_ok f" and "i < length (pe_sects f)"
  shows "\<exists>f'. pe_flags i f = (Inr (pe_compute_flags (pe_hd f i)), f') \<and> flags_ok f' \<and>
    pe_table f' = pe_table f"
  using assms
  by (auto simp: pe_flags_def flags_ok_def Let_def nth_list_update pe_hd_def)

theorem pe_flags_cached_witness:
  "\<exists>f'. pe_flags 0 (pe_sample_file pe_row) =
    (Inr (IS_EXECUTABLE_SECTION OR IS_LOADABLE OR IS_READABLE_SECTION), f')"
proof -
  have "flags_ok (pe_sample_file pe_row)" "0 < length (pe_sects (pe_sample_file pe_row))"
    by (simp_all add: flags_ok_def pe_sample_file_def pe_section_new_def)
  then obtain f' where "pe_flags 0 (pe_sample_file pe_row) =
      (Inr (pe_compute_flags (pe_hd (pe_sample_file pe_row) 0)), f')"
    using pe_flags_cached by blast
  then show ?thesis
    by (simp add: pe_compute_flags_def pe_sample_hd Let_def IMAGE_SCN_MEM_EXECUTE_def
        IMAGE_SCN_CNT_INITIALIZED_DATA_def IMAGE_SCN_LNK_REMOVE_def IMAGE_SCN_MEM_DISCARDABLE_def
        IMAGE_SCN_MEM_READ_def IMAGE_SCN_MEM_WRITE_def IS_EXECUTABLE_SECTION_def IS_LOADABLE_def
        IS_READABLE_SECTION_def)
qed

section \<open>The string table\<close>

definition strings_pos :: "'s pe_file \<Rightarrow> nat" where
  "strings_pos f =
     unat (ch_pointer_to_symbol_table (pe_coff f) + 18 * ch_number_of_symbols (pe_coff f))"

text \<open>The block that is kept: what the file has of the table, then fresh memory.\<close>

definition strings_block :: "'s pe_env \<Rightarrow> mem \<Rightarrow> nat \<Rightarrow> nat \<Rightarrow> mem" where
  "strings_block X c p n = store_at (new_block (px_junk X) n) 0 (bytes_at c p (min n (length c - p)))"

lemma pe_load_strings_at:
  assumes R: "rstream_spec (px_stream X) ct ps" and c: "ct (pe_s f) = c"
    and none: "pe_strings f = None" and p: "strings_pos f + 4 \<le> length c"
    and n: "n = load32 c (strings_pos f) - 4" "unat n < 2 ^ 31"
  shows "\<exists>s'. ct s' = c \<and> pe_load_strings X f =
      (map_sum id (\<lambda>_. ()) (slice c (strings_pos f + 4) (unat n)),
       f\<lparr>pe_s := s', pe_strings_size := n,
         pe_strings := Some (strings_block X c (strings_pos f + 4) (unat n))\<rparr>)"
proof -
  let ?p = "strings_pos f"
  obtain ok s1 where mv: "rs_move (px_stream X) ?p (pe_s f) = (ok, s1)"
    by (cases "rs_move (px_stream X) ?p (pe_s f)")
  have "?p \<le> length (ct (pe_s f)) \<longrightarrow>
      ct (snd (rs_move (px_stream X) ?p (pe_s f))) = ct (pe_s f) \<and>
      ps (snd (rs_move (px_stream X) ?p (pe_s f))) = ?p"
    using R unfolding rstream_spec_def by blast
  then have s1: "at_pos ct ps c ?p s1"
    using mv c p by (simp add: at_pos_def)
  have len: "length (to_le 4 (pe_strings_size f)) = 4"
    by simp
  have sl: "slice c ?p 4 = Inr (bytes_at c ?p 4)" "min 4 (length c - ?p) = 4"
    using p by (simp_all add: slice_def)
  obtain s2 where s2: "at_pos ct ps c (?p + 4) s2"
      "pe_fill X (to_le 4 (pe_strings_size f)) 4 s1 = (Inr (), bytes_at c ?p 4, s2)"
    using pe_fill_at [OF R s1 len] p unfolding sl by (auto simp: store_at_def)
  have i: "sint n = int (unat n)"
    by (rule sint_small [OF n(2)])
  obtain s3 where "ct s3 = c" "pe_fill X (new_block (px_junk X) (unat n)) (int (unat n)) s2 =
      (map_sum id (\<lambda>_. ()) (slice c (?p + 4) (unat n)), strings_block X c (?p + 4) (unat n), s3)"
    using pe_fill_at [OF R s2(1), of "new_block (px_junk X) (unat n)" "unat n"]
    by (auto simp: strings_block_def at_pos_def)
  then show ?thesis
    using none mv s2(2) i n(1)
    by (intro exI [of _ s3]) (simp add: pe_load_strings_def strings_pos_def [symmetric] Let_def load32_bytes_at)
qed

text \<open>The strings of a file with a string table: the string at an offset is the one of
  the table when the file holds the table. When the file cuts it, the first use throws, and
  the following uses read the block of the failed read, without any error.\<close>

theorem pe_getString_outcome:
  assumes R: "rstream_spec (px_stream X) ct ps" and c: "ct (pe_s f) = c"
    and none: "pe_strings f = None" and p: "strings_pos f + 4 \<le> length c"
    and n: "n = load32 c (strings_pos f) - 4" "unat n < 2 ^ 31" and off: "4 \<le> unat off"
  defines "b \<equiv> strings_block X c (strings_pos f + 4) (unat n)"
  shows "fst (pe_getString X off f) =
      (if strings_pos f + 4 + unat n \<le> length c
       then cstr_at (bytes_at c (strings_pos f + 4) (unat n)) (unat off - 4)
       else Inl (Throw (PE_Short_Read (unat n) (int (length c - (strings_pos f + 4)))))) \<and>
    fst (pe_getString X off (snd (pe_getString X off f))) = cstr_at b (unat off - 4)"
proof -
  obtain f' where f': "pe_load_strings X f =
        (map_sum id (\<lambda>_. ()) (slice c (strings_pos f + 4) (unat n)), f')" "pe_strings f' = Some b"
    using pe_load_strings_at [OF R c none p n] b_def by fastforce
  have again: "pe_getString X off f' = (cstr_at b (unat off - 4), f')"
    using f'(2) off by (simp add: pe_getString_def pe_load_strings_def)
  show ?thesis
  proof (cases "strings_pos f + 4 + unat n \<le> length c")
    case True
    then have "b = bytes_at c (strings_pos f + 4) (unat n)"
      unfolding b_def strings_block_def by (subst store_at_whole) simp_all
    then show ?thesis
      using True f' off again by (simp add: pe_getString_def slice_def)
  next
    case False
    then show ?thesis
      using f'(1) again by (simp add: pe_getString_def slice_def)
  qed
qed

theorem pe_getString_outcome_witness:
  "fst (pe_getString pe_sample_env 4 (pe_sample_file pe_row)) =
     Inl (Throw (PE_Short_Read 23113 224)) \<and>
   (\<exists>r. fst (pe_getString pe_sample_env 4 (snd (pe_getString pe_sample_env 4 (pe_sample_file pe_row)))) =
     Inr r)"
proof -
  let ?f = "pe_sample_file pe_row"
  have f: "strings_pos ?f = 0" "pe_strings ?f = None" "fst (pe_s ?f) = pe_sample"
    by (simp_all add: strings_pos_def pe_sample_file_def load_coff_header_def)
      (simp add: load32_def bytes_at_def pe_sample_def le_word_nat)
  have n: "load32 pe_sample 0 - 4 = 23113"
    by (simp add: load32_def bytes_at_def pe_sample_def le_word_nat)
  have b: "0 \<in> set (strings_block pe_sample_env pe_sample 4 23113)"
  proof -
    have "0 \<in> set (bytes_at pe_sample 4 224)"
      by (simp add: bytes_at_def pe_sample_def)
    then show ?thesis
      by (simp add: strings_block_def store_at_def length_pe_sample)
  qed
  show ?thesis
    using pe_getString_outcome [OF pe_sample_stream f(3) f(2), of 23113 4] b
    by (simp add: f(1) n length_pe_sample cstr_at_def)
qed

end
