(* ===== verification/Coffi_Props.thy ===== *)
theory Coffi_Props
  imports Coffi_File
begin

text \<open>
  The properties of the COFF files: what the constructor keeps, the image of the file, the
  types of the symbols, and what the operations do after a failure. Each is applied to a
  file with two sections.
\<close>

section \<open>The sections of a file\<close>

lemma coffi_add_sections_eq:
  "coffi_add_sections L ss f =
     f\<lparr>cf_sections := cf_sections f @ ss, cf_segments := cf_segments f @ filter (coffi_is_segment L) ss\<rparr>"
  by (induction ss arbitrary: f) (simp_all add: Let_def)

definition coffi_opened :: "coffi_lib \<Rightarrow> coffi_reader \<Rightarrow> u64 \<Rightarrow> coffi_file" where
  "coffi_opened L r b =
     \<lparr>cf_reader = r, cf_base = b, cf_sections = cr_sections r,
      cf_segments = filter (coffi_is_segment L) (cr_sections r), cf_symtab = None,
      cf_debug = None, cf_debug_init = False\<rparr>"

lemma coffi_File_new_eq:
  "cl_load L path = Some r \<Longrightarrow>
   coffi_File_new L path = rbind (coffi_base r path) (\<lambda>b. Inr (coffi_opened L r b))"
  by (simp add: coffi_File_new_def coffi_add_sections_eq coffi_opened_def)

text \<open>A file as the provider of segments for \<open>SimpleBuilder\<close>.\<close>

interpretation coffi_segs: segment_provider "coffi_segment_ops L" "\<lambda>f. f = g"
  "\<lambda>f. f = g" "cf_segments g" "coffi_Segment L" coffi_buffer for L g
  by unfold_locales
    (simp_all add: coffi_segment_ops_def coffi_count_def coffi_segment_def vec_at_def)

section \<open>A file\<close>

definition demo_coff :: coffi_reader where
  "demo_coff =
     \<lparr>cr_arch = COFFI_ARCHITECTURE_TI, cr_win_base = None, cr_optional = None,
      cr_sections =
       [\<lparr>cs_name = [116], cs_virtual_address = 0x100, cs_physical_address = 0x200, cs_data_size = 2,
         cs_alignment = 1, cs_flags = 0x20, cs_data = Some [7, 8], cs_data_offset = 0\<rparr>,
        \<lparr>cs_name = [100], cs_virtual_address = 0x300, cs_physical_address = 0x300, cs_data_size = 0,
         cs_alignment = 1, cs_flags = 0x40, cs_data = None, cs_data_offset = 0\<rparr>],
      cr_symbols =
       [\<lparr>cy_name = [102], cy_value = 0x100, cy_type = 0x20, cy_storage_class = 2, cy_section_number = 1\<rparr>,
        \<lparr>cy_name = [120], cy_value = 0x300, cy_type = 0, cy_storage_class = 2, cy_section_number = 2\<rparr>]\<rparr>"

definition demo_lib :: coffi_lib where
  "demo_lib =
     \<lparr>cl_load = (\<lambda>p. if p = ''demo'' then Some demo_coff else None),
      cl_at = (\<lambda>ss i. if 0 \<le> i \<and> nat i < length ss then Inr (Some (ss ! nat i)) else Inl Memory_Fault),
      cl_MEM_EXECUTE = 0x20000000, cl_CNT_CODE = 0x20, cl_CNT_INITIALIZED_DATA = 0x40,
      cl_CNT_UNINITIALIZED_DATA = 0x80, cl_STYP_TEXT = 0x20, cl_STYP_DATA = 0x40, cl_STYP_BSS = 0x80,
      cl_STYP_COPY = 0x10\<rparr>"

lemmas demo_coff_simps = demo_coff_def demo_lib_def coffi_base_def

section \<open>Properties\<close>

text \<open>An open file has the base and all the sections that the library read, and as
  segments those that are not empty and hold code or data, in their order; a position
  outside of these vectors is outside of their memory.\<close>

theorem coffi_File_new_segments:
  assumes "coffi_File_new L path = Inr f" and "cl_load L path = Some r"
  shows "coffi_countSections f = (Inr (int (length (cr_sections r))), f) \<and>
    coffi_section_at i f = (vec_at (cr_sections r) i, f) \<and>
    coffi_count f = (Inr (int (length (filter (coffi_is_segment L) (cr_sections r)))), f) \<and>
    coffi_segment i f = (vec_at (filter (coffi_is_segment L) (cr_sections r)) i, f) \<and>
    cr_arch r \<noteq> COFFI_ARCHITECTURE_NONE \<and>
    (cr_arch r = COFFI_ARCHITECTURE_PE \<longrightarrow> cr_win_base r = Some (cf_base f))"
proof -
  obtain b where "coffi_base r path = Inr b" "f = coffi_opened L r b"
    using assms by (auto simp: coffi_File_new_eq res_iff)
  then show ?thesis
    by (auto simp: coffi_opened_def coffi_countSections_def coffi_section_at_def coffi_count_def
        coffi_segment_def coffi_base_def split: coffi_architecture.splits option.splits)
qed

theorem coffi_File_new_segments_witness:
  "\<exists>f. coffi_File_new demo_lib ''demo'' = Inr f \<and> coffi_count f = (Inr 1, f)"
proof -
  have l: "cl_load demo_lib ''demo'' = Some demo_coff"
    by (simp add: demo_lib_def)
  then obtain f where f: "coffi_File_new demo_lib ''demo'' = Inr f"
    by (simp add: coffi_File_new_eq demo_coff_simps)
  show ?thesis
    using coffi_File_new_segments [OF f l] f
    by (simp add: demo_coff_simps coffi_is_segment_def)
qed

text \<open>The segment of the image for a section, and the image of an open file.\<close>

definition coffi_image_segment :: "coffi_lib \<Rightarrow> 'f \<Rightarrow> coffi_section \<Rightarrow> ('f, coffi_section) image_segment" where
  "coffi_image_segment L p s =
     \<lparr>is_name = cs_name s, is_file = Some p, is_seg = Some s, is_base = cs_physical_address s,
      is_buf = make_buffer little_decoder
        (Some (if coffi_hasContent L s then the (cs_data s) else replicate (unat (cs_data_size s)) 0))
        (cs_data_size s),
      is_flags = IS_TO_FREE OR IS_WRITABLE OR (if coffi_isExecutable L s then IS_EXECUTABLE else 0)\<rparr>"

definition coffi_image :: "coffi_lib \<Rightarrow> 'f \<Rightarrow> coffi_reader \<Rightarrow> ('f, coffi_section) image" where
  "coffi_image L p r =
     \<lparr>im_prog = p, im_links = [(p, 0)],
      im_segs = map (coffi_image_segment L p)
        (filter (\<lambda>s. coffi_is_segment L s \<and> cs_data s \<noteq> None) (cr_sections r))\<rparr>"

lemma coffi_make_opened:
  assumes A: "elm_array_spec A"
    and fit: "\<forall>s \<in> set (cr_sections r). unat (cs_data_size s) < 2 ^ 63 \<and>
      (\<forall>m. cs_data s = Some m \<longrightarrow> length m = unat (cs_data_size s))"
    and k: "length (filter (coffi_is_segment L) (cr_sections r)) < k"
  shows "coffi_make A junk L k p (coffi_opened L r b) =
    (Inr (Some (coffi_image L p r)), coffi_opened L r b)"
proof -
  let ?ss = "filter (coffi_is_segment L) (cr_sections r)" and ?f = "coffi_opened L r b"
  have ss: "cf_segments ?f = ?ss"
    by (simp add: coffi_opened_def)
  have fits: "\<forall>s \<in> set ?ss. buffer_fits (coffi_Segment L s) (coffi_buffer s)"
    using fit by (auto simp: buffer_fits_def coffi_Segment_def coffi_buffer_def make_buffer_def)
  have *: "coffi_is_segment L s \<and> mapped (coffi_Segment L s) (coffi_buffer s) \<longleftrightarrow>
      coffi_is_segment L s \<and> cs_data s \<noteq> None" for s
    by (auto simp: mapped_def coffi_Segment_def coffi_buffer_def make_buffer_def coffi_is_segment_def)
  have "spec_segment p s (coffi_Segment L s) (coffi_buffer s) = coffi_image_segment L p s"
    if "s \<in> set (cr_sections r)" "cs_data s \<noteq> None" for s
    using fit that
    by (auto simp: spec_segment_def coffi_Segment_def coffi_buffer_def make_buffer_def spec_block_def
        segment_flags_def coffi_image_segment_def)
  then show ?thesis
    using coffi_segs.SimpleBuilder_build_ok [OF A, of ?f L ?f k junk p] fits k
    by (auto simp: coffi_make_def coffi_image_def ss * [simplified] intro!: map_cong)
qed

text \<open>C32. The image of a COFF file whose sections have the bytes their sizes say, below \<open>2 ^ 63\<close>: one
  segment for each section of the file that is not empty, holds code or data and has bytes, in
  the order of the file and at its physical address; it holds the bytes of the section, or
  zeros when the section is not initialised, always writable, and the loop of the builder ends.\<close>

theorem coffi_make_image:
  assumes A: "elm_array_spec A" and f: "coffi_File_new L path = Inr f" and r: "cl_load L path = Some r"
    and fit: "\<forall>s \<in> set (cr_sections r). unat (cs_data_size s) < 2 ^ 63 \<and>
      (\<forall>m. cs_data s = Some m \<longrightarrow> length m = unat (cs_data_size s))"
    and k: "length (filter (coffi_is_segment L) (cr_sections r)) < k"
  shows "coffi_make A junk L k p f =
    (Inr (Some \<lparr>im_prog = p, im_links = [(p, 0)],
       im_segs = map (\<lambda>s.
          \<lparr>is_name = cs_name s, is_file = Some p, is_seg = Some s, is_base = cs_physical_address s,
           is_buf = make_buffer little_decoder
             (Some (if coffi_hasContent L s then the (cs_data s) else replicate (unat (cs_data_size s)) 0))
             (cs_data_size s),
           is_flags = IS_TO_FREE OR IS_WRITABLE OR (if coffi_isExecutable L s then IS_EXECUTABLE else 0)\<rparr>)
         (filter (\<lambda>s. coffi_is_segment L s \<and> cs_data s \<noteq> None) (cr_sections r))\<rparr>), f)"
  using coffi_make_opened [OF A fit k] f r
  by (auto simp: coffi_File_new_eq res_iff coffi_image_def coffi_image_segment_def [abs_def])

text \<open>The image of the demonstration file: the second section has no bytes.\<close>

theorem coffi_make_image_witness:
  "\<exists>f im. coffi_File_new demo_lib ''demo'' = Inr f \<and>
    coffi_make elm_array_ref (\<lambda>i. 0xAA) demo_lib 2 () f = (Inr (Some im), f) \<and>
    map is_buf (im_segs im) = [make_buffer little_decoder (Some [7, 8]) 2]"
proof -
  have l: "cl_load demo_lib ''demo'' = Some demo_coff"
    by (simp add: demo_lib_def)
  then obtain f where f: "coffi_File_new demo_lib ''demo'' = Inr f"
    by (simp add: coffi_File_new_eq demo_coff_simps)
  show ?thesis
    using coffi_make_image [OF elm_array_ref_spec f l, of 2 "\<lambda>i. 0xAA" "()"] f
    by (simp add: demo_coff_simps coffi_is_segment_def coffi_hasContent_def)
qed

section \<open>Symbols\<close>

text \<open>
  What a symbol should give. The number of its section counts from 1; 0, -1 and -2 stand
  for an undefined symbol, an absolute value and a symbol of the debugger, without section.
  Here the last section has no symbol either, as in the code. Two words share a flag when a
  bit is set in both.
\<close>

definition symbol_section :: "coffi_section list \<Rightarrow> int \<Rightarrow> coffi_section option" where
  "symbol_section ss n = (if 0 < n \<and> nat n < length ss then Some (ss ! (nat n - 1)) else None)"

definition shares :: "'a::len word \<Rightarrow> 'a word \<Rightarrow> bool" where
  "shares v w \<longleftrightarrow> (\<exists>i < LENGTH('a). bit v i \<and> bit w i)"

definition spec_symbol_type :: "coffi_lib \<Rightarrow> coffi_symbol \<Rightarrow> coffi_section \<Rightarrow> symbol_type" where
  "spec_symbol_type L y s =
     (let data = shares (cs_flags s) (cl_STYP_DATA L) \<or> shares (cs_flags s) (cl_STYP_BSS L) \<or>
            shares (cs_flags s) (cl_STYP_COPY L);
          code = shares (cs_flags s) (cl_STYP_TEXT L) in
      case (data, code, cy_type y = 0, bit (cy_storage_class y) 2) of
        (True, _, _, _) \<Rightarrow> DATA
      | (False, True, True, _) \<Rightarrow> OTHER_TYPE
      | (False, True, False, True) \<Rightarrow> LABEL
      | (False, True, False, False) \<Rightarrow> FUNC
      | (False, False, _, _) \<Rightarrow> NO_TYPE)"

definition coffi_sym_of :: "coffi_lib \<Rightarrow> coffi_section list \<Rightarrow> coffi_symbol \<Rightarrow> coffi_sym" where
  "coffi_sym_of L ss y =
     \<lparr>cm_name = cy_name y,
      cm_type = (case symbol_section ss (cy_section_number y) of
          None \<Rightarrow> NO_TYPE | Some s \<Rightarrow> spec_symbol_type L y s),
      cm_bind = GLOBAL, cm_value = cy_value y\<rparr>"

lemma shares_iff: "shares v w \<longleftrightarrow> v AND w \<noteq> 0" for v w :: "'a::len word"
  by (auto simp: shares_def bit_eq_iff bit_simps dest: bit_imp_le_length)

lemma shares_or: "shares v (a OR b) \<longleftrightarrow> shares v a \<or> shares v b"
  by (auto simp: shares_def bit_simps)

lemma shares_4: "shares v 4 \<longleftrightarrow> bit v 2" for v :: u8
proof -
  have "bit (4 :: u8) i \<longleftrightarrow> i = 2" for i
    using bit_exp_iff [where ?'a = u8, of 2 i] by auto
  then show ?thesis
    by (auto simp: shares_def)
qed

lemma coffi_symbol_type_spec:
  "coffi_symbol_type L y cs = (case cs of None \<Rightarrow> NO_TYPE | Some s \<Rightarrow> spec_symbol_type L y s)"
  by (simp add: coffi_symbol_type_def spec_symbol_type_def Let_def shares_4 shares_or flip: shares_iff
      split: option.splits bool.splits)

text \<open>The numbers for which the access stays inside of the list of \<open>k\<close> sections.\<close>

definition number_ok :: "nat \<Rightarrow> int \<Rightarrow> bool" where
  "number_ok k n \<longleftrightarrow> 0 < n \<and> n < 2 ^ 16 \<or> - (2 ^ 15) \<le> n \<and> n < 0 \<and> k \<le> 2 ^ 15"

definition lib_sections_ok :: "coffi_lib \<Rightarrow> bool" where
  "lib_sections_ok L \<longleftrightarrow> (\<forall>ss i. 0 \<le> i \<and> nat i < length ss \<longrightarrow> cl_at L ss i = Inr (Some (ss ! nat i)))"

lemma coffi_container_eq:
  assumes L: "lib_sections_ok L" and n: "number_ok (length ss) n"
  shows "coffi_container L ss n = Inr (symbol_section ss n)"
proof (cases "0 < n")
  case True
  then have "unat (word_of_int n :: u16) = nat n"
    using n by (simp add: number_ok_def unat_eq_nat_uint uint_word_of_int)
  moreover have "nat (n - 1) < length ss" "nat (n - 1) = nat n - 1" if "nat n < length ss"
    using that by linarith+
  ultimately show ?thesis
    using L True by (auto simp: coffi_container_def lib_sections_ok_def symbol_section_def)
next
  case False
  then have m: "- (2 ^ 15) \<le> n" "n < 0" "length ss \<le> 2 ^ 15"
    using n by (simp_all add: number_ok_def)
  have "(n + 2 ^ 16) mod 2 ^ 16 = n + 2 ^ 16"
    by (rule mod_pos_pos_trivial) (use m(1,2) in simp_all)
  then have "n mod 2 ^ 16 = n + 2 ^ 16"
    by (simp only: mod_add_self2)
  then have "uint (word_of_int n :: u16) = n + 2 ^ 16"
    by (simp add: uint_word_of_int)
  then have "2 ^ 15 \<le> unat (word_of_int n :: u16)"
    using m(1) by (simp add: unat_eq_nat_uint)
  then show ?thesis
    using m(2,3) by (simp add: coffi_container_def symbol_section_def)
qed

text \<open>The table after the symbols, from the table before.\<close>

definition put_all :: "coffi_lib \<Rightarrow> coffi_section list \<Rightarrow> coffi_symbol list \<Rightarrow>
    (u8 list \<Rightarrow> coffi_sym option) \<Rightarrow> u8 list \<Rightarrow> coffi_sym option" where
  "put_all L ss ys m = (\<lambda>x.
     case find (\<lambda>y. cy_name y = x) (rev ys) of Some y \<Rightarrow> Some (coffi_sym_of L ss y) | None \<Rightarrow> m x)"

lemma find_append: "find P (xs @ ys) = (case find P xs of None \<Rightarrow> find P ys | Some x \<Rightarrow> Some x)"
  by (induction xs) auto

lemma coffi_fill_eq:
  assumes "lib_sections_ok L"
  shows "\<forall>y \<in> set ys. number_ok (length ss) (cy_section_number y) \<Longrightarrow>
    cf_symtab f = Some m \<Longrightarrow>
    coffi_fill L ss ys f = (Inr (), f\<lparr>cf_symtab := Some (put_all L ss ys m)\<rparr>)"
proof (induction ys arbitrary: f m)
  case Nil
  then show ?case
    by (simp add: put_all_def)
next
  case (Cons y ys)
  let ?m = "m(cy_name y \<mapsto> coffi_sym_of L ss y)"
  have c: "coffi_container L ss (cy_section_number y) =
      Inr (symbol_section ss (cy_section_number y))"
    by (rule coffi_container_eq [OF assms]) (use Cons.prems(1) in auto)
  have put: "put_all L ss ys ?m = put_all L ss (y # ys) m"
    by (auto simp: put_all_def find_append fun_eq_iff split: option.splits)
  have "coffi_fill L ss ys (f\<lparr>cf_symtab := Some ?m\<rparr>) =
      (Inr (), f\<lparr>cf_symtab := Some (put_all L ss ys ?m)\<rparr>)"
    by (subst Cons.IH [where m = ?m]) (use Cons.prems(1) in simp_all)
  moreover have "coffi_fill L ss (y # ys) f = coffi_fill L ss ys (f\<lparr>cf_symtab := Some ?m\<rparr>)"
    using Cons.prems(2) by (simp add: c coffi_put_symbol_def coffi_sym_of_def coffi_symbol_type_spec)
  ultimately show ?case
    by (simp only: put)
qed

lemma coffi_symbols_fresh:
  assumes "cf_symtab f = None" and "cr_arch (cf_reader f) = COFFI_ARCHITECTURE_TI"
    and "lib_sections_ok L"
    and "\<forall>y \<in> set (cr_symbols (cf_reader f)).
      number_ok (length (cr_sections (cf_reader f))) (cy_section_number y)"
  shows "coffi_symbols L f =
    (let m = put_all L (cr_sections (cf_reader f)) (cr_symbols (cf_reader f)) Map.empty
     in (Inr m, f\<lparr>cf_symtab := Some m\<rparr>))"
  using coffi_fill_eq [OF assms(3,4), of "f\<lparr>cf_symtab := Some Map.empty\<rparr>" Map.empty] assms(1,2)
  by (simp add: coffi_symbols_def Let_def)

text \<open>C33. The symbols of a COFF file of the TI architecture, asked for the first time and again, when
  the library gives the section of each position of its list and the symbols have section
  numbers of 16 bits that are not 0 (a negative one, of an absolute value or of the debugger,
  when the file has at most \<open>2 ^ 15\<close> sections): each name has the last symbol of that name,
  global, with its value and the type that the flags of its section give: \<open>DATA\<close> for data, bss
  and copy, else in code \<open>OTHER_TYPE\<close> without type, \<open>LABEL\<close> with the bit 2 of the storage
  class, \<open>FUNC\<close> otherwise, and no type outside of a section. The position of the section is
  one less than its number, but the test is made on the number, so that the symbols of the last
  section have no type. A file with a symbol of number 0, undefined, is out of this: the code
  looks for its section at the position -1 (\<open>coffi_symbols_undefined\<close>).\<close>

theorem coffi_symbols_last:
  assumes "cf_symtab f = None" and "cr_arch (cf_reader f) = COFFI_ARCHITECTURE_TI"
    and "lib_sections_ok L"
    and "\<forall>y \<in> set (cr_symbols (cf_reader f)).
      number_ok (length (cr_sections (cf_reader f))) (cy_section_number y)"
  shows "\<exists>m f'. coffi_symbols L f = (Inr m, f') \<and> coffi_symbols L f' = (Inr m, f') \<and>
    (\<forall>x. m x = map_option (coffi_sym_of L (cr_sections (cf_reader f)))
      (find (\<lambda>y. cy_name y = x) (rev (cr_symbols (cf_reader f))))) \<and>
    (\<forall>y \<in> set (cr_symbols (cf_reader f)).
      int (length (cr_sections (cf_reader f))) \<le> cy_section_number y \<longrightarrow>
        cm_type (coffi_sym_of L (cr_sections (cf_reader f)) y) = NO_TYPE)"
  using coffi_symbols_fresh [OF assms]
  by (auto simp: coffi_symbols_def put_all_def coffi_sym_of_def symbol_section_def Let_def
      split: option.splits)

text \<open>A symbol of number 0 is looked for at the position -1 of the sections, before any
  later one: what the access to the list gives there is the outcome of the whole table.\<close>

lemma coffi_fill_append:
  "coffi_fill L ss (xs @ ys) = sbind (coffi_fill L ss xs) (\<lambda>_. coffi_fill L ss ys)"
  by (induction xs) (auto simp: sbind_def fun_eq_iff split: prod.splits sum.splits)

theorem coffi_symbols_undefined:
  assumes "cf_symtab f = None" and "cr_arch (cf_reader f) = COFFI_ARCHITECTURE_TI"
    and "lib_sections_ok L" and "cr_symbols (cf_reader f) = xs @ y # ys"
    and "\<forall>x \<in> set xs. number_ok (length (cr_sections (cf_reader f))) (cy_section_number x)"
    and "cy_section_number y = 0" and "cr_sections (cf_reader f) \<noteq> []"
    and "cl_at L (cr_sections (cf_reader f)) (- 1) = Inl e"
  shows "\<exists>f'. coffi_symbols L f = (Inl e, f')"
  using coffi_fill_eq [OF assms(3,5), of "f\<lparr>cf_symtab := Some Map.empty\<rparr>" Map.empty] assms
  by (auto simp: coffi_symbols_def coffi_fill_append coffi_container_def)

theorem coffi_symbols_last_witness:
  "\<exists>m f'. coffi_symbols demo_lib (coffi_opened demo_lib demo_coff 0) = (Inr m, f') \<and>
    map_option cm_type (m [102]) = Some FUNC \<and> map_option cm_type (m [120]) = Some NO_TYPE"
proof -
  have "lib_sections_ok demo_lib"
    by (simp add: lib_sections_ok_def demo_lib_def)
  then show ?thesis
    using coffi_symbols_last [of "coffi_opened demo_lib demo_coff 0" demo_lib]
    by (auto simp: coffi_opened_def demo_coff_simps coffi_sym_of_def symbol_section_def
        spec_symbol_type_def shares_iff number_ok_def)
qed

section \<open>After a failure\<close>

lemma find_map: "find P (map g xs) = map_option g (find (\<lambda>x. P (g x)) xs)"
  by (induction xs) auto

lemma find_nth: "map_option ((!) xs) (find (\<lambda>j. P (xs ! j)) [0..<length xs]) = find P xs"
  by (simp add: find_map [symmetric] map_nth)

text \<open>The tables of a file are marked as made before they are: when the symbols of a file
  of another architecture are asked for, the assertion fails and the next call gives an empty
  table; when the reading of the lines fails, the next call says that there are none.\<close>

theorem coffi_after_failure:
  assumes "cf_symtab f = None" and "cr_arch (cf_reader f) \<noteq> COFFI_ARCHITECTURE_TI"
    and "\<not> cf_debug_init f" and "cf_debug f = None"
    and "find (\<lambda>s. cs_name s = str_bytes ''.debug_line'') (cf_sections f) = Some s"
    and "DebugLine_buffer J n k (coffi_buffer s) = Inl e"
  shows "\<exists>f1 f2. coffi_symbols L f = (Inl Assert_Failure, f1) \<and>
    coffi_symbols L f1 = (Inr Map.empty, f1) \<and>
    coffi_debugLines J n k f = (Inl e, f2) \<and> coffi_debugLines J n k f2 = (Inr None, f2)"
proof -
  let ?g = "f\<lparr>cf_debug_init := True\<rparr>"
  have "\<exists>g. gel_find_from (\<lambda>i. coffi_section_at (int i)) (\<lambda>s. sreturn (cs_name s)) x i k' ?g =
      (Inr (map_option ((!) (cf_sections f)) (find (\<lambda>j. cs_name (cf_sections f ! j) = x) [i..<i + k'])), g) \<and>
      g = ?g" if "i + k' \<le> length (cf_sections f)" for x i k'
    by (rule gel_find_from_inv) (use that in \<open>auto simp: coffi_section_at_def vec_at_def\<close>)
  from this [of 0 "length (cf_sections f)"]
  have "coffi_findSection (str_bytes ''.debug_line'') ?g =
      (Inr (map_option ((!) (cf_sections f))
        (find (\<lambda>j. cs_name (cf_sections f ! j) = str_bytes ''.debug_line'') [0..<length (cf_sections f)])), ?g)"
    by (simp add: coffi_findSection_def gel_findSection_def coffi_countSections_def)
  also have "map_option ((!) (cf_sections f))
      (find (\<lambda>j. cs_name (cf_sections f ! j) = str_bytes ''.debug_line'') [0..<length (cf_sections f)]) = Some s"
    using assms(5) find_nth [where P = "\<lambda>s. cs_name s = str_bytes ''.debug_line''" and xs = "cf_sections f"] by simp
  finally have "coffi_findSection (str_bytes ''.debug_line'') ?g = (Inr (Some s), ?g)" .
  then have "coffi_debugLines J n k f = (Inl e, ?g)"
    using assms(3,6) by (simp add: coffi_debugLines_def)
  moreover have "coffi_symbols L f = (Inl Assert_Failure, f\<lparr>cf_symtab := Some Map.empty\<rparr>)"
    using assms(1,2) by (simp add: coffi_symbols_def require_def)
  ultimately show ?thesis
    using assms(4) by (auto simp: coffi_symbols_def coffi_debugLines_def)
qed

text \<open>A section of lines without bytes: its first read fails.\<close>

definition lines_coff :: coffi_file where
  "lines_coff =
     (coffi_opened demo_lib demo_coff 0)
       \<lparr>cf_reader := demo_coff\<lparr>cr_arch := COFFI_ARCHITECTURE_PE\<rparr>,
        cf_sections :=
         [\<lparr>cs_name = str_bytes ''.debug_line'', cs_virtual_address = 0, cs_physical_address = 0,
           cs_data_size = 1, cs_alignment = 1, cs_flags = 0, cs_data = Some [0], cs_data_offset = 0\<rparr>]\<rparr>"

theorem coffi_after_failure_witness:
  "\<exists>f2. coffi_debugLines (\<lambda>d s. s) 0 1 lines_coff = (Inl (Throw Debug_Line_Error), f2) \<and>
    coffi_debugLines (\<lambda>d s. s) 0 1 f2 = (Inr None, f2)"
proof -
  have "case DebugLine_buffer (\<lambda>d s. s) 0 1 (coffi_buffer (hd (cf_sections lines_coff))) of
      Inl x \<Rightarrow> x = Throw Debug_Line_Error | Inr _ \<Rightarrow> False"
    by code_simp
  then have e: "DebugLine_buffer (\<lambda>d s. s) 0 1 (coffi_buffer (hd (cf_sections lines_coff))) =
      Inl (Throw Debug_Line_Error)"
    by (auto split: sum.splits)
  have f: "cf_symtab lines_coff = None" "cr_arch (cf_reader lines_coff) \<noteq> COFFI_ARCHITECTURE_TI"
    "\<not> cf_debug_init lines_coff" "cf_debug lines_coff = None"
    "find (\<lambda>s. cs_name s = str_bytes ''.debug_line'') (cf_sections lines_coff) =
      Some (hd (cf_sections lines_coff))"
    by (simp_all add: lines_coff_def coffi_opened_def)
  show ?thesis
    using coffi_after_failure [OF f e, of demo_lib] by blast
qed

end
