(* ===== verification/Manager_Props.thy ===== *)
theory Manager_Props
  imports Gel_Manager Elf_Image Pecoff_Props Coffi_Props
begin

text \<open>The properties of the manager and of the dump of a buffer.\<close>

section \<open>Opening\<close>

lemma rs_read_start:
  assumes "rstream_spec R ct ps" and "ps s = 0" and "rs_read R n s = (k, bs, s')"
  shows "k = int (min n (length (ct s))) \<and> bs = take (nat k) (ct s) \<and> ct s' = ct s"
proof -
  have "\<forall>n s k bs s'. rs_read R n s = (k, bs, s') \<longrightarrow> ps s \<le> length (ct s) \<longrightarrow>
      k = int (min n (length (ct s) - ps s)) \<and> bs = bytes_at (ct s) (ps s) (nat k) \<and> ct s' = ct s"
    using assms(1) unfolding rstream_spec_def by blast
  from this [rule_format, OF assms(3)] show ?thesis
    using assms(2) by (simp add: bytes_at_def)
qed

lemma mg_read_ok:
  assumes R: "rstream_spec (px_stream (mg_pe M)) ct ps" and p: "ps s = 0" and n: "n \<le> length (ct s)"
  shows "\<exists>s'. mg_read M n s = (int n, take n (ct s), s') \<and> ct s' = ct s"
proof -
  obtain k bs s' where rd: "rs_read (px_stream (mg_pe M)) n s = (k, bs, s')"
    by (metis prod.collapse)
  then have "k = int n" "bs = take n (ct s)" "ct s' = ct s"
    using rs_read_start [OF R p rd] n by simp_all
  then show ?thesis
    using rd n by (simp add: mg_read_def store_at_def)
qed

lemma mg_read_short:
  assumes R: "rstream_spec (px_stream (mg_pe M)) ct ps" and p: "ps s = 0" and n: "length (ct s) < n"
  shows "\<exists>m s'. mg_read M n s = (int (length (ct s)), m, s') \<and> ct s' = ct s"
proof -
  obtain k bs s' where rd: "rs_read (px_stream (mg_pe M)) n s = (k, bs, s')"
    by (metis prod.collapse)
  then have "k = int (length (ct s))" "ct s' = ct s"
    using rs_read_start [OF R p rd] n by simp_all
  then show ?thesis
    using rd by (simp add: mg_read_def)
qed

lemma elf_matches_take:
  "4 \<le> n \<Longrightarrow> 4 \<le> length c \<Longrightarrow> elf_matches (take n c) \<longleftrightarrow> take 4 c = ELFMAG"
  by (auto simp: elf_matches_def ELFMAG_def list_eq_iff_nth_eq less_Suc_eq eval_nat_numeral)

lemma mg_elf_stream [simp]: "env_stream (mg_elf M) = px_stream (mg_pe M)"
  by (simp add: mg_elf_def)

text \<open>What the content of an ELF file gives; \<open>s\<close> is the stream that the file keeps.\<close>

definition spec_open_elf32 :: "mem \<Rightarrow> 's \<Rightarrow> 's elf_file res" where
  "spec_open_elf32 c s =
     (if length c < sizeof_Elf32_Ehdr then Inl (Throw (Cannot_Read (word_of_nat sizeof_Elf32_Ehdr)))
      else if e_shnum32 (elf32_header c) \<le> e_shstrndx32 (elf32_header c) then Inl (Throw Malformed_ELF)
      else Inr (new_elf_file s (H32 (elf32_header c))))"

definition spec_open_elf64 :: "mem \<Rightarrow> 's \<Rightarrow> 's elf_file res" where
  "spec_open_elf64 c s =
     (if length c < sizeof_Elf64_Ehdr then Inl (Throw (Cannot_Read (word_of_nat sizeof_Elf64_Ehdr)))
      else if e_shnum64 (elf64_header c) \<le> e_shstrndx64 (elf64_header c) then Inl (Throw Malformed_ELF)
      else Inr (new_elf_file s (H64 (elf64_header c))))"

definition spec_open_elf :: "mem \<Rightarrow> 's \<Rightarrow> 's elf_file res" where
  "spec_open_elf c s =
     (if length c < EI_NIDENT then Inl (Throw Not_An_ELF)
      else if take 4 c \<noteq> ELFMAG then Inl (Throw Bad_ELF_Header)
      else if c ! EI_CLASS = ELFCLASS32 then spec_open_elf32 c s
      else if c ! EI_CLASS = ELFCLASS64 then spec_open_elf64 c s
      else Inl (Throw (Unknown_ELF_Class (c ! EI_CLASS))))"

lemma File32_new_spec:
  assumes "rstream_spec (env_stream E) ct ps" and "ct s = c" and "take 4 c = ELFMAG"
    and "c ! EI_CLASS = ELFCLASS32"
  shows "\<exists>s'. ct s' = c \<and> File32_new E s = spec_open_elf32 c s'"
  using File32_new_eq [OF assms(1), of s] File32_new_short [OF assms(1), of s] assms(2-)
  by (cases "length c < sizeof_Elf32_Ehdr") (auto simp: spec_open_elf32_def)

lemma File64_new_spec:
  assumes "rstream_spec (env_stream E) ct ps" and "ct s = c" and "take 4 c = ELFMAG"
    and "c ! EI_CLASS = ELFCLASS64"
  shows "\<exists>s'. ct s' = c \<and> File64_new E s = spec_open_elf64 c s'"
  using File64_new_eq [OF assms(1), of s] File64_new_short [OF assms(1), of s] assms(2-)
  by (cases "length c < sizeof_Elf64_Ehdr") (auto simp: spec_open_elf64_def)

lemma openELFFile_stream_ok:
  assumes R: "rstream_spec (px_stream (mg_pe M)) ct ps" and p: "ps s = 0" and c: "ct s = c"
  shows "\<exists>s'. ct s' = c \<and> openELFFile_stream M s = spec_open_elf c s'"
proof (cases "length c < EI_NIDENT")
  case True
  then show ?thesis
    using mg_read_short [OF R p, of EI_NIDENT] c
    by (force simp: openELFFile_stream_def spec_open_elf_def)
next
  case False
  then obtain s1 where s1: "mg_read M EI_NIDENT s = (int EI_NIDENT, take EI_NIDENT c, s1)" "ct s1 = c"
    using mg_read_ok [OF R p, of EI_NIDENT] c by auto
  have R': "rstream_spec (env_stream (mg_elf M)) ct ps"
    using R by simp
  have n: "EI_CLASS < EI_NIDENT" "elf_matches (take EI_NIDENT c) \<longleftrightarrow> take 4 c = ELFMAG"
    using False elf_matches_take [of EI_NIDENT c] by (simp_all add: elf_ident_consts)
  have c64: "ELFCLASS64 \<noteq> ELFCLASS32"
    by (simp add: elf_ident_consts)
  note simps = openELFFile_stream_def spec_open_elf_def s1(1) n
  consider "take 4 c \<noteq> ELFMAG" | "take 4 c = ELFMAG" "c ! EI_CLASS = ELFCLASS32"
    | "take 4 c = ELFMAG" "c ! EI_CLASS = ELFCLASS64"
    | "c ! EI_CLASS \<noteq> ELFCLASS32" "c ! EI_CLASS \<noteq> ELFCLASS64"
    by blast
  then show ?thesis
  proof cases
    case 2
    then show ?thesis
      using File32_new_spec [OF R' s1(2)] False by (simp add: simps)
  next
    case 3
    then show ?thesis
      using File64_new_spec [OF R' s1(2)] False c64 by (simp add: simps)
  qed (use False s1(2) in \<open>auto simp: simps\<close>)
qed

text \<open>C1. Opening a file by its content: a file shorter than a magic number is not a binary; the
  four bytes of ELF lead to the class that \<open>e_ident[EI_CLASS]\<close> gives, with the exceptions of a
  short, unknown or malformed header; without COFFI, the two bytes of DOS lead to PE-COFF, and
  any other content is refused with its magic number.\<close>

theorem openFile_outcome:
  assumes R: "rstream_spec (px_stream (mg_pe M)) ct ps" and o: "mg_open M path = Inr s"
    and p: "ps s = 0" and c: "ct s = c" and no_coffi: "mg_coffi M = None"
  shows "\<exists>s'. ct s' = c \<and> openFile M path =
    (if length c < 4 then Inl (Throw Not_A_Binary)
     else if take 4 c = ELFMAG then map_sum id ELF_file (spec_open_elf c s')
     else if c ! 0 = 0x4D \<and> c ! 1 = 0x5A then map_sum id PE_file (openPECOFFFile M s')
     else Inl (Throw (Unknown_Format (take 4 c))))"
proof (cases "length c < 4")
  case True
  then obtain m s1 where s1: "mg_read M 4 s = (int (length c), m, s1)" "ct s1 = c"
    using mg_read_short [OF R p, of 4] c by auto
  have "(word_of_nat (length c) :: u64) < 4"
    using True by (simp add: word_less_nat_alt unat_of_nat_64)
  then show ?thesis
    using True s1 o by (auto simp: openFile_def require_def intro!: exI [of _ s1])
next
  case False
  then obtain s1 where s1: "mg_read M 4 s = (4, take 4 c, s1)" "ct s1 = c"
    using mg_read_ok [OF R p, of 4] c by auto
  let ?s2 = "snd (rs_reset (px_stream (mg_pe M)) s1)"
  have s2: "ct ?s2 = c" "ps ?s2 = 0"
    using R s1(2) unfolding rstream_spec_def by auto
  obtain s3 where s3: "ct s3 = c" "openELFFile_stream M ?s2 = spec_open_elf c s3"
    using openELFFile_stream_ok [OF R s2(2,1)] by blast
  show ?thesis
    using False s1 s2 s3 o no_coffi elf_matches_take [of 4 c]
    by (auto simp: openFile_def require_def pe_matches_def Let_def
        intro: exI [of _ ?s2] exI [of _ s3])
qed

definition demo_manager :: "mem \<Rightarrow> (mem \<times> nat) manager_env" where
  "demo_manager c = \<lparr>mg_open = (\<lambda>p. Inr (c, 0)), mg_pe = pe_sample_env, mg_coffi = None\<rparr>"

theorem openFile_outcome_witness:
  "\<exists>s'. fst s' = sample \<and>
    openFile (demo_manager sample) ''sample'' = Inr (ELF_file (new_elf_file s' sample_head))"
proof -
  have "take 4 sample = ELFMAG" "e_shstrndx32 sample_header < e_shnum32 sample_header"
    by (simp_all add: sample_def elf_ident_consts sample_header_def)
  then have "spec_open_elf sample s' = Inr (new_elf_file s' sample_head)" for s' :: "mem \<times> nat"
    using sample_bytes by (simp add: spec_open_elf_def spec_open_elf32_def length_sample header_sample
        elf_ident_consts sizeof_Elf32_Ehdr_def not_le)
  moreover have "\<not> length sample < 4" "take 4 sample = ELFMAG"
    by (simp_all add: length_sample) (simp add: sample_def elf_ident_consts)
  ultimately show ?thesis
    using openFile_outcome [where M = "demo_manager sample" and s = "(sample, 0)" and c = sample
        and path = "''sample''" and ct = fst and ps = snd] pe_sample_stream
    by (auto simp: demo_manager_def)
qed

text \<open>A read error is not seen: the result \<open>-1\<close> of the read becomes the largest size, the
  test on the size succeeds, and the file is identified by the bytes that happen to be in the
  array.\<close>

theorem openFile_read_error:
  assumes "mg_open M path = Inr s" and "rs_read (px_stream (mg_pe M)) 4 s = (- 1, [], s')"
    and "m = new_block (px_junk (mg_pe M)) 4" and "\<not> elf_matches m" and "\<not> pe_matches m"
    and "\<not> coffi_matches m"
  shows "openFile M path = Inl (Throw (Unknown_Format m))"
  using assms by (simp add: openFile_def mg_read_def store_at_def require_def Let_def)

theorem openFile_read_error_witness:
  "openFile \<lparr>mg_open = (\<lambda>p. Inr ([], 0)),
      mg_pe = pe_sample_env\<lparr>px_stream := mem_stream\<lparr>rs_read := (\<lambda>n s. (- 1, [], s))\<rparr>\<rparr>,
      mg_coffi = None\<rparr> ''f'' = Inl (Throw (Unknown_Format [0xAA, 0xAA, 0xAA, 0xAA]))"
proof -
  have "new_block (\<lambda>i. 0xAA) 4 = [0xAA, 0xAA, 0xAA, 0xAA]"
    by (simp add: new_block_def upt_rec)
  then show ?thesis
    using openFile_read_error [where M = "\<lparr>mg_open = (\<lambda>p. Inr ([], 0)),
      mg_pe = pe_sample_env\<lparr>px_stream := mem_stream\<lparr>rs_read := (\<lambda>n s. (- 1, [], s))\<rparr>\<rparr>,
      mg_coffi = None\<rparr>" and path = "''f''" and s = "([], 0)" and s' = "([], 0)"
      and m = "[0xAA, 0xAA, 0xAA, 0xAA]"]
    by (simp add: pe_sample_env_def elf_matches_def pe_matches_def coffi_matches_def elf_ident_consts)
qed

section \<open>The dump of a buffer\<close>

text \<open>The lines of the dump of the bytes \<open>m\<close>: eight bytes in digits, padded, and the
  characters.\<close>

definition dump_row :: "(u8 \<Rightarrow> u8 list) \<Rightarrow> mem \<Rightarrow> u8 list" where
  "dump_row H xs =
     concat (map H xs) @ replicate (2 * (8 - length xs)) 32 @ [32] @
     map dump_char xs @ replicate (8 - length xs) 32 @ [10]"

function dump_rows :: "(u8 \<Rightarrow> u8 list) \<Rightarrow> mem \<Rightarrow> u8 list" where
  "dump_rows H m = (if m = [] then [] else dump_row H (take 8 m) @ dump_rows H (drop 8 m))"
  by pat_completeness auto
termination
  by (relation "measure (\<lambda>(H, m). length m)") auto

declare dump_rows.simps [simp del]

text \<open>Reading a dump back: \<open>G\<close> reads two digits.\<close>

fun undump_row :: "(u8 list \<Rightarrow> u8) \<Rightarrow> nat \<Rightarrow> u8 list \<Rightarrow> mem" where
  "undump_row G 0 s = []"
| "undump_row G (Suc n) s = (if take 2 s = [32, 32] then [] else G (take 2 s) # undump_row G n (drop 2 s))"

function undump :: "(u8 list \<Rightarrow> u8) \<Rightarrow> u8 list \<Rightarrow> mem" where
  "undump G s = (if s = [] then [] else undump_row G 8 s @ undump G (drop 26 s))"
  by pat_completeness auto
termination
  by (relation "measure (\<lambda>(G, s). length s)") auto

declare undump.simps [simp del]

definition digits_ok :: "(u8 \<Rightarrow> u8 list) \<Rightarrow> (u8 list \<Rightarrow> u8) \<Rightarrow> bool" where
  "digits_ok H G \<longleftrightarrow> (\<forall>v. length (H v) = 2 \<and> H v \<noteq> [32, 32] \<and> G (H v) = v)"

lemma length_digits: "digits_ok H G \<Longrightarrow> length (concat (map H xs)) = 2 * length xs"
  by (induction xs) (simp_all add: digits_ok_def)

lemma undump_row_eq:
  assumes "digits_ok H G"
  shows "length xs \<le> n \<Longrightarrow> undump_row G n (concat (map H xs) @ replicate (2 * (n - length xs)) 32 @ ys) = xs"
proof (induction xs arbitrary: n)
  case Nil
  then show ?case
    by (cases n) (simp_all add: eval_nat_numeral)
next
  case (Cons x xs)
  then obtain k where "n = Suc k" "length xs \<le> k"
    by (cases n) auto
  then show ?case
    using Cons.IH [of k] assms by (simp add: digits_ok_def)
qed

lemma length_dump_row: "digits_ok H G \<Longrightarrow> length xs \<le> 8 \<Longrightarrow> length (dump_row H xs) = 26"
  by (simp add: dump_row_def length_digits)

lemma undump_dump:
  assumes "digits_ok H G"
  shows "undump G (dump_rows H m) = m"
proof (induction "length m" arbitrary: m rule: less_induct)
  case less
  show ?case
  proof (cases "m = []")
    case True
    then show ?thesis
      by (simp add: dump_rows.simps undump.simps)
  next
    case False
    let ?s = "dump_row H (take 8 m) @ dump_rows H (drop 8 m)"
    have ih: "undump G (dump_rows H (drop 8 m)) = drop 8 m"
      using less [of "drop 8 m"] False by simp
    have l: "length (dump_row H (take 8 m)) = 26"
      by (rule length_dump_row [OF assms]) simp
    then have "dump_row H (take 8 m) \<noteq> []"
      by auto
    then have "undump G ?s = undump_row G 8 ?s @ undump G (drop 26 ?s)"
      by (subst undump.simps) simp
    also have "\<dots> = undump_row G 8 ?s @ drop 8 m"
      using l ih by simp
    also have "undump_row G 8 ?s = take 8 m"
      unfolding dump_row_def append_assoc by (rule undump_row_eq [OF assms]) simp
    finally show ?thesis
      using False by (simp add: dump_rows.simps [of H m])
  qed
qed

lemma dump_cells_eq:
  assumes "\<And>j. j < n \<Longrightarrow> f (k + word_of_nat j) = Inr (g j)"
  shows "dump_cells f k n = Inr (concat (map g [0..<n]))"
  using assms
proof (induction n arbitrary: k g)
  case (Suc n)
  have "dump_cells f (k + 1) n = Inr (concat (map (\<lambda>j. g (Suc j)) [0..<n]))"
    by (rule Suc.IH) (use Suc.prems [of "Suc j" for j] in \<open>simp add: add.assoc\<close>)
  moreover have "[0..<Suc n] = 0 # map Suc [0..<n]"
    by (simp add: map_Suc_upt upt_conv_Cons del: upt_Suc)
  ultimately show ?case
    using Suc.prems [of 0] by (simp add: comp_def del: upt_Suc)
qed simp

lemma dump_cells_row:
  assumes "\<And>j. j < n \<Longrightarrow> f (k + word_of_nat j) = Inr (if j < length xs then h (xs ! j) else pad)"
  shows "dump_cells f k n = Inr (concat (map h (take n xs)) @ concat (replicate (n - length xs) pad))"
proof -
  have "concat (map (\<lambda>j. if j < length xs then h (xs ! j) else pad) [0..<n]) =
      concat (map h (take n xs)) @ concat (replicate (n - length xs) pad)"
  proof (induction n arbitrary: xs)
    case (Suc n)
    have u: "[0..<Suc n] = 0 # map Suc [0..<n]"
      by (simp add: map_Suc_upt upt_conv_Cons del: upt_Suc)
    show ?case
    proof (cases xs)
      case Nil
      then show ?thesis
        using Suc.IH [of "[]"] by (simp add: u comp_def del: upt_Suc)
    next
      case (Cons y ys)
      show ?thesis
        unfolding Cons using Suc.IH [of ys] by (simp add: u comp_def del: upt_Suc cong: if_cong)
    qed
  qed simp
  then show ?thesis
    using dump_cells_eq [of n f k "\<lambda>j. if j < length xs then h (xs ! j) else pad"] assms by simp
qed

definition whole_buffer :: "decoder \<Rightarrow> mem \<Rightarrow> buffer" where
  "whole_buffer d m = make_buffer d (Some m) (word_of_nat (length m))"

lemma get_whole:
  assumes "length m < 2 ^ 63" and "p < 2 ^ 63"
  shows "word_of_nat p < buf_size (whole_buffer d m) \<longleftrightarrow> p < length m"
    and "p < length m \<Longrightarrow> get_u8 (whole_buffer d m) (word_of_nat p) = Inr (m ! p)"
proof -
  have n: "unat (word_of_nat (length m) :: u64) = length m" "unat (word_of_nat p :: u64) = p"
    using assms by (simp_all add: unat_of_nat_64)
  then show "word_of_nat p < buf_size (whole_buffer d m) \<longleftrightarrow> p < length m"
    by (simp add: whole_buffer_def make_buffer_def word_less_nat_alt)
  show "get_u8 (whole_buffer d m) (word_of_nat p) = Inr (m ! p)" if "p < length m"
    using get_u8_make_buffer [of "word_of_nat p" "word_of_nat (length m)" m d] n that assms(1)
    by (simp add: whole_buffer_def word_less_nat_alt)
qed

lemma concat_replicate: "concat (replicate n (replicate k x)) = replicate (k * n) x"
  by (induction n) (simp_all add: replicate_add)

lemma dump_loop_eq:
  assumes len: "length m < 2 ^ 62"
  shows "p < length m + 8 \<Longrightarrow> length m + 8 \<le> p + 8 * t \<Longrightarrow>
    dump_loop H (whole_buffer d m) t (word_of_nat p) = Inr (dump_rows H (drop p m))"
proof (induction t arbitrary: p)
  case (Suc t)
  let ?b = "whole_buffer d m" and ?xs = "drop p m"
  have p: "p + 8 < 2 ^ 63" "length m < 2 ^ 63"
    using Suc.prems(1) len by simp_all
  have k: "(word_of_nat p :: u64) + word_of_nat j = word_of_nat (p + j)" for j
    by simp
  have cell: "(word_of_nat (p + j) < buf_size ?b \<longleftrightarrow> j < length ?xs) \<and>
      (j < length ?xs \<longrightarrow> get_u8 ?b (word_of_nat (p + j)) = Inr (?xs ! j))" if "j < 8" for j
    using get_whole [OF p(2), of "p + j" d] that p by auto
  show ?case
  proof (cases "p < length m")
    case False
    then show ?thesis
      using cell [of 0] by (simp add: dump_rows.simps)
  next
    case True
    have "dump_cells (dump_digits H ?b) (word_of_nat p) 8 =
        Inr (concat (map H (take 8 ?xs)) @ concat (replicate (8 - length ?xs) [32, 32]))"
      by (rule dump_cells_row) (use cell in \<open>simp add: dump_digits_def k del: of_nat_add\<close>)
    moreover have "dump_cells (dump_text ?b) (word_of_nat p) 8 =
        Inr (concat (map (\<lambda>c. [dump_char c]) (take 8 ?xs)) @ concat (replicate (8 - length ?xs) [32]))"
      by (rule dump_cells_row) (use cell in \<open>simp add: dump_text_def k del: of_nat_add\<close>)
    moreover have "dump_loop H ?b t (word_of_nat p + 8) = Inr (dump_rows H (drop (p + 8) m))"
      using Suc.IH [of "p + 8"] Suc.prems True by (simp add: add.commute)
    moreover have "8 - length (take 8 ?xs) = 8 - length ?xs"
      "2 * (8 - length (take 8 ?xs)) = 2 * (8 - length ?xs)"
      by simp_all
    ultimately have "dump_loop H ?b (Suc t) (word_of_nat p) =
        Inr (dump_row H (take 8 ?xs) @ dump_rows H (drop (p + 8) m))"
      using cell [of 0] True concat_replicate [of "8 - length ?xs" 2 "32 :: u8"]
        concat_replicate [of "8 - length ?xs" 1 "32 :: u8"]
      by (simp add: dump_row_def numeral_2_eq_2 comp_def del: length_drop length_take)
    then show ?thesis
      using True dump_rows.simps [of H ?xs] by (simp add: add.commute)
  qed
qed simp

text \<open>C34. The dump of a buffer of less than \<open>2 ^ 62\<close> bytes ends and shows every byte: reading its
  digits back, eight bytes a line, gives the content of the buffer.\<close>

theorem buffer_dump_roundtrip:
  assumes "digits_ok H G" and "length m < 2 ^ 62" and "length m div 8 + 2 \<le> t"
  shows "\<exists>s. buffer_dump H t (make_buffer d (Some m) (word_of_nat (length m))) = Inr s \<and>
    undump G s = m"
  using dump_loop_eq [OF assms(2), of 0 t H d] undump_dump [OF assms(1)] assms(3)
  by (simp add: buffer_dump_def whole_buffer_def)

definition hex_digit :: "u8 \<Rightarrow> u8" where
  "hex_digit x = (if x < 10 then 48 + x else 87 + x)"

definition hex_value :: "u8 \<Rightarrow> u8" where
  "hex_value c = (if c < 58 then c - 48 else c - 87)"

lemma hex_digit_value: "x < 16 \<Longrightarrow> hex_value (hex_digit x) = x \<and> hex_digit x \<noteq> 32"
proof -
  assume "x < 16"
  then have "unat x \<in> set [0..<16]"
    by (simp add: word_less_nat_alt)
  moreover have "\<forall>n \<in> set [0..<16]. hex_value (hex_digit (word_of_nat n)) = word_of_nat n \<and>
      hex_digit (word_of_nat n) \<noteq> 32"
    by (simp add: upt_rec hex_value_def hex_digit_def)
  moreover have "word_of_nat (unat x) = x"
    by simp
  ultimately show ?thesis
    by metis
qed

lemma hex_digits_ok:
  "digits_ok (\<lambda>v. [hex_digit (v div 16), hex_digit (v mod 16)])
     (\<lambda>s. 16 * hex_value (hd s) + hex_value (s ! 1))"
proof -
  have "v div 16 < 16" "v mod 16 < 16" "16 * (v div 16) + v mod 16 = v" for v :: u8
    using unsigned_less [of v, where ?'a = nat] mult_div_mod_eq [of 16 v]
    by (simp_all add: word_less_nat_alt unat_div unat_mod)
  then show ?thesis
    by (simp add: digits_ok_def hex_digit_value)
qed

theorem buffer_dump_roundtrip_witness:
  "\<exists>s. buffer_dump (\<lambda>v. [hex_digit (v div 16), hex_digit (v mod 16)]) 2
      (make_buffer little_decoder (Some [1, 0x41, 255]) 3) = Inr s \<and>
    undump (\<lambda>s. 16 * hex_value (hd s) + hex_value (s ! 1)) s = [1, 0x41, 255]"
  using buffer_dump_roundtrip [OF hex_digits_ok, of "[1, 0x41, 255]" 2 little_decoder] by simp

end
