(* ===== verification/Dwarf_Leb.thy ===== *)
theory Dwarf_Leb
  imports Dwarf_DebugLine
begin

text \<open>
  LEB128 numbers: their encoders, and the decoders of the line reader on what the
  encoders write.
\<close>

section \<open>One byte\<close>

lemma leb_loop_Cons:
  assumes "cursor_wf c" and "cur_rest c = b # bs" and "p < 64"
  shows "leb_loop c p r =
    (let r' = r OR push_bit p (ucast (b AND 0x7f)) in
     if bit b 7 then leb_loop (cur_adv c 1) (p + 7) r' else Inr ((r', p + 7), cur_adv c 1))"
proof -
  have "b AND 0x80 \<noteq> 0 \<longleftrightarrow> bit b 7"
    using and_exp_eq_0_iff_not_bit [of b 7] by simp
  then show ?thesis
    using assms by (simp add: leb_loop.simps [of c] cur_read_u8_eq Let_def)
qed

lemma leb_payload: "ucast ((word_of_nat n :: u8) AND 0x7f) = (word_of_nat (n mod 128) :: u64)"
proof -
  have m: "(word_of_nat n :: u8) AND 0x7f = take_bit 7 (word_of_nat n)"
    by (simp add: take_bit_eq_mask mask_eq_exp_minus_1)
  have n: "n mod 128 = take_bit 7 n"
    by (simp add: take_bit_eq_mod)
  show ?thesis
    unfolding m n by (intro bit_word_eqI) (auto simp: bit_simps)
qed

lemma bit_7_of_nat: "bit (word_of_nat n :: u8) 7 \<longleftrightarrow> odd (n div 128)"
proof -
  have "bit (word_of_nat n :: u8) 7 \<longleftrightarrow> bit n 7"
    by (simp add: bit_simps)
  then show ?thesis
    by (simp add: bit_iff_odd)
qed

lemma leb_more: "bit (word_of_nat (n mod 128 + 128) :: u8) 7"
  unfolding bit_7_of_nat by (subst div_add_self2) simp_all

lemma leb_last: "n < 128 \<Longrightarrow> \<not> bit (word_of_nat n :: u8) 7"
  unfolding bit_7_of_nat by simp

section \<open>Unsigned numbers\<close>

fun leb_enc_u :: "nat \<Rightarrow> u8 list" where
  "leb_enc_u n =
     (if n < 128 then [word_of_nat n]
      else word_of_nat (n mod 128 + 128) # leb_enc_u (n div 128))"

declare leb_enc_u.simps [simp del]

lemma leb_split:
  "(word_of_nat (n mod 128) :: u64) OR push_bit 7 (word_of_nat (n div 128)) = word_of_nat n"
proof -
  have "n mod 128 = take_bit 7 n" "n div 128 = drop_bit 7 n"
    by (simp_all add: take_bit_eq_mod drop_bit_eq_div)
  then show ?thesis
    by (intro bit_word_eqI) (auto simp: bit_simps)
qed

lemma leb_loop_u:
  "cursor_wf c \<Longrightarrow> cur_rest c = leb_enc_u n @ rest \<Longrightarrow> p < 64 \<Longrightarrow> n < 2 ^ (64 - p) \<Longrightarrow>
   \<exists>q. leb_loop c p r =
     Inr ((r OR push_bit p (word_of_nat n), q), cur_adv c (length (leb_enc_u n)))"
proof (induction n arbitrary: c p r rule: leb_enc_u.induct)
  case (1 n)
  show ?case
  proof (cases "n < 128")
    case True
    then have rest: "cur_rest c = word_of_nat n # rest" and len: "length (leb_enc_u n) = 1"
      using 1(3) by (simp_all add: leb_enc_u.simps [of n])
    show ?thesis
      using leb_loop_Cons [OF 1(2) rest 1(4)] leb_last [OF True] True
      by (simp add: leb_payload len)
  next
    case False
    let ?b = "word_of_nat (n mod 128 + 128) :: u8"
    have rest: "cur_rest c = ?b # leb_enc_u (n div 128) @ rest"
      and len: "length (leb_enc_u n) = Suc (length (leb_enc_u (n div 128)))"
      using 1(3) False by (simp_all add: leb_enc_u.simps [of n])
    have adv: "cursor_wf (cur_adv c 1)" "cur_rest (cur_adv c 1) = leb_enc_u (n div 128) @ rest"
      using cursor_wf_adv [OF 1(2), of 1] rest by simp_all
    have p: "p + 7 < 64"
    proof (rule ccontr)
      assume "\<not> p + 7 < 64"
      then have "64 - p \<le> 7" by simp
      then have "(2 :: nat) ^ (64 - p) \<le> 2 ^ 7"
        by (rule power_increasing) simp
      then show False
        using 1(5) False by simp
    qed
    have "(2 :: nat) ^ (64 - p) = 2 ^ (64 - (p + 7) + 7)"
      by (rule arg_cong [of _ _ "power 2"]) (use p in simp)
    also have "\<dots> = 2 ^ (64 - (p + 7)) * 128"
      by (simp only: power_add) simp
    finally have "n < 2 ^ (64 - (p + 7)) * 128"
      using 1(5) by simp
    then have small: "n div 128 < 2 ^ (64 - (p + 7))"
      by (simp add: div_less_iff_less_mult)
    define r' where "r' = r OR push_bit p (word_of_nat (n mod 128))"
    obtain q where q: "leb_loop (cur_adv c 1) (p + 7) r' =
        Inr ((r' OR push_bit (p + 7) (word_of_nat (n div 128)), q),
             cur_adv (cur_adv c 1) (length (leb_enc_u (n div 128))))"
      using 1(1) [OF False adv p small] by blast
    have "r' OR push_bit (p + 7) (word_of_nat (n div 128)) =
        r OR push_bit p (word_of_nat (n mod 128) OR push_bit 7 (word_of_nat (n div 128)))"
      by (simp add: r'_def push_bit_or or.assoc add.commute)
    also have "\<dots> = r OR push_bit p (word_of_nat n)"
      by (simp only: leb_split)
    finally have res: "r' OR push_bit (p + 7) (word_of_nat (n div 128)) = r OR push_bit p (word_of_nat n)" .
    have mm: "(n mod 128 + 128) mod 128 = n mod 128"
      by simp
    have "leb_loop c p r = leb_loop (cur_adv c 1) (p + 7) r'"
      using leb_loop_Cons [OF 1(2) rest 1(4)] leb_more [of n] leb_payload [of "n mod 128 + 128"]
      by (simp add: r'_def mm Let_def del: of_nat_add)
    then show ?thesis
      using q by (auto simp: res len)
  qed
qed

lemma leb128_u_enc:
  assumes "cursor_wf c" and "cur_rest c = leb_enc_u n @ rest" and "n < 2 ^ 64"
  shows "leb128_u c = Inr (word_of_nat n, cur_adv c (length (leb_enc_u n)))"
proof -
  obtain q where "leb_loop c 0 0 =
      Inr ((0 OR push_bit 0 (word_of_nat n), q), cur_adv c (length (leb_enc_u n)))"
    using leb_loop_u [OF assms(1,2), of 0 0] assms(3) by auto
  then show ?thesis
    by (simp add: leb128_u_def)
qed

section \<open>Signed numbers\<close>

function leb_enc_s :: "int \<Rightarrow> u8 list" where
  "leb_enc_s i =
     (if - 64 \<le> i \<and> i < 64 then [word_of_nat (nat (i mod 128))]
      else word_of_nat (nat (i mod 128) + 128) # leb_enc_s (i div 128))"
  by pat_completeness auto

termination
  by (relation "measure (\<lambda>i. nat \<bar>i\<bar>)") auto

declare leb_enc_s.simps [simp del]

lemma bit_sign:
  assumes "- (2 ^ m) \<le> i" and "i < (2 :: int) ^ m" and "m \<le> k"
  shows "bit i k \<longleftrightarrow> i < 0"
proof -
  have le: "(2 :: int) ^ m \<le> 2 ^ k"
    using assms(3) by (simp add: power_increasing)
  show ?thesis
  proof (cases "i < 0")
    case True
    then have "i div 2 ^ k = - 1"
      using le assms(1) by (intro int_div_pos_eq [where r = "i + 2 ^ k"]) linarith+
    then show ?thesis
      using True by (simp add: bit_iff_odd)
  next
    case False
    then have "i div 2 ^ k = 0"
      using le assms(2) by (intro div_pos_pos_trivial) linarith+
    then show ?thesis
      using False by (simp add: bit_iff_odd)
  qed
qed

lemma sign_extend:
  assumes q: "0 < q" "q < 64" and i: "- (2 ^ (q - 1)) \<le> i" "i < (2 :: int) ^ (q - 1)"
  shows "signed_drop_bit (64 - q) (push_bit (64 - q) (take_bit q (word_of_int i))) = (word_of_int i :: u64)"
proof (rule bit_word_eqI)
  fix k
  assume k: "k < LENGTH(64)"
  have same: "bit i k \<longleftrightarrow> bit i (q - 1)" if "q \<le> k"
    using bit_sign [OF i] that by simp
  show "bit (signed_drop_bit (64 - q) (push_bit (64 - q) (take_bit q (word_of_int i)))  :: u64) k \<longleftrightarrow>
      bit (word_of_int i :: u64) k"
    using q k same by (auto simp: bit_simps)
qed

lemma leb_payload_s: "(word_of_nat (nat (i mod 128)) :: u64) = take_bit 7 (word_of_int i)"
proof -
  have "(word_of_nat (nat (i mod 128)) :: u64) = word_of_int (i mod 128)"
    by (metis of_int_of_nat_eq pos_mod_sign zero_less_numeral int_nat_eq)
  moreover have "i mod 128 = take_bit 7 i"
    by (simp add: take_bit_eq_mod)
  ultimately show ?thesis
    by (auto intro!: bit_word_eqI simp: bit_simps)
qed

lemma leb_split_s:
  "take_bit 7 (word_of_int i :: u64) OR push_bit 7 (take_bit k (word_of_int (i div 128))) =
   take_bit (7 + k) (word_of_int i)"
proof -
  have "i div 128 = drop_bit 7 i"
    by (simp add: drop_bit_eq_div)
  then show ?thesis
    by (intro bit_word_eqI) (auto simp: bit_simps)
qed

definition fits_signed :: "nat \<Rightarrow> int \<Rightarrow> bool" where
  "fits_signed m i \<longleftrightarrow> - (2 ^ m) \<le> i \<and> i < 2 ^ m"

lemma fits_signed_div:
  assumes "fits_signed (m + 7) i"
  shows "fits_signed m (i div 128)"
proof -
  have "- (2 ^ m * 128) \<le> i" "i < 2 ^ m * 128"
    using assms by (simp_all add: fits_signed_def power_add)
  then show ?thesis
    unfolding fits_signed_def by linarith
qed

lemma fits_signed_mult:
  assumes "fits_signed m (i div 128)"
  shows "fits_signed (m + 7) i"
proof -
  have "- (2 ^ m) \<le> i div 128" "i div 128 < 2 ^ m"
    using assms by (simp_all add: fits_signed_def)
  then have "- (2 ^ m * 128) \<le> i" "i < 2 ^ m * 128"
    by linarith+
  then show ?thesis
    by (simp add: fits_signed_def power_add)
qed

lemma length_leb_enc_s: "0 < length (leb_enc_s i)"
  by (simp add: leb_enc_s.simps [of i])

lemma leb_enc_s_fits: "fits_signed (7 * length (leb_enc_s i) - 1) i"
proof (induction i rule: leb_enc_s.induct)
  case (1 i)
  show ?case
  proof (cases "- 64 \<le> i \<and> i < 64")
    case True
    then show ?thesis
      by (simp add: leb_enc_s.simps [of i] fits_signed_def)
  next
    case False
    have e: "7 * length (leb_enc_s i) - 1 = 7 * length (leb_enc_s (i div 128)) - 1 + 7"
      using length_leb_enc_s [of "i div 128"] False by (simp add: leb_enc_s.simps [of i])
    show ?thesis
      unfolding e by (rule fits_signed_mult [OF 1 [OF False]])
  qed
qed

lemma leb_loop_s:
  "cursor_wf c \<Longrightarrow> cur_rest c = leb_enc_s i @ rest \<Longrightarrow> p < 64 \<Longrightarrow> fits_signed (63 - p) i \<Longrightarrow>
   leb_loop c p r =
     Inr ((r OR push_bit p (take_bit (7 * length (leb_enc_s i)) (word_of_int i)),
           p + 7 * length (leb_enc_s i)), cur_adv c (length (leb_enc_s i)))"
proof (induction i arbitrary: c p r rule: leb_enc_s.induct)
  case (1 i)
  let ?m = "nat (i mod 128)"
  have m: "?m < 128"
    by simp
  show ?case
  proof (cases "- 64 \<le> i \<and> i < 64")
    case True
    then have rest: "cur_rest c = word_of_nat ?m # rest" and len: "length (leb_enc_s i) = 1"
      using 1(3) by (simp_all add: leb_enc_s.simps [of i])
    have mm: "?m mod 128 = ?m"
      by (rule mod_less [OF m])
    show ?thesis
      using leb_loop_Cons [OF 1(2) rest 1(4)] leb_last [OF m] leb_payload [of ?m]
      unfolding mm by (simp add: len leb_payload_s Let_def)
  next
    case False
    let ?b = "word_of_nat (?m + 128) :: u8"
    have rest: "cur_rest c = ?b # leb_enc_s (i div 128) @ rest"
      and len: "length (leb_enc_s i) = Suc (length (leb_enc_s (i div 128)))"
      using 1(3) unfolding leb_enc_s.simps [of i] if_not_P [OF False] by simp_all
    have adv: "cursor_wf (cur_adv c 1)" "cur_rest (cur_adv c 1) = leb_enc_s (i div 128) @ rest"
      using cursor_wf_adv [OF 1(2), of 1] rest by simp_all
    have p: "p + 7 < 64"
    proof (rule ccontr)
      assume "\<not> p + 7 < 64"
      then have "63 - p \<le> 6" by simp
      then have "(2 :: int) ^ (63 - p) \<le> 2 ^ 6"
        by (rule power_increasing) simp
      then show False
        using 1(5) False by (simp add: fits_signed_def)
    qed
    have "63 - p = 63 - (p + 7) + 7"
      using p by simp
    then have fit: "fits_signed (63 - (p + 7)) (i div 128)"
      using 1(5) fits_signed_div by metis
    define r' where "r' = r OR push_bit p (take_bit 7 (word_of_int i))"
    let ?k = "7 * length (leb_enc_s (i div 128))"
    have IH: "leb_loop (cur_adv c 1) (p + 7) r' =
        Inr ((r' OR push_bit (p + 7) (take_bit ?k (word_of_int (i div 128))), p + 7 + ?k),
             cur_adv (cur_adv c 1) (length (leb_enc_s (i div 128))))"
      by (rule 1(1) [OF False adv p fit])
    have "r' OR push_bit (p + 7) (take_bit ?k (word_of_int (i div 128))) =
        r OR push_bit p (take_bit 7 (word_of_int i) OR push_bit 7 (take_bit ?k (word_of_int (i div 128))))"
      by (simp add: r'_def push_bit_or or.assoc add.commute)
    then have res: "r' OR push_bit (p + 7) (take_bit ?k (word_of_int (i div 128))) =
        r OR push_bit p (take_bit (7 + ?k) (word_of_int i))"
      by (simp only: leb_split_s)
    have mm: "(?m + 128) mod 128 = ?m"
      using m by simp
    have more: "bit ?b 7"
      using leb_more [of ?m] unfolding mod_less [OF m] .
    have "leb_loop c p r = leb_loop (cur_adv c 1) (p + 7) r'"
      using leb_loop_Cons [OF 1(2) rest 1(4)] more leb_payload [of "?m + 128"]
      unfolding mm leb_payload_s by (simp add: r'_def Let_def del: of_nat_add)
    then show ?thesis
      using IH by (simp add: res len)
  qed
qed

lemma leb128_s_enc:
  assumes "cursor_wf c" and "cur_rest c = leb_enc_s i @ rest" and "- (2 ^ 63) \<le> i" "i < 2 ^ 63"
  shows "leb128_s c = Inr (word_of_int i, cur_adv c (length (leb_enc_s i)))"
proof -
  let ?q = "7 * length (leb_enc_s i)"
  have loop: "leb_loop c 0 0 = Inr ((take_bit ?q (word_of_int i), ?q), cur_adv c (length (leb_enc_s i)))"
    using leb_loop_s [OF assms(1,2), of 0 0] assms(3,4) by (simp add: fits_signed_def)
  show ?thesis
  proof (cases "?q < 64")
    case True
    have "signed_drop_bit (64 - ?q) (push_bit (64 - ?q) (take_bit ?q (word_of_int i))) = (word_of_int i :: u64)"
      using sign_extend [OF _ True, of i] leb_enc_s_fits [of i] length_leb_enc_s [of i]
      by (simp add: fits_signed_def)
    then show ?thesis
      using loop True length_leb_enc_s [of i] by (simp add: leb128_s_def)
  next
    case False
    then have "take_bit ?q (word_of_int i) = (word_of_int i :: u64)"
      by (intro bit_word_eqI) (auto simp: bit_simps)
    then show ?thesis
      using loop False by (simp add: leb128_s_def)
  qed
qed

end
