(* ===== verification/Dwarf_Machine.thy ===== *)
theory Dwarf_Machine
  imports Dwarf_Leb
begin

text \<open>
  The line number machine as the DWARF standard (versions 2 to 4) describes it, on
  unbounded numbers: its registers, the flags of the basic block, of the prologue and of
  the epilogue among them, its operations, the rows that a program appends to the table,
  and the bytes that encode an operation, the operand of \<open>DW_LNE_set_address\<close> with the size
  of an address of the target. Where the reader is not this machine (the flags after a
  first row, the size of an address, \<open>op_index\<close> after \<open>DW_LNE_set_address\<close>,
  \<open>DW_LNE_define_file\<close>), the programs that it follows are bounded by \<open>op_ok\<close>, and the flags
  of its rows are related by \<open>shows_marks\<close>. The line reader is proved to compute these
  rows, in \<open>Dwarf_Lines\<close> and \<open>Dwarf_Program\<close>.
\<close>

section \<open>Registers and operations\<close>

text \<open>The parameters that a program depends on. \<open>lp_is64\<close> is the format of the unit (the size
  of its lengths); the standard does not tie it to \<open>lp_address_size\<close>, the number of bytes
  of an address of the target.\<close>

record line_params =
  lp_min_length :: nat
  lp_max_ops :: nat
  lp_line_base :: int
  lp_line_range :: nat
  lp_opcode_base :: nat
  lp_is64 :: bool
  lp_address_size :: nat
  lp_dec :: decoder

definition params_ok :: "line_params \<Rightarrow> bool" where
  "params_ok P \<longleftrightarrow>
     lp_min_length P < 256 \<and> 0 < lp_max_ops P \<and> lp_max_ops P < 256 \<and>
     - 128 \<le> lp_line_base P \<and> lp_line_base P < 128 \<and>
     0 < lp_line_range P \<and> lp_line_range P < 256 \<and>
     0 < lp_opcode_base P \<and> lp_opcode_base P < 256"

record regs =
  rg_address :: nat
  rg_op_index :: nat
  rg_file :: nat
  rg_line :: int
  rg_column :: nat
  rg_is_stmt :: bool
  rg_basic_block :: bool
  rg_prologue_end :: bool
  rg_epilogue_begin :: bool
  rg_isa :: nat
  rg_discriminator :: nat
  rg_end_sequence :: bool

definition start_regs :: "bool \<Rightarrow> regs" where
  "start_regs default_is_stmt =
     \<lparr>rg_address = 0, rg_op_index = 0, rg_file = 1, rg_line = 1, rg_column = 0,
      rg_is_stmt = default_is_stmt, rg_basic_block = False, rg_prologue_end = False,
      rg_epilogue_begin = False, rg_isa = 0, rg_discriminator = 0, rg_end_sequence = False\<rparr>"

datatype line_op =
    Special nat
  | Copy
  | Advance_pc nat
  | Advance_line int
  | Set_file nat
  | Set_column nat
  | Negate_stmt
  | Set_basic_block
  | Const_add_pc
  | Fixed_advance_pc nat
  | Set_prologue_end
  | Set_epilogue_begin
  | Set_isa nat
  | End_sequence
  | Set_address nat
  | Set_discriminator nat
  | Define_file "u8 list" nat nat nat

definition op_advance :: "line_params \<Rightarrow> nat \<Rightarrow> regs \<Rightarrow> regs" where
  "op_advance P k r =
     r\<lparr>rg_address := rg_address r + lp_min_length P * ((rg_op_index r + k) div lp_max_ops P),
       rg_op_index := (rg_op_index r + k) mod lp_max_ops P\<rparr>"

text \<open>What the standard resets after a row.\<close>

definition row_reset :: "regs \<Rightarrow> regs" where
  "row_reset r =
     r\<lparr>rg_basic_block := False, rg_prologue_end := False, rg_epilogue_begin := False,
       rg_discriminator := 0\<rparr>"

text \<open>The registers after an operation, and the row it appends, if any. A program ends with
  the first \<open>End_sequence\<close> here, after which no register is used.\<close>

fun line_step :: "line_params \<Rightarrow> line_op \<Rightarrow> regs \<Rightarrow> regs \<times> regs list" where
  "line_step P (Special k) r =
     (let a = k - lp_opcode_base P;
          r' = (op_advance P (a div lp_line_range P) r)
                 \<lparr>rg_line := rg_line r + lp_line_base P + int (a mod lp_line_range P)\<rparr>
      in (row_reset r', [r']))"
| "line_step P Copy r = (row_reset r, [r])"
| "line_step P (Advance_pc k) r = (op_advance P k r, [])"
| "line_step P (Advance_line i) r = (r\<lparr>rg_line := rg_line r + i\<rparr>, [])"
| "line_step P (Set_file k) r = (r\<lparr>rg_file := k\<rparr>, [])"
| "line_step P (Set_column k) r = (r\<lparr>rg_column := k\<rparr>, [])"
| "line_step P Negate_stmt r = (r\<lparr>rg_is_stmt := \<not> rg_is_stmt r\<rparr>, [])"
| "line_step P Set_basic_block r = (r\<lparr>rg_basic_block := True\<rparr>, [])"
| "line_step P Const_add_pc r =
     (op_advance P ((255 - lp_opcode_base P) div lp_line_range P) r, [])"
| "line_step P (Fixed_advance_pc k) r =
     (r\<lparr>rg_address := rg_address r + k, rg_op_index := 0\<rparr>, [])"
| "line_step P Set_prologue_end r = (r\<lparr>rg_prologue_end := True\<rparr>, [])"
| "line_step P Set_epilogue_begin r = (r\<lparr>rg_epilogue_begin := True\<rparr>, [])"
| "line_step P (Set_isa k) r = (r\<lparr>rg_isa := k\<rparr>, [])"
| "line_step P End_sequence r =
     (row_reset (r\<lparr>rg_end_sequence := True\<rparr>), [r\<lparr>rg_end_sequence := True\<rparr>])"
| "line_step P (Set_address a) r = (r\<lparr>rg_address := a, rg_op_index := 0\<rparr>, [])"
| "line_step P (Set_discriminator k) r = (r\<lparr>rg_discriminator := k\<rparr>, [])"
| "line_step P (Define_file nm dir date sz) r = (r, [])"

fun line_rows :: "line_params \<Rightarrow> line_op list \<Rightarrow> regs \<Rightarrow> regs list" where
  "line_rows P [] r = []"
| "line_rows P (x # xs) r = snd (line_step P x r) @ line_rows P xs (fst (line_step P x r))"

section \<open>Encoding\<close>

text \<open>A length of the unit, with the size of its format, and an address of the target.\<close>

definition enc_address :: "line_params \<Rightarrow> nat \<Rightarrow> u8 list" where
  "enc_address P a =
     (if lp_is64 P then to_le 8 (unfix_u64 (lp_dec P) (word_of_nat a))
      else to_le 4 (unfix_u32 (lp_dec P) (word_of_nat a)))"

definition enc_target :: "line_params \<Rightarrow> nat \<Rightarrow> u8 list" where
  "enc_target P a =
     (if lp_address_size P = 8 then to_le 8 (unfix_u64 (lp_dec P) (word_of_nat a))
      else to_le 4 (unfix_u32 (lp_dec P) (word_of_nat a)))"

fun ext_body :: "line_params \<Rightarrow> line_op \<Rightarrow> u8 list" where
  "ext_body P End_sequence = [DW_LNE_end_sequence]"
| "ext_body P (Set_address a) = DW_LNE_set_address # enc_target P a"
| "ext_body P (Set_discriminator k) = DW_LNE_set_discriminator # leb_enc_u k"
| "ext_body P (Define_file nm dir date sz) =
     DW_LNE_define_file # nm @ 0 # leb_enc_u dir @ leb_enc_u date @ leb_enc_u sz"
| "ext_body P x = []"

fun enc_op :: "line_params \<Rightarrow> line_op \<Rightarrow> u8 list" where
  "enc_op P (Special k) = [word_of_nat k]"
| "enc_op P Copy = [DW_LNS_copy]"
| "enc_op P (Advance_pc k) = DW_LNS_advance_pc # leb_enc_u k"
| "enc_op P (Advance_line i) = DW_LNS_advance_line # leb_enc_s i"
| "enc_op P (Set_file k) = DW_LNS_set_file # leb_enc_u k"
| "enc_op P (Set_column k) = DW_LNS_set_column # leb_enc_u k"
| "enc_op P Negate_stmt = [DW_LNS_negate_stmt]"
| "enc_op P Set_basic_block = [DW_LNS_set_basic_block]"
| "enc_op P Const_add_pc = [DW_LNS_const_add_pc]"
| "enc_op P (Fixed_advance_pc k) =
     DW_LNS_fixed_advance_pc # to_le 2 (unfix_u16 (lp_dec P) (word_of_nat k))"
| "enc_op P Set_prologue_end = [DW_LNS_set_prologue_end]"
| "enc_op P Set_epilogue_begin = [DW_LNS_set_epilogue_begin]"
| "enc_op P (Set_isa k) = DW_LNS_set_isa # leb_enc_u k"
| "enc_op P x = 0 # leb_enc_u (length (ext_body P x)) @ ext_body P x"

definition enc_ops :: "line_params \<Rightarrow> line_op list \<Rightarrow> u8 list" where
  "enc_ops P xs = concat (map (enc_op P) xs)"

text \<open>
  The operations a program may use: those numbered below \<open>opcode_base\<close>, with operands
  that fit the widths of the reader, on rows whose file is in the table of \<open>n\<close> files. The
  reader takes the operand of \<open>Set_address\<close> with the size of the lengths of the unit and
  keeps \<open>op_index\<close>, and takes that of \<open>Define_file\<close> for a whole table of files: the first is
  followed when the two sizes are the same and \<open>op_index\<close> is 0 (as it always is without
  VLIW instructions), the second is not.
\<close>

fun std_number :: "line_op \<Rightarrow> nat" where
  "std_number Copy = 1" | "std_number (Advance_pc k) = 2" | "std_number (Advance_line i) = 3"
| "std_number (Set_file k) = 4" | "std_number (Set_column k) = 5"
| "std_number Negate_stmt = 6" | "std_number Set_basic_block = 7"
| "std_number Const_add_pc = 8" | "std_number (Fixed_advance_pc k) = 9"
| "std_number Set_prologue_end = 10" | "std_number Set_epilogue_begin = 11"
| "std_number (Set_isa k) = 12" | "std_number x = 0"

fun operand_ok :: "line_params \<Rightarrow> line_op \<Rightarrow> bool" where
  "operand_ok P (Special k) \<longleftrightarrow> lp_opcode_base P \<le> k \<and> k < 256"
| "operand_ok P (Advance_pc k) \<longleftrightarrow> k < 2 ^ 63"
| "operand_ok P (Advance_line i) \<longleftrightarrow> - (2 ^ 63) \<le> i \<and> i < 2 ^ 63"
| "operand_ok P (Set_file k) \<longleftrightarrow> k < 2 ^ 32"
| "operand_ok P (Set_column k) \<longleftrightarrow> k < 2 ^ 64"
| "operand_ok P (Fixed_advance_pc k) \<longleftrightarrow> k < 2 ^ 16"
| "operand_ok P (Set_isa k) \<longleftrightarrow> k < 2 ^ 64"
| "operand_ok P (Set_address a) \<longleftrightarrow>
     lp_address_size P = (if lp_is64 P then 8 else 4) \<and> a < (if lp_is64 P then 2 ^ 64 else 2 ^ 32)"
| "operand_ok P (Set_discriminator k) \<longleftrightarrow> k < 2 ^ 64"
| "operand_ok P (Define_file nm dir date sz) \<longleftrightarrow> False"
| "operand_ok P x \<longleftrightarrow> True"

fun index_ok :: "line_op \<Rightarrow> regs \<Rightarrow> bool" where
  "index_ok (Set_address a) r \<longleftrightarrow> rg_op_index r = 0"
| "index_ok x r \<longleftrightarrow> True"

definition op_ok :: "line_params \<Rightarrow> nat \<Rightarrow> line_op \<Rightarrow> regs \<Rightarrow> bool" where
  "op_ok P n x r \<longleftrightarrow>
     std_number x < lp_opcode_base P \<and> operand_ok P x \<and> index_ok x r \<and>
     (\<forall>r' \<in> set (snd (line_step P x r)). 1 \<le> rg_file r' \<and> rg_file r' \<le> n)"

fun prog_ok :: "line_params \<Rightarrow> nat \<Rightarrow> line_op list \<Rightarrow> regs \<Rightarrow> bool" where
  "prog_ok P n [] r \<longleftrightarrow> True"
| "prog_ok P n (x # xs) r \<longleftrightarrow>
     op_ok P n x r \<and> (xs \<noteq> [] \<longrightarrow> x \<noteq> End_sequence) \<and> prog_ok P n xs (fst (line_step P x r))"

end
