(* ===== verification/Dwarf_Lines.thy ===== *)
theory Dwarf_Lines
  imports Dwarf_Machine
begin

text \<open>
  The line program of \<open>runSM\<close> refines the machine of the standard: on the encoding of
  a program it records the rows of the standard, at the widths of \<open>LineNumber\<close>.
\<close>

section \<open>The refinement relation\<close>

definition sm_params :: "line_params \<Rightarrow> state_machine \<Rightarrow> bool" where
  "sm_params P sm \<longleftrightarrow>
     sm_min_length sm = word_of_nat (lp_min_length P) \<and>
     sm_max_ops sm = word_of_nat (lp_max_ops P) \<and>
     sm_line_base sm = word_of_int (lp_line_base P) \<and>
     sm_line_range sm = word_of_nat (lp_line_range P) \<and>
     sm_opcode_base sm = word_of_nat (lp_opcode_base P)"

definition sm_regs :: "line_params \<Rightarrow> regs \<Rightarrow> state_machine \<Rightarrow> bool" where
  "sm_regs P r sm \<longleftrightarrow>
     sm_address sm = word_of_nat (rg_address r) \<and>
     sm_op_index sm = word_of_nat (rg_op_index r) \<and> rg_op_index r < lp_max_ops P \<and>
     sm_file sm = word_of_nat (rg_file r) \<and> rg_file r < 2 ^ 32 \<and>
     sm_line sm = word_of_int (rg_line r) \<and>
     sm_column sm = word_of_nat (rg_column r) \<and>
     (bit (sm_flags sm) 0 \<longleftrightarrow> rg_is_stmt r) \<and>
     sm_isa sm = word_of_nat (rg_isa r) \<and>
     sm_discriminator sm = word_of_nat (rg_discriminator r) \<and>
     sm_end_sequence sm = rg_end_sequence r"

definition line_inv :: "line_params \<Rightarrow> nat list \<Rightarrow> regs \<Rightarrow> dwarf \<Rightarrow> bool" where
  "line_inv P F r d \<longleftrightarrow>
     cursor_wf (dw_c d) \<and> length (cur_mem (dw_c d)) < 2 ^ 31 \<and> cur_dec (dw_c d) = lp_dec P \<and>
     dw_is64 d = lp_is64 P \<and> cu_files (dw_cu d) = F \<and>
     sm_params P (dw_sm d) \<and> sm_regs P r (dw_sm d)"

text \<open>The line number that shows a row.\<close>

definition shows_row :: "nat list \<Rightarrow> regs \<Rightarrow> line_number \<Rightarrow> bool" where
  "shows_row F r l \<longleftrightarrow>
     ln_addr l = word_of_nat (rg_address r) \<and> ln_file l = F ! (rg_file r - 1) \<and>
     ln_line l = word_of_int (rg_line r) \<and> ln_col l = word_of_nat (rg_column r) \<and>
     (bit (ln_flags l) 0 \<longleftrightarrow> rg_is_stmt r) \<and> ln_isa l = word_of_nat (rg_isa r) \<and>
     ln_disc l = word_of_nat (rg_discriminator r) \<and> ln_opi l = word_of_nat (rg_op_index r)"

text \<open>
  The flags of the basic block, of the prologue and of the epilogue (bits 1 to 3). The
  reader sets them after a row where the standard clears them: they are those of the
  standard up to the first row (\<open>s\<close> is false), and all set from there on.
\<close>

definition marks :: "bool \<Rightarrow> regs \<Rightarrow> 'a::len word \<Rightarrow> bool" where
  "marks s r w \<longleftrightarrow>
     (bit w 1 \<longleftrightarrow> s \<or> rg_basic_block r) \<and> (bit w 2 \<longleftrightarrow> s \<or> rg_prologue_end r) \<and>
     (bit w 3 \<longleftrightarrow> s \<or> rg_epilogue_begin r)"

fun shows_marks :: "bool \<Rightarrow> regs list \<Rightarrow> line_number list \<Rightarrow> bool" where
  "shows_marks s [] [] \<longleftrightarrow> True"
| "shows_marks s (r # rs) (l # ls) \<longleftrightarrow> marks s r (ln_flags l) \<and> shows_marks True rs ls"
| "shows_marks s rs ls \<longleftrightarrow> False"

lemma shows_marks_append:
  "shows_marks s rs ls \<Longrightarrow> shows_marks (s \<or> rs \<noteq> []) rs' ls' \<Longrightarrow> shows_marks s (rs @ rs') (ls @ ls')"
  by (induction s rs ls rule: shows_marks.induct) simp_all

text \<open>What follows the flags from a state to another that records no row.\<close>

definition keeps_marks :: "regs \<Rightarrow> state_machine \<Rightarrow> regs \<Rightarrow> state_machine \<Rightarrow> bool" where
  "keeps_marks r sm r' sm' \<longleftrightarrow>
     (\<forall>s. marks s r (sm_flags sm) \<longrightarrow> marks s r' (sm_flags sm'))"

lemma keeps_marks_same:
  "sm_flags sm' = sm_flags sm \<Longrightarrow> rg_basic_block r' = rg_basic_block r \<Longrightarrow>
   rg_prologue_end r' = rg_prologue_end r \<Longrightarrow> rg_epilogue_begin r' = rg_epilogue_begin r \<Longrightarrow>
   keeps_marks r sm r' sm'"
  by (simp add: keeps_marks_def marks_def)

section \<open>The primitive steps\<close>

lemma on_cursor_Inr: "g (dw_c d) = Inr (x, c) \<Longrightarrow> on_cursor g d = (Inr x, d\<lparr>dw_c := c\<rparr>)"
  by (simp add: on_cursor_def)

lemma on_sm_eq [simp]: "on_sm f d = (Inr (), d\<lparr>dw_sm := f (dw_sm d)\<rparr>)"
  by (simp add: on_sm_def)

lemma with_sm_eq [simp]: "with_sm f d = f (dw_sm d) d"
  by (simp add: with_sm_def)

lemma error_if_not_Inr:
  "g (dw_c d) = Inr (Some x, c) \<Longrightarrow> error_if_not g d = (Inr x, d\<lparr>dw_c := c\<rparr>)"
  by (simp add: error_if_not_def on_cursor_Inr)

lemma read_u8_step:
  assumes "cursor_wf (dw_c d)" and "cur_rest (dw_c d) = b # bs"
  shows "error_if_not cur_read_u8 d = (Inr b, d\<lparr>dw_c := cur_adv (dw_c d) 1\<rparr>)"
  using assms by (intro error_if_not_Inr) (simp add: cur_read_u8_eq)

lemma readLEB128U_step:
  assumes "cursor_wf (dw_c d)" and "cur_rest (dw_c d) = leb_enc_u n @ rest" and "n < 2 ^ 64"
  shows "readLEB128U d =
    (Inr (word_of_nat n), d\<lparr>dw_c := cur_adv (dw_c d) (length (leb_enc_u n))\<rparr>)"
  unfolding readLEB128U_def by (rule on_cursor_Inr [of leb128_u, OF leb128_u_enc [OF assms]])

lemma readLEB128S_step:
  assumes "cursor_wf (dw_c d)" and "cur_rest (dw_c d) = leb_enc_s i @ rest"
    and "- (2 ^ 63) \<le> i" "i < 2 ^ 63"
  shows "readLEB128S d =
    (Inr (word_of_int i), d\<lparr>dw_c := cur_adv (dw_c d) (length (leb_enc_s i))\<rparr>)"
  unfolding readLEB128S_def by (rule on_cursor_Inr [of leb128_s, OF leb128_s_enc [OF assms]])

lemma read_u16_step:
  assumes "decoder_laws D" and "cursor_wf (dw_c d)" and "cur_dec (dw_c d) = D"
    and "cur_rest (dw_c d) = to_le 2 (unfix_u16 D v) @ rest"
  shows "error_if_not cur_read_u16 d = (Inr v, d\<lparr>dw_c := cur_adv (dw_c d) 2\<rparr>)"
  using assms decoder_laws.fix_unfix16 [OF assms(1)]
  by (intro error_if_not_Inr) (simp add: cur_read_u16_eq)

lemma readAddress_step:
  assumes "decoder_laws (lp_dec P)" and "cursor_wf (dw_c d)" and "cur_dec (dw_c d) = lp_dec P"
    and "dw_is64 d = lp_is64 P" and "cur_rest (dw_c d) = enc_target P a @ rest"
    and "lp_address_size P = (if lp_is64 P then 8 else 4)" and "a < (if lp_is64 P then 2 ^ 64 else 2 ^ 32)"
  shows "readAddress d =
    (Inr (word_of_nat a), d\<lparr>dw_c := cur_adv (dw_c d) (length (enc_target P a))\<rparr>)"
proof (cases "lp_is64 P")
  case True
  then have "error_if_not cur_read_u64 d = (Inr (word_of_nat a), d\<lparr>dw_c := cur_adv (dw_c d) 8\<rparr>)"
    using assms decoder_laws.fix_unfix64 [OF assms(1)]
    by (intro error_if_not_Inr) (simp add: cur_read_u64_eq enc_target_def)
  then show ?thesis
    using True assms(4,6) by (simp add: readAddress_def enc_target_def)
next
  case False
  then have "error_if_not cur_read_u32 d = (Inr (word_of_nat a), d\<lparr>dw_c := cur_adv (dw_c d) 4\<rparr>)"
    using assms decoder_laws.fix_unfix32 [OF assms(1)]
    by (intro error_if_not_Inr) (simp add: cur_read_u32_eq enc_target_def)
  moreover have "ucast (word_of_nat a :: u32) = (word_of_nat a :: u64)"
    using assms(7) False by (simp add: unsigned_of_nat take_bit_nat_eq_self)
  ultimately show ?thesis
    using False assms(4,6) by (simp add: readAddress_def enc_target_def)
qed

section \<open>Advances and rows\<close>

lemma unat_u8: "k < 256 \<Longrightarrow> unat (word_of_nat k :: u8) = k"
  by (simp add: unat_of_nat)

lemma ucast_u8: "k < 256 \<Longrightarrow> ucast (word_of_nat k :: u8) = (word_of_nat k :: u64)"
  by (simp add: unsigned_of_nat take_bit_nat_eq_self)

lemma ucast_u32: "k < 2 ^ 32 \<Longrightarrow> ucast (word_of_nat k :: u32) = (word_of_nat k :: u64)"
  by (simp add: unsigned_of_nat take_bit_nat_eq_self)

lemma word_div_mod_nat:
  assumes "a < 2 ^ 64" and "b < 2 ^ 64"
  shows "(word_of_nat a :: u64) div word_of_nat b = word_of_nat (a div b)"
    and "(word_of_nat a :: u64) mod word_of_nat b = word_of_nat (a mod b)"
  using assms by (simp_all add: word_arith_nat_div word_arith_nat_mod unat_of_nat_64)

lemma advancePC_step:
  assumes P: "params_ok P" "sm_params P (dw_sm d)" "sm_regs P r (dw_sm d)" and k: "k < 2 ^ 63"
  shows "\<exists>sm. advancePC (word_of_nat k) d = (Inr (), d\<lparr>dw_sm := sm\<rparr>) \<and>
    sm_params P sm \<and> sm_regs P (op_advance P k r) sm \<and> sm_flags sm = sm_flags (dw_sm d)"
proof -
  have mx: "0 < lp_max_ops P" "lp_max_ops P < 256" and mn: "lp_min_length P < 256"
    using P(1) by (simp_all add: params_ok_def)
  have op: "rg_op_index r < lp_max_ops P" "sm_op_index (dw_sm d) = word_of_nat (rg_op_index r)"
    using P(3) by (simp_all add: sm_regs_def)
  have wmx: "sm_max_ops (dw_sm d) = word_of_nat (lp_max_ops P)"
    "sm_min_length (dw_sm d) = word_of_nat (lp_min_length P)"
    using P(2) by (simp_all add: sm_params_def)
  have eq1: "sm_max_ops (dw_sm d) = 1 \<longleftrightarrow> lp_max_ops P = 1"
    using unat_u8 [OF mx(2)] by (metis wmx(1) of_nat_1 unat_1)
  have eq0: "sm_max_ops (dw_sm d) \<noteq> 0"
    using unat_u8 [OF mx(2)] mx(1) by (metis wmx(1) unat_0 less_irrefl)
  show ?thesis
  proof (cases "lp_max_ops P = 1")
    case True
    then show ?thesis
      using eq1 op P(2,3) mn
      by (auto simp: advancePC_def sm_params_def sm_regs_def op_advance_def ucast_u8 wmx)
  next
    case False
    have sum: "(ucast (word_of_nat (rg_op_index r) :: u32) + word_of_nat k :: u64) =
        word_of_nat (rg_op_index r + k)"
      using op(1) mx by (simp add: ucast_u32)
    have b: "rg_op_index r + k < 2 ^ 64" "lp_max_ops P < 2 ^ 64"
      using op(1) mx k by simp_all
    have m: "(rg_op_index r + k) mod lp_max_ops P < 256"
      using mx mod_less_divisor [OF mx(1), of "rg_op_index r + k"] by linarith
    have u: "ucast (word_of_nat ((rg_op_index r + k) mod lp_max_ops P) :: u64) =
        (word_of_nat ((rg_op_index r + k) mod lp_max_ops P) :: u32)"
      using m by (simp add: unsigned_of_nat take_bit_nat_eq_self)
    let ?sm = "(dw_sm d)\<lparr>
      sm_address := word_of_nat (rg_address r + lp_min_length P * ((rg_op_index r + k) div lp_max_ops P)),
      sm_op_index := word_of_nat ((rg_op_index r + k) mod lp_max_ops P)\<rparr>"
    have adr: "sm_address (dw_sm d) = word_of_nat (rg_address r)"
      using P(3) by (simp add: sm_regs_def)
    have "advancePC (word_of_nat k) d = (Inr (), d\<lparr>dw_sm := ?sm\<rparr>)"
      using eq1 eq0 False unfolding advancePC_def
      by (simp add: adr op(2) wmx sum word_div_mod_nat [OF b] u ucast_u8 mn mx del: of_nat_add)
        simp
    moreover have "sm_params P ?sm" "sm_regs P (op_advance P k r) ?sm" "sm_flags ?sm = sm_flags (dw_sm d)"
      using P(2,3) mx(1) by (simp_all add: sm_params_def sm_regs_def op_advance_def)
    ultimately show ?thesis
      by blast
  qed
qed

end
