(* ===== verification/Dwarf_Program.thy ===== *)
theory Dwarf_Program
  imports Dwarf_Lines
begin

text \<open>
  The interpreter \<open>runSM\<close> on an encoded program: each operation is simulated (one
  lemma per group of operations), then the whole program by induction.
\<close>

section \<open>Recording and moving\<close>

lemma sint_file:
  assumes "1 \<le> f" and "f < 2 ^ 31"
  shows "sint (word_of_nat f - 1 :: u32) = int (f - 1)"
proof -
  have "(word_of_nat f - 1 :: u32) = word_of_nat (f - 1)"
    using assms(1) by (simp add: of_nat_diff)
  then show ?thesis
    using assms(2) by (simp add: signed_of_nat signed_take_bit_int_eq_self)
qed

lemma recordLine_step:
  assumes inv: "line_inv P F r d" and f: "1 \<le> rg_file r" "rg_file r \<le> length F" "length F < 2 ^ 31"
  shows "\<exists>l sm. recordLine d = (Inr (), d\<lparr>dw_sm := sm, dw_cu := cu_add_line l (dw_cu d)\<rparr>) \<and>
    shows_row F r l \<and> sm_params P sm \<and> sm_regs P (row_reset r) sm \<and>
    (\<forall>s r'. marks s r' (sm_flags (dw_sm d)) \<longrightarrow> marks s r' (ln_flags l)) \<and> (\<forall>r'. marks True r' (sm_flags sm))"
proof -
  have sm: "sm_params P (dw_sm d)" "sm_regs P r (dw_sm d)" and cu: "cu_files (dw_cu d) = F"
    using inv by (simp_all add: line_inv_def)
  have i: "sint (sm_file (dw_sm d) - 1) = int (rg_file r - 1)"
    using sm(2) sint_file [OF f(1)] f(2,3) by (simp add: sm_regs_def)
  have in_F: "\<not> int (length F) \<le> int (rg_file r - 1)"
    using f by linarith
  let ?l = "LineNumber_new (sm_address (dw_sm d)) (F ! (rg_file r - 1)) (sm_line (dw_sm d))
    (sm_column (dw_sm d)) (ucast (sm_flags (dw_sm d))) (ucast (sm_isa (dw_sm d)))
    (ucast (sm_discriminator (dw_sm d))) (ucast (sm_op_index (dw_sm d)))"
  let ?sm = "(sm_set (BASIC_BLOCK OR PROLOGUE_END OR EPILOGUE_BEGIN) (dw_sm d))\<lparr>sm_discriminator := 0\<rparr>"
  have "recordLine d = (Inr (), d\<lparr>dw_sm := ?sm, dw_cu := cu_add_line ?l (dw_cu d)\<rparr>)"
    using in_F by (simp add: recordLine_def Let_def i cu)
  moreover have "shows_row F r ?l"
    using sm(2) by (simp add: shows_row_def LineNumber_new_def sm_regs_def ucast_down bit_simps)
  moreover have "sm_params P ?sm" "sm_regs P (row_reset r) ?sm"
    using sm by (simp_all add: sm_params_def sm_regs_def row_reset_def sm_set_def line_flags bit_simps)
  moreover have "marks s r' (ln_flags ?l)" if "marks s r' (sm_flags (dw_sm d))" for s r'
    using that by (simp add: marks_def LineNumber_new_def bit_simps)
  moreover have "marks True r' (sm_flags ?sm)" for r'
    by (simp add: marks_def sm_set_def line_flags bit_simps)
  ultimately show ?thesis
    by blast
qed

text \<open>Moving to the end of an extended operation, where the code already is.\<close>

lemma move_same:
  assumes wf: "cursor_wf c" and len: "length (cur_mem c) < 2 ^ 31" and n: "n \<le> length (cur_rest c)"
  shows "cur_move (cur_adv c k) (scast (ucast (scast (ucast (word_of_nat n :: u64) :: u32) + cur_off c) :: u32))
    = (True, cur_adv c n)"
proof -
  have off: "unat (cur_off c) \<le> length (cur_mem c)" "length (cur_mem c) = unat (cur_size c)"
    using wf by (elim cursor_wfE, simp add: cur_size_def)+
  have rest: "length (cur_rest c) = length (cur_mem c) - unat (cur_off c)"
    by (simp add: cur_rest_def)
  have small: "n < 2 ^ 31" "unat (cur_off c) + n < 2 ^ 31"
    using n rest len off by linarith+
  have s: "scast (word_of_nat m :: u32) = (word_of_nat m :: u64)" if "m < 2 ^ 31" for m
  proof -
    have "sint (word_of_nat m :: u32) = int m"
      using that by (simp add: signed_of_nat signed_take_bit_int_eq_self)
    then show ?thesis
      by (simp add: scast_eq)
  qed
  have o': "cur_off c = word_of_nat (unat (cur_off c))"
    by simp
  have e1: "scast (ucast (word_of_nat n :: u64) :: u32) + cur_off c = word_of_nat (n + unat (cur_off c))"
    using s [OF small(1)] by (simp add: ucast_down)
  have small': "n + unat (cur_off c) < 2 ^ 31"
    using small(2) by simp
  have "scast (ucast (scast (ucast (word_of_nat n :: u64) :: u32) + cur_off c) :: u32) =
      (word_of_nat (n + unat (cur_off c)) :: u64)"
    unfolding e1 by (subst ucast_down) (simp, rule s [OF small'])
  moreover have "word_of_nat (n + unat (cur_off c)) = cur_off c + word_of_nat n"
    by simp
  moreover have "\<not> cur_size c < cur_off c + word_of_nat n"
    using unat_cur_off_add [OF wf, of n] small off(2) n rest off(1) by (simp add: word_less_nat_alt)
  ultimately show ?thesis
    by (simp add: cur_move_def cur_adv_def cur_size_def add.commute)
qed

section \<open>One operation\<close>

definition op_sim :: "line_params \<Rightarrow> nat list \<Rightarrow> line_op \<Rightarrow> regs \<Rightarrow> dwarf \<Rightarrow> dwarf \<Rightarrow> bool" where
  "op_sim P F x r d d' \<longleftrightarrow>
     line_inv P F (fst (line_step P x r)) d' \<and>
     dw_c d' = cur_adv (dw_c d) (length (enc_op P x)) \<and> dw_dl d' = dw_dl d \<and>
     (\<exists>ls. dw_cu d' = (dw_cu d)\<lparr>cu_lines := cu_lines (dw_cu d) @ ls\<rparr> \<and>
           list_all2 (shows_row F) (snd (line_step P x r)) ls \<and>
           (\<forall>s. marks s r (sm_flags (dw_sm d)) \<longrightarrow> shows_marks s (snd (line_step P x r)) ls \<and>
              marks (s \<or> snd (line_step P x r) \<noteq> []) (fst (line_step P x r)) (sm_flags (dw_sm d'))))"

lemma line_invD:
  assumes "line_inv P F r d"
  shows "cursor_wf (dw_c d)" "length (cur_mem (dw_c d)) < 2 ^ 31" "cur_dec (dw_c d) = lp_dec P"
    "dw_is64 d = lp_is64 P" "cu_files (dw_cu d) = F" "sm_params P (dw_sm d)" "sm_regs P r (dw_sm d)"
  using assms by (simp_all add: line_inv_def)

lemma line_inv_update:
  assumes "line_inv P F r d" and "n \<le> length (cur_rest (dw_c d))"
    and "sm_params P sm" and "sm_regs P r' sm" and "cu_files cu = F"
  shows "line_inv P F r' (d\<lparr>dw_c := cur_adv (dw_c d) n, dw_sm := sm, dw_cu := cu\<rparr>)"
  using assms cursor_wf_adv [of "dw_c d" n] by (simp add: line_inv_def)

lemma op_simI:
  assumes "line_inv P F r d" and "length (enc_op P x) \<le> length (cur_rest (dw_c d))"
    and "sm_params P sm" and "sm_regs P (fst (line_step P x r)) sm" and "snd (line_step P x r) = []"
    and "keeps_marks r (dw_sm d) (fst (line_step P x r)) sm"
  shows "op_sim P F x r d (d\<lparr>dw_c := cur_adv (dw_c d) (length (enc_op P x)), dw_sm := sm\<rparr>)"
  using line_inv_update [OF assms(1-4), of "dw_cu d"] assms(1,5,6)
  by (simp add: op_sim_def line_inv_def keeps_marks_def)

lemma op_simI_row:
  assumes "line_inv P F r d" and "length (enc_op P x) \<le> length (cur_rest (dw_c d))"
    and "sm_params P sm" and "sm_regs P (fst (line_step P x r)) sm"
    and "snd (line_step P x r) = [r']" and "shows_row F r' l"
    and "\<And>s. marks s r (sm_flags (dw_sm d)) \<Longrightarrow> marks s r' (ln_flags l)"
    and "\<And>q. marks True q (sm_flags sm)"
  shows "op_sim P F x r d
    (d\<lparr>dw_c := cur_adv (dw_c d) (length (enc_op P x)), dw_sm := sm, dw_cu := cu_add_line l (dw_cu d)\<rparr>)"
  using line_inv_update [OF assms(1-4), of "cu_add_line l (dw_cu d)"] assms(1,5-)
  by (auto simp: op_sim_def line_inv_def cu_add_line_def)

definition fetch :: "(u8 list \<Rightarrow> u8 list \<Rightarrow> u8 list) \<Rightarrow> nat \<Rightarrow> (dwarf, unit) stm" where
  "fetch J n = sbind (error_if_not cur_read_u8) (\<lambda>opcode. exec_opcode J n opcode)"

lemma base_le:
  assumes "params_ok P" and "sm_params P sm"
  shows "sm_opcode_base sm \<le> b \<longleftrightarrow> lp_opcode_base P \<le> unat b"
  using assms by (simp add: params_ok_def sm_params_def word_le_nat_alt unat_u8)

lemma fetch_std:
  assumes "params_ok P" and "line_inv P F r d" and "cur_rest (dw_c d) = b # bs"
    and "unat b < lp_opcode_base P" and "b \<noteq> 0"
  shows "fetch J n d = exec_standard b (d\<lparr>dw_c := cur_adv (dw_c d) 1\<rparr>)"
proof -
  have "\<not> sm_opcode_base (dw_sm d) \<le> b"
    using base_le [OF assms(1)] line_invD(6) [OF assms(2)] assms(4) by simp
  then show ?thesis
    using read_u8_step [OF line_invD(1) [OF assms(2)] assms(3)] assms(5)
    by (simp add: fetch_def exec_opcode_def)
qed

lemma fetch_ext:
  assumes "params_ok P" and "line_inv P F r d" and "cur_rest (dw_c d) = 0 # bs"
  shows "fetch J n d = exec_extended J n (d\<lparr>dw_c := cur_adv (dw_c d) 1\<rparr>)"
proof -
  have "\<not> sm_opcode_base (dw_sm d) \<le> 0"
    using base_le [OF assms(1) line_invD(6) [OF assms(2)], of 0] assms(1) by (simp add: params_ok_def)
  then show ?thesis
    using read_u8_step [OF line_invD(1) [OF assms(2)] assms(3)]
    by (simp add: fetch_def exec_opcode_def)
qed

lemma fetch_special:
  assumes "params_ok P" and "line_inv P F r d" and "cur_rest (dw_c d) = b # bs"
    and "lp_opcode_base P \<le> unat b"
  shows "fetch J n d = exec_special b (d\<lparr>dw_c := cur_adv (dw_c d) 1\<rparr>)"
proof -
  have "sm_opcode_base (dw_sm d) \<le> b"
    using base_le [OF assms(1)] line_invD(6) [OF assms(2)] assms(4) by simp
  then show ?thesis
    using read_u8_step [OF line_invD(1) [OF assms(2)] assms(3)]
    by (simp add: fetch_def exec_opcode_def)
qed

text \<open>An operation that only changes the registers, after its operand has been read.\<close>

lemma sim_regs:
  assumes P: "params_ok P" and inv: "line_inv P F r d" and rest: "cur_rest (dw_c d) = enc_op P x @ rest"
    and ok: "std_number x < lp_opcode_base P"
    and x: "enc_op P x = b # bs" "b \<noteq> 0" "unat b = std_number x" "snd (line_step P x r) = []"
    and run: "exec_standard b (d\<lparr>dw_c := cur_adv (dw_c d) 1\<rparr>) =
      (Inr (), d\<lparr>dw_c := cur_adv (cur_adv (dw_c d) 1) (length bs), dw_sm := sm\<rparr>)"
    and sm: "sm_params P sm" "sm_regs P (fst (line_step P x r)) sm"
      "keeps_marks r (dw_sm d) (fst (line_step P x r)) sm"
  shows "\<exists>d'. fetch J n d = (Inr (), d') \<and> op_sim P F x r d d'"
proof -
  have "fetch J n d = (Inr (), d\<lparr>dw_c := cur_adv (dw_c d) (length (enc_op P x)), dw_sm := sm\<rparr>)"
    using fetch_std [OF P inv _ _ x(2), of "bs @ rest" J n] ok rest run by (simp add: x(1,3))
  moreover have "length (enc_op P x) \<le> length (cur_rest (dw_c d))"
    by (simp add: rest)
  ultimately show ?thesis
    using op_simI [OF inv _ sm(1,2) x(4) sm(3)] by blast
qed

lemma sm_bit_stmt: "sm_bit IS_STMT s \<longleftrightarrow> bit (sm_flags s) 0"
  by (simp add: sm_bit_def line_flags and_one_eq bit_0 odd_iff_mod_2_eq_one)

lemma regs_flags:
  assumes "sm_params P sm" and "sm_regs P r sm"
  shows "sm_params P (sm_set m sm)" "sm_params P (sm_clear m sm)"
    and "\<not> bit (m :: u32) 0 \<Longrightarrow> sm_regs P r (sm_set m sm)"
    and "sm_regs P (r\<lparr>rg_is_stmt := True\<rparr>) (sm_set IS_STMT sm)"
    and "sm_regs P (r\<lparr>rg_is_stmt := False\<rparr>) (sm_clear IS_STMT sm)"
  using assms
  by (simp_all add: sm_params_def sm_regs_def sm_set_def sm_clear_def line_flags bit_simps)

lemma regs_other:
  "sm_regs P (r\<lparr>rg_basic_block := b\<rparr>) sm = sm_regs P r sm"
  "sm_regs P (r\<lparr>rg_prologue_end := b\<rparr>) sm = sm_regs P r sm"
  "sm_regs P (r\<lparr>rg_epilogue_begin := b\<rparr>) sm = sm_regs P r sm"
  by (simp_all add: sm_regs_def)

lemma flag_bit0: "\<not> bit BASIC_BLOCK 0" "\<not> bit PROLOGUE_END 0" "\<not> bit EPILOGUE_BEGIN 0"
  by (simp_all add: line_flags bit_simps)

lemma marks_flags:
  "keeps_marks r sm (r\<lparr>rg_is_stmt := b\<rparr>) (sm_set IS_STMT sm)"
  "keeps_marks r sm (r\<lparr>rg_is_stmt := b\<rparr>) (sm_clear IS_STMT sm)"
  "keeps_marks r sm (r\<lparr>rg_basic_block := True\<rparr>) (sm_set BASIC_BLOCK sm)"
  "keeps_marks r sm (r\<lparr>rg_prologue_end := True\<rparr>) (sm_set PROLOGUE_END sm)"
  "keeps_marks r sm (r\<lparr>rg_epilogue_begin := True\<rparr>) (sm_set EPILOGUE_BEGIN sm)"
  by (simp_all add: keeps_marks_def marks_def sm_set_def sm_clear_def line_flags bit_simps)

lemma sim_flags:
  assumes P: "params_ok P" and inv: "line_inv P F r d" and rest: "cur_rest (dw_c d) = enc_op P x @ rest"
    and ok: "std_number x < lp_opcode_base P"
  shows "x = Negate_stmt \<Longrightarrow> \<exists>d'. fetch J n d = (Inr (), d') \<and> op_sim P F x r d d'"
    and "x = Set_basic_block \<Longrightarrow> \<exists>d'. fetch J n d = (Inr (), d') \<and> op_sim P F x r d d'"
    and "x = Set_prologue_end \<Longrightarrow> \<exists>d'. fetch J n d = (Inr (), d') \<and> op_sim P F x r d d'"
    and "x = Set_epilogue_begin \<Longrightarrow> \<exists>d'. fetch J n d = (Inr (), d') \<and> op_sim P F x r d d'"
proof -
  note sm = line_invD(6,7) [OF inv]
  note sim = sim_regs [OF P inv rest ok]
  have stmt: "rg_is_stmt r \<longleftrightarrow> bit (sm_flags (dw_sm d)) 0"
    using sm(2) by (simp add: sm_regs_def)
  show "\<exists>d'. fetch J n d = (Inr (), d') \<and> op_sim P F x r d d'" if x: "x = Negate_stmt"
    by (rule sim [where b = DW_LNS_negate_stmt and bs = "[]" and sm = "if sm_bit IS_STMT (dw_sm d)
        then sm_clear IS_STMT (dw_sm d) else sm_set IS_STMT (dw_sm d)"])
      (use regs_flags [OF sm] stmt marks_flags in \<open>simp_all add: x exec_standard_def dw_opcodes sm_bit_stmt\<close>)
  show "\<exists>d'. fetch J n d = (Inr (), d') \<and> op_sim P F x r d d'" if x: "x = Set_basic_block"
    by (rule sim [where b = DW_LNS_set_basic_block and bs = "[]" and sm = "sm_set BASIC_BLOCK (dw_sm d)"])
      (use regs_flags(1,3) [OF sm, of BASIC_BLOCK] marks_flags in \<open>simp_all add: x exec_standard_def dw_opcodes regs_other flag_bit0\<close>)
  show "\<exists>d'. fetch J n d = (Inr (), d') \<and> op_sim P F x r d d'" if x: "x = Set_prologue_end"
    by (rule sim [where b = DW_LNS_set_prologue_end and bs = "[]" and sm = "sm_set PROLOGUE_END (dw_sm d)"])
      (use regs_flags(1,3) [OF sm, of PROLOGUE_END] marks_flags in \<open>simp_all add: x exec_standard_def dw_opcodes regs_other flag_bit0\<close>)
  show "\<exists>d'. fetch J n d = (Inr (), d') \<and> op_sim P F x r d d'" if x: "x = Set_epilogue_begin"
    by (rule sim [where b = DW_LNS_set_epilogue_begin and bs = "[]" and sm = "sm_set EPILOGUE_BEGIN (dw_sm d)"])
      (use regs_flags(1,3) [OF sm, of EPILOGUE_BEGIN] marks_flags in \<open>simp_all add: x exec_standard_def dw_opcodes regs_other flag_bit0\<close>)
qed

text \<open>After the opcode byte.\<close>

lemma after_opcode:
  assumes inv: "line_inv P F r d" and rest: "cur_rest (dw_c d) = b # bs"
  defines "d' \<equiv> d\<lparr>dw_c := cur_adv (dw_c d) 1\<rparr>"
  shows "cursor_wf (dw_c d')" "cur_rest (dw_c d') = bs" "cur_dec (dw_c d') = lp_dec P"
    "dw_is64 d' = lp_is64 P" "dw_sm d' = dw_sm d" "line_inv P F r d'"
  using line_invD [OF inv] cursor_wf_adv [of "dw_c d" 1] rest
  by (simp_all add: d'_def line_inv_def)

lemma sim_operand:
  assumes P: "params_ok P" and inv: "line_inv P F r d" and rest: "cur_rest (dw_c d) = enc_op P x @ rest"
    and ok: "std_number x < lp_opcode_base P" "operand_ok P x"
  shows "x = Set_file k \<Longrightarrow> \<exists>d'. fetch J n d = (Inr (), d') \<and> op_sim P F x r d d'"
    and "x = Set_column k \<Longrightarrow> \<exists>d'. fetch J n d = (Inr (), d') \<and> op_sim P F x r d d'"
    and "x = Set_isa k \<Longrightarrow> \<exists>d'. fetch J n d = (Inr (), d') \<and> op_sim P F x r d d'"
    and "x = Advance_line i \<Longrightarrow> \<exists>d'. fetch J n d = (Inr (), d') \<and> op_sim P F x r d d'"
proof -
  note sm = line_invD(6,7) [OF inv]
  note sim = sim_regs [OF P inv rest ok(1)]
  let ?d = "d\<lparr>dw_c := cur_adv (dw_c d) 1\<rparr>"
  have leb: "readLEB128U ?d = (Inr (word_of_nat k), ?d\<lparr>dw_c := cur_adv (cur_adv (dw_c d) 1) (length (leb_enc_u k))\<rparr>)"
    if "cur_rest (dw_c d) = b # leb_enc_u k @ rest" "k < 2 ^ 64" for b
    using readLEB128U_step [OF after_opcode(1,2) [OF inv that(1)] that(2)] by simp
  show "\<exists>d'. fetch J n d = (Inr (), d') \<and> op_sim P F x r d d'" if x: "x = Set_file k"
  proof (rule sim [where b = DW_LNS_set_file and bs = "leb_enc_u k" and sm = "(dw_sm d)\<lparr>sm_file := word_of_nat k\<rparr>"])
    show "exec_standard DW_LNS_set_file ?d = (Inr (), d\<lparr>dw_c := cur_adv (cur_adv (dw_c d) 1) (length (leb_enc_u k)),
        dw_sm := (dw_sm d)\<lparr>sm_file := word_of_nat k\<rparr>\<rparr>)"
      using leb [of DW_LNS_set_file] rest ok(2)
      by (simp add: x exec_standard_def dw_opcodes ucast_down)
  qed (use sm ok(2) in \<open>simp_all add: x dw_opcodes sm_params_def sm_regs_def keeps_marks_same\<close>)
  show "\<exists>d'. fetch J n d = (Inr (), d') \<and> op_sim P F x r d d'" if x: "x = Set_column k"
  proof (rule sim [where b = DW_LNS_set_column and bs = "leb_enc_u k" and sm = "(dw_sm d)\<lparr>sm_column := word_of_nat k\<rparr>"])
    show "exec_standard DW_LNS_set_column ?d = (Inr (), d\<lparr>dw_c := cur_adv (cur_adv (dw_c d) 1) (length (leb_enc_u k)),
        dw_sm := (dw_sm d)\<lparr>sm_column := word_of_nat k\<rparr>\<rparr>)"
      using leb [of DW_LNS_set_column] rest ok(2)
      by (simp add: x exec_standard_def dw_opcodes ucast_down)
  qed (use sm in \<open>simp_all add: x dw_opcodes sm_params_def sm_regs_def keeps_marks_same\<close>)
  show "\<exists>d'. fetch J n d = (Inr (), d') \<and> op_sim P F x r d d'" if x: "x = Set_isa k"
  proof (rule sim [where b = DW_LNS_set_isa and bs = "leb_enc_u k" and sm = "(dw_sm d)\<lparr>sm_isa := word_of_nat k\<rparr>"])
    show "exec_standard DW_LNS_set_isa ?d = (Inr (), d\<lparr>dw_c := cur_adv (cur_adv (dw_c d) 1) (length (leb_enc_u k)),
        dw_sm := (dw_sm d)\<lparr>sm_isa := word_of_nat k\<rparr>\<rparr>)"
      using leb [of DW_LNS_set_isa] rest ok(2)
      by (simp add: x exec_standard_def dw_opcodes ucast_down)
  qed (use sm in \<open>simp_all add: x dw_opcodes sm_params_def sm_regs_def keeps_marks_same\<close>)
  show "\<exists>d'. fetch J n d = (Inr (), d') \<and> op_sim P F x r d d'" if x: "x = Advance_line i"
  proof (rule sim [where b = DW_LNS_advance_line and bs = "leb_enc_s i"
        and sm = "(dw_sm d)\<lparr>sm_line := sm_line (dw_sm d) + word_of_int i\<rparr>"])
    have r1: "cur_rest (dw_c d) = DW_LNS_advance_line # leb_enc_s i @ rest"
      using rest x by simp
    have "readLEB128S ?d = (Inr (word_of_int i), ?d\<lparr>dw_c := cur_adv (cur_adv (dw_c d) 1) (length (leb_enc_s i))\<rparr>)"
      using readLEB128S_step [OF after_opcode(1,2) [OF inv r1]] ok(2) x by simp
    moreover have "ucast (word_of_int i :: u64) = (word_of_int i :: u32)"
      by (rule bit_word_eqI) (simp add: bit_simps)
    ultimately show "exec_standard DW_LNS_advance_line ?d =
        (Inr (), d\<lparr>dw_c := cur_adv (cur_adv (dw_c d) 1) (length (leb_enc_s i)),
          dw_sm := (dw_sm d)\<lparr>sm_line := sm_line (dw_sm d) + word_of_int i\<rparr>\<rparr>)"
      by (simp add: exec_standard_def dw_opcodes advanceLine_def)
  qed (use sm in \<open>simp_all add: x dw_opcodes sm_params_def sm_regs_def keeps_marks_same\<close>)
qed

lemma sm_range_pos:
  assumes "params_ok P" and "sm_params P sm"
  shows "sm_line_range sm \<noteq> 0"
proof -
  have "0 < lp_line_range P" "lp_line_range P < 256"
    using assms(1) by (simp_all add: params_ok_def)
  then have "unat (sm_line_range sm) \<noteq> 0"
    using assms(2) unat_u8 [of "lp_line_range P"] by (simp add: sm_params_def)
  then show ?thesis
    by auto
qed

text \<open>The quotient and the remainder of an adjusted opcode.\<close>

lemma adjusted_opcode:
  assumes P: "params_ok P" "sm_params P sm" and k: "lp_opcode_base P \<le> k" "k < 256"
  shows "(word_of_nat k - sm_opcode_base sm) div sm_line_range sm =
      word_of_nat ((k - lp_opcode_base P) div lp_line_range P)"
    and "(word_of_nat k - sm_opcode_base sm) mod sm_line_range sm =
      word_of_nat ((k - lp_opcode_base P) mod lp_line_range P)"
proof -
  have r: "lp_line_range P < 256"
    using P(1) by (simp add: params_ok_def)
  have "word_of_nat k - sm_opcode_base sm = word_of_nat (k - lp_opcode_base P)"
    using P(2) k(1) by (simp add: sm_params_def of_nat_diff)
  then show "(word_of_nat k - sm_opcode_base sm) div sm_line_range sm =
      word_of_nat ((k - lp_opcode_base P) div lp_line_range P)"
    "(word_of_nat k - sm_opcode_base sm) mod sm_line_range sm =
      word_of_nat ((k - lp_opcode_base P) mod lp_line_range P)"
    using P(2) r k(2) unat_u8 [of "k - lp_opcode_base P"]
    by (simp_all add: sm_params_def word_arith_nat_div word_arith_nat_mod unat_u8)
qed

lemma sim_advance_pc:
  assumes P: "params_ok P" and inv: "line_inv P F r d"
    and rest: "cur_rest (dw_c d) = enc_op P (Advance_pc k) @ rest"
    and ok: "std_number (Advance_pc k) < lp_opcode_base P" "operand_ok P (Advance_pc k)"
  shows "\<exists>d'. fetch J n d = (Inr (), d') \<and> op_sim P F (Advance_pc k) r d d'"
proof -
  note sm = line_invD(6,7) [OF inv]
  let ?d = "d\<lparr>dw_c := cur_adv (dw_c d) 1\<rparr>"
  have r1: "cur_rest (dw_c d) = DW_LNS_advance_pc # leb_enc_u k @ rest" and k: "k < 2 ^ 63" "k < 2 ^ 64"
    using rest ok(2) by simp_all
  let ?e = "?d\<lparr>dw_c := cur_adv (cur_adv (dw_c d) 1) (length (leb_enc_u k))\<rparr>"
  have leb: "readLEB128U ?d = (Inr (word_of_nat k), ?e)"
    using readLEB128U_step [OF after_opcode(1,2) [OF inv r1] k(2)] by simp
  obtain sm' where sm': "advancePC (word_of_nat k) ?e = (Inr (), ?e\<lparr>dw_sm := sm'\<rparr>)"
    "sm_params P sm'" "sm_regs P (op_advance P k r) sm'" "sm_flags sm' = sm_flags (dw_sm d)"
    using advancePC_step [OF P, of ?e r k] sm k(1) by auto
  show ?thesis
    by (rule sim_regs [OF P inv rest ok(1), where b = DW_LNS_advance_pc and bs = "leb_enc_u k" and sm = sm'])
      (use leb sm' in \<open>simp_all add: exec_standard_def dw_opcodes op_advance_def keeps_marks_same\<close>)
qed

lemma sim_const_add_pc:
  assumes P: "params_ok P" and inv: "line_inv P F r d"
    and rest: "cur_rest (dw_c d) = enc_op P Const_add_pc @ rest"
    and ok: "std_number Const_add_pc < lp_opcode_base P"
  shows "\<exists>d'. fetch J n d = (Inr (), d') \<and> op_sim P F Const_add_pc r d d'"
proof -
  note sm = line_invD(6,7) [OF inv]
  let ?d = "d\<lparr>dw_c := cur_adv (dw_c d) 1\<rparr>" and ?k = "(255 - lp_opcode_base P) div lp_line_range P"
  have k: "?k < 256"
    by (rule le_less_trans [OF div_le_dividend]) simp
  have "lp_opcode_base P \<le> 255"
    using P by (simp add: params_ok_def)
  then have adv: "ucast ((255 - sm_opcode_base (dw_sm d)) div sm_line_range (dw_sm d)) = (word_of_nat ?k :: u64)"
    using adjusted_opcode(1) [OF P sm(1), of 255] k by (simp add: ucast_u8)
  obtain sm' where sm': "advancePC (word_of_nat ?k) ?d = (Inr (), ?d\<lparr>dw_sm := sm'\<rparr>)"
    "sm_params P sm'" "sm_regs P (op_advance P ?k r) sm'" "sm_flags sm' = sm_flags (dw_sm d)"
    using advancePC_step [OF P, of ?d r ?k] sm k by auto
  show ?thesis
    by (rule sim_regs [OF P inv rest ok, where b = DW_LNS_const_add_pc and bs = "[]" and sm = sm'])
      (use adv sm_range_pos [OF P sm(1)] sm' in \<open>simp_all add: exec_standard_def dw_opcodes op_advance_def keeps_marks_same\<close>)
qed

lemma sim_fixed_advance_pc:
  assumes P: "params_ok P" and D: "decoder_laws (lp_dec P)" and inv: "line_inv P F r d"
    and rest: "cur_rest (dw_c d) = enc_op P (Fixed_advance_pc k) @ rest"
    and ok: "std_number (Fixed_advance_pc k) < lp_opcode_base P" "operand_ok P (Fixed_advance_pc k)"
  shows "\<exists>d'. fetch J n d = (Inr (), d') \<and> op_sim P F (Fixed_advance_pc k) r d d'"
proof -
  note sm = line_invD(6,7) [OF inv]
  let ?d = "d\<lparr>dw_c := cur_adv (dw_c d) 1\<rparr>" and ?bs = "to_le 2 (unfix_u16 (lp_dec P) (word_of_nat k))"
  have r1: "cur_rest (dw_c d) = DW_LNS_fixed_advance_pc # ?bs @ rest" and k: "k < 2 ^ 16"
    using rest ok(2) by simp_all
  have rd: "error_if_not cur_read_u16 ?d = (Inr (word_of_nat k), ?d\<lparr>dw_c := cur_adv (cur_adv (dw_c d) 1) 2\<rparr>)"
    using read_u16_step [OF D after_opcode(1) [OF inv r1] after_opcode(3) [OF inv r1] after_opcode(2) [OF inv r1]]
    by simp
  have u: "ucast (word_of_nat k :: u16) = (word_of_nat k :: u64)"
    using k by (simp add: unsigned_of_nat take_bit_nat_eq_self)
  show ?thesis
    by (rule sim_regs [OF P inv rest ok(1), where b = DW_LNS_fixed_advance_pc and bs = ?bs and sm = "(dw_sm d)\<lparr>
        sm_address := sm_address (dw_sm d) + word_of_nat k, sm_op_index := 0\<rparr>"])
      (use rd u sm P in \<open>simp_all add: exec_standard_def dw_opcodes sm_params_def sm_regs_def params_ok_def keeps_marks_same\<close>)
qed

section \<open>Operations that append a row\<close>


lemma sim_copy:
  assumes P: "params_ok P" and inv: "line_inv P F r d" and rest: "cur_rest (dw_c d) = enc_op P Copy @ rest"
    and ok: "1 < lp_opcode_base P" and f: "1 \<le> rg_file r" "rg_file r \<le> length F" "length F < 2 ^ 31"
  shows "\<exists>d'. fetch J n d = (Inr (), d') \<and> op_sim P F Copy r d d'"
proof -
  have r1: "cur_rest (dw_c d) = DW_LNS_copy # rest"
    using rest by simp
  let ?e = "d\<lparr>dw_c := cur_adv (dw_c d) 1\<rparr>"
  obtain l sm where rl: "recordLine ?e = (Inr (), ?e\<lparr>dw_sm := sm, dw_cu := cu_add_line l (dw_cu ?e)\<rparr>)"
    and l: "shows_row F r l" and sm: "sm_params P sm" "sm_regs P (row_reset r) sm"
    and mk: "\<forall>s r'. marks s r' (sm_flags (dw_sm ?e)) \<longrightarrow> marks s r' (ln_flags l)" "\<forall>r'. marks True r' (sm_flags sm)"
    using recordLine_step [OF after_opcode(6) [OF inv r1] f] by blast
  have "fetch J n d = recordLine ?e"
    using fetch_std [OF P inv r1, of J n] ok by (simp add: exec_standard_def dw_opcodes)
  moreover have "op_sim P F Copy r d (d\<lparr>dw_c := cur_adv (dw_c d) (length (enc_op P Copy)),
      dw_sm := sm, dw_cu := cu_add_line l (dw_cu d)\<rparr>)"
    by (rule op_simI_row [OF inv _ _ _ _ l]) (use sm rest mk in simp_all)
  ultimately show ?thesis
    using rl by simp
qed

text \<open>The line that a special opcode computes on 64 bits.\<close>

lemma special_line:
  assumes P: "params_ok P" "sm_params P sm" "sm_regs P r sm" and q: "q < 256"
  defines "sm' \<equiv> sm\<lparr>sm_line := sm_line sm +
    ucast (scast (sm_line_base sm) + ucast (word_of_nat q :: u8) :: u64)\<rparr>"
  shows "sm_params P sm'" and "sm_regs P (r\<lparr>rg_line := rg_line r + lp_line_base P + int q\<rparr>) sm'"
proof -
  have "sint (word_of_int (lp_line_base P) :: u8) = lp_line_base P"
    using P(1) by (simp add: params_ok_def signed_of_int signed_take_bit_int_eq_self)
  then have base: "scast (sm_line_base sm) = (word_of_int (lp_line_base P) :: u64)"
    using P(2) by (simp add: sm_params_def scast_eq)
  have "ucast (word_of_int i :: u64) = (word_of_int i :: u32)" for i
    by (rule bit_word_eqI) (simp add: bit_simps)
  then have "(ucast (word_of_int (lp_line_base P) + word_of_nat q :: u64) :: u32) =
      word_of_int (lp_line_base P + int q)"
    by (metis of_int_add of_int_of_nat_eq)
  then have line: "sm_line sm' = word_of_int (rg_line r + lp_line_base P + int q)"
    using P(3) q by (simp add: sm'_def base ucast_u8 sm_regs_def add.assoc)
  show "sm_params P sm'" "sm_regs P (r\<lparr>rg_line := rg_line r + lp_line_base P + int q\<rparr>) sm'"
    using P(2,3) line by (simp_all add: sm_params_def sm_regs_def) (simp_all add: sm'_def)
qed

lemma sim_special:
  assumes P: "params_ok P" and inv: "line_inv P F r d"
    and rest: "cur_rest (dw_c d) = enc_op P (Special k) @ rest"
    and k: "lp_opcode_base P \<le> k" "k < 256"
    and f: "1 \<le> rg_file r" "rg_file r \<le> length F" "length F < 2 ^ 31"
  shows "\<exists>d'. fetch J n d = (Inr (), d') \<and> op_sim P F (Special k) r d d'"
proof -
  let ?b = "word_of_nat k :: u8" and ?e = "d\<lparr>dw_c := cur_adv (dw_c d) 1\<rparr>"
  define a q where "a = (k - lp_opcode_base P) div lp_line_range P" and "q = (k - lp_opcode_base P) mod lp_line_range P"
  have r1: "cur_rest (dw_c d) = ?b # rest"
    using rest by simp
  note sm = line_invD(6,7) [OF inv]
  have aq: "a < 256" "q < 256"
    unfolding a_def q_def using k(2) by (auto intro: le_less_trans [OF div_le_dividend] le_less_trans [OF mod_less_eq_dividend])
  note dm = adjusted_opcode [OF P sm(1) k, folded a_def q_def]
  define sm1 where "sm1 = (dw_sm d)\<lparr>sm_line := sm_line (dw_sm d) +
    ucast (scast (sm_line_base (dw_sm d)) + ucast (word_of_nat q :: u8) :: u64)\<rparr>"
  let ?r1 = "r\<lparr>rg_line := rg_line r + lp_line_base P + int q\<rparr>" and ?e1 = "?e\<lparr>dw_sm := sm1\<rparr>"
  note sm1 = special_line [OF P sm aq(2), folded sm1_def]
  obtain sm2 where sm2: "advancePC (word_of_nat a) ?e1 = (Inr (), ?e1\<lparr>dw_sm := sm2\<rparr>)"
    "sm_params P sm2" "sm_regs P (op_advance P a ?r1) sm2" "sm_flags sm2 = sm_flags sm1"
    using advancePC_step [OF P, of ?e1 ?r1 a] sm1 aq(1) by auto
  define r2 where "r2 = op_advance P a ?r1"
  let ?e2 = "?e\<lparr>dw_sm := sm2\<rparr>"
  have inv2: "line_inv P F r2 ?e2"
    using after_opcode(6) [OF inv r1] sm2 by (simp add: line_inv_def r2_def)
  have f2: "1 \<le> rg_file r2" "rg_file r2 \<le> length F"
    using f by (simp_all add: r2_def op_advance_def)
  obtain l sm3 where rl: "recordLine ?e2 = (Inr (), ?e2\<lparr>dw_sm := sm3, dw_cu := cu_add_line l (dw_cu ?e2)\<rparr>)"
    and l: "shows_row F r2 l" and sm3: "sm_params P sm3" "sm_regs P (row_reset r2) sm3"
    and mk: "\<forall>s r'. marks s r' (sm_flags (dw_sm ?e2)) \<longrightarrow> marks s r' (ln_flags l)" "\<forall>r'. marks True r' (sm_flags sm3)"
    using recordLine_step [OF inv2 f2 f(3)] by blast
  have "fetch J n d = exec_special ?b ?e"
    using fetch_special [OF P inv r1, of J n] k by (simp add: unat_u8)
  also have "\<dots> = (Inr (), ?e2\<lparr>dw_sm := sm3, dw_cu := cu_add_line l (dw_cu ?e2)\<rparr>)"
    using sm_range_pos [OF P sm(1)] sm2(1) rl aq(1)
    by (simp add: exec_special_def Let_def dm advanceLine_def ucast_u8 flip: sm1_def)
  finally have run: "fetch J n d = \<dots>" .
  have mk2: "marks s r2 (ln_flags l)" if "marks s r (sm_flags (dw_sm d))" for s
    using mk(1) that sm2(4) by (simp add: sm1_def marks_def r2_def op_advance_def)
  have st: "line_step P (Special k) r = (row_reset r2, [r2])"
    by (simp add: r2_def op_advance_def row_reset_def Let_def a_def q_def)
  have "op_sim P F (Special k) r d (d\<lparr>dw_c := cur_adv (dw_c d) (length (enc_op P (Special k))),
      dw_sm := sm3, dw_cu := cu_add_line l (dw_cu d)\<rparr>)"
    by (rule op_simI_row [OF inv _ _ _ _ l]) (use sm3 rest mk(2) mk2 in \<open>simp_all only: st fst_conv snd_conv\<close>, simp_all)
  then show ?thesis
    using run by simp
qed

section \<open>Extended operations\<close>

definition ext_action :: "(u8 list \<Rightarrow> u8 list \<Rightarrow> u8 list) \<Rightarrow> nat \<Rightarrow> u8 \<Rightarrow> (dwarf, unit) stm" where
  "ext_action J n opcode =
     (if opcode = DW_LNE_end_sequence
      then sbind recordLine (\<lambda>_. on_sm (\<lambda>sm. sm\<lparr>sm_end_sequence := True\<rparr>))
      else if opcode = DW_LNE_set_address
      then sbind readAddress (\<lambda>a. on_sm (\<lambda>sm. sm\<lparr>sm_address := a\<rparr>))
      else if opcode = DW_LNE_define_file
      then readFile J n
      else if opcode = DW_LNE_set_discriminator
      then sbind readLEB128U (\<lambda>v. on_sm (\<lambda>sm. sm\<lparr>sm_discriminator := ucast v\<rparr>))
      else sraise (Throw Invalid_Extended_Opcode))"

text \<open>The body of an extended operation starts where the cursor of \<open>c\<close> is.\<close>

lemma fetch_extended:
  assumes P: "params_ok P" and inv: "line_inv P F r d"
    and rest: "cur_rest (dw_c d) = enc_op P x @ rest"
    and x: "enc_op P x = 0 # leb_enc_u (length body) @ body" "body = b # bs"
  defines "c \<equiv> cur_adv (dw_c d) (1 + length (leb_enc_u (length body)))"
  shows "cursor_wf c" "cur_rest c = b # bs @ rest"
    and "ext_action J n b (d\<lparr>dw_c := cur_adv c 1\<rparr>) = (Inr (), d') \<Longrightarrow> dw_c d' = cur_adv c (length body) \<Longrightarrow>
      fetch J n d = (Inr (), d')"
proof -
  let ?L = "leb_enc_u (length body)"
  have r1: "cur_rest (dw_c d) = 0 # ?L @ body @ rest"
    using rest x(1) by simp
  note wf = line_invD(1) [OF inv]
  have n: "1 + length ?L \<le> length (cur_rest (dw_c d))"
    by (simp add: r1)
  have c: "cursor_wf c" "cur_rest c = body @ rest"
    using cursor_wf_adv [OF wf n] r1 by (simp_all add: c_def)
  then show "cursor_wf c" "cur_rest c = b # bs @ rest"
    using x(2) by simp_all
  have mem: "length (cur_mem c) < 2 ^ 31"
    using line_invD(2) [OF inv] by (simp add: c_def)
  have len: "length body \<le> length (cur_rest c)"
    using c(2) by simp
  then have len64: "length body < 2 ^ 64"
    using length_cur_rest_bound [OF c(1)] by simp
  let ?e = "d\<lparr>dw_c := cur_adv (dw_c d) 1\<rparr>"
  have leb: "readLEB128U ?e = (Inr (word_of_nat (length body)), d\<lparr>dw_c := c\<rparr>)"
    using readLEB128U_step [OF after_opcode(1,2) [OF inv r1] len64] by (simp add: c_def)
  have rd: "error_if_not cur_read_u8 (d\<lparr>dw_c := c\<rparr>) = (Inr b, d\<lparr>dw_c := cur_adv c 1\<rparr>)"
    using read_u8_step [of "d\<lparr>dw_c := c\<rparr>" b "bs @ rest"] c x(2) by simp
  show "fetch J n d = (Inr (), d')"
    if act: "ext_action J n b (d\<lparr>dw_c := cur_adv c 1\<rparr>) = (Inr (), d')"
      and c': "dw_c d' = cur_adv c (length body)"
  proof -
    have "d'\<lparr>dw_c := cur_adv c (length body)\<rparr> = d'"
      by (simp flip: c')
    then have mv: "move_cursor (scast (ucast (scast (ucast (word_of_nat (length body) :: u64) :: u32) + cur_off c) :: u32)) d'
        = (Inr (), d')"
      using move_same [OF c(1) mem len, of "length body"] by (simp add: move_cursor_def c')
    have "fetch J n d = exec_extended J n ?e"
      by (rule fetch_ext [OF P inv r1])
    also have "\<dots> = (Inr (), d')"
      using leb rd act mv unfolding exec_extended_def ext_action_def [symmetric] by (simp add: Let_def)
    finally show ?thesis .
  qed
qed

lemma sim_end_sequence:
  assumes P: "params_ok P" and inv: "line_inv P F r d"
    and rest: "cur_rest (dw_c d) = enc_op P End_sequence @ rest"
    and f: "1 \<le> rg_file r" "rg_file r \<le> length F" "length F < 2 ^ 31"
  shows "\<exists>d'. fetch J n d = (Inr (), d') \<and> op_sim P F End_sequence r d d'"
proof -
  define c where "c = cur_adv (dw_c d) (1 + length (leb_enc_u (length [DW_LNE_end_sequence])))"
  note ext = fetch_extended [OF P inv rest, of "[DW_LNE_end_sequence]" DW_LNE_end_sequence "[]", simplified, folded c_def]
  let ?e = "d\<lparr>dw_c := cur_adv c 1\<rparr>"
  have wf1: "cursor_wf (cur_adv c 1)"
    using cursor_wf_adv [of c 1] ext(1,2) c_def by simp
  have inv': "line_inv P F r ?e"
    using inv wf1 by (simp add: line_inv_def c_def)
  obtain l sm where rl: "recordLine ?e = (Inr (), ?e\<lparr>dw_sm := sm, dw_cu := cu_add_line l (dw_cu ?e)\<rparr>)"
    and l: "shows_row F r l" and sm: "sm_params P sm" "sm_regs P (row_reset r) sm"
    and mk: "\<forall>s r'. marks s r' (sm_flags (dw_sm ?e)) \<longrightarrow> marks s r' (ln_flags l)" "\<forall>r'. marks True r' (sm_flags sm)"
    using recordLine_step [OF inv' f] by blast
  have l': "shows_row F (r\<lparr>rg_end_sequence := True\<rparr>) l"
    using l by (simp add: shows_row_def)
  let ?d' = "d\<lparr>dw_c := cur_adv (dw_c d) (length (enc_op P End_sequence)),
      dw_sm := sm\<lparr>sm_end_sequence := True\<rparr>, dw_cu := cu_add_line l (dw_cu d)\<rparr>"
  have ce: "cur_adv c 1 = cur_adv (dw_c d) (length (enc_op P End_sequence))"
    by (simp add: c_def)
  have "ext_action J n DW_LNE_end_sequence ?e = (Inr (), ?d')"
    using rl ce by (simp add: ext_action_def)
  then have "fetch J n d = (Inr (), ?d')"
    using ext(3) [of J n ?d'] ce by simp
  moreover have "op_sim P F End_sequence r d ?d'"
    by (rule op_simI_row [OF inv _ _ _ _ l'])
      (use sm rest mk in \<open>simp_all add: sm_params_def sm_regs_def row_reset_def marks_def\<close>)
  ultimately show ?thesis
    by blast
qed

text \<open>An extended operation that sets a register from its operand.\<close>

lemma sim_ext_register:
  assumes P: "params_ok P" and inv: "line_inv P F r d" and rest: "cur_rest (dw_c d) = enc_op P x @ rest"
    and x: "std_number x = 0" "ext_body P x = b # bs"
    and act: "\<And>e. cursor_wf (dw_c e) \<Longrightarrow> cur_rest (dw_c e) = bs @ rest \<Longrightarrow> cur_dec (dw_c e) = lp_dec P \<Longrightarrow>
      dw_is64 e = lp_is64 P \<Longrightarrow> dw_sm e = dw_sm d \<Longrightarrow>
      ext_action J n b e = (Inr (), e\<lparr>dw_c := cur_adv (dw_c e) (length bs), dw_sm := sm\<rparr>)"
    and sm: "sm_params P sm" "sm_regs P (fst (line_step P x r)) sm"
      "keeps_marks r (dw_sm d) (fst (line_step P x r)) sm" and row: "snd (line_step P x r) = []"
  shows "\<exists>d'. fetch J n d = (Inr (), d') \<and> op_sim P F x r d d'"
proof -
  have e: "enc_op P x = 0 # leb_enc_u (length (ext_body P x)) @ ext_body P x"
    using x by (cases x) simp_all
  define c where "c = cur_adv (dw_c d) (1 + length (leb_enc_u (length (ext_body P x))))"
  note ext = fetch_extended [OF P inv rest e x(2), folded c_def]
  have wf: "cursor_wf (cur_adv c 1)" "cur_rest (cur_adv c 1) = bs @ rest"
    using cursor_wf_adv [of c 1] ext(1,2) by simp_all
  let ?d' = "d\<lparr>dw_c := cur_adv (dw_c d) (length (enc_op P x)), dw_sm := sm\<rparr>"
  have ce: "cur_adv c (length (ext_body P x)) = cur_adv (dw_c d) (length (enc_op P x))"
    by (simp add: c_def e)
  then have ce': "cur_adv c (Suc (length bs)) = cur_adv (dw_c d) (length (enc_op P x))"
    by (simp add: x(2))
  have "ext_action J n b (d\<lparr>dw_c := cur_adv c 1\<rparr>) = (Inr (), ?d')"
    using act [of "d\<lparr>dw_c := cur_adv c 1\<rparr>"] wf line_invD(3,4) [OF inv] ce' by (simp add: c_def)
  then have "fetch J n d = (Inr (), ?d')"
    using ext(3) [of J n ?d'] ce by simp
  moreover have "op_sim P F x r d ?d'"
    by (rule op_simI [OF inv]) (use sm rest row in simp_all)
  ultimately show ?thesis
    by blast
qed

lemma sim_ext_operand:
  assumes P: "params_ok P" and D: "decoder_laws (lp_dec P)" and inv: "line_inv P F r d"
    and rest: "cur_rest (dw_c d) = enc_op P x @ rest" and ok: "operand_ok P x" "index_ok x r"
  shows "x = Set_address a \<Longrightarrow> \<exists>d'. fetch J n d = (Inr (), d') \<and> op_sim P F x r d d'"
    and "x = Set_discriminator k \<Longrightarrow> \<exists>d'. fetch J n d = (Inr (), d') \<and> op_sim P F x r d d'"
proof -
  note sm = line_invD(6,7) [OF inv]
  show "\<exists>d'. fetch J n d = (Inr (), d') \<and> op_sim P F x r d d'" if x: "x = Set_address a"
  proof (rule sim_ext_register [OF P inv rest, where b = DW_LNE_set_address and bs = "enc_target P a"
        and sm = "(dw_sm d)\<lparr>sm_address := word_of_nat a\<rparr>"])
    show "ext_action J n DW_LNE_set_address e = (Inr (), e\<lparr>dw_c := cur_adv (dw_c e) (length (enc_target P a)),
        dw_sm := (dw_sm d)\<lparr>sm_address := word_of_nat a\<rparr>\<rparr>)"
      if "cursor_wf (dw_c e)" "cur_rest (dw_c e) = enc_target P a @ rest" "cur_dec (dw_c e) = lp_dec P"
        "dw_is64 e = lp_is64 P" "dw_sm e = dw_sm d" for e
      using readAddress_step [OF D, of e a rest] that ok x by (simp add: ext_action_def dw_opcodes)
  qed (use sm ok in \<open>simp_all add: x sm_params_def sm_regs_def keeps_marks_same\<close>)
  show "\<exists>d'. fetch J n d = (Inr (), d') \<and> op_sim P F x r d d'" if x: "x = Set_discriminator k"
  proof (rule sim_ext_register [OF P inv rest, where b = DW_LNE_set_discriminator and bs = "leb_enc_u k"
        and sm = "(dw_sm d)\<lparr>sm_discriminator := word_of_nat k\<rparr>"])
    show "ext_action J n DW_LNE_set_discriminator e = (Inr (), e\<lparr>dw_c := cur_adv (dw_c e) (length (leb_enc_u k)),
        dw_sm := (dw_sm d)\<lparr>sm_discriminator := word_of_nat k\<rparr>\<rparr>)"
      if "cursor_wf (dw_c e)" "cur_rest (dw_c e) = leb_enc_u k @ rest" "cur_dec (dw_c e) = lp_dec P"
        "dw_is64 e = lp_is64 P" "dw_sm e = dw_sm d" for e
      using readLEB128U_step [of e k rest] that ok x by (simp add: ext_action_def dw_opcodes ucast_down)
  qed (use sm in \<open>simp_all add: x sm_params_def sm_regs_def keeps_marks_same\<close>)
qed

section \<open>A whole program\<close>

lemma op_simulation:
  assumes P: "params_ok P" and D: "decoder_laws (lp_dec P)" and inv: "line_inv P F r d"
    and rest: "cur_rest (dw_c d) = enc_op P x @ rest"
    and ok: "op_ok P (length F) x r" and F: "length F < 2 ^ 31"
  shows "\<exists>d'. fetch J n d = (Inr (), d') \<and> op_sim P F x r d d'"
proof -
  have o: "std_number x < lp_opcode_base P" "operand_ok P x" "index_ok x r"
    using ok by (simp_all add: op_ok_def)
  show ?thesis
  proof (cases x)
    case (Special k)
    then show ?thesis
      using sim_special [OF P inv _ _ _ _ _ F, of k rest J n] rest o ok
      by (simp add: op_ok_def op_advance_def Let_def)
  next
    case Copy
    then show ?thesis
      using sim_copy [OF P inv _ _ _ _ F, of rest J n] rest o ok by (simp add: op_ok_def)
  next
    case End_sequence
    then show ?thesis
      using sim_end_sequence [OF P inv _ _ _ F, of rest J n] rest ok by (simp add: op_ok_def)
  next
    case (Advance_pc k)
    then show ?thesis
      using sim_advance_pc [OF P inv, of k rest] rest o by simp
  next
    case Const_add_pc
    then show ?thesis
      using sim_const_add_pc [OF P inv, of rest] rest o by simp
  next
    case (Fixed_advance_pc k)
    then show ?thesis
      using sim_fixed_advance_pc [OF P D inv, of k rest] rest o by simp
  next
    case Define_file
    then show ?thesis
      using o by simp
  qed (rule sim_flags [OF P inv rest o(1)] sim_operand [OF P inv rest o(1,2)]
      sim_ext_operand [OF P D inv rest o(2,3)], assumption)+
qed

lemma fetch_run:
  assumes "\<not> sm_end_sequence (dw_sm d)" and "\<not> end_off \<le> cur_off (dw_c d)"
    and "fetch J n d = (Inr (), d')"
  shows "runSM J (Suc n) end_off d = runSM J n end_off d'"
proof -
  have "runSM J (Suc n) end_off d = sbind (fetch J n) (\<lambda>_. runSM J n end_off) d"
    using assms(1,2) by (cases "error_if_not cur_read_u8 d"; cases "fst (error_if_not cur_read_u8 d)")
      (auto simp: fetch_def sbind_def split: sum.splits)
  then show ?thesis
    using assms(3) by simp
qed

text \<open>One operation of a program.\<close>

lemma runSM_step:
  assumes P: "params_ok P" and D: "decoder_laws (lp_dec P)" and F: "length F < 2 ^ 31"
    and inv: "line_inv P F r d" and rest: "cur_rest (dw_c d) = enc_op P x @ bs"
    and ok: "op_ok P (length F) x r" "\<not> rg_end_sequence r"
    and e: "unat (cur_off (dw_c d)) + length (enc_op P x) \<le> unat end_off"
  shows "\<exists>d1 ls. runSM J (Suc n) end_off d = runSM J n end_off d1 \<and> cur_rest (dw_c d1) = bs \<and>
    dw_c d1 = cur_adv (dw_c d) (length (enc_op P x)) \<and>
    unat (cur_off (dw_c d1)) = unat (cur_off (dw_c d)) + length (enc_op P x) \<and>
    line_inv P F (fst (line_step P x r)) d1 \<and> dw_dl d1 = dw_dl d \<and>
    dw_cu d1 = (dw_cu d)\<lparr>cu_lines := cu_lines (dw_cu d) @ ls\<rparr> \<and>
    list_all2 (shows_row F) (snd (line_step P x r)) ls \<and>
    (\<forall>s. marks s r (sm_flags (dw_sm d)) \<longrightarrow> shows_marks s (snd (line_step P x r)) ls \<and>
       marks (s \<or> snd (line_step P x r) \<noteq> []) (fst (line_step P x r)) (sm_flags (dw_sm d1)))"
proof -
  note wf = line_invD(1) [OF inv]
  obtain d1 where d1: "fetch J n d = (Inr (), d1)" and sim: "op_sim P F x r d d1"
    using op_simulation [OF P D inv rest ok(1) F] by blast
  have c1: "dw_c d1 = cur_adv (dw_c d) (length (enc_op P x))"
    using sim by (simp add: op_sim_def)
  have ne: "\<not> sm_end_sequence (dw_sm d)"
    using ok(2) line_invD(7) [OF inv] by (simp add: sm_regs_def)
  have "0 < length (enc_op P x)"
    by (cases x) simp_all
  then have "\<not> end_off \<le> cur_off (dw_c d)"
    unfolding word_le_nat_alt using e by linarith
  note run = fetch_run [OF ne this d1]
  have "length (enc_op P x) < 2 ^ 63"
    using length_cur_rest_bound [OF wf] rest by simp
  then have off: "unat (cur_off (dw_c d1)) = unat (cur_off (dw_c d)) + length (enc_op P x)"
    using unat_cur_off_add [OF wf, of "length (enc_op P x)"] rest by (simp add: c1 cur_adv_def)
  have "cur_rest (dw_c d1) = bs"
    using cursor_wf_adv(2) [OF wf, of "length (enc_op P x)"] rest by (simp add: c1)
  then show ?thesis
    using run off sim by (auto simp: op_sim_def)
qed

lemma runSM_rows:
  assumes P: "params_ok P" and D: "decoder_laws (lp_dec P)" and F: "length F < 2 ^ 31"
  shows "line_inv P F r d \<Longrightarrow> cur_rest (dw_c d) = enc_ops P xs @ rest \<Longrightarrow>
    prog_ok P (length F) xs r \<Longrightarrow> last xs = End_sequence \<Longrightarrow> xs \<noteq> [] \<Longrightarrow> \<not> rg_end_sequence r \<Longrightarrow>
    length xs \<le> n \<Longrightarrow> unat (cur_off (dw_c d)) + length (enc_ops P xs) \<le> unat end_off \<Longrightarrow>
    \<exists>d' ls. runSM J n end_off d = (Inr (), d') \<and>
      dw_c d' = cur_adv (dw_c d) (length (enc_ops P xs)) \<and> dw_dl d' = dw_dl d \<and>
      dw_cu d' = (dw_cu d)\<lparr>cu_lines := cu_lines (dw_cu d) @ ls\<rparr> \<and>
      list_all2 (shows_row F) (line_rows P xs r) ls \<and>
      (\<forall>s. marks s r (sm_flags (dw_sm d)) \<longrightarrow> shows_marks s (line_rows P xs r) ls)"
proof (induction xs arbitrary: r d n)
  case Nil
  then show ?case by simp
next
  case (Cons x xs)
  obtain n' where n: "n = Suc n'"
    using Cons.prems(7) by (cases n) auto
  have lens: "length (enc_ops P (x # xs)) = length (enc_op P x) + length (enc_ops P xs)"
    "cur_rest (dw_c d) = enc_op P x @ enc_ops P xs @ rest"
    using Cons.prems(2) by (simp_all add: enc_ops_def)
  have first: "op_ok P (length F) x r" "unat (cur_off (dw_c d)) + length (enc_op P x) \<le> unat end_off"
    using Cons.prems(3,8) lens(1) by simp_all
  obtain d1 ls1 where d1: "runSM J n end_off d = runSM J n' end_off d1" "cur_rest (dw_c d1) = enc_ops P xs @ rest"
    "dw_c d1 = cur_adv (dw_c d) (length (enc_op P x))"
    "unat (cur_off (dw_c d1)) = unat (cur_off (dw_c d)) + length (enc_op P x)"
    "line_inv P F (fst (line_step P x r)) d1" "dw_dl d1 = dw_dl d"
    "dw_cu d1 = (dw_cu d)\<lparr>cu_lines := cu_lines (dw_cu d) @ ls1\<rparr>"
    "list_all2 (shows_row F) (snd (line_step P x r)) ls1"
    "\<forall>s. marks s r (sm_flags (dw_sm d)) \<longrightarrow> shows_marks s (snd (line_step P x r)) ls1 \<and>
       marks (s \<or> snd (line_step P x r) \<noteq> []) (fst (line_step P x r)) (sm_flags (dw_sm d1))"
    unfolding n using runSM_step [OF P D F Cons.prems(1) lens(2) first(1) Cons.prems(6) first(2)] by blast
  show ?case
  proof (cases xs)
    case Nil
    then have "sm_end_sequence (dw_sm d1)"
      using line_invD(7) [OF d1(5)] Cons.prems(4) by (simp add: sm_regs_def row_reset_def)
    then have "runSM J n' end_off d1 = (Inr (), d1)"
      by (cases n') simp_all
    then show ?thesis
      using d1 Nil by (auto simp: enc_ops_def)
  next
    case (Cons y ys)
    then have ne': "\<not> rg_end_sequence (fst (line_step P x r))"
      using Cons.prems(3,6) by (cases x) (simp_all add: op_advance_def row_reset_def Let_def)
    obtain d' ls where "runSM J n' end_off d1 = (Inr (), d')"
        "dw_c d' = cur_adv (dw_c d1) (length (enc_ops P xs))" "dw_dl d' = dw_dl d1"
        "dw_cu d' = (dw_cu d1)\<lparr>cu_lines := cu_lines (dw_cu d1) @ ls\<rparr>"
        "list_all2 (shows_row F) (line_rows P xs (fst (line_step P x r))) ls"
        "\<forall>s. marks s (fst (line_step P x r)) (sm_flags (dw_sm d1)) \<longrightarrow>
           shows_marks s (line_rows P xs (fst (line_step P x r))) ls"
      using Cons.IH [OF d1(5,2) _ _ _ ne', of n'] Cons.prems(3,4,7,8) Cons lens(1) d1(4) n by auto
    then show ?thesis
      using d1 lens by (intro exI [of _ d'] exI [of _ "ls1 @ ls"]) (simp add: list_all2_appendI shows_marks_append)
  qed
qed

end
