(* ===== verification/Dwarf_Unit.thy ===== *)
theory Dwarf_Unit
  imports Dwarf_Program
begin

text \<open>
  Units of the versions 1 to 4 of DWARF: their encoding, and \<open>readCU\<close> and the
  constructor of \<open>DebugLine\<close> on what is encoded.
\<close>

section \<open>Reading in sequence\<close>

definition at_bytes :: "decoder \<Rightarrow> mem \<Rightarrow> cursor \<Rightarrow> bool" where
  "at_bytes D bs c \<longleftrightarrow>
     cursor_wf c \<and> cur_dec c = D \<and> length (cur_mem c) < 2 ^ 31 \<and> cur_rest c = bs"

lemma at_bytesD:
  "at_bytes D bs c \<Longrightarrow> cursor_wf c" "at_bytes D bs c \<Longrightarrow> cur_dec c = D"
  "at_bytes D bs c \<Longrightarrow> length (cur_mem c) < 2 ^ 31" "at_bytes D bs c \<Longrightarrow> cur_rest c = bs"
  by (simp_all add: at_bytes_def)

lemma at_bytes_length: "at_bytes D bs c \<Longrightarrow> length bs < 2 ^ 31"
  by (auto simp: at_bytes_def cur_rest_def)

lemma at_adv: "at_bytes D (xs @ bs) c \<Longrightarrow> length xs = k \<Longrightarrow> at_bytes D bs (cur_adv c k)"
  using cursor_wf_adv [of c k] by (auto simp: at_bytes_def)

lemma sbind_then: "m s = (Inr x, s') \<Longrightarrow> f x s' = r \<Longrightarrow> sbind m f s = r"
  by simp

lemma at_adv1: "at_bytes D (x # bs) c \<Longrightarrow> at_bytes D bs (cur_adv c 1)"
  using at_adv [of D "[x]" bs c 1] by simp

lemma keep_on_fail_Inr:
  "g (dw_c d) = Inr (Some x, c) \<Longrightarrow> keep_on_fail g old d = (Inr x, d\<lparr>dw_c := c\<rparr>)"
  by (simp add: keep_on_fail_def on_cursor_Inr)

lemma keep_u8:
  "at_bytes D (b # bs) (dw_c d) \<Longrightarrow>
   keep_on_fail cur_read_u8 old d = (Inr b, d\<lparr>dw_c := cur_adv (dw_c d) 1\<rparr>)"
  by (rule keep_on_fail_Inr) (simp add: cur_read_u8_eq at_bytes_def)

lemma read_sm_u8_eq:
  "at_bytes D (b # bs) (dw_c d) \<Longrightarrow>
   read_sm_u8 g p d = (Inr (), d\<lparr>dw_c := cur_adv (dw_c d) 1, dw_sm := p b (dw_sm d)\<rparr>)"
  by (simp add: read_sm_u8_def keep_u8)

lemma cstr_step:
  assumes "at_bytes D (s @ 0 # bs) (dw_c d)" and "0 \<notin> set s"
  shows "error_if_not cstr_ok d = (Inr s, d\<lparr>dw_c := cur_adv (dw_c d) (length s + 1)\<rparr>)"
proof -
  have "takeWhile (\<lambda>b. b \<noteq> 0) (s @ 0 # bs) = s"
    using assms(2) by (induction s) auto
  then show ?thesis
    using assms(1) by (intro error_if_not_Inr) (simp add: cstr_ok_def cur_read_cstr_eq at_bytes_def)
qed

lemma move_here:
  assumes "at_bytes D bs (dw_c d)"
  shows "move_cursor (cur_off (dw_c d)) d = (Inr (), d)"
  using assms by (auto simp: move_cursor_def cur_move_def at_bytes_def cursor_wf_def)

lemma move_forward:
  assumes "at_bytes D (xs @ bs) (dw_c d)"
  shows "move_cursor (cur_off (dw_c d) + word_of_nat (length xs)) d =
    (Inr (), d\<lparr>dw_c := cur_adv (dw_c d) (length xs)\<rparr>)"
proof -
  have "at_bytes D bs (cur_adv (dw_c d) (length xs))"
    by (rule at_adv [OF assms refl])
  then have "cur_off (cur_adv (dw_c d) (length xs)) \<le> cur_size (dw_c d)"
    by (simp add: at_bytes_def cursor_wf_def)
  then show ?thesis
    by (simp add: move_cursor_def cur_move_def cur_adv_def not_less)
qed

section \<open>Directories and files\<close>

definition enc_cstr :: "u8 list \<Rightarrow> u8 list" where
  "enc_cstr s = s @ [0]"

definition cstr_valid :: "u8 list \<Rightarrow> bool" where
  "cstr_valid s \<longleftrightarrow> s \<noteq> [] \<and> 0 \<notin> set s"

fun enc_dirs :: "u8 list list \<Rightarrow> u8 list" where
  "enc_dirs [] = [0]"
| "enc_dirs (s # ss) = enc_cstr s @ enc_dirs ss"

lemma enc_dirs_nonempty: "enc_dirs ss \<noteq> []"
  by (cases ss) (simp_all add: enc_cstr_def)

lemma readDir4_eq:
  "at_bytes D (enc_dirs ss @ bs) (dw_c d) \<Longrightarrow> list_all cstr_valid ss \<Longrightarrow> length ss < n \<Longrightarrow>
   readDir4 n d = (Inr (), d\<lparr>dw_c := cur_adv (dw_c d) (length (enc_dirs ss)),
     dw_sm := (dw_sm d)\<lparr>sm_dirs := sm_dirs (dw_sm d) @ ss\<rparr>\<rparr>)"
proof (induction ss arbitrary: d n)
  case Nil
  then obtain n' where "n = Suc n'"
    by (cases n) auto
  then show ?case
    using cstr_step [of D "[]" bs d] Nil.prems(1) by simp
next
  case (Cons s ss)
  then obtain n' where n: "n = Suc n'"
    by (cases n) auto
  have at: "at_bytes D (s @ 0 # enc_dirs ss @ bs) (dw_c d)" and s: "s \<noteq> []" "0 \<notin> set s"
    using Cons.prems(1,2) by (simp_all add: enc_cstr_def cstr_valid_def)
  let ?d = "d\<lparr>dw_c := cur_adv (dw_c d) (length s + 1), dw_sm := (dw_sm d)\<lparr>sm_dirs := sm_dirs (dw_sm d) @ [s]\<rparr>\<rparr>"
  have at': "at_bytes D (enc_dirs ss @ bs) (dw_c ?d)"
    using at_adv [of D "s @ [0]" "enc_dirs ss @ bs" "dw_c d" "length s + 1"] at by simp
  show ?case
    using Cons.IH [OF at', of n'] Cons.prems(2,3) cstr_step [OF at s(2)] s(1)
    by (simp add: n enc_cstr_def add.assoc)
qed

record file_entry =
  fe_name :: "u8 list"
  fe_dir :: nat
  fe_date :: nat
  fe_size :: nat

definition entry_ok :: "nat \<Rightarrow> file_entry \<Rightarrow> bool" where
  "entry_ok k e \<longleftrightarrow>
     cstr_valid (fe_name e) \<and> fe_dir e \<le> k \<and> fe_date e < 2 ^ 64 \<and> fe_size e < 2 ^ 64"

fun enc_files :: "file_entry list \<Rightarrow> u8 list" where
  "enc_files [] = [0]"
| "enc_files (e # es) =
     enc_cstr (fe_name e) @ leb_enc_u (fe_dir e) @ leb_enc_u (fe_date e) @ leb_enc_u (fe_size e) @
     enc_files es"

definition entry_path :: "(u8 list \<Rightarrow> u8 list \<Rightarrow> u8 list) \<Rightarrow> u8 list list \<Rightarrow> file_entry \<Rightarrow> u8 list" where
  "entry_path J dirs e = J ((str_bytes ''.'' # dirs) ! fe_dir e) (fe_name e)"

fun put_entries ::
  "(u8 list \<Rightarrow> u8 list \<Rightarrow> u8 list) \<Rightarrow> u8 list list \<Rightarrow> file_entry list \<Rightarrow> comp_unit \<times> debug_line \<Rightarrow>
   comp_unit \<times> debug_line" where
  "put_entries J dirs [] cd = cd"
| "put_entries J dirs (e # es) cd =
     put_entries J dirs es
       (put_file (entry_path J dirs e) (word_of_nat (fe_date e)) (word_of_nat (fe_size e)) cd)"

lemma leb_step:
  assumes "at_bytes D (leb_enc_u n @ bs) (dw_c d)" and "n < 2 ^ 64"
  shows "readLEB128U d = (Inr (word_of_nat n), d\<lparr>dw_c := cur_adv (dw_c d) (length (leb_enc_u n))\<rparr>)"
    and "at_bytes D bs (cur_adv (dw_c d) (length (leb_enc_u n)))"
  using readLEB128U_step [of d n bs] at_adv [OF assms(1) refl] assms by (simp_all add: at_bytes_def)

lemma dir_at_eq:
  assumes "k < length (sm_dirs sm)" and "length (sm_dirs sm) < 2 ^ 31"
  shows "dir_at (word_of_nat k) sm = Inr (sm_dirs sm ! k)"
proof -
  have "sint (ucast (word_of_nat k :: u64) :: u32) = int k"
    using assms by (simp add: ucast_down signed_of_nat signed_take_bit_int_eq_self)
  then show ?thesis
    using assms(1) by (simp add: dir_at_def)
qed

lemma readFile4_eq:
  "at_bytes D (enc_files es @ bs) (dw_c d) \<Longrightarrow> list_all (entry_ok (length dirs)) es \<Longrightarrow>
   sm_dirs (dw_sm d) = str_bytes ''.'' # dirs \<Longrightarrow> length dirs < 2 ^ 31 - 1 \<Longrightarrow> length es < n \<Longrightarrow>
   put_entries J dirs es (dw_cu d, dw_dl d) = (cu, dl) \<Longrightarrow>
   sbind (error_if_not cstr_ok) (readFile4 J n) d =
     (Inr (), d\<lparr>dw_c := cur_adv (dw_c d) (length (enc_files es)), dw_cu := cu, dw_dl := dl\<rparr>)"
proof (induction es arbitrary: d n)
  case Nil
  then obtain n' where "n = Suc n'"
    by (cases n) auto
  then show ?case
    using cstr_step [of D "[]" bs d] Nil.prems(1,6) by simp
next
  case (Cons e es)
  then obtain n' where n: "n = Suc n'"
    by (cases n) auto
  let ?l1 = "leb_enc_u (fe_dir e)" and ?l2 = "leb_enc_u (fe_date e)" and ?l3 = "leb_enc_u (fe_size e)"
  have e: "fe_name e \<noteq> []" "0 \<notin> set (fe_name e)" "fe_dir e \<le> length dirs"
    "fe_dir e < 2 ^ 64" "fe_date e < 2 ^ 64" "fe_size e < 2 ^ 64"
    using Cons.prems(2,4) by (simp_all add: entry_ok_def cstr_valid_def)
  have a0: "at_bytes D (fe_name e @ 0 # ?l1 @ ?l2 @ ?l3 @ enc_files es @ bs) (dw_c d)"
    using Cons.prems(1) by (simp add: enc_cstr_def)
  let ?d1 = "d\<lparr>dw_c := cur_adv (dw_c d) (length (fe_name e) + 1)\<rparr>"
  have a1: "at_bytes D (?l1 @ ?l2 @ ?l3 @ enc_files es @ bs) (dw_c ?d1)"
    using at_adv [of D "fe_name e @ [0]" _ "dw_c d" "length (fe_name e) + 1"] a0 by simp
  note s1 = leb_step [OF a1 e(4)]
  let ?d2 = "?d1\<lparr>dw_c := cur_adv (dw_c ?d1) (length ?l1)\<rparr>"
  have a2: "at_bytes D (?l2 @ ?l3 @ enc_files es @ bs) (dw_c ?d2)"
    using s1(2) by simp
  note s2 = leb_step [OF a2 e(5)]
  let ?d3 = "?d2\<lparr>dw_c := cur_adv (dw_c ?d2) (length ?l2)\<rparr>"
  have a3: "at_bytes D (?l3 @ enc_files es @ bs) (dw_c ?d3)"
    using s2(2) by simp
  note s3 = leb_step [OF a3 e(6)]
  let ?d4 = "?d3\<lparr>dw_c := cur_adv (dw_c ?d3) (length ?l3)\<rparr>"
  have a4: "at_bytes D (enc_files es @ bs) (dw_c ?d4)"
    using s3(2) by simp
  have z: "(word_of_nat (fe_dir e) :: u64) = 0 \<longleftrightarrow> fe_dir e = 0"
    by (simp only: unat_eq_0 [symmetric] unat_of_nat_64 [OF e(4)])
  have path: "(if (word_of_nat (fe_dir e) :: u64) = 0 then sreturn (J (str_bytes ''.'') (fe_name e))
      else with_sm (\<lambda>sm. sbind (slift (dir_at (word_of_nat (fe_dir e)) sm)) (\<lambda>d. sreturn (J d (fe_name e))))) ?d4
      = (Inr (entry_path J dirs e), ?d4)"
    using dir_at_eq [of "fe_dir e" "dw_sm d"] e(3) Cons.prems(3,4) z
    by (auto simp: entry_path_def)
  obtain cu1 dl1 where p1: "put_file (entry_path J dirs e) (word_of_nat (fe_date e))
      (word_of_nat (fe_size e)) (dw_cu d, dw_dl d) = (cu1, dl1)"
    by (meson surj_pair)
  let ?d5 = "?d4\<lparr>dw_cu := cu1, dw_dl := dl1\<rparr>"
  have add: "add_file (entry_path J dirs e) (word_of_nat (fe_date e)) (word_of_nat (fe_size e)) ?d4 = (Inr (), ?d5)"
    using p1 by (simp add: add_file_def)
  have IH: "sbind (error_if_not cstr_ok) (readFile4 J n') ?d5 =
      (Inr (), ?d5\<lparr>dw_c := cur_adv (dw_c ?d5) (length (enc_files es)), dw_cu := cu, dw_dl := dl\<rparr>)"
    by (rule Cons.IH) (use Cons.prems a4 p1 n in simp_all)
  have "sbind (error_if_not cstr_ok) (readFile4 J n) d = readFile4 J (Suc n') (fe_name e) ?d1"
    using cstr_step [OF a0 e(2)] by (simp add: n del: readFile4.simps)
  also have "\<dots> = sbind (error_if_not cstr_ok) (readFile4 J n') ?d5"
    unfolding readFile4.simps using e(1)
    by (simp add: s1(1) [simplified] s2(1) [simplified] s3(1) [simplified] path [simplified] add [simplified])
  finally show ?case
    using IH by (simp add: enc_cstr_def add.assoc)
qed

section \<open>The header\<close>

record line_unit =
  lu_params :: line_params
  lu_version :: nat
  lu_stmt :: u8
  lu_lengths :: "u8 list"
  lu_dirs :: "u8 list list"
  lu_files :: "file_entry list"
  lu_prog :: "line_op list"
  lu_extra :: "u8 list"

text \<open>\<open>lu_extra\<close> is what follows the first \<open>end_sequence\<close> in the unit.\<close>

definition enc_fields :: "line_unit \<Rightarrow> u8 list" where
  "enc_fields U =
     word_of_nat (lp_min_length (lu_params U)) #
     (if 4 \<le> lu_version U then [word_of_nat (lp_max_ops (lu_params U))] else []) @
     [lu_stmt U, word_of_int (lp_line_base (lu_params U)), word_of_nat (lp_line_range (lu_params U)),
      word_of_nat (lp_opcode_base (lu_params U))] @ lu_lengths U"

definition enc_tables :: "line_unit \<Rightarrow> u8 list" where
  "enc_tables U = enc_fields U @ enc_dirs (lu_dirs U) @ enc_files (lu_files U)"

definition enc_contents :: "line_unit \<Rightarrow> u8 list" where
  "enc_contents U =
     to_le 2 (unfix_u16 (lp_dec (lu_params U)) (word_of_nat (lu_version U))) @
     enc_address (lu_params U) (length (enc_tables U)) @ enc_tables U @
     enc_ops (lu_params U) (lu_prog U) @ lu_extra U"

definition enc_unit :: "line_unit \<Rightarrow> u8 list" where
  "enc_unit U =
     (if lp_is64 (lu_params U) then to_le 4 (unfix_u32 (lp_dec (lu_params U)) 0xffffffff) else []) @
     enc_address (lu_params U) (length (enc_contents U)) @ enc_contents U"

definition unit_start :: "line_unit \<Rightarrow> regs" where
  "unit_start U = start_regs (lu_stmt U \<noteq> 0)"

definition unit_ok :: "nat \<Rightarrow> line_unit \<Rightarrow> bool" where
  "unit_ok n U \<longleftrightarrow>
     params_ok (lu_params U) \<and> 1 \<le> lu_version U \<and> lu_version U \<le> 4 \<and>
     (lu_version U < 4 \<longrightarrow> lp_max_ops (lu_params U) = 1) \<and>
     length (lu_lengths U) = lp_opcode_base (lu_params U) - 1 \<and>
     list_all cstr_valid (lu_dirs U) \<and> list_all (entry_ok (length (lu_dirs U))) (lu_files U) \<and>
     (if lu_prog U = [] then lu_extra U = [] else last (lu_prog U) = End_sequence) \<and>
     prog_ok (lu_params U) (length (lu_files U)) (lu_prog U) (unit_start U) \<and>
     length (lu_dirs U) < n \<and> length (lu_files U) < n \<and> length (lu_prog U) < n"

text \<open>The state machine after the header.\<close>

definition header_sm :: "line_unit \<Rightarrow> u64 \<Rightarrow> state_machine" where
  "header_sm U p =
     new_state_machine\<lparr>sm_version := word_of_nat (lu_version U),
       sm_min_length := word_of_nat (lp_min_length (lu_params U)),
       sm_max_ops := word_of_nat (lp_max_ops (lu_params U)),
       sm_flags := (if lu_stmt U \<noteq> 0 then 1 else 0),
       sm_line_base := word_of_int (lp_line_base (lu_params U)),
       sm_line_range := word_of_nat (lp_line_range (lu_params U)),
       sm_opcode_base := word_of_nat (lp_opcode_base (lu_params U)),
       sm_lengths := Some p\<rparr>"

lemma read_lengths_eq:
  assumes at: "at_bytes D (ls @ bs) (dw_c d)" and ne: "bs \<noteq> []"
    and ob: "sm_opcode_base (dw_sm d) = word_of_nat (Suc (length ls))" "Suc (length ls) < 256"
  shows "\<exists>p. read_lengths d = (Inr (), d\<lparr>dw_c := cur_adv (dw_c d) (length ls),
    dw_sm := (dw_sm d)\<lparr>sm_lengths := Some p\<rparr>\<rparr>)"
proof -
  have n: "(ucast (sm_opcode_base (dw_sm d)) - 1 :: u64) = word_of_nat (length ls)"
    using ob by (simp add: ucast_u8 del: of_nat_Suc) simp
  have len: "length ls < 2 ^ 63" "length ls \<le> length (cur_rest (dw_c d))"
    using ob(2) at by (simp_all add: at_bytes_def)
  have av: "cur_avail (dw_c d) (word_of_nat (length ls))"
    using cur_avail_iff [OF at_bytesD(1) [OF at] len(1)] len(2) by simp
  have "\<not> cur_ended (dw_c d)"
    using cur_ended_iff [OF at_bytesD(1) [OF at]] at_bytesD(4) [OF at] ne by simp
  then obtain p where "cur_here (dw_c d) = Inr p"
    by (auto simp: cur_here_def buf_at_def cur_ended_def cur_size_def not_le)
  then show ?thesis
    using av cur_skip_eq [OF at_bytesD(1) [OF at] len(1)] len(2)
    by (intro exI [of _ p]) (simp add: read_lengths_def n Let_def)
qed

text \<open>A state whose cursor and state machine have moved on.\<close>

definition moved :: "dwarf \<Rightarrow> nat \<Rightarrow> state_machine \<Rightarrow> dwarf" where
  "moved d k sm = d\<lparr>dw_c := cur_adv (dw_c d) k, dw_sm := sm\<rparr>"

lemma moved_simps [simp]:
  "dw_c (moved d k sm) = cur_adv (dw_c d) k" "dw_sm (moved d k sm) = sm"
  "dw_is64 (moved d k sm) = dw_is64 d" "dw_cu (moved d k sm) = dw_cu d"
  "dw_dl (moved d k sm) = dw_dl d" "moved (moved d k sm) k' sm' = moved d (k + k') sm'"
  by (simp_all add: moved_def)

lemma read_sm_u8_moved:
  "at_bytes D (b # bs) (cur_adv (dw_c d) k) \<Longrightarrow> read_sm_u8 g p (moved d k sm) = (Inr (), moved d (k + 1) (p b sm))"
  using read_sm_u8_eq [of D b bs "moved d k sm" g p] by (simp add: moved_def)

lemma at_moved:
  "at_bytes D (b # bs) (cur_adv c k) \<Longrightarrow> at_bytes D bs (cur_adv c (k + 1))"
  using at_adv1 [of D b bs "cur_adv c k"] by simp

lemma read_register_then:
  "at_bytes D (b # bs) (cur_adv (dw_c d) k) \<Longrightarrow>
   sbind (read_sm_u8 g p) f (moved d k sm) = f () (moved d (k + 1) (p b sm))"
  by (rule sbind_then, erule read_sm_u8_moved, rule refl)

text \<open>The maximum of operations, which only the version 4 has.\<close>

lemma read_max_ops_then:
  assumes at: "at_bytes D ((if 4 \<le> v then [word_of_nat m] else []) @ bs) (cur_adv (dw_c d) k)"
    and v: "sm_version sm = word_of_nat v" "v \<le> 4" "v < 4 \<longrightarrow> m = 1"
  defines "k' \<equiv> k + length (if 4 \<le> v then [word_of_nat m :: u8] else [])"
  shows "sbind (with_sm (\<lambda>sm. if 4 \<le> sm_version sm then read_sm_u8 sm_max_ops (\<lambda>v sm. sm\<lparr>sm_max_ops := v\<rparr>)
        else on_sm (\<lambda>sm. sm\<lparr>sm_max_ops := 1\<rparr>))) f (moved d k sm) =
      f () (moved d k' (sm\<lparr>sm_max_ops := word_of_nat m\<rparr>))"
    and "at_bytes D bs (cur_adv (dw_c d) k')"
proof -
  have v4: "(4 :: u16) \<le> word_of_nat v \<longleftrightarrow> 4 \<le> v"
    using v(2) by (simp add: word_le_nat_alt unat_of_nat)
  have "with_sm (\<lambda>sm. if 4 \<le> sm_version sm then read_sm_u8 sm_max_ops (\<lambda>v sm. sm\<lparr>sm_max_ops := v\<rparr>)
      else on_sm (\<lambda>sm. sm\<lparr>sm_max_ops := 1\<rparr>)) (moved d k sm) =
    (Inr (), moved d k' (sm\<lparr>sm_max_ops := word_of_nat m\<rparr>))"
  proof (cases "4 \<le> v")
    case True
    then have "at_bytes D (word_of_nat m # bs) (cur_adv (dw_c d) k)"
      using at by simp
    from read_sm_u8_moved [OF this, of _ _ sm] True v4 show ?thesis
      by (simp add: v(1) k'_def)
  next
    case False
    then show ?thesis
      using v(3) v4 by (simp add: v(1) k'_def moved_def)
  qed
  then show "sbind (with_sm (\<lambda>sm. if 4 \<le> sm_version sm then read_sm_u8 sm_max_ops (\<lambda>v sm. sm\<lparr>sm_max_ops := v\<rparr>)
        else on_sm (\<lambda>sm. sm\<lparr>sm_max_ops := 1\<rparr>))) f (moved d k sm) =
      f () (moved d k' (sm\<lparr>sm_max_ops := word_of_nat m\<rparr>))"
    by (rule sbind_then) (rule refl)
  show "at_bytes D bs (cur_adv (dw_c d) k')"
    using at_adv [OF at refl] by (simp add: k'_def)
qed

lemma read_stmt_then:
  assumes "at_bytes D (b # bs) (cur_adv (dw_c d) k)" and "sm_flags sm = 0"
  shows "sbind (keep_on_fail cur_read_u8 None) (\<lambda>st.
      sbind (if st \<noteq> 0 then on_sm (sm_set IS_STMT) else sreturn ()) f) (moved d k sm) =
    f () (moved d (k + 1) (sm\<lparr>sm_flags := (if b \<noteq> 0 then 1 else 0)\<rparr>))"
proof -
  have "keep_on_fail cur_read_u8 None (moved d k sm) = (Inr b, moved d (k + 1) sm)"
    using keep_u8 [of D b bs "moved d k sm"] assms(1) by (simp add: moved_def)
  moreover have "(if b \<noteq> 0 then on_sm (sm_set IS_STMT) else sreturn ()) (moved d (k + 1) sm) =
      (Inr (), moved d (k + 1) (sm\<lparr>sm_flags := (if b \<noteq> 0 then 1 else 0)\<rparr>))"
    using assms(2) by (simp add: sm_set_def line_flags moved_def)
  ultimately show ?thesis
    by simp
qed

lemma read_parameters_eq:
  assumes U: "unit_ok n U" and at: "at_bytes D (enc_fields U @ bs) (dw_c d)" and ne: "bs \<noteq> []"
    and sm: "dw_sm d = new_state_machine\<lparr>sm_version := word_of_nat (lu_version U)\<rparr>"
  shows "\<exists>p. read_parameters d = (Inr (), moved d (length (enc_fields U)) (header_sm U p))"
proof -
  let ?P = "lu_params U"
  have ver: "lu_version U \<le> 4" "lu_version U < 4 \<longrightarrow> lp_max_ops ?P = 1"
    and ob: "Suc (length (lu_lengths U)) < 256" "lp_opcode_base ?P = Suc (length (lu_lengths U))"
    using U by (auto simp: unit_ok_def params_ok_def)
  let ?k = "1 + length (if 4 \<le> lu_version U then [word_of_nat (lp_max_ops ?P) :: u8] else [])"
  have a0: "at_bytes D (word_of_nat (lp_min_length ?P) #
      (if 4 \<le> lu_version U then [word_of_nat (lp_max_ops ?P)] else []) @ lu_stmt U #
      word_of_int (lp_line_base ?P) # word_of_nat (lp_line_range ?P) # word_of_nat (lp_opcode_base ?P) #
      lu_lengths U @ bs) (cur_adv (dw_c d) 0)"
    using at by (simp add: enc_fields_def)
  note a1 = at_moved [OF a0, unfolded add_0]
  define sm1 where "sm1 = (dw_sm d)\<lparr>sm_min_length := word_of_nat (lp_min_length ?P)\<rparr>"
  have v1: "sm_version sm1 = word_of_nat (lu_version U)" "sm_flags sm1 = 0"
    by (simp_all add: sm1_def sm new_state_machine_def)
  note max = read_max_ops_then [OF a1 v1(1) ver]
  note a3 = at_moved [OF max(2)]
  note a4 = at_moved [OF a3]
  note a5 = at_moved [OF a4]
  note a6 = at_moved [OF a5]
  define sm6 where "sm6 = sm1\<lparr>sm_max_ops := word_of_nat (lp_max_ops ?P),
    sm_flags := (if lu_stmt U \<noteq> 0 then 1 else 0), sm_line_base := word_of_int (lp_line_base ?P),
    sm_line_range := word_of_nat (lp_line_range ?P), sm_opcode_base := word_of_nat (lp_opcode_base ?P)\<rparr>"
  have d: "d = moved d 0 (dw_sm d)"
    by (simp add: moved_def)
  have "read_parameters d = read_lengths (moved d (?k + 1 + 1 + 1 + 1) sm6)"
    by (subst d, unfold read_parameters_def, subst read_register_then [OF a0], unfold add_0, fold sm1_def,
        subst max(1), subst read_stmt_then [OF max(2)], simp add: v1, subst read_register_then [OF a3],
        subst read_register_then [OF a4], subst read_register_then [OF a5])
      (simp add: sm6_def)
  moreover obtain p where "read_lengths (moved d (?k + 1 + 1 + 1 + 1) sm6) =
      (Inr (), moved d (?k + 1 + 1 + 1 + 1 + length (lu_lengths U)) (sm6\<lparr>sm_lengths := Some p\<rparr>))"
    using read_lengths_eq [of D _ bs "moved d (?k + 1 + 1 + 1 + 1) sm6", OF _ ne _ ob(1)] a6 ob(2)
    by (auto simp: sm6_def moved_def)
  moreover have "sm6\<lparr>sm_lengths := Some p\<rparr> = header_sm U p"
    by (simp add: sm6_def sm1_def sm header_sm_def new_state_machine_def)
  moreover have "length (enc_fields U) = ?k + 1 + 1 + 1 + 1 + length (lu_lengths U)"
    by (simp add: enc_fields_def)
  ultimately show ?thesis
    by (intro exI [of _ p]) (simp only:)
qed

lemma readAddress_at:
  assumes "decoder_laws (lp_dec P)" and "at_bytes (lp_dec P) (enc_address P a @ bs) (dw_c d)"
    and "dw_is64 d = lp_is64 P" and "a < 2 ^ 32"
  shows "readHeaderLength d = (Inr (word_of_nat a), d\<lparr>dw_c := cur_adv (dw_c d) (length (enc_address P a))\<rparr>)"
    and "lp_is64 P \<Longrightarrow> error_if_not cur_read_u64 d =
      (Inr (word_of_nat a), d\<lparr>dw_c := cur_adv (dw_c d) (length (enc_address P a))\<rparr>)"
    and "\<not> lp_is64 P \<Longrightarrow> error_if_not cur_read_u32 d =
      (Inr (word_of_nat a), d\<lparr>dw_c := cur_adv (dw_c d) (length (enc_address P a))\<rparr>)"
proof -
  note fx = decoder_laws.fix_unfix64 [OF assms(1)] decoder_laws.fix_unfix32 [OF assms(1)]
  have r64: "cur_read_u64 (dw_c d) = Inr (Some (word_of_nat a), cur_adv (dw_c d) (length (enc_address P a)))"
    if "lp_is64 P"
    using that assms(2) fx by (simp add: cur_read_u64_eq enc_address_def at_bytes_def)
  have r32: "cur_read_u32 (dw_c d) = Inr (Some (word_of_nat a), cur_adv (dw_c d) (length (enc_address P a)))"
    if "\<not> lp_is64 P"
    using that assms(2) fx by (simp add: cur_read_u32_eq enc_address_def at_bytes_def)
  show "error_if_not cur_read_u64 d =
      (Inr (word_of_nat a), d\<lparr>dw_c := cur_adv (dw_c d) (length (enc_address P a))\<rparr>)" if "lp_is64 P"
    by (rule error_if_not_Inr [where g = cur_read_u64, OF r64 [OF that]])
  show "error_if_not cur_read_u32 d =
      (Inr (word_of_nat a), d\<lparr>dw_c := cur_adv (dw_c d) (length (enc_address P a))\<rparr>)" if "\<not> lp_is64 P"
    by (rule error_if_not_Inr [where g = cur_read_u32, OF r32 [OF that]])
  show "readHeaderLength d = (Inr (word_of_nat a), d\<lparr>dw_c := cur_adv (dw_c d) (length (enc_address P a))\<rparr>)"
    using keep_on_fail_Inr [where g = cur_read_u64, OF r64]
      keep_on_fail_Inr [where g = cur_read_u32, OF r32] assms(3) ucast_u32 [OF assms(4)]
    by (cases "lp_is64 P") (simp_all add: readHeaderLength_def)
qed

lemma readHeader_eq:
  assumes U: "unit_ok n U" and D: "decoder_laws (lp_dec (lu_params U))"
    and at: "at_bytes (lp_dec (lu_params U))
      (to_le 2 (unfix_u16 (lp_dec (lu_params U)) (word_of_nat (lu_version U))) @
       enc_address (lu_params U) (length (enc_tables U)) @ enc_tables U @ bs) (dw_c d)"
    and sm: "dw_sm d = new_state_machine" and b64: "dw_is64 d = lp_is64 (lu_params U)"
    and put: "put_entries J (lu_dirs U) (lu_files U) (dw_cu d, dw_dl d) = (cu, dl)"
  defines "k \<equiv> 2 + length (enc_address (lu_params U) (length (enc_tables U))) + length (enc_tables U)"
  shows "\<exists>p. readHeader J n d =
    (Inr (), (moved d k ((header_sm U p)\<lparr>sm_dirs := str_bytes ''.'' # lu_dirs U\<rparr>))\<lparr>dw_cu := cu, dw_dl := dl\<rparr>)"
proof -
  let ?P = "lu_params U" and ?D = "lp_dec (lu_params U)"
  let ?v = "word_of_nat (lu_version U) :: u16"
  let ?ea = "enc_address ?P (length (enc_tables U))"
  define sm0 where "sm0 = new_state_machine\<lparr>sm_version := ?v\<rparr>"
  have ver: "\<not> 5 < ?v" "\<not> 5 \<le> ?v" "?v < 5"
    using U by (simp_all add: unit_ok_def word_less_nat_alt word_le_nat_alt unat_of_nat)
  have s1: "error_if_not cur_read_u16 d = (Inr ?v, moved d 2 new_state_machine)"
    using read_u16_step [OF D at_bytesD(1,2,4) [OF at]] sm by (simp add: moved_def)
  have s2: "on_sm (\<lambda>sm. sm\<lparr>sm_version := ?v\<rparr>) (moved d 2 new_state_machine) = (Inr (), moved d 2 sm0)"
    by (simp add: moved_def sm0_def)
  have a1: "at_bytes ?D (?ea @ enc_tables U @ bs) (cur_adv (dw_c d) 2)"
    using at_adv [OF at] by simp
  have small: "length (enc_tables U) < 2 ^ 32"
    using at_bytes_length [OF a1] by simp
  let ?k1 = "2 + length ?ea"
  have s3: "readHeaderLength (moved d 2 sm0) = (Inr (word_of_nat (length (enc_tables U))), moved d ?k1 sm0)"
    using readAddress_at(1) [OF D, of "length (enc_tables U)" "enc_tables U @ bs" "moved d 2 sm0"] a1 b64 small
    by (simp add: moved_def)
  have a2: "at_bytes ?D (enc_fields U @ enc_dirs (lu_dirs U) @ enc_files (lu_files U) @ bs) (cur_adv (dw_c d) ?k1)"
    using at_adv [OF a1 refl] by (simp add: enc_tables_def)
  let ?k2 = "?k1 + length (enc_fields U)"
  obtain p where s4: "read_parameters (moved d ?k1 sm0) = (Inr (), moved d ?k2 (header_sm U p))"
    using read_parameters_eq [OF U, of ?D _ "moved d ?k1 sm0"] a2 enc_dirs_nonempty
    by (auto simp: sm0_def)
  have a3: "at_bytes ?D (enc_dirs (lu_dirs U) @ enc_files (lu_files U) @ bs) (cur_adv (dw_c d) ?k2)"
    using at_adv [OF a2 refl] by simp
  let ?sm = "(header_sm U p)\<lparr>sm_dirs := str_bytes ''.'' # lu_dirs U\<rparr>"
  let ?k3 = "?k2 + length (enc_dirs (lu_dirs U))"
  have v: "sm_version (header_sm U p) < 5" "sm_dirs (header_sm U p) = [str_bytes ''.'']"
    using ver(3) by (simp_all add: header_sm_def new_state_machine_def)
  have s5: "readDir n (moved d ?k2 (header_sm U p)) = (Inr (), moved d ?k3 ?sm)"
    using readDir4_eq [of ?D "lu_dirs U" "enc_files (lu_files U) @ bs" "moved d ?k2 (header_sm U p)" n] a3 U v
    by (simp add: readDir_def moved_def unit_ok_def)
  have a4: "at_bytes ?D (enc_files (lu_files U) @ bs) (cur_adv (dw_c d) ?k3)"
    using at_adv [OF a3 refl] by simp
  have dirs: "length (lu_dirs U) < 2 ^ 31 - 1"
  proof -
    have "length ss < length (enc_dirs ss)" for ss
      by (induction ss) (simp_all add: enc_cstr_def)
    from this [of "lu_dirs U"] show ?thesis
      using at_bytes_length [OF a3] by simp
  qed
  have s6: "readFile J n (moved d ?k3 ?sm) = (Inr (), (moved d k ?sm)\<lparr>dw_cu := cu, dw_dl := dl\<rparr>)"
    using readFile4_eq [of ?D "lu_files U" bs "moved d ?k3 ?sm" "lu_dirs U" n J cu dl] a4 U v(1) dirs put
    by (simp add: readFile_def moved_def unit_ok_def k_def enc_tables_def add.assoc)
  let ?e = "(moved d k ?sm)\<lparr>dw_cu := cu, dw_dl := dl\<rparr>"
  have a5: "at_bytes ?D bs (dw_c ?e)"
    using at_adv [OF a4 refl] by (simp add: k_def enc_tables_def add.assoc)
  have "cur_off (cur_adv (dw_c d) ?k1) + word_of_nat (length (enc_tables U)) = cur_off (dw_c ?e)"
    by (simp add: cur_adv_def k_def)
  then have s7: "move_cursor (cur_off (dw_c (moved d ?k1 sm0)) + word_of_nat (length (enc_tables U))) ?e = (Inr (), ?e)"
    using move_here [OF a5] by simp
  have "readHeader J n d = (Inr (), ?e)"
    by (simp only: readHeader_def sbind_Inr s1 s2 s3 s4 s5 s6 s7 if_not_P [OF ver(1)]
        if_not_P [OF ver(2)] Let_def stm_simps)
  then show ?thesis
    by blast
qed

section \<open>The tables of files\<close>

text \<open>The map of a \<open>DebugLine\<close> gives exactly its files by their paths.\<close>

definition dl_wf :: "debug_line \<Rightarrow> bool" where
  "dl_wf dl \<longleftrightarrow>
     (\<forall>p i. dl_map dl p = Some i \<longleftrightarrow> i < length (dl_files dl) \<and> fl_path (dl_files dl ! i) = p)"

definition dl_paths :: "debug_line \<Rightarrow> u8 list list" where
  "dl_paths dl = map fl_path (dl_files dl)"

lemma dl_wf_new: "dl_wf new_debug_line"
  by (simp add: dl_wf_def new_debug_line_def)

lemma dl_wf_add_file:
  assumes "dl_wf dl" and "dl_map dl (fl_path f) = None"
  shows "dl_wf (dl_add_file f dl)"
  unfolding dl_wf_def
proof (intro allI)
  fix p i
  show "dl_map (dl_add_file f dl) p = Some i \<longleftrightarrow>
      i < length (dl_files (dl_add_file f dl)) \<and> fl_path (dl_files (dl_add_file f dl) ! i) = p"
    using assms(1)[unfolded dl_wf_def, rule_format, of p i] assms(2)
    by (cases "p = fl_path f") (auto simp: dl_add_file_def nth_append less_Suc_eq)
qed

definition put_shows ::
  "u8 list \<Rightarrow> comp_unit \<times> debug_line \<Rightarrow> comp_unit \<times> debug_line \<Rightarrow> bool" where
  "put_shows p cd cd' \<longleftrightarrow> (\<exists>i ps.
     fst cd' = (fst cd)\<lparr>cu_files := cu_files (fst cd) @ [i]\<rparr> \<and>
     dl_paths (snd cd') = dl_paths (snd cd) @ ps \<and>
     i < length (dl_paths (snd cd')) \<and> dl_paths (snd cd') ! i = p \<and>
     length (dl_cus (snd cd)) \<in> set (fl_units (dl_files (snd cd') ! i)) \<and>
     dl_cus (snd cd') = dl_cus (snd cd) \<and> dl_wf (snd cd'))"

lemma cu_add_file_paths:
  "dl_paths (snd (cu_add_file i u cu dl)) = dl_paths dl"
proof -
  have "(map fl_path fs)[i := fl_path (fs ! i)] = map fl_path fs" for fs
    by (cases "i < length fs") (simp_all add: list_update_same_conv list_update_beyond)
  then show ?thesis
    by (simp add: cu_add_file_def dl_paths_def map_update)
qed

lemma dl_wf_paths: "dl_wf dl \<longleftrightarrow> (\<forall>p i. dl_map dl p = Some i \<longleftrightarrow> i < length (dl_paths dl) \<and> dl_paths dl ! i = p)"
  by (auto simp: dl_wf_def dl_paths_def)

lemma put_file_shows:
  assumes "dl_wf (snd cd)"
  shows "put_shows p cd (put_file p date sz cd)"
proof -
  obtain cu dl where cd: "cd = (cu, dl)"
    by (meson surj_pair)
  let ?f = "\<lparr>fl_path = p, fl_date = date, fl_size = sz, fl_units = []\<rparr>"
  define dl' where "dl' = (if dl_map dl p = None then dl_add_file ?f dl else dl)"
  define i where "i = the (dl_map dl' p)"
  have wf: "dl_wf dl'"
    using assms cd dl_wf_add_file [of dl ?f] by (simp add: dl'_def)
  have mp: "dl_map dl' p = Some i"
    by (cases "dl_map dl p") (auto simp: i_def dl'_def dl_add_file_def)
  then have i: "i < length (dl_paths dl')" "dl_paths dl' ! i = p"
    using wf by (auto simp: dl_wf_paths)
  have pre: "\<exists>ps. dl_paths dl' = dl_paths dl @ ps"
    by (auto simp: dl'_def dl_add_file_def dl_paths_def)
  have cus: "dl_cus dl' = dl_cus dl"
    by (simp add: dl'_def dl_add_file_def)
  define dl2 where "dl2 = snd (cu_add_file i (length (dl_cus dl)) cu dl')"
  have res: "put_file p date sz cd = (cu\<lparr>cu_files := cu_files cu @ [i]\<rparr>, dl2)"
    by (simp add: put_file_def cd Let_def dl2_def cu_add_file_def flip: dl'_def i_def)
  have p2: "dl_paths dl2 = dl_paths dl'"
    unfolding dl2_def by (rule cu_add_file_paths)
  have "dl_map dl2 = dl_map dl'" and "dl_cus dl2 = dl_cus dl'"
    by (simp_all add: dl2_def cu_add_file_def)
  moreover have "length (dl_cus dl) \<in> set (fl_units (dl_files dl2 ! i))"
    using i(1) by (simp add: dl2_def cu_add_file_def dl_paths_def)
  ultimately show ?thesis
    using wf i pre cus unfolding put_shows_def res [unfolded cd] cd fst_conv snd_conv dl_wf_paths p2 by auto
qed

lemma put_entries_shows:
  "dl_wf (snd cd) \<Longrightarrow> put_entries J dirs es cd = cd' \<Longrightarrow>
   (\<exists>is ps. fst cd' = (fst cd)\<lparr>cu_files := cu_files (fst cd) @ is\<rparr> \<and>
     dl_paths (snd cd') = dl_paths (snd cd) @ ps \<and>
     list_all2 (\<lambda>e i. i < length (dl_paths (snd cd')) \<and> dl_paths (snd cd') ! i = entry_path J dirs e) es is \<and>
     dl_cus (snd cd') = dl_cus (snd cd) \<and> dl_wf (snd cd'))"
proof (induction es arbitrary: cd)
  case Nil
  then show ?case
    by (intro exI [of _ "[]"]) auto
next
  case (Cons e es)
  let ?cd = "put_file (entry_path J dirs e) (word_of_nat (fe_date e)) (word_of_nat (fe_size e)) cd"
  obtain i ps where i: "fst ?cd = (fst cd)\<lparr>cu_files := cu_files (fst cd) @ [i]\<rparr>"
    "dl_paths (snd ?cd) = dl_paths (snd cd) @ ps" "i < length (dl_paths (snd ?cd))"
    "dl_paths (snd ?cd) ! i = entry_path J dirs e" "dl_cus (snd ?cd) = dl_cus (snd cd)" "dl_wf (snd ?cd)"
    using put_file_shows [OF Cons.prems(1)] unfolding put_shows_def by blast
  obtain "is" qs where rec: "fst cd' = (fst ?cd)\<lparr>cu_files := cu_files (fst ?cd) @ is\<rparr>"
    "dl_paths (snd cd') = dl_paths (snd ?cd) @ qs"
    "list_all2 (\<lambda>e i. i < length (dl_paths (snd cd')) \<and> dl_paths (snd cd') ! i = entry_path J dirs e) es is"
    "dl_cus (snd cd') = dl_cus (snd ?cd)" "dl_wf (snd cd')"
    using Cons.IH [OF i(6)] Cons.prems(2) by auto
  have "i < length (dl_paths (snd cd'))" "dl_paths (snd cd') ! i = entry_path J dirs e"
    using i(3,4) rec(2) by (simp_all add: nth_append)
  then show ?case
    using i rec by (intro exI [of _ "i # is"] exI [of _ "ps @ qs"]) simp
qed

section \<open>Units\<close>

text \<open>What a unit of the table shows of an encoded unit.\<close>

definition unit_shows ::
  "(u8 list \<Rightarrow> u8 list \<Rightarrow> u8 list) \<Rightarrow> u8 list list \<Rightarrow> line_unit \<Rightarrow> comp_unit \<Rightarrow> bool" where
  "unit_shows J paths U cu \<longleftrightarrow>
     list_all2 (\<lambda>e i. i < length paths \<and> paths ! i = entry_path J (lu_dirs U) e) (lu_files U) (cu_files cu) \<and>
     list_all2 (shows_row (cu_files cu)) (line_rows (lu_params U) (lu_prog U) (unit_start U)) (cu_lines cu) \<and>
     shows_marks False (line_rows (lu_params U) (lu_prog U) (unit_start U)) (cu_lines cu)"

lemma unit_shows_append: "unit_shows J ps U cu \<Longrightarrow> unit_shows J (ps @ qs) U cu"
  by (auto simp: unit_shows_def nth_append elim!: list_all2_mono)

lemma readUnitLength_eq:
  assumes D: "decoder_laws (lp_dec P)" and n: "length ct < 0xffffff00"
    and at: "at_bytes (lp_dec P) ((if lp_is64 P then to_le 4 (unfix_u32 (lp_dec P) 0xffffffff) else []) @
      enc_address P (length ct) @ bs) (dw_c d)"
  defines "k \<equiv> length (if lp_is64 P then to_le 4 (unfix_u32 (lp_dec P) 0xffffffff) else []) +
    length (enc_address P (length ct))"
  shows "readUnitLength d = (Inr (word_of_nat (length ct)),
    d\<lparr>dw_c := cur_adv (dw_c d) k, dw_is64 := lp_is64 P\<rparr>)"
proof (cases "lp_is64 P")
  case True
  have at0: "at_bytes (lp_dec P) (to_le 4 (unfix_u32 (lp_dec P) 0xffffffff) @ enc_address P (length ct) @ bs) (dw_c d)"
    using at True by simp
  have "cur_read_u32 (dw_c d) = Inr (Some 0xffffffff, cur_adv (dw_c d) 4)"
    using at0 decoder_laws.fix_unfix32 [OF D] by (simp add: cur_read_u32_eq at_bytes_def)
  then have r1: "error_if_not cur_read_u32 d = (Inr 0xffffffff, d\<lparr>dw_c := cur_adv (dw_c d) 4\<rparr>)"
    by (rule error_if_not_Inr [where g = cur_read_u32])
  have at1: "at_bytes (lp_dec P) (enc_address P (length ct) @ bs) (dw_c (d\<lparr>dw_c := cur_adv (dw_c d) 4\<rparr>))"
    using at_adv [OF at0] by simp
  have r2: "error_if_not cur_read_u64 (d\<lparr>dw_c := cur_adv (dw_c d) 4\<rparr>) =
      (Inr (word_of_nat (length ct)), d\<lparr>dw_c := cur_adv (cur_adv (dw_c d) 4) (length (enc_address P (length ct)))\<rparr>)"
    using at1 decoder_laws.fix_unfix64 [OF D] True
      error_if_not_Inr [of cur_read_u64 "d\<lparr>dw_c := cur_adv (dw_c d) 4\<rparr>" "word_of_nat (length ct)"]
    by (simp add: cur_read_u64_eq at_bytes_def enc_address_def)
  show ?thesis
    using True by (simp add: readUnitLength_def r1 r2 k_def)
next
  case False
  have at1: "at_bytes (lp_dec P) (enc_address P (length ct) @ bs) (dw_c d)"
    using at False by simp
  have small: "(word_of_nat (length ct) :: u32) < 0xffffff00"
    using n by (simp add: word_less_nat_alt unat_of_nat)
  have "error_if_not cur_read_u32 d =
      (Inr (word_of_nat (length ct)), d\<lparr>dw_c := cur_adv (dw_c d) (length (enc_address P (length ct)))\<rparr>)"
    using at1 decoder_laws.fix_unfix32 [OF D] False
    by (intro error_if_not_Inr) (simp add: cur_read_u32_eq at_bytes_def enc_address_def)
  then show ?thesis
    using False small n ucast_u32 [of "length ct"] by (simp add: readUnitLength_def k_def)
qed

lemma header_sm_rel:
  assumes "unit_ok n U"
  shows "sm_params (lu_params U) ((header_sm U p)\<lparr>sm_dirs := ds\<rparr>)"
    and "sm_regs (lu_params U) (unit_start U) ((header_sm U p)\<lparr>sm_dirs := ds\<rparr>)"
    and "marks False (unit_start U) (sm_flags ((header_sm U p)\<lparr>sm_dirs := ds\<rparr>))"
  using assms
  by (simp_all add: marks_def bit_simps sm_params_def sm_regs_def header_sm_def new_state_machine_def unit_start_def
      start_regs_def unit_ok_def params_ok_def)

lemma enc_ops_nonempty: "xs \<noteq> [] \<Longrightarrow> 0 < length (enc_ops P xs)"
proof -
  assume "xs \<noteq> []"
  moreover have "0 < length (enc_op P x)" for x
    by (cases x) simp_all
  ultimately show ?thesis
    by (cases xs) (simp_all add: enc_ops_def)
qed

text \<open>The program of a unit, which may be empty.\<close>

lemma run_unit:
  assumes P: "params_ok P" and D: "decoder_laws (lp_dec P)" and F: "length F < 2 ^ 31"
    and inv: "line_inv P F r d" and rest: "cur_rest (dw_c d) = enc_ops P xs @ ys @ bs"
    and xs: "if xs = [] then ys = [] else last xs = End_sequence"
    and ok: "prog_ok P (length F) xs r" "\<not> rg_end_sequence r" and n: "length xs \<le> n"
    and e: "unat end_off = unat (cur_off (dw_c d)) + length (enc_ops P xs) + length ys"
  shows "\<exists>d' ls. (if cur_off (dw_c d) < end_off then runSM J n end_off else sreturn ()) d = (Inr (), d') \<and>
    dw_c d' = cur_adv (dw_c d) (length (enc_ops P xs)) \<and> dw_dl d' = dw_dl d \<and>
    dw_cu d' = (dw_cu d)\<lparr>cu_lines := cu_lines (dw_cu d) @ ls\<rparr> \<and>
    list_all2 (shows_row F) (line_rows P xs r) ls \<and>
    (marks s r (sm_flags (dw_sm d)) \<longrightarrow> shows_marks s (line_rows P xs r) ls)"
proof (cases "xs = []")
  case True
  then have "\<not> cur_off (dw_c d) < end_off"
    using e xs by (simp add: enc_ops_def word_less_nat_alt)
  then show ?thesis
    using True by (intro exI [of _ d] exI [of _ "[]"]) (simp add: enc_ops_def)
next
  case False
  have "cur_off (dw_c d) < end_off"
    unfolding word_less_nat_alt using e enc_ops_nonempty [OF False, of P] by linarith
  moreover have "unat (cur_off (dw_c d)) + length (enc_ops P xs) \<le> unat end_off"
    using e by simp
  ultimately show ?thesis
    using runSM_rows [OF P D F inv rest ok(1) _ False ok(2) n, of end_off J] xs False by auto
qed

text \<open>The end of a unit: its program is run, it is added to the table and the cursor moves to its end.\<close>

lemma finish_unit:
  assumes U: "unit_ok n U" and D: "decoder_laws (lp_dec (lu_params U))"
    and at: "at_bytes (lp_dec (lu_params U)) (enc_ops (lu_params U) (lu_prog U) @ lu_extra U @ bs) (dw_c d)"
    and inv: "line_inv (lu_params U) F (unit_start U) d" "marks False (unit_start U) (sm_flags (dw_sm d))" and F: "length F = length (lu_files U)" "length F < 2 ^ 31"
  defines "k \<equiv> length (enc_ops (lu_params U) (lu_prog U)) + length (lu_extra U)"
  assumes e: "end_off = cur_off (dw_c d) + word_of_nat k"
  shows "\<exists>d' ls. sbind (if cur_off (dw_c d) < end_off then runSM J n end_off else sreturn ()) (\<lambda>_.
      sbind (smodify (\<lambda>d. d\<lparr>dw_dl := dl_add_cu (dw_cu d) (dw_dl d)\<rparr>)) (\<lambda>_. move_cursor end_off)) d = (Inr (), d') \<and>
    dw_c d' = cur_adv (dw_c d) k \<and>
    dw_dl d' = dl_add_cu ((dw_cu d)\<lparr>cu_lines := cu_lines (dw_cu d) @ ls\<rparr>) (dw_dl d) \<and>
    list_all2 (shows_row F) (line_rows (lu_params U) (lu_prog U) (unit_start U)) ls \<and>
    shows_marks False (line_rows (lu_params U) (lu_prog U) (unit_start U)) ls"
proof -
  let ?P = "lu_params U" and ?prog = "enc_ops (lu_params U) (lu_prog U)" and ?ys = "lu_extra U"
  have okU: "prog_ok ?P (length F) (lu_prog U) (unit_start U)" "length (lu_prog U) \<le> n" "params_ok ?P"
      "if lu_prog U = [] then ?ys = [] else last (lu_prog U) = End_sequence"
    using U F(1) by (simp_all add: unit_ok_def)
  have st: "\<not> rg_end_sequence (unit_start U)"
    by (simp add: unit_start_def start_regs_def)
  have "k \<le> length (cur_rest (dw_c d))" "k < 2 ^ 63"
    using at_bytesD(4) [OF at] at_bytes_length [OF at] by (simp_all add: k_def)
  then have uend: "unat end_off = unat (cur_off (dw_c d)) + length ?prog + length ?ys"
    using unat_cur_off_add [OF at_bytesD(1) [OF at], of k] by (simp add: e k_def)
  obtain d4 ls where run: "(if cur_off (dw_c d) < end_off then runSM J n end_off else sreturn ()) d = (Inr (), d4)"
    "dw_c d4 = cur_adv (dw_c d) (length ?prog)" "dw_dl d4 = dw_dl d"
    "dw_cu d4 = (dw_cu d)\<lparr>cu_lines := cu_lines (dw_cu d) @ ls\<rparr>"
    "list_all2 (shows_row F) (line_rows ?P (lu_prog U) (unit_start U)) ls"
    "shows_marks False (line_rows ?P (lu_prog U) (unit_start U)) ls"
    using run_unit [OF okU(3) D F(2) inv(1) at_bytesD(4) [OF at] okU(4,1) st okU(2) uend, of J False] inv(2) by blast
  let ?d5 = "d4\<lparr>dw_dl := dl_add_cu (dw_cu d4) (dw_dl d4)\<rparr>"
  have at5: "at_bytes (lp_dec ?P) (?ys @ bs) (dw_c ?d5)"
    using at_adv [OF at refl] run(2) by simp
  have o5: "end_off = cur_off (dw_c ?d5) + word_of_nat (length ?ys)"
    using run(2) by (simp add: cur_adv_def e k_def add.assoc)
  have "move_cursor end_off ?d5 = (Inr (), ?d5\<lparr>dw_c := cur_adv (dw_c ?d5) (length ?ys)\<rparr>)"
    unfolding o5 by (rule move_forward [OF at5])
  then show ?thesis
    using run
    by (intro exI [of _ "?d5\<lparr>dw_c := cur_adv (dw_c ?d5) (length ?ys)\<rparr>"] exI [of _ ls]) (simp add: k_def)
qed

lemma enc_files_length: "length es < length (enc_files es)"
  by (induction es) (simp_all add: enc_cstr_def)

lemma readCU_eq:
  assumes U: "unit_ok n U" and D: "decoder_laws (lp_dec (lu_params U))"
    and at: "at_bytes (lp_dec (lu_params U)) (enc_unit U @ bs) (dw_c d)" and wf: "dl_wf (dw_dl d)"
  shows "\<exists>d' cu ps. readCU J n d = (Inr (), d') \<and>
    dw_c d' = cur_adv (dw_c d) (length (enc_unit U)) \<and> dl_wf (dw_dl d') \<and>
    dl_paths (dw_dl d') = dl_paths (dw_dl d) @ ps \<and>
    dl_cus (dw_dl d') = dl_cus (dw_dl d) @ [cu] \<and> unit_shows J (dl_paths (dw_dl d')) U cu"
proof -
  let ?P = "lu_params U" and ?D = "lp_dec (lu_params U)"
  let ?ct = "enc_contents U" and ?prog = "enc_ops (lu_params U) (lu_prog U)" and ?ys = "lu_extra U"
  let ?pre = "if lp_is64 ?P then to_le 4 (unfix_u32 ?D 0xffffffff) else []"
  let ?k1 = "length ?pre + length (enc_address ?P (length ?ct))"
  let ?d0 = "d\<lparr>dw_sm := new_state_machine\<rparr>"
  have at0: "at_bytes ?D (?pre @ enc_address ?P (length ?ct) @ ?ct @ bs) (dw_c ?d0)"
    using at by (simp add: enc_unit_def)
  let ?d1 = "?d0\<lparr>dw_c := cur_adv (dw_c ?d0) ?k1, dw_is64 := lp_is64 ?P\<rparr>"
  let ?d2 = "?d1\<lparr>dw_cu := new_comp_unit\<rparr>"
  have s1: "readUnitLength ?d0 = (Inr (word_of_nat (length ?ct)), ?d1)"
    using readUnitLength_eq [OF D _ at0] at_bytes_length [OF at0] by simp
  have at2: "at_bytes ?D (to_le 2 (unfix_u16 ?D (word_of_nat (lu_version U))) @
       enc_address ?P (length (enc_tables U)) @ enc_tables U @ ?prog @ ?ys @ bs) (dw_c ?d2)"
    using at_adv [of ?D "?pre @ enc_address ?P (length ?ct)" "?ct @ bs" "dw_c d" ?k1] at0
    by (simp add: enc_contents_def)
  obtain cu dl where put: "put_entries J (lu_dirs U) (lu_files U) (new_comp_unit, dw_dl d) = (cu, dl)"
    by (meson surj_pair)
  let ?k = "2 + length (enc_address ?P (length (enc_tables U))) + length (enc_tables U)"
  obtain p where s2: "readHeader J n ?d2 = (Inr (), (moved ?d2 ?k
      ((header_sm U p)\<lparr>sm_dirs := str_bytes ''.'' # lu_dirs U\<rparr>))\<lparr>dw_cu := cu, dw_dl := dl\<rparr>)"
    using readHeader_eq [OF U D at2, of J cu dl] put by auto
  let ?d3 = "(moved ?d2 ?k ((header_sm U p)\<lparr>sm_dirs := str_bytes ''.'' # lu_dirs U\<rparr>))\<lparr>dw_cu := cu, dw_dl := dl\<rparr>"
  have at3: "at_bytes ?D (?prog @ ?ys @ bs) (dw_c ?d3)"
    using at_adv [of ?D "to_le 2 (unfix_u16 ?D (word_of_nat (lu_version U))) @
      enc_address ?P (length (enc_tables U)) @ enc_tables U" "?prog @ ?ys @ bs" "dw_c ?d2" ?k] at2 by simp
  obtain ips ps where entries: "cu = new_comp_unit\<lparr>cu_files := ips\<rparr>" "dl_paths dl = dl_paths (dw_dl d) @ ps"
    "list_all2 (\<lambda>e i. i < length (dl_paths dl) \<and> dl_paths dl ! i = entry_path J (lu_dirs U) e) (lu_files U) ips"
    "dl_cus dl = dl_cus (dw_dl d)" "dl_wf dl"
    using put_entries_shows [of "(new_comp_unit, dw_dl d)", OF _ put] wf
    by (auto simp: new_comp_unit_def)
  have F: "length ips = length (lu_files U)" "length ips < 2 ^ 31"
    using list_all2_lengthD [OF entries(3)] enc_files_length [of "lu_files U"] at_bytes_length [OF at2]
    by (simp_all add: enc_tables_def)
  have inv: "line_inv ?P ips (unit_start U) ?d3"
    using at3 header_sm_rel [OF U] entries(1) by (simp add: line_inv_def at_bytes_def)
  have mk: "marks False (unit_start U) (sm_flags (dw_sm ?d3))"
    using header_sm_rel(3) [OF U] by simp
  define end_off where "end_off = cur_off (dw_c ?d1) + word_of_nat (length ?ct)"
  have lens: "length ?ct = ?k + (length ?prog + length ?ys)"
    by (simp add: enc_contents_def)
  then have "end_off = cur_off (dw_c ?d3) + word_of_nat (length ?prog + length ?ys)"
    by (simp add: end_off_def cur_adv_def add.assoc)
  note finish = finish_unit [OF U D at3 inv mk F this, of J]
  have "dw_cu ?d3 = cu" "dw_dl ?d3 = dl"
    by simp_all
  with finish obtain d' ls where s3: "sbind (if cur_off (dw_c ?d3) < end_off then runSM J n end_off else sreturn ()) (\<lambda>_.
      sbind (smodify (\<lambda>d. d\<lparr>dw_dl := dl_add_cu (dw_cu d) (dw_dl d)\<rparr>)) (\<lambda>_. move_cursor end_off)) ?d3 = (Inr (), d')"
    "dw_c d' = cur_adv (dw_c ?d3) (length ?prog + length ?ys)"
    "dw_dl d' = dl_add_cu (cu\<lparr>cu_lines := cu_lines cu @ ls\<rparr>) dl"
    "list_all2 (shows_row ips) (line_rows ?P (lu_prog U) (unit_start U)) ls"
    "shows_marks False (line_rows ?P (lu_prog U) (unit_start U)) ls"
    by (simp only:) blast
  have s0: "smodify (\<lambda>d. d\<lparr>dw_sm := new_state_machine\<rparr>) d = (Inr (), ?d0)"
    "smodify (\<lambda>d. d\<lparr>dw_cu := new_comp_unit\<rparr>) ?d1 = (Inr (), ?d2)"
    by simp_all
  have "readCU J n d = (Inr (), d')"
    by (simp only: readCU_def sbind_Inr s0 s1 s2 s3(1) Let_def stm_simps(4) end_off_def [symmetric])
  moreover have "dw_c d' = cur_adv (dw_c d) (length (enc_unit U))"
    using s3(2) lens by (simp add: enc_unit_def add.assoc)
  moreover have "unit_shows J (dl_paths dl) U (cu\<lparr>cu_lines := cu_lines cu @ ls\<rparr>)"
    using entries(1,3) s3(4,5) by (simp add: unit_shows_def new_comp_unit_def)
  ultimately show ?thesis
    using s3(3) entries(2,4,5) by (auto simp: dl_add_cu_def dl_paths_def dl_wf_def)
qed

section \<open>The whole table\<close>

lemma enc_unit_nonempty: "enc_unit U \<noteq> []"
  by (simp add: enc_unit_def enc_contents_def enc_address_def to_le_def)

lemma readCUs_eq:
  "\<forall>U \<in> set Us. unit_ok n U \<and> lp_dec (lu_params U) = D \<Longrightarrow> decoder_laws D \<Longrightarrow>
   at_bytes D (concat (map enc_unit Us)) (dw_c d) \<Longrightarrow> dl_wf (dw_dl d) \<Longrightarrow> length Us \<le> k \<Longrightarrow>
   \<exists>d' cus ps. readCUs J n k d = (Inr (), d') \<and> dl_wf (dw_dl d') \<and>
     dl_paths (dw_dl d') = dl_paths (dw_dl d) @ ps \<and> dl_cus (dw_dl d') = dl_cus (dw_dl d) @ cus \<and>
     list_all2 (unit_shows J (dl_paths (dw_dl d'))) Us cus"
proof (induction Us arbitrary: d k)
  case Nil
  have "cur_ended (dw_c d)"
    using Nil.prems(3) cur_ended_iff [of "dw_c d"] by (simp add: at_bytes_def)
  then have "readCUs J n k d = (Inr (), d)"
    by (cases k) simp_all
  then show ?case
    using Nil.prems(4) by (intro exI [of _ d] exI [of _ "[]"]) simp
next
  case (Cons U Us)
  then obtain k' where k: "k = Suc k'"
    by (cases k) auto
  have U: "unit_ok n U" "lp_dec (lu_params U) = D"
    using Cons.prems(1) by simp_all
  have at: "at_bytes (lp_dec (lu_params U)) (enc_unit U @ concat (map enc_unit Us)) (dw_c d)"
    using Cons.prems(3) U(2) by simp
  have ne: "\<not> cur_ended (dw_c d)"
    using at cur_ended_iff [of "dw_c d"] enc_unit_nonempty [of U] by (auto simp: at_bytes_def)
  obtain d1 cu ps where d1: "readCU J n d = (Inr (), d1)"
    "dw_c d1 = cur_adv (dw_c d) (length (enc_unit U))" "dl_wf (dw_dl d1)"
    "dl_paths (dw_dl d1) = dl_paths (dw_dl d) @ ps" "dl_cus (dw_dl d1) = dl_cus (dw_dl d) @ [cu]"
    "unit_shows J (dl_paths (dw_dl d1)) U cu"
    using readCU_eq [OF U(1) _ at Cons.prems(4)] Cons.prems(2) U(2) by blast
  have at1: "at_bytes D (concat (map enc_unit Us)) (dw_c d1)"
    using at_adv [OF at refl] d1(2) U(2) by simp
  obtain d' cus qs where d': "readCUs J n k' d1 = (Inr (), d')" "dl_wf (dw_dl d')"
    "dl_paths (dw_dl d') = dl_paths (dw_dl d1) @ qs" "dl_cus (dw_dl d') = dl_cus (dw_dl d1) @ cus"
    "list_all2 (unit_shows J (dl_paths (dw_dl d'))) Us cus"
    using Cons.IH [OF _ Cons.prems(2) at1 d1(3), of k'] Cons.prems(1,5) k by auto
  have "unit_shows J (dl_paths (dw_dl d')) U cu"
    using unit_shows_append [OF d1(6)] d'(3) by simp
  then show ?case
    using d1 d' ne by (intro exI [of _ d'] exI [of _ "cu # cus"] exI [of _ "ps @ qs"]) (simp add: k)
qed

lemma DebugLine_buffer_eq:
  assumes "\<forall>U \<in> set Us. unit_ok n U \<and> lp_dec (lu_params U) = D" and "decoder_laws D"
    and "bs = concat (map enc_unit Us)" and "length bs < 2 ^ 31" and "length Us \<le> k"
  shows "\<exists>dl. DebugLine_buffer J n k (make_buffer D (Some bs) (word_of_nat (length bs))) = Inr dl \<and>
    dl_wf dl \<and> list_all2 (unit_shows J (dl_paths dl)) Us (dl_cus dl)"
proof -
  let ?b = "make_buffer D (Some bs) (word_of_nat (length bs))"
  let ?d = "new_dwarf ?b null_buffer null_buffer"
  have "cursor_wf (make_cursor ?b)"
    using make_cursor_wf [OF make_buffer_wf, of bs D] assms(4) by simp
  then have "at_bytes D bs (dw_c ?d)"
    using assms(4) by (simp add: at_bytes_def new_dwarf_def make_buffer_def cur_mem_def)
  then obtain d' where "readCUs J n k ?d = (Inr (), d')" "dl_wf (dw_dl d')"
      "list_all2 (unit_shows J (dl_paths (dw_dl d'))) Us (dl_cus (dw_dl d'))"
    using readCUs_eq [OF assms(1,2), of ?d k J] assms(3,5) dl_wf_new
    by (auto simp: new_dwarf_def new_debug_line_def)
  then show ?thesis
    by (auto simp: DebugLine_buffer_def)
qed

end
