(* ===== verification/Dwarf_Safety.thy ===== *)
theory Dwarf_Safety
  imports Dwarf_Unit
begin

text \<open>
  What holds of a \<open>DebugLine\<close> whatever bytes it was read from: the numbers of files
  in units and in lines exist, and the map of files is the table of files. An
  operation keeps a property of the state when it does so on success and on failure.
\<close>

named_theorems keeps_intro

definition keeps :: "(dwarf \<Rightarrow> bool) \<Rightarrow> (dwarf, 'a) stm \<Rightarrow> bool" where
  "keeps I m \<longleftrightarrow> (\<forall>d. I d \<longrightarrow> I (snd (m d)))"

lemma keeps_sbind [keeps_intro]: "keeps I m \<Longrightarrow> (\<And>x. keeps I (f x)) \<Longrightarrow> keeps I (sbind m f)"
  unfolding keeps_def sbind_def by (auto split: prod.splits sum.splits)

lemma keeps_pure [keeps_intro]:
  "keeps I (sreturn x)" "keeps I (sraise e)" "keeps I (slift r)" "keeps I sget"
  by (simp_all add: keeps_def)

lemma keeps_if [keeps_intro]: "keeps I m \<Longrightarrow> keeps I m' \<Longrightarrow> keeps I (if b then m else m')"
  by simp

lemma keeps_case_option [keeps_intro]:
  "keeps I m \<Longrightarrow> (\<And>x. keeps I (f x)) \<Longrightarrow> keeps I (case v of None \<Rightarrow> m | Some x \<Rightarrow> f x)"
  by (cases v) simp_all

lemma keeps_case_prod [keeps_intro]: "(\<And>x y. keeps I (f x y)) \<Longrightarrow> keeps I (case p of (x, y) \<Rightarrow> f x y)"
  by (cases p) simp

lemma keeps_let [keeps_intro]: "(\<And>x. keeps I (f x)) \<Longrightarrow> keeps I (let x = v in f x)"
  by (simp add: Let_def)

lemma keeps_with_sm [keeps_intro]: "(\<And>sm. keeps I (f sm)) \<Longrightarrow> keeps I (with_sm f)"
  by (simp add: keeps_def)

text \<open>The table: its map, the files of its units, the files of their lines.\<close>

definition unit_wf :: "debug_line \<Rightarrow> comp_unit \<Rightarrow> bool" where
  "unit_wf dl u \<longleftrightarrow>
     (\<forall>i \<in> set (cu_files u). i < length (dl_files dl)) \<and>
     (\<forall>l \<in> set (cu_lines u). ln_file l \<in> set (cu_files u))"

definition table_wf :: "debug_line \<Rightarrow> bool" where
  "table_wf dl \<longleftrightarrow> dl_wf dl \<and> (\<forall>u \<in> set (dl_cus dl). unit_wf dl u)"

definition reader_wf :: "dwarf \<Rightarrow> bool" where
  "reader_wf d \<longleftrightarrow> table_wf (dw_dl d) \<and> unit_wf (dw_dl d) (dw_cu d)"

lemma keeps_on_sm [keeps_intro]: "keeps reader_wf (on_sm f)"
  by (simp add: keeps_def reader_wf_def)

lemma keeps_on_cursor [keeps_intro]: "keeps reader_wf (on_cursor g)"
  by (auto simp: keeps_def reader_wf_def on_cursor_def split: sum.splits)

lemma keeps_move_cursor [keeps_intro]: "keeps reader_wf (move_cursor o')"
  by (simp add: keeps_def reader_wf_def move_cursor_def)

lemma keeps_smodify:
  "(\<And>d. dw_dl (f d) = dw_dl d \<and> dw_cu (f d) = dw_cu d) \<Longrightarrow> keeps reader_wf (smodify f)"
  by (simp add: keeps_def reader_wf_def)

lemma keeps_error_if_not [keeps_intro]: "keeps reader_wf (error_if_not g)"
  unfolding error_if_not_def by (intro keeps_intro)

lemma keeps_keep_on_fail [keeps_intro]: "keeps reader_wf (keep_on_fail g old)"
  unfolding keep_on_fail_def by (intro keeps_intro)

lemma keeps_reads [keeps_intro]:
  "keeps reader_wf readLEB128U" "keeps reader_wf readLEB128S"
  by (simp_all add: readLEB128U_def readLEB128S_def keeps_intro)

lemma keeps_fun_if: "keeps I m \<Longrightarrow> keeps I m' \<Longrightarrow> keeps I (\<lambda>d. if b d then m d else m' d)"
  by (simp add: keeps_def)

lemma keeps_readAddress [keeps_intro]: "keeps reader_wf readAddress" "keeps reader_wf readHeaderLength"
  unfolding readAddress_def [abs_def] readHeaderLength_def [abs_def]
  by (intro keeps_fun_if keeps_intro)+

lemma keeps_readUnitLength [keeps_intro]: "keeps reader_wf readUnitLength"
  unfolding readUnitLength_def by (intro keeps_intro keeps_smodify) simp_all

lemma keeps_strings [keeps_intro]:
  "keeps reader_wf (read_line_str off old)" "keeps reader_wf (read_str off old)"
  by (auto simp: keeps_def reader_wf_def read_line_str_def read_str_def Let_def split: sum.splits)

lemma keeps_read_path_form [keeps_intro]: "keeps reader_wf (read_path_form e form old)"
  unfolding read_path_form_def by (intro keeps_intro)

lemma keeps_readDir4: "keeps reader_wf (readDir4 n)"
proof (induction n)
  case 0
  show ?case
    unfolding readDir4.simps by (intro keeps_intro)
next
  case (Suc n)
  show ?case
    unfolding readDir4.simps by (intro keeps_intro Suc.IH)
qed

lemma keeps_read_formats: "keeps reader_wf (read_formats n)"
proof (induction n)
  case 0
  show ?case
    unfolding read_formats.simps by (intro keeps_intro)
next
  case (Suc n)
  show ?case
    unfolding read_formats.simps by (intro keeps_intro Suc.IH)
qed

lemma keeps_read_dir_formats: "keeps reader_wf (read_dir_formats fs nm)"
proof (induction fs arbitrary: nm)
  case Nil
  show ?case
    unfolding read_dir_formats.simps by (intro keeps_intro)
next
  case (Cons x fs)
  obtain ty form where x: "x = (ty, form)"
    by (cases x)
  show ?case
    unfolding x read_dir_formats.simps by (intro keeps_intro Cons.IH)
qed

lemma keeps_read_dirs5: "keeps reader_wf (read_dirs5 fs n)"
proof (induction n)
  case 0
  show ?case
    unfolding read_dirs5.simps by (intro keeps_intro)
next
  case (Suc n)
  show ?case
    unfolding read_dirs5.simps by (intro keeps_intro Suc.IH keeps_read_dir_formats)
qed

lemma keeps_readDir [keeps_intro]: "keeps reader_wf (readDir n)"
  unfolding readDir_def readDir5_def
  by (intro keeps_intro keeps_readDir4 keeps_read_formats keeps_read_dirs5)

lemma unit_wf_paths: "length (dl_files dl) \<le> length (dl_files dl') \<Longrightarrow> unit_wf dl u \<Longrightarrow> unit_wf dl' u"
  by (auto simp: unit_wf_def intro: less_le_trans)

lemma keeps_add_file [keeps_intro]: "keeps reader_wf (add_file p date sz)"
  unfolding keeps_def
proof (intro allI impI)
  fix d
  assume d: "reader_wf d"
  obtain cu dl where put: "put_file p date sz (dw_cu d, dw_dl d) = (cu, dl)"
    by (meson surj_pair)
  have "put_shows p (dw_cu d, dw_dl d) (cu, dl)"
    using put_file_shows [of "(dw_cu d, dw_dl d)" p date sz] d put by (simp add: reader_wf_def table_wf_def)
  then obtain i ps where res: "cu = (dw_cu d)\<lparr>cu_files := cu_files (dw_cu d) @ [i]\<rparr>"
      "dl_paths dl = dl_paths (dw_dl d) @ ps" "i < length (dl_paths dl)" "dl_cus dl = dl_cus (dw_dl d)" "dl_wf dl"
    unfolding put_shows_def by auto
  have len: "length (dl_files (dw_dl d)) \<le> length (dl_files dl)"
    using res(2) unfolding dl_paths_def by (metis length_append length_map le_add1)
  have i: "i < length (dl_files dl)"
    using res(3) unfolding dl_paths_def by simp
  show "reader_wf (snd (add_file p date sz d))"
    using d put unit_wf_paths [OF len] res(1,4,5) i
    by (auto simp: add_file_def reader_wf_def table_wf_def unit_wf_def)
qed

lemma keeps_readFile4: "keeps reader_wf (readFile4 J n s)"
proof (induction n arbitrary: s)
  case 0
  show ?case
    unfolding readFile4.simps by (intro keeps_intro)
next
  case (Suc n)
  show ?case
    unfolding readFile4.simps by (intro keeps_intro Suc.IH)
qed

lemma keeps_read_file_formats: "keeps reader_wf (read_file_formats fs nm dir)"
proof (induction fs arbitrary: nm dir)
  case Nil
  show ?case
    unfolding read_file_formats.simps by (intro keeps_intro)
next
  case (Cons x fs)
  obtain ty form where x: "x = (ty, form)"
    by (cases x)
  show ?case
    unfolding x read_file_formats.simps by (intro keeps_intro Cons.IH)
qed

lemma keeps_read_files5: "keeps reader_wf (read_files5 J fs n)"
proof (induction n)
  case 0
  show ?case
    unfolding read_files5.simps by (intro keeps_intro)
next
  case (Suc n)
  show ?case
    unfolding read_files5.simps by (intro keeps_intro Suc.IH keeps_read_file_formats)
qed

lemma keeps_readFile [keeps_intro]: "keeps reader_wf (readFile J n)"
  unfolding readFile_def
  by (intro keeps_intro keeps_readFile4 keeps_read_formats keeps_read_files5)

lemma keeps_read_lengths: "keeps reader_wf read_lengths"
  unfolding read_lengths_def by (intro keeps_intro keeps_smodify) simp

lemma keeps_readHeader [keeps_intro]: "keeps reader_wf (readHeader J n)"
  unfolding readHeader_def read_parameters_def read_sm_u8_def
  by (intro keeps_intro keeps_read_lengths)

lemma keeps_recordLine [keeps_intro]: "keeps reader_wf recordLine"
  by (auto simp: keeps_def recordLine_def Let_def reader_wf_def table_wf_def unit_wf_def
      cu_add_line_def LineNumber_new_def)

lemma keeps_advance [keeps_intro]: "keeps reader_wf (advancePC a)" "keeps reader_wf (advanceLine b)"
  unfolding advancePC_def advanceLine_def by (intro keeps_intro)+

lemma keeps_exec_opcode [keeps_intro]: "keeps reader_wf (exec_opcode J n b)"
  unfolding exec_opcode_def exec_special_def exec_extended_def exec_standard_def
  by (intro keeps_intro)

lemma keeps_runSM: "keeps reader_wf (runSM J n e)"
proof (induction n)
  case 0
  show ?case
    unfolding runSM.simps by (intro keeps_intro)
next
  case (Suc n)
  show ?case
    unfolding runSM.simps by (intro keeps_intro Suc.IH)
qed

text \<open>A new unit, and the unit that becomes part of the table.\<close>

lemma keeps_readCU: "keeps reader_wf (readCU J n)"
proof -
  have "unit_wf dl new_comp_unit" for dl
    by (simp add: unit_wf_def new_comp_unit_def)
  then have new: "keeps reader_wf (smodify (\<lambda>d. d\<lparr>dw_cu := new_comp_unit\<rparr>))"
    by (simp add: keeps_def reader_wf_def)
  have reset: "keeps reader_wf (smodify (\<lambda>d. d\<lparr>dw_sm := new_state_machine\<rparr>))"
    by (simp add: keeps_def reader_wf_def)
  have add: "keeps reader_wf (smodify (\<lambda>d. d\<lparr>dw_dl := dl_add_cu (dw_cu d) (dw_dl d)\<rparr>))"
    by (auto simp: keeps_def reader_wf_def table_wf_def dl_add_cu_def dl_wf_def unit_wf_def)
  show ?thesis
    unfolding readCU_def by (intro new reset add keeps_intro keeps_runSM)
qed

lemma keeps_readCUs: "keeps reader_wf (readCUs J n k)"
proof (induction k)
  case 0
  show ?case
    unfolding readCUs.simps by (intro keeps_intro)
next
  case (Suc k)
  show ?case
    unfolding readCUs.simps by (intro keeps_intro Suc.IH keeps_readCU)
qed

lemma reader_wf_new: "reader_wf (new_dwarf b s ls)"
  using dl_wf_new
  by (simp add: reader_wf_def table_wf_def unit_wf_def new_dwarf_def new_debug_line_def new_comp_unit_def)

lemma DebugLine_buffer_wf:
  assumes "DebugLine_buffer J n k b = Inr dl"
  shows "table_wf dl"
proof -
  obtain d where "readCUs J n k (new_dwarf b null_buffer null_buffer) = (Inr (), d)" "dl = dw_dl d"
    using assms by (auto simp: DebugLine_buffer_def split: prod.splits sum.splits)
  then show ?thesis
    using keeps_readCUs [of J n k] reader_wf_new [of b null_buffer null_buffer]
    by (metis keeps_def reader_wf_def snd_conv)
qed

end
