(* ===== verification/Gel_Lookup.thy ===== *)
theory Gel_Lookup
  imports Gel_DebugLine
begin

text \<open>
  The lookups of \<open>DebugLine\<close> on tables whose addresses grow: from an address to its
  line, from a line to its addresses, and how the two agree.
\<close>

definition sorted_lines :: "line_number list \<Rightarrow> bool" where
  "sorted_lines ls \<longleftrightarrow> sorted (map ln_addr ls)"

lemma sorted_lines_Cons [simp]:
  "sorted_lines (x # ls) \<longleftrightarrow> (\<forall>y \<in> set ls. ln_addr x \<le> ln_addr y) \<and> sorted_lines ls"
  by (auto simp: sorted_lines_def)

text \<open>The line found is the last one at or before the address.\<close>

lemma line_between_last:
  "sorted_lines ls \<Longrightarrow> ls \<noteq> [] \<Longrightarrow>
   line_between ls a =
     (if ln_addr (hd ls) \<le> a \<and> a < ln_addr (last ls)
      then Some (last (filter (\<lambda>l. ln_addr l \<le> a) ls)) else None)"
proof (induction ls a rule: line_between.induct)
  case (1 x y ls a)
  have xy: "ln_addr x \<le> ln_addr y" and all: "\<forall>z \<in> set (y # ls). ln_addr y \<le> ln_addr z"
    and ylast: "ln_addr y \<le> ln_addr (last (y # ls))"
    using 1(2) by auto
  show ?case
  proof (cases "ln_addr x \<le> a \<and> a < ln_addr y")
    case True
    then have "filter (\<lambda>l. ln_addr l \<le> a) (y # ls) = []"
      using all by (auto simp: filter_empty_conv not_le intro: less_le_trans)
    then have f: "filter (\<lambda>l. ln_addr l \<le> a) (x # y # ls) = [x]"
      using True by simp
    have "a < ln_addr (last (x # y # ls))"
      using True ylast by (auto intro: less_le_trans)
    then show ?thesis
      unfolding f using True by simp
  next
    case False
    have IH: "line_between (y # ls) a =
        (if ln_addr y \<le> a \<and> a < ln_addr (last (y # ls))
         then Some (last (filter (\<lambda>l. ln_addr l \<le> a) (y # ls))) else None)"
      using 1(1) [OF False] 1(2) by simp
    show ?thesis
    proof (cases "ln_addr y \<le> a")
      case True
      then have "ln_addr x \<le> a"
        using xy by simp
      then show ?thesis
        using IH True False by simp
    next
      case F: False
      then have "\<not> ln_addr x \<le> a"
        using False by (simp add: not_le)
      then show ?thesis
        using IH F False by simp
    qed
  qed
qed auto

lemma line_between_nth:
  assumes "sorted_lines ls" and "Suc i < length ls"
    and "ln_addr (ls ! i) \<le> a" and "a < ln_addr (ls ! Suc i)"
  shows "line_between ls a = Some (ls ! i)"
  using assms
proof (induction ls a arbitrary: i rule: line_between.induct)
  case (1 x y ls a)
  show ?case
  proof (cases i)
    case 0
    then show ?thesis
      using 1(4,5) by simp
  next
    case (Suc j)
    have "ln_addr y \<le> ln_addr ((y # ls) ! j)"
      using 1(2,3) Suc by (cases j) simp_all
    then have no: "\<not> (ln_addr x \<le> a \<and> a < ln_addr y)"
      using 1(4) Suc by auto
    show ?thesis
      using 1(1) [OF no, of j] 1(2-) Suc no by auto
  qed
qed auto

lemma line_ranges_between:
  "sorted_lines ls \<Longrightarrow>
   (\<exists>(lo, hi) \<in> set (line_ranges i line ls). lo \<le> a \<and> a < hi) \<longleftrightarrow>
   (\<exists>l. line_between ls a = Some l \<and> ln_file l = i \<and> sint (ln_line l) = line)"
proof (induction ls a rule: line_between.induct)
  case (1 x y ls a)
  show ?case
  proof (cases "ln_addr x \<le> a \<and> a < ln_addr y")
    case True
    have "\<not> (\<exists>(lo, hi) \<in> set (line_ranges i line (y # ls)). lo \<le> a \<and> a < hi)"
    proof -
      have "(lo, hi) \<in> set (line_ranges i line zs) \<Longrightarrow> \<exists>z \<in> set zs. lo = ln_addr z" for lo hi zs
        by (induction i line zs rule: line_ranges.induct) (auto split: if_splits)
      moreover have "\<forall>z \<in> set (y # ls). a < ln_addr z"
        using 1(2) True by (auto intro: less_le_trans)
      ultimately show ?thesis
        by (metis (no_types, lifting) case_prodE not_le)
    qed
    then show ?thesis
      using True by auto
  next
    case False
    then show ?thesis
      using 1(1) [OF False] 1(2) by auto
  qed
qed auto

lemma units_lineAt_eq:
  "\<forall>u \<in> set us. cu_lines u \<noteq> [] \<Longrightarrow>
   units_lineAt us a =
     Inr (case find (\<lambda>u. ln_addr (hd (cu_lines u)) \<le> a \<and> a < ln_addr (last (cu_lines u))) us of
            None \<Rightarrow> None | Some u \<Rightarrow> cu_lineAt u a)"
proof (induction us)
  case (Cons u us)
  then obtain l ls where "cu_lines u = l # ls"
    by (cases "cu_lines u") auto
  then show ?case
    using Cons by (simp add: cu_baseAddress_def cu_topAddress_def)
qed simp

end
