(* ===== verification/Dwarf_Props.thy ===== *)
theory Dwarf_Props
  imports Dwarf_Safety Gel_Lookup Elf_Common
begin

text \<open>The properties of the debug lines, with a small table on which they are applied.\<close>

section \<open>A table\<close>

definition demo_params :: line_params where
  "demo_params =
     \<lparr>lp_min_length = 1, lp_max_ops = 1, lp_line_base = - 5, lp_line_range = 14,
      lp_opcode_base = 13, lp_is64 = False, lp_address_size = 4, lp_dec = little_decoder\<rparr>"

definition demo_unit :: line_unit where
  "demo_unit =
     \<lparr>lu_params = demo_params, lu_version = 3, lu_stmt = 1, lu_lengths = replicate 12 0,
      lu_dirs = [[115]], lu_files = [\<lparr>fe_name = [97], fe_dir = 1, fe_date = 0, fe_size = 0\<rparr>],
      lu_prog = [Set_address 0x8000, Special 21, Advance_pc 4, Copy, Advance_pc 4, End_sequence],
      lu_extra = []\<rparr>"

lemmas demo_simps = demo_unit_def demo_params_def

lemma demo_params_ok: "params_ok demo_params"
  by (simp add: params_ok_def demo_params_def)

lemma demo_ok: "unit_ok 7 demo_unit"
  by (simp add: unit_ok_def demo_simps params_ok_def cstr_valid_def entry_ok_def op_ok_def
      op_advance_def row_reset_def unit_start_def start_regs_def Let_def)

lemma demo_rows:
  "line_rows demo_params (lu_prog demo_unit) (unit_start demo_unit) =
    [(start_regs True)\<lparr>rg_address := 0x8000, rg_line := 4\<rparr>,
     (start_regs True)\<lparr>rg_address := 0x8004, rg_line := 4\<rparr>,
     (start_regs True)\<lparr>rg_address := 0x8008, rg_line := 4, rg_end_sequence := True\<rparr>]"
  by (simp add: demo_simps op_advance_def row_reset_def unit_start_def start_regs_def Let_def)

lemma length_enc_demo: "length (enc_unit demo_unit) < 2 ^ 31"
  by (simp add: demo_simps enc_unit_def enc_contents_def enc_address_def enc_target_def enc_tables_def enc_fields_def
      enc_cstr_def enc_ops_def leb_enc_u.simps)

lemma demo_table:
  "\<forall>U \<in> set [demo_unit]. unit_ok 7 U \<and> lp_dec (lu_params U) = little_decoder"
  by (simp add: demo_ok) (simp add: demo_simps)

section \<open>Round trips\<close>

text \<open>Reading an unsigned LEB128 number gives back the number that was encoded and
  stops right after it.\<close>

theorem leb128_u_roundtrip:
  assumes "cursor_wf c" and "cur_rest c = leb_enc_u n @ rest" and "n < 2 ^ 64"
  shows "\<exists>c'. leb128_u c = Inr (word_of_nat n, c') \<and> cursor_wf c' \<and> cur_rest c' = rest"
  using leb128_u_enc [OF assms] cursor_wf_adv [OF assms(1), of "length (leb_enc_u n)"] assms(2) by simp

definition demo_cursor :: "mem \<Rightarrow> cursor" where
  "demo_cursor m = make_cursor (make_buffer little_decoder (Some m) (word_of_nat (length m)))"

lemma demo_cursor_ok: "length m < 2 ^ 63 \<Longrightarrow> cursor_wf (demo_cursor m)" "cur_rest (demo_cursor m) = m"
  using make_cursor_wf [OF make_buffer_wf, of m little_decoder]
  by (simp_all add: demo_cursor_def make_buffer_def)

theorem leb128_u_roundtrip_witness:
  "\<exists>c'. leb128_u (demo_cursor [0xE5, 0x8E, 0x26, 7]) = Inr (624485, c') \<and> cur_rest c' = [7]"
proof -
  have "leb_enc_u 624485 = [0xE5, 0x8E, 0x26]"
    by (simp add: leb_enc_u.simps)
  then show ?thesis
    using leb128_u_roundtrip [of "demo_cursor [0xE5, 0x8E, 0x26, 7]" 624485 "[7]"] demo_cursor_ok by auto
qed

text \<open>Reading a signed LEB128 number gives back the number that was encoded, with its
  sign extended to 64 bits, and stops right after it.\<close>

theorem leb128_s_roundtrip:
  assumes "cursor_wf c" and "cur_rest c = leb_enc_s i @ rest" and "- (2 ^ 63) \<le> i" and "i < 2 ^ 63"
  shows "\<exists>c'. leb128_s c = Inr (word_of_int i, c') \<and> cursor_wf c' \<and> cur_rest c' = rest"
  using leb128_s_enc [OF assms] cursor_wf_adv [OF assms(1), of "length (leb_enc_s i)"] assms(2) by simp

theorem leb128_s_roundtrip_witness:
  "\<exists>c'. leb128_s (demo_cursor [0x80, 0x7F, 7]) = Inr (- 128, c') \<and> cur_rest c' = [7]"
proof -
  have "leb_enc_s (- 128) = [0x80, 0x7F]"
    by (simp add: leb_enc_s.simps)
  then show ?thesis
    using leb128_s_roundtrip [of "demo_cursor [0x80, 0x7F, 7]" "- 128" "[7]"] demo_cursor_ok by auto
qed

text \<open>C10. A line program against the machine of the standard. The program is made of special
  opcodes, of the standard opcodes 1 to 12 and of the extended opcodes but
  \<open>DW_LNE_define_file\<close>, with its only \<open>end_sequence\<close> at its end; its rows name a file of the
  unit, and \<open>DW_LNE_set_address\<close> is used where the size of an address is that of the lengths
  of the unit (4 bytes in 32-bit DWARF, 8 in 64-bit DWARF) and \<open>op_index\<close> is 0. The opcodes
  are below \<open>opcode_base\<close>, the operands fit the widths of the reader (\<open>operand_ok\<close>), the line
  range and the operations by instruction are not null, and the section has less than 2 GB. On its
  encoding \<open>runSM\<close> returns, consumes the program exactly, and appends to the unit one line
  for each row of the standard machine, with its address, \<open>op_index\<close>, file, line, column,
  \<open>is_stmt\<close>, \<open>isa\<close> and discriminator. The flags of the basic block, of the prologue and of
  the epilogue are those of the standard machine up to the first row, and all set in the
  rows that follow, where the standard clears them.\<close>

theorem runSM_refines:
  assumes "params_ok P" and "decoder_laws (lp_dec P)" and "length F < 2 ^ 31"
    and "line_inv P F r d" and "cur_rest (dw_c d) = enc_ops P xs @ rest"
    and "prog_ok P (length F) xs r" and "xs \<noteq> []" and "last xs = End_sequence"
    and "\<not> rg_end_sequence r" and "length xs \<le> n"
    and "unat (cur_off (dw_c d)) + length (enc_ops P xs) \<le> unat end_off"
  shows "\<exists>d' ls. runSM J n end_off d = (Inr (), d') \<and> cur_rest (dw_c d') = rest \<and>
    cu_lines (dw_cu d') = cu_lines (dw_cu d) @ ls \<and> list_all2 (shows_row F) (line_rows P xs r) ls \<and>
    (marks s r (sm_flags (dw_sm d)) \<longrightarrow> shows_marks s (line_rows P xs r) ls)"
proof -
  obtain d' ls where d': "runSM J n end_off d = (Inr (), d')"
    "dw_c d' = cur_adv (dw_c d) (length (enc_ops P xs))"
    "dw_cu d' = (dw_cu d)\<lparr>cu_lines := cu_lines (dw_cu d) @ ls\<rparr>"
    "list_all2 (shows_row F) (line_rows P xs r) ls"
    "marks s r (sm_flags (dw_sm d)) \<longrightarrow> shows_marks s (line_rows P xs r) ls"
    using runSM_rows [OF assms(1-6,8,7,9-11), of J] by blast
  moreover have "cur_rest (dw_c d') = rest"
    using cursor_wf_adv(2) [OF line_invD(1) [OF assms(4)], of "length (enc_ops P xs)"] assms(5) d'(2) by simp
  ultimately show ?thesis
    by auto
qed

definition demo_state :: "mem \<Rightarrow> dwarf" where
  "demo_state m =
     (new_dwarf (make_buffer little_decoder (Some m) (word_of_nat (length m))) null_buffer null_buffer)
       \<lparr>dw_sm := (header_sm demo_unit 0), dw_cu := \<lparr>cu_files = [0], cu_lines = []\<rparr>\<rparr>"

lemma demo_state_inv:
  assumes "length m < 2 ^ 31"
  shows "line_inv demo_params [0] (unit_start demo_unit) (demo_state m)"
proof -
  have "header_sm demo_unit 0 = (header_sm demo_unit 0)\<lparr>sm_dirs := sm_dirs (header_sm demo_unit 0)\<rparr>"
    by simp
  then have sm: "sm_params demo_params (header_sm demo_unit 0)"
    "sm_regs demo_params (unit_start demo_unit) (header_sm demo_unit 0)"
    using header_sm_rel [OF demo_ok, where p = 0] by (metis demo_unit_def line_unit.select_convs(1))+
  have "dw_c (demo_state m) = demo_cursor m"
    by (simp add: demo_state_def new_dwarf_def demo_cursor_def)
  then show ?thesis
    using assms sm demo_cursor_ok(1) [of m]
    by (simp add: line_inv_def demo_state_def new_dwarf_def demo_params_def demo_cursor_def cur_mem_def
        make_cursor_def make_buffer_def cur_dec_def)
qed

lemma demo_state_rest: "cur_rest (dw_c (demo_state m)) = m" "cur_off (dw_c (demo_state m)) = 0"
  by (simp_all add: demo_state_def new_dwarf_def make_buffer_def) (simp add: make_cursor_def)

lemma demo_enc_ops:
  "enc_ops demo_params [Set_basic_block, Copy, End_sequence] = [7, 1, 0, 1, 1]"
  by (simp add: enc_ops_def dw_opcodes leb_enc_u.simps)

theorem runSM_refines_witness:
  "\<exists>d' ls. runSM (\<lambda>d s. d @ 47 # s) 3 5 (demo_state [7, 1, 0, 1, 1, 9]) = (Inr (), d') \<and>
    cur_rest (dw_c d') = [9] \<and> cu_lines (dw_cu d') = ls \<and> length ls = 2 \<and>
    map (\<lambda>l. (bit (ln_flags l) 1, bit (ln_flags l) 2)) ls = [(True, False), (True, True)]"
proof -
  let ?r = "unit_start demo_unit"
  have st: "prog_ok demo_params 1 [Set_basic_block, Copy, End_sequence] ?r" "\<not> rg_end_sequence ?r"
    by (simp_all add: op_ok_def row_reset_def unit_start_def start_regs_def demo_simps)
  have dl: "decoder_laws (lp_dec demo_params)"
    using little_dec.decoder_laws_axioms by (simp add: demo_params_def)
  let ?xs = "[Set_basic_block, Copy, End_sequence]" and ?m = "[7, 1, 0, 1, 1, 9] :: u8 list"
  have mk: "marks False ?r (sm_flags (dw_sm (demo_state ?m)))"
    using header_sm_rel(3) [OF demo_ok, where p = 0 and ds = "sm_dirs (header_sm demo_unit 0)"] by (simp add: demo_state_def)
  have "\<exists>d' ls. runSM (\<lambda>d s. d @ 47 # s) 3 5 (demo_state ?m) = (Inr (), d') \<and> cur_rest (dw_c d') = [9] \<and>
      cu_lines (dw_cu d') = cu_lines (dw_cu (demo_state ?m)) @ ls \<and>
      list_all2 (shows_row [0]) (line_rows demo_params ?xs ?r) ls \<and>
      (marks False ?r (sm_flags (dw_sm (demo_state ?m))) \<longrightarrow> shows_marks False (line_rows demo_params ?xs ?r) ls)"
    by (rule runSM_refines [OF demo_params_ok dl _ demo_state_inv])
      (use st in \<open>simp_all add: demo_state_rest demo_enc_ops\<close>)
  then show ?thesis
    using mk
    by (fastforce simp: demo_state_def row_reset_def unit_start_def start_regs_def marks_def
        length_Suc_conv list_all2_Cons1)
qed

text \<open>C9. Reading back a table of debug lines of less than 2 GB: on the encoding of any list of
  units of the versions 1 to 4 (32- or 64-bit DWARF, any decoder) whose programs are as for
  \<open>runSM_refines\<close> (\<open>unit_ok\<close>; bytes that follow the first \<open>end_sequence\<close> of a unit are
  skipped), the constructor returns, with one unit for each encoded unit, whose files have the
  encoded paths and whose lines show the rows of the encoded program.\<close>

theorem debug_table_roundtrip:
  assumes "\<forall>U \<in> set Us. unit_ok n U \<and> lp_dec (lu_params U) = D" and "decoder_laws D"
    and "length (concat (map enc_unit Us)) < 2 ^ 31" and "length Us \<le> k"
  shows "\<exists>dl. DebugLine_buffer J n k (make_buffer D (Some (concat (map enc_unit Us)))
      (word_of_nat (length (concat (map enc_unit Us))))) = Inr dl \<and>
    list_all2 (unit_shows J (dl_paths dl)) Us (dl_cus dl)"
  using DebugLine_buffer_eq [OF assms(1,2) refl assms(3,4), of J] by blast

theorem debug_table_roundtrip_witness:
  "\<exists>dl. DebugLine_buffer (\<lambda>d s. d @ 47 # s) 7 1 (make_buffer little_decoder (Some (enc_unit demo_unit))
      (word_of_nat (length (enc_unit demo_unit)))) = Inr dl \<and> length (dl_cus dl) = 1"
  using debug_table_roundtrip [OF demo_table little_dec.decoder_laws_axioms, of 1 "\<lambda>d s. d @ 47 # s"]
    length_enc_demo by (auto dest: list_all2_lengthD)

section \<open>Lookups\<close>

text \<open>In a unit whose lines have growing addresses, the line of an address between the
  base and the top of the unit is the last one that starts at or before it; there is none
  outside.\<close>

theorem lineAt_last:
  assumes "sorted_lines (cu_lines u)" and "cu_lines u \<noteq> []"
  shows "cu_baseAddress u = Inr b \<Longrightarrow> cu_topAddress u = Inr t \<Longrightarrow>
    cu_lineAt u a =
      (if b \<le> a \<and> a < t then Some (last (filter (\<lambda>l. ln_addr l \<le> a) (cu_lines u))) else None)"
proof -
  have "hd (cu_lines u) # tl (cu_lines u) = cu_lines u"
    using assms(2) by simp
  then have "cu_baseAddress u = Inr (ln_addr (hd (cu_lines u)))"
    unfolding cu_baseAddress_def by (metis list.simps(5))
  then show "cu_baseAddress u = Inr b \<Longrightarrow> cu_topAddress u = Inr t \<Longrightarrow>
    cu_lineAt u a =
      (if b \<le> a \<and> a < t then Some (last (filter (\<lambda>l. ln_addr l \<le> a) (cu_lines u))) else None)"
    using line_between_last [OF assms] assms(2) by (simp add: cu_topAddress_def cu_lineAt_def)
qed

definition demo_line :: "u64 \<Rightarrow> u32 \<Rightarrow> line_number" where
  "demo_line a n = LineNumber_new a 0 n 0 1 0 0 0"

definition demo_cu :: comp_unit where
  "demo_cu = \<lparr>cu_files = [0], cu_lines = [demo_line 16 1, demo_line 20 2, demo_line 24 3]\<rparr>"

theorem lineAt_last_witness: "cu_lineAt demo_cu 21 = Some (demo_line 20 2)"
  using lineAt_last [of demo_cu 16 24 21]
  by (simp add: demo_cu_def demo_line_def sorted_lines_def LineNumber_new_def cu_baseAddress_def cu_topAddress_def)

text \<open>C35. The two lookups agree on a file whose units all have their rows in growing order
  of addresses: an address is in one of the ranges that \<open>File::find\<close> gives for a line of
  the file exactly when \<open>lineAt\<close> on one of the units of the file finds that line of that
  file at the address. (With rows in another order \<open>lineAt\<close> may stop at an earlier row
  than the one whose range \<open>find\<close> gives.)\<close>

theorem find_lineAt_agree:
  assumes "\<forall>u \<in> set (fl_units (dl_files dl ! i)). sorted_lines (cu_lines (dl_cus dl ! u))"
  shows "(\<exists>(lo, hi) \<in> set (file_find dl i line). lo \<le> a \<and> a < hi) \<longleftrightarrow>
    (\<exists>u \<in> set (fl_units (dl_files dl ! i)). \<exists>l. cu_lineAt (dl_cus dl ! u) a = Some l \<and>
       ln_file l = i \<and> sint (ln_line l) = line)"
proof -
  have "(\<exists>(lo, hi) \<in> set (file_find dl i line). lo \<le> a \<and> a < hi) \<longleftrightarrow>
      (\<exists>u \<in> set (fl_units (dl_files dl ! i)).
         \<exists>(lo, hi) \<in> set (line_ranges i line (cu_lines (dl_cus dl ! u))). lo \<le> a \<and> a < hi)"
    by (auto simp: file_find_def)
  also have "\<dots> \<longleftrightarrow> (\<exists>u \<in> set (fl_units (dl_files dl ! i)). \<exists>l. cu_lineAt (dl_cus dl ! u) a = Some l \<and>
       ln_file l = i \<and> sint (ln_line l) = line)"
    using line_ranges_between assms by (intro bex_cong) (simp_all add: cu_lineAt_def)
  finally show ?thesis .
qed

definition demo_dl :: debug_line where
  "demo_dl = \<lparr>dl_files = [\<lparr>fl_path = [97], fl_date = 0, fl_size = 0, fl_units = [0]\<rparr>],
     dl_map = [[97] \<mapsto> 0], dl_cus = [demo_cu]\<rparr>"

theorem find_lineAt_agree_witness: "\<exists>(lo, hi) \<in> set (file_find demo_dl 0 2). lo \<le> 21 \<and> 21 < hi"
proof -
  have "cu_lineAt demo_cu 21 = Some (demo_line 20 2)" "sorted_lines (cu_lines demo_cu)"
    by (simp_all add: cu_lineAt_def demo_cu_def demo_line_def LineNumber_new_def sorted_lines_def)
  then show ?thesis
    using find_lineAt_agree [of demo_dl 0 2 21]
    by (simp add: demo_dl_def) (simp add: demo_line_def LineNumber_new_def)
qed

text \<open>C11. From the bytes to the line: when the rows of a unit have growing addresses, an
  address between two successive rows of the standard machine is looked up, in the table
  read from the encoding of the unit, as the line that shows the first of the two.\<close>

theorem address_to_line:
  assumes ok: "unit_ok n U" "decoder_laws (lp_dec (lu_params U))" "length (enc_unit U) < 2 ^ 31"
    and rows: "line_rows (lu_params U) (lu_prog U) (unit_start U) = rs" "sorted (map rg_address rs)"
      "\<forall>r \<in> set rs. rg_address r < 2 ^ 64"
    and i: "Suc i < length rs" "rg_address (rs ! i) \<le> a" "a < rg_address (rs ! Suc i)"
  shows "\<exists>dl F l. DebugLine_buffer J n 1 (make_buffer (lp_dec (lu_params U)) (Some (enc_unit U))
      (word_of_nat (length (enc_unit U)))) = Inr dl \<and>
    dl_lineAt dl (word_of_nat a) = Inr (Some l) \<and> shows_row F (rs ! i) l \<and>
    list_all2 (\<lambda>e j. dl_paths dl ! j = entry_path J (lu_dirs U) e) (lu_files U) F"
proof -
  obtain dl where dl: "DebugLine_buffer J n 1 (make_buffer (lp_dec (lu_params U)) (Some (enc_unit U))
      (word_of_nat (length (enc_unit U)))) = Inr dl" "list_all2 (unit_shows J (dl_paths dl)) [U] (dl_cus dl)"
    using DebugLine_buffer_eq [of "[U]" n "lp_dec (lu_params U)" "enc_unit U" 1 J] ok by auto
  then obtain cu where cu: "dl_cus dl = [cu]" "unit_shows J (dl_paths dl) U cu"
    by (auto simp: list_all2_Cons1)
  let ?ls = "cu_lines cu" and ?F = "cu_files cu"
  have sh: "list_all2 (shows_row ?F) rs ?ls" and fs: "list_all2 (\<lambda>e j. dl_paths dl ! j = entry_path J (lu_dirs U) e) (lu_files U) ?F"
    using cu(2) rows(1) by (auto simp: unit_shows_def elim!: list_all2_mono)
  have len: "length ?ls = length rs"
    using list_all2_lengthD [OF sh] by simp
  have adr: "ln_addr (?ls ! j) = word_of_nat (rg_address (rs ! j))" "unat (ln_addr (?ls ! j)) = rg_address (rs ! j)"
    if "j < length rs" for j
  proof -
    show "ln_addr (?ls ! j) = word_of_nat (rg_address (rs ! j))"
      using list_all2_nthD [OF sh that] by (simp add: shows_row_def)
    then show "unat (ln_addr (?ls ! j)) = rg_address (rs ! j)"
      using rows(3) that by (simp add: unat_of_nat_64)
  qed
  have srt: "sorted_lines ?ls"
    using rows(2) adr(2) len unfolding sorted_lines_def sorted_iff_nth_mono word_le_nat_alt by simp
  have a64: "unat (word_of_nat a :: u64) = a"
    using i(1,3) rows(3) by (intro unat_of_nat_64) (meson less_trans nth_mem)
  have at: "ln_addr (?ls ! i) \<le> word_of_nat a" "word_of_nat a < ln_addr (?ls ! Suc i)"
    unfolding word_le_nat_alt word_less_nat_alt using adr(2) [of i] adr(2) [of "Suc i"] i a64 by simp_all
  have find: "line_between ?ls (word_of_nat a) = Some (?ls ! i)"
    by (rule line_between_nth [OF srt _ at]) (use i(1) len in simp)
  have ne: "?ls \<noteq> []"
    using i(1) len by auto
  have inside: "ln_addr (hd ?ls) \<le> word_of_nat a \<and> word_of_nat a < ln_addr (last ?ls)"
    using find line_between_last [OF srt ne, of "word_of_nat a"] by (auto split: if_splits)
  have "dl_lineAt dl (word_of_nat a) = Inr (Some (?ls ! i))"
    using units_lineAt_eq [of "[cu]" "word_of_nat a"] ne inside find
    by (simp add: dl_lineAt_def cu(1) cu_lineAt_def)
  moreover have "shows_row ?F (rs ! i) (?ls ! i)"
    using list_all2_nthD [OF sh] i(1) by simp
  ultimately show ?thesis
    using dl(1) fs by blast
qed

theorem address_to_line_witness:
  "\<exists>dl l. DebugLine_buffer (\<lambda>d s. d @ 47 # s) 7 1 (make_buffer little_decoder (Some (enc_unit demo_unit))
      (word_of_nat (length (enc_unit demo_unit)))) = Inr dl \<and>
    dl_lineAt dl 0x8002 = Inr (Some l) \<and> ln_line l = 4"
proof -
  have P: "lu_params demo_unit = demo_params" "lp_dec demo_params = little_decoder"
    by (simp_all add: demo_simps)
  show ?thesis
    using address_to_line [where a = "0x8002" and J = "\<lambda>d s. d @ 47 # s" and i = 0, OF demo_ok, unfolded P,
        OF little_dec.decoder_laws_axioms length_enc_demo demo_rows]
    by (fastforce simp: shows_row_def)
qed

section \<open>Safety and errors\<close>

text \<open>C28. Whatever the bytes, a table that could be read is consistent: the map of files
  gives each file by its path and nothing else, every file of a unit is one of the table,
  and the file of a line is one of its unit and of the table.\<close>

theorem debug_table_consistent:
  assumes "DebugLine_buffer J n k b = Inr dl"
  shows "(\<forall>p i. dl_map dl p = Some i \<longleftrightarrow> i < length (dl_files dl) \<and> fl_path (dl_files dl ! i) = p) \<and>
    (\<forall>u \<in> set (dl_cus dl). (\<forall>i \<in> set (cu_files u). i < length (dl_files dl)) \<and>
       (\<forall>l \<in> set (cu_lines u). ln_file l \<in> set (cu_files u) \<and> ln_file l < length (dl_files dl)))"
  using DebugLine_buffer_wf [OF assms] by (auto simp: table_wf_def unit_wf_def dl_wf_def)

theorem debug_table_consistent_witness:
  "\<exists>dl. DebugLine_buffer (\<lambda>d s. d @ 47 # s) 7 1 (make_buffer little_decoder (Some (enc_unit demo_unit))
      (word_of_nat (length (enc_unit demo_unit)))) = Inr dl \<and>
    (\<forall>u \<in> set (dl_cus dl). \<forall>i \<in> set (cu_files u). i < length (dl_files dl))"
proof -
  obtain dl where "DebugLine_buffer (\<lambda>d s. d @ 47 # s) 7 1 (make_buffer little_decoder (Some (enc_unit demo_unit))
      (word_of_nat (length (enc_unit demo_unit)))) = Inr dl"
    using DebugLine_buffer_eq [OF demo_table little_dec.decoder_laws_axioms, of "enc_unit demo_unit" 1]
      length_enc_demo by auto
  from debug_table_consistent [OF this] this show ?thesis
    by (intro exI [of _ dl]) simp
qed

lemma file_index:
  assumes "n < 2 ^ 31"
  shows "sint (f - 1 :: u32) < 0 \<or> int n \<le> sint (f - 1) \<longleftrightarrow> \<not> (1 \<le> unat f \<and> unat f \<le> n)"
proof -
  have f: "f = word_of_nat (unat f)"
    by simp
  consider "unat f = 0" | "1 \<le> unat f" "unat f < 2 ^ 31" | "2 ^ 31 \<le> unat f"
    by linarith
  then show ?thesis
  proof cases
    case 1
    then have "f = 0"
      by (simp add: unat_eq_0)
    then show ?thesis by simp
  next
    case 2
    then have "sint (f - 1) = int (unat f - 1)"
      using sint_file [of "unat f"] by simp
    then show ?thesis
      using 2 by (auto simp del: of_nat_diff)
  next
    case 3
    have lt: "unat f < 2 ^ 32"
      using unsigned_less [of f, where 'a = nat] by simp
    have w: "f - 1 = word_of_nat (unat f - 1)"
      using 3 by (simp add: of_nat_diff)
    show ?thesis
    proof (cases "unat f = 2 ^ 31")
      case True
      have "sint (f - 1) = 2 ^ 31 - 1"
        unfolding w True by (simp add: signed_of_nat signed_take_bit_int_eq_self)
      then show ?thesis
        using assms True by simp
    next
      case False
      then have "(unat f - 1) div 2 ^ 31 = 1"
        using 3 lt by (intro div_nat_eqI) simp_all
      then have "bit (unat f - 1) 31"
        by (simp add: bit_iff_odd)
      then have "bit (f - 1) 31"
        unfolding w by (simp add: bit_simps)
      then have "sint (f - 1) < 0"
        using bit_last_iff [of "f - 1"] by simp
      then show ?thesis
        using 3 assms by simp
    qed
  qed
qed

text \<open>C36. A row is recorded exactly when the register \<open>file\<close> is a number from 1 to the
  number of files of the unit; otherwise \<open>recordLine\<close> reads outside of the vector of
  files, also for the number 0 that DWARF 5 gives to the first file. Once a row has been
  recorded, the flags of the basic block, of the prologue and of the epilogue, which the
  standard clears, are set.\<close>

theorem recordLine_outcome:
  assumes "length (cu_files (dw_cu d)) < 2 ^ 31"
  shows "case recordLine d of
      (Inr _, d') \<Rightarrow> 1 \<le> unat (sm_file (dw_sm d)) \<and> unat (sm_file (dw_sm d)) \<le> length (cu_files (dw_cu d)) \<and>
        (\<exists>l. cu_lines (dw_cu d') = cu_lines (dw_cu d) @ [l] \<and>
           ln_file l = cu_files (dw_cu d) ! (unat (sm_file (dw_sm d)) - 1) \<and>
           ln_addr l = sm_address (dw_sm d) \<and> ln_line l = sm_line (dw_sm d)) \<and>
        sm_discriminator (dw_sm d') = 0 \<and> sm_flags (dw_sm d') AND 14 = 14
    | (Inl e, d') \<Rightarrow> e = Memory_Fault \<and> d' = d \<and>
        \<not> (1 \<le> unat (sm_file (dw_sm d)) \<and> unat (sm_file (dw_sm d)) \<le> length (cu_files (dw_cu d)))"
proof -
  let ?f = "sm_file (dw_sm d)" and ?n = "length (cu_files (dw_cu d))"
  have i: "sint (?f - 1) < 0 \<or> int ?n \<le> sint (?f - 1) \<longleftrightarrow> \<not> (1 \<le> unat ?f \<and> unat ?f \<le> ?n)"
    by (rule file_index [OF assms])
  have fl: "ucast (BASIC_BLOCK OR PROLOGUE_END OR EPILOGUE_BEGIN) = (14 :: u8)"
    by (simp add: line_flags)
  have or14: "(x OR 14) AND 14 = (14 :: u8)" for x
    by (rule bit_word_eqI) (auto simp: bit_simps)
  show ?thesis
  proof (cases "1 \<le> unat ?f \<and> unat ?f \<le> ?n")
    case True
    then have "\<not> (sint (?f - 1) < 0 \<or> int ?n \<le> sint (?f - 1))"
      using i by blast
    moreover have "nat (sint (?f - 1)) = unat ?f - 1"
    proof -
      have p: "1 \<le> unat ?f" "unat ?f < 2 ^ 31" and w: "word_of_nat (unat ?f) = ?f"
        using True assms by simp_all
      show ?thesis
        using sint_file [OF p] unfolding w by (simp only: nat_int)
    qed
    ultimately show ?thesis
      using True by (simp add: recordLine_def Let_def cu_add_line_def LineNumber_new_def sm_set_def fl or14)
  next
    case False
    then have "sint (?f - 1) < 0 \<or> int ?n \<le> sint (?f - 1)"
      using i by blast
    then have "recordLine d = (Inl Memory_Fault, d)"
      by (simp add: recordLine_def Let_def)
    then show ?thesis
      using False by (simp only: prod.case sum.case) simp
  qed
qed

theorem recordLine_outcome_witness:
  "fst (recordLine (demo_state [])) = Inr () \<and>
   fst (recordLine ((demo_state [])\<lparr>dw_cu := new_comp_unit\<rparr>)) = Inl Memory_Fault"
proof -
  have f: "sm_file (dw_sm (demo_state [])) = 1"
    by (simp add: demo_state_def header_sm_def new_state_machine_def)
  have n: "length (cu_files (dw_cu (demo_state []))) = 1"
    by (simp add: demo_state_def)
  show ?thesis
    using recordLine_outcome [of "demo_state []"]
      recordLine_outcome [of "(demo_state [])\<lparr>dw_cu := new_comp_unit\<rparr>"]
    by (auto simp: f n new_comp_unit_def split: prod.splits sum.splits)
qed

text \<open>An extended operation whose length is -6 as an \<open>int\<close>: counted from the byte that
  follows the length, its end is its own first byte.\<close>

definition loop_op :: "nat \<Rightarrow> u8 list" where
  "loop_op k = [0, 0xFA, 0xFF, 0xFF, 0xFF, 0x0F, DW_LNE_set_discriminator] @ leb_enc_u k"

lemma loop_length: "leb_enc_u 0xFFFFFFFA = [0xFA, 0xFF, 0xFF, 0xFF, 0x0F]"
  by (simp add: leb_enc_u.simps)

lemma int_offset:
  fixes w :: u64
  assumes "unat w < 2 ^ 31"
  shows "scast (ucast w :: u32) = w"
proof -
  define k where "k = unat w"
  have w: "w = word_of_nat k" and k: "k < 2 ^ 31"
    using assms by (simp_all add: k_def)
  have "(ucast (word_of_nat k :: u64) :: u32) = word_of_nat k"
    by (rule ucast_down) simp
  moreover have "sint (word_of_nat k :: u32) = int k"
    using k by (simp add: signed_of_nat signed_take_bit_int_eq_self)
  ultimately show ?thesis
    unfolding w by (simp add: scast_eq)
qed

lemma loop_step:
  assumes P: "params_ok P" and inv: "line_inv P F r d" and rest: "cur_rest (dw_c d) = loop_op k @ rest"
    and k: "k < 2 ^ 64"
  shows "fetch J n d = (Inr (), d\<lparr>dw_sm := (dw_sm d)\<lparr>sm_discriminator := word_of_nat k\<rparr>\<rparr>)"
proof -
  let ?L = "leb_enc_u 0xFFFFFFFA"
  have r1: "cur_rest (dw_c d) = 0 # ?L @ DW_LNE_set_discriminator # leb_enc_u k @ rest"
    using rest by (simp add: loop_op_def loop_length)
  note wf = line_invD(1) [OF inv]
  let ?c = "dw_c d"
  let ?e = "d\<lparr>dw_c := cur_adv ?c 1\<rparr>" and ?e2 = "d\<lparr>dw_c := cur_adv ?c 6\<rparr>"
    and ?e3 = "d\<lparr>dw_c := cur_adv ?c 7\<rparr>" and ?e4 = "d\<lparr>dw_c := cur_adv ?c (7 + length (leb_enc_u k))\<rparr>"
  have len: "1 + length ?L = 6"
    by (simp add: loop_length)
  have "readLEB128U ?e = (Inr (word_of_nat 0xFFFFFFFA), ?e\<lparr>dw_c := cur_adv (dw_c ?e) (length ?L)\<rparr>)"
    by (rule readLEB128U_step [OF after_opcode(1,2) [OF inv r1]]) simp
  also have "?e\<lparr>dw_c := cur_adv (dw_c ?e) (length ?L)\<rparr> = d\<lparr>dw_c := cur_adv ?c (1 + length ?L)\<rparr>"
    by (simp del: One_nat_def)
  finally have s1: "readLEB128U ?e = (Inr 0xFFFFFFFA, ?e2)"
    unfolding len by simp
  have at2: "cursor_wf (cur_adv ?c 6)" "cur_rest (cur_adv ?c 6) = DW_LNE_set_discriminator # leb_enc_u k @ rest"
    using cursor_wf_adv [OF wf, of 6] r1 by (simp_all add: loop_length)
  have s2: "error_if_not cur_read_u8 ?e2 = (Inr DW_LNE_set_discriminator, ?e3)"
    using read_u8_step [of ?e2, OF _ _] at2 by simp
  have at3: "cursor_wf (cur_adv ?c 7)" "cur_rest (cur_adv ?c 7) = leb_enc_u k @ rest"
    using cursor_wf_adv [OF wf, of 7] r1 by (simp_all add: loop_length)
  have s3: "readLEB128U ?e3 = (Inr (word_of_nat k), ?e4)"
    using readLEB128U_step [of ?e3 k rest] at3 k by simp
  let ?d = "d\<lparr>dw_sm := (dw_sm d)\<lparr>sm_discriminator := word_of_nat k\<rparr>\<rparr>"
  have s4: "ext_action J n DW_LNE_set_discriminator ?e3 = (Inr (), ?d\<lparr>dw_c := cur_adv ?c (7 + length (leb_enc_u k))\<rparr>)"
    using s3 by (simp add: ext_action_def dw_opcodes ucast_down)
  have bound: "unat (cur_off ?c) < 2 ^ 31"
    using wf line_invD(2) [OF inv] by (elim cursor_wfE) simp
  have inside: "cur_off ?c \<le> cur_size ?c"
    using wf by (simp add: cursor_wf_def)
  have neg: "(scast (ucast (0xFFFFFFFA :: u64) :: u32) :: u64) = - 6"
    by simp
  have sum: "scast (ucast (0xFFFFFFFA :: u64) :: u32) + cur_off (cur_adv ?c 6) = cur_off ?c"
    unfolding neg by (simp add: cur_adv_def)
  have small: "scast (ucast (cur_off ?c) :: u32) = cur_off ?c"
    by (rule int_offset [OF bound])
  have e2: "dw_c ?e2 = cur_adv ?c 6"
    by simp
  have target: "scast (ucast (scast (ucast (0xFFFFFFFA :: u64) :: u32) + cur_off (dw_c ?e2)) :: u32) =
      cur_off ?c"
    unfolding e2 sum by (rule small)
  have s5: "move_cursor (scast (ucast (scast (ucast (0xFFFFFFFA :: u64) :: u32) + cur_off (dw_c ?e2)) :: u32))
      (?d\<lparr>dw_c := cur_adv ?c (7 + length (leb_enc_u k))\<rparr>) = (Inr (), ?d)"
    unfolding target using inside by (simp add: move_cursor_def cur_move_def not_less)
  have "fetch J n d = exec_extended J n ?e"
    by (rule fetch_ext [OF P inv r1])
  also have "\<dots> = (Inr (), ?d)"
    unfolding exec_extended_def ext_action_def [symmetric]
    by (simp only: sbind_Inr s1 s2 s4 s5 Let_def stm_simps)
  finally show ?thesis .
qed

lemma loop_inv:
  "line_inv P F r d \<Longrightarrow>
   line_inv P F (r\<lparr>rg_discriminator := k\<rparr>) (d\<lparr>dw_sm := (dw_sm d)\<lparr>sm_discriminator := word_of_nat k\<rparr>\<rparr>)"
  by (simp add: line_inv_def sm_params_def sm_regs_def)

text \<open>C37. A line program can make the reader run for ever. The operation is \<open>loop_op\<close>: an
  extended one, \<open>DW_LNE_set_discriminator\<close> with any operand, whose length \<open>0xFFFFFFFA\<close> is -6
  as an \<open>int\<close>, so that, in a section of less than 2 GB, the cursor moves back to its own first
  byte. Whatever the number of
  turns allowed, the loop is not finished. (Another negative length may lead elsewhere: a
  target before the beginning of the section makes the move fail, and the program goes on.)\<close>

theorem runSM_may_not_end:
  assumes "params_ok P" and "line_inv P F r d" and "cur_rest (dw_c d) = loop_op k @ rest" and "k < 2 ^ 64"
    and "\<not> sm_end_sequence (dw_sm d)" and "cur_off (dw_c d) < end_off"
  shows "fst (runSM J n end_off d) = Inl No_Return"
  using assms(2,3,5,6)
proof (induction n arbitrary: r d)
  case 0
  then show ?case
    by (simp add: with_sm_def sraise_def sbind_def sget_def)
next
  case (Suc n)
  let ?d = "d\<lparr>dw_sm := (dw_sm d)\<lparr>sm_discriminator := word_of_nat k\<rparr>\<rparr>"
  have "runSM J (Suc n) end_off d = runSM J n end_off ?d"
    using Suc.prems loop_step [OF assms(1) Suc.prems(1,2) assms(4)] by (intro fetch_run) auto
  moreover have "fst (runSM J n end_off ?d) = Inl No_Return"
    by (rule Suc.IH [OF loop_inv [OF Suc.prems(1)]]) (use Suc.prems in simp_all)
  ultimately show ?case
    by simp
qed

theorem runSM_may_not_end_witness:
  "fst (runSM (\<lambda>d s. d @ 47 # s) 1000 8 (demo_state (loop_op 0))) = Inl No_Return"
proof (rule runSM_may_not_end [OF demo_params_ok demo_state_inv])
  show "length (loop_op 0) < 2 ^ 31"
    by (simp add: loop_op_def leb_enc_u.simps)
  show "cur_rest (dw_c (demo_state (loop_op 0))) = loop_op 0 @ []"
    by (simp add: demo_state_rest)
  show "\<not> sm_end_sequence (dw_sm (demo_state (loop_op 0)))"
    by (simp add: demo_state_def header_sm_def new_state_machine_def)
  show "cur_off (dw_c (demo_state (loop_op 0))) < 8"
    by (simp add: demo_state_rest)
qed simp

end
