(* ===== verification/Dwarf_Elf.thy ===== *)
theory Dwarf_Elf
  imports Dwarf_Props Elf_Sample
begin

text \<open>
  The debug lines of an ELF file: the constructor of \<open>dwarf::DebugLine\<close> on an
  \<open>elf::File\<close> (\<open>src/dwarf_DebugLine.cpp\<close>) and \<open>File::debugLines\<close> (\<open>src/elf_File.cpp\<close>).
  The second component of the state of \<open>debugLines\<close> is the member \<open>debug\<close> of the file.
\<close>

section \<open>The constructor\<close>

text \<open>The buffer of the section of a given name, or the one of a cursor without buffer.\<close>

definition section_or_null ::
  "'s elf_env \<Rightarrow> nat \<Rightarrow> string \<Rightarrow> ('s elf_file, buffer) stm" where
  "section_or_null E n nm =
     sbind (findSection E n (str_bytes nm)) (\<lambda>r.
       case r of None \<Rightarrow> sreturn null_buffer | Some i \<Rightarrow> section_content E n i)"

text \<open>At most \<open>k\<close> units, of at most \<open>t\<close> opcodes each, are read.\<close>

definition DebugLine_elf ::
  "(u8 list \<Rightarrow> u8 list \<Rightarrow> u8 list) \<Rightarrow> 's elf_env \<Rightarrow> nat \<Rightarrow> nat \<Rightarrow> nat \<Rightarrow> ('s elf_file, debug_line) stm" where
  "DebugLine_elf J E n t k =
     sbind (findSection E n (str_bytes ''.debug_line'')) (\<lambda>r.
       case r of
         None \<Rightarrow> sreturn new_debug_line
       | Some i \<Rightarrow>
           sbind (section_content E n i) (\<lambda>b.
           sbind (section_or_null E n ''.debug_str'') (\<lambda>str.
           sbind (section_or_null E n ''.debug_line_str'') (\<lambda>line_str.
             (case readCUs J t k (new_dwarf b str line_str) of
                (Inl e, _) \<Rightarrow> sraise e | (Inr _, d) \<Rightarrow> sreturn (dw_dl d))))))"

definition debugLines ::
  "(u8 list \<Rightarrow> u8 list \<Rightarrow> u8 list) \<Rightarrow> 's elf_env \<Rightarrow> nat \<Rightarrow> nat \<Rightarrow> nat \<Rightarrow>
   ('s elf_file \<times> debug_line option, debug_line) stm" where
  "debugLines J E n t k = (\<lambda>(f, debug).
     case debug of
       Some dl \<Rightarrow> (Inr dl, (f, Some dl))
     | None \<Rightarrow>
         (case DebugLine_elf J E n t k f of
            (Inl e, f') \<Rightarrow> (Inl e, (f', None)) | (Inr dl, f') \<Rightarrow> (Inr dl, (f', Some dl))))"

section \<open>The lines of a file\<close>

definition find_sec :: "mem \<Rightarrow> elf_header \<Rightarrow> string \<Rightarrow> nat option" where
  "find_sec c h nm = find (\<lambda>i. spec_name c h i = Inr (str_bytes nm)) [0..<length (sec_infos c h)]"

lemma find_sec_bound: "find_sec c h nm = Some i \<Longrightarrow> i < length (sec_infos c h)"
  by (auto simp: find_sec_def find_Some_iff)

context elf_host
begin

lemma section_or_null_ok:
  assumes "elf_inv E ct c h f" and "secs_fit c h" and "strtab_ok c h"
    and "\<forall>i < length (sec_infos c h). name_ok c h i \<and> sec_ok c (sec_infos c h ! i)"
  shows "\<exists>b f'. section_or_null E (Suc n) nm f = (Inr b, f') \<and> elf_inv E ct c h f'"
proof -
  obtain f1 where f1: "findSection E (Suc n) (str_bytes nm) f = (Inr (find_sec c h nm), f1)"
      "elf_inv E ct c h f1" "el_sects_loaded f1"
    using findSection_ok [OF assms(1-3), of n "str_bytes nm"] assms(4) unfolding find_sec_def by blast
  show ?thesis
  proof (cases "find_sec c h nm")
    case None
    then show ?thesis
      using f1 by (auto simp: section_or_null_def)
  next
    case (Some i)
    then show ?thesis
      using f1 section_content_ok [OF f1(2,3), of i "Suc n"] assms(4) find_sec_bound [OF Some]
      by (auto simp: section_or_null_def)
  qed
qed

lemma DebugLine_elf_ok:
  assumes inv: "elf_inv E ct c h f" and fit: "secs_fit c h" and tab: "strtab_ok c h"
    and ok: "\<forall>i < length (sec_infos c h). name_ok c h i \<and> sec_ok c (sec_infos c h ! i)"
    and i: "find_sec c h ''.debug_line'' = Some i"
    and data: "sec_data (head_decoder h) c (sec_infos c h ! i) = concat (map enc_unit Us)"
      "unat (sh_size (sec_infos c h ! i)) = length (concat (map enc_unit Us))"
      "length (concat (map enc_unit Us)) < 2 ^ 31"
    and Us: "\<forall>U \<in> set Us. unit_ok t U \<and> lp_dec (lu_params U) = head_decoder h" and k: "length Us \<le> k"
  shows "\<exists>dl f'. DebugLine_elf J E (Suc n) t k f = (Inr dl, f') \<and> elf_inv E ct c h f' \<and>
    list_all2 (unit_shows J (dl_paths dl)) Us (dl_cus dl)"
proof -
  let ?bs = "concat (map enc_unit Us)" and ?D = "head_decoder h"
  have laws: "decoder_laws ?D"
    unfolding head_decoder_def by (rule elf_dec.decoder_laws_axioms)
  obtain f1 where f1: "findSection E (Suc n) (str_bytes ''.debug_line'') f = (Inr (Some i), f1)"
      "elf_inv E ct c h f1" "el_sects_loaded f1"
    using findSection_ok [OF inv fit tab, of n "str_bytes ''.debug_line''"] ok i
    unfolding find_sec_def by auto
  have sz: "sh_size (sec_infos c h ! i) = word_of_nat (length ?bs)"
    by (simp flip: data(2))
  let ?b = "make_buffer ?D (Some ?bs) (word_of_nat (length ?bs))"
  obtain f2 where f2: "section_content E (Suc n) i f1 = (Inr ?b, f2)" "elf_inv E ct c h f2"
    using section_content_ok [OF f1(2,3) find_sec_bound [OF i], of "Suc n"] ok find_sec_bound [OF i]
    unfolding data(1) sz by blast
  obtain str f3 where f3: "section_or_null E (Suc n) ''.debug_str'' f2 = (Inr str, f3)" "elf_inv E ct c h f3"
    using section_or_null_ok [OF f2(2) fit tab ok] by blast
  obtain lstr f4 where f4: "section_or_null E (Suc n) ''.debug_line_str'' f3 = (Inr lstr, f4)"
      "elf_inv E ct c h f4"
    using section_or_null_ok [OF f3(2) fit tab ok] by blast
  let ?d = "new_dwarf ?b str lstr"
  have "cursor_wf (make_cursor ?b)"
    using make_cursor_wf [OF make_buffer_wf, of ?bs ?D] data(3) by simp
  then have "at_bytes ?D ?bs (dw_c ?d)"
    using data(3) by (simp add: at_bytes_def new_dwarf_def make_buffer_def cur_mem_def)
  then obtain d' where d': "readCUs J t k ?d = (Inr (), d')"
      "list_all2 (unit_shows J (dl_paths (dw_dl d'))) Us (dl_cus (dw_dl d'))"
    using readCUs_eq [OF Us laws, of ?d k J] k dl_wf_new
    by (auto simp: new_dwarf_def new_debug_line_def)
  then show ?thesis
    using f1(1) f2(1) f3(1) f4 by (simp add: DebugLine_elf_def)
qed

end

section \<open>A file with lines\<close>

text \<open>A little-endian ELF file whose section \<open>.debug_line\<close> holds the encoding of
  \<open>demo_unit\<close>.\<close>

definition lines_sample :: mem where
  "lines_sample =
    [127, 69, 76, 70, 1, 1, 1, 0, 0, 0, 0, 0, 0, 0, 0, 0, 2, 0, 40, 0, 1, 0, 0, 0, 0, 0, 0,
     0, 0, 0, 0, 0, 117, 0, 0, 0, 0, 0, 0, 0, 52, 0, 32, 0, 0, 0, 40, 0, 3, 0, 1, 0, 0, 46,
     100, 101, 98, 117, 103, 95, 108, 105, 110, 101, 0, 48, 0, 0, 0, 3, 0, 26, 0, 0, 0, 1, 1,
     251, 14, 13, 0, 0, 0, 0, 0, 0, 0, 0, 0, 0, 0, 0, 115, 0, 0, 97, 0, 1, 0, 0, 0, 0, 5, 2,
     0, 128, 0, 0, 21, 2, 4, 1, 2, 4, 0, 1, 1, 0, 0, 0, 0, 0, 0, 0, 0, 0, 0, 0, 0, 0, 0, 0,
     0, 0, 0, 0, 0, 0, 0, 0, 0, 0, 0, 0, 0, 0, 0, 0, 0, 1, 0, 0, 0, 0, 0, 0, 0, 0, 0, 0, 0,
     3, 0, 0, 0, 0, 0, 0, 0, 0, 0, 0, 0, 52, 0, 0, 0, 13, 0, 0, 0, 0, 0, 0, 0, 0, 0, 0, 0, 1,
     0, 0, 0, 0, 0, 0, 0, 1, 0, 0, 0, 1, 0, 0, 0, 0, 0, 0, 0, 0, 0, 0, 0, 65, 0, 0, 0, 52, 0,
     0, 0, 0, 0, 0, 0, 0, 0, 0, 0, 1, 0, 0, 0, 0, 0, 0, 0]"

definition lines_header :: Elf32_Ehdr where
  "lines_header =
     \<lparr>e_ident32 = [127, 69, 76, 70, 1, 1, 1, 0, 0, 0, 0, 0, 0, 0, 0, 0], e_type32 = 2,
      e_machine32 = 40, e_version32 = 1, e_entry32 = 0, e_phoff32 = 0, e_shoff32 = 117,
      e_flags32 = 0, e_ehsize32 = 52, e_phentsize32 = 32, e_phnum32 = 0,
      e_shentsize32 = 40, e_shnum32 = 3, e_shstrndx32 = 1\<rparr>"

abbreviation lines_head :: elf_header where
  "lines_head \<equiv> H32 lines_header"

lemma length_lines_sample: "length lines_sample = 237"
  by (simp add: lines_sample_def)

lemma load_lines_sample:
  "a + 2 \<le> 237 \<Longrightarrow> elf_fix16 1 (load16 lines_sample a) = word_of_nat (le_nat (bytes_at lines_sample a 2))"
  "a + 4 \<le> 237 \<Longrightarrow> elf_fix32 1 (load32 lines_sample a) = word_of_nat (le_nat (bytes_at lines_sample a 4))"
  by (simp_all add: fix_load length_lines_sample word_of_bytes_def ELFDATA2LSB_def le_word_nat)

lemma lines_bytes:
  "lines_sample ! EI_DATA = 1" "lines_sample ! EI_CLASS = 1"
  by (simp_all add: lines_sample_def elf_ident_consts)

lemma header_lines: "elf32_header lines_sample = lines_header"
  by (simp add: elf32_header_def lines_header_def conv_Elf32_Ehdr_def load_Elf32_Ehdr_def
      lines_bytes load_lines_sample)
   (simp add: load_defs lines_sample_def bytes_at_def le_word_nat)

lemma lines_header_simps:
  "e_ident32 lines_header ! EI_DATA = 1" "unat (e_shoff32 lines_header) = 117"
  "unat (e_shentsize32 lines_header) = 40" "unat (e_shnum32 lines_header) = 3"
  "uint (e_shstrndx32 lines_header) = 1"
  by (simp_all add: lines_header_def elf_ident_consts)

lemma lines_decoder: "head_decoder lines_head = little_decoder"
  by (auto simp: head_decoder_def lines_header_simps elf_decoder_def little_decoder_def elf_fix_defs
      ELFDATA2LSB_def swap16_def swap32_def swap64_def ENDIAN2_def ENDIAN4_def ENDIAN8_def fun_eq_iff)

lemma upto3: "[0..<3] = [0, 1, 2 :: nat]"
  by (simp add: upt_rec)

lemma sec_infos_lines:
  "sec_infos lines_sample lines_head =
    [SH32 (sample_sh 0 0 0 0 0 0), SH32 (sample_sh 0 3 52 13 0 0), SH32 (sample_sh 1 1 65 52 0 0)]"
  by (simp add: sec_infos.simps lines_header_simps upto3 elf32_shdr_def conv_Elf32_Shdr_def load_Elf32_Shdr_def
      load_lines_sample) (simp add: bytes_at_def lines_sample_def sample_sh_def)

lemma fit_lines: "secs_fit lines_sample lines_head"
  by (simp add: shdrs_fit32_def lines_header_simps length_lines_sample sizeof_Elf32_Shdr_def)

lemma sec_ok_lines:
  "sec_ok lines_sample (SH32 (sample_sh 0 0 0 0 0 0))"
  "sec_ok lines_sample (SH32 (sample_sh 0 3 52 13 0 0))"
  "sec_ok lines_sample (SH32 (sample_sh 1 1 65 52 0 0))"
  by (simp_all add: sec_ok_def length_lines_sample sample_sec_simps sh_size.simps)

lemma unfix_little: "unfix_u16 little_decoder x = x" "unfix_u32 little_decoder y = y"
  by (simp_all add: little_decoder_def swap16_def swap32_def)

lemma to_le_lines:
  "to_le 2 (3 :: u16) = [3, 0]" "to_le 4 (48 :: u32) = [48, 0, 0, 0]" "to_le 4 (26 :: u32) = [26, 0, 0, 0]"
  "to_le 4 (0x8000 :: u32) = [0, 128, 0, 0]"
  using to_le_le_word [where bs = "[3, 0]" and 'a = 16 and n = 2]
    to_le_le_word [where bs = "[48, 0, 0, 0]" and 'a = 32 and n = 4]
    to_le_le_word [where bs = "[26, 0, 0, 0]" and 'a = 32 and n = 4]
    to_le_le_word [where bs = "[0, 128, 0, 0]" and 'a = 32 and n = 4]
  by (simp_all add: le_word_nat)

lemma twelve: "replicate 12 (0 :: u8) = [0, 0, 0, 0, 0, 0, 0, 0, 0, 0, 0, 0]"
  by (simp add: eval_nat_numeral)

lemma enc_demo:
  "enc_unit demo_unit =
    [48, 0, 0, 0, 3, 0, 26, 0, 0, 0, 1, 1, 251, 14, 13, 0, 0, 0, 0, 0, 0, 0, 0, 0, 0, 0, 0, 115, 0,
     0, 97, 0, 1, 0, 0, 0, 0, 5, 2, 0, 128, 0, 0, 21, 2, 4, 1, 2, 4, 0, 1, 1]"
  by (simp add: demo_simps enc_unit_def enc_contents_def enc_address_def enc_target_def enc_tables_def
      enc_fields_def enc_cstr_def enc_ops_def leb_enc_u.simps unfix_little to_le_lines twelve
      DW_LNE_set_address_def DW_LNS_advance_pc_def DW_LNS_copy_def DW_LNE_end_sequence_def)

lemma sec_data_lines:
  "sec_data d lines_sample (SH32 (sample_sh 0 3 52 13 0 0)) =
    [0, 46, 100, 101, 98, 117, 103, 95, 108, 105, 110, 101, 0]"
  "sec_data d lines_sample (SH32 (sample_sh 1 1 65 52 0 0)) = enc_unit demo_unit"
  unfolding enc_demo
  by (simp_all add: sec_data_def sec_raw_def sample_sec_simps sh_size.simps)
    (simp_all add: bytes_at_def lines_sample_def)

lemma getStrTab_lines: "nat (elf_getStrTab lines_head) = 1"
  by (simp add: File32_getStrTab_def lines_header_simps)

lemma strtab_lines: "strtab_info lines_sample lines_head = SH32 (sample_sh 0 3 52 13 0 0)"
  unfolding strtab_info_def getStrTab_lines by (simp add: sec_infos_lines)

lemma strtab_ok_lines: "strtab_ok lines_sample lines_head"
  unfolding strtab_ok_def getStrTab_lines by (simp add: strtab_lines sec_infos_lines sec_ok_lines)

lemma spec_name_lines:
  "spec_name lines_sample lines_head 0 = Inr []"
  "spec_name lines_sample lines_head (Suc 0) = Inr []"
  "spec_name lines_sample lines_head 2 = Inr (str_bytes ''.debug_line'')"
  by (simp_all add: spec_name_def strtab_lines sec_data_lines sec_infos_lines)
    (simp_all add: sample_sh_def cstr_at_def str_bytes_def)

lemma less3: "i < 3 \<Longrightarrow> i = 0 \<or> i = 1 \<or> i = (2 :: nat)"
  by linarith

lemma length_sec_infos_lines: "length (sec_infos lines_sample lines_head) = 3"
  by (simp add: sec_infos_lines)

lemma lines_sections_ok:
  "i < 3 \<Longrightarrow> name_ok lines_sample lines_head i \<and> sec_ok lines_sample (sec_infos lines_sample lines_head ! i)"
  by (drule less3) (auto simp: sec_infos_lines sec_ok_lines name_ok_def spec_name_lines strtab_lines,
      simp_all add: sample_sec_simps)

lemma find_sec_lines: "find_sec lines_sample lines_head ''.debug_line'' = Some 2"
  unfolding find_sec_def length_sec_infos_lines
  by (simp add: upto3 spec_name_lines) (simp add: str_bytes_def)

definition lines_file :: "(mem \<times> nat) elf_file" where
  "lines_file = new_elf_file (lines_sample, 0) lines_head"

lemma lines_inv: "elf_inv sample_env fst lines_sample lines_head lines_file"
  using new_elf_file_inv [of sample_env fst "(lines_sample, 0)" lines_head]
  by (simp add: lines_file_def)

section \<open>From the file to the lines\<close>

text \<open>C12. From the file to the lines: when the sections of an ELF file and their names fit in it
  and its section \<open>.debug_line\<close> holds the encoding of units (as for the round trip of the
  table), \<open>debugLines\<close> gives a table with these units, each with the paths of its files and the
  rows of its program; further calls give the same table without reading anything.\<close>

theorem debugLines_of_file:
  assumes "elf_host E ct ps" and "elf_inv E ct c h f" and "secs_fit c h" and "strtab_ok c h"
    and "\<forall>i < length (sec_infos c h). name_ok c h i \<and> sec_ok c (sec_infos c h ! i)"
    and "find_sec c h ''.debug_line'' = Some i"
    and "sec_data (head_decoder h) c (sec_infos c h ! i) = concat (map enc_unit Us)"
    and "unat (sh_size (sec_infos c h ! i)) = length (concat (map enc_unit Us))"
    and "length (concat (map enc_unit Us)) < 2 ^ 31"
    and "\<forall>U \<in> set Us. unit_ok t U \<and> lp_dec (lu_params U) = head_decoder h" and "length Us \<le> k"
  shows "\<exists>dl f'. debugLines J E (Suc n) t k (f, None) = (Inr dl, (f', Some dl)) \<and>
    elf_inv E ct c h f' \<and> list_all2 (unit_shows J (dl_paths dl)) Us (dl_cus dl) \<and>
    debugLines J E (Suc n) t k (f', Some dl) = (Inr dl, (f', Some dl))"
proof -
  obtain dl f' where "DebugLine_elf J E (Suc n) t k f = (Inr dl, f')" "elf_inv E ct c h f'"
      "list_all2 (unit_shows J (dl_paths dl)) Us (dl_cus dl)"
    using elf_host.DebugLine_elf_ok [OF assms] by blast
  then show ?thesis
    by (auto simp: debugLines_def)
qed

theorem debugLines_of_file_witness:
  "\<exists>dl f'. debugLines (\<lambda>d s. d @ 47 # s) sample_env 1 7 1 (lines_file, None) = (Inr dl, (f', Some dl)) \<and>
    list_all2 (unit_shows (\<lambda>d s. d @ 47 # s) (dl_paths dl)) [demo_unit] (dl_cus dl)"
proof -
  have "sec_data (head_decoder lines_head) lines_sample (sec_infos lines_sample lines_head ! 2) =
      concat (map enc_unit [demo_unit])"
    "unat (sh_size (sec_infos lines_sample lines_head ! 2)) = length (concat (map enc_unit [demo_unit]))"
    by (simp_all add: sec_infos_lines sec_data_lines enc_demo)
  moreover have "\<forall>U \<in> set [demo_unit]. unit_ok 7 U \<and> lp_dec (lu_params U) = head_decoder lines_head"
    using demo_table by (simp add: lines_decoder)
  ultimately show ?thesis
    using debugLines_of_file [OF sample_host.elf_host_axioms lines_inv fit_lines strtab_ok_lines _
        find_sec_lines, of "[demo_unit]" 7 1 "\<lambda>d s. d @ 47 # s" 0] lines_sections_ok length_enc_demo
    by (auto simp: length_sec_infos_lines)
qed

text \<open>A file without a section \<open>.debug_line\<close> has an empty table of lines, in which no
  address has a line.\<close>

theorem debugLines_without_section:
  assumes "elf_host E ct ps" and "elf_inv E ct c h f" and "secs_fit c h" and "strtab_ok c h"
    and "\<forall>i < length (sec_infos c h). name_ok c h i" and "find_sec c h ''.debug_line'' = None"
  shows "\<exists>f'. debugLines J E (Suc n) t k (f, None) = (Inr new_debug_line, (f', Some new_debug_line)) \<and>
    elf_inv E ct c h f' \<and> dl_lineAt new_debug_line a = Inr None"
proof -
  obtain f' where "findSection E (Suc n) (str_bytes ''.debug_line'') f = (Inr None, f')"
      "elf_inv E ct c h f'"
    using elf_host.findSection_ok [OF assms(1-5), of n "str_bytes ''.debug_line''"] assms(6)
    unfolding find_sec_def by auto
  then show ?thesis
    by (simp add: debugLines_def DebugLine_elf_def dl_lineAt_def new_debug_line_def)
qed

theorem debugLines_without_section_witness:
  "\<exists>f'. debugLines (\<lambda>d s. s) sample_env 1 0 0 (sample_file, None) =
    (Inr new_debug_line, (f', Some new_debug_line))"
proof -
  have "find_sec sample sample_head ''.debug_line'' = None"
    unfolding find_sec_def length_sec_infos_sample
    by (simp add: upto4 spec_name_sample str_bytes_def)
  then show ?thesis
    using debugLines_without_section [OF sample_host.elf_host_axioms sample_inv fit_sample(1)
        strtab_ok_sample, of "\<lambda>d s. s" 0 0 0 0]
    by (auto simp: length_sec_infos_sample name_ok_sample)
qed

end
