(* ===== verification/Elf_Props.thy ===== *)
theory Elf_Props
  imports Elf_Sample
begin

text \<open>
  The properties of the ELF part: the constructors, the tables, the contents, the
  names, the symbols, the segments, and what happens when the file is damaged.
  Each is applied to the file of \<open>Elf_Sample\<close>.
\<close>

section \<open>Opening a file\<close>

text \<open>
  The constructor of \<open>File32\<close> on a file of content \<open>c\<close>: a file shorter than the
  header cannot be read; another magic number is refused; a file of the other
  class fails the assertion; a header whose index of the section names is not a
  section is malformed; any other header is converted from the byte order given
  by \<open>e_ident[EI_DATA]\<close>, and nothing else is loaded.
\<close>

theorem File32_new_outcome:
  assumes "rstream_spec (env_stream E) ct ps"
  shows "\<exists>s'. ct s' = ct s \<and> File32_new E s =
    (if length (ct s) < sizeof_Elf32_Ehdr
       then Inl (Throw (Cannot_Read (word_of_nat sizeof_Elf32_Ehdr)))
     else if take 4 (ct s) \<noteq> ELFMAG then Inl (Throw Not_An_ELF)
     else if ct s ! EI_CLASS \<noteq> ELFCLASS32 then Inl Assert_Failure
     else if e_shnum32 (elf32_header (ct s)) \<le> e_shstrndx32 (elf32_header (ct s))
       then Inl (Throw Malformed_ELF)
     else Inr (new_elf_file s' (H32 (elf32_header (ct s)))))"
proof (cases "length (ct s) < sizeof_Elf32_Ehdr")
  case True
  then show ?thesis
    using File32_new_short [of E ct ps s, OF assms] by auto
next
  case False
  then show ?thesis
    using File32_new_eq [of E ct ps s, OF assms] by auto
qed

theorem File32_new_outcome_witness:
  "\<exists>s'. fst s' = sample \<and> File32_new sample_env (sample, 0) = Inr (new_elf_file s' sample_head)"
proof -
  have "sizeof_Elf32_Ehdr \<le> length sample" "take 4 sample = ELFMAG" "sample ! EI_CLASS = ELFCLASS32"
    "e_shstrndx32 sample_header < e_shnum32 sample_header"
    by (simp_all add: sample_def elf_ident_consts sizeof_Elf32_Ehdr_def sample_header_def)
  then show ?thesis
    using File32_new_outcome [OF sample_host.stream, of "(sample, 0)"]
    by (auto simp: header_sample not_le [symmetric])
qed

text \<open>
  The same for the constructor of \<open>File64\<close>.
\<close>

theorem File64_new_outcome:
  assumes "rstream_spec (env_stream E) ct ps"
  shows "\<exists>s'. ct s' = ct s \<and> File64_new E s =
    (if length (ct s) < sizeof_Elf64_Ehdr
       then Inl (Throw (Cannot_Read (word_of_nat sizeof_Elf64_Ehdr)))
     else if take 4 (ct s) \<noteq> ELFMAG then Inl (Throw Not_An_ELF)
     else if ct s ! EI_CLASS \<noteq> ELFCLASS64 then Inl Assert_Failure
     else if e_shnum64 (elf64_header (ct s)) \<le> e_shstrndx64 (elf64_header (ct s))
       then Inl (Throw Malformed_ELF)
     else Inr (new_elf_file s' (H64 (elf64_header (ct s)))))"
proof (cases "length (ct s) < sizeof_Elf64_Ehdr")
  case True
  then show ?thesis
    using File64_new_short [of E ct ps s, OF assms] by auto
next
  case False
  then show ?thesis
    using File64_new_eq [of E ct ps s, OF assms] by auto
qed

theorem File64_new_outcome_witness:
  "\<exists>s'. fst s' = sample \<and> File64_new sample_env (sample, 0) = Inl Assert_Failure"
proof -
  have "sizeof_Elf64_Ehdr \<le> length sample" "take 4 sample = ELFMAG" "sample ! EI_CLASS \<noteq> ELFCLASS64"
    by (simp_all add: sample_def elf_ident_consts sizeof_Elf64_Ehdr_def)
  then show ?thesis
    using File64_new_outcome [OF sample_host.stream, of "(sample, 0)"] by simp
qed

text \<open>
  The header that the constructor keeps has the integers of the file, read in
  the byte order that the file announces, except \<open>e_flags\<close> and \<open>e_ehsize\<close>, which
  stay in the byte order of the host.
\<close>

theorem elf32_header_fields:
  assumes "sizeof_Elf32_Ehdr \<le> length c"
  defines "e \<equiv> c ! EI_DATA"
  shows "elf32_header c =
    \<lparr>e_ident32 = take 16 c, e_type32 = word_of_bytes e (bytes_at c 16 2),
     e_machine32 = word_of_bytes e (bytes_at c 18 2),
     e_version32 = word_of_bytes e (bytes_at c 20 4),
     e_entry32 = word_of_bytes e (bytes_at c 24 4),
     e_phoff32 = word_of_bytes e (bytes_at c 28 4),
     e_shoff32 = word_of_bytes e (bytes_at c 32 4),
     e_flags32 = le_word (bytes_at c 36 4), e_ehsize32 = le_word (bytes_at c 40 2),
     e_phentsize32 = word_of_bytes e (bytes_at c 42 2),
     e_phnum32 = word_of_bytes e (bytes_at c 44 2),
     e_shentsize32 = word_of_bytes e (bytes_at c 46 2),
     e_shnum32 = word_of_bytes e (bytes_at c 48 2),
     e_shstrndx32 = word_of_bytes e (bytes_at c 50 2)\<rparr>"
  using assms(1)
  by (simp add: elf32_header_def conv_Elf32_Ehdr_def load_Elf32_Ehdr_def sizeof_Elf32_Ehdr_def
      fix_load e_def) (simp add: load_defs bytes_at_def)

theorem elf32_header_fields_witness:
  "e_entry32 (elf32_header sample) = word_of_bytes (sample ! EI_DATA) (bytes_at sample 24 4) \<and>
   e_flags32 (elf32_header sample) = le_word (bytes_at sample 36 4)"
proof -
  have "sizeof_Elf32_Ehdr \<le> length sample"
    by (simp add: sizeof_Elf32_Ehdr_def length_sample)
  then show ?thesis
    by (subst elf32_header_fields, assumption)+ simp
qed

text \<open>
  The byte order of an ELF file: a word stored at any place of the file is
  the composition of its bytes from the first one on for \<open>ELFDATA2LSB\<close>, and from
  the last one on for any other encoding.
\<close>

theorem elf_fix_byte_order:
  "elf_fix16 e (le_word [a0, a1]) =
     (if e = ELFDATA2LSB then le_word [a0, a1] else le_word [a1, a0]) \<and>
   elf_fix32 e (le_word [a0, a1, a2, a3]) =
     (if e = ELFDATA2LSB then le_word [a0, a1, a2, a3] else le_word [a3, a2, a1, a0]) \<and>
   elf_fix64 e (le_word [a0, a1, a2, a3, a4, a5, a6, a7]) =
     (if e = ELFDATA2LSB then le_word [a0, a1, a2, a3, a4, a5, a6, a7]
      else le_word [a7, a6, a5, a4, a3, a2, a1, a0])"
  by (simp add: elf_fix_le_word word_of_bytes_def del: le_word.simps)

section \<open>Tables and contents\<close>

text \<open>C6. The sections of an open file whose section table fits in it are the entries of that
  table, whatever was done with the file before, and reading them keeps the invariant of the
  file.\<close>

theorem sections_refine:
  assumes "rstream_spec (env_stream E) ct ps" and "elm_array_spec (env_array E)"
    and "elf_inv E ct c h f" and "secs_fit c h"
  shows "\<exists>ss f'. sections E f = (Inr ss, f') \<and> map sec_info ss = sec_infos c h \<and>
    elf_inv E ct c h f'"
  using elf_host.sections_ok [OF elf_host.intro [OF assms(1,2)] assms(3,4)] by blast

theorem sections_refine_witness:
  "\<exists>ss f'. sections sample_env sample_file = (Inr ss, f') \<and>
    map sec_info ss = sec_infos sample sample_head \<and>
    elf_inv sample_env fst sample sample_head f'"
  by (rule sections_refine [OF sample_host.stream sample_host.array sample_inv fit_sample(1)])

text \<open>
  The program headers of an open file are the entries of the program header
  table of its content.
\<close>

theorem programHeaders_refine:
  assumes "rstream_spec (env_stream E) ct ps" and "elm_array_spec (env_array E)"
    and "elf_inv E ct c h f" and "phs_fit c h"
  shows "\<exists>xs f'. programHeaders E f = (Inr xs, f') \<and> map ph_info xs = phdr_infos c h \<and>
    elf_inv E ct c h f'"
  using elf_host.programHeaders_ok [OF elf_host.intro [OF assms(1,2)] assms(3,4)] by blast

theorem programHeaders_refine_witness:
  "\<exists>xs f'. programHeaders sample_env sample_file = (Inr xs, f') \<and>
    map ph_info xs = [PH32 sample_ph] \<and> elf_inv sample_env fst sample sample_head f'"
  using programHeaders_refine [OF sample_host.stream sample_host.array sample_inv fit_sample(2)]
  by (simp add: phdr_infos_sample)

text \<open>C5. The content of a section that lies in the file (below 4 GB, and made of whole entries
  for a symbol table) is a buffer of the size of the section, on the bytes of the file for a
  plain section, and on the converted entries for a symbol table; it does not depend on what
  was read before, and reading it keeps the invariant.\<close>

theorem section_content_refine:
  assumes "rstream_spec (env_stream E) ct ps" and "elm_array_spec (env_array E)"
    and "elf_inv E ct c h f" and "el_sects_loaded f"
    and "i < length (sec_infos c h)" and "sec_ok c (sec_infos c h ! i)"
  shows "\<exists>f'. section_content E n i f =
      (Inr (make_buffer (head_decoder h) (Some (sec_data (head_decoder h) c (sec_infos c h ! i)))
              (sh_size (sec_infos c h ! i))), f') \<and> elf_inv E ct c h f'"
  using elf_host.section_content_ok [OF elf_host.intro [OF assms(1,2)] assms(3-6)] by blast

theorem section_content_refine_witness:
  "\<exists>f f'. section_content sample_env 0 3 f =
     (Inr (make_buffer (head_decoder sample_head) (Some [0, 102, 0]) 3), f') \<and>
     elf_inv sample_env fst sample sample_head f'"
proof -
  obtain f where f: "elf_inv sample_env fst sample sample_head f" "el_sects_loaded f"
    using sample_host.sections_ok [OF sample_inv fit_sample(1)] by blast
  show ?thesis
    using section_content_refine [OF sample_host.stream sample_host.array f, of 3 0]
    by (auto simp: sec_infos_sample sec_ok_sample sec_data_sample)
qed

text \<open>
  The entries of a 32-bit symbol table after the conversion in place are the
  entries of the file read in its byte order; the size of the table is kept.
\<close>

theorem symtab_entries32:
  assumes "sec_ok c (SH32 q)" and "is_symtab (SH32 q)"
  shows "length (sec_data d c (SH32 q)) = unat (sh_size32 q) \<and>
    (\<forall>j < sym_count (SH32 q). load_Elf32_Sym (sec_data d c (SH32 q)) (j * unat (sh_entsize32 q)) =
      conv_Elf32_Sym d (load_Elf32_Sym c (unat (sh_offset32 q) + j * unat (sh_entsize32 q))))"
  using sec_data_entries32 [OF assms] by blast

theorem symtab_entries32_witness:
  "load_Elf32_Sym (sec_data little_decoder sample (SH32 (sample_sh 4 2 98 16 3 16))) 0 =
   conv_Elf32_Sym little_decoder (load_Elf32_Sym sample 98)"
  using symtab_entries32 [OF sec_ok_sample(2) sample_symtab(1), of little_decoder]
  by (simp add: sample_symtab(2-4))

text \<open>
  The same for a 64-bit symbol table.
\<close>

theorem symtab_entries64:
  assumes "sec_ok c (SH64 q)" and "is_symtab (SH64 q)"
  shows "length (sec_data d c (SH64 q)) = unat (sh_size64 q) \<and>
    (\<forall>j < sym_count (SH64 q). load_Elf64_Sym (sec_data d c (SH64 q)) (j * unat (sh_entsize64 q)) =
      conv_Elf64_Sym d (load_Elf64_Sym c (unat (sh_offset64 q) + j * unat (sh_entsize64 q))))"
  using sec_data_entries64 [OF assms] by blast

definition sample_sh64 :: Elf64_Shdr where
  "sample_sh64 =
     \<lparr>sh_name64 = 0, sh_type64 = 2, sh_flags64 = 0, sh_addr64 = 0, sh_offset64 = 98,
      sh_size64 = 48, sh_link64 = 0, sh_info64 = 0, sh_addralign64 = 1, sh_entsize64 = 24\<rparr>"

theorem symtab_entries64_witness:
  "load_Elf64_Sym (sec_data little_decoder sample (SH64 sample_sh64)) 24 =
   conv_Elf64_Sym little_decoder (load_Elf64_Sym sample 122)"
proof -
  have "sh_size (SH64 sample_sh64) = 48" "sh_entsize (SH64 sample_sh64) = 24"
    by (simp_all add: sh_size.simps sh_entsize.simps sec_defs64 sample_sh64_def)
  then have "sec_ok sample (SH64 sample_sh64)" "is_symtab (SH64 sample_sh64)"
    "sym_count (SH64 sample_sh64) = 2"
    by (simp_all add: sec_ok_def is_symtab_def length_sample sec_defs64 sample_sh64_def
        SHT_SYMTAB_def sizeof_Elf64_Sym_def sym_count_def)
  then show ?thesis
    using symtab_entries64 [of sample sample_sh64 little_decoder]
    by (auto simp: sample_sh64_def dest: spec [of _ 1])
qed

section \<open>Names, symbols and segments\<close>

text \<open>C30. On a file whose section table and names of sections fit in it, \<open>findSection\<close> gives the
  first section of the name, or none, whatever was loaded before.\<close>

theorem findSection_first:
  assumes "rstream_spec (env_stream E) ct ps" and "elm_array_spec (env_array E)"
    and "elf_inv E ct c h f" and "secs_fit c h" and "strtab_ok c h"
    and "\<forall>i < length (sec_infos c h). name_ok c h i"
  shows "\<exists>f'. findSection E (Suc n) x f =
      (Inr (find (\<lambda>i. spec_name c h i = Inr x) [0..<length (sec_infos c h)]), f') \<and>
    elf_inv E ct c h f'"
  using elf_host.findSection_ok [OF elf_host.intro [OF assms(1,2)] assms(3-6)] by blast

theorem findSection_first_witness:
  "\<exists>f'. findSection sample_env 1 (str_bytes ''.s'') sample_file = (Inr (Some 2), f') \<and>
    elf_inv sample_env fst sample sample_head f'"
proof -
  have "\<forall>i < length (sec_infos sample sample_head). name_ok sample sample_head i"
    by (simp add: sec_infos_sample name_ok_sample)
  from findSection_first [OF sample_host.stream sample_host.array sample_inv fit_sample(1)
      strtab_ok_sample this, of 0 "str_bytes ''.s''"]
  show ?thesis
    unfolding length_sec_infos_sample upto4 by (simp add: spec_name_sample str_bytes_def)
qed

text \<open>
  A string asked in a section that does not exist is refused with an
  exception, and the file stays usable.
\<close>

theorem stringAt_no_section:
  assumes "rstream_spec (env_stream E) ct ps" and "elm_array_spec (env_array E)"
    and "elf_inv E ct c h f" and "secs_fit c h" and "int (length (sec_infos c h)) \<le> k"
  shows "\<exists>f'. stringAt E (Suc n) k off f = (Inl (Throw Strtab_Out_Of_Bound), f') \<and>
    elf_inv E ct c h f'"
  by (rule elf_host.stringAt_out_of_bound [OF elf_host.intro [OF assms(1,2)] assms(3-5)])

theorem stringAt_no_section_witness:
  "\<exists>f'. stringAt sample_env (Suc 0) 4 0 sample_file = (Inl (Throw Strtab_Out_Of_Bound), f') \<and>
    elf_inv sample_env fst sample sample_head f'"
  by (rule stringAt_no_section [OF sample_host.stream sample_host.array sample_inv fit_sample(1)])
    (simp add: sec_infos_sample)

text \<open>C4. On a file whose section table, symbol tables and tables of names fit in it, the first
  \<open>symbols()\<close> maps every name to the last symbol of that name, over the symbol
  tables in the order of the sections; the blocks it keeps are the converted
  contents of these tables, so that the value, the size and the type of a symbol are
  those of its entry.\<close>

theorem symbols_last:
  assumes "rstream_spec (env_stream E) ct ps" and "elm_array_spec (env_array E)"
    and "elf_inv E ct c h f" and "secs_fit c h" and "el_syms f = None" and "symbols_ok c h"
  defines "tabs \<equiv> symtabs_from c h 0 (length (sec_infos c h))"
  shows "\<exists>t f'. symbols E (Suc n) f = (Inr t, f') \<and> elf_inv E ct c h f' \<and>
    st_map t = map_of (rev (spec_symbols c h 0 tabs)) \<and>
    st_mems t = map (\<lambda>i. sec_data (head_decoder h) c (sec_infos c h ! i)) tabs"
  using elf_host.symbols_refine [OF elf_host.intro [OF assms(1,2)] assms(3-6), of n]
  by (auto simp: tabs_def spec_table_def empty_symbol_table_def)

theorem symbols_last_witness:
  "\<exists>t f' s. symbols sample_env 1 sample_file = (Inr t, f') \<and>
    st_map t (str_bytes ''f'') = Some s \<and> sym_value t s = 0x8000 \<and> sym_type t s = FUNC \<and>
    st_map t (str_bytes ''g'') = None"
proof -
  have s: "spec_symbols sample sample_head 0 [2] =
      [([102], \<lparr>sym_is64 = False, sym_mem = 0, sym_off = 0\<rparr>)]"
    by (simp add: section_symbols_def sec_infos_sample sym_offsets_def sym_count_def
        spec_sym_name_def link_info_def sym_name_off_def symbol_data_sample load32_def
        sec_data_sample bytes_at_def cstr_at_def le_word_nat)
  have "el_syms sample_file = None"
    by (simp add: sample_file_def new_elf_file_def)
  from symbols_last [OF sample_host.stream sample_host.array sample_inv fit_sample(1) this
      symbols_ok_sample, of 0]
  obtain t f' where t: "symbols sample_env 1 sample_file = (Inr t, f')"
    "st_map t = [[102] \<mapsto> \<lparr>sym_is64 = False, sym_mem = 0, sym_off = 0\<rparr>]"
    "st_mems t = [[1, 0, 0, 0, 0, 128, 0, 0, 8, 0, 0, 0, 18, 0, 0, 0]]"
    unfolding symtabs_sample s by (auto simp: sec_infos_sample symbol_data_sample)
  have "sym_value t \<lparr>sym_is64 = False, sym_mem = 0, sym_off = 0\<rparr> = 0x8000"
    "sym_type t \<lparr>sym_is64 = False, sym_mem = 0, sym_off = 0\<rparr> = FUNC"
    using t(3) by (simp_all add: sym_value_def sym_type_def sym_block_def Symbol32_value_def
        Symbol32_type_def load_Elf32_Sym_def load_defs load8_def bytes_at_def le_word_nat
        ELF32_ST_TYPE_def STT_OBJECT_def STT_FUNC_def)
  then show ?thesis
    using t by (intro exI [of _ t] exI [of _ f']) (auto simp: str_bytes_def)
qed

text \<open>
  The segments are the program headers to load, in the order of the table.
\<close>

theorem segments_loadable:
  assumes "rstream_spec (env_stream E) ct ps" and "elm_array_spec (env_array E)"
    and "elf_inv E ct c h f" and "phs_fit c h"
  shows "\<exists>f'. elf_count E f = (Inr (int (length (load_indices c h))), f') \<and>
    elf_inv E ct c h f' \<and>
    (\<forall>i < length (load_indices c h). \<exists>f''.
       elf_segment E (int i) f' = (Inr (load_indices c h ! i), f'') \<and> elf_inv E ct c h f'')"
proof -
  note h = elf_host.intro [OF assms(1,2)]
  obtain f' where f': "elf_count E f = (Inr (int (length (load_indices c h))), f')"
    "elf_inv E ct c h f'"
    using elf_host.elf_count_ok [OF h assms(3,4)] by blast
  moreover have "\<exists>f''. elf_segment E (int i) f' = (Inr (load_indices c h ! i), f'') \<and>
      elf_inv E ct c h f''" if "i < length (load_indices c h)" for i
    using elf_host.elf_segment_ok [OF h f'(2) assms(4), of "int i"] that by auto
  ultimately show ?thesis
    by blast
qed

theorem segments_loadable_witness:
  "\<exists>f' f''. elf_count sample_env sample_file = (Inr 1, f') \<and>
    elf_segment sample_env 0 f' = (Inr 0, f'')"
  using segments_loadable [OF sample_host.stream sample_host.array sample_inv fit_sample(2)]
  by (auto simp: load_indices_sample)

text \<open>C40. The content of a program header whose bytes lie in the file and that takes more memory
  than it has in the file: a block of \<open>memsz\<close> bytes whose FIRST \<open>memsz - filesz\<close> bytes are
  cleared, the bytes of the file that were there included; the bytes of the file stay only
  beyond that point, and what follows them is not initialised.\<close>

theorem ph_content_cleared:
  assumes "rstream_spec (env_stream E) ct ps" and "elm_array_spec (env_array E)"
    and "elf_inv E ct c h f" and "el_ph_loaded f"
    and "i < length (phdr_infos c h)" and "ph_ok c (phdr_infos c h ! i)"
  defines "p \<equiv> phdr_infos c h ! i"
  shows "\<exists>m f'. ph_content E i f =
      (Inr (make_buffer (head_decoder h) (Some m) (ph_memsz p)), f') \<and> elf_inv E ct c h f' \<and>
    length m = unat (ph_memsz p) \<and>
    (\<forall>j < length m. m ! j =
       (if j < unat (ph_memsz p) - unat (ph_filesz p) then 0
        else if j < unat (ph_filesz p) then c ! (unat (ph_offset p) + j)
        else env_junk E j))"
proof -
  have ok: "unat (ph_offset p) + unat (ph_filesz p) \<le> length c"
    "unat (ph_filesz p) \<le> unat (ph_memsz p)"
    using assms(6) by (simp_all add: ph_ok_def p_def word_le_nat_alt)
  have "length (ph_data (env_junk E) c p) = unat (ph_memsz p) \<and>
    (\<forall>j < unat (ph_memsz p). ph_data (env_junk E) c p ! j =
       (if j < unat (ph_memsz p) - unat (ph_filesz p) then 0
        else if j < unat (ph_filesz p) then c ! (unat (ph_offset p) + j)
        else env_junk E j))"
    using ok by (simp add: ph_data_def Let_def nth_append nth_store_at)
  moreover obtain f' where "ph_content E i f = (Inr (make_buffer (head_decoder h)
      (Some (ph_data (env_junk E) c p)) (ph_memsz p)), f')" "elf_inv E ct c h f'"
    using elf_host.ph_content_ok [OF elf_host.intro [OF assms(1,2)] assms(3-6)]
    unfolding p_def by blast
  ultimately show ?thesis
    by (intro exI [of _ "ph_data (env_junk E) c p"] exI [of _ f']) simp
qed

theorem ph_content_cleared_witness:
  "\<exists>f m f'. ph_content sample_env 0 f =
     (Inr (make_buffer (head_decoder sample_head) (Some m) 6), f') \<and>
     m ! 0 = 0 \<and> m ! 1 = 0 \<and> m ! 2 = 3 \<and> m ! 3 = 4 \<and> m ! 4 = 0xAA"
proof -
  obtain f where f: "elf_inv sample_env fst sample sample_head f" "el_ph_loaded f"
    using sample_host.programHeaders_ok [OF sample_inv fit_sample(2)] by blast
  have ph: "ph_memsz (PH32 sample_ph) = 6" "ph_filesz (PH32 sample_ph) = 4"
    "ph_offset (PH32 sample_ph) = 84"
    by (simp_all add: sample_ph_def ProgramHeader32_memsz_def ProgramHeader32_filesz_def
        ProgramHeader32_offset_def)
  have "ph_ok sample (PH32 sample_ph)"
    by (simp only: ph_ok_def ph length_sample) simp
  then obtain m f' where m: "ph_content sample_env 0 f =
      (Inr (make_buffer (head_decoder sample_head) (Some m) 6), f')" "length m = 6"
    "\<forall>j < 6. m ! j = (if j < 2 then 0 else if j < 4 then sample ! (84 + j) else 0xAA)"
    using ph_content_cleared [OF sample_host.stream sample_host.array f, of 0]
    by (auto simp: phdr_infos_sample ph sample_env_def simp del: ph_memsz.simps ph_filesz.simps
        ph_offset.simps)
  have "m ! 0 = 0" "m ! 1 = 0" "m ! 2 = sample ! 86" "m ! 3 = sample ! 87" "m ! 4 = 0xAA"
    using m(3) by auto
  then show ?thesis
    using m(1) by (intro exI [of _ f] exI [of _ m] exI [of _ f']) (simp add: sample_def)
qed

section \<open>Damaged files\<close>

text \<open>
  When the table of program headers runs past the end of the file, the first
  call of \<open>programHeaders\<close> throws, but leaves \<open>ph_buf\<close> set: the next call succeeds
  and returns no program header at all.
\<close>

theorem programHeaders_after_failure:
  assumes "rstream_spec (env_stream E) ct ps" and "elm_array_spec (env_array E)"
    and "elf_inv E ct c h f" and "\<not> el_ph_loaded f" and "phs_cut c h"
  shows "\<exists>f1 f2. programHeaders E f =
      (Inl (Throw (Cannot_Read (word_of_nat (phs_size h)))), f1) \<and>
    programHeaders E f1 = (Inr [], f2) \<and> el_ph_loaded f2"
proof -
  note h = elf_host.intro [OF assms(1,2)]
  have inv: "ct (el_s f) = c" "el_head f = h" "el_phs f = []" "el_ph_buf f = None"
    using assms(3,4) by (simp_all add: elf_inv_def)
  obtain s' b where "programHeaders E f =
      (Inl (Throw (Cannot_Read (word_of_nat (phs_size h)))), f\<lparr>el_s := s', el_ph_buf := Some b\<rparr>)"
    using elf_host.programHeaders_cut [OF h inv(1,2) assms(4) inv(4) assms(5)] by blast
  moreover have "programHeaders E (f\<lparr>el_s := s', el_ph_buf := Some b\<rparr>) =
      (Inr [], f\<lparr>el_s := s', el_ph_buf := Some b, el_ph_loaded := True\<rparr>)"
    using elf_host.programHeaders_again [OF h, of "f\<lparr>el_s := s', el_ph_buf := Some b\<rparr>" b]
      assms(4) inv(3) by simp
  ultimately show ?thesis
    by auto
qed

definition cut_header :: elf_header where
  "cut_header = H32 (sample_header\<lparr>e_phnum32 := 100\<rparr>)"

theorem programHeaders_after_failure_witness:
  "\<exists>f1 f2. programHeaders sample_env (new_elf_file (sample, 0) cut_header) =
      (Inl (Throw (Cannot_Read 3200)), f1) \<and>
    programHeaders sample_env f1 = (Inr [], f2)"
proof -
  have "phs_cut sample cut_header" "phs_size cut_header = 3200"
    by (simp_all add: cut_header_def sample_header_def length_sample)
  then show ?thesis
    using programHeaders_after_failure [OF sample_host.stream sample_host.array
        new_elf_file_inv [of sample_env fst "(sample, 0)" cut_header]]
    by (auto simp: new_elf_file_def)
qed

text \<open>
  C38. When the section of the section names is itself a symbol table with bytes
  left over, looking a name up never returns: the message about the garbage needs
  the name of the section, which needs the section; the stack is exhausted
  whatever its depth.
\<close>

theorem names_never_return:
  assumes "rstream_spec (env_stream E) ct ps" and "elm_array_spec (env_array E)"
    and "elf_inv E ct c h f" and "el_sects f = []" and "secs_fit c h"
    and "nat (elf_getStrTab h) < length (sec_infos c h)" and "sec_garbage c (strtab_info c h)"
  shows "\<exists>f'. stringAt E n (elf_getStrTab h) off f = (Inl Stack_Overflow, f')"
  using elf_host.stringAt_garbage [OF elf_host.intro [OF assms(1,2)] assms(5-7,3)] assms(4) by blast

definition garbage_file :: mem where
  "garbage_file =
     [0, 0, 0, 0, 2, 0, 0, 0, 0, 0, 0, 0, 0, 0, 0, 0, 0, 0, 0, 0,
      5, 0, 0, 0, 0, 0, 0, 0, 0, 0, 0, 0, 1, 0, 0, 0, 4, 0, 0, 0]"

definition garbage_header :: Elf32_Ehdr where
  "garbage_header = sample_header
     \<lparr>e_ident32 := [127, 69, 76, 70, 1, 1, 1, 0, 0, 0, 0, 0, 0, 0, 0, 0], e_shoff32 := 0,
      e_shnum32 := 1, e_shstrndx32 := 0\<rparr>"

theorem names_never_return_witness:
  "\<exists>f'. stringAt sample_env 1000 0 0 (new_elf_file (garbage_file, 0) (H32 garbage_header)) =
     (Inl Stack_Overflow, f')"
proof -
  have infos: "sec_infos garbage_file (H32 garbage_header) =
      [SH32 \<lparr>sh_name32 = 0, sh_type32 = 2, sh_flags32 = 0, sh_addr32 = 0, sh_offset32 = 0,
        sh_size32 = 5, sh_link32 = 0, sh_info32 = 0, sh_addralign32 = 1, sh_entsize32 = 4\<rparr>]"
    by (simp add: sec_infos.simps garbage_header_def sample_header_def elf32_shdr_def
        conv_Elf32_Shdr_def load_Elf32_Shdr_def garbage_file_def EI_DATA_def elf_fix_defs
        ENDIAN4_def ELFDATA2LSB_def load_defs bytes_at_def le_word_nat)
  have k: "elf_getStrTab (H32 garbage_header) = 0"
    by (simp add: File32_getStrTab_def garbage_header_def)
  have fit: "secs_fit garbage_file (H32 garbage_header)"
    by (simp add: shdrs_fit32_def garbage_header_def sample_header_def sizeof_Elf32_Shdr_def
        garbage_file_def)
  have len: "length garbage_file = 40"
    by (simp add: garbage_file_def)
  have g: "sec_garbage garbage_file (strtab_info garbage_file (H32 garbage_header))"
    unfolding strtab_info_def k infos
    by (simp add: sec_garbage_def len is_symtab_def sec_defs32 sh_size.simps sh_entsize.simps
        SHT_SYMTAB_def)
  have n: "nat (elf_getStrTab (H32 garbage_header)) < length (sec_infos garbage_file (H32 garbage_header))"
    unfolding k infos by simp
  have e: "el_sects (new_elf_file (garbage_file, 0) (H32 garbage_header)) = []"
    by (simp add: new_elf_file_def)
  have "elf_inv sample_env fst garbage_file (H32 garbage_header)
      (new_elf_file (garbage_file, 0) (H32 garbage_header))"
    using new_elf_file_inv [of sample_env fst "(garbage_file, 0)"] by simp
  from names_never_return [OF sample_host.stream sample_host.array this e fit n g, of 1000 0]
  show ?thesis
    unfolding k .
qed

end
