(* ===== verification/Unix_Builder.thy ===== *)
theory Unix_Builder
  imports Gel_Image Elf_Spec
begin

text \<open>
  \<open>include/gel++/elf/UnixBuilder.h\<close> and \<open>src/elf_UnixBuilder.cpp\<close>: the image builder
  that imitates the dynamic loader of Unix. Units (the program and its libraries)
  are known by their index in the list of the units created so far; the only file
  that is ever opened is the program. \<open>sys::Path\<close> and \<open>elm::roundup\<close> belong to ELM:
  what the builder uses of them are the fields of \<open>unix_env\<close>. A warning sent to the
  error handler is recorded.
\<close>

section \<open>Parameters\<close>

record unix_parameter = parameter +
  up_page_size :: u64
  up_auxv :: "(u32 \<times> u32) list"
  up_lib_paths :: "u8 list list"
  up_sys_root :: "u8 list"
  up_is_linux :: bool
  up_no_default_path :: bool

definition unix_parameter_null :: unix_parameter where
  "unix_parameter_null = parameter.extend parameter_null
     \<lparr>up_page_size = 4 * 1024, up_auxv = [], up_lib_paths = [], up_sys_root = [],
      up_is_linux = True, up_no_default_path = False\<rparr>"

definition gen_abi :: "u8 list" where "gen_abi = str_bytes ''gen''"
definition unix_abi :: "u8 list" where "unix_abi = str_bytes ''unix''"

text \<open>The object that the constructor receives; neither class overrides \<open>abi\<close>.\<close>

datatype image_params = Gen parameter | Unix unix_parameter

fun params_abi :: "image_params \<Rightarrow> u8 list" where
  "params_abi (Gen p) = gen_abi"
| "params_abi (Unix p) = gen_abi"

fun params_base :: "image_params \<Rightarrow> parameter" where
  "params_base (Gen p) = p"
| "params_base (Unix p) = parameter.truncate p"

fun params_unix :: "image_params \<Rightarrow> unix_parameter option" where
  "params_unix (Gen p) = None"
| "params_unix (Unix p) = Some p"

section \<open>Units\<close>

record 'f link_unit =
  un_name :: "u8 list"
  un_file :: "'f option"
  un_base :: u32
  un_dyn :: "nat option"
  un_needed :: "nat option list"
  un_rpath :: "u8 list list"
  un_pltrelsz :: u32
  un_pltgot :: u32
  un_hash :: u32
  un_strtab :: u32
  un_symtab :: u32
  un_strsz :: u32
  un_syment :: u32
  un_init :: u32
  un_fini :: u32
  un_flags :: u32
  un_debug :: u32

definition UN_SYMBOLIC :: u32 where "UN_SYMBOLIC = 0x01"
definition UN_TEXTREL :: u32 where "UN_TEXTREL = 0x02"
definition UN_BIND_NOW :: u32 where "UN_BIND_NOW = 0x04"

definition Unit_new :: "u8 list \<Rightarrow> 'f option \<Rightarrow> 'f link_unit" where
  "Unit_new nm file =
     \<lparr>un_name = nm, un_file = file, un_base = 0, un_dyn = None, un_needed = [], un_rpath = [],
      un_pltrelsz = 0, un_pltgot = 0, un_hash = 0, un_strtab = 0, un_symtab = 0, un_strsz = 0,
      un_syment = 0, un_init = 0, un_fini = 0, un_flags = 0, un_debug = 0\<rparr>"

definition Unit_of_file :: "'f \<Rightarrow> 'f link_unit" where
  "Unit_of_file file = Unit_new [] (Some file)"

definition Unit_of_name :: "u8 list \<Rightarrow> 'f link_unit" where
  "Unit_of_name nm = Unit_new nm None"

section \<open>The builder\<close>

record unix_env =
  ue_join :: "u8 list \<Rightarrow> u8 list \<Rightarrow> u8 list"
  ue_parent :: "u8 list \<Rightarrow> u8 list"
  ue_absolute :: "u8 list \<Rightarrow> u8 list"
  ue_roundup :: "u64 \<Rightarrow> u64 \<Rightarrow> u64"

text \<open>The documented behaviour of \<open>elm::roundup\<close>: the next multiple.\<close>

definition roundup_spec :: "(u64 \<Rightarrow> u64 \<Rightarrow> u64) \<Rightarrow> bool" where
  "roundup_spec r \<longleftrightarrow>
     (\<forall>v b. b \<noteq> 0 \<longrightarrow> unat v + unat b \<le> 2 ^ 64 \<longrightarrow>
        unat (r v b) = (unat v + unat b - 1) div unat b * unat b)"

datatype warning =
    Unknown_Program_Header u32
  | Unknown_Dynamic_Entry u32
  | Cannot_Expand "u8 list"

record ('s, 'f) unix_builder =
  ub_file :: "'s elf_file"
  ub_prog :: 'f
  ub_params :: parameter
  ub_uparams :: unix_parameter
  ub_pool :: "'f link_unit list"
  ub_todo :: "nat list"
  ub_units :: "u8 list \<Rightarrow> nat option"
  ub_lpaths :: "u8 list list"
  ub_im :: "('f, nat) image option"
  ub_sp :: "u64 option"
  ub_sp_segment :: "('f, nat) image_segment option"
  ub_warnings :: "warning list"

definition on_file :: "('s elf_file, 'a) stm \<Rightarrow> (('s, 'f) unix_builder, 'a) stm" where
  "on_file g b = (case g (ub_file b) of (r, f) \<Rightarrow> (r, b\<lparr>ub_file := f\<rparr>))"

definition onError :: "warning \<Rightarrow> (('s, 'f) unix_builder, unit) stm" where
  "onError w = smodify (\<lambda>b. b\<lparr>ub_warnings := ub_warnings b @ [w]\<rparr>)"

definition upd_unit ::
  "nat \<Rightarrow> ('f link_unit \<Rightarrow> 'f link_unit) \<Rightarrow> (('s, 'f) unix_builder, unit) stm" where
  "upd_unit u g = smodify (\<lambda>b. b\<lparr>ub_pool := (ub_pool b)[u := g (ub_pool b ! u)]\<rparr>)"

definition add_segment :: "('f, nat) image_segment \<Rightarrow> (('s, 'f) unix_builder, unit) stm" where
  "add_segment s b =
     (case ub_im b of
        None \<Rightarrow> (Inl Memory_Fault, b)
      | Some im \<Rightarrow> (Inr (), b\<lparr>ub_im := Some (image_add s im)\<rparr>))"

section \<open>Construction\<close>

text \<open>The path list of an environment variable, cut at its colons.\<close>

fun split_paths :: "u8 list \<Rightarrow> u8 list list" where
  "split_paths [] = [[]]"
| "split_paths (c # cs) =
     (if c = of_char CHR '':'' then [] # split_paths cs
      else (case split_paths cs of [] \<Rightarrow> [[c]] | p # ps \<Rightarrow> (c # p) # ps))"

definition builder_paths :: "unix_parameter \<Rightarrow> u8 list list" where
  "builder_paths p =
     split_paths (getenv_from (pa_env p) (str_bytes ''LD_LIBARY_PATH'')) @ up_lib_paths p @
     (if up_no_default_path p then []
      else (if up_is_linux p then [str_bytes ''/lib''] else []) @ [str_bytes ''/usr/lib''])"

definition UnixBuilder_new ::
  "'f \<Rightarrow> 's elf_file option \<Rightarrow> image_params \<Rightarrow> ('s, 'f) unix_builder res" where
  "UnixBuilder_new prog toELF ps =
     rbind (if params_abi ps = unix_abi
            then (case params_unix ps of None \<Rightarrow> Inl Memory_Fault | Some p \<Rightarrow> Inr p)
            else Inr unix_parameter_null) (\<lambda>up.
     case toELF of
       None \<Rightarrow> Inl Assert_Failure
     | Some f \<Rightarrow>
         rbind (require (elf_type (el_head f) = program) Assert_Failure) (\<lambda>_.
           Inr \<lparr>ub_file = f, ub_prog = prog, ub_params = params_base ps, ub_uparams = up,
                ub_pool = [], ub_todo = [], ub_units = Map.empty,
                ub_lpaths = builder_paths up, ub_im = None, ub_sp = None, ub_sp_segment = None,
                ub_warnings = []\<rparr>))"

section \<open>Loading a unit\<close>

definition load_flags :: "phdr_info \<Rightarrow> u32" where
  "load_flags h =
     (if ph_flags h AND PF_X \<noteq> 0 then IS_EXECUTABLE else 0) OR
     (if ph_flags h AND PF_W \<noteq> 0 then IS_WRITABLE else 0) OR
     (if ph_flags h AND PF_R \<noteq> 0 then IS_READABLE else 0) OR
     (if ph_filesz h \<noteq> 0 then IS_CONTENT else 0)"

text \<open>One turn of the loop of \<open>Unit::load\<close>, on the program header of index \<open>i\<close>.\<close>

definition load_header ::
  "'s elf_env \<Rightarrow> nat \<Rightarrow> u32 \<Rightarrow> nat \<Rightarrow> u64 \<Rightarrow> (('s, 'f) unix_builder, u64) stm" where
  "load_header E u base i tp =
     sbind sget (\<lambda>b.
     let h = ph_info (el_phs (ub_file b) ! i); x = ub_pool b ! u in
     if ph_type h = PT_LOAD
     then sbind (on_file (ph_content E i)) (\<lambda>buf.
          sbind (add_segment
            (ImageSegment_buf (un_file x) buf (ucast base + ph_vaddr h) (load_flags h) [])) (\<lambda>_.
            sreturn (max tp (ucast (un_base x) + ph_vaddr h + ph_memsz h))))
     else if ph_type h = PT_DYNAMIC
     then sbind (upd_unit u (\<lambda>x. x\<lparr>un_dyn := Some i\<rparr>)) (\<lambda>_. sreturn tp)
     else if ph_type h \<in> {PT_INTERP, PT_NOTE, PT_SHLIB, PT_PHDR} then sreturn tp
     else sbind (onError (Unknown_Program_Header (ph_type h))) (\<lambda>_. sreturn tp))"

fun load_headers ::
  "'s elf_env \<Rightarrow> nat \<Rightarrow> u32 \<Rightarrow> nat list \<Rightarrow> u64 \<Rightarrow> (('s, 'f) unix_builder, u64) stm" where
  "load_headers E u base [] tp = sreturn tp"
| "load_headers E u base (i # is) tp =
     sbind (load_header E u base i tp) (\<lambda>tp'. load_headers E u base is tp')"

definition unit_load :: "'s elf_env \<Rightarrow> nat \<Rightarrow> u32 \<Rightarrow> (('s, 'f) unix_builder, u32) stm" where
  "unit_load E u base =
     sbind (upd_unit u (\<lambda>x. x\<lparr>un_base := base\<rparr>)) (\<lambda>_.
     sbind sget (\<lambda>b.
       if un_file (ub_pool b ! u) = None then sraise Memory_Fault
       else
         sbind (on_file (programHeaders E)) (\<lambda>phs.
         sbind (load_headers E u base [0..<length phs] (ucast base)) (\<lambda>tp.
           sreturn (ucast tp)))))"

section \<open>The stack\<close>

definition write_u32 :: "u32 \<Rightarrow> cursor \<Rightarrow> cursor res" where
  "write_u32 v c = rbind (cur_write_u32 c v) (\<lambda>(_, c'). Inr c')"

definition write_cstr :: "elm_array \<Rightarrow> u8 list \<Rightarrow> cursor \<Rightarrow> cursor res" where
  "write_cstr A s c = rbind (cur_write_cstr A c s) (\<lambda>(_, c'). Inr c')"

fun write_words :: "u32 list \<Rightarrow> cursor \<Rightarrow> cursor res" where
  "write_words [] c = Inr c"
| "write_words (v # vs) c = rbind (write_u32 v c) (write_words vs)"

fun write_pointers :: "u32 \<Rightarrow> u8 list list \<Rightarrow> cursor \<Rightarrow> cursor res" where
  "write_pointers p [] c = Inr c"
| "write_pointers p (s # ss) c =
     rbind (write_u32 p c) (write_pointers (p + word_of_nat (length s + 1)) ss)"

fun write_auxv :: "(u32 \<times> u32) list \<Rightarrow> cursor \<Rightarrow> cursor res" where
  "write_auxv [] c = Inr c"
| "write_auxv ((ty, v) # xs) c =
     rbind (write_u32 ty c) (\<lambda>c. rbind (write_u32 v c) (write_auxv xs))"

fun write_strings :: "elm_array \<Rightarrow> u8 list list \<Rightarrow> cursor \<Rightarrow> cursor res" where
  "write_strings A [] c = Inr c"
| "write_strings A (s # ss) c = rbind (write_cstr A s c) (write_strings A ss)"

text \<open>The offsets of the parts of the initial stack from the stack pointer, and its size.\<close>

record stack_layout =
  sk_arg_a :: u64
  sk_env_a :: u64
  sk_arg_s :: u64
  sk_env_s :: u64
  sk_isize :: u64

definition strings_size :: "u8 list list \<Rightarrow> u64" where
  "strings_size ss = word_of_nat (sum_list (map (\<lambda>s. length s + 1) ss))"

definition stack_sizes ::
  "(u64 \<Rightarrow> u64 \<Rightarrow> u64) \<Rightarrow> u8 list list \<Rightarrow> u8 list list \<Rightarrow> nat \<Rightarrow> stack_layout" where
  "stack_sizes roundup args envs auxc =
     (let arg_a = 3 * 4;
          env_a = arg_a + word_of_nat (length args + 1) * 4;
          arg_s = env_a + word_of_nat (length envs + 1) * 4 + word_of_nat (auxc * 2 + 1) * 4;
          env_s = arg_s + strings_size args
      in \<lparr>sk_arg_a = arg_a, sk_env_a = env_a, sk_arg_s = arg_s, sk_env_s = env_s,
          sk_isize = roundup (env_s + strings_size envs) 4\<rparr>)"

definition write_stack ::
  "elm_array \<Rightarrow> stack_layout \<Rightarrow> u64 \<Rightarrow> u8 list list \<Rightarrow> u8 list list \<Rightarrow> (u32 \<times> u32) list \<Rightarrow>
   cursor \<Rightarrow> cursor res" where
  "write_stack A k sp args envs auxv c =
     rbind (write_u32 (word_of_nat (length args)) c) (\<lambda>c.
     rbind (write_u32 (ucast (sp + sk_arg_a k)) c) (\<lambda>c.
     rbind (write_u32 (ucast (sp + sk_env_a k)) c) (\<lambda>c.
     rbind (write_pointers (ucast (sp + sk_arg_s k)) args c) (\<lambda>c.
     rbind (write_u32 0 c) (\<lambda>c.
     rbind (write_pointers (ucast (sp + sk_env_s k)) envs c) (\<lambda>c.
     rbind (write_u32 0 c) (\<lambda>c.
     rbind (write_auxv auxv c) (\<lambda>c.
     rbind (write_u32 0 c) (\<lambda>c.
     rbind (write_strings A args c) (\<lambda>c.
       write_strings A envs c))))))))))"

text \<open>
  The segment is added to the image before its block is filled; nothing reads it in
  between, so it is added here with its final content.
\<close>

definition buildStack ::
  "'s elf_env \<Rightarrow> (u64 \<Rightarrow> u64 \<Rightarrow> u64) \<Rightarrow>
   (('s, 'f) unix_builder, ('f, nat) image_segment option) stm" where
  "buildStack E roundup b =
     (let ps = ub_params b; up = ub_uparams b;
          k = stack_sizes roundup (pa_arg ps) (pa_env ps) (length (up_auxv up));
          size = pa_stack_size ps; isize = sk_isize k;
          addr = (if pa_stack_at ps then pa_stack_addr ps else 0x80000000) - size;
          sp = addr + size - isize
      in
      if \<not> pa_stack_alloc up then (Inr None, b)
      else if size < isize then (Inl (Throw Stack_Too_Small), b)
      else
        let b = (if pa_sp ps then b\<lparr>ub_sp := Some sp\<rparr> else b) in
        sbind (slift (alloc (env_junk E) (unat size))) (\<lambda>m.
        let buf = make_buffer (file_decoder (ub_file b)) (Some m) size in
        sbind (slift (write_stack (env_array E) k sp (pa_arg ps) (pa_env ps) (up_auxv up)
                 (snd (cur_skip (make_cursor buf) (size - isize))))) (\<lambda>c.
        let seg = ImageSegment_buf None (cur_buf c) addr (IS_WRITABLE OR IS_TO_FREE)
                    (str_bytes ''stack'') in
        sbind (smodify (\<lambda>b. if pa_sp_segment ps then b\<lparr>ub_sp_segment := Some seg\<rparr> else b)) (\<lambda>_.
        sbind (add_segment seg) (\<lambda>_. sreturn (Some seg))))) b)"

section \<open>Building the image\<close>

text \<open>The loop over the units to process; \<open>k\<close> bounds the number of its turns.\<close>

fun load_units ::
  "'s elf_env \<Rightarrow> (u64 \<Rightarrow> u64 \<Rightarrow> u64) \<Rightarrow> nat \<Rightarrow> nat \<Rightarrow> u64 \<Rightarrow> (('s, 'f) unix_builder, unit) stm" where
  "load_units E roundup 0 i base = sraise No_Return"
| "load_units E roundup (Suc k) i base =
     sbind sget (\<lambda>b.
       if \<not> i < length (ub_todo b) then sreturn ()
       else
         sbind (unit_load E (ub_todo b ! i) (ucast base)) (\<lambda>tp.
         sbind sget (\<lambda>b.
           load_units E roundup k (Suc i) (roundup (ucast tp) (up_page_size (ub_uparams b))))))"

definition UnixBuilder_build ::
  "'s elf_env \<Rightarrow> (u64 \<Rightarrow> u64 \<Rightarrow> u64) \<Rightarrow> nat \<Rightarrow> (('s, 'f) unix_builder, ('f, nat) image option) stm" where
  "UnixBuilder_build E roundup k =
     sbind (smodify (\<lambda>b. b\<lparr>ub_im := Some (image_new (ub_prog b)),
                            ub_todo := ub_todo b @ [length (ub_pool b)],
                            ub_pool := ub_pool b @ [Unit_of_file (ub_prog b)]\<rparr>)) (\<lambda>_.
     sbind (load_units E roundup k 0 0) (\<lambda>_.
     sbind (buildStack E roundup) (\<lambda>_.
     sbind sget (\<lambda>b. sreturn (ub_im b)))))"

section \<open>Libraries\<close>

definition starts_with :: "u8 list \<Rightarrow> string \<Rightarrow> bool" where
  "starts_with s p \<longleftrightarrow> take (length p) s = str_bytes p"

definition origin :: "unix_env \<Rightarrow> 'f link_unit \<Rightarrow> u8 list" where
  "origin X x = ue_parent X (un_name x)"

definition expand :: "unix_env \<Rightarrow> u8 list \<Rightarrow> nat \<Rightarrow> (('s, 'f) unix_builder, u8 list) stm" where
  "expand X s u =
     sbind sget (\<lambda>b.
     let o' = origin X (ub_pool b ! u); lib = str_bytes ''lib'';
         warn = sbind (onError (Cannot_Expand s)) (\<lambda>_. sreturn s)
     in
     if \<not> up_is_linux (ub_uparams b) then sreturn s
     else if \<not> starts_with s ''$'' then sreturn s
     else if \<not> starts_with s ''${'' then
       (if starts_with s ''$ORIGIN'' then sreturn (ue_join X o' (drop 7 s))
        else if starts_with s ''$LIB'' then sreturn (ue_join X lib (drop 4 s))
        else warn)
     else
       (if starts_with s ''${ORIGIN}'' then sreturn (ue_join X o' (drop 9 s))
        else if starts_with s ''${LIB}'' then sreturn (ue_join X lib (drop 6 s))
        else warn))"

definition unit_get :: "unix_env \<Rightarrow> u8 list \<Rightarrow> (('s, 'f) unix_builder, nat option) stm" where
  "unit_get X p b =
     (let q = ue_absolute X p in
      case ub_units b q of
        Some u \<Rightarrow> (Inr (Some u), b)
      | None \<Rightarrow>
          let u = length (ub_pool b) in
          (Inr (Some u), b\<lparr>ub_pool := ub_pool b @ [Unit_of_name q], ub_todo := ub_todo b @ [u],
                           ub_units := (ub_units b)(q \<mapsto> u)\<rparr>))"

fun resolve_in ::
  "unix_env \<Rightarrow> u8 list \<Rightarrow> u8 list list \<Rightarrow> (('s, 'f) unix_builder, nat option) stm" where
  "resolve_in X nm [] = sreturn None"
| "resolve_in X nm (p # ps) =
     sbind (unit_get X (ue_join X p nm)) (\<lambda>r.
       case r of Some u \<Rightarrow> sreturn (Some u) | None \<Rightarrow> resolve_in X nm ps)"

definition unix_resolve ::
  "unix_env \<Rightarrow> u8 list \<Rightarrow> nat \<Rightarrow> (('s, 'f) unix_builder, nat option) stm" where
  "unix_resolve X nm u =
     sbind (if of_char CHR ''/'' \<in> set nm then unit_get X nm else sreturn None) (\<lambda>r.
       case r of
         Some v \<Rightarrow> sreturn (Some v)
       | None \<Rightarrow>
           sbind sget (\<lambda>b.
           sbind (resolve_in X nm (un_rpath (ub_pool b ! u))) (\<lambda>r.
             case r of
               Some v \<Rightarrow> sreturn (Some v)
             | None \<Rightarrow> sbind sget (\<lambda>b. resolve_in X nm (ub_lpaths b)))))"

text \<open>
  \<open>isFile\<close> and \<open>openELF\<close> stand for \<open>sys::Path::isFile\<close> and \<open>Manager::openELF\<close>; an
  exception of the latter gives a null pointer.
\<close>

definition UnixBuilder_retrieve ::
  "unix_env \<Rightarrow> (u8 list \<Rightarrow> bool) \<Rightarrow> (u8 list \<Rightarrow> 'g res) \<Rightarrow> ('s, 'f) unix_builder \<Rightarrow> u8 list \<Rightarrow>
   'g option res" where
  "UnixBuilder_retrieve X isFile openELF b nm =
     (let root = up_sys_root (ub_uparams b);
          p = (if root \<noteq> [] then ue_join X root nm else nm)
      in
      if \<not> isFile p then Inr None
      else case openELF p of
             Inr g \<Rightarrow> Inr (Some g)
           | Inl (Throw e) \<Rightarrow> Inr None
           | Inl e \<Rightarrow> Inl e)"

definition UnixBuilder_open :: "u8 list \<Rightarrow> 'f option" where
  "UnixBuilder_open p = None"

definition UnixBuilder_link :: "'f \<Rightarrow> u64 \<Rightarrow> (('s, 'f) unix_builder, unit) stm" where
  "UnixBuilder_link prog base = sreturn ()"

section \<open>Linking a unit\<close>

text \<open>
  The dynamic entries are read in the content of the \<open>PT_DYNAMIC\<close> header, a block
  that the file keeps and that the conversions change in place. Entries have the
  size of \<open>Elf32_Dyn\<close>, and the tag that is tested is the one that is not converted.
\<close>

definition dyn_entry :: "nat \<Rightarrow> u64 \<Rightarrow> (('s, 'f) unix_builder, u32 \<times> u32) stm" where
  "dyn_entry i off b =
     (case ph_cache (el_phs (ub_file b) ! i) of
        None \<Rightarrow> (Inl Memory_Fault, b)
      | Some m \<Rightarrow>
          if in_block m (unat off) 8
          then (Inr (load32 m (unat off), load32 m (unat off + 4)), b) else (Inl Memory_Fault, b))"

definition fix_dyn_val :: "nat \<Rightarrow> u64 \<Rightarrow> u32 \<Rightarrow> (('s, 'f) unix_builder, u32) stm" where
  "fix_dyn_val i off v b =
     (let f = ub_file b; p = el_phs f ! i; v' = fix_u32 (file_decoder f) v in
      case ph_cache p of
        None \<Rightarrow> (Inl Memory_Fault, b)
      | Some m \<Rightarrow>
          (Inr v', b\<lparr>ub_file := f\<lparr>el_phs := (el_phs f)[i :=
             p\<lparr>ph_cache := Some (store_at m (unat off + 4) (to_le 4 v'))\<rparr>]\<rparr>\<rparr>))"

definition link_fields :: "(u32 \<times> (u32 \<Rightarrow> 'f link_unit \<Rightarrow> 'f link_unit)) list" where
  "link_fields =
    [(DT_PLTRELSZ, \<lambda>v x. x\<lparr>un_pltrelsz := v\<rparr>), (DT_PLTGOT, \<lambda>v x. x\<lparr>un_pltgot := v\<rparr>),
     (DT_HASH, \<lambda>v x. x\<lparr>un_hash := v\<rparr>), (DT_STRTAB, \<lambda>v x. x\<lparr>un_strtab := v\<rparr>),
     (DT_SYMTAB, \<lambda>v x. x\<lparr>un_symtab := v\<rparr>), (DT_STRSZ, \<lambda>v x. x\<lparr>un_strsz := v\<rparr>),
     (DT_SYMENT, \<lambda>v x. x\<lparr>un_syment := v\<rparr>), (DT_INIT, \<lambda>v x. x\<lparr>un_init := v\<rparr>),
     (DT_FINI, \<lambda>v x. x\<lparr>un_fini := v\<rparr>), (DT_DEBUG, \<lambda>v x. x\<lparr>un_debug := v\<rparr>)]"

definition link_flags :: "(u32 \<times> u32) list" where
  "link_flags =
    [(DT_SYMBOLIC, UN_SYMBOLIC), (DT_TEXTREL, UN_TEXTREL), (DT_BIND_NOW, UN_BIND_NOW)]"

definition link_ignored :: "u32 list" where
  "link_ignored =
    [DT_NEEDED, DT_RELA, DT_RELASZ, DT_RELAENT, DT_SONAME, DT_RPATH, DT_REL, DT_RELSZ,
     DT_RELENT, DT_PLTREL, DT_JMPREL]"

text \<open>The body of the first loop; the result tells whether the cursor is moved to the end.\<close>

definition link_scan_entry ::
  "nat \<Rightarrow> nat \<Rightarrow> u64 \<Rightarrow> (('s, 'f) unix_builder, bool) stm" where
  "link_scan_entry u i off =
     sbind (dyn_entry i off) (\<lambda>(tag, v).
       if tag = DT_NULL then sreturn True
       else
         sbind (case map_of link_fields tag of
                  Some g \<Rightarrow> sbind (fix_dyn_val i off v) (\<lambda>v'. upd_unit u (g v'))
                | None \<Rightarrow>
                    (case map_of link_flags tag of
                       Some m \<Rightarrow> upd_unit u (\<lambda>x. x\<lparr>un_flags := un_flags x OR m\<rparr>)
                     | None \<Rightarrow>
                         if tag \<in> set link_ignored then sreturn ()
                         else onError (Unknown_Dynamic_Entry tag))) (\<lambda>_.
           sreturn False))"

text \<open>Both loops, with the body as an argument; \<open>k\<close> bounds the number of turns.\<close>

fun link_loop ::
  "(u64 \<Rightarrow> (('s, 'f) unix_builder, bool) stm) \<Rightarrow> nat \<Rightarrow> cursor \<Rightarrow> (('s, 'f) unix_builder, unit) stm" where
  "link_loop body 0 c = (if cur_avail c 8 then sraise No_Return else sreturn ())"
| "link_loop body (Suc k) c =
     (if cur_avail c 8 then
        sbind (slift (cur_here c)) (\<lambda>off.
        sbind (body off) (\<lambda>fin.
          link_loop body k (snd (cur_skip (if fin then cur_finish c else c) 8))))
      else sreturn ())"

definition link_turns :: "buffer \<Rightarrow> nat" where
  "link_turns b = unat (buf_size b) div 8 + 1"

definition unit_getString :: "'f link_unit \<Rightarrow> ('f, 'g) image_segment \<Rightarrow> u32 \<Rightarrow> u8 list res" where
  "unit_getString x s off =
     (if un_strsz x \<le> off then Inl (Throw Bad_String_Offset)
      else get_cstr (is_buf s) (ucast off - is_base s))"

fun add_rpaths :: "unix_env \<Rightarrow> nat \<Rightarrow> u8 list list \<Rightarrow> (('s, 'f) unix_builder, unit) stm" where
  "add_rpaths X u [] = sreturn ()"
| "add_rpaths X u (p # ps) =
     sbind (expand X p u) (\<lambda>q.
     sbind (upd_unit u (\<lambda>x. x\<lparr>un_rpath := un_rpath x @ [q]\<rparr>)) (\<lambda>_. add_rpaths X u ps))"

definition link_needed_entry ::
  "unix_env \<Rightarrow> nat \<Rightarrow> nat \<Rightarrow> ('f, nat) image_segment \<Rightarrow> u64 \<Rightarrow> (('s, 'f) unix_builder, bool) stm" where
  "link_needed_entry X u i str off =
     sbind (dyn_entry i off) (\<lambda>(tag, v).
     sbind sget (\<lambda>b.
     let s = unit_getString (ub_pool b ! u) str (fix_u32 (file_decoder (ub_file b)) v) in
     if tag = DT_NULL then sreturn True
     else if tag = DT_RPATH
     then sbind (slift s) (\<lambda>path. sbind (add_rpaths X u (split_paths path)) (\<lambda>_. sreturn False))
     else if tag = DT_NEEDED
     then sbind (slift s) (\<lambda>nm.
          sbind (unix_resolve X nm u) (\<lambda>r.
          sbind (upd_unit u (\<lambda>x. x\<lparr>un_needed := un_needed x @ [r]\<rparr>)) (\<lambda>_. sreturn False)))
     else sreturn False))"

definition unit_link ::
  "'s elf_env \<Rightarrow> unix_env \<Rightarrow> nat \<Rightarrow> (('s, 'f) unix_builder, unit) stm" where
  "unit_link E X u =
     sbind sget (\<lambda>b.
       case un_dyn (ub_pool b ! u) of
         None \<Rightarrow> sreturn ()
       | Some i \<Rightarrow>
           sbind (on_file (ph_content E i)) (\<lambda>buf.
           sbind (link_loop (link_scan_entry u i) (link_turns buf) (make_cursor buf)) (\<lambda>_.
           sbind sget (\<lambda>b.
             case ub_im b of
               None \<Rightarrow> sraise Memory_Fault
             | Some im \<Rightarrow>
                 (case image_at im (ucast (un_strtab (ub_pool b ! u))) of
                    None \<Rightarrow> sraise (Throw Strtab_Not_Loaded)
                  | Some str \<Rightarrow>
                      sbind (on_file (ph_content E i)) (\<lambda>buf.
                        link_loop (link_needed_entry X u i str) (link_turns buf)
                          (make_cursor buf)))))))"

end
