(* ===== verification/Unix_Stack.thy ===== *)
theory Unix_Stack
  imports Unix_Builder
begin

text \<open>
  The content of the initial stack: what the writes of \<open>buildStack\<close> leave in the
  block, and its size.
\<close>

section \<open>Sequences of writes\<close>

lemma cur_after_trans:
  "cur_after c c1 b1 r1 \<Longrightarrow> cur_after c1 c2 b2 r2 \<Longrightarrow> cur_after c c2 (b1 @ b2) r2"
  by (simp add: cur_after_def)

lemma cur_after_self: "cursor_wf c \<Longrightarrow> cur_after c c [] (cur_rest c)"
  by (simp add: cur_after_def)

fun pointers :: "u32 \<Rightarrow> u8 list list \<Rightarrow> u32 list" where
  "pointers p [] = []"
| "pointers p (s # ss) = p # pointers (p + word_of_nat (length s + 1)) ss"

lemma length_pointers [simp]: "length (pointers p ss) = length ss"
  by (induction p ss rule: pointers.induct) simp_all

text \<open>The words as the code computes them, from its sizes.\<close>

definition layout_words ::
  "stack_layout \<Rightarrow> u64 \<Rightarrow> u8 list list \<Rightarrow> u8 list list \<Rightarrow> (u32 \<times> u32) list \<Rightarrow> u32 list" where
  "layout_words k sp args envs auxv =
     [word_of_nat (length args), ucast (sp + sk_arg_a k), ucast (sp + sk_env_a k)] @
     pointers (ucast (sp + sk_arg_s k)) args @ [0] @
     pointers (ucast (sp + sk_env_s k)) envs @ [0] @
     concat (map (\<lambda>(ty, v). [ty, v]) auxv) @ [0]"

lemma write_words_append: "write_words (xs @ ys) c = rbind (write_words xs c) (write_words ys)"
  by (induction xs arbitrary: c) (simp_all add: rbind_assoc cong: rbind_cong)

lemma write_pointers_eq: "write_pointers p ss c = write_words (pointers p ss) c"
  by (induction p ss arbitrary: c rule: pointers.induct) (simp_all cong: rbind_cong)

lemma write_auxv_eq:
  "write_auxv xs c = write_words (concat (map (\<lambda>(ty, v). [ty, v]) xs)) c"
  by (induction xs arbitrary: c) (auto cong: rbind_cong)

lemma write_strings_append:
  "write_strings A (xs @ ys) c = rbind (write_strings A xs c) (write_strings A ys)"
  by (induction xs arbitrary: c) (simp_all add: rbind_assoc cong: rbind_cong)

lemma rbind_unit: "rbind r Inr = r"
  by (cases r) simp_all

lemma write_stack_eq:
  "write_stack A k sp args envs auxv c =
     rbind (write_words (layout_words k sp args envs auxv) c) (write_strings A (args @ envs))"
  by (simp add: write_stack_def layout_words_def write_words_append write_pointers_eq write_auxv_eq
      write_strings_append rbind_assoc rbind_unit fun_eq_iff cong: rbind_cong)

definition word_bytes :: "u32 list \<Rightarrow> mem" where
  "word_bytes ws = concat (map (to_le 4) ws)"

lemma length_word_bytes [simp]: "length (word_bytes ws) = 4 * length ws"
  by (induction ws) (simp_all add: word_bytes_def)

lemma write_words_ok:
  "cursor_wf c \<Longrightarrow> 4 * length ws \<le> length (cur_rest c) \<Longrightarrow>
   \<exists>c'. write_words ws c = Inr c' \<and> cur_after c c' (word_bytes ws) (drop (4 * length ws) (cur_rest c))"
proof (induction ws arbitrary: c)
  case Nil
  then show ?case
    by (simp add: cur_after_self word_bytes_def)
next
  case (Cons w ws)
  obtain c1 where c1: "cur_write_u32 c w = Inr (True, c1)"
      "cur_after c c1 (to_le 4 w) (drop 4 (cur_rest c))"
    using cur_write_u32_eq [of c w] Cons.prems by auto
  then have r1: "cursor_wf c1" "cur_rest c1 = drop 4 (cur_rest c)"
    by (simp_all add: cur_after_def)
  have le: "4 * length ws \<le> length (cur_rest c1)"
    using Cons.prems(2) by (simp add: r1(2))
  obtain c2 where c2: "write_words ws c1 = Inr c2"
      "cur_after c1 c2 (word_bytes ws) (drop (4 * length ws) (drop 4 (cur_rest c)))"
    using Cons.IH [OF r1(1) le] unfolding r1(2) by blast
  have "cur_after c c2 (word_bytes (w # ws)) (drop (4 * length (w # ws)) (cur_rest c))"
    using cur_after_trans [OF c1(2) c2(2)] by (simp add: word_bytes_def add.commute)
  then show ?case
    using c1(1) c2(1) by (simp add: write_u32_def)
qed

text \<open>The null byte of a string is overwritten by the string that follows.\<close>

definition after_strings :: "u8 list list \<Rightarrow> mem \<Rightarrow> mem" where
  "after_strings ss rest = (if ss = [] then rest else 0 # drop (length (concat ss) + 1) rest)"

lemma write_strings_ok:
  assumes A: "elm_array_spec A"
  shows "cursor_wf c \<Longrightarrow> sum_list (map (\<lambda>s. length s + 1) ss) \<le> length (cur_rest c) \<Longrightarrow>
    \<exists>c'. write_strings A ss c = Inr c' \<and>
      cur_after c c' (concat ss) (after_strings ss (cur_rest c))"
proof (induction ss arbitrary: c)
  case Nil
  then show ?case
    by (simp add: cur_after_self after_strings_def)
next
  case (Cons s ss)
  have fit: "length s + 1 \<le> length (cur_rest c)"
    using Cons.prems(2) by simp
  obtain c1 where c1: "cur_write_cstr A c s = Inr (True, c1)"
      "cur_after c c1 s (0 # drop (length s + 1) (cur_rest c))"
    using cur_write_cstr_eq [OF A Cons.prems(1) fit] by auto
  then have r1: "cursor_wf c1" "cur_rest c1 = 0 # drop (length s + 1) (cur_rest c)"
    by (simp_all add: cur_after_def)
  have le: "sum_list (map (\<lambda>s. length s + 1) ss) \<le> length (cur_rest c1)"
    using Cons.prems(2) by (simp add: r1(2))
  obtain c2 where c2: "write_strings A ss c1 = Inr c2"
      "cur_after c1 c2 (concat ss) (after_strings ss (cur_rest c1))"
    using Cons.IH [OF r1(1) le] by blast
  have "after_strings ss (cur_rest c1) = after_strings (s # ss) (cur_rest c)"
    by (simp add: r1(2) after_strings_def add.commute)
  then show ?case
    using c1(1) c2(1) cur_after_trans [OF c1(2) c2(2)] by (simp add: write_cstr_def)
qed

section \<open>The initial stack\<close>

text \<open>The number of bytes that the stack needs, and that number rounded to words.\<close>

definition stack_need :: "u8 list list \<Rightarrow> u8 list list \<Rightarrow> nat \<Rightarrow> nat" where
  "stack_need args envs auxc =
     4 * (length args + length envs + 2 * auxc + 6) +
     sum_list (map (\<lambda>s. length s + 1) (args @ envs))"

definition stack_isize :: "u8 list list \<Rightarrow> u8 list list \<Rightarrow> nat \<Rightarrow> nat" where
  "stack_isize args envs auxc = (stack_need args envs auxc + 3) div 4 * 4"

lemma stack_isize_bounds:
  "stack_need args envs auxc \<le> stack_isize args envs auxc"
  "stack_isize args envs auxc \<le> stack_need args envs auxc + 3"
  by (simp_all add: stack_isize_def)

lemma sk_isize_eq:
  assumes "roundup_spec r" and "stack_need args envs auxc + 4 \<le> 2 ^ 64"
  shows "unat (sk_isize (stack_sizes r args envs auxc)) = stack_isize args envs auxc"
proof -
  have n: "sk_isize (stack_sizes r args envs auxc) = r (word_of_nat (stack_need args envs auxc)) 4"
    by (simp add: stack_sizes_def stack_need_def strings_size_def Let_def algebra_simps)
  have u: "unat (word_of_nat (stack_need args envs auxc) :: u64) = stack_need args envs auxc"
    by (rule unat_of_nat_64) (use assms(2) in simp)
  have "unat (r (word_of_nat (stack_need args envs auxc)) 4) =
      (unat (word_of_nat (stack_need args envs auxc) :: u64) + unat (4 :: u64) - 1) div
        unat (4 :: u64) * unat (4 :: u64)"
    using assms u unfolding roundup_spec_def by simp
  then show ?thesis
    unfolding n u by (simp add: stack_isize_def)
qed

text \<open>
  The layout of the stack, in bytes from the stack pointer: \<open>argc\<close> at 0, the pointer \<open>argv\<close>
  at 4 and the pointer \<open>envp\<close> at 8; at 12 the array of the arguments, which ends with a
  null pointer; then the array of the environment, which ends with a null pointer; then the
  auxiliary vector and a null word; then the strings of the arguments and those of the
  environment, one after the other.
\<close>

definition string_pos :: "u8 list list \<Rightarrow> nat \<Rightarrow> nat" where
  "string_pos ss i = sum_list (map (\<lambda>s. length s + 1) (take i ss))"

definition stack_words ::
  "u64 \<Rightarrow> u8 list list \<Rightarrow> u8 list list \<Rightarrow> (u32 \<times> u32) list \<Rightarrow> u32 list" where
  "stack_words sp args envs auxv =
     (let argc = length args; envc = length envs;
          strs = 4 * (3 + (argc + 1) + (envc + 1) + (2 * length auxv + 1));
          at = (\<lambda>off. word_of_nat (unat sp + off));
          string = (\<lambda>i. at (strs + string_pos (args @ envs) i))
      in [word_of_nat argc, at 12, at (12 + 4 * (argc + 1))] @
         map string [0..<argc] @ [0] @ map string [argc..<argc + envc] @ [0] @
         concat (map (\<lambda>(ty, v). [ty, v]) auxv) @ [0])"

lemma nth_pointers:
  "i < length ss \<Longrightarrow> pointers p ss ! i = p + word_of_nat (string_pos ss i)"
proof (induction p ss arbitrary: i rule: pointers.induct)
  case (2 p s ss)
  then show ?case
    by (cases i) (simp_all add: string_pos_def algebra_simps)
qed simp

lemma pointers_map:
  "pointers p ss = map (\<lambda>i. p + word_of_nat (string_pos ss i)) [0..<length ss]"
  by (rule nth_equalityI) (simp_all add: nth_pointers)

lemma string_pos_append:
  "i \<le> length xs \<Longrightarrow> string_pos (xs @ ys) i = string_pos xs i"
  "string_pos (xs @ ys) (length xs + i) = sum_list (map (\<lambda>s. length s + 1) xs) + string_pos ys i"
  by (simp_all add: string_pos_def)

lemma ucast_sp: "ucast (sp + word_of_nat n :: u64) = (word_of_nat (unat sp + n) :: u32)"
proof -
  have "sp + word_of_nat n = (word_of_nat (unat sp + n) :: u64)"
    by simp
  then show ?thesis
    by (simp only: ucast_down) (simp add: ucast_down del: of_nat_add)
qed

text \<open>The sizes that the code computes lay the words out there.\<close>

lemma layout_words_eq:
  "layout_words (stack_sizes r args envs (length auxv)) sp args envs auxv = stack_words sp args envs auxv"
proof -
  let ?k = "stack_sizes r args envs (length auxv)"
  let ?strs = "4 * (3 + (length args + 1) + (length envs + 1) + (2 * length auxv + 1))"
  have k: "sk_arg_a ?k = word_of_nat 12" "sk_env_a ?k = word_of_nat (12 + 4 * (length args + 1))"
    "sk_arg_s ?k = word_of_nat ?strs"
    "sk_env_s ?k = word_of_nat (?strs + sum_list (map (\<lambda>s. length s + 1) args))"
    by (simp_all add: stack_sizes_def strings_size_def Let_def algebra_simps)
  have a: "pointers (ucast (sp + sk_arg_s ?k)) args =
      map (\<lambda>i. word_of_nat (unat sp + (?strs + string_pos (args @ envs) i))) [0..<length args]"
    unfolding k ucast_sp pointers_map by (simp add: string_pos_append(1) add.assoc)
  have e: "pointers (ucast (sp + sk_env_s ?k)) envs =
      map (\<lambda>i. word_of_nat (unat sp + (?strs + string_pos (args @ envs) i)))
        [length args..<length args + length envs]"
    unfolding k ucast_sp pointers_map
    by (rule nth_equalityI) (simp_all add: string_pos_append(2) add.assoc)
  show ?thesis
    unfolding layout_words_def stack_words_def Let_def a e k(1,2) ucast_sp ..
qed

text \<open>The block of the stack: the part below the stack pointer is not initialised.\<close>

definition stack_block :: "(nat \<Rightarrow> u8) \<Rightarrow> nat \<Rightarrow> nat \<Rightarrow> u32 list \<Rightarrow> u8 list list \<Rightarrow> mem" where
  "stack_block junk n lo ws ss =
     take lo (new_block junk n) @ word_bytes ws @ concat ss @
     after_strings ss (drop (lo + 4 * length ws) (new_block junk n))"

definition stack_address :: "parameter \<Rightarrow> u64" where
  "stack_address ps =
     (if pa_stack_at ps then pa_stack_addr ps else 0x80000000) - pa_stack_size ps"

definition stack_pointer :: "parameter \<Rightarrow> nat \<Rightarrow> u64" where
  "stack_pointer ps auxc =
     stack_address ps + pa_stack_size ps -
     word_of_nat (stack_isize (pa_arg ps) (pa_env ps) auxc)"

definition stack_segment ::
  "'s elf_env \<Rightarrow> decoder \<Rightarrow> parameter \<Rightarrow> (u32 \<times> u32) list \<Rightarrow>
   ('f, nat) image_segment" where
  "stack_segment E d ps auxv =
     (let args = pa_arg ps; envs = pa_env ps; n = unat (pa_stack_size ps) in
      \<lparr>is_name = str_bytes ''stack'', is_file = None, is_seg = None, is_base = stack_address ps,
       is_buf = make_buffer d (Some (stack_block (env_junk E) n
         (n - stack_isize args envs (length auxv))
         (stack_words (stack_pointer ps (length auxv)) args envs auxv) (args @ envs)))
         (pa_stack_size ps),
       is_flags = IS_WRITABLE OR IS_TO_FREE\<rparr>)"

lemma length_stack_words:
  "length (stack_words sp args envs auxv) = length args + length envs + 2 * length auxv + 6"
  by (simp add: stack_words_def Let_def length_concat comp_def case_prod_unfold sum_list_triv)

lemma length_layout_words:
  "length (layout_words k sp args envs auxv) = length args + length envs + 2 * length auxv + 6"
  by (simp add: layout_words_def length_concat comp_def case_prod_unfold sum_list_triv)

lemma cur_after_buf:
  assumes "cur_after c c' bs rest" and "cursor_wf c"
  shows "cur_buf c' = make_buffer (cur_dec c) (Some (cur_done c @ bs @ rest)) (cur_size c)"
proof -
  have c': "cursor_wf c'" "cur_dec c' = cur_dec c" "cur_size c' = cur_size c"
      "cur_mem c' = cur_done c @ bs @ rest"
    using assms(1) cur_done_rest [of c'] by (auto simp: cur_after_def)
  then have "buf_bytes (cur_buf c') = Some (cur_done c @ bs @ rest)"
      "buf_dec (cur_buf c') = Some (cur_dec c)" "buf_size (cur_buf c') = cur_size c"
    by (auto elim: cursor_wfE simp: cur_size_def)
  then show ?thesis
    by (simp add: make_buffer_def)
qed

lemma write_stack_ok:
  assumes A: "elm_array_spec A" and lo: "lo + stack_need args envs (length auxv) \<le> n"
    and n: "n < 2 ^ 63"
  shows "\<exists>c. write_stack A k sp args envs auxv
      (snd (cur_skip (make_cursor (make_buffer d (Some (new_block junk n)) (word_of_nat n)))
         (word_of_nat lo))) = Inr c \<and>
    cur_buf c = make_buffer d (Some (stack_block junk n lo (layout_words k sp args envs auxv)
      (args @ envs))) (word_of_nat n)"
proof -
  let ?b = "make_buffer d (Some (new_block junk n)) (word_of_nat n)"
    and ?ws = "layout_words k sp args envs auxv" and ?ss = "args @ envs"
  have wf: "cursor_wf (make_cursor ?b)"
    using make_buffer_wf [of "new_block junk n" d] n by (intro make_cursor_wf) simp
  have rest: "cur_rest (make_cursor ?b) = new_block junk n"
    by (simp add: make_buffer_def)
  define c where "c = cur_adv (make_cursor ?b) lo"
  have le: "lo \<le> length (cur_rest (make_cursor ?b))"
    using lo unfolding rest by simp
  have skip: "snd (cur_skip (make_cursor ?b) (word_of_nat lo)) = c"
    using cur_skip_eq [OF wf, of lo] le lo n by (simp add: c_def)
  have c: "cursor_wf c" "cur_rest c = drop lo (new_block junk n)" "cur_dec c = d"
      "cur_size c = word_of_nat n"
    using cursor_wf_adv [OF wf le] unfolding rest by (simp_all add: c_def make_buffer_def)
  have passed: "cur_done c = take lo (new_block junk n)"
  proof -
    have "unat (cur_off c) = lo"
      using unat_cur_off_add [OF wf, of lo] lo n
      by (simp add: c_def cur_adv_def make_cursor_def)
    moreover have "cur_mem c = new_block junk n"
      by (simp add: c_def cur_mem_def make_buffer_def)
    ultimately show ?thesis
      by (simp add: cur_done_def)
  qed
  have fit: "4 * length ?ws + sum_list (map (\<lambda>s. length s + 1) ?ss) \<le> length (cur_rest c)"
    using lo by (simp add: c(2) length_layout_words stack_need_def)
  obtain c1 where c1: "write_words ?ws c = Inr c1"
      "cur_after c c1 (word_bytes ?ws) (drop (4 * length ?ws) (cur_rest c))"
    using write_words_ok [OF c(1), of ?ws] fit by auto
  then have r1: "cursor_wf c1" "cur_rest c1 = drop (4 * length ?ws) (cur_rest c)"
    by (simp_all add: cur_after_def)
  have "sum_list (map (\<lambda>s. length s + 1) ?ss) \<le> length (cur_rest c1)"
    using fit unfolding r1(2) by simp
  then obtain c2 where c2: "write_strings A ?ss c1 = Inr c2"
      "cur_after c1 c2 (concat ?ss) (after_strings ?ss (cur_rest c1))"
    using write_strings_ok [OF A r1(1)] by blast
  have "cur_buf c2 = make_buffer d (Some (stack_block junk n lo ?ws ?ss)) (word_of_nat n)"
    using cur_after_buf [OF cur_after_trans [OF c1(2) c2(2)] c(1)]
    by (simp add: c passed r1(2) stack_block_def add.commute)
  then show ?thesis
    unfolding skip write_stack_eq using c1(1) c2(1) by simp
qed

text \<open>The three outcomes of \<open>buildStack\<close>.\<close>

lemma buildStack_none:
  "\<not> pa_stack_alloc (ub_uparams b) \<Longrightarrow> buildStack E r b = (Inr None, b)"
  by (simp add: buildStack_def Let_def)

lemma buildStack_small:
  assumes "roundup_spec r" and "pa_stack_alloc (ub_uparams b)"
    and "stack_need (pa_arg (ub_params b)) (pa_env (ub_params b)) (length (up_auxv (ub_uparams b))) + 4
      \<le> 2 ^ 64"
    and "unat (pa_stack_size (ub_params b)) <
      stack_isize (pa_arg (ub_params b)) (pa_env (ub_params b)) (length (up_auxv (ub_uparams b)))"
  shows "buildStack E r b = (Inl (Throw Stack_Too_Small), b)"
  using assms(2,4) sk_isize_eq [OF assms(1,3)]
  by (simp add: buildStack_def Let_def word_less_nat_alt)

lemma buildStack_ok:
  fixes b :: "('s, 'f) unix_builder"
  defines "ps \<equiv> ub_params b" and "auxv \<equiv> up_auxv (ub_uparams b)"
  assumes A: "elm_array_spec (env_array E)" and r: "roundup_spec r"
    and al: "pa_stack_alloc (ub_uparams b)" and im: "ub_im b = Some im"
    and fit: "stack_isize (pa_arg ps) (pa_env ps) (length auxv) \<le> unat (pa_stack_size ps)"
    and small: "unat (pa_stack_size ps) < 2 ^ 63"
  shows "\<exists>b'. buildStack E r b =
      (Inr (Some (stack_segment E (file_decoder (ub_file b)) ps auxv)), b') \<and>
    ub_im b' = Some (image_add (stack_segment E (file_decoder (ub_file b)) ps auxv) im) \<and>
    ub_file b' = ub_file b \<and>
    (pa_sp ps \<longrightarrow> ub_sp b' = Some (stack_pointer ps (length auxv))) \<and>
    (pa_sp_segment ps \<longrightarrow>
       ub_sp_segment b' = Some (stack_segment E (file_decoder (ub_file b)) ps auxv))"
proof -
  let ?args = "pa_arg ps" and ?envs = "pa_env ps" and ?x = "length auxv" and ?d = "file_decoder (ub_file b)"
  let ?n = "unat (pa_stack_size ps)" and ?i = "stack_isize ?args ?envs ?x"
  let ?k = "stack_sizes r ?args ?envs ?x" and ?sp = "stack_pointer ps ?x"
  let ?seg = "stack_segment E ?d ps auxv :: ('f, nat) image_segment"
  have need: "stack_need ?args ?envs ?x + 4 \<le> 2 ^ 64"
    using stack_isize_bounds(1) [of ?args ?envs ?x] fit small by simp
  have ui: "unat (sk_isize ?k) = ?i"
    by (rule sk_isize_eq [OF r need])
  then have isz: "sk_isize ?k = word_of_nat ?i"
    by (simp flip: ui)
  have nlt: "\<not> pa_stack_size ps < sk_isize ?k"
    using fit ui by (simp add: word_less_nat_alt)
  have lo: "pa_stack_size ps - sk_isize ?k = word_of_nat (?n - ?i)"
    using fit by (simp add: isz of_nat_diff)
  have sp: "stack_address ps + pa_stack_size ps - sk_isize ?k = ?sp"
    by (simp add: stack_pointer_def isz)
  have al: "alloc (env_junk E) ?n = Inr (new_block (env_junk E) ?n)"
    using small by (simp add: alloc_def)
  have wn: "word_of_nat ?n = pa_stack_size ps"
    by simp
  have room: "?n - ?i + stack_need ?args ?envs (length auxv) \<le> ?n"
    using fit stack_isize_bounds(1) [of ?args ?envs ?x] by simp
  obtain c where c: "write_stack (env_array E) ?k ?sp ?args ?envs auxv
      (snd (cur_skip (make_cursor (make_buffer ?d (Some (new_block (env_junk E) ?n)) (pa_stack_size ps)))
         (word_of_nat (?n - ?i)))) = Inr c"
    "cur_buf c = make_buffer ?d (Some (stack_block (env_junk E) ?n (?n - ?i)
      (stack_words ?sp ?args ?envs auxv) (?args @ ?envs))) (pa_stack_size ps)"
    using write_stack_ok [OF A room small, of ?k ?sp ?d "env_junk E"] unfolding wn layout_words_eq by blast
  have seg: "ImageSegment_buf None (cur_buf c) (stack_address ps) (IS_WRITABLE OR IS_TO_FREE)
      (str_bytes ''stack'') = ?seg"
    by (simp add: ImageSegment_buf_def stack_segment_def c(2) Let_def str_bytes_def)
  have ad: "(if pa_stack_at ps then pa_stack_addr ps else 0x80000000) - pa_stack_size ps =
      stack_address ps"
    by (simp add: stack_address_def)
  show ?thesis
    using assms(5) im unfolding buildStack_def Let_def ps_def [symmetric] auxv_def [symmetric] ad sp lo
    by (auto simp: nlt al c(1) seg add_segment_def)
qed

section \<open>The strings\<close>

text \<open>What is read where the first string starts.\<close>

lemma stack_block_string:
  assumes "ss \<noteq> []" and "\<forall>s \<in> set ss. 0 \<notin> set s"
    and "lo + 4 * length ws \<le> n" and that: "j \<le> length (concat ss)"
  shows "cstr_at (stack_block junk n lo ws ss) (lo + 4 * length ws + j) =
    Inr (drop j (concat ss))"
proof -
  let ?b = "stack_block junk n lo ws ss"
  have d: "drop (lo + 4 * length ws + j) ?b =
      drop j (concat ss) @ after_strings ss (drop (lo + 4 * length ws) (new_block junk n))"
    using assms(3) that by (simp add: stack_block_def)
  obtain r where r: "after_strings ss (drop (lo + 4 * length ws) (new_block junk n)) = 0 # r"
    using assms(1) by (simp add: after_strings_def)
  have z: "0 \<notin> set (drop j (concat ss))"
    using assms(2) by (auto dest: in_set_dropD)
  have "takeWhile (\<lambda>b. b \<noteq> 0) (xs @ 0 # r) = xs" if "0 \<notin> set xs" for xs :: mem
    using that by (induction xs) auto
  moreover have "lo + 4 * length ws + j \<le> length ?b"
    using assms(3) that by (simp add: stack_block_def)
  ultimately show ?thesis
    using z by (simp add: cstr_at_def d r)
qed

end
