(* ===== verification/Unix_Build.thy ===== *)
theory Unix_Build
  imports Unix_Stack Elf_Image
begin

text \<open>
  The image that the Unix builder makes of an ELF program: one segment for each
  loadable program header, at its virtual address, then the stack.
\<close>

section \<open>Loading the program\<close>

definition unix_segment ::
  "'s elf_env \<Rightarrow> mem \<Rightarrow> elf_header \<Rightarrow> 'f \<Rightarrow> u32 \<Rightarrow> nat \<Rightarrow> ('f, nat) image_segment" where
  "unix_segment E c h file base i =
     (let p = phdr_infos c h ! i in
      ImageSegment_buf (Some file) (seg_buffer E c h i) (ucast base + ph_vaddr p) (load_flags p) [])"

definition load_type :: "mem \<Rightarrow> elf_header \<Rightarrow> nat \<Rightarrow> u32" where
  "load_type c h i = ph_type (phdr_infos c h ! i)"

text \<open>The builder while it loads the unit \<open>u\<close> of the file \<open>file\<close> at \<open>base\<close>.\<close>

definition loading ::
  "'s elf_env \<Rightarrow> ('s \<Rightarrow> mem) \<Rightarrow> mem \<Rightarrow> elf_header \<Rightarrow> 'f \<Rightarrow> u32 \<Rightarrow> nat \<Rightarrow> ('s, 'f) unix_builder \<Rightarrow> bool" where
  "loading E ct c h file base u b \<longleftrightarrow>
     elf_inv E ct c h (ub_file b) \<and> el_ph_loaded (ub_file b) \<and> u < length (ub_pool b) \<and>
     un_file (ub_pool b ! u) = Some file \<and> un_base (ub_pool b ! u) = base"

text \<open>What loading does not touch.\<close>

definition same_job :: "('s, 'f) unix_builder \<Rightarrow> ('s, 'f) unix_builder \<Rightarrow> bool" where
  "same_job b b' \<longleftrightarrow>
     ub_prog b' = ub_prog b \<and> ub_params b' = ub_params b \<and> ub_uparams b' = ub_uparams b \<and>
     ub_todo b' = ub_todo b \<and> ub_units b' = ub_units b \<and> ub_lpaths b' = ub_lpaths b"

lemma same_job_trans: "same_job a b \<Longrightarrow> same_job b d \<Longrightarrow> same_job a d"
  by (simp add: same_job_def)

lemma load_header_ok:
  assumes ok: "seg_file_ok E ct ps c h" and L: "loading E ct c h file base u b"
    and i: "i < length (phdr_infos c h)" and im: "ub_im b = Some im"
  shows "\<exists>b' tp'. load_header E u base i tp b = (Inr tp', b') \<and> loading E ct c h file base u b' \<and>
    same_job b b' \<and>
    ub_im b' = Some (im\<lparr>im_segs := im_segs im @
      (if load_type c h i = PT_LOAD then [unix_segment E c h file base i] else [])\<rparr>)"
proof -
  note L' = L [unfolded loading_def]
  have "map ph_info (el_phs (ub_file b)) = phdr_infos c h"
    using L' by (simp add: elf_inv_def)
  then have h: "ph_info (el_phs (ub_file b) ! i) = phdr_infos c h ! i"
    using i by (metis length_map nth_map)
  show ?thesis
  proof (cases "load_type c h i = PT_LOAD")
    case True
    obtain f' where f': "ph_content E i (ub_file b) = (Inr (seg_buffer E c h i), f')"
        "elf_inv E ct c h f'" "el_ph_loaded f'"
      using elf_host.ph_content_ok [of E ct ps c h "ub_file b" i] ok L' i
      unfolding seg_file_ok_def seg_buffer_def by blast
    then show ?thesis
      using True L' im
      by (auto simp: load_header_def h load_type_def on_file_def add_segment_def image_add_def
          unix_segment_def loading_def same_job_def Let_def sbind_def)
  next
    case False
    then have ne: "ph_type (phdr_infos c h ! i) \<noteq> PT_LOAD"
      by (simp add: load_type_def)
    have "\<exists>b' tp'. load_header E u base i tp b = (Inr tp', b') \<and>
        loading E ct c h file base u b' \<and> same_job b b' \<and> ub_im b' = ub_im b"
      using L' ne
      by (auto simp: load_header_def h Let_def upd_unit_def onError_def loading_def same_job_def)
    then show ?thesis
      using False im by auto
  qed
qed

lemma load_headers_ok:
  assumes ok: "seg_file_ok E ct ps c h"
  shows "loading E ct c h file base u b \<Longrightarrow> \<forall>i \<in> set is. i < length (phdr_infos c h) \<Longrightarrow>
    ub_im b = Some im \<Longrightarrow>
    \<exists>b' tp'. load_headers E u base is tp b = (Inr tp', b') \<and> loading E ct c h file base u b' \<and>
      same_job b b' \<and>
      ub_im b' = Some (im\<lparr>im_segs := im_segs im @
        map (unix_segment E c h file base) (filter (\<lambda>i. load_type c h i = PT_LOAD) is)\<rparr>)"
proof (induction "is" arbitrary: b im tp)
  case Nil
  then show ?case
    by (simp add: same_job_def)
next
  case (Cons i "is")
  have i: "i < length (phdr_infos c h)"
    using Cons.prems(2) by simp
  obtain b1 tp1 where b1: "load_header E u base i tp b = (Inr tp1, b1)"
      "loading E ct c h file base u b1" "same_job b b1"
      "ub_im b1 = Some (im\<lparr>im_segs := im_segs im @
        (if load_type c h i = PT_LOAD then [unix_segment E c h file base i] else [])\<rparr>)"
    using load_header_ok [OF ok Cons.prems(1) i Cons.prems(3)] by blast
  obtain b2 tp2 where b2: "load_headers E u base is tp1 b1 = (Inr tp2, b2)"
      "loading E ct c h file base u b2" "same_job b1 b2"
      "ub_im b2 = Some (im\<lparr>im_segs := im_segs im @
        (if load_type c h i = PT_LOAD then [unix_segment E c h file base i] else []) @
        map (unix_segment E c h file base) (filter (\<lambda>i. load_type c h i = PT_LOAD) is)\<rparr>)"
    using Cons.IH [OF b1(2) _ b1(4), of tp1] Cons.prems(2) by auto
  then show ?case
    using b1 same_job_trans [OF b1(3) b2(3)] by auto
qed

lemma unit_load_ok:
  assumes ok: "seg_file_ok E ct ps c h" and inv: "elf_inv E ct c h (ub_file b)"
    and u: "u < length (ub_pool b)" "un_file (ub_pool b ! u) = Some file"
    and im: "ub_im b = Some im"
  shows "\<exists>b' tp. unit_load E u base b = (Inr tp, b') \<and> elf_inv E ct c h (ub_file b') \<and>
    same_job b b' \<and>
    ub_im b' = Some (im\<lparr>im_segs := im_segs im @
      map (unix_segment E c h file base) (load_indices c h)\<rparr>)"
proof -
  define b1 where "b1 = b\<lparr>ub_pool := (ub_pool b)[u := (ub_pool b ! u)\<lparr>un_base := base\<rparr>]\<rparr>"
  obtain f1 where f1: "programHeaders E (ub_file b) = (Inr (el_phs f1), f1)" "elf_inv E ct c h f1"
      "el_ph_loaded f1" "map ph_info (el_phs f1) = phdr_infos c h"
    using elf_host.programHeaders_ok [of E ct ps c h "ub_file b"] ok inv
    unfolding seg_file_ok_def by blast
  have len: "length (el_phs f1) = length (phdr_infos c h)"
    using f1(4) by (metis length_map)
  have L: "loading E ct c h file base u (b1\<lparr>ub_file := f1\<rparr>)"
    using f1 u by (simp add: loading_def b1_def)
  obtain b2 tp where b2: "load_headers E u base [0..<length (el_phs f1)] (ucast base)
        (b1\<lparr>ub_file := f1\<rparr>) = (Inr tp, b2)"
      "loading E ct c h file base u b2" "same_job (b1\<lparr>ub_file := f1\<rparr>) b2"
      "ub_im b2 = Some (im\<lparr>im_segs := im_segs im @ map (unix_segment E c h file base)
         (filter (\<lambda>i. load_type c h i = PT_LOAD) [0..<length (el_phs f1)])\<rparr>)"
    using load_headers_ok [OF ok L, of "[0..<length (el_phs f1)]" im "ucast base"] im
    by (auto simp: len b1_def)
  have li: "filter (\<lambda>i. load_type c h i = PT_LOAD) [0..<length (el_phs f1)] = load_indices c h"
    by (simp add: load_indices_def load_type_def len)
  have "same_job b b2"
    using b2(3) by (simp add: same_job_def b1_def)
  moreover have "unit_load E u base b = (Inr (ucast tp), b2)"
    using u f1(1) b2(1)
    by (simp add: unit_load_def upd_unit_def on_file_def sbind_def b1_def)
  ultimately show ?thesis
    using b2(2,4) li by (simp add: loading_def)
qed

end
