(* ===== verification/Unix_Props.thy ===== *)
theory Unix_Props
  imports Unix_Build
begin

text \<open>The properties of the Unix image builder, with their instances on the sample file.\<close>

section \<open>Building an image\<close>

lemma build_ok:
  fixes b :: "('s, 'f) unix_builder"
  defines "ps \<equiv> ub_params b" and "auxv \<equiv> up_auxv (ub_uparams b)" and "prog \<equiv> ub_prog b"
  assumes ok: "seg_file_ok E ct cps c h" and inv: "elf_inv E ct c h (ub_file b)"
    and r: "roundup_spec r" and al: "pa_stack_alloc (ub_uparams b)"
    and fresh: "ub_todo b = []" "ub_pool b = []"
    and fit: "stack_isize (pa_arg ps) (pa_env ps) (length auxv) \<le> unat (pa_stack_size ps)"
    and small: "unat (pa_stack_size ps) < 2 ^ 63" and k: "2 \<le> k"
  shows "\<exists>b'. UnixBuilder_build E r k b =
    (Inr (Some \<lparr>im_prog = prog, im_links = [(prog, 0)],
       im_segs = map (unix_segment E c h prog 0) (load_indices c h) @
         [stack_segment E (head_decoder h) ps auxv]\<rparr>), b')"
proof -
  define b0 where "b0 = b\<lparr>ub_im := Some (image_new prog), ub_todo := [0], ub_pool := [Unit_of_file prog]\<rparr>"
  obtain b1 tp where b1: "unit_load E 0 0 b0 = (Inr tp, b1)" "elf_inv E ct c h (ub_file b1)"
      "same_job b0 b1" "ub_im b1 = Some ((image_new prog)\<lparr>im_segs :=
        im_segs (image_new prog) @ map (unix_segment E c h prog 0) (load_indices c h)\<rparr>)"
    using unit_load_ok [OF ok, of b0 0 prog "image_new prog" 0] inv
    by (auto simp: b0_def Unit_of_file_def Unit_new_def)
  have same: "ub_todo b1 = [0]" "ub_params b1 = ps" "ub_uparams b1 = ub_uparams b"
    using b1(3) by (simp_all add: same_job_def b0_def ps_def)
  have dec: "file_decoder (ub_file b1) = head_decoder h"
    using b1(2) by (simp add: file_decoder_head elf_inv_def)
  obtain j where j: "k = Suc (Suc j)"
    using k by (metis add_2_eq_Suc le_Suc_ex)
  have units: "load_units E r k 0 0 b0 = (Inr (), b1)"
    using b1(1) same by (simp add: j b0_def)
  have A: "elm_array_spec (env_array E)"
    using ok by (simp add: seg_file_ok_def elf_host_def)
  have al1: "pa_stack_alloc (ub_uparams b1)" and
    fit1: "stack_isize (pa_arg (ub_params b1)) (pa_env (ub_params b1))
        (length (up_auxv (ub_uparams b1))) \<le> unat (pa_stack_size (ub_params b1))" and
    small1: "unat (pa_stack_size (ub_params b1)) < 2 ^ 63"
    using al fit small same by (simp_all add: auxv_def)
  obtain b2 where "buildStack E r b1 = (Inr (Some (stack_segment E (head_decoder h) ps auxv)), b2)"
      "ub_im b2 = Some (image_add (stack_segment E (head_decoder h) ps auxv)
        ((image_new prog)\<lparr>im_segs := im_segs (image_new prog) @
           map (unix_segment E c h prog 0) (load_indices c h)\<rparr>))"
    using buildStack_ok [OF A r al1 b1(4) fit1 small1]
    unfolding same(2,3) dec auxv_def [symmetric] by blast
  moreover have "UnixBuilder_build E r k b =
      sbind (load_units E r k 0 0) (\<lambda>_. sbind (buildStack E r) (\<lambda>_ s. (Inr (ub_im s), s))) b0"
    using fresh by (simp add: UnixBuilder_build_def b0_def prog_def)
  ultimately show ?thesis
    using units by (simp add: image_new_def image_add_def image_add_file_def)
qed

definition roundup_ref :: "u64 \<Rightarrow> u64 \<Rightarrow> u64" where
  "roundup_ref v b = word_of_nat ((unat v + unat b - 1) div unat b * unat b)"

lemma roundup_ref_spec: "roundup_spec roundup_ref"
proof -
  have "unat (roundup_ref v b) = (unat v + unat b - 1) div unat b * unat b"
    if "b \<noteq> 0" and "unat v + unat b \<le> 2 ^ 64" for v b
  proof -
    have "(unat v + unat b - 1) div unat b * unat b \<le> unat v + unat b - 1"
      by (rule div_times_less_eq_dividend)
    moreover have "0 < unat b"
      using that(1) by (simp add: unat_gt_0)
    ultimately have "(unat v + unat b - 1) div unat b * unat b < 2 ^ 64"
      using that(2) by linarith
    then show ?thesis
      unfolding roundup_ref_def by (rule unat_of_nat_64)
  qed
  then show ?thesis
    by (simp add: roundup_spec_def)
qed

lemma params_abi_gen: "params_abi ps \<noteq> unix_abi"
  by (cases ps) (simp_all add: gen_abi_def unix_abi_def str_bytes_def)

lemma UnixBuilder_new_program:
  "elf_type (el_head f) = program \<Longrightarrow> UnixBuilder_new prog (Some f) ps =
    Inr \<lparr>ub_file = f, ub_prog = prog, ub_params = params_base ps, ub_uparams = unix_parameter_null,
         ub_pool = [], ub_todo = [], ub_units = Map.empty,
         ub_lpaths = builder_paths unix_parameter_null, ub_im = None, ub_sp = None,
         ub_sp_segment = None, ub_warnings = []\<rparr>"
  by (simp add: UnixBuilder_new_def params_abi_gen)

lemma unix_null_simps:
  "pa_stack_alloc unix_parameter_null" "up_auxv unix_parameter_null = []"
  "up_page_size unix_parameter_null = 4096" "pa_env unix_parameter_null = []"
  "up_lib_paths unix_parameter_null = []" "up_is_linux unix_parameter_null"
  "\<not> up_no_default_path unix_parameter_null" "up_sys_root unix_parameter_null = []"
  by (simp_all add: unix_parameter_null_def parameter_null_def parameter.defs)

text \<open>C13. The Unix builder on an ELF program: the image has one segment for each loadable
  program header, at its virtual address and with its content, followed by the stack made
  of the arguments and of the environment of the parameters. The auxiliary vector, the page
  size and the library paths of the parameters given by the caller have no effect.\<close>

theorem unix_build_image:
  assumes ok: "seg_file_ok E ct cps c h" and inv: "elf_inv E ct c h f"
    and ty: "elf_type h = program" and r: "roundup_spec r" and k: "2 \<le> k"
    and fit: "stack_isize (pa_arg (params_base ps)) (pa_env (params_base ps)) 0
      \<le> unat (pa_stack_size (params_base ps))"
    and small: "unat (pa_stack_size (params_base ps)) < 2 ^ 63"
  shows "\<exists>b b'. UnixBuilder_new prog (Some f) ps = Inr b \<and>
    UnixBuilder_build E r k b =
      (Inr (Some \<lparr>im_prog = prog, im_links = [(prog, 0)],
         im_segs = map (unix_segment E c h prog 0) (load_indices c h) @
           [stack_segment E (head_decoder h) (params_base ps) []]\<rparr>), b')"
proof -
  have "el_head f = h"
    using inv by (simp add: elf_inv_def)
  then obtain b where b: "UnixBuilder_new prog (Some f) ps = Inr b" "ub_file b = f"
      "ub_prog b = prog" "ub_params b = params_base ps" "ub_uparams b = unix_parameter_null"
      "ub_pool b = []" "ub_todo b = []"
    using UnixBuilder_new_program [of f prog ps] ty by simp
  show ?thesis
    using build_ok [OF ok _ r _ b(7,6) _ _ k] inv fit small b(1) by (simp add: b unix_null_simps)
qed

lemma sample_program: "elf_type sample_head = program"
  by (simp add: File32_type_def sample_header_def elf_type_consts)

theorem unix_build_image_witness:
  "\<exists>b b' s t. UnixBuilder_new () (Some sample_file) (Unix unix_parameter_null) = Inr b \<and>
    UnixBuilder_build sample_env roundup_ref 2 b =
      (Inr (Some \<lparr>im_prog = (), im_links = [((), 0)], im_segs = [s, t]\<rparr>), b') \<and>
    is_base s = 0x8000 \<and> is_base t = 0x7FFFF000"
proof -
  have "params_base (Unix unix_parameter_null) = parameter_null"
    by (simp add: unix_parameter_null_def parameter.defs)
  moreover have "stack_isize (pa_arg parameter_null) (pa_env parameter_null) 0 = 24"
    "pa_stack_size parameter_null = 4096"
    by (simp_all add: stack_isize_def stack_need_def parameter_null_def)
  moreover have "is_base (unix_segment sample_env sample sample_head () 0 0) = 0x8000"
    by (simp add: unix_segment_def phdr_infos_sample ImageSegment_buf_def sample_ph_def Let_def
        ProgramHeader32_vaddr_def del: phdr_infos.simps)
  moreover have "is_base (stack_segment sample_env d parameter_null []) = 0x7FFFF000" for d
    by (simp add: stack_segment_def stack_address_def parameter_null_def Let_def)
  ultimately show ?thesis
    using unix_build_image [OF sample_seg_file sample_inv sample_program roundup_ref_spec,
        of 2 "Unix unix_parameter_null" "()"]
    by (fastforce simp: load_indices_sample simp del: phdr_infos.simps)
qed

text \<open>Whatever the parameters, the builder works with the default Unix parameters: no
  class answers the identifier of the Unix parameters. It refuses, with a failed assertion,
  a file that is not an ELF program.\<close>

theorem unix_params_ignored:
  "(case UnixBuilder_new prog F ps of
      Inl e \<Rightarrow> e = Assert_Failure \<and> (F = None \<or> elf_type (el_head (the F)) \<noteq> program)
    | Inr b \<Rightarrow> ub_uparams b = unix_parameter_null \<and> F = Some (ub_file b) \<and>
        ub_lpaths b = [[], str_bytes ''/lib'', str_bytes ''/usr/lib''])"
  by (cases F) (auto simp: UnixBuilder_new_def params_abi_gen require_def builder_paths_def
      unix_null_simps)

section \<open>The stack\<close>


definition stack_params :: parameter where
  "stack_params = parameter_null\<lparr>pa_arg := [str_bytes ''ls'', str_bytes ''-l''],
     pa_env := [str_bytes ''A=1''], pa_stack_size := 64\<rparr>"

definition demo_builder :: "((mem \<times> nat), unit) unix_builder" where
  "demo_builder = \<lparr>ub_file = sample_file, ub_prog = (), ub_params = stack_params,
     ub_uparams = unix_parameter_null, ub_pool = [], ub_todo = [], ub_units = Map.empty,
     ub_lpaths = [], ub_im = Some (image_new ()), ub_sp = None, ub_sp_segment = None,
     ub_warnings = []\<rparr>"



text \<open>The strings of the arguments and of the environment are written one after the
  other without the null bytes that separate them: a string of the stack, read at the place
  where its pointer in \<open>argv\<close> leads, is a part of the concatenation of all of them (for the
  first one, the whole concatenation) instead of the argument.\<close>

theorem stack_strings_joined:
  fixes sp :: u64 and args envs :: "u8 list list" and auxv :: "(u32 \<times> u32) list"
  defines "ws \<equiv> stack_words sp args envs auxv"
  assumes i: "i < length args" and nz: "\<forall>s \<in> set (args @ envs). 0 \<notin> set s"
    and fit: "lo + 4 * length ws \<le> n" and pos: "string_pos args i \<le> length (concat (args @ envs))"
  shows "ws ! (3 + i) = word_of_nat (unat sp + (4 * length ws + string_pos args i)) \<and>
    cstr_at (stack_block junk n lo ws (args @ envs)) (lo + 4 * length ws + string_pos args i) =
      Inr (drop (string_pos args i) (concat (args @ envs)))"
proof -
  have len: "length ws = length args + length envs + 2 * length auxv + 6"
    unfolding ws_def by (rule length_stack_words)
  have "ws ! (3 + i) = word_of_nat (unat sp + (4 * length ws + string_pos args i))"
    unfolding len using i
    by (simp add: ws_def stack_words_def Let_def nth_append string_pos_append(1) algebra_simps)
  moreover have "args @ envs \<noteq> []"
    using i by auto
  ultimately show ?thesis
    using stack_block_string [OF _ nz fit pos, of junk] by simp
qed

theorem stack_strings_joined_witness:
  "\<exists>ws. length ws = 9 \<and>
    cstr_at (stack_block (\<lambda>i. 0) 64 20 ws [str_bytes ''ls'', str_bytes ''-l'', str_bytes ''A=1''])
      (20 + 4 * 9) = Inr (str_bytes ''ls-lA=1'')"
proof -
  let ?args = "[str_bytes ''ls'', str_bytes ''-l'']" and ?envs = "[str_bytes ''A=1'']"
  define ws where "ws = stack_words 0 ?args ?envs []"
  have len: "length ws = 9"
    by (simp add: ws_def length_stack_words)
  have nz: "\<forall>s \<in> set (?args @ ?envs). 0 \<notin> set s"
    by (simp add: str_bytes_def)
  have "cstr_at (stack_block (\<lambda>i. 0) 64 20 ws (?args @ ?envs)) (20 + 4 * length ws + string_pos ?args 0) =
      Inr (drop (string_pos ?args 0) (concat (?args @ ?envs)))"
    using stack_strings_joined [OF _ nz, of 0 20 0 "[]" 64 "\<lambda>i. 0"]
      len unfolding ws_def [symmetric] by (simp add: string_pos_def)
  then show ?thesis
    using len by (intro exI [of _ ws]) (simp add: string_pos_def str_bytes_def)
qed

section \<open>Paths\<close>

fun join_paths :: "u8 list list \<Rightarrow> u8 list" where
  "join_paths [] = []"
| "join_paths [p] = p"
| "join_paths (p # q # ps) = p @ of_char CHR '':'' # join_paths (q # ps)"

lemma split_paths_ne: "split_paths s \<noteq> []"
  by (induction s) (auto split: list.splits)

lemma join_paths_Cons: "ps \<noteq> [] \<Longrightarrow> join_paths (p # ps) = p @ of_char CHR '':'' # join_paths ps"
  by (cases ps) simp_all

lemma join_paths_extend: "join_paths ((c # p) # ps) = c # join_paths (p # ps)"
  by (cases ps) simp_all

lemma join_split: "join_paths (split_paths s) = s"
proof (induction s)
  case (Cons c s)
  then show ?case
    using split_paths_ne [of s]
    by (cases "split_paths s") (auto simp: join_paths_Cons join_paths_extend)
qed simp

lemma split_colon_free: "p \<in> set (split_paths s) \<Longrightarrow> of_char CHR '':'' \<notin> set p"
proof (induction s arbitrary: p)
  case (Cons c s)
  obtain q qs where q: "split_paths s = q # qs"
    using split_paths_ne by (cases "split_paths s") auto
  then have free: "of_char CHR '':'' \<notin> set x" if "x = q \<or> x \<in> set qs" for x
    using Cons.IH [of x] that by auto
  show ?case
  proof (cases "c = of_char CHR '':''")
    case True
    then have "p = [] \<or> p = q \<or> p \<in> set qs"
      using Cons.prems q by simp
    then show ?thesis
      using free by (elim disjE) simp_all
  next
    case False
    then have "p = c # q \<or> p \<in> set qs"
      using Cons.prems q by simp
    then show ?thesis
      using free [of p] free [of q] False by (elim disjE) auto
  qed
qed simp

lemma split_append:
  "of_char CHR '':'' \<notin> set p \<Longrightarrow>
   split_paths (p @ s) = (p @ hd (split_paths s)) # tl (split_paths s)"
  by (induction p) (auto simp: split_paths_ne split: list.splits)

text \<open>The lists of paths: cutting a string at its colons gives at least one path, no
  path has a colon, and joining the paths gives the string back; joining a non-empty list
  of paths without colons and cutting gives the list back.\<close>

theorem split_paths_roundtrip:
  "join_paths (split_paths s) = s \<and> split_paths s \<noteq> [] \<and>
   (ps \<noteq> [] \<longrightarrow> (\<forall>p \<in> set ps. of_char CHR '':'' \<notin> set p) \<longrightarrow> split_paths (join_paths ps) = ps)"
proof -
  have "split_paths (join_paths ps) = ps"
    if "ps \<noteq> []" "\<forall>p \<in> set ps. of_char CHR '':'' \<notin> set p" for ps
    using that
  proof (induction ps rule: join_paths.induct)
    case (2 p)
    then show ?case
      using split_append [of p "[]"] by simp
  next
    case (3 p q ps)
    then show ?case
      using split_append [of p "of_char CHR '':'' # join_paths (q # ps)"] by simp
  qed simp
  then show ?thesis
    using join_split [of s] split_paths_ne [of s] by blast
qed

theorem split_paths_roundtrip_witness:
  "split_paths (str_bytes ''/lib:/usr/lib'') = [str_bytes ''/lib'', str_bytes ''/usr/lib'']"
  using split_paths_roundtrip [of "[]" "[str_bytes ''/lib'', str_bytes ''/usr/lib'']"]
  by (simp add: str_bytes_def)

section \<open>Units\<close>

text \<open>The links between the units of a builder lead to units that exist, each with its path.\<close>

definition units_ok :: "('s, 'f) unix_builder \<Rightarrow> bool" where
  "units_ok b \<longleftrightarrow>
     (\<forall>i \<in> set (ub_todo b). i < length (ub_pool b)) \<and>
     (\<forall>p u. ub_units b p = Some u \<longrightarrow> u < length (ub_pool b) \<and> un_name (ub_pool b ! u) = p)"

lemma unit_get_ok:
  assumes "units_ok b"
  shows "\<exists>v b'. unit_get X p b = (Inr (Some v), b') \<and> units_ok b' \<and> v < length (ub_pool b') \<and>
    un_name (ub_pool b' ! v) = ue_absolute X p \<and> ub_units b' (ue_absolute X p) = Some v \<and>
    ub_lpaths b' = ub_lpaths b"
proof (cases "ub_units b (ue_absolute X p)")
  case (Some u)
  then show ?thesis
    using assms by (auto simp: unit_get_def units_ok_def)
next
  case None
  then show ?thesis
    using assms
    by (auto simp: unit_get_def units_ok_def Let_def nth_append Unit_of_name_def Unit_new_def
        less_Suc_eq)
qed

text \<open>The path that a name stands for in a unit with the given search paths.\<close>

definition candidate :: "unix_env \<Rightarrow> u8 list \<Rightarrow> u8 list list \<Rightarrow> u8 list" where
  "candidate X nm ps =
     ue_absolute X (if of_char CHR ''/'' \<in> set nm then nm else ue_join X (hd ps) nm)"

text \<open>Resolving the name of a library always gives a unit, the one of the first
  candidate path (the name itself when it has a slash, else the name in the first directory
  of the run path of the unit or, without run path, of the library paths). No file is
  looked for, so that the other directories are never tried. The structure of the units is
  kept.\<close>

theorem resolve_first_directory:
  assumes ok: "units_ok b" and ps: "un_rpath (ub_pool b ! u) @ ub_lpaths b \<noteq> []"
  shows "\<exists>v b'. unix_resolve X nm u b = (Inr (Some v), b') \<and> units_ok b' \<and>
    v < length (ub_pool b') \<and>
    un_name (ub_pool b' ! v) = candidate X nm (un_rpath (ub_pool b ! u) @ ub_lpaths b)"
proof -
  have first: "\<exists>v b'. resolve_in X nm (p # ps) b = (Inr (Some v), b') \<and> units_ok b' \<and>
      v < length (ub_pool b') \<and> un_name (ub_pool b' ! v) = ue_absolute X (ue_join X p nm)" for p ps
    using unit_get_ok [OF ok, of X "ue_join X p nm"] by auto
  show ?thesis
  proof (cases "of_char CHR ''/'' \<in> set nm")
    case True
    then show ?thesis
      using unit_get_ok [OF ok, of X nm] by (auto simp: unix_resolve_def candidate_def)
  next
    case False
    show ?thesis
    proof (cases "un_rpath (ub_pool b ! u)")
      case Nil
      then obtain p qs where "ub_lpaths b = p # qs"
        using ps by (cases "ub_lpaths b") auto
      then show ?thesis
        using first [of p qs] False Nil by (auto simp: unix_resolve_def candidate_def)
    next
      case (Cons p qs)
      then show ?thesis
        using first [of p qs] False by (auto simp: unix_resolve_def candidate_def)
    qed
  qed
qed

definition demo_env :: unix_env where
  "demo_env = \<lparr>ue_join = (\<lambda>p q. p @ of_char CHR ''/'' # q), ue_parent = (\<lambda>p. p),
     ue_absolute = (\<lambda>p. p), ue_roundup = roundup_ref\<rparr>"

theorem resolve_first_directory_witness:
  "\<exists>v b'. unix_resolve demo_env (str_bytes ''m'') 0
      (demo_builder\<lparr>ub_pool := [Unit_of_file ()], ub_lpaths := [str_bytes ''/a'', str_bytes ''/b'']\<rparr>) =
    (Inr (Some v), b') \<and> un_name (ub_pool b' ! v) = str_bytes ''/a/m''"
proof -
  let ?b = "demo_builder\<lparr>ub_pool := [Unit_of_file ()], ub_lpaths := [str_bytes ''/a'', str_bytes ''/b'']\<rparr>"
  have "units_ok ?b" "un_rpath (ub_pool ?b ! 0) @ ub_lpaths ?b \<noteq> []"
    by (simp_all add: units_ok_def demo_builder_def)
  then obtain v b' where "unix_resolve demo_env (str_bytes ''m'') 0 ?b = (Inr (Some v), b')"
      "un_name (ub_pool b' ! v) =
        candidate demo_env (str_bytes ''m'') (un_rpath (ub_pool ?b ! 0) @ ub_lpaths ?b)"
    using resolve_first_directory [of ?b 0 demo_env "str_bytes ''m''"] by blast
  moreover have "candidate demo_env (str_bytes ''m'') (un_rpath (ub_pool ?b ! 0) @ ub_lpaths ?b) =
      str_bytes ''/a/m''"
    by (simp add: candidate_def demo_env_def Unit_of_file_def Unit_new_def str_bytes_def)
  ultimately show ?thesis
    by auto
qed

section \<open>Dynamic entries\<close>

text \<open>The tags of the dynamic section, in their order.\<close>

definition dyn_tags :: "u32 list" where
  "dyn_tags =
    [DT_NEEDED, DT_PLTRELSZ, DT_PLTGOT, DT_HASH, DT_STRTAB, DT_SYMTAB, DT_RELA, DT_RELASZ,
     DT_RELAENT, DT_STRSZ, DT_SYMENT, DT_INIT, DT_FINI, DT_SONAME, DT_RPATH, DT_SYMBOLIC,
     DT_REL, DT_RELSZ, DT_RELENT, DT_PLTREL, DT_DEBUG, DT_TEXTREL, DT_JMPREL, DT_BIND_NOW]"

lemma swapped_tags:
  assumes "t \<in> set dyn_tags"
  shows "SWAP4 t \<noteq> DT_NULL \<and> SWAP4 t \<notin> set dyn_tags"
proof -
  have "24 < SWAP4 t"
  proof -
    have "\<forall>x \<in> set dyn_tags. 24 < SWAP4 x"
      by (simp add: dyn_tags_def elf_consts SWAP4_def SWAP2_def)
    then show ?thesis
      using assms by blast
  qed
  moreover have "\<forall>x \<in> set dyn_tags. x \<le> 24"
    by (simp add: dyn_tags_def elf_consts)
  ultimately show ?thesis
    by (auto simp: DT_NULL_def not_le [symmetric])
qed

lemma link_tables_tags:
  "fst ` set link_fields \<subseteq> set dyn_tags" "fst ` set link_flags \<subseteq> set dyn_tags"
  "set link_ignored \<subseteq> set dyn_tags"
  by (simp_all add: link_fields_def link_flags_def link_ignored_def dyn_tags_def)

lemma unknown_tag:
  fixes b :: "('s, 'f) unix_builder"
  assumes e: "dyn_entry i off b = (Inr (tag, v), b)" and tag: "tag \<noteq> DT_NULL" "tag \<notin> set dyn_tags"
  shows "link_scan_entry u i off b =
    (Inr False, b\<lparr>ub_warnings := ub_warnings b @ [Unknown_Dynamic_Entry tag]\<rparr>)"
proof -
  have "map_of (link_fields :: (u32 \<times> (u32 \<Rightarrow> 'f link_unit \<Rightarrow> 'f link_unit)) list) tag = None"
    "map_of link_flags tag = None" "tag \<notin> set link_ignored"
    using link_tables_tags tag(2) by (auto simp: map_of_eq_None_iff)
  then show ?thesis
    using e tag(1) by (simp add: link_scan_entry_def onError_def)
qed

text \<open>The tag of a dynamic entry is tested before its conversion: in a file of the
  other byte order than the host every tag the linker knows is reported as unknown, and the
  unit learns nothing from the entry.\<close>

theorem link_tags_not_converted:
  assumes "elf_ident (el_head (ub_file b)) ! EI_DATA = ELFDATA2MSB"
    and "dyn_entry i off b = (Inr (tag, v), b)"
    and "fix_u32 (file_decoder (ub_file b)) tag \<in> set dyn_tags"
  shows "link_scan_entry u i off b =
    (Inr False, b\<lparr>ub_warnings := ub_warnings b @ [Unknown_Dynamic_Entry tag]\<rparr>)"
proof -
  have "fix_u32 (file_decoder (ub_file b)) tag = SWAP4 tag"
    using assms(1)
    by (simp add: file_decoder_def elf_fix32_def ENDIAN4_def ELFDATA2MSB_def ELFDATA2LSB_def)
  then have "tag = SWAP4 (fix_u32 (file_decoder (ub_file b)) tag)"
    by (simp add: SWAP4_SWAP4)
  then have "tag \<noteq> DT_NULL \<and> tag \<notin> set dyn_tags"
    using swapped_tags [OF assms(3)] by simp
  then show ?thesis
    using unknown_tag [OF assms(2)] by simp
qed

definition dyn_builder :: "((mem \<times> nat), unit) unix_builder" where
  "dyn_builder = demo_builder\<lparr>ub_file := sample_file\<lparr>el_phs :=
     [\<lparr>ph_info = PH32 sample_ph, ph_cache = Some [0, 0, 0, 5, 0, 0, 128, 0]\<rparr>]\<rparr>\<rparr>"

theorem link_tags_not_converted_witness:
  "link_scan_entry 0 0 0 dyn_builder =
    (Inr False, dyn_builder\<lparr>ub_warnings := [Unknown_Dynamic_Entry 0x05000000]\<rparr>)"
proof -
  have hd: "elf_ident (el_head (ub_file dyn_builder)) ! EI_DATA = ELFDATA2MSB"
    by (simp add: dyn_builder_def sample_file_def new_elf_file_def sample_header_simps
        ELFDATA2MSB_def)
  have e: "dyn_entry 0 0 dyn_builder = (Inr (0x05000000, 0x800000), dyn_builder)"
    by (simp add: dyn_entry_def dyn_builder_def in_block_def load32_def bytes_at_def le_word_nat)
  have "fix_u32 (file_decoder (ub_file dyn_builder)) 0x05000000 = DT_STRTAB"
    using hd by (simp add: file_decoder_def elf_fix32_def ENDIAN4_def ELFDATA2LSB_def
        ELFDATA2MSB_def SWAP4_def SWAP2_def DT_STRTAB_def)
  then have t: "fix_u32 (file_decoder (ub_file dyn_builder)) 0x05000000 \<in> set dyn_tags"
    by (simp add: dyn_tags_def)
  have "ub_warnings dyn_builder = []"
    by (simp add: dyn_builder_def demo_builder_def)
  then show ?thesis
    using link_tags_not_converted [OF hd e t, of 0] by simp
qed

end
