(* ===== verification/Gel_Output.thy ===== *)
theory Gel_Output
  imports Gel_Base
begin

text \<open>
  What the program writes with the streams of ELM. The formatting itself belongs to ELM: the
  output is the sequence of the operands given to the operator \<open><<\<close>, with the formats the
  program asks for, and the standard streams are the lists of the operands written so far. A
  list of operands stays written when a later operation fails.
\<close>

section \<open>Operands\<close>

datatype fmt = Hex | Right | Pad char | Width nat

text \<open>
  A literal of the source, a string computed by the program, a character, an integer with its
  format, the string made of some operands with its format, a byte (\<open>io::byte\<close>), the message
  of an exception and the end of a line.
\<close>

datatype out_item =
    Lit string
  | Txt "u8 list"
  | Chr char
  | Num "fmt list" int
  | Str "fmt list" "out_item list"
  | Byte u8
  | Msg gel_exn
  | Endl

abbreviation newline :: char where "newline \<equiv> CHR 0x0A"

text \<open>\<open>gel::format\<close>, and the format that the tools declare for the words they print.\<close>

definition address_format :: "address_type_t \<Rightarrow> fmt list" where
  "address_format t = [Right, Hex, Pad CHR ''0'', Width (format_width t)]"

definition format_address :: "address_type_t \<Rightarrow> u64 \<Rightarrow> out_item" where
  "format_address t a = Num (address_format t) (uint a)"

definition word_fmt :: "u64 \<Rightarrow> out_item" where
  "word_fmt x = Num [Hex, Width 8, Right, Pad CHR ''0''] (uint x)"

text \<open>\<open>operator<<\<close> on a range of addresses.\<close>

definition out_range :: "range_t \<Rightarrow> out_item list" where
  "out_range r =
     [format_address address_64 (r_addr r), Chr CHR '':'', format_address address_64 (r_size r)]"

section \<open>The standard streams\<close>

text \<open>\<open>con_help\<close> counts the calls to \<open>displayHelp\<close>, which belongs to ELM.\<close>

record console =
  con_out :: "out_item list"
  con_err :: "out_item list"
  con_help :: nat

text \<open>A tool at work on a file.\<close>

record 'f tool = console +
  tl_file :: 'f

definition empty_console :: console where
  "empty_console = \<lparr>con_out = [], con_err = [], con_help = 0\<rparr>"

definition emit :: "out_item list \<Rightarrow> ('c console_scheme, unit) stm" where
  "emit xs = smodify (\<lambda>c. c\<lparr>con_out := con_out c @ xs\<rparr>)"

definition emit_err :: "out_item list \<Rightarrow> ('c console_scheme, unit) stm" where
  "emit_err xs = smodify (\<lambda>c. c\<lparr>con_err := con_err c @ xs\<rparr>)"

definition displayHelp :: "('c console_scheme, unit) stm" where
  "displayHelp = smodify (\<lambda>c. c\<lparr>con_help := con_help c + 1\<rparr>)"

definition in_file :: "('f, 'a) stm \<Rightarrow> ('f tool, 'a) stm" where
  "in_file m t = (case m (tl_file t) of (r, f) \<Rightarrow> (r, t\<lparr>tl_file := f\<rparr>))"

text \<open>The work on a file that is closed at the end.\<close>

definition with_file :: "'f \<Rightarrow> ('f tool, 'a) stm \<Rightarrow> (console, 'a) stm" where
  "with_file f m c = (case m (console.extend c (tool.fields f)) of (r, t) \<Rightarrow> (r, console.truncate t))"

text \<open>\<open>catch(gel::Exception& e)\<close>; \<open>is_gel\<close> tells which exceptions belong to that class.\<close>

fun catch_exn ::
  "(gel_exn \<Rightarrow> bool) \<Rightarrow> (gel_exn \<Rightarrow> ('s, 'a) stm) \<Rightarrow> ('s, 'a) stm \<Rightarrow> ('s, 'a) stm" where
  "catch_exn is_gel h m s =
     (case m s of
        (Inl (Throw e), s') \<Rightarrow> (if is_gel e then h e s' else (Inl (Throw e), s'))
      | r \<Rightarrow> r)"

declare catch_exn.simps [simp del]

text \<open>A loop over the elements of a list.\<close>

fun sfor :: "('a \<Rightarrow> ('s, unit) stm) \<Rightarrow> 'a list \<Rightarrow> ('s, unit) stm" where
  "sfor body [] = sreturn ()"
| "sfor body (x # xs) = sbind (body x) (\<lambda>_. sfor body xs)"

section \<open>Rules\<close>

lemma emit_simps [simp]:
  "emit xs c = (Inr (), c\<lparr>con_out := con_out c @ xs\<rparr>)"
  "emit_err xs c = (Inr (), c\<lparr>con_err := con_err c @ xs\<rparr>)"
  "displayHelp c = (Inr (), c\<lparr>con_help := con_help c + 1\<rparr>)"
  by (simp_all add: emit_def emit_err_def displayHelp_def)

lemma in_file_eq [simp]: "m (tl_file t) = (r, f) \<Longrightarrow> in_file m t = (r, t\<lparr>tl_file := f\<rparr>)"
  by (simp add: in_file_def)

lemma with_file_eq:
  "m \<lparr>con_out = con_out c, con_err = con_err c, con_help = con_help c, tl_file = f\<rparr> = (r, t) \<Longrightarrow>
   with_file f m c = (r, console.truncate t)"
  by (simp add: with_file_def console.defs tool.defs)

lemma tool_extend [simp]:
  "tl_file (console.extend c (tool.fields f)) = f" "con_out (console.extend c (tool.fields f)) = con_out c"
  by (simp_all add: console.defs tool.defs)

lemma with_file_out:
  assumes "m (console.extend c (tool.fields f)) =
    (r, (console.extend c (tool.fields f))\<lparr>con_out := con_out c @ xs, tl_file := g\<rparr>)"
  shows "with_file f m c = (r, c\<lparr>con_out := con_out c @ xs\<rparr>)"
  using assms by (simp add: with_file_def console.defs tool.defs)

lemma truncate_simps [simp]:
  "con_out (console.truncate t) = con_out t" "con_err (console.truncate t) = con_err t"
  "con_help (console.truncate t) = con_help t"
  by (simp_all add: console.defs)

lemma catch_exn_simps [simp]:
  "m s = (Inr x, s') \<Longrightarrow> catch_exn P h m s = (Inr x, s')"
  "m s = (Inl (Throw e), s') \<Longrightarrow> P e \<Longrightarrow> catch_exn P h m s = h e s'"
  "m s = (Inl (Throw e), s') \<Longrightarrow> \<not> P e \<Longrightarrow> catch_exn P h m s = (Inl (Throw e), s')"
  by (simp_all add: catch_exn.simps)

lemma sfor_append: "sfor body (xs @ ys) = sbind (sfor body xs) (\<lambda>_. sfor body ys)"
  by (induction xs) (auto simp: sbind_def fun_eq_iff split: prod.splits sum.splits)

lemma sfor_cong:
  "xs = ys \<Longrightarrow> (\<And>x. x \<in> set ys \<Longrightarrow> f x = g x) \<Longrightarrow> sfor f xs = sfor g ys"
  by (induction ys arbitrary: xs) simp_all

text \<open>Loops by index over a list.\<close>

lemma map_index_nth: "map (\<lambda>i. g (xs ! i)) [0..<length xs] = map g xs"
  by (rule nth_equalityI) simp_all

lemma concat_map_if:
  "concat (map (\<lambda>x. if P x then g x else []) xs) = concat (map g (filter P xs))"
  by (induction xs) simp_all

text \<open>
  The output of a loop each of whose turns keeps an invariant \<open>I\<close> of the file and writes
  \<open>out x\<close>.
\<close>

definition writes :: "('f \<Rightarrow> bool) \<Rightarrow> ('f tool, 'a) stm \<Rightarrow> 'a \<Rightarrow> out_item list \<Rightarrow> bool" where
  "writes I m v xs \<longleftrightarrow>
     (\<forall>t. I (tl_file t) \<longrightarrow>
        (\<exists>f. I f \<and> m t = (Inr v, t\<lparr>con_out := con_out t @ xs, tl_file := f\<rparr>)))"

lemma writesI:
  "(\<And>t. I (tl_file t) \<Longrightarrow>
     \<exists>f. I f \<and> m t = (Inr v, t\<lparr>con_out := con_out t @ xs, tl_file := f\<rparr>)) \<Longrightarrow> writes I m v xs"
  by (simp add: writes_def)

lemma writesD:
  "writes I m v xs \<Longrightarrow> I (tl_file t) \<Longrightarrow>
   \<exists>f. I f \<and> m t = (Inr v, t\<lparr>con_out := con_out t @ xs, tl_file := f\<rparr>)"
  by (simp add: writes_def)

lemma writes_emit: "writes I (emit xs) () xs"
  by (rule writesI, rule exI) (auto intro: tool.equality)

lemma writes_return: "writes I (sreturn v) v []"
  by (rule writesI, rule exI) (auto intro: tool.equality)

lemma writes_in_file:
  fixes m :: "('f, 'a) stm"
  assumes "\<And>f. I f \<Longrightarrow> \<exists>f'. I f' \<and> m f = (Inr v, f')"
  shows "writes I (in_file m) v []"
proof (rule writesI)
  fix t :: "'f tool"
  assume "I (tl_file t)"
  then obtain f' where "I f'" "m (tl_file t) = (Inr v, f')"
    using assms by blast
  then show "\<exists>f. I f \<and> in_file m t = (Inr v, t\<lparr>con_out := con_out t @ [], tl_file := f\<rparr>)"
    by (intro exI [of _ f']) simp
qed

lemma writes_bind:
  fixes m :: "('f tool, 'a) stm"
  assumes "writes I m v xs" and "writes I (k v) w ys" and "zs = xs @ ys"
  shows "writes I (sbind m k) w zs"
proof (rule writesI)
  fix t :: "'f tool"
  assume "I (tl_file t)"
  then obtain f where f: "I f" "m t = (Inr v, t\<lparr>con_out := con_out t @ xs, tl_file := f\<rparr>)"
    using writesD [OF assms(1)] by blast
  then obtain g where "I g" "k v (t\<lparr>con_out := con_out t @ xs, tl_file := f\<rparr>) =
      (Inr w, t\<lparr>con_out := con_out t @ zs, tl_file := g\<rparr>)"
    using writesD [OF assms(2), of "t\<lparr>con_out := con_out t @ xs, tl_file := f\<rparr>"] assms(3) by auto
  then show "\<exists>f. I f \<and> sbind m k t = (Inr w, t\<lparr>con_out := con_out t @ zs, tl_file := f\<rparr>)"
    using f by (intro exI [of _ g]) simp
qed

text \<open>A call to the file whose result \<open>v\<close> is known by a property \<open>P\<close>.\<close>

lemma writes_call:
  fixes m :: "('f, 'a) stm" and k :: "'a \<Rightarrow> ('f tool, 'b) stm"
  assumes "\<And>f. I f \<Longrightarrow> \<exists>v f'. I f' \<and> m f = (Inr v, f') \<and> P v"
    and "\<And>v. P v \<Longrightarrow> writes I (k v) w ys"
  shows "writes I (sbind (in_file m) k) w ys"
proof (rule writesI)
  fix t :: "'f tool"
  assume "I (tl_file t)"
  then obtain v f where f: "I f" "m (tl_file t) = (Inr v, f)" "P v"
    using assms(1) by blast
  then obtain g where "I g" "k v (t\<lparr>tl_file := f\<rparr>) = (Inr w, t\<lparr>con_out := con_out t @ ys, tl_file := g\<rparr>)"
    using writesD [OF assms(2) [OF f(3)], of "t\<lparr>tl_file := f\<rparr>"] by auto
  then show "\<exists>f. I f \<and> sbind (in_file m) k t = (Inr w, t\<lparr>con_out := con_out t @ ys, tl_file := f\<rparr>)"
    using f by (intro exI [of _ g]) simp
qed

lemma writes_get:
  "(\<And>f. I f \<Longrightarrow> writes I (k f) w ys) \<Longrightarrow> writes I (sbind (in_file sget) k) w ys"
  by (rule writes_call [where P = I]) auto

lemma writes_sfor:
  assumes "\<And>x. x \<in> set xs \<Longrightarrow> writes I (body x) () (out x)"
  shows "writes I (sfor body xs) () (concat (map out xs))"
  using assms
proof (induction xs)
  case Nil
  show ?case by (simp only: sfor.simps list.map concat.simps writes_return)
next
  case (Cons x xs)
  then show ?case
    by (auto intro!: writes_bind [where v = "()" and ys = "concat (map out xs)"])
qed

end
