(* ===== verification/Gel_Object.thy ===== *)
theory Gel_Object
  imports Gel_Manager Gel_Output Elf_Image Dwarf_Elf
begin

text \<open>
  The virtual functions of \<open>gel::File\<close>, \<open>gel::Segment\<close> and \<open>gel::Section\<close> (\<open>include/gel++/File.h\<close>,
  \<open>src/gel_File.cpp\<close>) on a file opened by the manager: each call runs the function of the class
  of the file. It is what the command line tools work with.
\<close>

section \<open>Open files\<close>

text \<open>
  The parameters of the library: the manager with the classes of ELM it uses, the depth of the
  stack, the bounds on the turns of the loops over the units, the opcodes of a unit and the
  segments, and the operator \<open>/\<close> on paths.
\<close>

record 's gel_env =
  ge_manager :: "'s manager_env"
  ge_stack :: nat
  ge_turns :: nat
  ge_units :: nat
  ge_segments :: nat
  ge_join :: "u8 list \<Rightarrow> u8 list \<Rightarrow> u8 list"

definition ge_elf :: "'s gel_env \<Rightarrow> 's elf_env" where
  "ge_elf G = mg_elf (ge_manager G)"

definition ge_coffi :: "'s gel_env \<Rightarrow> coffi_lib" where
  "ge_coffi G = the (mg_coffi (ge_manager G))"

text \<open>\<open>of_debug\<close> is the member \<open>debug\<close> of an ELF file.\<close>

record 's open_file =
  of_path :: string
  of_obj :: "'s gel_object"
  of_debug :: "debug_line option"

definition manager_open :: "'s gel_env \<Rightarrow> string \<Rightarrow> 's open_file res" where
  "manager_open G path =
     rbind (openFile (ge_manager G) path) (\<lambda>x. Inr \<lparr>of_path = path, of_obj = x, of_debug = None\<rparr>)"

definition manager_openELF :: "'s gel_env \<Rightarrow> string \<Rightarrow> 's elf_file res" where
  "manager_openELF G path = openELFFile (ge_manager G) path"

text \<open>A function of the class of the file, which may change the members of the file.\<close>

definition on_obj :: "('o \<Rightarrow> 's gel_object) \<Rightarrow> ('o, 'a) stm \<Rightarrow> 'o \<Rightarrow> ('s open_file, 'a) stm" where
  "on_obj C m x f = (case m x of (r, y) \<Rightarrow> (r, f\<lparr>of_obj := C y\<rparr>))"

section \<open>Identification\<close>

text \<open>
  \<open>toELF\<close> is overridden by \<open>elf::File\<close> for both classes of files, \<open>toELF64\<close> by no class.
\<close>

definition gel_toELF :: "'s elf_file option" where "gel_toELF = None"
definition gel_toELF64 :: "'s elf_file option" where "gel_toELF64 = None"
definition elf_toELF :: "'s elf_file \<Rightarrow> 's elf_file option" where "elf_toELF f = Some f"

fun toELF :: "'s gel_object \<Rightarrow> 's elf_file option" where
  "toELF (ELF_file f) = elf_toELF f"
| "toELF (COFF_file f) = gel_toELF"
| "toELF (PE_file f) = gel_toELF"

definition toELF64 :: "'s gel_object \<Rightarrow> 's elf_file option" where
  "toELF64 x = gel_toELF64"

fun file_type_of :: "'s gel_object \<Rightarrow> file_type" where
  "file_type_of (ELF_file f) = elf_type (el_head f)"
| "file_type_of (COFF_file f) = coffi_type"
| "file_type_of (PE_file f) = pe_type f"

fun file_isBigEndian :: "'s gel_object \<Rightarrow> bool" where
  "file_isBigEndian (ELF_file f) = elf_isBigEndian (el_head f)"
| "file_isBigEndian (COFF_file f) = coffi_isBigEndian"
| "file_isBigEndian (PE_file f) = pe_isBigEndian"

fun file_addressType :: "'s gel_object \<Rightarrow> address_type_t" where
  "file_addressType (ELF_file f) = elf_addressType (el_head f)"
| "file_addressType (COFF_file f) = coffi_addressType"
| "file_addressType (PE_file f) = pe_addressType f"

fun file_entry_of :: "'s gel_object \<Rightarrow> u64 res" where
  "file_entry_of (ELF_file f) = Inr (elf_entry (el_head f))"
| "file_entry_of (COFF_file f) = coffi_entry f"
| "file_entry_of (PE_file f) = Inr (pe_entry f)"

fun file_machine :: "'s gel_object \<Rightarrow> string" where
  "file_machine (ELF_file f) = elf_machine (el_head f)"
| "file_machine (COFF_file f) = coffi_machine"
| "file_machine (PE_file f) = pe_machine f"

fun file_os :: "'s gel_object \<Rightarrow> string" where
  "file_os (ELF_file f) = elf_os (el_head f)"
| "file_os (COFF_file f) = coffi_os"
| "file_os (PE_file f) = pe_os"

fun file_elfMachine :: "'s gel_object \<Rightarrow> int" where
  "file_elfMachine (ELF_file f) = elf_elfMachine (el_head f)"
| "file_elfMachine (COFF_file f) = gel_elfMachine"
| "file_elfMachine (PE_file f) = pe_elfMachine f"

fun file_elfOS :: "'s gel_object \<Rightarrow> int" where
  "file_elfOS (ELF_file f) = elf_elfOS (el_head f)"
| "file_elfOS (COFF_file f) = gel_elfOS"
| "file_elfOS (PE_file f) = pe_elfOS"

text \<open>\<open>File::format\<close>.\<close>

definition file_format :: "'s gel_object \<Rightarrow> u64 \<Rightarrow> out_item" where
  "file_format x a = format_address (file_addressType x) a"

section \<open>Segments\<close>

datatype segref = Index nat | Coffi coffi_section

definition file_count :: "'s gel_env \<Rightarrow> ('s open_file, int) stm" where
  "file_count G =
     sbind sget (\<lambda>f. case of_obj f of
       ELF_file x \<Rightarrow> on_obj ELF_file (elf_count (ge_elf G)) x
     | COFF_file x \<Rightarrow> on_obj COFF_file coffi_count x
     | PE_file x \<Rightarrow> sreturn (pe_count x))"

definition file_segment :: "'s gel_env \<Rightarrow> int \<Rightarrow> ('s open_file, segref) stm" where
  "file_segment G i =
     sbind sget (\<lambda>f. case of_obj f of
       ELF_file x \<Rightarrow> on_obj ELF_file (sbind (elf_segment (ge_elf G) i) (\<lambda>j. sreturn (Index j))) x
     | COFF_file x \<Rightarrow> on_obj COFF_file (sbind (coffi_segment i) (\<lambda>s. sreturn (Coffi s))) x
     | PE_file x \<Rightarrow> slift (rbind (pe_segment x i) (\<lambda>j. Inr (Index j))))"

text \<open>
  The functions of a segment that the tools call; the segments of a PE file compute them from
  their header at each call, and look their name up in the file.
\<close>

record seg_values =
  sv_write :: bool
  sv_content :: bool
  sv_exec :: bool
  sv_base :: u64
  sv_size :: u64
  sv_name :: "u8 list"

definition view_values :: "segment_view \<Rightarrow> seg_values" where
  "view_values v =
     \<lparr>sv_write = sg_write v, sv_content = sg_content v, sv_exec = sg_exec v, sv_base = sg_base v,
      sv_size = sg_size v, sv_name = sg_name v\<rparr>"

definition pe_values :: "'s pe_env \<Rightarrow> nat \<Rightarrow> ('s pe_file, seg_values) stm" where
  "pe_values E i =
     sbind sget (\<lambda>f.
     sbind (pe_name E i) (\<lambda>nm.
     sreturn \<lparr>sv_write = pe_isWritable f i, sv_content = pe_hasContent f i,
       sv_exec = pe_isExecutable f i, sv_base = pe_baseAddress f i, sv_size = pe_size f i,
       sv_name = nm\<rparr>))"

definition segment_values :: "'s gel_env \<Rightarrow> segref \<Rightarrow> ('s open_file, seg_values) stm" where
  "segment_values G s =
     sbind sget (\<lambda>f. case (of_obj f, s) of
       (ELF_file x, Index i) \<Rightarrow>
         on_obj ELF_file (sbind (elf_segment_view i) (\<lambda>v. sreturn (view_values v))) x
     | (PE_file x, Index i) \<Rightarrow> on_obj PE_file (pe_values (mg_pe (ge_manager G)) i) x
     | (COFF_file x, Coffi c) \<Rightarrow> sreturn (view_values (coffi_Segment (ge_coffi G) c))
     | _ \<Rightarrow> sraise Memory_Fault)"

section \<open>Sections\<close>

definition file_countSections :: "'s gel_env \<Rightarrow> ('s open_file, int) stm" where
  "file_countSections G =
     sbind sget (\<lambda>f. case of_obj f of
       ELF_file x \<Rightarrow> on_obj ELF_file (countSections (ge_elf G)) x
     | COFF_file x \<Rightarrow> on_obj COFF_file coffi_countSections x
     | PE_file x \<Rightarrow> sreturn gel_countSections)"

definition file_section :: "'s gel_env \<Rightarrow> int \<Rightarrow> ('s open_file, segref) stm" where
  "file_section G i =
     sbind sget (\<lambda>f. case of_obj f of
       ELF_file x \<Rightarrow> on_obj ELF_file (sbind (elf_section (ge_elf G) i) (\<lambda>j. sreturn (Index j))) x
     | COFF_file x \<Rightarrow> on_obj COFF_file (sbind (coffi_section_at i) (\<lambda>s. sreturn (Coffi s))) x
     | PE_file x \<Rightarrow> slift (rbind (gel_section i) (\<lambda>_. Inl Memory_Fault)))"

text \<open>The functions of \<open>Section32\<close> and \<open>Section64\<close> for their base class \<open>gel::Segment\<close>.\<close>

fun sec_isWritable :: "shdr_info \<Rightarrow> bool" where
  "sec_isWritable (SH32 p) = Section32_isWritable p"
| "sec_isWritable (SH64 p) = Section64_isWritable p"

fun sec_hasContent :: "shdr_info \<Rightarrow> bool" where
  "sec_hasContent (SH32 p) = Section32_hasContent p"
| "sec_hasContent (SH64 p) = Section64_hasContent p"

fun sec_isExecutable :: "shdr_info \<Rightarrow> bool" where
  "sec_isExecutable (SH32 p) = Section32_isExecutable p"
| "sec_isExecutable (SH64 p) = Section64_isExecutable p"

fun sec_baseAddress :: "shdr_info \<Rightarrow> u64" where
  "sec_baseAddress (SH32 p) = Section32_baseAddress p"
| "sec_baseAddress (SH64 p) = Section64_baseAddress p"

definition elf_section_values ::
  "'s elf_env \<Rightarrow> nat \<Rightarrow> nat \<Rightarrow> ('s elf_file, seg_values \<times> u64) stm" where
  "elf_section_values E n i =
     sbind sget (\<lambda>f.
       if length (el_sects f) \<le> i then sraise Memory_Fault
       else
         let p = sec_info (el_sects f ! i) in
         sbind (section_name E n i) (\<lambda>nm.
         sreturn (\<lparr>sv_write = sec_isWritable p, sv_content = sec_hasContent p,
           sv_exec = sec_isExecutable p, sv_base = sec_baseAddress p, sv_size = sh_size p,
           sv_name = nm\<rparr>, sh_offset p)))"

text \<open>The values of a section and its offset in the file.\<close>

definition section_values :: "'s gel_env \<Rightarrow> segref \<Rightarrow> ('s open_file, seg_values \<times> u64) stm" where
  "section_values G s =
     sbind sget (\<lambda>f. case (of_obj f, s) of
       (ELF_file x, Index i) \<Rightarrow> on_obj ELF_file (elf_section_values (ge_elf G) (ge_stack G) i) x
     | (COFF_file x, Coffi c) \<Rightarrow>
         sreturn (view_values (coffi_Segment (ge_coffi G) c), cv_offset (coffi_Section (ge_coffi G) c))
     | _ \<Rightarrow> sraise Memory_Fault)"

section \<open>Images, debug lines and symbols\<close>

text \<open>
  An image is a null pointer (the one of a PE file), an image of the segments of an ELF file
  or one of a COFF file. The parameters of \<open>make\<close> are not used by the simple builder.
\<close>

datatype gel_image =
    Null_image
  | ELF_image "(string, nat) image"
  | COFF_image "(string, coffi_section) image"

definition built :: "('a \<Rightarrow> gel_image) \<Rightarrow> 'a option \<Rightarrow> ('s, gel_image) stm" where
  "built C r = (case r of None \<Rightarrow> sraise No_Return | Some im \<Rightarrow> sreturn (C im))"

definition file_make :: "'s gel_env \<Rightarrow> parameter \<Rightarrow> ('s open_file, gel_image) stm" where
  "file_make G params =
     sbind sget (\<lambda>f. case of_obj f of
       ELF_file x \<Rightarrow>
         on_obj ELF_file
           (sbind (elf_make (ge_elf G) (ge_segments G) (of_path f)) (built ELF_image)) x
     | COFF_file x \<Rightarrow>
         on_obj COFF_file
           (sbind (coffi_make (env_array (ge_elf G)) (env_junk (ge_elf G)) (ge_coffi G)
                     (ge_segments G) (of_path f)) (built COFF_image)) x
     | PE_file x \<Rightarrow>
         (case pe_make params of None \<Rightarrow> sreturn Null_image | Some im \<Rightarrow> sreturn im))"

text \<open>\<open>File::make()\<close> calls \<open>make\<close> with the default parameters.\<close>

definition file_make_default :: "'s gel_env \<Rightarrow> ('s open_file, gel_image) stm" where
  "file_make_default G = file_make G parameter_null"

definition gel_debugLines :: "debug_line option" where "gel_debugLines = None"

definition file_debugLines :: "'s gel_env \<Rightarrow> ('s open_file, debug_line option) stm" where
  "file_debugLines G =
     sbind sget (\<lambda>f. case of_obj f of
       ELF_file x \<Rightarrow>
         (\<lambda>f. case debugLines (ge_join G) (ge_elf G) (ge_stack G) (ge_turns G) (ge_units G)
                     (x, of_debug f) of
            (r, (y, d)) \<Rightarrow> (map_sum id Some r, f\<lparr>of_obj := ELF_file y, of_debug := d\<rparr>))
     | COFF_file x \<Rightarrow> on_obj COFF_file (coffi_debugLines (ge_join G) (ge_turns G) (ge_units G)) x
     | PE_file x \<Rightarrow> sreturn gel_debugLines)"

text \<open>A symbol of a file that is not an ELF file, as the tools use it.\<close>

definition file_symbols ::
  "'s gel_env \<Rightarrow> ('s open_file, u8 list \<Rightarrow> symbol_type option) stm" where
  "file_symbols G =
     sbind sget (\<lambda>f. case of_obj f of
       ELF_file x \<Rightarrow>
         on_obj ELF_file (sbind (symbols (ge_elf G) (ge_stack G)) (\<lambda>t.
           sreturn (\<lambda>nm. map_option (sym_type t) (st_map t nm)))) x
     | COFF_file x \<Rightarrow>
         on_obj COFF_file (sbind (coffi_symbols (ge_coffi G)) (\<lambda>m.
           sreturn (\<lambda>nm. map_option cm_type (m nm)))) x
     | PE_file x \<Rightarrow> slift (rbind pe_symbols (\<lambda>_. Inl No_Value)))"

end
