(* ===== verification/Elf_Arch.thy ===== *)
theory Elf_Arch
  imports Gel_Output Elf_File
begin

text \<open>
  The parts of the ELF format that only clients of the library use: the relocation entries of
  \<open>elf/defs.h\<close> and \<open>elf/defs64.h\<close>, and the architecture plug-ins
  (\<open>src/elf_ArchPlugin.cpp\<close>, \<open>src/elf_arm.cpp\<close>), which print the dynamic entries that are
  specific to a processor. The search of a plug-in by its name belongs to ELM: it is a
  parameter of the tools.
\<close>

section \<open>Relocation entries\<close>

record Elf32_Rel =
  r_offset32 :: u32
  r_info32 :: u32

record Elf32_Rela = Elf32_Rel +
  r_addend32 :: u32

record Elf64_Rel =
  r_offset64 :: u64
  r_info64 :: u64

record Elf64_Rela = Elf64_Rel +
  r_addend64 :: u64

text \<open>The addends are signed: they are read with \<open>sint\<close>.\<close>

definition load_Elf32_Rel :: "mem \<Rightarrow> nat \<Rightarrow> Elf32_Rel" where
  "load_Elf32_Rel m a = \<lparr>r_offset32 = load32 m a, r_info32 = load32 m (a + 4)\<rparr>"

definition load_Elf32_Rela :: "mem \<Rightarrow> nat \<Rightarrow> Elf32_Rela" where
  "load_Elf32_Rela m a =
     \<lparr>r_offset32 = load32 m a, r_info32 = load32 m (a + 4), r_addend32 = load32 m (a + 8)\<rparr>"

definition load_Elf64_Rel :: "mem \<Rightarrow> nat \<Rightarrow> Elf64_Rel" where
  "load_Elf64_Rel m a = \<lparr>r_offset64 = load64 m a, r_info64 = load64 m (a + 8)\<rparr>"

definition load_Elf64_Rela :: "mem \<Rightarrow> nat \<Rightarrow> Elf64_Rela" where
  "load_Elf64_Rela m a =
     \<lparr>r_offset64 = load64 m a, r_info64 = load64 m (a + 8), r_addend64 = load64 m (a + 16)\<rparr>"

definition ELF32_R_SYM :: "u32 \<Rightarrow> u32" where "ELF32_R_SYM i = drop_bit 8 i"
definition ELF32_R_TYPE :: "u32 \<Rightarrow> u8" where "ELF32_R_TYPE i = ucast i"

definition ELF32_R_INFO :: "u32 \<Rightarrow> u32 \<Rightarrow> u32" where
  "ELF32_R_INFO s t = push_bit 8 s + ucast (ucast t :: u8)"

definition ELF64_R_SYM :: "u64 \<Rightarrow> u64" where "ELF64_R_SYM i = drop_bit 32 i"
definition ELF64_R_TYPE :: "u64 \<Rightarrow> u64" where "ELF64_R_TYPE i = i AND 0xffffffff"

text \<open>
  The macro does not use its argument \<open>t\<close> but a name \<open>r\<close> of the place of its use, the first
  argument of the model.
\<close>

definition ELF64_R_INFO :: "u64 \<Rightarrow> u64 \<Rightarrow> u64 \<Rightarrow> u64" where
  "ELF64_R_INFO r s t = push_bit 32 s + (r AND 0xffffffff)"

text \<open>An addition without common bits is a bitwise disjunction.\<close>

lemma r_info32_or: "ELF32_R_INFO s t = push_bit 8 s OR ucast (ucast t :: u8)"
  unfolding ELF32_R_INFO_def
  by (rule disjunctive_add) (auto simp: bit_simps dest: bit_imp_le_length)

lemma r_info64_or: "ELF64_R_INFO r s t = push_bit 32 s OR (r AND 0xffffffff)"
proof -
  have m: "(0xffffffff :: u64) = mask 32"
    by (simp add: mask_eq_exp_minus_1)
  show ?thesis
    unfolding ELF64_R_INFO_def m by (rule disjunctive_add) (auto simp: bit_simps)
qed

lemma r_type32: "ELF32_R_TYPE (ELF32_R_INFO s t) = ucast t"
  unfolding ELF32_R_TYPE_def r_info32_or
  by (rule bit_word_eqI) (auto simp: bit_simps)

lemma r_sym32:
  assumes "s < 2 ^ 24"
  shows "ELF32_R_SYM (ELF32_R_INFO s t) = s"
proof (rule bit_word_eqI)
  fix n assume n: "n < LENGTH(32)"
  have "take_bit 24 s = s"
    using assms by (simp add: take_bit_eq_mod word_less_nat_alt word_arith_nat_mod)
  then have "bit s n \<longrightarrow> n < 24"
    by (metis bit_take_bit_iff)
  moreover have "\<not> bit (ucast t :: u8) (8 + n)"
    by (auto dest: bit_imp_le_length)
  ultimately show "bit (ELF32_R_SYM (ELF32_R_INFO s t)) n = bit s n"
    using n by (auto simp: ELF32_R_SYM_def r_info32_or bit_simps)
qed

section \<open>Dynamic flags\<close>

definition STT_NOTYPE :: u8 where "STT_NOTYPE = 0"
definition STT_SECTION :: u8 where "STT_SECTION = 3"
definition STT_FILE :: u8 where "STT_FILE = 4"

definition DT_RUNPATH :: u32 where "DT_RUNPATH = 29"
definition DT_FLAGS :: u32 where "DT_FLAGS = 30"
definition DT_COUNT :: int where "DT_COUNT = 35"

definition DF_ORIGIN :: u64 where "DF_ORIGIN = 0x00000001"
definition DF_SYMBOLIC :: u64 where "DF_SYMBOLIC = 0x00000002"
definition DF_TEXTREL :: u64 where "DF_TEXTREL = 0x00000004"
definition DF_BIND_NOW :: u64 where "DF_BIND_NOW = 0x00000008"
definition DF_STATIC_TLS :: u64 where "DF_STATIC_TLS = 0x00000010"

section \<open>Plug-ins\<close>

text \<open>The virtual functions of \<open>ArchPlugin\<close>, on a tag of type \<open>int\<close>.\<close>

record arch_plugin =
  outputDynTag :: "int \<Rightarrow> out_item list"
  outputDynValue :: "int \<Rightarrow> u64 \<Rightarrow> out_item list"

definition default_DynTag :: "int \<Rightarrow> out_item list" where
  "default_DynTag tag = [format_address address_32 (word_of_int tag)]"

definition default_DynValue :: "int \<Rightarrow> u64 \<Rightarrow> out_item list" where
  "default_DynValue tag v = [format_address address_32 v]"

definition ArchPlugin_null :: arch_plugin where
  "ArchPlugin_null = \<lparr>outputDynTag = default_DynTag, outputDynValue = default_DynValue\<rparr>"

definition arm_DynTag :: "int \<Rightarrow> out_item list" where
  "arm_DynTag tag =
     (if tag = 0x7000000 then [Lit ''DT_ARM_RESERVED1'']
      else if tag = 0x7000001 then [Lit ''DT_ARM_SYMTABSZ'']
      else if tag = 0x7000002 then [Lit ''DT_ARM_PREEMPTMAP'']
      else if tag = 0x7000003 then [Lit ''DT_ARM_RESERVED2'']
      else default_DynTag tag)"

definition arm_DynValue :: "int \<Rightarrow> u64 \<Rightarrow> out_item list" where
  "arm_DynValue tag v =
     (if tag = 0x7000000 then []
      else if tag = 0x7000001 then [Num [] (uint v)]
      else if tag = 0x7000002 then [format_address address_32 v]
      else if tag = 0x7000003 then []
      else default_DynValue tag v)"

definition ArmPlugin :: arch_plugin where
  "ArmPlugin = \<lparr>outputDynTag = arm_DynTag, outputDynValue = arm_DynValue\<rparr>"

text \<open>
  The plug-in of a machine is looked up by the name \<open>elf<machine>\<close>, in the directories of
  \<open>paths\<close>: the one of the library (\<open>lib\<close>) and its sub-directory \<open>gel++\<close>. \<open>plugger\<close> is
  \<open>sys::Plugger::plug\<close>, and \<open>J\<close> the operator \<open>/\<close> on paths.
\<close>

definition plug_paths :: "(u8 list \<Rightarrow> u8 list \<Rightarrow> u8 list) \<Rightarrow> u8 list \<Rightarrow> u8 list" where
  "plug_paths J lib = lib @ str_bytes '':'' @ J lib (str_bytes ''gel++'')"

definition ArchPlugin_plug ::
  "(u8 list \<Rightarrow> string \<Rightarrow> arch_plugin option) \<Rightarrow> (u8 list \<Rightarrow> u8 list \<Rightarrow> u8 list) \<Rightarrow> u8 list \<Rightarrow> u16 \<Rightarrow>
   arch_plugin option" where
  "ArchPlugin_plug plugger J lib machine =
     plugger (plug_paths J lib) (''elf'' @ show_nat (unat machine))"

text \<open>
  The tags reserved by the format for a processor run from \<open>DT_LOPROC\<close> to \<open>DT_HIPROC\<close>. For
  none of them has the ARM plug-in a name: it prints what the plug-in by default prints.
\<close>

definition DT_LOPROC :: int where "DT_LOPROC = 0x70000000"
definition DT_HIPROC :: int where "DT_HIPROC = 0x7fffffff"

lemma arm_knows_no_tag:
  assumes "DT_LOPROC \<le> tag" and "tag \<le> DT_HIPROC"
  shows "arm_DynTag tag = default_DynTag tag" and "arm_DynValue tag v = default_DynValue tag v"
  using assms by (simp_all add: DT_LOPROC_def DT_HIPROC_def arm_DynTag_def arm_DynValue_def)

end
