(* ===== verification/Tool_Base.thy ===== *)
theory Tool_Base
  imports Gel_Object Elf_Arch
begin

text \<open>
  What the command line tools of \<open>src/bin\<close> share: the parameters they take from ELM and the C++
  library, the result of the analysis of the command line, and the loop over the files.
\<close>

section \<open>Parameters\<close>

text \<open>
  \<open>te_half\<close> is the conversion of an ELM string to a 16-bit integer that \<open>gel-dyn\<close> and
  \<open>gel-file\<close> use where they pass \<open>machine()\<close> for a number; \<open>te_plugger\<close> and \<open>te_lib\<close> are
  the plug-in loader and the directory of the library; \<open>te_order\<close> is the order in which a hash
  table gives its keys.
\<close>

record 's tool_env =
  te_gel :: "'s gel_env"
  te_half :: "string \<Rightarrow> u16"
  te_plugger :: "u8 list \<Rightarrow> string \<Rightarrow> arch_plugin option"
  te_lib :: "u8 list"
  te_order :: "u8 list set \<Rightarrow> u8 list list"

definition te_elf :: "'s tool_env \<Rightarrow> 's elf_env" where
  "te_elf T = ge_elf (te_gel T)"

definition te_stack :: "'s tool_env \<Rightarrow> nat" where
  "te_stack T = ge_stack (te_gel T)"

definition te_plug :: "'s tool_env \<Rightarrow> string \<Rightarrow> arch_plugin option" where
  "te_plug T machine =
     ArchPlugin_plug (te_plugger T) (ge_join (te_gel T)) (te_lib T) (te_half T machine)"

section \<open>Command lines\<close>

text \<open>
  The options and the free arguments of a command line, or the message of the
  \<open>OptionException\<close>. The analysis belongs to ELM.
\<close>

datatype 'o command_line = Parsed 'o "string list" | Bad_Options string

text \<open>
  The two classes of exceptions of the library: \<open>gel::Exception\<close>, and its base class
  \<open>MessageException\<close> that two places throw directly.
\<close>

fun is_gel_exception :: "gel_exn \<Rightarrow> bool" where
  "is_gel_exception (Cannot_Find s) = False"
| "is_gel_exception (No_Section_Containing a) = False"
| "is_gel_exception e = True"

definition catch_gel ::
  "(gel_exn \<Rightarrow> (console, 'a) stm) \<Rightarrow> (console, 'a) stm \<Rightarrow> (console, 'a) stm" where
  "catch_gel h m = catch_exn is_gel_exception h m"

definition bad_options :: "string \<Rightarrow> (console, int) stm" where
  "bad_options msg =
     sbind displayHelp (\<lambda>_.
     sbind (emit_err [Lit (newline # ''ERROR: ''), Txt (str_bytes msg), Endl]) (\<lambda>_. sreturn 1))"

text \<open>\<open>catch(gel::Exception& e) { cerr << "ERROR: when opening " << ... }\<close>.\<close>

definition opening_error :: "string \<Rightarrow> gel_exn \<Rightarrow> (console, unit) stm" where
  "opening_error arg e =
     emit_err [Lit ''ERROR: when opening '', Txt (str_bytes arg), Lit '': '', Msg e, Endl]"

definition plain_error :: "gel_exn \<Rightarrow> (console, unit) stm" where
  "plain_error e = emit_err [Lit ''ERROR: '', Msg e, Endl]"

text \<open>The exit status of a program whose \<open>main\<close> ignores the result of \<open>run\<close>.\<close>

definition ignored_status :: "int res \<Rightarrow> int res" where
  "ignored_status r = (case r of Inl e \<Rightarrow> Inl e | Inr _ \<Rightarrow> Inr 0)"

section \<open>Rules\<close>

lemma bad_options_eq:
  "bad_options msg c =
     (Inr 1, c\<lparr>con_err := con_err c @ [Lit (newline # ''ERROR: ''), Txt (str_bytes msg), Endl],
               con_help := con_help c + 1\<rparr>)"
  by (simp add: bad_options_def)

end
