(* ===== verification/Tool_Dyn.thy ===== *)
theory Tool_Dyn
  imports Tool_Base
begin

text \<open>
  \<open>src/bin/gel-dyn.cpp\<close>: the dynamic linking information of an ELF file, and what is proved
  of the traversal of the dynamic entries.
\<close>

section \<open>The entries of a dynamic section\<close>

text \<open>
  \<open>for(const auto& dyn: file->dyns(s))\<close> on the content \<open>b\<close> of the section, whose entries have
  \<open>ent\<close> bytes, with at most \<open>k\<close> turns.
\<close>

fun dyn_loop ::
  "elf_header \<Rightarrow> (dyn_t \<Rightarrow> ('s, unit) stm) \<Rightarrow> nat \<Rightarrow> dyn_iter \<Rightarrow> dyn_iter \<Rightarrow> ('s, unit) stm" where
  "dyn_loop h body 0 it fin = sraise No_Return"
| "dyn_loop h body (Suc k) it fin =
     (if entry_equals it fin then sreturn ()
      else
        sbind (case di_item it of None \<Rightarrow> sraise Uninitialised | Some d \<Rightarrow> body d) (\<lambda>_.
        sbind (slift (dyn_next h it)) (\<lambda>it'. dyn_loop h body k it' fin)))"

definition dyn_range ::
  "elf_header \<Rightarrow> u64 \<Rightarrow> buffer \<Rightarrow> (dyn_t \<Rightarrow> ('s, unit) stm) \<Rightarrow> nat \<Rightarrow> ('s, unit) stm" where
  "dyn_range h ent b body k =
     sbind (slift (dyn_start h ent b)) (\<lambda>it. dyn_loop h body k it (dyn_end ent b))"

section \<open>Printing an entry\<close>

definition dyn_labels :: "string list" where
  "dyn_labels =
     [''NULL'', ''NEEDED'', ''PLTRELSZ'', ''PLTGOT'', ''DT_HASH'', ''STRTAB'', ''SYMTAB'',
      ''RELA'', ''RELASZ'', ''RELAENT'', ''STRSZ'', ''SYMENT'', ''INIT'', ''FINI'', ''SONAME'',
      ''RPATH'', ''SYMBOLIC'', ''REL'', ''RELSZ'', ''RELENT'', ''PLTREL'', ''DEBUG'', ''TEXTREL'',
      ''JMPREL'', ''BIND_NOW'', ''INIT_ARRAY'', ''FINI_ARRAY'', ''INIT_ARRAYSZ'',
      ''FINI_ARRAYSZ'', ''RUNPATH'', ''FLAGS'', '''', ''PREINIT_ARRAY'', ''PREINIT_ARRAYSZ'',
      ''SYMTAB_SHNDX'']"

definition dyn_width :: nat where "dyn_width = 16"

text \<open>The tags whose value is a string, a number and an address.\<close>

definition dyn_strings :: "int list" where "dyn_strings = [1, 14, 15, 29]"
definition dyn_numbers :: "int list" where "dyn_numbers = [2, 8, 9, 10, 11, 18, 19, 20, 27, 28, 33]"
definition dyn_addresses :: "int list" where
  "dyn_addresses = [5, 3, 4, 6, 7, 12, 13, 17, 21, 23, 25, 26, 32, 34]"

lemmas dyn_kinds = dyn_strings_def dyn_numbers_def dyn_addresses_def

definition dyn_flag_names :: "(u64 \<times> string) list" where
  "dyn_flag_names =
     [(DF_ORIGIN, ''ORIGIN ''), (DF_SYMBOLIC, ''SYMBOLIC ''), (DF_TEXTREL, ''TEXTREL ''),
      (DF_BIND_NOW, ''BIND_NOW ''), (DF_STATIC_TLS, ''STATIC_TLS '')]"

definition dyn_flags :: "u64 \<Rightarrow> out_item list" where
  "dyn_flags v = map (\<lambda>(m, x). Lit x) (filter (\<lambda>(m, x). v AND m \<noteq> 0) dyn_flag_names)"

text \<open>
  The value of an entry with a known tag; \<open>str\<close> is \<open>stringAt\<close> in the section linked to the
  dynamic section, and \<open>t\<close> the type of the addresses of the file.
\<close>

definition dyn_value ::
  "address_type_t \<Rightarrow> (u64 \<Rightarrow> ('f, u8 list) stm) \<Rightarrow> int \<Rightarrow> u64 \<Rightarrow> ('f tool, unit) stm" where
  "dyn_value t str tag v =
     (if tag \<in> set dyn_strings then sbind (in_file (str v)) (\<lambda>s. emit [Txt s])
      else if tag \<in> set dyn_numbers then emit [Num [] (uint v)]
      else if tag \<in> set dyn_addresses then emit [format_address t v]
      else if tag = 30 then emit (dyn_flags v)
      else sreturn ())"

definition dyn_foreign :: "address_type_t \<Rightarrow> arch_plugin option \<Rightarrow> int \<Rightarrow> u64 \<Rightarrow> out_item list" where
  "dyn_foreign t plug tag v =
     (case plug of
        Some p \<Rightarrow>
          [Str [Width dyn_width] (outputDynTag p tag), Lit '': ''] @ outputDynValue p tag v @ [Endl]
      | None \<Rightarrow> [format_address t (word_of_int tag), Lit '': '', format_address t v, Endl])"

text \<open>The body of the loop; the tag is compared as a signed number.\<close>

definition dyn_print ::
  "address_type_t \<Rightarrow> arch_plugin option \<Rightarrow> (u64 \<Rightarrow> ('f, u8 list) stm) \<Rightarrow> dyn_t \<Rightarrow>
   ('f tool, unit) stm" where
  "dyn_print t plug str d =
     (let tag = sint (dyn_tag d); v = dyn_val d in
      if tag = 0 then sreturn ()
      else if DT_COUNT \<le> tag then emit (dyn_foreign t plug tag v)
      else if tag < 0 then sraise Memory_Fault
      else
        sbind (emit [Str [Width dyn_width] [Lit (dyn_labels ! nat tag)], Lit '': '']) (\<lambda>_.
        sbind (dyn_value t str tag v) (\<lambda>_. emit [Endl])))"

section \<open>Printing a file\<close>

text \<open>The dynamic section at index \<open>i\<close>, with at most \<open>k\<close> entries.\<close>

definition dyn_section ::
  "'s tool_env \<Rightarrow> nat \<Rightarrow> arch_plugin option \<Rightarrow> nat \<Rightarrow> ('s elf_file tool, unit) stm" where
  "dyn_section T k plug i =
     sbind (in_file (section_content (te_elf T) (te_stack T) i)) (\<lambda>b.
     sbind (in_file sget) (\<lambda>f.
       let p = sec_info (el_sects f ! i) in
       dyn_range (el_head f) (sh_entsize p) b
         (dyn_print (elf_addressType (el_head f)) plug
            (stringAt (te_elf T) (te_stack T) (sint (sh_link p)))) k))"

definition dyn_processELF :: "'s tool_env \<Rightarrow> nat \<Rightarrow> ('s elf_file tool, unit) stm" where
  "dyn_processELF T k =
     sbind (in_file sget) (\<lambda>f.
     let plug = te_plug T (elf_machine (el_head f)) in
     sbind (in_file (sections (te_elf T))) (\<lambda>ss.
       sfor (\<lambda>i. if sh_type (sec_info (ss ! i)) = SHT_DYNAMIC then dyn_section T k plug i
                  else sreturn ()) [0..<length ss]))"

section \<open>The command\<close>

text \<open>One file of \<open>n\<close>.\<close>

definition dyn_file :: "'s tool_env \<Rightarrow> nat \<Rightarrow> nat \<Rightarrow> string \<Rightarrow> (console, unit) stm" where
  "dyn_file T k n arg =
     sbind (slift (manager_open (te_gel T) arg)) (\<lambda>f.
     sbind (if 1 < n then emit [Lit ''FILE: '', Txt (str_bytes arg), Endl] else sreturn ()) (\<lambda>_.
     sbind (case toELF (of_obj f) of
              None \<Rightarrow> sreturn () | Some e \<Rightarrow> with_file e (dyn_processELF T k)) (\<lambda>_.
       if 1 < n then emit [Endl] else sreturn ())))"

text \<open>The error message shows \<open>argv[i]\<close>, where \<open>i\<close> counts the files from 0.\<close>

definition dyn_run ::
  "'s tool_env \<Rightarrow> nat \<Rightarrow> string list \<Rightarrow> unit command_line \<Rightarrow> (console, int) stm" where
  "dyn_run T k argv cl =
     (case cl of
        Bad_Options msg \<Rightarrow> bad_options msg
      | Parsed u args \<Rightarrow>
          sbind (sfor (\<lambda>i. catch_gel (opening_error (argv ! i)) (dyn_file T k (length args) (args ! i)))
                   [0..<length args]) (\<lambda>_. sreturn 0))"

end
