(* ===== verification/Tool_Open.thy ===== *)
theory Tool_Open
  imports Tool_Base Manager_Props
begin

text \<open>
  Opening an ELF file by a tool, from the bytes of the file to the object; and parameters of the
  tools for the witnesses.
\<close>

section \<open>The content of an ELF file\<close>

text \<open>The bytes that both ways of opening a file accept as an ELF file of header \<open>h\<close>.\<close>

definition elf_content :: "mem \<Rightarrow> elf_header \<Rightarrow> bool" where
  "elf_content c h \<longleftrightarrow>
     take 4 c = ELFMAG \<and>
     (case h of
        H32 g \<Rightarrow> c ! EI_CLASS = ELFCLASS32 \<and> sizeof_Elf32_Ehdr \<le> length c \<and>
                 g = elf32_header c \<and> e_shstrndx32 g < e_shnum32 g
      | H64 g \<Rightarrow> c ! EI_CLASS = ELFCLASS64 \<and> sizeof_Elf64_Ehdr \<le> length c \<and>
                 g = elf64_header c \<and> e_shstrndx64 g < e_shnum64 g)"

lemma spec_open_content: "elf_content c h \<Longrightarrow> spec_open_elf c s = Inr (new_elf_file s h)"
  by (cases h)
    (auto simp: elf_content_def spec_open_elf_def spec_open_elf32_def spec_open_elf64_def
      sizeof_Elf32_Ehdr_def sizeof_Elf64_Ehdr_def elf_ident_consts)

text \<open>A stream opened on a content \<open>c\<close>, at its start.\<close>

definition opens_on :: "'s manager_env \<Rightarrow> ('s \<Rightarrow> mem) \<Rightarrow> ('s \<Rightarrow> nat) \<Rightarrow> string \<Rightarrow> mem \<Rightarrow> bool" where
  "opens_on M ct ps path c \<longleftrightarrow>
     rstream_spec (px_stream (mg_pe M)) ct ps \<and> (\<exists>s. mg_open M path = Inr s \<and> ps s = 0 \<and> ct s = c)"

lemma openFile_elf:
  assumes o: "opens_on M ct ps path c" and c: "elf_content c h"
  shows "\<exists>s. ct s = c \<and> openFile M path = Inr (ELF_file (new_elf_file s h))"
proof -
  obtain s where R: "rstream_spec (px_stream (mg_pe M)) ct ps" and s: "mg_open M path = Inr s"
    "ps s = 0" "ct s = c"
    using o by (auto simp: opens_on_def)
  have len: "4 \<le> length c" "take 4 c = ELFMAG"
    using c by (auto simp: elf_content_def sizeof_Elf32_Ehdr_def sizeof_Elf64_Ehdr_def
        split: elf_header.splits)
  obtain s1 where s1: "mg_read M 4 s = (4, take 4 c, s1)" "ct s1 = c"
    using mg_read_ok [OF R s(2), of 4] s(3) len(1) by auto
  let ?s2 = "snd (rs_reset (px_stream (mg_pe M)) s1)"
  have s2: "ct ?s2 = c" "ps ?s2 = 0"
    using R s1(2) unfolding rstream_spec_def by auto
  obtain s3 where "ct s3 = c" "openELFFile_stream M ?s2 = spec_open_elf c s3"
    using openELFFile_stream_ok [OF R s2(2,1)] by blast
  moreover have "elf_matches (take 4 c)"
    using elf_matches_take [of 4 c] len by simp
  ultimately show ?thesis
    using s s1 spec_open_content [OF c, of s3]
    by (auto simp: openFile_def require_def Let_def intro: exI [of _ s3])
qed

lemma openELFFile_elf:
  assumes o: "opens_on M ct ps path c" and c: "elf_content c h"
  shows "\<exists>s. ct s = c \<and> openELFFile M path = Inr (new_elf_file s h)"
  using o spec_open_content [OF c] openELFFile_stream_ok
  by (force simp: opens_on_def openELFFile_def)

lemma manager_open_elf:
  assumes "opens_on (ge_manager G) ct ps path c" and "elf_content c h"
  shows "\<exists>f. elf_inv E ct c h f \<and>
    manager_open G path = Inr \<lparr>of_path = path, of_obj = ELF_file f, of_debug = None\<rparr>"
  using openFile_elf [OF assms] new_elf_file_inv by (fastforce simp: manager_open_def)

lemma opens_on_host:
  assumes "opens_on (ge_manager G) ct ps path c" and "elm_array_spec (env_array (ge_elf G))"
  shows "elf_host (ge_elf G) ct ps"
  using assms by (simp add: elf_host_def opens_on_def ge_elf_def)

section \<open>Open ELF files\<close>

text \<open>An ELF file whose sections are loaded.\<close>

definition elf_opened ::
  "'s elf_env \<Rightarrow> ('s \<Rightarrow> mem) \<Rightarrow> mem \<Rightarrow> elf_header \<Rightarrow> 's elf_file \<Rightarrow> bool" where
  "elf_opened E ct c h f \<longleftrightarrow> elf_inv E ct c h f \<and> el_sects_loaded f"

lemma elf_opened_head: "elf_opened E ct c h f \<Longrightarrow> el_head f = h"
  by (simp add: elf_opened_def elf_inv_def)

lemma elf_opened_sects:
  assumes "elf_opened E ct c h f"
  shows "length (el_sects f) = length (sec_infos c h)"
    and "i < length (sec_infos c h) \<Longrightarrow> sec_info (el_sects f ! i) = sec_infos c h ! i"
proof -
  have m: "map sec_info (el_sects f) = sec_infos c h"
    using assms by (simp add: elf_opened_def elf_inv_def)
  then show l: "length (el_sects f) = length (sec_infos c h)"
    by (metis length_map)
  show "i < length (sec_infos c h) \<Longrightarrow> sec_info (el_sects f ! i) = sec_infos c h ! i"
    by (metis l m nth_map)
qed

text \<open>An ELF file whose program headers are loaded.\<close>

definition phs_opened ::
  "'s elf_env \<Rightarrow> ('s \<Rightarrow> mem) \<Rightarrow> mem \<Rightarrow> elf_header \<Rightarrow> 's elf_file \<Rightarrow> bool" where
  "phs_opened E ct c h f \<longleftrightarrow> elf_inv E ct c h f \<and> el_ph_loaded f"

lemma phs_opened_simps:
  assumes "phs_opened E ct c h f"
  shows "file_decoder f = head_decoder h" and "length (el_phs f) = length (phdr_infos c h)"
    and "i < length (phdr_infos c h) \<Longrightarrow> ph_info (el_phs f ! i) = phdr_infos c h ! i"
proof -
  have m: "map ph_info (el_phs f) = phdr_infos c h" "el_head f = h"
    using assms by (simp_all add: phs_opened_def elf_inv_def)
  then show "file_decoder f = head_decoder h"
    by (simp add: file_decoder_head)
  show l: "length (el_phs f) = length (phdr_infos c h)"
    by (metis length_map m(1))
  show "i < length (phdr_infos c h) \<Longrightarrow> ph_info (el_phs f ! i) = phdr_infos c h ! i"
    by (metis l m(1) nth_map)
qed

text \<open>The names of the sections can be read.\<close>

definition names_ok :: "mem \<Rightarrow> elf_header \<Rightarrow> bool" where
  "names_ok c h \<longleftrightarrow> secs_fit c h \<and> strtab_ok c h \<and> (\<forall>i < length (sec_infos c h). name_ok c h i)"

context elf_host
begin

lemma opened_name:
  assumes ok: "names_ok c h" and i: "i < length (sec_infos c h)" and f: "elf_opened E ct c h f"
  shows "\<exists>f'. elf_opened E ct c h f' \<and> el_syms f' = el_syms f \<and>
    section_name E (Suc n) i f = (Inr (projr (spec_name c h i)), f')"
proof -
  have nm: "name_ok c h i"
    using ok i by (simp add: names_ok_def)
  then obtain x where "spec_name c h i = Inr x"
    by (auto simp: name_ok_def)
  moreover obtain f' where "section_name E (Suc n) i f = (spec_name c h i, f')"
      "elf_inv E ct c h f'" "el_sects_loaded f'" "el_syms f' = el_syms f"
    using section_name_ok [of c h f i n] f ok i nm
    by (auto simp: elf_opened_def names_ok_def name_ok_def)
  ultimately show ?thesis
    by (intro exI [of _ f']) (simp add: elf_opened_def)
qed

lemma opened_sections:
  assumes ok: "names_ok c h" and inv: "elf_inv E ct c h f"
  shows "\<exists>f'. elf_opened E ct c h f' \<and> el_syms f' = el_syms f \<and> sections E f = (Inr (el_sects f'), f')"
  using sections_ok [OF inv] ok by (auto simp: elf_opened_def names_ok_def)

end

section \<open>Parameters for the witnesses\<close>

text \<open>
  The parameters of the tools for the witnesses: any path opens the content \<open>c\<close>, no plug-in is
  found, and a hash table gives the keys \<open>ks\<close> in their order.
\<close>

definition demo_tools :: "mem \<Rightarrow> u8 list list \<Rightarrow> (mem \<times> nat) tool_env" where
  "demo_tools c ks =
     \<lparr>te_gel = \<lparr>ge_manager = demo_manager c, ge_stack = 1, ge_turns = 7, ge_units = 1,
        ge_segments = 9, ge_join = (\<lambda>d s. d @ 47 # s)\<rparr>,
      te_half = (\<lambda>s. 1), te_plugger = (\<lambda>ps nm. None), te_lib = [], te_order = (\<lambda>S. ks)\<rparr>"

lemma demo_tools_env:
  "te_elf (demo_tools c ks) = sample_env" "te_stack (demo_tools c ks) = Suc 0"
  "te_plug (demo_tools c ks) m = None"
  by (simp_all add: demo_tools_def te_elf_def ge_elf_def te_stack_def te_plug_def
      ArchPlugin_plug_def demo_manager_def mg_elf_def pe_sample_env_def sample_env_def)

lemma demo_opens_on: "opens_on (ge_manager (te_gel (demo_tools c ks))) fst snd path c"
  using pe_sample_stream by (simp add: opens_on_def demo_tools_def demo_manager_def)

lemma demo_array: "elm_array_spec (env_array (ge_elf (te_gel (demo_tools c ks))))"
  using demo_tools_env(1) [of c ks] sample_host.array by (simp add: te_elf_def)

text \<open>The file \<open>sample\<close> is an ELF file.\<close>

lemma content_sample: "elf_content sample sample_head"
  by (simp add: elf_content_def sizeof_Elf32_Ehdr_def length_sample header_sample sample_header_def
      sample_bytes) (simp add: sample_def elf_ident_consts)

end
