(* ===== verification/Tool_Files.thy ===== *)
theory Tool_Files
  imports Tool_Open
begin

text \<open>
  The commands on several files. Three of them go on after a file that cannot be opened; the
  others stop there. Both ways are a locale, interpreted in the theories of the commands.
\<close>

section \<open>What becomes of a file\<close>

text \<open>The exception that ends the work on a file before anything is written, or the output.\<close>

type_synonym processed = "gel_exn + out_item list"

definition processes :: "(string \<Rightarrow> (console, unit) stm) \<Rightarrow> string \<Rightarrow> processed \<Rightarrow> bool" where
  "processes p a r \<longleftrightarrow>
     (\<forall>c. p a c = (case r of Inl e \<Rightarrow> (Inl (Throw e), c)
                   | Inr xs \<Rightarrow> (Inr (), c\<lparr>con_out := con_out c @ xs\<rparr>)))"

lemma processesI:
  "(\<And>c. p a c = (Inr (), c\<lparr>con_out := con_out c @ xs\<rparr>)) \<Longrightarrow> processes p a (Inr xs)"
  "(\<And>c. p a c = (Inl (Throw e), c)) \<Longrightarrow> processes p a (Inl e)"
  by (simp_all add: processes_def)

lemma processesD:
  "processes p a (Inr xs) \<Longrightarrow> p a c = (Inr (), c\<lparr>con_out := con_out c @ xs\<rparr>)"
  "processes p a (Inl e) \<Longrightarrow> p a c = (Inl (Throw e), c)"
  by (simp_all add: processes_def)

text \<open>
  What is known of a path: the exception of the function \<open>opening\<close>, or the content of an ELF file.
\<close>

definition elf_source ::
  "(string \<Rightarrow> 'f res) \<Rightarrow> 's manager_env \<Rightarrow> ('s \<Rightarrow> mem) \<Rightarrow> ('s \<Rightarrow> nat) \<Rightarrow> string \<Rightarrow>
   gel_exn + mem \<times> elf_header \<Rightarrow> bool" where
  "elf_source opening M ct ps a d \<longleftrightarrow>
     (case d of
        Inl e \<Rightarrow> opening a = Inl (Throw e) \<and> is_gel_exception e
      | Inr (c, h) \<Rightarrow> opens_on M ct ps a c \<and> elf_content c h)"

lemma elf_sourceD:
  "elf_source opening M ct ps a (Inl e) \<Longrightarrow> opening a = Inl (Throw e) \<and> is_gel_exception e"
  "elf_source opening M ct ps a (Inr (c, h)) \<Longrightarrow> opens_on M ct ps a c \<and> elf_content c h"
  by (simp_all add: elf_source_def)

definition outcomes_of :: "(string \<Rightarrow> 'x \<Rightarrow> processed) \<Rightarrow> string list \<Rightarrow> (gel_exn + 'x) list \<Rightarrow> processed list" where
  "outcomes_of spec args ds = map (\<lambda>(a, d). case d of Inl e \<Rightarrow> Inl e | Inr x \<Rightarrow> spec a x) (zip args ds)"

abbreviation outcomes ::
  "(string \<Rightarrow> mem \<Rightarrow> elf_header \<Rightarrow> processed) \<Rightarrow> string list \<Rightarrow> (gel_exn + mem \<times> elf_header) list \<Rightarrow>
   processed list" where
  "outcomes spec \<equiv> outcomes_of (\<lambda>a (c, h). spec a c h)"

lemma outcomes_of_simps [simp]:
  "outcomes_of spec [] ds = []"
  "outcomes_of spec (a # args) (Inl e # ds) = Inl e # outcomes_of spec args ds"
  "outcomes_of spec (a # args) (Inr x # ds) = spec a x # outcomes_of spec args ds"
  by (simp_all add: outcomes_of_def)

lemma length_outcomes: "length args = length ds \<Longrightarrow> length (outcomes_of spec args ds) = length args"
  by (simp add: outcomes_of_def)

lemma outcomes_of_processes:
  assumes "list_all2 source args ds"
    and "\<And>a e. source a (Inl e) \<Longrightarrow> processes p a (Inl e)"
    and "\<And>a x. Inr x \<in> set ds \<Longrightarrow> source a (Inr x) \<Longrightarrow> processes p a (spec a x)"
  shows "list_all2 (processes p) args (outcomes_of spec args ds)"
  using assms
proof (induction rule: list_all2_induct)
  case Nil
  show ?case by simp
next
  case (Cons a args d ds)
  then show ?case
    by (cases d) simp_all
qed

lemma outcomes_of_gel:
  assumes "list_all2 source args ds" and "\<And>a e. source a (Inl e) \<Longrightarrow> is_gel_exception e"
    and "\<And>a x e. spec a x = Inl e \<Longrightarrow> is_gel_exception e"
  shows "\<forall>e. Inl e \<in> set (outcomes_of spec args ds) \<longrightarrow> is_gel_exception e"
  using assms(1)
proof (induction rule: list_all2_induct)
  case Nil
  show ?case by simp
next
  case (Cons a args d ds)
  then show ?case
    using assms(2,3) by (cases d) (auto dest: sym)
qed

text \<open>Each path is processed as its content says.\<close>

lemma outcomes_processes:
  assumes "list_all2 (elf_source opening M ct ps) args ds"
    and "\<And>a e. opening a = Inl (Throw e) \<Longrightarrow> processes p a (Inl e)"
    and "\<And>a c h. Inr (c, h) \<in> set ds \<Longrightarrow> opens_on M ct ps a c \<Longrightarrow> elf_content c h \<Longrightarrow>
      processes p a (spec a c h)"
  shows "list_all2 (processes p) args (outcomes spec args ds)"
  using assms(1) by (rule outcomes_of_processes) (use assms(2,3) in \<open>auto dest!: elf_sourceD\<close>)

lemma outcomes_gel:
  assumes "list_all2 (elf_source opening M ct ps) args ds" and "\<And>a c h e. spec a c h \<noteq> Inl e"
  shows "\<forall>e. Inl e \<in> set (outcomes spec args ds) \<longrightarrow> is_gel_exception e"
  using assms(1) by (rule outcomes_of_gel) (use assms(2) in \<open>auto dest!: elf_sourceD\<close>)

text \<open>The files that \<open>open\<close> and \<open>openELF\<close> find at some paths.\<close>

abbreviation files_opened ::
  "'s tool_env \<Rightarrow> ('s \<Rightarrow> mem) \<Rightarrow> ('s \<Rightarrow> nat) \<Rightarrow> string list \<Rightarrow> (gel_exn + mem \<times> elf_header) list \<Rightarrow> bool" where
  "files_opened T ct ps \<equiv>
     list_all2 (elf_source (openFile (ge_manager (te_gel T))) (ge_manager (te_gel T)) ct ps)"

abbreviation elf_files_opened ::
  "'s tool_env \<Rightarrow> ('s \<Rightarrow> mem) \<Rightarrow> ('s \<Rightarrow> nat) \<Rightarrow> string list \<Rightarrow> (gel_exn + mem \<times> elf_header) list \<Rightarrow> bool" where
  "elf_files_opened T ct ps \<equiv>
     list_all2 (elf_source (openELFFile (ge_manager (te_gel T))) (ge_manager (te_gel T)) ct ps)"

section \<open>Commands that go on\<close>

text \<open>Every file is processed, and an exception gives a line on the error stream.\<close>

definition all_files :: "(nat \<Rightarrow> gel_exn \<Rightarrow> out_item list) \<Rightarrow> processed list \<Rightarrow> console \<Rightarrow> console" where
  "all_files report rs c =
     c\<lparr>con_out := con_out c @ concat (map (case_sum (\<lambda>e. []) id) rs),
       con_err := con_err c @
         concat (map (\<lambda>i. case_sum (report i) (\<lambda>xs. []) (rs ! i)) [0..<length rs])\<rparr>"

definition opening_message :: "string \<Rightarrow> gel_exn \<Rightarrow> out_item list" where
  "opening_message a e =
     [Lit ''ERROR: when opening '', Txt (str_bytes a), Lit '': '', Msg e, Endl]"

lemma catch_opening:
  "p c = (Inr (), c') \<Longrightarrow> catch_gel (opening_error a) p c = (Inr (), c')"
  "p c = (Inl (Throw e), c') \<Longrightarrow> is_gel_exception e \<Longrightarrow>
   catch_gel (opening_error a) p c = (Inr (), c'\<lparr>con_err := con_err c' @ opening_message a e\<rparr>)"
  by (simp_all add: catch_gel_def opening_error_def opening_message_def)

lemma all_files_Nil: "all_files report [] c = c"
  by (simp add: all_files_def)

lemma all_files_snoc:
  "all_files report (rs @ [r]) c =
     (case r of
        Inl e \<Rightarrow> (all_files report rs c)\<lparr>con_err := con_err (all_files report rs c) @ report (length rs) e\<rparr>
      | Inr xs \<Rightarrow> (all_files report rs c)\<lparr>con_out := con_out (all_files report rs c) @ xs\<rparr>)"
proof -
  have "map (\<lambda>i. case_sum (report i) (\<lambda>xs. []) ((rs @ [r]) ! i)) [0..<length rs] =
      map (\<lambda>i. case_sum (report i) (\<lambda>xs. []) (rs ! i)) [0..<length rs]"
    by (rule map_cong) (simp_all add: nth_append)
  then show ?thesis
    by (simp add: all_files_def split: sum.splits del: map_eq_conv)
qed

locale continuing_command =
  fixes run :: "string list \<Rightarrow> (console, 'r) stm"
    and process :: "nat \<Rightarrow> string \<Rightarrow> (console, unit) stm"
    and shown :: "string list \<Rightarrow> nat \<Rightarrow> string"
    and status :: 'r
  assumes run_eq: "run args =
    sbind (sfor (\<lambda>i. catch_gel (opening_error (shown args i)) (process (length args) (args ! i)))
             [0..<length args]) (\<lambda>_. sreturn status)"
begin

lemma run_prefix:
  assumes "list_all2 (processes (process n)) args rs" and "\<forall>e. Inl e \<in> set rs \<longrightarrow> is_gel_exception e"
  shows "sfor (\<lambda>i. catch_gel (opening_error (shown xs i)) (process n (args ! i))) [0..<length args] c =
    (Inr (), all_files (\<lambda>i. opening_message (shown xs i)) rs c)"
  using assms
proof (induction args arbitrary: rs rule: rev_induct)
  case Nil
  then show ?case by (simp add: all_files_Nil)
next
  case (snoc a args)
  then obtain qs r where r: "rs = qs @ [r]" "list_all2 (processes (process n)) args qs" "processes (process n) a r"
    by (auto simp: list_all2_append1 list_all2_Cons1)
  have len: "length qs = length args"
    using r(2) by (simp add: list_all2_lengthD)
  let ?body = "\<lambda>as i. catch_gel (opening_error (shown xs i)) (process n (as ! i))"
  have "sfor (?body (args @ [a])) [0..<length args] = sfor (?body args) [0..<length args]"
    by (rule sfor_cong) (simp_all add: nth_append)
  then have "sfor (?body (args @ [a])) [0..<length args] c =
      (Inr (), all_files (\<lambda>i. opening_message (shown xs i)) qs c)"
    using snoc.IH [OF r(2)] snoc.prems(2) r(1) by simp
  moreover have "?body (args @ [a]) (length args) c' = (Inr (), case r of
      Inl e \<Rightarrow> c'\<lparr>con_err := con_err c' @ opening_message (shown xs (length args)) e\<rparr>
    | Inr ys \<Rightarrow> c'\<lparr>con_out := con_out c' @ ys\<rparr>)" for c'
    using r(1,3) snoc.prems(2)
    by (cases r) (simp_all add: catch_opening processesD)
  ultimately show ?case
    using r(1) len by (simp add: sfor_append all_files_snoc split: sum.splits)
qed

theorem run_all:
  assumes "list_all2 (processes (process (length args))) args rs"
    and "\<forall>e. Inl e \<in> set rs \<longrightarrow> is_gel_exception e"
  shows "run args c = (Inr status, all_files (\<lambda>i. opening_message (shown args i)) rs c)"
  using run_prefix [OF assms] by (simp add: run_eq)

end

section \<open>Commands that stop\<close>

text \<open>
  The files are processed up to the first exception; one that is not a \<open>gel::Exception\<close> ends the
  program.
\<close>

definition until_failure ::
  "int \<Rightarrow> (string \<Rightarrow> gel_exn \<Rightarrow> console \<Rightarrow> console) \<Rightarrow> string list \<Rightarrow> processed list \<Rightarrow> console \<Rightarrow>
   int res \<times> console" where
  "until_failure status report args rs c =
     (let n = length (takeWhile (Not \<circ> isl) rs);
          c' = c\<lparr>con_out := con_out c @ concat (map projr (take n rs))\<rparr> in
      if n = length rs then (Inr 0, c')
      else let e = projl (rs ! n) in
        if is_gel_exception e then (Inr status, report (args ! n) e c') else (Inl (Throw e), c'))"

lemma until_failure_simps [simp]:
  "until_failure status report [] [] c = (Inr 0, c)"
  "until_failure status report (a # args) (Inr xs # rs) c =
     until_failure status report args rs (c\<lparr>con_out := con_out c @ xs\<rparr>)"
  "until_failure status report (a # args) (Inl e # rs) c =
     (if is_gel_exception e then (Inr status, report a e c) else (Inl (Throw e), c))"
  by (simp_all add: until_failure_def Let_def)

lemma until_failure_status:
  assumes "\<forall>e. Inl e \<in> set rs \<longrightarrow> is_gel_exception e" and "length args = length rs"
  shows "ignored_status (fst (until_failure status report args rs c)) = Inr 0"
proof -
  have "is_gel_exception (projl (rs ! n))" if "n = length (takeWhile (Not \<circ> isl) rs)" "n \<noteq> length rs" for n
  proof -
    have n: "n < length rs"
      using that length_takeWhile_le [of "Not \<circ> isl" rs] by simp
    then have "isl (rs ! n)"
      using nth_length_takeWhile [of "Not \<circ> isl" rs] that by simp
    then show ?thesis
      using assms(1) nth_mem [OF n] by (metis sum.collapse(1))
  qed
  then show ?thesis
    by (simp add: until_failure_def Let_def ignored_status_def)
qed

lemma ignored_status_until:
  assumes "\<forall>e. Inl e \<in> set rs \<longrightarrow> is_gel_exception e" and "length args = length rs"
    and "x = until_failure status report args rs con"
  shows "(case x of (r, c) \<Rightarrow> (ignored_status r, c)) = (Inr 0, snd (until_failure status report args rs con))"
  using until_failure_status [OF assms(1,2), of status report con] by (simp add: assms(3) case_prod_unfold)

lemma ignored_until:
  assumes "list_all2 (elf_source opening M ct ps) args ds" and "\<And>a c h e. spec a c h \<noteq> Inl e"
    and "x = until_failure status report args (outcomes spec args ds) con"
  shows "(case x of (r, c) \<Rightarrow> (ignored_status r, c)) =
    (Inr 0, snd (until_failure status report args (outcomes spec args ds) con))"
  by (rule ignored_status_until [OF outcomes_gel [OF assms(1,2)] _ assms(3)])
    (use length_outcomes list_all2_lengthD [OF assms(1)] in metis)

text \<open>The ways the commands report an exception.\<close>

definition plain_report :: "gel_exn \<Rightarrow> console \<Rightarrow> console" where
  "plain_report e c = c\<lparr>con_err := con_err c @ [Lit ''ERROR: '', Msg e, Endl]\<rparr>"

definition help_report :: "gel_exn \<Rightarrow> console \<Rightarrow> console" where
  "help_report e c =
     c\<lparr>con_err := con_err c @ [Lit (newline # ''ERROR: ''), Msg e, Endl], con_help := con_help c + 1\<rparr>"

lemma plain_error_eq: "plain_error e c = (Inr (), plain_report e c)"
  by (simp add: plain_error_def plain_report_def)

text \<open>The loop over the files of the commands that return from inside their handler.\<close>

definition try_file ::
  "(gel_exn \<Rightarrow> (console, unit) stm) \<Rightarrow> (console, unit) stm \<Rightarrow> (console, int) stm \<Rightarrow> int \<Rightarrow> (console, int) stm" where
  "try_file h p rest status =
     sbind (catch_gel (\<lambda>e. sbind (h e) (\<lambda>_. sreturn False)) (sbind p (\<lambda>_. sreturn True)))
       (\<lambda>ok. if ok then rest else sreturn status)"

lemma try_file_eq:
  "p c = (Inr (), c') \<Longrightarrow> try_file h p rest status c = rest c'"
  "p c = (Inl (Throw e), c') \<Longrightarrow> h e c' = (Inr (), c'') \<Longrightarrow> is_gel_exception e \<Longrightarrow>
   try_file h p rest status c = (Inr status, c'')"
  "p c = (Inl (Throw e), c') \<Longrightarrow> \<not> is_gel_exception e \<Longrightarrow>
   try_file h p rest status c = (Inl (Throw e), c')"
  by (simp_all add: try_file_def catch_gel_def sbind_def catch_exn.simps sreturn_def)

locale stopping_command =
  fixes files :: "string list \<Rightarrow> (console, int) stm"
    and process :: "string \<Rightarrow> (console, unit) stm"
    and report :: "string \<Rightarrow> gel_exn \<Rightarrow> console \<Rightarrow> console"
    and status :: int
  assumes files_Nil: "files [] c = (Inr 0, c)"
    and files_Cons: "process a c = (Inr (), c') \<Longrightarrow> files (a # args) c = files args c'"
    and files_fail: "process a c = (Inl (Throw e), c') \<Longrightarrow>
      files (a # args) c =
        (if is_gel_exception e then (Inr status, report a e c') else (Inl (Throw e), c'))"
begin

theorem files_until:
  assumes "list_all2 (processes process) args rs"
  shows "files args c = until_failure status report args rs c"
  using assms
proof (induction arbitrary: c rule: list_all2_induct)
  case Nil
  show ?case by (simp add: files_Nil)
next
  case (Cons a args r rs)
  show ?case
  proof (cases r)
    case (Inl e)
    then show ?thesis
      using files_fail [OF processesD(2) [of process a e c]] Cons.hyps(1) by simp
  next
    case (Inr xs)
    then show ?thesis
      using files_Cons [OF processesD(1) [of process a xs c]] Cons.hyps(1) Cons.IH by simp
  qed
qed

end

section \<open>A system with one file\<close>

text \<open>For the witnesses: only the path \<open>a.out\<close> can be opened.\<close>

definition demo_disk :: "mem \<Rightarrow> u8 list list \<Rightarrow> (mem \<times> nat) tool_env" where
  "demo_disk c ks = (demo_tools c ks)
     \<lparr>te_gel := (te_gel (demo_tools c ks))
        \<lparr>ge_manager := (demo_manager c)
           \<lparr>mg_open := (\<lambda>p. if p = ''a.out'' then Inr (c, 0) else Inl ''missing'')\<rparr>\<rparr>\<rparr>"

lemma demo_disk_env:
  "te_elf (demo_disk c ks) = sample_env" "te_stack (demo_disk c ks) = Suc 0"
  "te_plug (demo_disk c ks) m = None" "te_order (demo_disk c ks) = (\<lambda>S. ks)"
  using demo_tools_env [of c ks]
  by (simp_all add: demo_disk_def demo_tools_def te_elf_def ge_elf_def te_stack_def te_plug_def
      ArchPlugin_plug_def demo_manager_def mg_elf_def)

lemma demo_disk_files:
  fixes c ks
  defines "T \<equiv> demo_disk c ks" and "missing \<equiv> Inl (System_Error ''missing'')"
  assumes "elf_content c h"
  shows "files_opened T fst snd [''a.out'', ''b.out''] [Inr (c, h), missing]"
    and "files_opened T fst snd [''b.out'', ''a.out''] [missing, Inr (c, h)]"
    and "elf_files_opened T fst snd [''a.out'', ''b.out''] [Inr (c, h), missing]"
    and "elf_files_opened T fst snd [''b.out'', ''a.out''] [missing, Inr (c, h)]"
  using pe_sample_stream assms(3)
  by (simp_all add: T_def missing_def elf_source_def opens_on_def demo_disk_def demo_tools_def
      demo_manager_def openFile_def openELFFile_def)

end
