(* ===== verification/Tool_Dyn_Props.thy ===== *)
theory Tool_Dyn_Props
  imports Tool_Dyn Tool_Files
begin

text \<open>
  The traversal of the dynamic entries by \<open>gel-dyn\<close> and what the command prints.
\<close>

section \<open>The traversal\<close>

text \<open>The entry at an offset of the content, and those of a content made of whole entries.\<close>

fun dyn_size :: "elf_header \<Rightarrow> nat" where
  "dyn_size (H32 h) = sizeof_Elf32_Dyn"
| "dyn_size (H64 h) = sizeof_Elf64_Dyn"

definition dyn_at :: "elf_header \<Rightarrow> decoder \<Rightarrow> mem \<Rightarrow> nat \<Rightarrow> dyn_t" where
  "dyn_at h d m a = (case fetchDyn h d m a of Inr e \<Rightarrow> e | Inl _ \<Rightarrow> \<lparr>dyn_tag = 0, dyn_val = 0\<rparr>)"

lemma fetchDyn_ok:
  "a + dyn_size h \<le> length m \<Longrightarrow> length m < 2 ^ 63 \<Longrightarrow> fetchDyn h d m a = Inr (dyn_at h d m a)"
  by (cases h) (simp_all add: dyn_at_def fetchDyn32_def fetchDyn64_def in_block_def Let_def)

definition dyn_pos :: "u64 \<Rightarrow> buffer \<Rightarrow> nat \<Rightarrow> dyn_t option \<Rightarrow> dyn_iter" where
  "dyn_pos ent b off x = \<lparr>di_size = ent, di_cur = (make_cursor b)\<lparr>cur_off := word_of_nat off\<rparr>, di_item = x\<rparr>"

lemma dyn_pos_simps [simp]:
  "cur_off (di_cur (dyn_pos ent b off x)) = word_of_nat off"
  "cur_buf (di_cur (dyn_pos ent b off x)) = b" "di_size (dyn_pos ent b off x) = ent"
  "di_item (dyn_pos ent b off x) = x"
  "dyn_pos ent b off x\<lparr>di_item := y\<rparr> = dyn_pos ent b off y"
  by (simp_all add: dyn_pos_def make_cursor_def)

lemma dyn_fetch_pos:
  assumes b: "b = make_buffer d (Some m) (word_of_nat (length m))" and len: "length m < 2 ^ 63"
    and off: "off + dyn_size h \<le> length m \<or> off = length m"
  shows "dyn_fetch h (dyn_pos ent b off x) =
    Inr (dyn_pos ent b off (if off < length m then Some (dyn_at h d m off) else x))"
proof (cases "off < length m")
  case True
  then have "word_of_nat off < (word_of_nat (length m) :: u64)"
    using len by (simp add: word_less_nat_alt unat_of_nat)
  moreover have "off + dyn_size h \<le> length m"
    using off True by auto
  ultimately show ?thesis
    using True b len
    by (simp add: dyn_fetch_def Let_def cur_ended_def cur_size_def cur_here_def buf_at_def make_buffer_def
        buf_decoder_def fetchDyn_ok unat_of_nat not_le)
next
  case False
  then have "off = length m"
    using off by auto
  then show ?thesis
    using b by (simp add: dyn_fetch_def Let_def cur_ended_def cur_size_def make_buffer_def)
qed

definition dyn_entries :: "elf_header \<Rightarrow> decoder \<Rightarrow> mem \<Rightarrow> nat \<Rightarrow> dyn_t list" where
  "dyn_entries h d m ent = map (\<lambda>i. dyn_at h d m (i * ent)) [0..<length m div ent]"

text \<open>A step of the iterator, from one entry to the next, or without effect at the end.\<close>

lemma cur_skip_pos:
  assumes b: "b = make_buffer d (Some m) (word_of_nat (length m))" and len: "length m < 2 ^ 63"
    and off: "off \<le> length m" and e: "unat ent < 2 ^ 63"
  shows "(dyn_pos ent b off x)\<lparr>di_cur := snd (cur_skip (di_cur (dyn_pos ent b off x)) ent)\<rparr> =
    dyn_pos ent b (if off + unat ent \<le> length m then off + unat ent else off) x"
proof -
  have "unat (word_of_nat off + ent) = off + unat ent"
    using len off e by (simp add: unat_word_ariths unat_of_nat)
  then have "word_of_nat off + ent \<le> (word_of_nat (length m) :: u64) \<longleftrightarrow> off + unat ent \<le> length m"
    using len by (simp add: word_le_nat_alt unat_of_nat)
  then show ?thesis
    using b by (simp add: dyn_pos_def cur_skip_def cur_avail_def cur_size_def make_cursor_def make_buffer_def)
qed

lemma entry_equals_pos:
  assumes b: "b = make_buffer d (Some m) (word_of_nat (length m))" and len: "length m < 2 ^ 63"
    and off: "off \<le> length m"
  shows "entry_equals (dyn_pos ent b off x) (dyn_end ent b) \<longleftrightarrow> off = length m"
proof -
  have "word_of_nat off = (word_of_nat (length m) :: u64) \<longleftrightarrow> off = length m"
    using len off by (auto simp: word_eq_iff_unsigned unat_of_nat dest: arg_cong [where f = unat])
  then show ?thesis
    using b by (simp add: entry_equals_def dyn_end_def cur_finish_def cur_size_def make_cursor_def make_buffer_def)
qed

lemma dyn_start_pos: "dyn_start h ent b = dyn_fetch h (dyn_pos ent b 0 None)"
  by (simp add: dyn_start_def dyn_pos_def make_cursor_def)


lemma dyn_loop_entries:
  assumes b: "b = make_buffer d (Some m) (word_of_nat (length m))" and len: "length m < 2 ^ 63"
    and n: "length m = n * unat ent" and sz: "dyn_size h \<le> unat ent"
    and i: "i \<le> n" "n - i < k" and x: "i < n \<longrightarrow> x = Some (dyn_at h d m (i * unat ent))"
  shows "dyn_loop h body k (dyn_pos ent b (i * unat ent) x) (dyn_end ent b) =
    sfor body (map (\<lambda>i. dyn_at h d m (i * unat ent)) [i..<n])"
  using i x
proof (induction k arbitrary: i x)
  case 0
  then show ?case by simp
next
  case (Suc k)
  let ?e = "unat ent"
  have le: "j \<le> n \<Longrightarrow> j * ?e \<le> length m" for j
    unfolding n by simp
  show ?case
  proof (cases "i = n")
    case True
    then show ?thesis
      using entry_equals_pos [OF b len] n by simp
  next
    case False
    then have i: "i < n"
      using Suc.prems(1) by simp
    have step: "i * ?e + ?e = Suc i * ?e" "Suc i * ?e \<le> length m"
      using le [of "Suc i"] i by simp_all
    have "i * ?e < length m"
      using step i sz by (cases h) (simp_all add: sizeof_Elf32_Dyn_def sizeof_Elf64_Dyn_def)
    moreover have "?e < 2 ^ 63"
      using step len by simp
    ultimately have nx: "dyn_next h (dyn_pos ent b (i * ?e) x) =
        dyn_fetch h (dyn_pos ent b (Suc i * ?e) x)"
      using cur_skip_pos [OF b len, of "i * ?e" ent x] step by (simp add: dyn_next_def)
    have "Suc i * ?e + dyn_size h \<le> length m \<or> Suc i * ?e = length m"
    proof (cases "Suc i = n")
      case False
      then have "Suc (Suc i) * ?e \<le> length m"
        using le [of "Suc (Suc i)"] i by linarith
      then show ?thesis
        using sz by simp
    qed (simp add: n)
    then obtain y where y: "dyn_next h (dyn_pos ent b (i * ?e) x) = Inr (dyn_pos ent b (Suc i * ?e) y)"
      "Suc i * ?e < length m \<longrightarrow> y = Some (dyn_at h d m (Suc i * ?e))"
      unfolding nx using dyn_fetch_pos [OF b len, of "Suc i * ?e" h ent x] by auto
    have "Suc i * ?e < length m" if "Suc i < n"
      using that step(1) i sz unfolding n
      by (cases h) (simp_all add: sizeof_Elf32_Dyn_def sizeof_Elf64_Dyn_def del: mult_Suc)
    have ne: "\<not> entry_equals (dyn_pos ent b (i * ?e) x) (dyn_end ent b)"
      using entry_equals_pos [OF b len, of "i * ?e" ent x] \<open>i * ?e < length m\<close> by simp
    have "dyn_loop h body k (dyn_pos ent b (Suc i * ?e) y) (dyn_end ent b) =
        sfor body (map (\<lambda>i. dyn_at h d m (i * ?e)) [Suc i..<n])"
      by (rule Suc.IH) (use i Suc.prems(2) y(2) \<open>Suc i < n \<Longrightarrow> _\<close> in auto)
    then show ?thesis
      using ne Suc.prems(3) i y(1) by (simp add: upt_conv_Cons del: upt_Suc mult_Suc)
  qed
qed

lemma dyn_range_entries:
  assumes b: "b = make_buffer d (Some m) (word_of_nat (length m))" and len: "length m < 2 ^ 63"
    and dv: "unat ent dvd length m" and sz: "dyn_size h \<le> unat ent" and k: "length m div unat ent < k"
  shows "dyn_range h ent b body k = sfor body (dyn_entries h d m (unat ent))"
proof -
  have e: "0 < unat ent"
    using sz by (cases h) (simp_all add: sizeof_Elf32_Dyn_def sizeof_Elf64_Dyn_def)
  have n: "length m = length m div unat ent * unat ent"
    using dv by simp
  have "0 + dyn_size h \<le> length m \<or> 0 = length m"
    using dv sz dvd_imp_le [OF dv] by linarith
  then obtain y where "dyn_start h ent b = Inr (dyn_pos ent b 0 y)"
    "0 < length m \<longrightarrow> y = Some (dyn_at h d m 0)"
    unfolding dyn_start_pos using dyn_fetch_pos [OF b len, of 0 h ent None] by auto
  moreover have "dyn_loop h body k (dyn_pos ent b (0 * unat ent) y) (dyn_end ent b) =
      sfor body (map (\<lambda>i. dyn_at h d m (i * unat ent)) [0..<length m div unat ent])"
    by (rule dyn_loop_entries [OF b len n sz]) (use k calculation(2) e in \<open>auto simp: div_greater_zero_iff\<close>)
  ultimately show ?thesis
    by (simp add: dyn_range_def dyn_entries_def)
qed

text \<open>
  When the size of the section is not a multiple of the one of its entries, the iterator never
  reaches the end.
\<close>

lemma dyn_loop_stuck:
  assumes b: "b = make_buffer d (Some m) (word_of_nat (length m))" and len: "length m < 2 ^ 63"
    and e: "unat ent < 2 ^ 63" and dv: "\<not> unat ent dvd length m"
    and off: "unat ent dvd off" "off \<le> length m"
  shows "fst (dyn_loop h body k (dyn_pos ent b off x) (dyn_end ent b) s) \<noteq> Inr ()"
  using off
proof (induction k arbitrary: off x s)
  case 0
  then show ?case by simp
next
  case (Suc k)
  let ?off = "if off + unat ent \<le> length m then off + unat ent else off"
  have ne: "\<not> entry_equals (dyn_pos ent b off x) (dyn_end ent b)"
    using Suc.prems dv entry_equals_pos [OF b len Suc.prems(2)] by auto
  have nx: "dyn_next h (dyn_pos ent b off x) = dyn_fetch h (dyn_pos ent b ?off x)"
    using cur_skip_pos [OF b len Suc.prems(2) e] by (simp add: dyn_next_def)
  have "\<exists>y. it = dyn_pos ent b ?off y" if "dyn_fetch h (dyn_pos ent b ?off x) = Inr it" for it
    using that b
    by (auto simp: dyn_fetch_def Let_def make_buffer_def buf_decoder_def res_iff split: if_splits)
  moreover have "unat ent dvd ?off" "?off \<le> length m"
    using Suc.prems by auto
  ultimately have "fst (dyn_loop h body k it (dyn_end ent b) t) \<noteq> Inr ()"
    if "dyn_fetch h (dyn_pos ent b ?off x) = Inr it" for it t
    using that Suc.IH by blast
  then show ?case
    using ne nx by (auto simp: sbind_def slift_def split: prod.splits sum.splits)
qed


section \<open>The output\<close>

text \<open>What is printed of an entry, \<open>strs\<close> being the strings of the linked section.\<close>

definition spec_dyn_value :: "address_type_t \<Rightarrow> (u64 \<Rightarrow> u8 list) \<Rightarrow> int \<Rightarrow> u64 \<Rightarrow> out_item list" where
  "spec_dyn_value t strs tag v =
     (if tag \<in> set dyn_strings then [Txt (strs v)]
      else if tag \<in> set dyn_numbers then [Num [] (uint v)]
      else if tag \<in> set dyn_addresses then [format_address t v]
      else if tag = 30 then dyn_flags v
      else [])"

definition spec_dyn_line ::
  "address_type_t \<Rightarrow> arch_plugin option \<Rightarrow> (u64 \<Rightarrow> u8 list) \<Rightarrow> dyn_t \<Rightarrow> out_item list" where
  "spec_dyn_line t plug strs d =
     (let tag = sint (dyn_tag d); v = dyn_val d in
      if tag = 0 then []
      else if DT_COUNT \<le> tag then dyn_foreign t plug tag v
      else [Str [Width dyn_width] [Lit (dyn_labels ! nat tag)], Lit '': ''] @
           spec_dyn_value t strs tag v @ [Endl])"

lemma dyn_value_writes:
  assumes "tag \<in> set dyn_strings \<Longrightarrow> \<forall>f. I f \<longrightarrow> (\<exists>f'. I f' \<and> str v f = (Inr (strs v), f'))"
  shows "writes I (dyn_value t str tag v) () (spec_dyn_value t strs tag v)"
proof (cases "tag \<in> set dyn_strings")
  case True
  have "writes I (in_file (str v)) (strs v) []"
    by (rule writes_in_file) (use assms True in blast)
  then show ?thesis
    using True by (auto simp: dyn_value_def spec_dyn_value_def intro: writes_bind writes_emit)
next
  case False
  then show ?thesis
    by (simp add: dyn_value_def spec_dyn_value_def writes_emit writes_return del: stm_simps)
qed

lemma dyn_print_writes:
  assumes "0 \<le> sint (dyn_tag d)"
    and "sint (dyn_tag d) \<in> set dyn_strings \<Longrightarrow>
      \<forall>f. I f \<longrightarrow> (\<exists>f'. I f' \<and> str (dyn_val d) f = (Inr (strs (dyn_val d)), f'))"
  shows "writes I (dyn_print t plug str d) () (spec_dyn_line t plug strs d)"
proof -
  let ?tag = "sint (dyn_tag d)" and ?v = "dyn_val d"
  have "writes I (sbind (dyn_value t str ?tag ?v) (\<lambda>_. emit [Endl])) ()
      (spec_dyn_value t strs ?tag ?v @ [Endl])"
    by (rule writes_bind [OF dyn_value_writes writes_emit refl]) (use assms(2) in blast)
  then have "writes I (sbind (emit [Str [Width dyn_width] [Lit (dyn_labels ! nat ?tag)], Lit '': ''])
        (\<lambda>_. sbind (dyn_value t str ?tag ?v) (\<lambda>_. emit [Endl]))) ()
      ([Str [Width dyn_width] [Lit (dyn_labels ! nat ?tag)], Lit '': ''] @
       spec_dyn_value t strs ?tag ?v @ [Endl])"
    by (rule writes_bind [OF writes_emit _ refl])
  then show ?thesis
    using assms(1)
    by (simp add: dyn_print_def spec_dyn_line_def Let_def writes_emit writes_return not_less
        del: stm_simps sbind_units)
qed

text \<open>A dynamic section that can be printed: whole entries, and strings that can be read.\<close>

definition link_index :: "shdr_info \<Rightarrow> nat" where
  "link_index p = nat (sint (sh_link p))"

definition dyn_string :: "mem \<Rightarrow> elf_header \<Rightarrow> shdr_info \<Rightarrow> u64 \<Rightarrow> u8 list res" where
  "dyn_string c h p v = cstr_at (sec_data (head_decoder h) c (sec_infos c h ! link_index p)) (unat v)"

definition dyn_sec_entries :: "mem \<Rightarrow> elf_header \<Rightarrow> shdr_info \<Rightarrow> dyn_t list" where
  "dyn_sec_entries c h p = dyn_entries h (head_decoder h) (sec_raw c p) (unat (sh_entsize p))"

definition dyn_entry_ok :: "mem \<Rightarrow> elf_header \<Rightarrow> shdr_info \<Rightarrow> dyn_t \<Rightarrow> bool" where
  "dyn_entry_ok c h p d \<longleftrightarrow>
     0 \<le> sint (dyn_tag d) \<and>
     (sint (dyn_tag d) \<in> set dyn_strings \<longrightarrow>
        0 \<le> sint (sh_link p) \<and> link_index p < length (sec_infos c h) \<and>
        sec_ok c (sec_infos c h ! link_index p) \<and>
        dyn_val d < sh_size (sec_infos c h ! link_index p) \<and>
        (\<exists>x. dyn_string c h p (dyn_val d) = Inr x))"

definition dyn_sec_ok :: "mem \<Rightarrow> elf_header \<Rightarrow> shdr_info \<Rightarrow> bool" where
  "dyn_sec_ok c h p \<longleftrightarrow>
     sec_ok c p \<and> dyn_size h \<le> unat (sh_entsize p) \<and>
     unat (sh_entsize p) dvd unat (sh_size p) \<and> (\<forall>d \<in> set (dyn_sec_entries c h p). dyn_entry_ok c h p d)"

definition spec_dyn_section ::
  "mem \<Rightarrow> elf_header \<Rightarrow> arch_plugin option \<Rightarrow> shdr_info \<Rightarrow> out_item list" where
  "spec_dyn_section c h plug p =
     concat (map (spec_dyn_line (elf_addressType h) plug (\<lambda>v. projr (dyn_string c h p v)))
               (dyn_sec_entries c h p))"

lemma length_sec_raw: "sec_ok c p \<Longrightarrow> length (sec_raw c p) = unat (sh_size p)"
  by (simp add: sec_ok_def sec_raw_def)

context elf_host
begin

lemma dyn_string_ok:
  assumes ok: "dyn_entry_ok c h p d" and fit: "secs_fit c h" and s: "sint (dyn_tag d) \<in> set dyn_strings"
    and f: "elf_opened E ct c h f"
  shows "\<exists>f'. elf_opened E ct c h f' \<and>
    stringAt E (Suc n) (sint (sh_link p)) (dyn_val d) f = (Inr (projr (dyn_string c h p (dyn_val d))), f')"
proof -
  have k: "0 \<le> sint (sh_link p)" "nat (sint (sh_link p)) < length (sec_infos c h)"
    "sec_ok c (sec_infos c h ! nat (sint (sh_link p)))"
    "dyn_val d < sh_size (sec_infos c h ! nat (sint (sh_link p)))"
    and ex: "\<exists>x. dyn_string c h p (dyn_val d) = Inr x"
    using ok s by (simp_all only: dyn_entry_ok_def link_index_def simp_thms)
  obtain x where x: "dyn_string c h p (dyn_val d) = Inr x"
    using ex by (elim exE)
  have "elf_inv E ct c h f"
    using f by (simp add: elf_opened_def)
  then obtain f' where f': "stringAt E (Suc n) (sint (sh_link p)) (dyn_val d) f =
      (dyn_string c h p (dyn_val d), f')" "elf_inv E ct c h f'" "el_sects_loaded f'"
    using stringAt_ok [OF _ fit k] unfolding dyn_string_def link_index_def by blast
  show ?thesis
    by (intro exI [of _ f'] conjI, simp add: elf_opened_def f'(2,3), simp only: f'(1) x sum.sel)
qed

lemma dyn_sec_okD:
  assumes "dyn_sec_ok c h p"
  shows "sec_ok c p" and "dyn_size h \<le> unat (sh_entsize p)"
    and "unat (sh_entsize p) dvd length (sec_raw c p)" and "length (sec_raw c p) < 2 ^ 63"
    and "d \<in> set (dyn_sec_entries c h p) \<Longrightarrow> dyn_entry_ok c h p d"
  using assms by (auto simp: dyn_sec_ok_def length_sec_raw) (simp add: sec_ok_def)

lemma dyn_section_writes:
  assumes T: "te_elf T = E" "te_stack T = Suc n" and fit: "secs_fit c h"
    and i: "i < length (sec_infos c h)" "sh_type (sec_infos c h ! i) = SHT_DYNAMIC"
    and ok: "dyn_sec_ok c h (sec_infos c h ! i)"
    and k: "length (dyn_sec_entries c h (sec_infos c h ! i)) < k"
  shows "writes (elf_opened E ct c h) (dyn_section T k plug i) ()
    (spec_dyn_section c h plug (sec_infos c h ! i))"
  unfolding dyn_section_def T
proof (rule writes_call [where P = "\<lambda>b. b = make_buffer (head_decoder h)
    (Some (sec_raw c (sec_infos c h ! i))) (word_of_nat (length (sec_raw c (sec_infos c h ! i))))"])
  let ?p = "sec_infos c h ! i"
  note sok = dyn_sec_okD(1) [OF ok]
  have "\<not> is_symtab ?p"
    using i(2) by (simp add: is_symtab_def elf_type_consts)
  then have data: "sec_data (head_decoder h) c ?p = sec_raw c ?p"
    by (simp add: sec_data_def)
  fix f assume "elf_opened E ct c h f"
  then show "\<exists>b f'. elf_opened E ct c h f' \<and> section_content E (Suc n) i f = (Inr b, f') \<and>
      b = make_buffer (head_decoder h) (Some (sec_raw c ?p)) (word_of_nat (length (sec_raw c ?p)))"
    using section_content_ok [OF _ _ i(1) sok] data
    by (simp add: elf_opened_def length_sec_raw [OF sok]) blast
next
  let ?p = "sec_infos c h ! i"
  fix b assume b: "b = make_buffer (head_decoder h) (Some (sec_raw c ?p)) (word_of_nat (length (sec_raw c ?p)))"
  show "writes (elf_opened E ct c h) (sbind (in_file sget) (\<lambda>f.
      let p = sec_info (el_sects f ! i) in
      dyn_range (el_head f) (sh_entsize p) b
        (dyn_print (elf_addressType (el_head f)) plug (stringAt E (Suc n) (sint (sh_link p)))) k)) ()
      (spec_dyn_section c h plug ?p)"
  proof (rule writes_get)
    fix f assume f: "elf_opened E ct c h f"
    let ?body = "dyn_print (elf_addressType h) plug (stringAt E (Suc n) (sint (sh_link ?p)))"
    have "dyn_range h (sh_entsize ?p) b ?body k = sfor ?body (dyn_sec_entries c h ?p)"
      unfolding dyn_sec_entries_def
      by (rule dyn_range_entries [OF b dyn_sec_okD(4,3,2) [OF ok]]) (use k in \<open>simp add: dyn_sec_entries_def dyn_entries_def\<close>)
    moreover have "writes (elf_opened E ct c h) (sfor ?body (dyn_sec_entries c h ?p)) ()
        (spec_dyn_section c h plug ?p)"
      unfolding spec_dyn_section_def
      by (rule writes_sfor, rule dyn_print_writes)
        (use dyn_sec_okD(5) [OF ok] dyn_string_ok [OF _ fit] in \<open>auto simp: dyn_entry_ok_def simp del: stringAt.simps\<close>)
    ultimately show "writes (elf_opened E ct c h) (let p = sec_info (el_sects f ! i) in
        dyn_range (el_head f) (sh_entsize p) b
          (dyn_print (elf_addressType (el_head f)) plug (stringAt E (Suc n) (sint (sh_link p)))) k) ()
        (spec_dyn_section c h plug ?p)"
      using elf_opened_head [OF f] elf_opened_sects(2) [OF f i(1)] by (simp add: Let_def)
  qed
qed

text \<open>The whole file, whose sections may not be loaded yet.\<close>

lemma dyn_processELF_ok:
  assumes T: "te_elf T = E" "te_stack T = Suc n" and fit: "secs_fit c h"
    and inv: "elf_inv E ct c h (tl_file t)"
    and ok: "\<And>p. p \<in> set (sec_infos c h) \<Longrightarrow> sh_type p = SHT_DYNAMIC \<Longrightarrow>
      dyn_sec_ok c h p \<and> length (dyn_sec_entries c h p) < k"
  shows "\<exists>f'. dyn_processELF T k t = (Inr (), t\<lparr>con_out := con_out t @
        concat (map (spec_dyn_section c h (te_plug T (elf_machine h)))
          (filter (\<lambda>p. sh_type p = SHT_DYNAMIC) (sec_infos c h))), tl_file := f'\<rparr>) \<and>
    elf_opened E ct c h f'"
proof -
  let ?plug = "te_plug T (elf_machine h)" and ?ps = "sec_infos c h"
  let ?body = "\<lambda>i. if sh_type (?ps ! i) = SHT_DYNAMIC then dyn_section T k ?plug i else sreturn ()"
  let ?out = "\<lambda>p. if sh_type p = SHT_DYNAMIC then spec_dyn_section c h ?plug p else []"
  obtain f where f: "sections E (tl_file t) = (Inr (el_sects f), f)" "elf_opened E ct c h f"
    using sections_ok [OF inv fit] by (auto simp: elf_opened_def)
  have "writes (elf_opened E ct c h) (sfor ?body [0..<length ?ps]) ()
      (concat (map (\<lambda>i. ?out (?ps ! i)) [0..<length ?ps]))"
    by (rule writes_sfor)
      (use dyn_section_writes [OF T fit] ok in \<open>auto simp: writes_return simp del: stm_simps\<close>)
  moreover have "sfor (\<lambda>i. if sh_type (sec_info (el_sects f ! i)) = SHT_DYNAMIC
        then dyn_section T k ?plug i else sreturn ()) [0..<length (el_sects f)] =
      sfor ?body [0..<length ?ps]"
    by (rule sfor_cong) (simp_all add: elf_opened_sects [OF f(2)])
  moreover have "concat (map (\<lambda>i. ?out (?ps ! i)) [0..<length ?ps]) =
      concat (map (spec_dyn_section c h ?plug) (filter (\<lambda>p. sh_type p = SHT_DYNAMIC) ?ps))"
    by (simp only: map_index_nth [of ?out] concat_map_if)
  ultimately show ?thesis
    using writesD [of _ _ _ _ "t\<lparr>tl_file := f\<rparr>"] f inv T
    by (fastforce simp: dyn_processELF_def Let_def elf_inv_def)
qed

end

section \<open>A file with a dynamic section\<close>

text \<open>
  A little-endian ELF file for ARM whose dynamic section needs the library \<open>m\<close> and has its
  strings at \<open>0x34\<close>.
\<close>

definition dyn_sample :: mem where
  "dyn_sample =
    [127, 69, 76, 70, 1, 1, 1, 0, 0, 0, 0, 0, 0, 0, 0, 0, 2, 0, 40, 0, 1, 0, 0, 0, 0, 0, 0, 0,
     0, 0, 0, 0, 79, 0, 0, 0, 0, 0, 0, 0, 52, 0, 32, 0, 0, 0, 40, 0, 3, 0, 1, 0, 0, 109, 0, 1, 0,
     0, 0, 1, 0, 0, 0, 5, 0, 0, 0, 52, 0, 0, 0, 0, 0, 0, 0, 0, 0, 0, 0, 0, 0, 0, 0, 0, 0, 0, 0,
     0, 0, 0, 0, 0, 0, 0, 0, 0, 0, 0, 0, 0, 0, 0, 0, 0, 0, 0, 0, 0, 0, 0, 0, 1, 0, 0, 0, 0, 0, 0,
     0, 0, 0, 0, 0, 3, 0, 0, 0, 0, 0, 0, 0, 0, 0, 0, 0, 52, 0, 0, 0, 3, 0, 0, 0, 0, 0, 0, 0, 0,
     0, 0, 0, 1, 0, 0, 0, 0, 0, 0, 0, 0, 0, 0, 0, 6, 0, 0, 0, 0, 0, 0, 0, 0, 0, 0, 0, 55, 0, 0,
     0, 24, 0, 0, 0, 1, 0, 0, 0, 0, 0, 0, 0, 1, 0, 0, 0, 8, 0, 0, 0]"

definition dyn_header :: Elf32_Ehdr where
  "dyn_header = lines_header\<lparr>e_shoff32 := 79\<rparr>"

abbreviation dyn_head :: elf_header where
  "dyn_head \<equiv> H32 dyn_header"

lemma length_dyn_sample: "length dyn_sample = 199"
  by (simp add: dyn_sample_def)

lemma load_dyn_sample:
  "a + 2 \<le> 199 \<Longrightarrow> elf_fix16 1 (load16 dyn_sample a) = word_of_nat (le_nat (bytes_at dyn_sample a 2))"
  "a + 4 \<le> 199 \<Longrightarrow> elf_fix32 1 (load32 dyn_sample a) = word_of_nat (le_nat (bytes_at dyn_sample a 4))"
  by (simp_all add: fix_load length_dyn_sample word_of_bytes_def ELFDATA2LSB_def le_word_nat)

lemma dyn_header_simps:
  "e_ident32 dyn_header ! EI_DATA = 1" "unat (e_shoff32 dyn_header) = 79"
  "unat (e_shentsize32 dyn_header) = 40" "unat (e_shnum32 dyn_header) = 3"
  by (simp_all add: dyn_header_def lines_header_simps)

lemma header_dyn: "elf32_header dyn_sample = dyn_header"
proof -
  have "dyn_sample ! EI_DATA = 1"
    by (simp add: dyn_sample_def elf_ident_consts)
  then show ?thesis
    by (simp add: elf32_header_def dyn_header_def lines_header_def conv_Elf32_Ehdr_def
        load_Elf32_Ehdr_def load_dyn_sample)
      (simp add: load_defs dyn_sample_def bytes_at_def le_word_nat)
qed

lemma dyn_decoder: "head_decoder dyn_head = little_decoder"
  using lines_decoder by (simp add: head_decoder_def dyn_header_simps lines_header_simps)

lemma content_dyn: "elf_content dyn_sample dyn_head"
  by (simp add: elf_content_def sizeof_Elf32_Ehdr_def length_dyn_sample header_dyn dyn_header_def
      lines_header_def) (simp add: dyn_sample_def elf_ident_consts)

abbreviation dyn_strtab :: shdr_info where "dyn_strtab \<equiv> SH32 (sample_sh 0 3 52 3 0 0)"
abbreviation dyn_table :: shdr_info where "dyn_table \<equiv> SH32 (sample_sh 0 6 55 24 1 8)"

lemma sec_infos_dyn:
  "sec_infos dyn_sample dyn_head = [SH32 (sample_sh 0 0 0 0 0 0), dyn_strtab, dyn_table]"
  by (simp add: sec_infos.simps dyn_header_simps upto3 elf32_shdr_def conv_Elf32_Shdr_def
      load_Elf32_Shdr_def load_dyn_sample) (simp add: bytes_at_def dyn_sample_def sample_sh_def)

lemma fit_dyn: "secs_fit dyn_sample dyn_head"
  by (simp add: shdrs_fit32_def dyn_header_simps length_dyn_sample sizeof_Elf32_Shdr_def)

lemma sec_ok_dyn: "sec_ok dyn_sample dyn_strtab" "sec_ok dyn_sample dyn_table"
  by (simp_all add: sec_ok_def length_dyn_sample sample_sec_simps sh_size.simps)

lemma dyn_types: "sh_type (SH32 (sample_sh nm ty off sz link ent)) = ty"
  by (simp add: sample_sec_simps)

lemma dyn_contents:
  "sec_data d dyn_sample dyn_strtab = [0, 109, 0]"
  "sec_raw dyn_sample dyn_table =
     [1, 0, 0, 0, 1, 0, 0, 0, 5, 0, 0, 0, 52, 0, 0, 0, 0, 0, 0, 0, 0, 0, 0, 0]"
  by (simp_all add: sec_data_def sec_raw_def sample_sec_simps sh_size.simps)
    (simp_all add: bytes_at_def dyn_sample_def)

lemma dyn_entsize: "unat (sh_entsize dyn_table) = 8"
  by (simp add: sample_sh_def Section32_entsize_def)

lemma dyn_entries_sample:
  "dyn_sec_entries dyn_sample dyn_head dyn_table =
     [\<lparr>dyn_tag = 1, dyn_val = 1\<rparr>, \<lparr>dyn_tag = 5, dyn_val = 52\<rparr>, \<lparr>dyn_tag = 0, dyn_val = 0\<rparr>]"
  unfolding dyn_sec_entries_def dyn_entries_def dyn_contents dyn_entsize dyn_decoder
  by (simp add: upt_rec dyn_at_def fetchDyn32_def
      in_block_def sizeof_Elf32_Dyn_def Let_def conv_Elf32_Dyn_def load_Elf32_Dyn_def
      load32_def bytes_at_def le_word_nat little_decoder_def swap32_def)

lemma dyn_string_sample:
  "link_index dyn_table = 1" "dyn_string dyn_sample dyn_head dyn_table 1 = Inr [109]"
proof -
  show "link_index dyn_table = 1"
    by (simp add: link_index_def sample_sh_def Section32_link_def)
  then show "dyn_string dyn_sample dyn_head dyn_table 1 = Inr [109]"
    unfolding dyn_string_def sec_infos_dyn by (simp add: dyn_contents cstr_at_def)
qed

lemma dyn_sec_ok_sample: "dyn_sec_ok dyn_sample dyn_head dyn_table"
  unfolding dyn_sec_ok_def dyn_entries_sample dyn_entsize dyn_entry_ok_def sec_infos_dyn
  by (simp add: sec_ok_dyn dyn_kinds dyn_string_sample sizeof_Elf32_Dyn_def
      del: sh_size.simps sh_link.simps sh_entsize.simps)

section \<open>The properties\<close>

text \<open>The sections of a file that the command can print, with at most \<open>k\<close> entries each.\<close>

definition dyn_printable :: "mem \<Rightarrow> elf_header \<Rightarrow> nat \<Rightarrow> bool" where
  "dyn_printable c h k \<longleftrightarrow>
     secs_fit c h \<and>
     (\<forall>p \<in> set (sec_infos c h). sh_type p = SHT_DYNAMIC \<longrightarrow>
        dyn_sec_ok c h p \<and> length (dyn_sec_entries c h p) < k)"

definition spec_dyn_file :: "mem \<Rightarrow> elf_header \<Rightarrow> arch_plugin option \<Rightarrow> out_item list" where
  "spec_dyn_file c h plug =
     concat (map (spec_dyn_section c h plug)
       (filter (\<lambda>p. sh_type p = SHT_DYNAMIC) (sec_infos c h)))"

text \<open>What \<open>gel-dyn\<close> does of one file of \<open>n\<close>.\<close>

definition spec_dyn_command :: "'s tool_env \<Rightarrow> nat \<Rightarrow> string \<Rightarrow> mem \<Rightarrow> elf_header \<Rightarrow> processed" where
  "spec_dyn_command T n a c h =
     (let xs = spec_dyn_file c h (te_plug T (elf_machine h)) in
      Inr (if 1 < n then [Lit ''FILE: '', Txt (str_bytes a), Endl] @ xs @ [Endl] else xs))"

lemma dyn_file_ok:
  assumes o: "opens_on (ge_manager (te_gel T)) ct ps path c" and A: "elm_array_spec (env_array (te_elf T))"
    and n: "te_stack T = Suc n" and c: "elf_content c h" and ok: "dyn_printable c h k"
  shows "processes (dyn_file T k j) path (spec_dyn_command T j path c h)"
proof -
  have E: "elf_host (te_elf T) ct ps"
    using opens_on_host [OF o] A by (simp add: te_elf_def)
  obtain f where f: "elf_inv (te_elf T) ct c h f"
    "manager_open (te_gel T) path = Inr \<lparr>of_path = path, of_obj = ELF_file f, of_debug = None\<rparr>"
    using manager_open_elf [OF o c] by blast
  have "with_file f (dyn_processELF T k) con =
      (Inr (), con\<lparr>con_out := con_out con @ spec_dyn_file c h (te_plug T (elf_machine h))\<rparr>)" for con
  proof -
    let ?t = "console.extend con (tool.fields f)"
    obtain f' where "dyn_processELF T k ?t = (Inr (), ?t\<lparr>con_out := con_out con @
        spec_dyn_file c h (te_plug T (elf_machine h)), tl_file := f'\<rparr>)"
      using elf_host.dyn_processELF_ok [OF E refl n _ , of c h ?t k] f(1) ok
      by (auto simp: dyn_printable_def spec_dyn_file_def)
    then show ?thesis
      by (rule with_file_out)
  qed
  then show ?thesis
    using f(2) by (simp add: processes_def dyn_file_def elf_toELF_def spec_dyn_command_def)
qed

interpretation dyn_command:
  continuing_command "\<lambda>args. dyn_run T k argv (Parsed () args)" "dyn_file T k" "\<lambda>args i. argv ! i" 0
  for T k argv
  by unfold_locales (simp add: dyn_run_def)

text \<open>C15. The command \<open>gel-dyn\<close>, from the bytes of the files to what it writes: when the dynamic
  sections of the ELF files are made of whole entries whose tags are not negative, and the
  strings they refer to can be read, it prints for each file one line for each entry whose tag
  is not null, in the order of the file, and nothing else. A file that cannot be opened gives a
  line on the error stream, which shows the element of the same index of \<open>argv\<close> (the name of
  the program for the first file), and the command goes on; its status is 0 in any case.\<close>

theorem gel_dyn_output:
  assumes A: "elm_array_spec (env_array (te_elf T))" and n: "te_stack T = Suc n"
    and src: "files_opened T ct ps args ds"
    and ok: "\<And>c h. Inr (c, h) \<in> set ds \<Longrightarrow> dyn_printable c h k"
  shows "dyn_run T k argv (Parsed () args) con =
    (Inr 0, all_files (\<lambda>i. opening_message (argv ! i))
       (outcomes (spec_dyn_command T (length args)) args ds) con)"
  by (rule dyn_command.run_all [OF outcomes_processes [OF src] outcomes_gel [OF src]])
    (use dyn_file_ok [OF _ A n] ok in \<open>auto simp: spec_dyn_command_def Let_def processes_def dyn_file_def
       manager_open_def\<close>)

theorem gel_dyn_output_witness:
  "dyn_run (demo_disk dyn_sample []) 4 [''gel-dyn'', ''b.out'', ''a.out''] (Parsed () [''b.out'', ''a.out''])
     empty_console =
    (Inr 0, empty_console\<lparr>con_out :=
       [Lit ''FILE: '', Txt (str_bytes ''a.out''), Endl,
        Str [Width 16] [Lit ''NEEDED''], Lit '': '', Txt [109], Endl,
        Str [Width 16] [Lit ''STRTAB''], Lit '': '', format_address address_32 52, Endl, Endl],
      con_err := opening_message ''gel-dyn'' (System_Error ''missing'')\<rparr>)"
proof -
  have out: "spec_dyn_file dyn_sample dyn_head None =
    [Str [Width 16] [Lit ''NEEDED''], Lit '': '', Txt [109], Endl,
     Str [Width 16] [Lit ''STRTAB''], Lit '': '', format_address address_32 52, Endl]"
    unfolding spec_dyn_file_def sec_infos_dyn
    by (simp add: dyn_types SHT_DYNAMIC_def spec_dyn_section_def dyn_entries_sample
        spec_dyn_line_def Let_def spec_dyn_value_def dyn_kinds dyn_string_sample dyn_labels_def
        dyn_width_def DT_COUNT_def File32_addressType_def del: sh_type.simps)
  have "dyn_printable dyn_sample dyn_head 4"
    unfolding dyn_printable_def sec_infos_dyn
    by (simp add: fit_dyn dyn_types SHT_DYNAMIC_def dyn_sec_ok_sample dyn_entries_sample
        del: sh_type.simps secs_fit.simps)
  then show ?thesis
    using gel_dyn_output [OF _ _ demo_disk_files(2) [OF content_dyn, of "[]"], where n = 0 and k = 4
        and argv = "[''gel-dyn'', ''b.out'', ''a.out'']" and con = empty_console]
    by (simp add: demo_disk_env sample_host.array out empty_console_def spec_dyn_command_def all_files_def
        upt_rec)
qed

text \<open>C25. When the size of a dynamic section is not a multiple of the one of its entries (in
  particular when this one is zero), the loop of \<open>gel-dyn\<close> over the section never ends normally:
  the iterator stays on the last entry.\<close>

theorem gel_dyn_never_ends:
  assumes "length m < 2 ^ 63" and "unat ent < 2 ^ 63" and "\<not> unat ent dvd length m"
  shows "fst (dyn_range h ent (make_buffer d (Some m) (word_of_nat (length m))) (dyn_print t plug str) k s)
    \<noteq> Inr ()"
proof -
  let ?b = "make_buffer d (Some m) (word_of_nat (length m))"
  have "\<exists>y. it = dyn_pos ent ?b 0 y" if "dyn_start h ent ?b = Inr it" for it
    using that unfolding dyn_start_pos
    by (auto simp: dyn_fetch_def Let_def make_buffer_def buf_decoder_def res_iff split: if_splits)
  then have "fst (dyn_loop h (dyn_print t plug str) k it (dyn_end ent ?b) s) \<noteq> Inr ()"
    if "dyn_start h ent ?b = Inr it" for it
    using that dyn_loop_stuck [OF refl assms, of 0] by (metis dvd_0_right le0)
  then show ?thesis
    by (auto simp: dyn_range_def sbind_def slift_def split: prod.splits sum.splits)
qed

theorem gel_dyn_never_ends_witness:
  "fst (dyn_range dyn_head 0 (make_buffer little_decoder (Some [1, 0, 0, 0, 1, 0, 0, 0]) 8)
     (dyn_print address_32 None (\<lambda>v f. (Inr [109], f))) 3
     \<lparr>con_out = [], con_err = [], con_help = 0, tl_file = ()\<rparr>) \<noteq> Inr ()"
  using gel_dyn_never_ends [of "[1, 0, 0, 0, 1, 0, 0, 0]" 0 dyn_head little_decoder] by simp

text \<open>An entry with a negative tag is looked up before the table of the labels.\<close>

theorem gel_dyn_negative_tag:
  assumes "sint (dyn_tag d) < 0"
  shows "dyn_print t plug str d s = (Inl Memory_Fault, s)"
  using assms by (simp add: dyn_print_def Let_def DT_COUNT_def)

theorem gel_dyn_negative_tag_witness:
  "dyn_print address_32 None (\<lambda>v f. (Inr [109], f)) \<lparr>dyn_tag = 0xFFFFFFFF, dyn_val = 0\<rparr>
     \<lparr>con_out = [], con_err = [], con_help = 0, tl_file = ()\<rparr> =
    (Inl Memory_Fault, \<lparr>con_out = [], con_err = [], con_help = 0, tl_file = ()\<rparr>)"
  by (rule gel_dyn_negative_tag) simp

end
