(* ===== verification/Tool_Line.thy ===== *)
theory Tool_Line
  imports Tool_Base
begin

text \<open>
  \<open>src/bin/gel-line.cpp\<close>: the source lines of the code (option \<open>-c\<close>), and the addresses of each
  line of each file.
\<close>

section \<open>From code to lines\<close>

text \<open>The format \<open>addr_fmt\<close>, of width 8 or 16.\<close>

definition addr_fmt :: "nat \<Rightarrow> u64 \<Rightarrow> out_item" where
  "addr_fmt w a = Num [Pad CHR ''0'', Hex, Right, Width w] (uint a)"

definition addr_width :: "address_type_t \<Rightarrow> nat" where
  "addr_width t = (if t = address_32 then 8 else 16)"

abbreviation tab :: char where "tab \<equiv> CHR 0x09"

text \<open>The lines of a unit, but the last one, which only ends the code of the line before it.\<close>

fun code_lines :: "debug_line \<Rightarrow> nat \<Rightarrow> line_number list \<Rightarrow> ('c console_scheme, unit) stm" where
  "code_lines dl w (x # y # ls) =
     sbind (slift (require (ln_file x < length (dl_files dl)) Memory_Fault)) (\<lambda>_.
     sbind (emit [addr_fmt w (ln_addr x), Lit [tab], Txt (fl_path (dl_files dl ! ln_file x)), Lit '':'',
                  Num [] (sint (ln_line x)), Endl]) (\<lambda>_.
       code_lines dl w (y # ls)))"
| "code_lines dl w ls = sreturn ()"

definition listCode :: "debug_line \<Rightarrow> nat \<Rightarrow> ('c console_scheme, unit) stm" where
  "listCode dl w = sfor (\<lambda>cu. code_lines dl w (cu_lines cu)) (dl_cus dl)"

section \<open>From lines to code\<close>

text \<open>
  What the loops over the units of a file collect: the ranges of each line, the last one found
  first, and the bounds of the lines.
\<close>

record line_table =
  lt_addrs :: "int \<Rightarrow> (u64 \<times> u64) list option"
  lt_min :: int
  lt_max :: int

definition INT_MAX :: int where "INT_MAX = 2 ^ 31 - 1"

definition empty_table :: line_table where
  "empty_table = \<lparr>lt_addrs = Map.empty, lt_min = INT_MAX, lt_max = 0\<rparr>"

definition line_bounds :: "int \<Rightarrow> int \<times> int \<Rightarrow> int \<times> int" where
  "line_bounds k = (\<lambda>(mn, mx). if k < mn then (k, mx) else if k > mx then (mn, k) else (mn, mx))"

definition collect_line :: "line_number \<Rightarrow> u64 \<Rightarrow> line_table \<Rightarrow> line_table" where
  "collect_line x next t =
     (let k = sint (ln_line x);
          l = (case lt_addrs t k of None \<Rightarrow> [] | Some l \<Rightarrow> l);
          (mn, mx) = line_bounds k (lt_min t, lt_max t) in
      \<lparr>lt_addrs = (lt_addrs t)(k \<mapsto> (ln_addr x, next) # l), lt_min = mn, lt_max = mx\<rparr>)"

fun collect_unit :: "nat \<Rightarrow> line_number list \<Rightarrow> line_table \<Rightarrow> line_table" where
  "collect_unit fi (x # y # ls) t =
     collect_unit fi (y # ls) (if ln_file x = fi then collect_line x (ln_addr y) t else t)"
| "collect_unit fi ls t = t"

definition collect_file :: "debug_line \<Rightarrow> nat \<Rightarrow> line_table" where
  "collect_file dl fi =
     fold (\<lambda>u. collect_unit fi (cu_lines (dl_cus dl ! u))) (fl_units (dl_files dl ! fi)) empty_table"

text \<open>
  The width of the line numbers is \<open>log10(max) + 1\<close>, converted to an integer: the number of the
  digits of \<open>max\<close>, and for \<open>max = 0\<close> the conversion of an infinite value, which C++ leaves
  undefined.
\<close>

definition line_width :: "int \<Rightarrow> nat res" where
  "line_width mx = (if mx \<le> 0 then Inl Integer_Overflow else Inr (length (show_nat (nat mx))))"

definition line_item :: "u8 list \<Rightarrow> nat \<Rightarrow> nat \<Rightarrow> int \<Rightarrow> u64 \<times> u64 \<Rightarrow> out_item list" where
  "line_item path w aw i a =
     [Txt path, Lit '':'', Num [Right, Pad CHR '' '', Width w] i, Lit [tab], addr_fmt aw (fst a),
      Lit ''-'', addr_fmt aw (snd a), Endl]"

text \<open>The display ends with the increment of \<open>i\<close> from \<open>max\<close>.\<close>

definition display_file :: "u8 list \<Rightarrow> nat \<Rightarrow> line_table \<Rightarrow> ('c console_scheme, unit) stm" where
  "display_file path aw t =
     (if lt_min t \<le> lt_max t
      then
        sbind (slift (line_width (lt_max t))) (\<lambda>w.
        sbind (sfor (\<lambda>i. case lt_addrs t i of
                       None \<Rightarrow> sreturn ()
                     | Some l \<Rightarrow> sfor (\<lambda>a. emit (line_item path w aw i a)) l)
                 [lt_min t..lt_max t]) (\<lambda>_.
        slift (require (lt_max t < INT_MAX) Integer_Overflow)))
      else sreturn ())"

text \<open>The files in the order of the hash table.\<close>

definition listed_files :: "(u8 list set \<Rightarrow> u8 list list) \<Rightarrow> debug_line \<Rightarrow> nat list" where
  "listed_files order dl = List.map_filter (dl_map dl) (order (dom (dl_map dl)))"

definition listFiles ::
  "(u8 list set \<Rightarrow> u8 list list) \<Rightarrow> debug_line \<Rightarrow> nat \<Rightarrow> ('c console_scheme, unit) stm" where
  "listFiles order dl aw =
     sfor (\<lambda>fi. display_file (fl_path (dl_files dl ! fi)) aw (collect_file dl fi))
       (listed_files order dl)"

section \<open>The command\<close>

text \<open>One file; \<open>code\<close> is the option \<open>-c\<close>.\<close>

definition line_show :: "'s tool_env \<Rightarrow> bool \<Rightarrow> ('s open_file tool, unit) stm" where
  "line_show T code =
     sbind (in_file (file_debugLines (te_gel T))) (\<lambda>r.
       case r of
         None \<Rightarrow> sraise Assert_Failure
       | Some dl \<Rightarrow>
           sbind (in_file sget) (\<lambda>f.
             let w = addr_width (file_addressType (of_obj f)) in
             if code then listCode dl w else listFiles (te_order T) dl w))"

definition line_file :: "'s tool_env \<Rightarrow> bool \<Rightarrow> string \<Rightarrow> (console, unit) stm" where
  "line_file T code arg =
     sbind (slift (manager_open (te_gel T) arg)) (\<lambda>f. with_file f (line_show T code))"

text \<open>The method \<open>run\<close>, which the main function of ELM calls with the free arguments.\<close>

definition line_run :: "'s tool_env \<Rightarrow> bool \<Rightarrow> string list \<Rightarrow> (console, unit) stm" where
  "line_run T code args =
     sfor (\<lambda>arg. catch_gel (opening_error arg) (line_file T code arg)) args"

end
