(* ===== verification/Tool_Line_Props.thy ===== *)
theory Tool_Line_Props
  imports Tool_Line Tool_Files
begin

text \<open>
  The properties of \<open>gel-line\<close>: what it collects of a file is what \<open>DebugLine::File::find\<close> gives,
  when its bounds are right and when they are not, and the lines of the code from the bytes of
  an ELF file on.
\<close>

section \<open>What is collected\<close>

text \<open>The lines of a file, in the order in which the loops meet them.\<close>

fun unit_lines :: "nat \<Rightarrow> line_number list \<Rightarrow> int list" where
  "unit_lines fi (x # y # ls) =
     (if ln_file x = fi then sint (ln_line x) # unit_lines fi (y # ls) else unit_lines fi (y # ls))"
| "unit_lines fi ls = []"

definition file_lines :: "debug_line \<Rightarrow> nat \<Rightarrow> int list" where
  "file_lines dl fi =
     concat (map (\<lambda>u. unit_lines fi (cu_lines (dl_cus dl ! u))) (fl_units (dl_files dl ! fi)))"

definition add_ranges :: "(u64 \<times> u64) list \<Rightarrow> (u64 \<times> u64) list option \<Rightarrow> (u64 \<times> u64) list option" where
  "add_ranges rs old = (if rs = [] then old else Some (rev rs @ (case old of None \<Rightarrow> [] | Some l \<Rightarrow> l)))"

lemma add_ranges_simps [simp]: "add_ranges [] old = old"
  by (simp add: add_ranges_def)

lemma add_ranges_append: "add_ranges (rs @ ss) old = add_ranges ss (add_ranges rs old)"
  by (auto simp: add_ranges_def)

lemma collect_line_eq:
  "lt_addrs (collect_line x a t) =
     (lt_addrs t)(sint (ln_line x) := add_ranges [(ln_addr x, a)] (lt_addrs t (sint (ln_line x))))"
  "(lt_min (collect_line x a t), lt_max (collect_line x a t)) =
     line_bounds (sint (ln_line x)) (lt_min t, lt_max t)"
  by (simp_all add: collect_line_def Let_def add_ranges_def split: prod.splits)

lemma collect_unit_addrs:
  "lt_addrs (collect_unit fi ls t) k = add_ranges (line_ranges fi k ls) (lt_addrs t k)"
proof (induction fi ls t rule: collect_unit.induct)
  case (1 fi x y ls t)
  then show ?case
    by (auto simp: collect_line_eq(1) simp flip: add_ranges_append)
qed simp_all

lemma collect_unit_bounds:
  "(lt_min (collect_unit fi ls t), lt_max (collect_unit fi ls t)) =
     fold line_bounds (unit_lines fi ls) (lt_min t, lt_max t)"
  by (induction fi ls t rule: collect_unit.induct) (simp_all add: collect_line_eq(2))

lemma collect_units:
  "lt_addrs (fold (\<lambda>u. collect_unit fi (g u)) us t) k =
     add_ranges (concat (map (\<lambda>u. line_ranges fi k (g u)) us)) (lt_addrs t k)"
  "(lt_min (fold (\<lambda>u. collect_unit fi (g u)) us t), lt_max (fold (\<lambda>u. collect_unit fi (g u)) us t)) =
     fold line_bounds (concat (map (\<lambda>u. unit_lines fi (g u)) us)) (lt_min t, lt_max t)"
  by (induction us arbitrary: t)
    (simp_all add: add_ranges_append collect_unit_addrs flip: collect_unit_bounds)

lemma collect_file_addrs:
  "lt_addrs (collect_file dl fi) k =
     (if file_find dl fi k = [] then None else Some (rev (file_find dl fi k)))"
  by (simp add: collect_file_def collect_units(1) file_find_def empty_table_def add_ranges_def)

lemma collect_file_bounds:
  "(lt_min (collect_file dl fi), lt_max (collect_file dl fi)) =
     fold line_bounds (file_lines dl fi) (INT_MAX, 0)"
  by (simp add: collect_file_def collect_units(2) file_lines_def empty_table_def)

section \<open>The bounds\<close>

lemma fst_line_bounds: "fst (line_bounds k b) = min k (fst b)"
  by (simp add: line_bounds_def split: prod.splits)

lemma bounds_min: "fst (fold line_bounds ks b) = fold min ks (fst b)"
  by (induction ks arbitrary: b) (simp_all add: fst_line_bounds min.commute)

lemma bounds_min_set: "fst (fold line_bounds ks (a, b)) = Min (insert a (set ks))"
  using Min.set_eq_fold [of a ks] by (simp add: bounds_min)

lemma bounds_max_mono: "snd b \<le> snd (fold line_bounds ks b)"
proof (induction ks arbitrary: b)
  case (Cons k ks)
  have "snd b \<le> snd (line_bounds k b)"
    by (simp add: line_bounds_def split: prod.splits)
  then show ?case
    using Cons.IH [of "line_bounds k b"] by simp
qed simp

lemma bounds_max_le: "snd b \<le> m \<Longrightarrow> \<forall>k \<in> set ks. k \<le> m \<Longrightarrow> snd (fold line_bounds ks b) \<le> m"
proof (induction ks arbitrary: b)
  case (Cons k ks)
  have "snd (line_bounds k b) \<le> m"
    using Cons.prems by (cases b) (auto simp: line_bounds_def)
  then show ?case
    using Cons.IH [of "line_bounds k b"] Cons.prems by simp
qed simp

text \<open>A line that is not below all those met before it is taken into account for \<open>max\<close>.\<close>

lemma bounds_max_ge:
  assumes "x \<in> set xs" and "x \<le> k"
  shows "k \<le> snd (fold line_bounds (xs @ k # ys) (a, b))"
proof -
  let ?b = "fold line_bounds xs (a, b)"
  have "fst ?b \<le> x"
    using assms(1) by (simp add: bounds_min_set)
  then have "k \<le> snd (line_bounds k ?b)"
    using assms(2) by (auto simp: line_bounds_def split: prod.splits)
  then show ?thesis
    using bounds_max_mono [of "line_bounds k ?b" ys] by simp
qed

text \<open>When each line is below all those met before, \<open>max\<close> keeps its initial value.\<close>

lemma bounds_max_decreasing:
  "sorted_wrt (>) (fst b # ks) \<Longrightarrow> snd (fold line_bounds ks b) = snd b"
proof (induction ks arbitrary: b)
  case (Cons k ks)
  have "line_bounds k b = (k, snd b)"
    using Cons.prems by (cases b) (simp add: line_bounds_def)
  then show ?case
    using Cons.IH [of "(k, snd b)"] Cons.prems by simp
qed simp

section \<open>What is displayed\<close>

text \<open>The lines of a file from \<open>lo\<close> to \<open>hi\<close>, with the ranges that \<open>File::find\<close> gives.\<close>

definition spec_lines :: "debug_line \<Rightarrow> nat \<Rightarrow> nat \<Rightarrow> int \<Rightarrow> int \<Rightarrow> out_item list" where
  "spec_lines dl aw fi lo hi =
     concat (map (\<lambda>i. concat (map (line_item (fl_path (dl_files dl ! fi)) (length (show_nat (nat hi))) aw i)
                        (rev (file_find dl fi i)))) [lo..hi])"

lemma sfor_emit: "sfor (\<lambda>x. emit (g x)) xs c = (Inr (), c\<lparr>con_out := con_out c @ concat (map g xs)\<rparr>)"
  by (induction xs arbitrary: c) simp_all

lemma sfor_writes:
  assumes "\<And>x c. body x c = (Inr (), c\<lparr>con_out := con_out c @ out x\<rparr>)"
  shows "sfor body xs c = (Inr (), c\<lparr>con_out := con_out c @ concat (map out xs)\<rparr>)"
  by (induction xs arbitrary: c) (simp_all add: assms)

lemma display_file_eq:
  assumes "lt_min (collect_file dl fi) = lo" and "lt_max (collect_file dl fi) = hi"
    and "lo \<le> hi" and "0 < hi" and "hi < INT_MAX"
  shows "display_file (fl_path (dl_files dl ! fi)) aw (collect_file dl fi) c =
    (Inr (), c\<lparr>con_out := con_out c @ spec_lines dl aw fi lo hi\<rparr>)"
proof -
  let ?w = "length (show_nat (nat hi))" and ?p = "fl_path (dl_files dl ! fi)"
  have "(case lt_addrs (collect_file dl fi) i of None \<Rightarrow> sreturn ()
      | Some l \<Rightarrow> sfor (\<lambda>a. emit (line_item ?p ?w aw i a)) l) c =
    (Inr (), c\<lparr>con_out := con_out c @ concat (map (line_item ?p ?w aw i) (rev (file_find dl fi i)))\<rparr>)"
    for i and c :: "'a console_scheme"
    by (simp add: collect_file_addrs sfor_emit)
  note line = sfor_writes [where body = "\<lambda>i. case lt_addrs (collect_file dl fi) i of None \<Rightarrow> sreturn ()
      | Some l \<Rightarrow> sfor (\<lambda>a. emit (line_item ?p ?w aw i a)) l", OF this, of "[lo..hi]"]
  show ?thesis
    using assms line [of c] by (simp add: display_file_def line_width_def spec_lines_def)
qed

text \<open>C17. What \<open>gel-line\<close> displays of a file whose lines are all positive (and below the largest
  \<open>int\<close>) and whose last line is met after one that is not after it: every line between the
  first and the last, with exactly the ranges of addresses that \<open>DebugLine::File::find\<close> gives
  for it. The condition on the order is needed: without it nothing may be displayed
  (\<open>gel_line_silent\<close>).\<close>

theorem gel_line_complete:
  assumes "file_lines dl fi = xs @ hi # ys" and "x \<in> set xs" and "x \<le> hi"
    and "\<forall>k \<in> set (file_lines dl fi). 0 < k \<and> k \<le> hi" and "hi < INT_MAX"
  shows "display_file (fl_path (dl_files dl ! fi)) aw (collect_file dl fi) c =
    (Inr (), c\<lparr>con_out := con_out c @ spec_lines dl aw fi (Min (set (file_lines dl fi))) hi\<rparr>)"
proof (rule display_file_eq)
  let ?ks = "file_lines dl fi"
  have hi: "hi \<in> set ?ks" "0 < hi"
    using assms(1,4) by auto
  have mn: "lt_min (collect_file dl fi) = Min (insert INT_MAX (set ?ks))"
    and mx: "lt_max (collect_file dl fi) = snd (fold line_bounds ?ks (INT_MAX, 0))"
    using collect_file_bounds [of dl fi] bounds_min_set [of ?ks INT_MAX 0] by (metis fst_conv, metis snd_conv)
  show le: "Min (set ?ks) \<le> hi"
    using hi(1) by simp
  have "Min (insert INT_MAX (set ?ks)) = min INT_MAX (Min (set ?ks))"
    by (rule Min.insert) (use hi(1) in auto)
  also have "\<dots> = Min (set ?ks)"
    by (rule min_absorb2) (use le assms(5) in linarith)
  finally show "lt_min (collect_file dl fi) = Min (set ?ks)"
    unfolding mn .
  show "lt_max (collect_file dl fi) = hi"
    unfolding mx using bounds_max_ge [OF assms(2,3), of ys INT_MAX 0] bounds_max_le [of "(INT_MAX, 0)" hi ?ks]
      assms(1,4) hi(2) by fastforce
qed (use assms in auto)

text \<open>A table with one line.\<close>

definition single_dl :: debug_line where
  "single_dl = demo_dl\<lparr>dl_cus := [\<lparr>cu_files = [0], cu_lines = [demo_line 20 2, demo_line 30 3]\<rparr>]\<rparr>"

text \<open>C27. When each line of a file is before all those met before it (in particular when there is
  only one line), nothing is displayed of the file, although \<open>DebugLine::File::find\<close> gives
  addresses for it.\<close>

theorem gel_line_silent:
  assumes "sorted_wrt (>) (INT_MAX # file_lines dl fi)" and "\<forall>k \<in> set (file_lines dl fi). 0 < k"
  shows "display_file p aw (collect_file dl fi) c = (Inr (), c)"
proof -
  let ?ks = "file_lines dl fi"
  have mn: "lt_min (collect_file dl fi) = Min (insert INT_MAX (set ?ks))"
    and mx: "lt_max (collect_file dl fi) = snd (fold line_bounds ?ks (INT_MAX, 0))"
    using collect_file_bounds [of dl fi] bounds_min_set [of ?ks INT_MAX 0] by (metis fst_conv, metis snd_conv)
  have "0 < Min (insert INT_MAX (set ?ks))"
    using assms(2) by (simp add: INT_MAX_def)
  moreover have "lt_max (collect_file dl fi) = 0"
    unfolding mx using bounds_max_decreasing [of "(INT_MAX, 0)" ?ks] assms(1) by simp
  ultimately have "\<not> lt_min (collect_file dl fi) \<le> lt_max (collect_file dl fi)"
    unfolding mn by linarith
  then show ?thesis
    by (simp only: display_file_def if_False stm_simps)
qed

theorem gel_line_silent_witness:
  "display_file [97] 8 (collect_file single_dl 0) empty_console = (Inr (), empty_console) \<and> file_find single_dl 0 2 \<noteq> []"
proof -
  have ks: "file_lines single_dl 0 = [2]"
    by (simp add: file_lines_def single_dl_def demo_dl_def demo_line_def LineNumber_new_def)
  have "file_find single_dl 0 2 \<noteq> []"
    by (simp add: file_find_def single_dl_def demo_dl_def demo_line_def LineNumber_new_def)
  then show ?thesis
    using gel_line_silent [of single_dl 0 "[97]" 8 empty_console] ks by (simp add: INT_MAX_def)
qed

theorem gel_line_complete_witness:
  "display_file [97] 8 (collect_file demo_dl 0) empty_console =
    (Inr (), empty_console\<lparr>con_out := con_out empty_console @ spec_lines demo_dl 8 0 1 2\<rparr>)"
proof -
  have ks: "file_lines demo_dl 0 = [1] @ 2 # []" "fl_path (dl_files demo_dl ! 0) = [97]"
    by (simp_all add: file_lines_def demo_dl_def demo_cu_def demo_line_def LineNumber_new_def)
  show ?thesis
    using gel_line_complete [OF ks(1), of 1 8 empty_console] ks by (simp add: INT_MAX_def)
qed

section \<open>The lines of the code\<close>

definition code_item :: "debug_line \<Rightarrow> nat \<Rightarrow> line_number \<Rightarrow> out_item list" where
  "code_item dl w l =
     [addr_fmt w (ln_addr l), Lit [tab], Txt (fl_path (dl_files dl ! ln_file l)), Lit '':'',
      Num [] (sint (ln_line l)), Endl]"

lemma code_lines_eq:
  "\<forall>l \<in> set (butlast ls). ln_file l < length (dl_files dl) \<Longrightarrow>
   code_lines dl w ls c = (Inr (), c\<lparr>con_out := con_out c @ concat (map (code_item dl w) (butlast ls))\<rparr>)"
  by (induction dl w ls arbitrary: c rule: code_lines.induct) (simp_all add: code_item_def)

text \<open>What is printed of a unit: its rows but the last one, with the paths of their files.\<close>

definition row_item :: "(u8 list \<Rightarrow> u8 list \<Rightarrow> u8 list) \<Rightarrow> nat \<Rightarrow> line_unit \<Rightarrow> regs \<Rightarrow> out_item list" where
  "row_item J w U r =
     [addr_fmt w (word_of_nat (rg_address r)), Lit [tab],
      Txt (entry_path J (lu_dirs U) (lu_files U ! (rg_file r - 1))), Lit '':'',
      Num [] (sint (word_of_int (rg_line r) :: u32)), Endl]"

definition spec_unit_code :: "(u8 list \<Rightarrow> u8 list \<Rightarrow> u8 list) \<Rightarrow> nat \<Rightarrow> line_unit \<Rightarrow> out_item list" where
  "spec_unit_code J w U =
     concat (map (row_item J w U) (butlast (line_rows (lu_params U) (lu_prog U) (unit_start U))))"

lemma line_rows_files:
  "prog_ok P n xs r \<Longrightarrow> r' \<in> set (line_rows P xs r) \<Longrightarrow> 1 \<le> rg_file r' \<and> rg_file r' \<le> n"
  by (induction xs arbitrary: r) (auto simp: op_ok_def)

lemma unit_shows_row:
  assumes U: "unit_shows J (dl_paths dl) U cu" and row: "shows_row (cu_files cu) r l"
    and r: "1 \<le> rg_file r" "rg_file r \<le> length (lu_files U)"
  shows "ln_file l < length (dl_files dl) \<and> code_item dl w l = row_item J w U r"
proof -
  have i: "rg_file r - 1 < length (lu_files U)"
    using r by linarith
  have "list_all2 (\<lambda>e i. i < length (dl_paths dl) \<and> dl_paths dl ! i = entry_path J (lu_dirs U) e)
      (lu_files U) (cu_files cu)"
    using U by (simp add: unit_shows_def)
  from list_all2_nthD [OF this i]
  have k: "cu_files cu ! (rg_file r - 1) < length (dl_files dl)"
    "fl_path (dl_files dl ! (cu_files cu ! (rg_file r - 1))) = entry_path J (lu_dirs U) (lu_files U ! (rg_file r - 1))"
    by (auto simp: dl_paths_def)
  then show ?thesis
    using row by (simp add: shows_row_def code_item_def row_item_def)
qed

lemma all2_map:
  "list_all2 (\<lambda>x y. P y \<and> g y = f x) xs ys \<Longrightarrow> (\<forall>y \<in> set ys. P y) \<and> map g ys = map f xs"
  by (induction xs ys rule: list_all2_induct) auto

lemma code_lines_unit:
  assumes U: "unit_shows J (dl_paths dl) U cu" and ok: "unit_ok n U"
  shows "code_lines dl w (cu_lines cu) c = (Inr (), c\<lparr>con_out := con_out c @ spec_unit_code J w U\<rparr>)"
proof -
  let ?rs = "line_rows (lu_params U) (lu_prog U) (unit_start U)"
  have sh: "list_all2 (shows_row (cu_files cu)) ?rs (cu_lines cu)"
    using U by (simp add: unit_shows_def)
  have r: "1 \<le> rg_file r \<and> rg_file r \<le> length (lu_files U)" if "r \<in> set ?rs" for r
    using line_rows_files that ok unfolding unit_ok_def by blast
  have all: "list_all2 (\<lambda>r l. ln_file l < length (dl_files dl) \<and> code_item dl w l = row_item J w U r)
      ?rs (cu_lines cu)"
    using sh by (rule list.rel_mono_strong) (use r unit_shows_row [OF U] in blast)
  have "\<forall>l \<in> set (butlast (cu_lines cu)). ln_file l < length (dl_files dl)"
    "map (code_item dl w) (butlast (cu_lines cu)) = map (row_item J w U) (butlast ?rs)"
    using all2_map [OF all] by (auto dest: in_set_butlastD simp: map_butlast)
  then show ?thesis
    by (simp add: code_lines_eq spec_unit_code_def)
qed

lemma listCode_units:
  "list_all2 (unit_shows J (dl_paths dl)) Us cus \<Longrightarrow> \<forall>U \<in> set Us. unit_ok n U \<Longrightarrow>
   sfor (\<lambda>cu. code_lines dl w (cu_lines cu)) cus c =
     (Inr (), c\<lparr>con_out := con_out c @ concat (map (spec_unit_code J w) Us)\<rparr>)"
proof (induction Us cus arbitrary: c rule: list_all2_induct)
  case (Cons U Us cu cus)
  then show ?case
    by (simp add: code_lines_unit [where n = n])
qed simp

text \<open>A file whose section \<open>.debug_line\<close> holds the tables of the units \<open>Us\<close>.\<close>

definition lines_of :: "mem \<Rightarrow> elf_header \<Rightarrow> nat \<Rightarrow> line_unit list \<Rightarrow> bool" where
  "lines_of c h t Us \<longleftrightarrow>
     secs_fit c h \<and> strtab_ok c h \<and>
     (\<forall>i < length (sec_infos c h). name_ok c h i \<and> sec_ok c (sec_infos c h ! i)) \<and>
     (\<exists>i. find_sec c h ''.debug_line'' = Some i \<and>
        sec_data (head_decoder h) c (sec_infos c h ! i) = concat (map enc_unit Us) \<and>
        unat (sh_size (sec_infos c h ! i)) = length (concat (map enc_unit Us))) \<and>
     length (concat (map enc_unit Us)) < 2 ^ 31 \<and>
     (\<forall>U \<in> set Us. unit_ok t U \<and> lp_dec (lu_params U) = head_decoder h)"

lemma elf_debugLines_of:
  assumes "elf_host (ge_elf G) ct ps" and "elf_inv (ge_elf G) ct c h f" and "lines_of c h (ge_turns G) Us"
    and "ge_stack G = Suc n" and "length Us \<le> ge_units G"
  shows "\<exists>dl f'. file_debugLines G \<lparr>of_path = path, of_obj = ELF_file f, of_debug = None\<rparr> =
      (Inr (Some dl), \<lparr>of_path = path, of_obj = ELF_file f', of_debug = Some dl\<rparr>) \<and>
    elf_inv (ge_elf G) ct c h f' \<and> list_all2 (unit_shows (ge_join G) (dl_paths dl)) Us (dl_cus dl)"
proof -
  obtain i where i: "find_sec c h ''.debug_line'' = Some i"
    "sec_data (head_decoder h) c (sec_infos c h ! i) = concat (map enc_unit Us)"
    "unat (sh_size (sec_infos c h ! i)) = length (concat (map enc_unit Us))"
    using assms(3) by (auto simp: lines_of_def)
  obtain dl f' where "DebugLine_elf (ge_join G) (ge_elf G) (Suc n) (ge_turns G) (ge_units G) f = (Inr dl, f')"
      "elf_inv (ge_elf G) ct c h f'" "list_all2 (unit_shows (ge_join G) (dl_paths dl)) Us (dl_cus dl)"
    using elf_host.DebugLine_elf_ok [OF assms(1,2) _ _ _ i _ _ assms(5)] assms(3)
    unfolding lines_of_def by blast
  then show ?thesis
    by (auto simp: file_debugLines_def debugLines_def assms(4))
qed

lemma content_lines: "elf_content lines_sample lines_head"
  by (simp add: elf_content_def sizeof_Elf32_Ehdr_def length_lines_sample header_lines lines_bytes)
    (simp add: lines_sample_def lines_header_def elf_ident_consts)

lemma demo_rows_code:
  "map (row_item (\<lambda>d s. d @ 47 # s) w demo_unit)
     (butlast (line_rows (lu_params demo_unit) (lu_prog demo_unit) (unit_start demo_unit))) =
   map (\<lambda>a. [addr_fmt w a, Lit [tab], Txt [115, 47, 97], Lit '':'', Num [] 4, Endl]) [0x8000, 0x8004]"
proof -
  have "lu_params demo_unit = demo_params"
    by (simp add: demo_unit_def)
  then show ?thesis
    by (simp add: demo_rows row_item_def start_regs_def) (simp add: demo_unit_def entry_path_def)
qed

definition spec_line_command ::
  "'s gel_env \<Rightarrow> (mem \<Rightarrow> line_unit list) \<Rightarrow> string \<Rightarrow> mem \<Rightarrow> elf_header \<Rightarrow> processed" where
  "spec_line_command G Us a c h =
     Inr (concat (map (spec_unit_code (ge_join G) (addr_width (elf_addressType h))) (Us c)))"

lemma line_file_ok:
  assumes o: "opens_on (ge_manager (te_gel T)) ct ps path c" and A: "elm_array_spec (env_array (te_elf T))"
    and n: "te_stack T = Suc n" and c: "elf_content c h" and ok: "lines_of c h (ge_turns (te_gel T)) (Us c)"
    and k: "length (Us c) \<le> ge_units (te_gel T)"
  shows "processes (line_file T True) path (spec_line_command (te_gel T) Us path c h)"
proof -
  let ?G = "te_gel T" and ?w = "addr_width (elf_addressType h)"
  let ?out = "concat (map (spec_unit_code (ge_join ?G) ?w) (Us c))"
  have E: "elf_host (ge_elf ?G) ct ps"
    using opens_on_host [OF o] A by (simp add: te_elf_def)
  obtain f where f: "elf_inv (ge_elf ?G) ct c h f"
    "manager_open ?G path = Inr \<lparr>of_path = path, of_obj = ELF_file f, of_debug = None\<rparr>"
    using manager_open_elf [OF o c] by blast
  let ?f = "\<lparr>of_path = path, of_obj = ELF_file f, of_debug = None\<rparr>"
  obtain dl f' where dl: "file_debugLines ?G ?f =
      (Inr (Some dl), \<lparr>of_path = path, of_obj = ELF_file f', of_debug = Some dl\<rparr>)"
    "elf_inv (ge_elf ?G) ct c h f'" "list_all2 (unit_shows (ge_join ?G) (dl_paths dl)) (Us c) (dl_cus dl)"
    using elf_debugLines_of [OF E f(1) ok n [unfolded te_stack_def] k, of path] by blast
  have "el_head f' = h"
    using dl(2) by (simp add: elf_inv_def)
  moreover have "\<forall>U \<in> set (Us c). unit_ok (ge_turns ?G) U"
    using ok by (simp add: lines_of_def)
  ultimately have "line_show T True (console.extend con (tool.fields ?f)) =
    (Inr (), (console.extend con (tool.fields ?f))\<lparr>con_out := con_out con @ ?out,
       tl_file := \<lparr>of_path = path, of_obj = ELF_file f', of_debug = Some dl\<rparr>\<rparr>)" for con
    by (simp add: line_show_def dl(1) listCode_def listCode_units [OF dl(3)])
  then have "with_file ?f (line_show T True) con = (Inr (), con\<lparr>con_out := con_out con @ ?out\<rparr>)" for con
    by (rule with_file_out)
  then show ?thesis
    using f(2) by (simp add: processes_def line_file_def spec_line_command_def)
qed

lemma sfor_indices: "sfor (\<lambda>i. body (xs ! i)) [0..<length xs] = sfor body xs"
proof -
  have "sfor body (map g ys) = sfor (\<lambda>i. body (g i)) ys" for g and ys :: "nat list"
    by (induction ys) simp_all
  from this [of "(!) xs" "[0..<length xs]"] show ?thesis
    by (simp add: map_nth)
qed

lemma sbind_return: "sbind m sreturn = m"
  by (rule ext) (simp add: sbind_def sreturn_def split: prod.split sum.split)

interpretation line_command:
  continuing_command "line_run T code" "\<lambda>n. line_file T code" "\<lambda>args i. args ! i" "()" for T code
proof unfold_locales
  fix args
  show "line_run T code args =
    sbind (sfor (\<lambda>i. catch_gel (opening_error (args ! i)) (line_file T code (args ! i))) [0..<length args])
      (\<lambda>_. sreturn ())"
    using sfor_indices [of "\<lambda>a. catch_gel (opening_error a) (line_file T code a)" args]
    by (simp add: line_run_def sbind_return)
qed

text \<open>C16. The command \<open>gel-line -c\<close>, from the bytes of ELF files whose sections \<open>.debug_line\<close>
  hold the tables \<open>Us\<close> to the lines on the output: for each table, and each row of it but the
  last one, the address, the path of the file and the line, in the order of the rows. A file
  that cannot be opened gives a line on the error stream, and the command goes on.\<close>

theorem gel_line_code:
  assumes A: "elm_array_spec (env_array (te_elf T))" and n: "te_stack T = Suc n"
    and src: "files_opened T ct ps args ds"
    and ok: "\<And>c h. Inr (c, h) \<in> set ds \<Longrightarrow>
      lines_of c h (ge_turns (te_gel T)) (Us c) \<and> length (Us c) \<le> ge_units (te_gel T)"
  shows "line_run T True args con =
    (Inr (), all_files (\<lambda>i. opening_message (args ! i))
       (outcomes (spec_line_command (te_gel T) Us) args ds) con)"
  by (rule line_command.run_all [OF outcomes_processes [OF src] outcomes_gel [OF src]])
    (use line_file_ok [OF _ A n] ok in \<open>auto simp: spec_line_command_def processes_def line_file_def
       manager_open_def\<close>)

theorem gel_line_code_witness:
  "line_run (demo_disk lines_sample []) True [''b.out'', ''a.out''] empty_console =
    (Inr (), empty_console\<lparr>con_out :=
       [addr_fmt 8 0x8000, Lit [tab], Txt [115, 47, 97], Lit '':'', Num [] 4, Endl,
        addr_fmt 8 0x8004, Lit [tab], Txt [115, 47, 97], Lit '':'', Num [] 4, Endl],
      con_err := opening_message ''b.out'' (System_Error ''missing'')\<rparr>)"
proof -
  let ?T = "demo_disk lines_sample []"
  have turns: "ge_turns (te_gel ?T) = 7" "ge_units (te_gel ?T) = 1" "ge_join (te_gel ?T) = (\<lambda>d s. d @ 47 # s)"
    by (simp_all add: demo_disk_def demo_tools_def)
  have sz: "unat (sh_size (SH32 (sample_sh 1 1 65 52 0 0))) = 52"
    by (simp add: sample_sec_simps)
  have "find_sec lines_sample lines_head ''.debug_line'' = Some 2 \<and>
      sec_data (head_decoder lines_head) lines_sample (sec_infos lines_sample lines_head ! 2) =
        concat (map enc_unit [demo_unit]) \<and>
      unat (sh_size (sec_infos lines_sample lines_head ! 2)) = length (concat (map enc_unit [demo_unit]))"
    unfolding sec_infos_lines by (simp add: find_sec_lines sec_data_lines enc_demo sz del: sh_size.simps)
  moreover have "\<forall>U \<in> set [demo_unit]. unit_ok 7 U \<and> lp_dec (lu_params U) = head_decoder lines_head"
    using demo_table by (simp add: lines_decoder)
  ultimately have "lines_of lines_sample lines_head 7 [demo_unit]"
    using fit_lines strtab_ok_lines lines_sections_ok length_enc_demo length_sec_infos_lines
    unfolding lines_of_def by auto
  then show ?thesis
    using gel_line_code [OF _ _ demo_disk_files(2) [OF content_lines, of "[]"], where n = 0
        and con = empty_console and Us = "\<lambda>c. [demo_unit]"]
    by (simp add: demo_disk_env sample_host.array turns spec_unit_code_def demo_rows_code addr_width_def
        File32_addressType_def empty_console_def spec_line_command_def all_files_def upt_rec)
qed

end
