(* ===== verification/Tool_Sym.thy ===== *)
theory Tool_Sym
  imports Tool_Base
begin

text \<open>
  \<open>src/bin/gel-sym.cpp\<close>: the symbols of a file. The operands of a line are written from left to
  right, and an operand that cannot be computed leaves the previous ones on the output.
\<close>

section \<open>A symbol\<close>

text \<open>The text for the section of a symbol.\<close>

definition get_section_index :: "'s tool_env \<Rightarrow> int \<Rightarrow> ('s elf_file, out_item list) stm" where
  "get_section_index T i =
     (if i = uint SHN_UNDEF then sreturn [Lit ''undef'']
      else if i = uint SHN_ABS then sreturn [Lit ''abs'']
      else if i = uint SHN_COMMON then sreturn [Lit ''common'']
      else
        sbind (sections (te_elf T)) (\<lambda>ss.
          if int (length ss) \<le> i then sreturn [Num [] i]
          else sbind (section_name (te_elf T) (te_stack T) (nat i)) (\<lambda>x. sreturn [Txt x])))"

text \<open>Two functions that the command keeps but does not call.\<close>

definition get_binding :: "Elf32_Sym \<Rightarrow> out_item list" where
  "get_binding s =
     (let b = ELF32_ST_BIND (st_info32 s) in
      if b = STB_LOCAL then [Lit ''local'']
      else if b = STB_GLOBAL then [Lit ''global'']
      else if b = STB_WEAK then [Lit ''weak'']
      else [Num [] (uint b)])"

definition get_symbol_type :: "Elf32_Sym \<Rightarrow> out_item list" where
  "get_symbol_type s =
     (let t = ELF32_ST_TYPE (st_info32 s) in
      if t = STT_NOTYPE then [Lit ''notype'']
      else if t = STT_OBJECT then [Lit ''object'']
      else if t = STT_FUNC then [Lit ''func'']
      else if t = STT_SECTION then [Lit ''section'']
      else if t = STT_FILE then [Lit ''file'']
      else [Num [] (uint t)])"

definition symbol_fields :: "symbol_table \<Rightarrow> symbol \<Rightarrow> out_item list" where
  "symbol_fields t s =
     [word_fmt (sym_value t s), Chr CHR '' '', word_fmt (sym_size t s), Chr CHR '' '',
      Num [Width 7] (uint (sym_size t s)), Chr CHR '' '', Num [Width 7] (uint (sym_elfType t s)),
      Chr CHR '' '']"

text \<open>A line of the table. The operands are evaluated here from left to right, an order that
  C++ before 2017 leaves open: it shows only when the name of the section cannot be had, in
  what was written before the failure.\<close>

definition symbol_line ::
  "'s tool_env \<Rightarrow> symbol_table \<Rightarrow> u8 list \<Rightarrow> symbol \<Rightarrow> ('s elf_file tool, unit) stm" where
  "symbol_line T t nm s =
     sbind (emit (symbol_fields t s)) (\<lambda>_.
     sbind (in_file (get_section_index T (sym_shndx t s))) (\<lambda>x.
       emit [Str [Width 16] x, Chr CHR '' '', Txt nm, Endl]))"

text \<open>With the option \<open>-F\<close>, only the names of the functions that are not empty.\<close>

definition symbol_item ::
  "'s tool_env \<Rightarrow> bool \<Rightarrow> symbol_table \<Rightarrow> u8 list \<times> symbol \<Rightarrow> ('s elf_file tool, unit) stm" where
  "symbol_item T only t = (\<lambda>(nm, s).
     if only
     then if sym_type t s = FUNC \<and> 0 < sym_size t s then emit [Txt nm, Lit '' '', Endl] else sreturn ()
     else symbol_line T t nm s)"

section \<open>A file\<close>

text \<open>The entries of a hash table in the order of its keys.\<close>

definition map_entries :: "('k set \<Rightarrow> 'k list) \<Rightarrow> ('k \<Rightarrow> 'v option) \<Rightarrow> ('k \<times> 'v) list" where
  "map_entries order m = List.map_filter (\<lambda>x. map_option (Pair x) (m x)) (order (dom m))"

definition symbols_header :: "string" where
  "symbols_header = ''st_value st_size  binding type    st_shndx         name'' @ [newline]"

definition section_symbols_shown :: "'s tool_env \<Rightarrow> bool \<Rightarrow> nat \<Rightarrow> ('s elf_file tool, unit) stm" where
  "section_symbols_shown T only i =
     sbind (if only then sreturn ()
            else
              sbind (emit [Lit ''SECTION '']) (\<lambda>_.
              sbind (in_file (section_name (te_elf T) (te_stack T) i)) (\<lambda>x.
                emit [Txt x, Endl, Lit symbols_header]))) (\<lambda>_.
     sbind (in_file (symbols (te_elf T) (te_stack T))) (\<lambda>t.
       sfor (symbol_item T only t) (map_entries (te_order T) (st_map t))))"

definition sym_processELF :: "'s tool_env \<Rightarrow> bool \<Rightarrow> ('s elf_file tool, unit) stm" where
  "sym_processELF T only =
     sbind (in_file (sections (te_elf T))) (\<lambda>ss.
       sfor (\<lambda>i. if sh_type (sec_info (ss ! i)) = SHT_SYMTAB \<or> sh_type (sec_info (ss ! i)) = SHT_DYNAMIC
                  then section_symbols_shown T only i else sreturn ()) [0..<length ss])"

definition sym_processGen :: "'s tool_env \<Rightarrow> bool \<Rightarrow> ('s open_file tool, unit) stm" where
  "sym_processGen T only =
     sbind (in_file (file_symbols (te_gel T))) (\<lambda>m.
       sfor (\<lambda>(nm, t). if \<not> only \<or> t = FUNC then emit [Txt nm, Endl] else sreturn ())
         (map_entries (te_order T) m))"

section \<open>The command\<close>

definition sym_file :: "'s tool_env \<Rightarrow> bool \<Rightarrow> string \<Rightarrow> (console, unit) stm" where
  "sym_file T only arg =
     sbind (slift (manager_open (te_gel T) arg)) (\<lambda>f.
       case toELF (of_obj f) of
         Some e \<Rightarrow> with_file e (sym_processELF T only)
       | None \<Rightarrow> with_file f (sym_processGen T only))"

text \<open>The files are processed up to the first one that fails.\<close>

fun sym_files :: "'s tool_env \<Rightarrow> bool \<Rightarrow> string list \<Rightarrow> (console, int) stm" where
  "sym_files T only [] = sreturn 0"
| "sym_files T only (arg # args) =
     sbind (catch_gel
         (\<lambda>e. sbind (emit_err [Lit ''ERROR: during opening of '', Txt (str_bytes arg), Lit '': '',
                                Msg e, Endl]) (\<lambda>_. sreturn False))
         (sbind (sym_file T only arg) (\<lambda>_. sreturn True))) (\<lambda>ok.
       if ok then sym_files T only args else sreturn 2)"

definition no_executable :: "(console, int) stm" where
  "no_executable =
     sbind displayHelp (\<lambda>_.
     sbind (emit_err [Lit ([newline] @ ''ERROR: no executable given.'' @ [newline])]) (\<lambda>_. sreturn 1))"

text \<open>\<open>only\<close> is the option \<open>-F\<close>.\<close>

definition sym_run :: "'s tool_env \<Rightarrow> bool command_line \<Rightarrow> (console, int) stm" where
  "sym_run T cl =
     (case cl of
        Bad_Options msg \<Rightarrow> bad_options msg
      | Parsed only args \<Rightarrow> if args = [] then no_executable else sym_files T only args)"

end
