(* ===== verification/Pecoff_Sections.thy ===== *)
theory Pecoff_Sections
  imports Pecoff_Props
begin

text \<open>
  The sections of a PE-COFF file, from its bytes: the headers, and the names, which a section
  with a slash in its header has in the string table of the file. \<open>pe_opened\<close> is the invariant
  of an open file: whatever name or string was asked, the file agrees with its bytes.
\<close>

section \<open>Names from the bytes\<close>

type_synonym pe_headers =
  "coff_header_t \<times> standard_coff_fields_t \<times> windows_specific_fields_t \<times> mem \<times> mem"

definition pe_count_of :: "pe_headers \<Rightarrow> nat" where
  "pe_count_of = (\<lambda>(h, f, w, d, t). unat (ch_number_of_sections h))"

definition pe_header_at :: "pe_headers \<Rightarrow> nat \<Rightarrow> section_header_t" where
  "pe_header_at = (\<lambda>(h, f, w, d, t) i. load_section_header t (i * sizeof_section_header))"

text \<open>The string table, when the file holds all of it.\<close>

definition spec_strings :: "mem \<Rightarrow> coff_header_t \<Rightarrow> mem option" where
  "spec_strings c h =
     (let p = unat (ch_pointer_to_symbol_table h + 18 * ch_number_of_symbols h);
          n = unat (load32 c p - 4) in
      if p + 4 + n \<le> length c \<and> n < 2 ^ 31 then Some (bytes_at c (p + 4) n) else None)"

definition spec_long_name :: "'s pe_env \<Rightarrow> mem \<Rightarrow> pe_headers \<Rightarrow> nat \<Rightarrow> u8 list option" where
  "spec_long_name X c = (\<lambda>(h, f, w, d, t) i.
     case cstr_at t (i * sizeof_section_header + 1) of
       Inl e \<Rightarrow> None
     | Inr s \<Rightarrow>
         (case (px_number X s, spec_strings c h) of
            (Some off, Some m) \<Rightarrow>
              (if unat off < 4 then None
               else (case cstr_at m (unat off - 4) of Inl e \<Rightarrow> None | Inr nm \<Rightarrow> Some (c_part nm)))
          | _ \<Rightarrow> None))"

definition spec_pe_name :: "'s pe_env \<Rightarrow> mem \<Rightarrow> pe_headers \<Rightarrow> nat \<Rightarrow> u8 list option" where
  "spec_pe_name X c x i =
     (if hd_name (pe_header_at x i) ! 0 = of_char CHR ''/'' then spec_long_name X c x i
      else Some (c_part (hd_name (pe_header_at x i))))"

section \<open>Open files\<close>

definition pe_opened ::
  "'s pe_env \<Rightarrow> ('s \<Rightarrow> mem) \<Rightarrow> mem \<Rightarrow> pe_headers \<Rightarrow> 's pe_file \<Rightarrow> bool" where
  "pe_opened X ct c x y \<longleftrightarrow>
     ct (pe_s y) = c \<and> x = (pe_coff y, pe_std y, pe_win y, pe_dirs y, pe_table y) \<and>
     length (pe_sects y) = pe_count_of x \<and>
     (pe_strings y = None \<or> pe_strings y = spec_strings c (pe_coff y)) \<and>
     (\<forall>i < pe_count_of x. ps_name (pe_sects y ! i) = [] \<or>
        spec_pe_name X c x i = Some (c_part (ps_name (pe_sects y ! i))))"

lemma pe_opened_new: "ct s = c \<Longrightarrow> pe_opened X ct c x (pe_object s x)"
  by (cases x) (simp add: pe_opened_def pe_object_def pe_count_of_def pe_section_new_def)

lemma pe_opened_hd: "pe_opened X ct c x y \<Longrightarrow> pe_hd y i = pe_header_at x i"
  by (simp add: pe_opened_def pe_hd_def pe_header_at_def)

lemma pe_opened_named:
  assumes "pe_opened X ct c x y" and "spec_pe_name X c x i = Some (c_part nm)"
  shows "pe_opened X ct c x (y\<lparr>pe_sects := (pe_sects y)[i := (pe_sects y ! i)\<lparr>ps_name := nm\<rparr>]\<rparr>)"
  using assms
  by (cases "i < length (pe_sects y)") (auto simp: pe_opened_def nth_list_update)

lemma spec_stringsD:
  assumes "spec_strings c (pe_coff y) = Some m"
  shows "strings_pos y + 4 \<le> length c" "unat (load32 c (strings_pos y) - 4) < 2 ^ 31"
    "strings_pos y + 4 + unat (load32 c (strings_pos y) - 4) \<le> length c"
    "m = bytes_at c (strings_pos y + 4) (unat (load32 c (strings_pos y) - 4))"
  using assms by (auto simp: spec_strings_def strings_pos_def Let_def split: if_splits)

text \<open>The string table is read once, and the file stays the same but for it.\<close>

lemma pe_load_strings_ok:
  assumes R: "rstream_spec (px_stream X) ct ps" and y: "pe_opened X ct c x y"
    and m: "spec_strings c (pe_coff y) = Some m"
  shows "\<exists>y'. pe_load_strings X y = (Inr (), y') \<and> pe_opened X ct c x y' \<and> pe_strings y' = Some m \<and>
    pe_sects y' = pe_sects y"
proof (cases "pe_strings y")
  case None
  let ?p = "strings_pos y" and ?n = "load32 c (strings_pos y) - 4"
  note fits = spec_stringsD [OF m]
  have "strings_block X c (?p + 4) (unat ?n) = m"
    using fits(3,4) unfolding strings_block_def by (subst store_at_whole) simp_all
  moreover have "slice c (?p + 4) (unat ?n) = Inr m"
    using fits(3,4) by (simp add: slice_def)
  moreover have c: "ct (pe_s y) = c"
    using y by (simp add: pe_opened_def)
  ultimately obtain s' where "ct s' = c" "pe_load_strings X y =
      (Inr (), y\<lparr>pe_s := s', pe_strings_size := ?n, pe_strings := Some m\<rparr>)"
    using pe_load_strings_at [OF R c None fits(1) refl fits(2)] by auto
  then show ?thesis
    using y m by (auto simp: pe_opened_def)
next
  case (Some m')
  then show ?thesis
    using y m by (auto simp: pe_opened_def pe_load_strings_def)
qed

lemma pe_getString_ok:
  assumes "rstream_spec (px_stream X) ct ps" and "pe_opened X ct c x y"
    and "spec_strings c (pe_coff y) = Some m" and "\<not> unat off < 4"
  shows "\<exists>y'. pe_getString X off y = (cstr_at m (unat off - 4), y') \<and> pe_opened X ct c x y' \<and>
    pe_sects y' = pe_sects y"
  using pe_load_strings_ok [OF assms(1-3)] assms(4) by (auto simp: pe_getString_def)

text \<open>The name of a section is the one of the bytes, whatever was asked before.\<close>

lemma pe_name_ok:
  assumes R: "rstream_spec (px_stream X) ct ps" and y: "pe_opened X ct c x y"
    and i: "i < pe_count_of x" and nm: "spec_pe_name X c x i = Some nm"
  shows "\<exists>y'. pe_name X i y = (Inr nm, y') \<and> pe_opened X ct c x y'"
proof -
  let ?nm = "hd_name (pe_header_at x i)"
  have hd: "pe_hd y i = pe_header_at x i"
    by (rule pe_opened_hd [OF y])
  consider (known) "ps_name (pe_sects y ! i) \<noteq> []"
    | (long) "ps_name (pe_sects y ! i) = []" "?nm ! 0 = of_char CHR ''/''"
    | (plain) "ps_name (pe_sects y ! i) = []" "?nm ! 0 \<noteq> of_char CHR ''/''"
    by blast
  then show ?thesis
  proof cases
    case known
    then show ?thesis
      using y i nm by (auto simp: pe_name_def Let_def pe_opened_def)
  next
    case long
    obtain t off m s where s: "cstr_at (pe_table y) (i * sizeof_section_header + 1) = Inr t"
        "px_number X t = Some off" "spec_strings c (pe_coff y) = Some m" "\<not> unat off < 4"
        "cstr_at m (unat off - 4) = Inr s" "nm = c_part s"
      using nm long y by (auto simp: spec_pe_name_def spec_long_name_def pe_opened_def
          split: sum.splits option.splits if_splits)
    obtain y' where y': "pe_getString X off y = (Inr s, y')" "pe_opened X ct c x y'"
        "pe_sects y' = pe_sects y"
      using pe_getString_ok [OF R y s(3,4)] s(5) by auto
    then show ?thesis
      using long hd s(1,2,6) nm pe_opened_named [OF y'(2), of i s]
      by (simp add: pe_name_def Let_def pe_put_name_def)
  next
    case plain
    then have "nm = c_part ?nm"
      using nm by (simp add: spec_pe_name_def)
    moreover have "c_part (c_part ?nm) = c_part ?nm"
      by (simp add: c_part_def)
    ultimately show ?thesis
      using plain hd nm pe_opened_named [OF y, of i "c_part ?nm"] pe_opened_named [OF y, of i ?nm]
      by (auto simp: pe_name_def Let_def pe_put_name_def)
  qed
qed

end
