(* ===== verification/Tool_Binary.thy ===== *)
theory Tool_Binary
  imports Tool_Files Pecoff_Sections
begin

text \<open>
  The files of the three formats under the generic interface: what is known of the bytes of a
  file that \<open>open\<close> accepts, the object it gives, and the loops of the commands over the segments
  or the sections of a file, whatever its format.
\<close>

section \<open>Files of the three formats\<close>

text \<open>
  An ELF file is known by its content and header, a COFF file by what COFFI reads and its base,
  a PE-COFF file by its content and headers.
\<close>

datatype binary =
    ELF_binary mem elf_header
  | COFF_binary coffi_reader u64
  | PE_binary mem pe_headers

definition pe_content :: "'s pe_env \<Rightarrow> mem \<Rightarrow> pe_headers \<Rightarrow> bool" where
  "pe_content X c x \<longleftrightarrow>
     4 \<le> length c \<and> c ! 0 = 0x4D \<and> c ! 1 = 0x5A \<and> PE_MSDOS_OFFSET \<le> length c \<and> pe_start c \<le> length c \<and>
     dirs_fit c \<and> parse_pe (px_hex X) c = Inr x"

definition coffi_content :: "coffi_lib option \<Rightarrow> mem \<Rightarrow> string \<Rightarrow> coffi_reader \<Rightarrow> u64 \<Rightarrow> bool" where
  "coffi_content lib c path r b \<longleftrightarrow>
     4 \<le> length c \<and> coffi_matches c \<and>
     (\<exists>L. lib = Some L \<and> cl_load L path = Some r \<and> coffi_base r path = Inr b)"

text \<open>What \<open>open\<close> finds at a path.\<close>

definition binary_source ::
  "'s manager_env \<Rightarrow> ('s \<Rightarrow> mem) \<Rightarrow> ('s \<Rightarrow> nat) \<Rightarrow> string \<Rightarrow> gel_exn + binary \<Rightarrow> bool" where
  "binary_source M ct ps a d \<longleftrightarrow>
     (case d of
        Inl e \<Rightarrow> openFile M a = Inl (Throw e) \<and> is_gel_exception e
      | Inr (ELF_binary c h) \<Rightarrow> opens_on M ct ps a c \<and> elf_content c h
      | Inr (COFF_binary r b) \<Rightarrow> (\<exists>c. opens_on M ct ps a c \<and> coffi_content (mg_coffi M) c a r b)
      | Inr (PE_binary c x) \<Rightarrow> opens_on M ct ps a c \<and> pe_content (mg_pe M) c x)"

abbreviation binaries_opened ::
  "'s tool_env \<Rightarrow> ('s \<Rightarrow> mem) \<Rightarrow> ('s \<Rightarrow> nat) \<Rightarrow> string list \<Rightarrow> (gel_exn + binary) list \<Rightarrow> bool" where
  "binaries_opened T ct ps \<equiv> list_all2 (binary_source (ge_manager (te_gel T)) ct ps)"

lemma openFile_magic:
  assumes o: "opens_on M ct ps path c" and len: "4 \<le> length c"
  shows "\<exists>s. ct s = c \<and> ps s = 0 \<and> openFile M path =
    (if elf_matches (take 4 c) then map_sum id ELF_file (openELFFile_stream M s)
     else if mg_coffi M \<noteq> None \<and> coffi_matches (take 4 c)
     then map_sum id COFF_file (coffi_File_new (the (mg_coffi M)) path)
     else if pe_matches (take 4 c) then map_sum id PE_file (openPECOFFFile M s)
     else Inl (Throw (Unknown_Format (take 4 c))))"
proof -
  obtain s where R: "rstream_spec (px_stream (mg_pe M)) ct ps" and s: "mg_open M path = Inr s"
    "ps s = 0" "ct s = c"
    using o by (auto simp: opens_on_def)
  obtain s1 where s1: "mg_read M 4 s = (4, take 4 c, s1)" "ct s1 = c"
    using mg_read_ok [OF R s(2), of 4] s(3) len by auto
  have "ct (snd (rs_reset (px_stream (mg_pe M)) s1)) = c" "ps (snd (rs_reset (px_stream (mg_pe M)) s1)) = 0"
    using R s1(2) unfolding rstream_spec_def by auto
  then show ?thesis
    using s(1) s1(1)
    by (intro exI [of _ "snd (rs_reset (px_stream (mg_pe M)) s1)"]) (simp add: openFile_def require_def Let_def)
qed

lemma openFile_coffi:
  assumes o: "opens_on M ct ps path c" and c: "coffi_content (mg_coffi M) c path r b"
  shows "openFile M path = Inr (COFF_file (coffi_opened (the (mg_coffi M)) r b))"
proof -
  obtain L where L: "mg_coffi M = Some L" "cl_load L path = Some r" "coffi_base r path = Inr b"
    and len: "4 \<le> length c" and m: "coffi_matches c"
    using c by (auto simp: coffi_content_def)
  have "\<not> elf_matches (take 4 c)" "coffi_matches (take 4 c)"
    using m by (auto simp: elf_matches_def coffi_matches_def ELFMAG_def)
  then show ?thesis
    using openFile_magic [OF o len] L by (auto simp: coffi_File_new_eq)
qed

lemma openFile_pe:
  assumes o: "opens_on M ct ps path c" and c: "pe_content (mg_pe M) c x"
  shows "\<exists>s. ct s = c \<and> openFile M path = Inr (PE_file (pe_object s x))"
proof -
  note content = c [unfolded pe_content_def]
  have "\<not> elf_matches (take 4 c)" "\<not> coffi_matches (take 4 c)" "pe_matches (take 4 c)"
    using content by (auto simp: elf_matches_def coffi_matches_def pe_matches_def ELFMAG_def)
  then obtain s where s: "ct s = c" "openFile M path = map_sum id PE_file (openPECOFFFile M s)"
    using openFile_magic [OF o] content by auto
  have "rstream_spec (px_stream (mg_pe M)) ct ps"
    using o by (simp add: opens_on_def)
  from pe_File_new_ok [OF this s(1)] content
  obtain s' where "ct s' = c" "pe_File_new (mg_pe M) s = (Inr (pe_object s' x), s')"
    by auto
  then show ?thesis
    using s(2) by (auto simp: openPECOFFFile_def)
qed

text \<open>The object that a file is opened as.\<close>

lemma opened_binary:
  assumes src: "binary_source (ge_manager G) ct ps a (Inr b)" and A: "elm_array_spec (env_array (ge_elf G))"
  shows "\<exists>f. manager_open G a = Inr f \<and> of_path f = a \<and>
    (case b of
       ELF_binary c h \<Rightarrow> elf_host (ge_elf G) ct ps \<and> (\<exists>x. of_obj f = ELF_file x \<and> elf_inv (ge_elf G) ct c h x)
     | COFF_binary r base \<Rightarrow> of_obj f = COFF_file (coffi_opened (ge_coffi G) r base)
     | PE_binary c x \<Rightarrow> rstream_spec (px_stream (mg_pe (ge_manager G))) ct ps \<and>
         (\<exists>y. of_obj f = PE_file y \<and> pe_opened (mg_pe (ge_manager G)) ct c x y))"
proof (cases b)
  case (ELF_binary c h)
  then have o: "opens_on (ge_manager G) ct ps a c" and c: "elf_content c h"
    using src by (simp_all add: binary_source_def)
  obtain x where "elf_inv (ge_elf G) ct c h x"
    "manager_open G a = Inr \<lparr>of_path = a, of_obj = ELF_file x, of_debug = None\<rparr>"
    using manager_open_elf [OF o c] by blast
  then show ?thesis
    using opens_on_host [OF o A] ELF_binary by simp
next
  case (COFF_binary r base)
  then obtain c where "opens_on (ge_manager G) ct ps a c" "coffi_content (mg_coffi (ge_manager G)) c a r base"
    using src by (auto simp: binary_source_def)
  from openFile_coffi [OF this] show ?thesis
    using COFF_binary by (simp add: manager_open_def ge_coffi_def)
next
  case (PE_binary c x)
  then have o: "opens_on (ge_manager G) ct ps a c" and c: "pe_content (mg_pe (ge_manager G)) c x"
    using src by (simp_all add: binary_source_def)
  have "rstream_spec (px_stream (mg_pe (ge_manager G))) ct ps"
    using o by (simp add: opens_on_def)
  moreover obtain s where "ct s = c" "openFile (ge_manager G) a = Inr (PE_file (pe_object s x))"
    using openFile_pe [OF o c] by blast
  ultimately show ?thesis
    using PE_binary pe_opened_new [of ct s c] by (simp add: manager_open_def)
qed

lemma ignored_binaries:
  assumes "list_all2 (binary_source M ct ps) args ds" and "\<And>a b e. spec a b \<noteq> Inl e"
    and "x = until_failure status report args (outcomes_of spec args ds) con"
  shows "(case x of (r, c) \<Rightarrow> (ignored_status r, c)) =
    (Inr 0, snd (until_failure status report args (outcomes_of spec args ds) con))"
proof (rule ignored_status_until [OF _ _ assms(3)])
  show "\<forall>e. Inl e \<in> set (outcomes_of spec args ds) \<longrightarrow> is_gel_exception e"
    using assms(1) by (rule outcomes_of_gel) (use assms(2) in \<open>auto simp: binary_source_def\<close>)
  show "length args = length (outcomes_of spec args ds)"
    using length_outcomes list_all2_lengthD [OF assms(1)] by metis
qed

section \<open>Listings\<close>

text \<open>
  A loop over the items of a file: their number, the item of an index and the values of an item,
  asked in turn. \<open>ready\<close> is what is known of the file once the items are counted; the lines
  are those of the values \<open>vals\<close>.
\<close>

definition list_items ::
  "out_item list \<Rightarrow> ('f, int) stm \<Rightarrow> (int \<Rightarrow> ('f, 'r) stm) \<Rightarrow> ('r \<Rightarrow> ('f, 'v) stm) \<Rightarrow>
   (nat \<Rightarrow> 'v \<Rightarrow> out_item list) \<Rightarrow> ('f tool, unit) stm" where
  "list_items title count item look line =
     sbind (emit title) (\<lambda>_. sbind (in_file count) (\<lambda>n.
       sfor (\<lambda>i. sbind (in_file (item (int i))) (\<lambda>r. sbind (in_file (look r)) (\<lambda>v. emit (line i v))))
         [0..<nat n]))"

definition listed :: "out_item list \<Rightarrow> (nat \<Rightarrow> 'v \<Rightarrow> out_item list) \<Rightarrow> 'v list \<Rightarrow> out_item list" where
  "listed title line vals = title @ concat (map (\<lambda>i. line i (vals ! i)) [0..<length vals])"

locale listing =
  fixes count :: "('f, int) stm" and item :: "int \<Rightarrow> ('f, 'r) stm" and look :: "'r \<Rightarrow> ('f, 'v) stm"
    and fresh :: "'f \<Rightarrow> bool" and ready :: "'f \<Rightarrow> bool" and vals :: "'v list"
  assumes counted: "fresh f \<Longrightarrow> \<exists>g. count f = (Inr (int (length vals)), g) \<and> ready g"
    and shown: "ready f \<Longrightarrow> i < length vals \<Longrightarrow> \<exists>g h r.
      item (int i) f = (Inr r, g) \<and> look r g = (Inr (vals ! i), h) \<and> ready h"
begin

lemma item_writes:
  assumes "i < length vals"
  shows "writes ready (sbind (in_file (item (int i))) (\<lambda>r. sbind (in_file (look r)) (\<lambda>v. emit (line i v)))) ()
    (line i (vals ! i))"
proof (rule writesI)
  fix t :: "'f tool"
  assume "ready (tl_file t)"
  then obtain g h r where "item (int i) (tl_file t) = (Inr r, g)" "look r g = (Inr (vals ! i), h)" "ready h"
    using shown assms by blast
  then show "\<exists>f. ready f \<and> sbind (in_file (item (int i))) (\<lambda>r. sbind (in_file (look r)) (\<lambda>v.
      emit (line i v))) t = (Inr (), t\<lparr>con_out := con_out t @ line i (vals ! i), tl_file := f\<rparr>)"
    by (intro exI [of _ h]) simp
qed

lemma listing_output:
  assumes "fresh (tl_file t)"
  shows "\<exists>g. list_items title count item look line t =
    (Inr (), t\<lparr>con_out := con_out t @ listed title line vals, tl_file := g\<rparr>)"
proof -
  obtain g where g: "count (tl_file t) = (Inr (int (length vals)), g)" "ready g"
    using counted [OF assms] by blast
  have "writes ready (sfor (\<lambda>i. sbind (in_file (item (int i))) (\<lambda>r. sbind (in_file (look r)) (\<lambda>v. emit (line i v))))
      [0..<length vals]) () (concat (map (\<lambda>i. line i (vals ! i)) [0..<length vals]))"
    by (rule writes_sfor) (simp add: item_writes)
  from writesD [OF this, of "t\<lparr>con_out := con_out t @ title, tl_file := g\<rparr>"] show ?thesis
    using g by (auto simp: list_items_def listed_def)
qed

end

section \<open>A system with a file of each format\<close>

text \<open>For the witnesses: an ELF, a COFF and a PE-COFF file at three paths.\<close>

definition demo_formats :: "(mem \<times> nat) tool_env" where
  "demo_formats = (demo_tools sample [])
     \<lparr>te_gel := (te_gel (demo_tools sample []))
        \<lparr>ge_manager :=
           \<lparr>mg_open = (\<lambda>p. if p = ''a.out'' then Inr (sample, 0) else if p = ''demo'' then Inr ([0xC2, 0, 0, 0], 0)
                            else if p = ''a.exe'' then Inr (pe_sample, 0) else Inl ''missing''),
            mg_pe = pe_sample_env, mg_coffi = Some demo_lib\<rparr>\<rparr>\<rparr>"

definition pe_sample_headers :: pe_headers where
  "pe_sample_headers = projr (parse_pe (px_hex pe_sample_env) pe_sample)"

lemma pe_sample_parse:
  "\<exists>h f w d. parse_pe (px_hex pe_sample_env) pe_sample = Inr (h, f, w, d, bytes_at pe_sample 184 40) \<and>
    ch_number_of_sections h = 1 \<and> ch_characteristics h = 0x102 \<and> ch_machine h = load16 pe_sample 68 \<and>
    sf_address_of_entry_point f = 0x1000 \<and> wf_image_base w = 0x400000"
  by (simp add: parse_pe_def slice_def length_pe_sample pe_sample_start PE_MSDOS_OFFSET_def
      parse_coff_def parse_standard_def parse_windows_def win_pos_def win_len_def pe_opt_def Let_def
      spec_coff_header_def spec_standard_fields_def spec_windows_fields_def load_size_def
      pe_sample_fields take_bytes_at PE32_def PE32P_def)

lemma pe_content_sample: "pe_content pe_sample_env pe_sample pe_sample_headers"
  using pe_sample_parse pe_sample_dirs
  by (auto simp: pe_content_def pe_sample_headers_def pe_sample_start PE_MSDOS_OFFSET_def length_pe_sample)
    (simp_all add: pe_sample_def)

lemma pe_sample_section:
  "pe_count_of pe_sample_headers = 1"
  "hd_name (pe_header_at pe_sample_headers 0) = [46, 116, 101, 120, 116, 0, 0, 0]"
  "hd_virtual_size (pe_header_at pe_sample_headers 0) = 4"
  "hd_virtual_address (pe_header_at pe_sample_headers 0) = 0x1000"
  "hd_characteristics (pe_header_at pe_sample_headers 0) = 0x60000020"
  using pe_sample_parse
  by (auto simp: pe_sample_headers_def pe_count_of_def pe_header_at_def load_section_header_def
      load_bytes_at_slice)
    (simp_all add: load32_def bytes_at_def pe_sample_def le_word_nat)

lemma pe_sample_name: "spec_pe_name X pe_sample pe_sample_headers 0 = Some (str_bytes ''.text'')"
  by (simp add: spec_pe_name_def pe_sample_section c_part_def str_bytes_def)

lemma demo_formats_env:
  "te_elf demo_formats = sample_env" "te_stack demo_formats = Suc 0" "ge_stack (te_gel demo_formats) = Suc 0"
  "ge_coffi (te_gel demo_formats) = demo_lib" "mg_pe (ge_manager (te_gel demo_formats)) = pe_sample_env"
  "ge_segments (te_gel demo_formats) = 9" "te_order demo_formats = (\<lambda>S. [])"
  using demo_tools_env(1) [of sample "[]"]
  by (simp_all add: demo_formats_def demo_tools_def te_elf_def ge_elf_def te_stack_def ge_coffi_def
      demo_manager_def mg_elf_def)

lemma demo_formats_files:
  "binaries_opened demo_formats fst snd [''a.out'', ''demo'', ''a.exe'', ''none'']
     [Inr (ELF_binary sample sample_head), Inr (COFF_binary demo_coff 0),
      Inr (PE_binary pe_sample pe_sample_headers), Inl (System_Error ''missing'')]"
proof -
  let ?M = "ge_manager (te_gel demo_formats)"
  have R: "rstream_spec (px_stream (mg_pe ?M)) fst snd"
    by (simp add: demo_formats_env pe_sample_stream)
  have "binary_source ?M fst snd ''a.out'' (Inr (ELF_binary sample sample_head))"
    using R content_sample by (simp add: binary_source_def opens_on_def demo_formats_def)
  moreover have "binary_source ?M fst snd ''demo'' (Inr (COFF_binary demo_coff 0))"
    using R by (simp add: binary_source_def opens_on_def demo_formats_def coffi_content_def coffi_matches_def
        demo_coff_simps)
  moreover have "binary_source ?M fst snd ''a.exe'' (Inr (PE_binary pe_sample pe_sample_headers))"
    using R pe_content_sample by (simp add: binary_source_def opens_on_def demo_formats_def)
  moreover have "binary_source ?M fst snd ''none'' (Inl (System_Error ''missing''))"
    by (simp add: binary_source_def demo_formats_def openFile_def)
  ultimately show ?thesis
    by simp
qed

end
