(* ===== verification/Tool_Sym_Props.thy ===== *)
theory Tool_Sym_Props
  imports Tool_Sym Tool_Binary Elf_Props
begin

text \<open>
  The properties of \<open>gel-sym\<close>: its output for ELF and COFF files, from what is known of the files on.
\<close>

declare sec_infos.simps [simp del] secs_fit.simps [simp del] sh_link.simps [simp del]
  sh_size.simps [simp del] sh_entsize.simps [simp del] sh_type.simps [simp del]

section \<open>The expected output\<close>

text \<open>The table that \<open>symbols()\<close> builds.\<close>

definition elf_table :: "mem \<Rightarrow> elf_header \<Rightarrow> symbol_table" where
  "elf_table c h = spec_table c h empty_symbol_table (symtabs_from c h 0 (length (sec_infos c h)))"

definition spec_section_index :: "mem \<Rightarrow> elf_header \<Rightarrow> int \<Rightarrow> out_item list" where
  "spec_section_index c h i =
     (if i = 0 then [Lit ''undef''] else if i = 0xFFF1 then [Lit ''abs'']
      else if i = 0xFFF2 then [Lit ''common'']
      else if int (length (sec_infos c h)) \<le> i then [Num [] i]
      else [Txt (projr (spec_name c h (nat i)))])"

definition spec_symbol_item ::
  "mem \<Rightarrow> elf_header \<Rightarrow> bool \<Rightarrow> symbol_table \<Rightarrow> u8 list \<times> symbol \<Rightarrow> out_item list" where
  "spec_symbol_item c h only t = (\<lambda>(nm, s).
     if only
     then (if sym_type t s = FUNC \<and> 0 < sym_size t s then [Txt nm, Lit '' '', Endl] else [])
     else symbol_fields t s @
       [Str [Width 16] (spec_section_index c h (sym_shndx t s)), Chr CHR '' '', Txt nm, Endl])"

definition spec_sym_section ::
  "(u8 list set \<Rightarrow> u8 list list) \<Rightarrow> bool \<Rightarrow> mem \<Rightarrow> elf_header \<Rightarrow> nat \<Rightarrow> out_item list" where
  "spec_sym_section order only c h i =
     (if only then []
      else [Lit ''SECTION '', Txt (projr (spec_name c h i)), Endl, Lit symbols_header]) @
     concat (map (spec_symbol_item c h only (elf_table c h))
       (map_entries order (st_map (elf_table c h))))"

text \<open>The whole table, once for each section of one of the two types.\<close>

definition spec_sym_file ::
  "(u8 list set \<Rightarrow> u8 list list) \<Rightarrow> bool \<Rightarrow> mem \<Rightarrow> elf_header \<Rightarrow> out_item list" where
  "spec_sym_file order only c h =
     concat (map (spec_sym_section order only c h)
       (filter (\<lambda>i. sh_type (sec_infos c h ! i) = SHT_SYMTAB \<or> sh_type (sec_infos c h ! i) = SHT_DYNAMIC)
          [0..<length (sec_infos c h)]))"

definition sym_printable :: "mem \<Rightarrow> elf_header \<Rightarrow> bool" where
  "sym_printable c h \<longleftrightarrow>
     names_ok c h \<and> symbols_ok c h"

lemma sym_shndx_nonneg: "0 \<le> sym_shndx t s"
  by (simp add: sym_shndx_def Symbol32_shndx_def Symbol64_shndx_def)

text \<open>The sections are loaded, and the table of symbols too if it is there.\<close>

definition sym_ready ::
  "'s elf_env \<Rightarrow> ('s \<Rightarrow> mem) \<Rightarrow> mem \<Rightarrow> elf_header \<Rightarrow> 's elf_file \<Rightarrow> bool" where
  "sym_ready E ct c h f \<longleftrightarrow>
     elf_opened E ct c h f \<and> (el_syms f = None \<or> el_syms f = Some (elf_table c h))"

context elf_host
begin

lemma name_ready:
  assumes "sym_printable c h" and "i < length (sec_infos c h)" and "sym_ready E ct c h f"
  shows "\<exists>f'. sym_ready E ct c h f' \<and> section_name E (Suc n) i f = (Inr (projr (spec_name c h i)), f')"
  using opened_name [of c h i f n] assms by (auto simp: sym_ready_def sym_printable_def)

lemma sections_ready:
  assumes "sym_printable c h" and "elf_inv E ct c h f" and "el_syms f = None \<or> el_syms f = Some (elf_table c h)"
  shows "\<exists>f'. sym_ready E ct c h f' \<and> sections E f = (Inr (el_sects f'), f')"
  using opened_sections [of c h f] assms by (auto simp: sym_ready_def sym_printable_def)

lemma symbols_ready:
  assumes ok: "sym_printable c h" and f: "sym_ready E ct c h f"
  shows "\<exists>f'. sym_ready E ct c h f' \<and> symbols E (Suc n) f = (Inr (elf_table c h), f')"
proof (cases "el_syms f")
  case None
  then obtain g where "symbols E (Suc n) f = (Inr (elf_table c h), g)" "elf_inv E ct c h g"
      "el_sects_loaded g" "el_syms g = Some (elf_table c h)"
    using symbols_refine [of c h f n] f ok
    by (auto simp: sym_ready_def elf_opened_def sym_printable_def names_ok_def elf_table_def)
  then show ?thesis
    by (intro exI [of _ g]) (simp add: sym_ready_def elf_opened_def)
next
  case (Some t)
  then show ?thesis
    using f by (intro exI [of _ f]) (simp add: sym_ready_def symbols_def)
qed

section \<open>What is written\<close>

lemma symbol_item_writes:
  assumes T: "te_elf T = E" "te_stack T = Suc n" and ok: "sym_printable c h"
  shows "writes (sym_ready E ct c h) (symbol_item T only t x) () (spec_symbol_item c h only t x)"
proof (cases x)
  case (Pair nm s)
  let ?i = "sym_shndx t s"
  have call: "\<exists>v f'. sym_ready E ct c h f' \<and> get_section_index T ?i f = (Inr v, f') \<and>
      v = spec_section_index c h ?i" if f: "sym_ready E ct c h f" for f
  proof -
    obtain g where g: "sym_ready E ct c h g" "sections E f = (Inr (el_sects g), g)"
      using sections_ready [OF ok] f by (auto simp: sym_ready_def elf_opened_def)
    then have len: "length (el_sects g) = length (sec_infos c h)"
      using elf_opened_sects(1) by (auto simp: sym_ready_def)
    show ?thesis
    proof (cases "?i < int (length (sec_infos c h))")
      case True
      then have "nat ?i < length (sec_infos c h)"
        using sym_shndx_nonneg [of t s] by (simp add: nat_less_iff)
      then obtain g' where "sym_ready E ct c h g'"
          "section_name E (Suc n) (nat ?i) g = (Inr (projr (spec_name c h (nat ?i))), g')"
        using name_ready [OF ok _ g(1), of "nat ?i" n] by blast
      then show ?thesis
        using f g True len
        by (auto simp: get_section_index_def spec_section_index_def elf_index_consts T)
    qed (use f g len in \<open>auto simp: get_section_index_def spec_section_index_def elf_index_consts T\<close>)
  qed
  have line: "writes (sym_ready E ct c h) (symbol_line T t nm s) () (symbol_fields t s @
      [Str [Width 16] (spec_section_index c h ?i), Chr CHR '' '', Txt nm, Endl])"
    unfolding symbol_line_def
    by (rule writes_bind [OF writes_emit _ refl], rule writes_call [OF call])
      (simp_all add: writes_emit del: stm_simps)
  show ?thesis
    unfolding Pair using line
    by (simp add: symbol_item_def spec_symbol_item_def writes_emit writes_return del: stm_simps)
qed

lemma section_symbols_writes:
  assumes T: "te_elf T = E" "te_stack T = Suc n" and ok: "sym_printable c h"
    and i: "i < length (sec_infos c h)"
  shows "writes (sym_ready E ct c h) (section_symbols_shown T only i) ()
    (spec_sym_section (te_order T) only c h i)"
  unfolding section_symbols_shown_def spec_sym_section_def T
proof (rule writes_bind [OF _ _ refl])
  have "writes (sym_ready E ct c h) (sbind (in_file (section_name E (Suc n) i)) (\<lambda>x.
      emit [Txt x, Endl, Lit symbols_header])) ()
      [Txt (projr (spec_name c h i)), Endl, Lit symbols_header]"
    by (rule writes_call [where P = "\<lambda>x. x = projr (spec_name c h i)"])
      (use name_ready [OF ok i] in \<open>auto simp: writes_emit simp del: stm_simps\<close>)
  then show "writes (sym_ready E ct c h) (if only then sreturn () else
      sbind (emit [Lit ''SECTION '']) (\<lambda>_. sbind (in_file (section_name E (Suc n) i)) (\<lambda>x.
        emit [Txt x, Endl, Lit symbols_header]))) ()
      (if only then [] else [Lit ''SECTION '', Txt (projr (spec_name c h i)), Endl, Lit symbols_header])"
    by (auto intro: writes_bind [OF writes_emit] writes_return simp del: stm_simps)
  show "writes (sym_ready E ct c h) (sbind (in_file (symbols E (Suc n))) (\<lambda>t.
      sfor (symbol_item T only t) (map_entries (te_order T) (st_map t)))) ()
      (concat (map (spec_symbol_item c h only (elf_table c h))
         (map_entries (te_order T) (st_map (elf_table c h)))))"
    by (rule writes_call [where P = "\<lambda>t. t = elf_table c h"])
      (use symbols_ready [OF ok] in \<open>auto intro!: writes_sfor symbol_item_writes [OF T ok] simp del: stm_simps\<close>)
qed

lemma sym_processELF_ok:
  assumes T: "te_elf T = E" "te_stack T = Suc n" and ok: "sym_printable c h"
    and inv: "elf_inv E ct c h (tl_file t)" "el_syms (tl_file t) = None"
  shows "\<exists>f'. sym_processELF T only t = (Inr (), t\<lparr>con_out := con_out t @
      spec_sym_file (te_order T) only c h, tl_file := f'\<rparr>)"
proof -
  let ?ps = "sec_infos c h"
  let ?p = "\<lambda>i. sh_type (?ps ! i) = SHT_SYMTAB \<or> sh_type (?ps ! i) = SHT_DYNAMIC"
  let ?body = "\<lambda>i. if ?p i then section_symbols_shown T only i else sreturn ()"
  obtain f where f: "sections E (tl_file t) = (Inr (el_sects f), f)" "sym_ready E ct c h f"
    using sections_ready [OF ok inv(1)] inv(2) by auto
  have op: "elf_opened E ct c h f"
    using f(2) by (simp add: sym_ready_def)
  have "writes (sym_ready E ct c h) (sfor ?body [0..<length ?ps]) ()
      (concat (map (\<lambda>i. if ?p i then spec_sym_section (te_order T) only c h i else []) [0..<length ?ps]))"
    by (rule writes_sfor)
      (use section_symbols_writes [OF T ok] in \<open>auto simp: writes_return simp del: stm_simps\<close>)
  moreover have "sfor (\<lambda>i. if sh_type (sec_info (el_sects f ! i)) = SHT_SYMTAB \<or>
        sh_type (sec_info (el_sects f ! i)) = SHT_DYNAMIC
        then section_symbols_shown T only i else sreturn ()) [0..<length (el_sects f)] =
      sfor ?body [0..<length ?ps]"
    by (rule sfor_cong) (simp_all add: elf_opened_sects [OF op])
  ultimately show ?thesis
    using writesD [of _ _ _ _ "t\<lparr>tl_file := f\<rparr>"] f T
    by (fastforce simp: sym_processELF_def spec_sym_file_def concat_map_if)
qed

end

section \<open>The property\<close>

text \<open>For a COFF file, the names alone, and the type only with the option \<open>-F\<close>.\<close>

definition coff_types :: "coffi_lib \<Rightarrow> coffi_reader \<Rightarrow> u8 list \<Rightarrow> symbol_type option" where
  "coff_types L r nm =
     map_option (\<lambda>y. cm_type (coffi_sym_of L (cr_sections r) y))
       (find (\<lambda>y. cy_name y = nm) (rev (cr_symbols r)))"

fun spec_sym_command :: "'s tool_env \<Rightarrow> bool \<Rightarrow> string \<Rightarrow> binary \<Rightarrow> processed" where
  "spec_sym_command T only a (ELF_binary c h) = Inr (spec_sym_file (te_order T) only c h)"
| "spec_sym_command T only a (COFF_binary r b) =
     Inr (concat (map (\<lambda>(nm, ty). if \<not> only \<or> ty = FUNC then [Txt nm, Endl] else [])
       (map_entries (te_order T) (coff_types (ge_coffi (te_gel T)) r))))"
| "spec_sym_command T only a (PE_binary c x) = Inr []"

text \<open>
  What a file needs: names and symbols within an ELF file, the TI architecture and sections for
  the symbols of a COFF file. The symbols of a PE-COFF file cannot be asked for.
\<close>

fun symbols_listable :: "coffi_lib \<Rightarrow> binary \<Rightarrow> bool" where
  "symbols_listable L (ELF_binary c h) \<longleftrightarrow> sym_printable c h"
| "symbols_listable L (COFF_binary r b) \<longleftrightarrow>
     cr_arch r = COFFI_ARCHITECTURE_TI \<and> lib_sections_ok L \<and>
     (\<forall>y \<in> set (cr_symbols r). number_ok (length (cr_sections r)) (cy_section_number y))"
| "symbols_listable L (PE_binary c x) \<longleftrightarrow> False"

lemma sym_file_elf:
  assumes o: "opens_on (ge_manager (te_gel T)) ct ps path c" and A: "elm_array_spec (env_array (te_elf T))"
    and n: "te_stack T = Suc n" and c: "elf_content c h" and ok: "sym_printable c h"
  shows "processes (sym_file T only) path (spec_sym_command T only path (ELF_binary c h))"
proof -
  have E: "elf_host (te_elf T) ct ps"
    using opens_on_host [OF o] A by (simp add: te_elf_def)
  obtain s where s: "ct s = c" "openFile (ge_manager (te_gel T)) path = Inr (ELF_file (new_elf_file s h))"
    using openFile_elf [OF o c] by blast
  let ?f = "new_elf_file s h"
  have inv: "elf_inv (te_elf T) ct c h ?f" "el_syms ?f = None"
    using new_elf_file_inv [of "te_elf T" ct s h] s(1) by (simp_all add: new_elf_file_def)
  have "with_file ?f (sym_processELF T only) con =
      (Inr (), con\<lparr>con_out := con_out con @ spec_sym_file (te_order T) only c h\<rparr>)" for con
  proof -
    let ?t = "console.extend con (tool.fields ?f)"
    obtain f' where "sym_processELF T only ?t = (Inr (), ?t\<lparr>con_out := con_out con @
        spec_sym_file (te_order T) only c h, tl_file := f'\<rparr>)"
      using elf_host.sym_processELF_ok [OF E refl n ok, of ?t only] inv by auto
    then show ?thesis
      by (rule with_file_out)
  qed
  then show ?thesis
    by (simp add: processes_def sym_file_def manager_open_def s(2) elf_toELF_def)
qed

lemma sym_processGen_coff:
  assumes f: "of_obj (tl_file t) = COFF_file (coffi_opened (ge_coffi (te_gel T)) r b)"
    and ok: "symbols_listable (ge_coffi (te_gel T)) (COFF_binary r b)"
  shows "\<exists>g. sym_processGen T only t = (Inr (), t\<lparr>con_out := con_out t @
      projr (spec_sym_command T only a (COFF_binary r b)), tl_file := g\<rparr>)"
proof -
  let ?L = "ge_coffi (te_gel T)" and ?m = "coff_types (ge_coffi (te_gel T)) r"
  have "\<exists>x. coffi_symbols ?L (coffi_opened ?L r b) =
      (Inr (put_all ?L (cr_sections r) (cr_symbols r) Map.empty), x)"
    using coffi_symbols_fresh [of "coffi_opened ?L r b" ?L] ok by (simp add: coffi_opened_def Let_def)
  moreover have "(\<lambda>nm. map_option cm_type (put_all ?L (cr_sections r) (cr_symbols r) Map.empty nm)) = ?m"
    by (auto simp: put_all_def coff_types_def fun_eq_iff split: option.splits)
  ultimately obtain g where g: "file_symbols (te_gel T) (tl_file t) = (Inr ?m, g)"
    using f by (auto simp: file_symbols_def on_obj_def)
  have "writes (\<lambda>_. True) (sfor (\<lambda>(nm, ty). if \<not> only \<or> ty = FUNC then emit [Txt nm, Endl] else sreturn ())
      (map_entries (te_order T) ?m)) ()
      (concat (map (\<lambda>(nm, ty). if \<not> only \<or> ty = FUNC then [Txt nm, Endl] else []) (map_entries (te_order T) ?m)))"
    by (rule writes_sfor) (auto simp: writes_emit writes_return simp del: stm_simps)
  from writesD [OF this, of "t\<lparr>tl_file := g\<rparr>"] show ?thesis
    using g by (auto simp: sym_processGen_def)
qed

lemma sym_file_ok:
  assumes src: "binary_source (ge_manager (te_gel T)) ct ps a (Inr b)"
    and A: "elm_array_spec (env_array (te_elf T))" and n: "te_stack T = Suc n"
    and ok: "symbols_listable (ge_coffi (te_gel T)) b"
  shows "processes (sym_file T only) a (spec_sym_command T only a b)"
proof (cases b)
  case (ELF_binary c h)
  then show ?thesis
    using sym_file_elf [OF _ A n, of ct ps a c h only] src ok by (simp add: binary_source_def)
next
  case (COFF_binary r base)
  then obtain f where f: "manager_open (te_gel T) a = Inr f"
    "of_obj f = COFF_file (coffi_opened (ge_coffi (te_gel T)) r base)"
    using opened_binary [OF src] A by (auto simp: te_elf_def)
  have "with_file f (sym_processGen T only) con =
      (Inr (), con\<lparr>con_out := con_out con @ projr (spec_sym_command T only a b)\<rparr>)" for con
    using sym_processGen_coff [of "console.extend con (tool.fields f)" T r base only a] f(2) ok COFF_binary
    by (auto intro: with_file_out simp del: spec_sym_command.simps)
  then show ?thesis
    using f COFF_binary by (simp add: processes_def sym_file_def gel_toELF_def)
qed (use ok in simp)

definition sym_report :: "string \<Rightarrow> gel_exn \<Rightarrow> console \<Rightarrow> console" where
  "sym_report a e c = c\<lparr>con_err := con_err c @
     [Lit ''ERROR: during opening of '', Txt (str_bytes a), Lit '': '', Msg e, Endl]\<rparr>"

interpretation sym_command: stopping_command "sym_files T only" "sym_file T only" sym_report 2
  for T only
  by unfold_locales (simp_all add: try_file_def [symmetric] try_file_eq sym_report_def)

text \<open>C18. The command \<open>gel-sym\<close>, from the bytes of ELF files and what COFFI reads of COFF files to
  its output. For an ELF file, the symbols that \<open>symbols()\<close> finds, each with its value, its size,
  its type and the name of its section, once for each section of type \<open>SHT_SYMTAB\<close> or
  \<open>SHT_DYNAMIC\<close>; with the option \<open>-F\<close>, only the names of the functions that are not empty. For a
  COFF file, each name once and nothing more; with \<open>-F\<close>, the functions. It stops at the first
  file that cannot be opened, with the status 2.\<close>

theorem gel_sym_output:
  assumes A: "elm_array_spec (env_array (te_elf T))" and n: "te_stack T = Suc n"
    and src: "binaries_opened T ct ps args ds" and ne: "args \<noteq> []"
    and ok: "\<And>b. Inr b \<in> set ds \<Longrightarrow> symbols_listable (ge_coffi (te_gel T)) b"
  shows "sym_run T (Parsed only args) con =
    until_failure 2 sym_report args (outcomes_of (spec_sym_command T only) args ds) con"
proof -
  have "list_all2 (processes (sym_file T only)) args (outcomes_of (spec_sym_command T only) args ds)"
    by (rule outcomes_of_processes [OF src])
      (use sym_file_ok [OF _ A n] ok in \<open>auto simp: processes_def sym_file_def manager_open_def binary_source_def\<close>)
  then show ?thesis
    using ne by (simp add: sym_run_def sym_command.files_until)
qed

text \<open>The file \<open>sample\<close>, whose symbol table holds the function \<open>f\<close>.\<close>

lemma printable_sample: "sym_printable sample sample_head"
  using fit_sample(1) strtab_ok_sample symbols_ok_sample name_ok_sample
  by (simp add: sym_printable_def names_ok_def length_sec_infos_sample)

lemma elf_table_sample:
  "st_map (elf_table sample sample_head) = [[102] \<mapsto> \<lparr>sym_is64 = False, sym_mem = 0, sym_off = 0\<rparr>]"
  "st_mems (elf_table sample sample_head) = [[1, 0, 0, 0, 0, 128, 0, 0, 8, 0, 0, 0, 18, 0, 0, 0]]"
proof -
  have "spec_symbols sample sample_head 0 [2] = [([102], \<lparr>sym_is64 = False, sym_mem = 0, sym_off = 0\<rparr>)]"
    by (simp add: section_symbols_def sec_infos_sample sym_offsets_def sym_count_def
        spec_sym_name_def link_info_def sym_name_off_def symbol_data_sample load32_def
        sec_data_sample bytes_at_def cstr_at_def le_word_nat)
  then show "st_map (elf_table sample sample_head) = [[102] \<mapsto> \<lparr>sym_is64 = False, sym_mem = 0, sym_off = 0\<rparr>]"
    "st_mems (elf_table sample sample_head) = [[1, 0, 0, 0, 0, 128, 0, 0, 8, 0, 0, 0, 18, 0, 0, 0]]"
    by (simp_all only: elf_table_def symtabs_sample spec_table_def empty_symbol_table_def
        symbol_table.select_convs list.size list.map append_Nil)
      (simp_all add: sec_infos_sample symbol_data_sample)
qed

theorem gel_sym_output_witness:
  "sym_run (demo_formats\<lparr>te_order := (\<lambda>S. [[102]])\<rparr>) (Parsed True [''a.out'', ''demo'', ''none'']) empty_console =
     (Inr 2, sym_report ''none'' (System_Error ''missing'')
        (empty_console\<lparr>con_out := [Txt [102], Lit '' '', Endl, Txt [102], Endl]\<rparr>))"
proof -
  let ?T = "demo_formats\<lparr>te_order := (\<lambda>S. [[102]])\<rparr>"
  let ?t = "elf_table sample sample_head" and ?s = "\<lparr>sym_is64 = False, sym_mem = 0, sym_off = 0\<rparr>"
  have sym: "sym_type ?t ?s = FUNC" "sym_size ?t ?s = 8"
    by (simp_all add: sym_size_def sym_type_def sym_block_def Symbol32_size_def elf_table_sample
        Symbol32_type_def load_Elf32_Sym_def load_defs load8_def bytes_at_def le_word_nat
        ELF32_ST_TYPE_def STT_OBJECT_def STT_FUNC_def)
  have types: "sh_type (SH32 (sample_sh nm ty off sz link ent)) = ty" for nm ty off sz link ent
    by (simp add: sample_sec_simps sh_type.simps)
  have "spec_sym_file (\<lambda>S. [[102]]) True sample sample_head = [Txt [102], Lit '' '', Endl]"
    unfolding spec_sym_file_def length_sec_infos_sample upto4 sec_infos_sample
    by (simp add: types SHT_SYMTAB_def SHT_DYNAMIC_def spec_sym_section_def map_entries_def
        map_filter_simps elf_table_sample spec_symbol_item_def sym)
  moreover have "coff_types demo_lib demo_coff [102] = Some FUNC"
    by (simp add: coff_types_def demo_coff_simps coffi_sym_of_def symbol_section_def
        spec_symbol_type_def shares_iff)
  ultimately have out: "spec_sym_command ?T True ''a.out'' (ELF_binary sample sample_head) =
      Inr [Txt [102], Lit '' '', Endl]"
    "spec_sym_command ?T True ''demo'' (COFF_binary demo_coff 0) = Inr [Txt [102], Endl]"
    by (simp_all add: demo_formats_env map_entries_def map_filter_simps)
  have "lib_sections_ok demo_lib"
    by (simp add: lib_sections_ok_def demo_lib_def)
  then have ok: "symbols_listable demo_lib b"
    if "b \<in> {ELF_binary sample sample_head, COFF_binary demo_coff 0}" for b
    using that printable_sample by (auto simp: demo_coff_def number_ok_def)
  have src: "binaries_opened ?T fst snd [''a.out'', ''demo'', ''none'']
      [Inr (ELF_binary sample sample_head), Inr (COFF_binary demo_coff 0), Inl (System_Error ''missing'')]"
    using demo_formats_files by simp
  have env: "te_elf ?T = sample_env" "te_stack ?T = Suc 0" "ge_coffi (te_gel ?T) = demo_lib"
    using demo_formats_env by (simp_all add: te_elf_def te_stack_def)
  show ?thesis
    using gel_sym_output [OF _ env(2) src, where only = True and con = empty_console] ok
    by (simp add: env demo_formats_env(4) sample_host.array empty_console_def out del: symbols_listable.simps spec_sym_command.simps)
qed

end
