(* ===== verification/Tool_Im.thy ===== *)
theory Tool_Im
  imports Tool_Base
begin

text \<open>
  \<open>src/bin/gel-im.cpp\<close>: the blocks of the image of a program.
\<close>

section \<open>A block\<close>

text \<open>
  The bytes from the cursor \<open>c\<close> on, 16 on a line that starts with the address of its first byte;
  \<open>p\<close> counts the bytes of the line and \<open>k\<close> bounds the turns of the loop.
\<close>

fun im_bytes ::
  "(u64 \<Rightarrow> out_item) \<Rightarrow> u64 \<Rightarrow> nat \<Rightarrow> nat \<Rightarrow> cursor \<Rightarrow> ('c console_scheme, unit) stm" where
  "im_bytes fm a 0 p c = sraise No_Return"
| "im_bytes fm a (Suc k) p c =
     (if \<not> cur_avail c 1 then sreturn ()
      else
        sbind (if p < 15 then sreturn (p + 1)
               else sbind (emit [Lit [newline], fm (a + cur_off c)]) (\<lambda>_. sreturn 0)) (\<lambda>p.
        sbind (slift (cur_read_u8 c)) (\<lambda>(v, c).
        sbind (case v of None \<Rightarrow> sraise Uninitialised | Some b \<Rightarrow> emit [Chr CHR '' '', Byte b]) (\<lambda>_.
          im_bytes fm a k p c))))"

definition im_header :: "(u64 \<Rightarrow> out_item) \<Rightarrow> ('f, 'g) image_segment \<Rightarrow> out_item list" where
  "im_header fm s =
     [Lit ''BLOCK '', Txt (is_name s), Lit '' @ '', fm (is_base s), Lit '' ('',
      Num [Hex] (uint (is_size s)), Lit '')''] @
     (if is_isWritable s then [Lit '' WRITE''] else []) @
     (if is_isExecutable s then [Lit '' EXEC''] else [])"

definition im_block ::
  "(u64 \<Rightarrow> out_item) \<Rightarrow> bool \<Rightarrow> nat \<Rightarrow> ('f, 'g) image_segment \<Rightarrow> ('c console_scheme, unit) stm" where
  "im_block fm no_content k s =
     sbind (emit (im_header fm s)) (\<lambda>_.
     sbind (if no_content then sreturn ()
            else im_bytes fm (is_base s) k 15 (make_cursor (is_buf s))) (\<lambda>_.
       emit [Lit [newline, newline]]))"

section \<open>The command\<close>

text \<open>The options \<open>-s\<close> and \<open>-c\<close>.\<close>

record im_options =
  no_stack :: bool
  no_content :: bool

definition im_parameter :: "im_options \<Rightarrow> parameter" where
  "im_parameter opts = parameter_null\<lparr>pa_stack_alloc := \<not> no_stack opts\<rparr>"

text \<open>The image of a PE file is a null pointer.\<close>

definition im_show :: "'s tool_env \<Rightarrow> nat \<Rightarrow> im_options \<Rightarrow> ('s open_file tool, unit) stm" where
  "im_show T k opts =
     sbind (in_file (file_make (te_gel T) (im_parameter opts))) (\<lambda>im.
     sbind (in_file sget) (\<lambda>f.
       let fm = file_format (of_obj f) in
       case im of
         Null_image \<Rightarrow> sraise Memory_Fault
       | ELF_image x \<Rightarrow> sfor (im_block fm (no_content opts) k) (im_segs x)
       | COFF_image x \<Rightarrow> sfor (im_block fm (no_content opts) k) (im_segs x)))"

definition im_file :: "'s tool_env \<Rightarrow> nat \<Rightarrow> im_options \<Rightarrow> string \<Rightarrow> (console, unit) stm" where
  "im_file T k opts arg =
     sbind (slift (manager_open (te_gel T) arg)) (\<lambda>f. with_file f (im_show T k opts))"

fun im_files :: "'s tool_env \<Rightarrow> nat \<Rightarrow> im_options \<Rightarrow> string list \<Rightarrow> (console, int) stm" where
  "im_files T k opts [] = sreturn 0"
| "im_files T k opts (arg # args) =
     sbind (catch_gel (\<lambda>e. sbind (plain_error e) (\<lambda>_. sreturn False))
         (sbind (im_file T k opts arg) (\<lambda>_. sreturn True))) (\<lambda>ok.
       if ok then im_files T k opts args else sreturn 1)"

definition im_run :: "'s tool_env \<Rightarrow> nat \<Rightarrow> im_options command_line \<Rightarrow> (console, int) stm" where
  "im_run T k cl =
     (case cl of
        Bad_Options msg \<Rightarrow> bad_options msg
      | Parsed opts args \<Rightarrow>
          if args = [] then bad_options ''at least one executable file required!''
          else im_files T k opts args)"

text \<open>The exit status of the program: \<open>main\<close> does not return the result of \<open>run\<close>.\<close>

definition im_main :: "'s tool_env \<Rightarrow> nat \<Rightarrow> im_options command_line \<Rightarrow> console \<Rightarrow> int res \<times> console" where
  "im_main T k cl con = (case im_run T k cl con of (r, con') \<Rightarrow> (ignored_status r, con'))"

end
