(* ===== verification/Tool_Im_Props.thy ===== *)
theory Tool_Im_Props
  imports Tool_Im Tool_Binary
begin

text \<open>
  The properties of \<open>gel-im\<close>: its output for ELF and COFF files, from what is known of the files on.
\<close>

declare sec_infos.simps [simp del] phdr_infos.simps [simp del]

section \<open>The dump of a block\<close>

text \<open>The \<open>j\<close>-th byte of a block at \<open>a\<close>, with the address in front of each group of 16 bytes.\<close>

definition dump_byte :: "(u64 \<Rightarrow> out_item) \<Rightarrow> u64 \<Rightarrow> nat \<times> u8 \<Rightarrow> out_item list" where
  "dump_byte fm a = (\<lambda>(j, b).
     (if 16 dvd j then [Lit [newline], fm (a + word_of_nat j)] else []) @ [Chr CHR '' '', Byte b])"

definition spec_dump :: "(u64 \<Rightarrow> out_item) \<Rightarrow> u64 \<Rightarrow> mem \<Rightarrow> out_item list" where
  "spec_dump fm a m = concat (map (dump_byte fm a) (enumerate 0 m))"

lemma line_count:
  assumes "p = (j + 15) mod (16 :: nat)"
  shows "p < 15 \<longleftrightarrow> \<not> 16 dvd j" and "(if p < 15 then p + 1 else 0) = (Suc j + 15) mod 16"
proof -
  let ?r = "j mod 16"
  have "p = (?r + 15) mod 16"
    using assms by (simp add: mod_add_left_eq)
  moreover have "(?r + 15) mod 16 = ?r - 1" if "?r \<noteq> 0"
  proof -
    have "?r + 15 = ?r - 1 + 16"
      using that by simp
    then show ?thesis
      by (simp only: mod_add_self2) (simp add: less_imp_diff_less)
  qed
  ultimately have p: "p = (if ?r = 0 then 15 else ?r - 1)" "?r < 16"
    by simp_all
  then show "p < 15 \<longleftrightarrow> \<not> 16 dvd j"
    by (auto simp: dvd_eq_mod_eq_0)
  have "(Suc j + 15) mod 16 = ?r"
    using mod_add_self2 [of j 16] by simp
  then show "(if p < 15 then p + 1 else 0) = (Suc j + 15) mod 16"
    using p by auto
qed

lemma im_bytes_eq:
  assumes "cursor_wf c" and "length (cur_rest c) < k" and "p = (unat (cur_off c) + 15) mod 16"
  shows "im_bytes fm a k p c con = (Inr (), con\<lparr>con_out := con_out con @
    concat (map (dump_byte fm a) (enumerate (unat (cur_off c)) (cur_rest c)))\<rparr>)"
  using assms
proof (induction k arbitrary: p c con)
  case (Suc k)
  note wf = Suc.prems(1)
  show ?case
  proof (cases "cur_rest c")
    case Nil
    then have "\<not> cur_avail c 1"
      using cur_avail_iff [OF wf, of 1] by simp
    then show ?thesis
      using Nil by simp
  next
    case (Cons b bs)
    have av: "cur_avail c 1" "cur_read_u8 c = Inr (Some b, cur_adv c 1)"
      using cur_avail_iff [OF wf, of 1] cur_read_u8_eq [OF wf] Cons by simp_all
    have adv: "cursor_wf (cur_adv c 1)" "cur_rest (cur_adv c 1) = bs"
        "unat (cur_off (cur_adv c 1)) = Suc (unat (cur_off c))"
      using cursor_wf_adv [OF wf, of 1] unat_cur_off_add [OF wf, of 1] Cons by (simp_all add: cur_adv_def)
    have IH: "im_bytes fm a k ((Suc (unat (cur_off c)) + 15) mod 16) (cur_adv c 1) con' =
        (Inr (), con'\<lparr>con_out := con_out con' @
          concat (map (dump_byte fm a) (enumerate (Suc (unat (cur_off c))) bs))\<rparr>)" for con' :: "'a console_scheme"
      using Suc.IH [OF adv(1), of "(Suc (unat (cur_off c)) + 15) mod 16" con'] Suc.prems(2) adv Cons by simp
    show ?thesis
      using line_count [OF Suc.prems(3)] IH av Cons
      by (cases "p < 15") (simp_all add: dump_byte_def)
  qed
qed simp

section \<open>The blocks of an image\<close>

text \<open>
  The blocks that an image has: name, address, whether it can be written and executed, and bytes.
  An ELF file has one for each program header to load that is not empty, a COFF file one for each
  section with code or data that has bytes.
\<close>

type_synonym shown_block = "u8 list \<times> u64 \<times> bool \<times> bool \<times> mem"

definition block_text :: "(u64 \<Rightarrow> out_item) \<Rightarrow> bool \<Rightarrow> shown_block \<Rightarrow> out_item list" where
  "block_text fm hide = (\<lambda>(name, base, w, x, m).
     [Lit ''BLOCK '', Txt name, Lit '' @ '', fm base, Lit '' ('', Num [Hex] (int (length m)), Lit '')''] @
     (if w then [Lit '' WRITE''] else []) @ (if x then [Lit '' EXEC''] else []) @
     (if hide then [] else spec_dump fm base m) @ [Lit [newline, newline]])"

definition elf_block :: "(nat \<Rightarrow> u8) \<Rightarrow> mem \<Rightarrow> phdr_info \<Rightarrow> shown_block" where
  "elf_block junk c p =
     (let x = (ph_flags p AND PF_X \<noteq> 0); w = (ph_flags p AND PF_W \<noteq> 0) in
      (defaultName x w True, ph_paddr p, w, x, ph_data junk c p))"

definition coff_block :: "coffi_lib \<Rightarrow> coffi_section \<Rightarrow> shown_block" where
  "coff_block L s =
     (cs_name s, cs_physical_address s, True, coffi_isExecutable L s,
      if coffi_hasContent L s then the (cs_data s) else replicate (unat (cs_data_size s)) 0)"

fun blocks_of :: "'s gel_env \<Rightarrow> binary \<Rightarrow> shown_block list" where
  "blocks_of G (ELF_binary c h) =
     map (elf_block (env_junk (ge_elf G)) c)
       (filter (\<lambda>p. ph_type p = PT_LOAD \<and> ph_memsz p \<noteq> 0) (phdr_infos c h))"
| "blocks_of G (COFF_binary r b) =
     map (coff_block (ge_coffi G))
       (filter (\<lambda>s. coffi_is_segment (ge_coffi G) s \<and> cs_data s \<noteq> None) (cr_sections r))"
| "blocks_of G (PE_binary c x) = []"

text \<open>The width of the addresses.\<close>

fun address_width :: "binary \<Rightarrow> address_type_t" where
  "address_width (ELF_binary c h) = elf_addressType h"
| "address_width b = address_32"

definition spec_im_show :: "'s gel_env \<Rightarrow> bool \<Rightarrow> binary \<Rightarrow> out_item list" where
  "spec_im_show G hide b =
     concat (map (block_text (format_address (address_width b)) hide) (blocks_of G b))"

text \<open>
  What a file needs: tables and segments within its content, and bounds \<open>k\<close> on the bytes of a
  block and \<open>n\<close> on the segments. A PE-COFF file has no image.
\<close>

fun im_printable :: "coffi_lib \<Rightarrow> nat \<Rightarrow> nat \<Rightarrow> binary \<Rightarrow> bool" where
  "im_printable L k n (ELF_binary c h) \<longleftrightarrow>
     phs_fit c h \<and> (\<forall>p \<in> set (phdr_infos c h). ph_ok c p \<and> unat (ph_memsz p) < k) \<and>
     length (load_indices c h) < n"
| "im_printable L k n (COFF_binary r b) \<longleftrightarrow>
     (\<forall>s \<in> set (cr_sections r). unat (cs_data_size s) < 2 ^ 63 \<and> unat (cs_data_size s) < k \<and>
        (\<forall>m. cs_data s = Some m \<longrightarrow> length m = unat (cs_data_size s))) \<and>
     length (filter (coffi_is_segment L) (cr_sections r)) < n"
| "im_printable L k n (PE_binary c x) \<longleftrightarrow> False"

text \<open>A segment of an image and the block it is shown as.\<close>

definition segment_shows :: "nat \<Rightarrow> ('f, 'g) image_segment \<Rightarrow> shown_block \<Rightarrow> bool" where
  "segment_shows k s = (\<lambda>(name, base, w, x, m).
     is_name s = name \<and> is_base s = base \<and> is_isWritable s = w \<and> is_isExecutable s = x \<and>
     length m < k \<and> length m < 2 ^ 63 \<and>
     (\<exists>d. is_buf s = make_buffer d (Some m) (word_of_nat (length m))))"

lemma im_block_eq:
  assumes "segment_shows k s b"
  shows "im_block fm hide k s con = (Inr (), con\<lparr>con_out := con_out con @ block_text fm hide b\<rparr>)"
proof -
  obtain name base w x m where b: "b = (name, base, w, x, m)"
    by (cases b)
  then obtain d where buf: "is_buf s = make_buffer d (Some m) (word_of_nat (length m))"
    and len: "length m < k" "length m < 2 ^ 63"
    using assms by (auto simp: segment_shows_def)
  let ?b = "make_buffer d (Some m) (word_of_nat (length m))"
  have wf: "cursor_wf (make_cursor ?b)"
    using len(2) by (intro make_cursor_wf make_buffer_wf)
  have sz: "unat (word_of_nat (length m) :: u64) = length m"
    using len(2) by (simp add: unat_of_nat_64)
  have "im_bytes fm a k 15 (make_cursor ?b) con' =
      (Inr (), con'\<lparr>con_out := con_out con' @ spec_dump fm a m\<rparr>)" for a and con' :: "'c console_scheme"
    using im_bytes_eq [OF wf, of k 15 fm a con'] len sz
    by (simp add: spec_dump_def make_buffer_def) (simp add: make_cursor_def)
  moreover have "uint (is_size s) = int (length m)"
    using sz by (simp add: is_size_def buf make_buffer_def uint_nat)
  ultimately show ?thesis
    using assms buf by (simp add: im_block_def im_header_def block_text_def segment_shows_def b)
qed

lemma im_blocks_eq:
  assumes "list_all2 (segment_shows k) ss bs"
  shows "sfor (im_block fm hide k) ss con =
    (Inr (), con\<lparr>con_out := con_out con @ concat (map (block_text fm hide) bs)\<rparr>)"
  using assms by (induction arbitrary: con rule: list_all2_induct) (simp_all add: im_block_eq)

lemma load_filter:
  "map (\<lambda>i. phdr_infos c h ! i) (filter (\<lambda>i. P (phdr_infos c h ! i)) (load_indices c h)) =
   filter (\<lambda>p. ph_type p = PT_LOAD \<and> P p) (phdr_infos c h)"
proof -
  have "filter (\<lambda>i. Q (xs ! i)) [0..<length xs] = filter (\<lambda>i. Q (xs ! i)) [0..<length xs] \<and>
      map (\<lambda>i. xs ! i) (filter (\<lambda>i. Q (xs ! i)) [0..<length xs]) = filter Q xs" for Q and xs :: "phdr_info list"
    using filter_map [of Q "\<lambda>i. xs ! i" "[0..<length xs]"] by (simp add: map_nth comp_def)
  from this [of "\<lambda>p. ph_type p = PT_LOAD \<and> P p" "phdr_infos c h"] show ?thesis
    by (simp add: load_indices_def conj_commute)
qed

text \<open>The images of the two formats.\<close>

lemma elf_segment_shows:
  assumes p: "phdr_infos c h ! i = p" "ph_ok c p" and k: "unat (ph_memsz p) < k"
  shows "segment_shows k (spec_image_segment E c h prog i) (elf_block (env_junk E) c p)"
proof -
  have len: "length (ph_data (env_junk E) c p) = unat (ph_memsz p)"
    by (rule length_ph_data [OF p(2)])
  then have "ph_memsz p = word_of_nat (length (ph_data (env_junk E) c p))"
    by simp
  then show ?thesis
    using len k ph_paddr_range [OF p(2)]
    by (auto simp: segment_shows_def elf_block_def spec_image_segment_def p(1) Let_def
        is_isWritable_def is_isExecutable_def image_flags)
qed

lemma elf_blocks:
  assumes "\<forall>p \<in> set (phdr_infos c h). ph_ok c p \<and> unat (ph_memsz p) < k"
  shows "list_all2 (segment_shows k)
    (map (spec_image_segment (ge_elf G) c h prog)
       (filter (\<lambda>i. ph_memsz (phdr_infos c h ! i) \<noteq> 0) (load_indices c h)))
    (blocks_of G (ELF_binary c h))"
proof -
  let ?is = "filter (\<lambda>i. ph_memsz (phdr_infos c h ! i) \<noteq> 0) (load_indices c h)"
  have "blocks_of G (ELF_binary c h) =
      map (\<lambda>i. elf_block (env_junk (ge_elf G)) c (phdr_infos c h ! i)) ?is"
    using load_filter [of c h "\<lambda>p. ph_memsz p \<noteq> 0", symmetric] by simp
  then show ?thesis
    using assms load_indices_bound [of _ c h]
    by (auto simp: list_all2_map1 list_all2_map2 list_all2_same simp del: blocks_of.simps
        intro!: elf_segment_shows)
qed

lemma coff_segment_shows:
  assumes "unat (cs_data_size s) < 2 ^ 63" and "unat (cs_data_size s) < k"
    and "cs_data s = Some m" and "length m = unat (cs_data_size s)"
  shows "segment_shows k (coffi_image_segment L p s) (coff_block L s)"
proof -
  let ?m = "if coffi_hasContent L s then m else replicate (unat (cs_data_size s)) 0"
  have "cs_data_size s = word_of_nat (length ?m)"
    using assms by simp
  then show ?thesis
    using assms
    by (auto simp: segment_shows_def coff_block_def coffi_image_segment_def is_isWritable_def
        is_isExecutable_def image_flags)
qed

lemma coff_blocks:
  assumes "im_printable (ge_coffi G) k n (COFF_binary r b)"
  shows "list_all2 (segment_shows k)
    (map (coffi_image_segment (ge_coffi G) prog)
       (filter (\<lambda>s. coffi_is_segment (ge_coffi G) s \<and> cs_data s \<noteq> None) (cr_sections r)))
    (blocks_of G (COFF_binary r b))"
  using assms by (auto simp: list_all2_map1 list_all2_map2 list_all2_same intro!: coff_segment_shows)

section \<open>The property\<close>

definition spec_im_command :: "'s gel_env \<Rightarrow> bool \<Rightarrow> string \<Rightarrow> binary \<Rightarrow> processed" where
  "spec_im_command G hide a b = Inr (spec_im_show G hide b)"

lemma file_format_coff [simp]: "file_format (COFF_file x) = format_address address_32"
  by (simp add: file_format_def fun_eq_iff coffi_addressType_def)

lemma im_show_elf:
  fixes t :: "'s open_file tool"
  assumes E: "elf_host (te_elf T) ct ps" and x: "elf_inv (te_elf T) ct c h x"
    and ok: "im_printable L k (ge_segments (te_gel T)) (ELF_binary c h)" and f: "of_obj (tl_file t) = ELF_file x"
  shows "\<exists>g. im_show T k opts t = (Inr (), t\<lparr>con_out := con_out t @
       spec_im_show (te_gel T) (no_content opts) (ELF_binary c h), tl_file := g\<rparr>)"
proof -
  let ?G = "te_gel T" and ?E = "te_elf T" and ?fm = "format_address (elf_addressType h)"
  let ?p = "of_path (tl_file t)"
  have "seg_file_ok ?E ct ps c h"
    using E ok by (simp add: seg_file_ok_def)
  from elf_make_ok [OF this x, of "ge_segments ?G" ?p]
  obtain x' where x': "elf_make ?E (ge_segments ?G) ?p x = (Inr (Some (spec_image ?E c h ?p)), x')"
    "elf_inv ?E ct c h x'"
    using ok unfolding im_printable.simps by (elim exE conjE) blast
  have fm: "file_format (ELF_file x') = ?fm"
    using x'(2) by (simp add: elf_inv_def file_format_def fun_eq_iff)
  let ?f = "(tl_file t)\<lparr>of_obj := ELF_file x'\<rparr>"
  have "list_all2 (segment_shows k) (im_segs (spec_image ?E c h ?p)) (blocks_of ?G (ELF_binary c h))"
    using elf_blocks [of c h k ?G ?p] ok by (simp add: spec_image_def te_elf_def del: blocks_of.simps)
  from im_blocks_eq [OF this, of ?fm "no_content opts" "t\<lparr>tl_file := ?f\<rparr>"] show ?thesis
    using x'(1) fm f
    by (intro exI [of _ ?f])
      (simp add: im_show_def file_make_def on_obj_def built_def spec_im_show_def te_elf_def del: blocks_of.simps)
qed

lemma im_show_coff:
  fixes t :: "'s open_file tool"
  assumes A: "elm_array_spec (env_array (te_elf T))"
    and ok: "im_printable (ge_coffi (te_gel T)) k (ge_segments (te_gel T)) (COFF_binary r b)"
    and f: "of_obj (tl_file t) = COFF_file (coffi_opened (ge_coffi (te_gel T)) r b)"
  shows "\<exists>g. im_show T k opts t = (Inr (), t\<lparr>con_out := con_out t @
       spec_im_show (te_gel T) (no_content opts) (COFF_binary r b), tl_file := g\<rparr>)"
proof -
  let ?G = "te_gel T" and ?p = "of_path (tl_file t)"
  let ?f = "(tl_file t)\<lparr>of_obj := COFF_file (coffi_opened (ge_coffi (te_gel T)) r b)\<rparr>"
  have "coffi_make (env_array (ge_elf ?G)) (env_junk (ge_elf ?G)) (ge_coffi ?G) (ge_segments ?G) ?p
      (coffi_opened (ge_coffi ?G) r b) =
    (Inr (Some (coffi_image (ge_coffi ?G) ?p r)), coffi_opened (ge_coffi ?G) r b)"
    using A ok by (intro coffi_make_opened) (auto simp: te_elf_def)
  moreover have "list_all2 (segment_shows k) (im_segs (coffi_image (ge_coffi ?G) ?p r))
      (blocks_of ?G (COFF_binary r b))"
    using coff_blocks [OF ok, of ?p] by (simp add: coffi_image_def del: blocks_of.simps)
  from im_blocks_eq [OF this, of "format_address address_32" "no_content opts" "t\<lparr>tl_file := ?f\<rparr>"]
  have "sfor (im_block (format_address address_32) (no_content opts) k)
      (im_segs (coffi_image (ge_coffi ?G) ?p r)) (t\<lparr>tl_file := ?f\<rparr>) =
    (Inr (), t\<lparr>con_out := con_out t @ spec_im_show ?G (no_content opts) (COFF_binary r b), tl_file := ?f\<rparr>)"
    by (simp add: spec_im_show_def del: blocks_of.simps)
  ultimately show ?thesis
    using f by (intro exI [of _ ?f]) (simp add: im_show_def file_make_def on_obj_def built_def)
qed

lemma im_file_ok:
  assumes src: "binary_source (ge_manager (te_gel T)) ct ps a (Inr b)"
    and A: "elm_array_spec (env_array (te_elf T))"
    and ok: "im_printable (ge_coffi (te_gel T)) k (ge_segments (te_gel T)) b"
  shows "processes (im_file T k opts) a (spec_im_command (te_gel T) (no_content opts) a b)"
proof -
  note op = opened_binary [OF src, folded te_elf_def, OF A]
  then obtain f where f: "manager_open (te_gel T) a = Inr f"
    by blast
  have shown: "\<exists>g. im_show T k opts t = (Inr (), t\<lparr>con_out := con_out t @
       spec_im_show (te_gel T) (no_content opts) b, tl_file := g\<rparr>)" if "tl_file t = f" for t
    using op f that ok im_show_elf [of T ct ps] im_show_coff [OF A] by (cases b) fastforce+
  have "with_file f (im_show T k opts) con =
      (Inr (), con\<lparr>con_out := con_out con @ spec_im_show (te_gel T) (no_content opts) b\<rparr>)" for con
    using shown [of "console.extend con (tool.fields f)"] by (auto intro: with_file_out)
  then show ?thesis
    using f by (simp add: processes_def im_file_def spec_im_command_def)
qed

interpretation im_command: stopping_command "im_files T k opts" "im_file T k opts" "\<lambda>a. plain_report" 1
  for T k opts
  by unfold_locales (simp_all add: try_file_def [symmetric] try_file_eq plain_error_eq)

lemma im_run_files:
  assumes A: "elm_array_spec (env_array (te_elf T))" and src: "binaries_opened T ct ps args ds"
    and ne: "args \<noteq> []"
    and ok: "\<And>b. Inr b \<in> set ds \<Longrightarrow> im_printable (ge_coffi (te_gel T)) k (ge_segments (te_gel T)) b"
  shows "im_run T k (Parsed opts args) con = until_failure 1 (\<lambda>a. plain_report) args
      (outcomes_of (spec_im_command (te_gel T) (no_content opts)) args ds) con"
proof -
  have "list_all2 (processes (im_file T k opts)) args
      (outcomes_of (spec_im_command (te_gel T) (no_content opts)) args ds)"
    by (rule outcomes_of_processes [OF src])
      (use im_file_ok [OF _ A] ok in \<open>auto simp: processes_def im_file_def manager_open_def binary_source_def\<close>)
  then show ?thesis
    using ne by (simp add: im_run_def im_command.files_until)
qed

text \<open>C19. The command \<open>gel-im\<close>, from the bytes of ELF files and what COFFI reads of COFF files to
  its output: for each program header to load that is not empty, or each section with code or
  data that has bytes, in the order of the file, its physical address, its size and its
  protection and, unless \<open>-c\<close> is given, every byte that the image has there, 16 bytes on a line
  after the address of the first one. The option \<open>-s\<close> changes nothing. The command stops at the
  first file that cannot be opened; the status of the program is 0 all the same.\<close>

theorem gel_im_output:
  assumes A: "elm_array_spec (env_array (te_elf T))" and src: "binaries_opened T ct ps args ds"
    and ne: "args \<noteq> []"
    and ok: "\<And>b. Inr b \<in> set ds \<Longrightarrow> im_printable (ge_coffi (te_gel T)) k (ge_segments (te_gel T)) b"
  shows "im_main T k (Parsed opts args) con = (Inr 0, snd (until_failure 1 (\<lambda>a. plain_report) args
      (outcomes_of (spec_im_command (te_gel T) (no_content opts)) args ds) con))"
  using ignored_binaries [OF src _ im_run_files [OF assms]]
  by (simp add: im_main_def spec_im_command_def)

text \<open>An ELF file and a COFF file.\<close>

lemma im_demo:
  "spec_im_show (te_gel demo_formats) False (ELF_binary sample sample_head) =
     [Lit ''BLOCK '', Txt (str_bytes ''code''), Lit '' @ '', format_address address_32 0x9000,
        Lit '' ('', Num [Hex] 6, Lit '')'', Lit '' EXEC'', Lit [newline], format_address address_32 0x9000,
        Chr CHR '' '', Byte 0, Chr CHR '' '', Byte 0, Chr CHR '' '', Byte 3, Chr CHR '' '', Byte 4,
        Chr CHR '' '', Byte 0xAA, Chr CHR '' '', Byte 0xAA, Lit [newline, newline]]"
  "spec_im_show (te_gel demo_formats) False (COFF_binary demo_coff 0) =
     [Lit ''BLOCK '', Txt [116], Lit '' @ '', format_address address_32 0x200,
        Lit '' ('', Num [Hex] 2, Lit '')'', Lit '' WRITE'', Lit '' EXEC'', Lit [newline],
        format_address address_32 0x200, Chr CHR '' '', Byte 7, Chr CHR '' '', Byte 8, Lit [newline, newline]]"
proof -
  have nd: "j < 15 \<Longrightarrow> \<not> 16 dvd Suc j" for j
    by (auto dest: dvd_imp_le)
  have "ph_data (env_junk sample_env) sample (PH32 sample_ph) = [0, 0, 3, 4, 0xAA, 0xAA]"
    by (simp add: ph_data_def sample_ph_def ProgramHeader32_offset_def ProgramHeader32_filesz_def
        ProgramHeader32_memsz_def store_at_def new_block_def sample_env_def bytes_at_def upt_rec Let_def)
      (simp add: sample_def numeral_2_eq_2)
  then have "blocks_of (te_gel demo_formats) (ELF_binary sample sample_head) =
      [(str_bytes ''code'', 0x9000, False, True, [0, 0, 3, 4, 0xAA, 0xAA])]"
    using demo_formats_env(1)
    by (simp add: phdr_infos_sample elf_block_def te_elf_def)
      (simp add: sample_ph_def ProgramHeader32_type_def ProgramHeader32_memsz_def defaultName_def
        ProgramHeader32_flags_def ProgramHeader32_paddr_def PT_LOAD_def PF_X_def PF_W_def)
  then show "spec_im_show (te_gel demo_formats) False (ELF_binary sample sample_head) =
     [Lit ''BLOCK '', Txt (str_bytes ''code''), Lit '' @ '', format_address address_32 0x9000,
        Lit '' ('', Num [Hex] 6, Lit '')'', Lit '' EXEC'', Lit [newline], format_address address_32 0x9000,
        Chr CHR '' '', Byte 0, Chr CHR '' '', Byte 0, Chr CHR '' '', Byte 3, Chr CHR '' '', Byte 4,
        Chr CHR '' '', Byte 0xAA, Chr CHR '' '', Byte 0xAA, Lit [newline, newline]]"
    by (simp add: spec_im_show_def block_text_def spec_dump_def dump_byte_def nd File32_addressType_def
        del: blocks_of.simps)
  have "blocks_of (te_gel demo_formats) (COFF_binary demo_coff 0) = [([116], 0x200, True, True, [7, 8])]"
    by (simp add: demo_formats_env demo_coff_simps coff_block_def coffi_is_segment_def
        coffi_isExecutable_def coffi_hasContent_def)
  then show "spec_im_show (te_gel demo_formats) False (COFF_binary demo_coff 0) =
     [Lit ''BLOCK '', Txt [116], Lit '' @ '', format_address address_32 0x200,
        Lit '' ('', Num [Hex] 2, Lit '')'', Lit '' WRITE'', Lit '' EXEC'', Lit [newline],
        format_address address_32 0x200, Chr CHR '' '', Byte 7, Chr CHR '' '', Byte 8, Lit [newline, newline]]"
    by (simp add: spec_im_show_def block_text_def spec_dump_def dump_byte_def nd del: blocks_of.simps)
qed

theorem gel_im_output_witness:
  "im_main demo_formats 7 (Parsed \<lparr>no_stack = True, no_content = False\<rparr> [''a.out'', ''demo'', ''none''])
     empty_console =
    (Inr 0, plain_report (System_Error ''missing'') (empty_console\<lparr>con_out :=
       [Lit ''BLOCK '', Txt (str_bytes ''code''), Lit '' @ '', format_address address_32 0x9000,
        Lit '' ('', Num [Hex] 6, Lit '')'', Lit '' EXEC'', Lit [newline], format_address address_32 0x9000,
        Chr CHR '' '', Byte 0, Chr CHR '' '', Byte 0, Chr CHR '' '', Byte 3, Chr CHR '' '', Byte 4,
        Chr CHR '' '', Byte 0xAA, Chr CHR '' '', Byte 0xAA, Lit [newline, newline],
        Lit ''BLOCK '', Txt [116], Lit '' @ '', format_address address_32 0x200,
        Lit '' ('', Num [Hex] 2, Lit '')'', Lit '' WRITE'', Lit '' EXEC'', Lit [newline],
        format_address address_32 0x200, Chr CHR '' '', Byte 7, Chr CHR '' '', Byte 8,
        Lit [newline, newline]]\<rparr>))"
proof -
  have src: "binaries_opened demo_formats fst snd [''a.out'', ''demo'', ''none'']
      [Inr (ELF_binary sample sample_head), Inr (COFF_binary demo_coff 0), Inl (System_Error ''missing'')]"
    using demo_formats_files by simp
  have "ph_ok sample (PH32 sample_ph)" "ph_memsz (PH32 sample_ph) = 6"
    using sample_seg_file by (simp_all add: seg_file_ok_def phdr_infos_sample)
      (simp add: sample_ph_def ProgramHeader32_memsz_def)
  then have "im_printable demo_lib 7 9 (ELF_binary sample sample_head)"
    using fit_sample(2) by (simp add: phdr_infos_sample load_indices_sample)
  moreover have "im_printable demo_lib 7 9 (COFF_binary demo_coff 0)"
    by (simp add: demo_coff_simps)
  ultimately have "im_printable demo_lib 7 9 b"
    if "b \<in> {ELF_binary sample sample_head, COFF_binary demo_coff 0}" for b
    using that by auto
  then show ?thesis
    using gel_im_output [OF _ src, where k = 7 and opts = "\<lparr>no_stack = True, no_content = False\<rparr>"
        and con = empty_console]
    by (simp add: demo_formats_env sample_host.array empty_console_def spec_im_command_def im_demo
        del: im_printable.simps)
qed

end
