(* ===== verification/Tool_Prog.thy ===== *)
theory Tool_Prog
  imports Tool_Base
begin

text \<open>
  \<open>src/bin/gel-prog.cpp\<close>: the program headers of an ELF file, or the notes they give.
\<close>

section \<open>A program header\<close>

definition prog_type_names :: "string list" where
  "prog_type_names =
     [''PT_NULL'', ''PT_LOAD'', ''PT_DYNAMIC'', ''PT_INTERP'', ''PT_NOTE'', ''PT_SHLIB'', ''PT_PHDR'']"

definition print_type :: "u32 \<Rightarrow> out_item list" where
  "print_type t =
     (if t \<le> PT_PHDR then [Str [Width 11] [Lit (prog_type_names ! unat t)]]
      else [Num [Hex, Width 8, Pad CHR ''0'', Right] (uint t), Lit ''   ''])"

text \<open>\<open>one\<close> tells that a name was already written.\<close>

definition print_flags :: "u32 \<Rightarrow> out_item list" where
  "print_flags flags =
     (let flag = (\<lambda>m nm (one, xs).
        if flags AND m \<noteq> 0 then (True, xs @ (if one then [Lit '', ''] else []) @ [Lit nm]) else (one, xs)) in
      [word_fmt (ucast flags), Chr CHR '' ''] @
      snd (flag PF_R ''PF_R'' (flag PF_W ''PF_W'' (flag PF_X ''PF_X'' (False, [])))) @ [Endl])"

definition prog_columns :: string where
  "prog_columns =
     ''Index p_type     p_offset p_vaddr  p_paddr  p_filesz p_memsz  p_align  p_flags'' @ [newline]"

definition print_header :: "nat \<Rightarrow> phdr_info \<Rightarrow> out_item list" where
  "print_header j p =
     [Num [Width 5, Right] (int j), Chr CHR '' ''] @ print_type (ph_type p) @
     [word_fmt (ph_offset p), Chr CHR '' '', word_fmt (ph_vaddr p), Chr CHR '' '',
      word_fmt (ph_paddr p), Chr CHR '' '', word_fmt (ph_filesz p), Chr CHR '' '',
      word_fmt (ph_memsz p), Chr CHR '' '', word_fmt (ph_align p), Chr CHR '' ''] @
     print_flags (ph_flags p)"

section \<open>Notes\<close>

text \<open>The buffer on the descriptor of a note, made from a pointer in the content.\<close>

definition note_buffer :: "decoder \<Rightarrow> note_iter \<Rightarrow> u64 \<Rightarrow> buffer" where
  "note_buffer d it x =
     make_buffer d (map_option (drop (unat x)) (buf_bytes (cur_buf (ni_cur it)))) (ucast (ni_descsz it))"

text \<open>
  The loop of \<open>print_note\<close>, with at most \<open>k\<close> turns; \<open>H\<close> gives the two digits of a byte in the dump
  of a buffer.
\<close>

fun note_loop ::
  "(u8 \<Rightarrow> u8 list) \<Rightarrow> decoder \<Rightarrow> nat \<Rightarrow> note_iter \<Rightarrow> ('c console_scheme, unit) stm" where
  "note_loop H d 0 it = sraise No_Return"
| "note_loop H d (Suc k) it =
     (case ni_desc it of
        None \<Rightarrow> sreturn ()
      | Some x \<Rightarrow>
          sbind (emit [Lit ''NOTE '']) (\<lambda>_.
          sbind (slift (cstr_at (the (buf_bytes (cur_buf (ni_cur it)))) (unat (ni_name it)))) (\<lambda>nm.
          sbind (emit [Txt nm, Lit '': '', Num [] (uint (ni_type it)), Endl]) (\<lambda>_.
          sbind (slift (buffer_dump H k (note_buffer d it x))) (\<lambda>s.
          sbind (emit [Txt s, Endl]) (\<lambda>_.
          sbind (slift (note_next it)) (\<lambda>it'. note_loop H d k it')))))))"

definition print_note ::
  "'s tool_env \<Rightarrow> (u8 \<Rightarrow> u8 list) \<Rightarrow> nat \<Rightarrow> nat \<Rightarrow> ('s elf_file tool, unit) stm" where
  "print_note T H k i =
     sbind (in_file (note_start (te_elf T) i)) (\<lambda>it.
     sbind (in_file sget) (\<lambda>f. note_loop H (file_decoder f) k it))"

section \<open>The command\<close>

text \<open>\<open>shown\<close> is the option \<open>-n\<close>.\<close>

definition prog_process ::
  "'s tool_env \<Rightarrow> (u8 \<Rightarrow> u8 list) \<Rightarrow> nat \<Rightarrow> bool \<Rightarrow> ('s elf_file tool, unit) stm" where
  "prog_process T H k shown =
     sbind (if shown then sreturn () else emit [Lit prog_columns]) (\<lambda>_.
     sbind (in_file (programHeaders (te_elf T))) (\<lambda>phs.
       sfor (\<lambda>j.
         if shown
         then (if ph_type (ph_info (phs ! j)) = PT_NOTE then print_note T H k j else sreturn ())
         else emit (print_header j (ph_info (phs ! j)))) [0..<length phs]))"

definition prog_file ::
  "'s tool_env \<Rightarrow> (u8 \<Rightarrow> u8 list) \<Rightarrow> nat \<Rightarrow> bool \<Rightarrow> string \<Rightarrow> (console, unit) stm" where
  "prog_file T H k shown arg =
     sbind (slift (manager_openELF (te_gel T) arg)) (\<lambda>f. with_file f (prog_process T H k shown))"

text \<open>The error message shows \<open>argv[i]\<close>, where \<open>i\<close> counts the files from 0.\<close>

definition prog_run ::
  "'s tool_env \<Rightarrow> (u8 \<Rightarrow> u8 list) \<Rightarrow> nat \<Rightarrow> string list \<Rightarrow> bool command_line \<Rightarrow> (console, int) stm" where
  "prog_run T H k argv cl =
     (case cl of
        Bad_Options msg \<Rightarrow> bad_options msg
      | Parsed shown args \<Rightarrow>
          sbind (sfor (\<lambda>i. catch_gel (opening_error (argv ! i)) (prog_file T H k shown (args ! i)))
                   [0..<length args]) (\<lambda>_. sreturn 0))"

end
