(* ===== verification/Elf_Notes.thy ===== *)
theory Elf_Notes
  imports Elf_Image Manager_Props
begin

text \<open>
  The notes of a program header: their encoding in the ELF format, what \<open>NoteIter\<close> reads of it,
  and the dump of a descriptor in the content of the header.
\<close>

section \<open>Notes\<close>

text \<open>The name ends with a null byte; names and descriptors are padded to multiples of 4 bytes.\<close>

record elf_note =
  nt_name :: mem
  nt_desc :: mem
  nt_type :: u32

definition pad4 :: "mem \<Rightarrow> mem" where
  "pad4 xs = xs @ replicate ((4 - length xs mod 4) mod 4) 0"

definition enc_note :: "decoder \<Rightarrow> elf_note \<Rightarrow> mem" where
  "enc_note d n =
     to_le 4 (unfix_u32 d (word_of_nat (length (nt_name n)))) @
     to_le 4 (unfix_u32 d (word_of_nat (length (nt_desc n)))) @
     to_le 4 (unfix_u32 d (nt_type n)) @ pad4 (nt_name n) @ pad4 (nt_desc n)"

text \<open>The bytes that the iterator takes for a note, and the notes that need no padding.\<close>

definition raw_note :: "decoder \<Rightarrow> elf_note \<Rightarrow> mem" where
  "raw_note d n =
     to_le 4 (unfix_u32 d (word_of_nat (length (nt_name n)))) @
     to_le 4 (unfix_u32 d (word_of_nat (length (nt_desc n)))) @
     to_le 4 (unfix_u32 d (nt_type n)) @ nt_name n @ nt_desc n"

definition note_fits :: "elf_note \<Rightarrow> bool" where
  "note_fits n \<longleftrightarrow>
     0 \<in> set (nt_name n) \<and> length (nt_name n) < 2 ^ 31 \<and> nt_desc n \<noteq> [] \<and> length (nt_desc n) < 2 ^ 31"

definition note_ok :: "elf_note \<Rightarrow> bool" where
  "note_ok n \<longleftrightarrow> note_fits n \<and> 4 dvd length (nt_name n) \<and> 4 dvd length (nt_desc n)"

lemma pad4_id: "4 dvd length xs \<Longrightarrow> pad4 xs = xs"
  by (simp add: pad4_def dvd_eq_mod_eq_0)

lemma enc_note_ok: "note_ok n \<Longrightarrow> enc_note d n = raw_note d n"
  by (simp add: enc_note_def raw_note_def note_ok_def pad4_id)

lemma length_raw_note: "length (raw_note d n) = 12 + length (nt_name n) + length (nt_desc n)"
  by (simp add: raw_note_def)

section \<open>Reading a note\<close>

text \<open>The iterator on the note \<open>n\<close> read from the cursor \<open>c\<close>.\<close>

definition note_item :: "cursor \<Rightarrow> elf_note \<Rightarrow> note_iter" where
  "note_item c n =
     \<lparr>ni_cur = cur_adv c (12 + length (nt_name n) + length (nt_desc n)),
      ni_name = cur_off c + 12, ni_descsz = word_of_nat (length (nt_desc n)),
      ni_desc = Some (cur_off c + word_of_nat (12 + length (nt_name n))), ni_type = nt_type n\<rparr>"

lemma note_item_type [simp]: "ni_type (note_item c n) = nt_type n"
  by (simp add: note_item_def)

lemma cast_length: "n < 2 ^ 31 \<Longrightarrow> (ucast (word_of_nat n :: u32) :: u64) = word_of_nat n"
  by (simp add: unsigned_of_nat take_bit_nat_eq_self)

lemma cur_off_adv: "cur_off (cur_adv c n) = cur_off c + word_of_nat n"
  by (simp add: cur_adv_def)

lemma read_u32_enc:
  assumes "cursor_wf c" and "cur_rest c = to_le 4 (unfix_u32 (cur_dec c) v) @ rest"
    and "decoder_laws (cur_dec c)"
  shows "read_u32_or c old = Inr (v, cur_adv c 4)"
  using cur_read_u32_eq [OF assms(1)] assms(2) decoder_laws.fix_unfix32 [OF assms(3)]
  by (simp add: read_u32_or_def)

lemma note_next_item:
  assumes wf: "cursor_wf c" and laws: "decoder_laws (cur_dec c)" and n: "note_fits n"
    and rest: "cur_rest c = raw_note (cur_dec c) n @ rest" and it: "ni_cur it = c"
  shows "note_next it = Inr (note_item c n)"
proof -
  let ?nm = "nt_name n" and ?ds = "nt_desc n" and ?d = "cur_dec c"
  have ok: "?nm \<noteq> []" "?ds \<noteq> []" "length ?nm < 2 ^ 31" "length ?ds < 2 ^ 31"
    using n by (auto simp: note_fits_def)
  have r: "cur_rest c = to_le 4 (unfix_u32 ?d (word_of_nat (length ?nm))) @
      to_le 4 (unfix_u32 ?d (word_of_nat (length ?ds))) @ to_le 4 (unfix_u32 ?d (nt_type n)) @
      ?nm @ ?ds @ rest"
    using rest by (simp add: raw_note_def)
  have adv: "cursor_wf (cur_adv c j) \<and> cur_rest (cur_adv c j) = drop j (cur_rest c)"
    if "j \<le> 12 + length ?nm + length ?ds" for j
    using cursor_wf_adv [OF wf, of j] that r by simp
  have rd: "read_u32_or c 0 = Inr (word_of_nat (length ?nm), cur_adv c 4)"
    "read_u32_or (cur_adv c 4) o1 = Inr (word_of_nat (length ?ds), cur_adv c 8)"
    "read_u32_or (cur_adv c 8) o2 = Inr (nt_type n, cur_adv c 12)" for o1 o2
    using read_u32_enc [OF wf r laws] read_u32_enc [of "cur_adv c 4"] read_u32_enc [of "cur_adv c 8"]
      adv [of 4] adv [of 8] laws r by simp_all
  have blk: "cur_read_block (cur_adv c 12) (word_of_nat (length ?nm)) =
      Inr (Some (cur_off c + 12), cur_adv c (12 + length ?nm))"
    "cur_read_block (cur_adv c (12 + length ?nm)) (word_of_nat (length ?ds)) =
      Inr (Some (cur_off c + word_of_nat (12 + length ?nm)), cur_adv c (12 + length ?nm + length ?ds))"
    using cur_read_block_eq [of "cur_adv c 12" "length ?nm"] ok adv [of 12] r
      cur_read_block_eq [of "cur_adv c (12 + length ?nm)" "length ?ds"] adv [of "12 + length ?nm"]
    by (auto simp: cur_off_adv)
  have "\<not> cur_ended c" "cur_avail c 12"
    using cur_ended_iff [OF wf] cur_avail_iff [OF wf, of 12] r ok(1) by auto
  then show ?thesis
    using it rd blk by (simp add: note_next_def Let_def cast_length [OF ok(3)] cast_length [OF ok(4)] note_item_def)
qed

lemma note_next_end: "cursor_wf (ni_cur it) \<Longrightarrow> cur_rest (ni_cur it) = [] \<Longrightarrow>
    note_next it = Inr (it\<lparr>ni_desc := None\<rparr>)"
  by (simp add: note_next_def cur_ended_iff)

lemma note_next_short:
  assumes "cursor_wf (ni_cur it)" and "cur_rest (ni_cur it) \<noteq> []" and "length (cur_rest (ni_cur it)) < 12"
  shows "note_next it = Inl (Throw Malformed_Note)"
  using assms cur_ended_iff [OF assms(1)] cur_avail_iff [OF assms(1), of 12] by (simp add: note_next_def)

section \<open>The dump of a part of a block\<close>

lemma dump_cells_cong: "(\<And>k. f k = g k) \<Longrightarrow> dump_cells f k n = dump_cells g k n"
  by (simp add: ext [of f g])

lemma dump_loop_cong:
  assumes sz: "buf_size b = buf_size b'"
    and get: "\<And>k. k < buf_size b \<Longrightarrow> get_u8 b k = get_u8 b' k"
  shows "dump_loop H b t i = dump_loop H b' t i"
proof -
  have "dump_digits H b = dump_digits H b'" "dump_text b = dump_text b'"
    using sz get by (simp_all add: fun_eq_iff dump_digits_def dump_text_def)
  then show ?thesis
    using sz by (induction t arbitrary: i) simp_all
qed

lemma get_u8_prefix:
  assumes "k < word_of_nat (length m)" and "length m < 2 ^ 63"
  shows "get_u8 (make_buffer d (Some (m @ rest)) (word_of_nat (length m))) k =
    get_u8 (make_buffer d (Some m) (word_of_nat (length m))) k"
proof -
  have k: "unat k < length m"
    using assms by (simp add: word_less_nat_alt unat_of_nat_64)
  then have "bytes_at (m @ rest) (unat k) 1 = bytes_at m (unat k) 1"
    by (simp add: bytes_at_def)
  then show ?thesis
    using k by (simp add: get_u8_def buf_load_def make_buffer_def in_block_def)
qed

lemma dump_prefix:
  assumes "length m < 2 ^ 62" and "length m div 8 + 2 \<le> t"
  shows "buffer_dump H t (make_buffer d (Some (m @ rest)) (word_of_nat (length m))) = Inr (dump_rows H m)"
proof -
  have "buffer_dump H t (make_buffer d (Some (m @ rest)) (word_of_nat (length m))) =
      buffer_dump H t (whole_buffer d m)"
    unfolding buffer_dump_def whole_buffer_def
    by (rule dump_loop_cong) (use assms(1) in \<open>auto simp: make_buffer_def intro!: get_u8_prefix [unfolded make_buffer_def]\<close>)
  then show ?thesis
    using dump_loop_eq [OF assms(1), of 0 t H d] assms(2) by (simp add: buffer_dump_def)
qed

end
