(* ===== verification/Tool_Prog_Props.thy ===== *)
theory Tool_Prog_Props
  imports Tool_Prog Tool_Files Elf_Notes
begin

text \<open>
  The properties of \<open>gel-prog\<close>: its output for an ELF file, from the bytes of the file on, and the
  notes that it reads wrong.
\<close>

declare sec_infos.simps [simp del] phdr_infos.simps [simp del] phs_fit.simps [simp del]

section \<open>The flags\<close>

fun separated :: "'a \<Rightarrow> 'a list \<Rightarrow> 'a list" where
  "separated s (x # y # xs) = x # s # separated s (y # xs)"
| "separated s xs = xs"

lemma print_flags_eq:
  "print_flags f =
     [word_fmt (ucast f), Chr CHR '' ''] @
     separated (Lit '', '') (map (\<lambda>(m, nm). Lit nm) (filter (\<lambda>(m, nm). f AND m \<noteq> 0)
       [(PF_X, ''PF_X''), (PF_W, ''PF_W''), (PF_R, ''PF_R'')])) @ [Endl]"
  by (simp add: print_flags_def)

section \<open>The notes of a program header\<close>

definition spec_note :: "(u8 \<Rightarrow> u8 list) \<Rightarrow> elf_note \<Rightarrow> out_item list" where
  "spec_note H n =
     [Lit ''NOTE '', Txt (takeWhile (\<lambda>b. b \<noteq> 0) (nt_name n)), Lit '': '', Num [] (uint (nt_type n)), Endl,
      Txt (dump_rows H (nt_desc n)), Endl]"

lemma cur_mem_rest:
  assumes "cursor_wf c" and "j \<le> length (cur_rest c)"
  shows "drop (unat (cur_off c + word_of_nat j)) (cur_mem c) = drop j (cur_rest c)"
  using cursor_wf_adv(2) [OF assms] by (simp add: cur_rest_def cur_off_adv)

lemma note_text:
  assumes wf: "cursor_wf c" and n: "note_fits n" and rest: "cur_rest c = raw_note (cur_dec c) n @ rest"
  shows "cstr_at (the (buf_bytes (cur_buf (ni_cur (note_item c n))))) (unat (ni_name (note_item c n))) =
      Inr (takeWhile (\<lambda>b. b \<noteq> 0) (nt_name n))"
    and "\<exists>x. ni_desc (note_item c n) = Some x \<and> note_buffer (cur_dec c) (note_item c n) x =
      make_buffer (cur_dec c) (Some (nt_desc n @ rest)) (word_of_nat (length (nt_desc n)))"
proof -
  let ?nm = "nt_name n" and ?ds = "nt_desc n"
  have mem: "buf_bytes (cur_buf c) = Some (cur_mem c)"
    using wf by (rule cursor_wfE)
  have len: "12 + length ?nm \<le> length (cur_rest c)"
    by (simp add: rest length_raw_note)
  have nm: "drop (unat (cur_off c + 12)) (cur_mem c) = ?nm @ ?ds @ rest"
    using cur_mem_rest [OF wf, of 12] len by (simp add: rest raw_note_def)
  have z: "0 \<in> set ?nm"
    using n by (simp add: note_fits_def)
  then have "unat (cur_off c + 12) \<le> length (cur_mem c)"
    using nm by (metis append_is_Nil_conv drop_all empty_iff le_cases list.set(1))
  moreover have "takeWhile (\<lambda>b. b \<noteq> 0) (?nm @ ?ds @ rest) = takeWhile (\<lambda>b. b \<noteq> 0) ?nm"
    using z by (rule takeWhile_append1) simp
  ultimately show "cstr_at (the (buf_bytes (cur_buf (ni_cur (note_item c n))))) (unat (ni_name (note_item c n))) =
      Inr (takeWhile (\<lambda>b. b \<noteq> 0) ?nm)"
    using nm z by (simp add: cstr_at_def note_item_def mem)
  have "drop (unat (cur_off c + word_of_nat (12 + length ?nm))) (cur_mem c) = ?ds @ rest"
    using cur_mem_rest [OF wf len] by (simp add: rest raw_note_def)
  moreover have "(ucast (word_of_nat (length ?ds) :: u32) :: u64) = word_of_nat (length ?ds)"
    by (rule cast_length) (use n in \<open>simp add: note_fits_def\<close>)
  ultimately show "\<exists>x. ni_desc (note_item c n) = Some x \<and> note_buffer (cur_dec c) (note_item c n) x =
      make_buffer (cur_dec c) (Some (?ds @ rest)) (word_of_nat (length ?ds))"
    by (simp add: note_buffer_def note_item_def mem)
qed

lemma note_loop_step:
  assumes wf: "cursor_wf c" and n: "note_fits n" and rest: "cur_rest c = raw_note d n @ rest"
    and d: "cur_dec c = d" and k: "length (nt_desc n) div 8 + 2 \<le> k"
  shows "note_loop H d (Suc k) (note_item c n) con =
    (case note_next (note_item c n) of
       Inl e \<Rightarrow> (Inl e, con\<lparr>con_out := con_out con @ spec_note H n\<rparr>)
     | Inr it \<Rightarrow> note_loop H d k it (con\<lparr>con_out := con_out con @ spec_note H n\<rparr>))"
proof -
  have "length (nt_desc n) < 2 ^ 62"
    using n by (simp add: note_fits_def)
  then show ?thesis
    using note_text [OF wf n] dump_prefix [OF _ k, of H d rest] rest d
    by (auto simp: spec_note_def split: sum.splits)
qed

lemma note_item_cur:
  assumes "cursor_wf c" and "cur_rest c = raw_note (cur_dec c) n @ rest"
  shows "cursor_wf (ni_cur (note_item c n))" and "cur_rest (ni_cur (note_item c n)) = rest"
    and "cur_dec (ni_cur (note_item c n)) = cur_dec c"
  using cursor_wf_adv [OF assms(1), of "length (raw_note (cur_dec c) n)"] assms(2)
  by (simp_all add: note_item_def length_raw_note)





section \<open>A file\<close>



section \<open>The properties\<close>


















definition gnu_note :: elf_note where
  "gnu_note = \<lparr>nt_name = [71, 78, 85, 0], nt_desc = [9, 8, 7, 6], nt_type = 1\<rparr>"



text \<open>The padding of the name of a note taken for the start of its descriptor.\<close>

definition misread :: "elf_note \<Rightarrow> elf_note" where
  "misread n = n\<lparr>nt_desc := take (length (nt_desc n)) (drop (length (nt_name n)) (pad4 (nt_name n)) @ nt_desc n)\<rparr>"

text \<open>C26. A note whose name needs padding, as the standard lays it out, is not read back: the bytes
  of the padding are taken for the start of the descriptor, and the end of the descriptor for
  another note, which is malformed.\<close>

theorem padded_note_misread:
  assumes laws: "decoder_laws d" and n: "note_fits n" "\<not> 4 dvd length (nt_name n)" "4 dvd length (nt_desc n)"
    and k: "length (nt_desc n) div 8 + 2 \<le> k" and m: "m = enc_note d n" "length m < 2 ^ 63"
  shows "\<exists>it. note_next \<lparr>ni_cur = make_cursor (make_buffer d (Some m) (word_of_nat (length m))), ni_name = 0,
      ni_descsz = 0, ni_desc = None, ni_type = 0\<rparr> = Inr it \<and>
    note_loop H d (Suc k) it con =
      (Inl (Throw Malformed_Note), con\<lparr>con_out := con_out con @ spec_note H (misread n)\<rparr>)"
proof -
  let ?ds = "nt_desc n" and ?p = "(4 - length (nt_name n) mod 4) mod 4"
  let ?pad = "replicate ?p (0 :: u8)"
  let ?n = "n\<lparr>nt_desc := take (length ?ds) (?pad @ ?ds)\<rparr>" and ?rest = "drop (length ?ds) (?pad @ ?ds)"
  let ?c = "make_cursor (make_buffer d (Some m) (word_of_nat (length m)))"
  have p: "0 < ?p" "?p < 4"
    using n(2) by (simp_all add: dvd_eq_mod_eq_0)
  have mis: "misread n = ?n"
    by (simp add: misread_def pad4_def)
  have wf: "cursor_wf ?c" and dec: "cur_dec ?c = d"
    using make_cursor_wf [OF make_buffer_wf [OF m(2)]] by (simp_all add: make_buffer_def)
  have split: "nt_desc ?n @ ?rest = ?pad @ ?ds" and len: "length (nt_desc ?n) = length ?ds"
    by (simp_all del: take_append drop_append)
  have r: "cur_rest ?c = raw_note d ?n @ ?rest"
    unfolding raw_note_def len append_assoc split
    by (simp add: make_buffer_def m(1) enc_note_def pad4_id [OF n(3)]) (simp add: pad4_def)
  have "nt_desc ?n \<noteq> []"
    using len n(1) by (metis length_0_conv note_fits_def)
  then have fits: "note_fits ?n"
    using n(1) len by (simp add: note_fits_def del: take_append)
  have nx: "note_next \<lparr>ni_cur = ?c, ni_name = 0, ni_descsz = 0, ni_desc = None, ni_type = 0\<rparr> =
      Inr (note_item ?c ?n)"
    by (rule note_next_item [OF wf _ fits _ , where rest = ?rest]) (use r dec laws in simp_all)
  note e = note_item_cur [OF wf, of ?n ?rest, unfolded dec, OF r]
  have lr: "length ?rest = ?p"
    by (simp only: length_drop length_append length_replicate add_diff_cancel_right')
  have ne: "?rest \<noteq> []"
    by (rule length_greater_0_conv [THEN iffD1]) (simp only: lr p(1))
  have short: "length ?rest < 12"
    by (rule less_le_trans [of _ 4]) (simp only: lr p(2), simp)
  have nxt: "note_next (note_item ?c ?n) = Inl (Throw Malformed_Note)"
    by (rule note_next_short [OF e(1)]) (simp_all only: e(2) ne short not_False_eq_True)
  have "length (nt_desc ?n) div 8 + 2 \<le> k"
    unfolding len by (rule k)
  from note_loop_step [OF wf fits r dec this, of H con]
  have "note_loop H d (Suc k) (note_item ?c ?n) con =
      (Inl (Throw Malformed_Note), con\<lparr>con_out := con_out con @ spec_note H ?n\<rparr>)"
    by (simp only: nxt sum.case)
  with nx show ?thesis
    unfolding mis by (intro exI conjI)
qed

theorem padded_note_misread_witness:
  "\<exists>it. note_next \<lparr>ni_cur = make_cursor (make_buffer little_decoder
      (Some (enc_note little_decoder (gnu_note\<lparr>nt_name := [67, 0]\<rparr>))) 20), ni_name = 0,
      ni_descsz = 0, ni_desc = None, ni_type = 0\<rparr> = Inr it \<and>
    note_loop (\<lambda>b. [b]) little_decoder 4 it empty_console =
      (Inl (Throw Malformed_Note), empty_console\<lparr>con_out :=
      spec_note (\<lambda>b. [b]) \<lparr>nt_name = [67, 0], nt_desc = [0, 0, 9, 8], nt_type = 1\<rparr>\<rparr>)"
proof -
  let ?n = "gnu_note\<lparr>nt_name := [67, 0]\<rparr>"
  have n: "note_fits ?n" "\<not> 4 dvd length (nt_name ?n)" "4 dvd length (nt_desc ?n)"
    "length (nt_desc ?n) div 8 + 2 \<le> 3"
    by (simp_all add: note_fits_def gnu_note_def dvd_eq_mod_eq_0)
  have two: "replicate 2 (0 :: u8) = [0, 0]"
    by (simp add: numeral_2_eq_2)
  have "length (enc_note little_decoder ?n) = 20"
    by (simp add: enc_note_def pad4_def gnu_note_def)
  then show ?thesis
    using padded_note_misread [OF little_dec.decoder_laws_axioms n refl, of "\<lambda>b. [b]" empty_console]
    by (simp add: gnu_note_def misread_def pad4_def two empty_console_def)
qed

end
