(* ===== verification/Tool_Sect.thy ===== *)
theory Tool_Sect
  imports Tool_Base
begin

text \<open>
  \<open>src/bin/gel-sect.cpp\<close> and \<open>src/bin/gel-seg.cpp\<close>: the sections and the segments of a file.
\<close>

section \<open>Common parts\<close>

definition flag_char :: "bool \<Rightarrow> char \<Rightarrow> out_item" where
  "flag_char b c = Chr (if b then c else CHR ''-'')"

text \<open>The handlers of both commands: \<open>run\<close> stops at the first exception.\<close>

definition file_required :: "(console, int) stm" where
  "file_required =
     sbind displayHelp (\<lambda>_.
     sbind (emit_err [Lit (''ERROR: a binary file is required !'' @ [newline])]) (\<lambda>_. sreturn 1))"

definition legend :: string where
  "legend =
     [CHR 0x09] @ ''W -- SHF_WRITE'' @ [newline, CHR 0x09] @ ''A -- SHF_ALLOC'' @ [newline, CHR 0x09] @
     ''X -- SHF_EXECINSTR'' @ [newline]"

definition help_and_error :: "gel_exn \<Rightarrow> (console, int) stm" where
  "help_and_error e =
     sbind displayHelp (\<lambda>_.
     sbind (emit_err [Lit (newline # ''ERROR: ''), Msg e, Endl]) (\<lambda>_. sreturn 1))"

definition list_files :: "('o \<Rightarrow> string \<Rightarrow> (console, unit) stm) \<Rightarrow> 'o command_line \<Rightarrow> (console, int) stm" where
  "list_files process cl =
     (case cl of
        Bad_Options msg \<Rightarrow>
          sbind displayHelp (\<lambda>_.
          sbind (emit_err [Lit legend, Lit (newline # ''ERROR: ''), Txt (str_bytes msg), Endl]) (\<lambda>_.
            sreturn 1))
      | Parsed opts args \<Rightarrow>
          if args = [] then file_required
          else catch_gel help_and_error (sbind (sfor (process opts) args) (\<lambda>_. sreturn 0)))"

section \<open>The sections of an ELF file\<close>

definition section_labels :: "string list" where
  "section_labels =
     [''SHT_NULL'', ''SHT_PROGBITS'', ''SHT_SYMTAB'', ''SHT_STRTAB'', ''SHT_RELA'', ''SHT_HASH'',
      ''SHT_DYNAMIC'', ''SHT_NOTE'', ''SHT_NOBITS'', ''SHT_REL'', ''SHT_SHLIB'', ''SHT_DYNSYM'']"

definition section_type_text :: "u32 \<Rightarrow> out_item list" where
  "section_type_text t =
     (if length section_labels \<le> unat t then [Num [Pad CHR ''0'', Right, Hex, Width 8] (uint t)]
      else [Lit (section_labels ! unat t)])"

definition section_fields :: "nat \<Rightarrow> shdr_info \<Rightarrow> out_item list" where
  "section_fields i p =
     [Num [Width 5, Right] (int i), Chr CHR '' '', Str [Width 12] (section_type_text (sh_type p)), Lit ''  '',
      flag_char (sh_flags p AND SHF_WRITE \<noteq> 0) CHR ''W'',
      flag_char (sh_flags p AND SHF_ALLOC \<noteq> 0) CHR ''A'',
      flag_char (sh_flags p AND SHF_EXECINSTR \<noteq> 0) CHR ''X'', Lit ''  '',
      word_fmt (sh_addr p), Chr CHR '' '', word_fmt (sh_size p), Chr CHR '' '', word_fmt (sh_offset p),
      Chr CHR '' '', Num [Width 5, Right] (uint (sh_link p)), Chr CHR '' '']"

definition display_section :: "'s tool_env \<Rightarrow> nat \<Rightarrow> ('s elf_file tool, unit) stm" where
  "display_section T i =
     sbind (in_file sget) (\<lambda>f.
     sbind (emit (section_fields i (sec_info (el_sects f ! i)))) (\<lambda>_.
     sbind (in_file (section_name (te_elf T) (te_stack T) i)) (\<lambda>x. emit [Txt x, Endl])))"

text \<open>The loop of the option \<open>-f\<close> over the sections \<open>js\<close>; \<open>found\<close> is its flag.\<close>

fun find_loop :: "'s tool_env \<Rightarrow> u64 \<Rightarrow> nat list \<Rightarrow> bool \<Rightarrow> ('s elf_file tool, bool) stm" where
  "find_loop T a [] found = sreturn found"
| "find_loop T a (j # js) found =
     sbind (in_file sget) (\<lambda>f.
       let p = sec_info (el_sects f ! j) in
       if sh_flags p AND SHF_ALLOC \<noteq> 0 \<and> sec_contains p a
       then
         sbind (emit [Lit ''address '', word_fmt a, Lit '' found in section '']) (\<lambda>_.
         sbind (in_file (section_name (te_elf T) (te_stack T) j)) (\<lambda>x.
         sbind (emit [Txt x, Endl]) (\<lambda>_.
         sbind (display_section T j) (\<lambda>_. find_loop T a js True))))
       else find_loop T a js found)"

definition section_columns :: string where
  "section_columns = ''INDEX TYPE         FLAGS VADDR    SIZE     OFFSET   LINK  NAME'' @ [newline]"

definition sect_processELF :: "'s tool_env \<Rightarrow> u64 option \<Rightarrow> ('s elf_file tool, unit) stm" where
  "sect_processELF T sought =
     sbind (in_file (sections (te_elf T))) (\<lambda>ss.
       case sought of
         Some a \<Rightarrow>
           sbind (find_loop T a [1..<length ss] False) (\<lambda>found.
             if found then sreturn () else sraise (Throw (No_Section_Containing a)))
       | None \<Rightarrow>
           sbind (emit [Lit section_columns]) (\<lambda>_. sfor (display_section T) [0..<length ss]))"

section \<open>The sections of a file\<close>

definition value_fields :: "nat \<Rightarrow> seg_values \<Rightarrow> out_item list" where
  "value_fields i v =
     [Num [Width 5, Right] (int i), Chr CHR '' '', flag_char (sv_write v) CHR ''W'',
      flag_char (sv_content v) CHR ''A'', flag_char (sv_exec v) CHR ''X'', Lit ''   '',
      word_fmt (sv_base v), Chr CHR '' '', word_fmt (sv_size v), Chr CHR '' '']"

text \<open>The operands of a line are computed before it is written; \<open>countSections\<close> and \<open>count\<close> give
  the same number at each turn.\<close>

definition sect_processGeneric :: "'s tool_env \<Rightarrow> ('s open_file tool, unit) stm" where
  "sect_processGeneric T =
     sbind (emit [Lit (''INDEX FLAGS VADDR    SIZE     OFFSET    NAME'' @ [newline])]) (\<lambda>_.
     sbind (in_file (file_countSections (te_gel T))) (\<lambda>n.
       sfor (\<lambda>i.
         sbind (in_file (file_section (te_gel T) (int i))) (\<lambda>s.
         sbind (in_file (section_values (te_gel T) s)) (\<lambda>(v, off).
           emit (value_fields i v @ [word_fmt off, Chr CHR '' '', Txt (sv_name v), Endl]))))
         [0..<nat n]))"

text \<open>The options \<open>-e\<close> and \<open>-f\<close>, the latter as it converts to a boolean.\<close>

record sect_options =
  op_elf :: bool
  op_find :: "u64 option"

definition sect_file :: "'s tool_env \<Rightarrow> sect_options \<Rightarrow> string \<Rightarrow> (console, unit) stm" where
  "sect_file T opts arg =
     (if op_elf opts
      then sbind (slift (manager_openELF (te_gel T) arg)) (\<lambda>f. with_file f (sect_processELF T (op_find opts)))
      else sbind (slift (manager_open (te_gel T) arg)) (\<lambda>f. with_file f (sect_processGeneric T)))"

definition sect_run :: "'s tool_env \<Rightarrow> sect_options command_line \<Rightarrow> (console, int) stm" where
  "sect_run T cl = list_files (sect_file T) cl"

section \<open>The segments of a file\<close>

definition processSegment :: "'s tool_env \<Rightarrow> nat \<Rightarrow> segref \<Rightarrow> ('s open_file tool, unit) stm" where
  "processSegment T i s =
     sbind (in_file (segment_values (te_gel T) s)) (\<lambda>v.
       emit (value_fields i v @ [Txt (sv_name v), Endl]))"

definition seg_process :: "'s tool_env \<Rightarrow> ('s open_file tool, unit) stm" where
  "seg_process T =
     sbind (emit [Lit (''INDEX FLAGS VADDR    SIZE     NAME'' @ [newline])]) (\<lambda>_.
     sbind (in_file (file_count (te_gel T))) (\<lambda>n.
       sfor (\<lambda>i.
         sbind (in_file (file_segment (te_gel T) (int i))) (\<lambda>s. processSegment T i s)) [0..<nat n]))"

text \<open>The option \<open>-f\<close> is never read.\<close>

definition seg_file :: "'s tool_env \<Rightarrow> u64 option \<Rightarrow> string \<Rightarrow> (console, unit) stm" where
  "seg_file T sought arg =
     sbind (slift (manager_open (te_gel T) arg)) (\<lambda>f. with_file f (seg_process T))"

definition seg_run :: "'s tool_env \<Rightarrow> u64 option command_line \<Rightarrow> (console, int) stm" where
  "seg_run T cl = list_files (seg_file T) cl"

text \<open>The \<open>main\<close> function ignores the result of \<open>run\<close>.\<close>

definition seg_main :: "'s tool_env \<Rightarrow> u64 option command_line \<Rightarrow> console \<Rightarrow> int res \<times> console" where
  "seg_main T cl con = (case seg_run T cl con of (r, con') \<Rightarrow> (ignored_status r, con'))"

end
