(* ===== verification/Tool_Sect_Props.thy ===== *)
theory Tool_Sect_Props
  imports Tool_Sect Tool_Files
begin

text \<open>
  The property of \<open>gel-sect -e\<close>: its output for ELF files, from the bytes of the files on.
\<close>

declare sec_infos.simps [simp del] phdr_infos.simps [simp del] secs_fit.simps [simp del]
  sh_size.simps [simp del] sh_type.simps [simp del]

section \<open>The sections of an ELF file\<close>

definition spec_section_line :: "mem \<Rightarrow> elf_header \<Rightarrow> nat \<Rightarrow> out_item list" where
  "spec_section_line c h i =
     section_fields i (sec_infos c h ! i) @ [Txt (projr (spec_name c h i)), Endl]"

definition spec_found :: "mem \<Rightarrow> elf_header \<Rightarrow> u64 \<Rightarrow> nat \<Rightarrow> out_item list" where
  "spec_found c h a i =
     [Lit ''address '', word_fmt a, Lit '' found in section '', Txt (projr (spec_name c h i)), Endl] @
     spec_section_line c h i"

text \<open>The sections that contain an address, but the first one of the table.\<close>

definition sections_at :: "mem \<Rightarrow> elf_header \<Rightarrow> u64 \<Rightarrow> nat list" where
  "sections_at c h a = filter (\<lambda>i. sec_contains (sec_infos c h ! i) a) [1..<length (sec_infos c h)]"

context elf_host
begin

lemma name_writes:
  assumes ok: "names_ok c h" and i: "i < length (sec_infos c h)"
    and k: "writes (elf_opened E ct c h) (k (projr (spec_name c h i))) v xs"
  shows "writes (elf_opened E ct c h) (sbind (in_file (section_name E (Suc n) i)) k) v xs"
  by (rule writes_call [where P = "\<lambda>x. x = projr (spec_name c h i)"])
    (use opened_name [OF ok i] k in auto)

lemma display_section_writes:
  assumes T: "te_elf T = E" "te_stack T = Suc n" and ok: "names_ok c h"
    and i: "i < length (sec_infos c h)"
  shows "writes (elf_opened E ct c h) (display_section T i) () (spec_section_line c h i)"
  unfolding display_section_def spec_section_line_def T
proof (rule writes_get)
  fix f assume f: "elf_opened E ct c h f"
  show "writes (elf_opened E ct c h) (sbind (emit (section_fields i (sec_info (el_sects f ! i)))) (\<lambda>_.
      sbind (in_file (section_name E (Suc n) i)) (\<lambda>x. emit [Txt x, Endl]))) ()
      (section_fields i (sec_infos c h ! i) @ [Txt (projr (spec_name c h i)), Endl])"
    unfolding elf_opened_sects(2) [OF f i]
    by (rule writes_bind [OF writes_emit name_writes [OF ok i, where k = "\<lambda>x. emit [Txt x, Endl]"] refl])
      (rule writes_emit)
qed

lemma found_writes:
  assumes T: "te_elf T = E" "te_stack T = Suc n" and ok: "names_ok c h"
    and i: "i < length (sec_infos c h)" and k: "writes (elf_opened E ct c h) k v xs"
  shows "writes (elf_opened E ct c h)
    (sbind (emit [Lit ''address '', word_fmt a, Lit '' found in section '']) (\<lambda>_.
     sbind (in_file (section_name (te_elf T) (te_stack T) i)) (\<lambda>x.
     sbind (emit [Txt x, Endl]) (\<lambda>_.
     sbind (display_section T i) (\<lambda>_. k))))) v (spec_found c h a i @ xs)"
proof -
  let ?x = "projr (spec_name c h i)"
  have "writes (elf_opened E ct c h) (sbind (emit [Txt ?x, Endl]) (\<lambda>_. sbind (display_section T i) (\<lambda>_. k))) v
      ([Txt ?x, Endl] @ spec_section_line c h i @ xs)"
    by (rule writes_bind [OF writes_emit writes_bind [OF display_section_writes [OF T ok i] k refl] refl])
  note name = name_writes [OF ok i, where k = "\<lambda>x. sbind (emit [Txt x, Endl])
      (\<lambda>_. sbind (display_section T i) (\<lambda>_. k))", OF this]
  show ?thesis
    unfolding spec_found_def T by (rule writes_bind [OF writes_emit name]) simp
qed

lemma find_loop_writes:
  assumes T: "te_elf T = E" "te_stack T = Suc n" and ok: "names_ok c h"
  shows "set js \<subseteq> {..<length (sec_infos c h)} \<Longrightarrow>
    writes (elf_opened E ct c h) (find_loop T a js found)
      (found \<or> (\<exists>i \<in> set js. sec_contains (sec_infos c h ! i) a))
      (concat (map (spec_found c h a) (filter (\<lambda>i. sec_contains (sec_infos c h ! i) a) js)))"
proof (induction js arbitrary: found)
  case Nil
  show ?case
    by (simp add: writes_return del: stm_simps)
next
  case (Cons j js)
  have j: "j < length (sec_infos c h)"
    using Cons.prems by simp
  have IH: "writes (elf_opened E ct c h) (find_loop T a js b)
      (b \<or> (\<exists>i \<in> set js. sec_contains (sec_infos c h ! i) a))
      (concat (map (spec_found c h a) (filter (\<lambda>i. sec_contains (sec_infos c h ! i) a) js)))" for b
    using Cons by simp
  have alloc: "sec_contains p a \<Longrightarrow> sh_flags p AND SHF_ALLOC \<noteq> 0" for p
    by (simp add: sec_contains_def)
  show ?case
    unfolding find_loop.simps
  proof (rule writes_get)
    fix f assume f: "elf_opened E ct c h f"
    show "writes (elf_opened E ct c h) (let p = sec_info (el_sects f ! j) in
        if sh_flags p AND SHF_ALLOC \<noteq> 0 \<and> sec_contains p a
        then sbind (emit [Lit ''address '', word_fmt a, Lit '' found in section '']) (\<lambda>_.
          sbind (in_file (section_name (te_elf T) (te_stack T) j)) (\<lambda>x.
          sbind (emit [Txt x, Endl]) (\<lambda>_. sbind (display_section T j) (\<lambda>_. find_loop T a js True))))
        else find_loop T a js found)
      (found \<or> (\<exists>i \<in> set (j # js). sec_contains (sec_infos c h ! i) a))
      (concat (map (spec_found c h a) (filter (\<lambda>i. sec_contains (sec_infos c h ! i) a) (j # js))))"
      using found_writes [OF T ok j IH [of True], of a] IH [of found] alloc
      by (auto simp: elf_opened_sects(2) [OF f j] Let_def simp del: stm_simps)
  qed
qed

end

text \<open>The command with the option \<open>-e\<close>.\<close>

definition spec_sect_elf :: "u64 option \<Rightarrow> mem \<Rightarrow> elf_header \<Rightarrow> unit res \<times> out_item list" where
  "spec_sect_elf sought c h =
     (case sought of
        None \<Rightarrow> (Inr (), Lit section_columns #
          concat (map (spec_section_line c h) [0..<length (sec_infos c h)]))
      | Some a \<Rightarrow>
          if sections_at c h a = [] then (Inl (Throw (No_Section_Containing a)), [])
          else (Inr (), concat (map (spec_found c h a) (sections_at c h a))))"

context elf_host
begin

lemma sect_processELF_ok:
  assumes T: "te_elf T = E" "te_stack T = Suc n" and ok: "names_ok c h" and inv: "elf_inv E ct c h (tl_file t)"
  shows "\<exists>f'. sect_processELF T sought t =
    (case spec_sect_elf sought c h of (r, xs) \<Rightarrow> (r, t\<lparr>con_out := con_out t @ xs, tl_file := f'\<rparr>))"
proof -
  let ?n = "length (sec_infos c h)" and ?I = "elf_opened E ct c h"
  obtain f where f: "?I f" "sections E (tl_file t) = (Inr (el_sects f), f)"
    using opened_sections [OF ok inv] by blast
  have len: "length (el_sects f) = ?n"
    by (rule elf_opened_sects(1) [OF f(1)])
  show ?thesis
  proof (cases sought)
    case None
    have "writes ?I (sfor (display_section T) [0..<?n]) () (concat (map (spec_section_line c h) [0..<?n]))"
      by (rule writes_sfor) (use display_section_writes [OF T ok] in simp)
    from writesD [OF this, of "t\<lparr>tl_file := f, con_out := con_out t @ [Lit section_columns]\<rparr>"]
    show ?thesis
      using f None len by (auto simp: sect_processELF_def T spec_sect_elf_def)
  next
    case (Some a)
    have ex: "(\<exists>i \<in> set [1..<?n]. sec_contains (sec_infos c h ! i) a) \<longleftrightarrow> sections_at c h a \<noteq> []"
      by (auto simp: sections_at_def filter_empty_conv)
    have sub: "set [1..<?n] \<subseteq> {..<?n}"
      by auto
    have "writes ?I (find_loop T a [1..<?n] False) (sections_at c h a \<noteq> [])
        (concat (map (spec_found c h a) (sections_at c h a)))"
      using find_loop_writes [OF T ok sub, of a False]
      unfolding ex sections_at_def [symmetric] by (simp only: simp_thms)
    from writesD [OF this, of "t\<lparr>tl_file := f\<rparr>"] f(1)
    obtain f' where loop: "find_loop T a [1..<?n] False (t\<lparr>tl_file := f\<rparr>) =
        (Inr (sections_at c h a \<noteq> []), t\<lparr>con_out := con_out t @
           concat (map (spec_found c h a) (sections_at c h a)), tl_file := f'\<rparr>)"
      by auto
    show ?thesis
      using f(2) Some len loop
      by (intro exI [of _ f']) (simp add: sect_processELF_def T spec_sect_elf_def)
  qed
qed

end

definition spec_sect_command :: "u64 option \<Rightarrow> string \<Rightarrow> mem \<Rightarrow> elf_header \<Rightarrow> processed" where
  "spec_sect_command sought a c h =
     (case sought of
        None \<Rightarrow> Inr (Lit section_columns # concat (map (spec_section_line c h) [0..<length (sec_infos c h)]))
      | Some x \<Rightarrow>
          if sections_at c h x = [] then Inl (No_Section_Containing x)
          else Inr (concat (map (spec_found c h x) (sections_at c h x))))"

lemma sect_file_ok:
  assumes o: "opens_on (ge_manager (te_gel T)) ct ps path c" and A: "elm_array_spec (env_array (te_elf T))"
    and n: "te_stack T = Suc n" and c: "elf_content c h" and ok: "names_ok c h"
  shows "processes (sect_file T \<lparr>op_elf = True, op_find = sought\<rparr>) path (spec_sect_command sought path c h)"
proof -
  have E: "elf_host (te_elf T) ct ps"
    using opens_on_host [OF o] A by (simp add: te_elf_def)
  obtain s where s: "ct s = c" "openELFFile (ge_manager (te_gel T)) path = Inr (new_elf_file s h)"
    using openELFFile_elf [OF o c] by blast
  let ?f = "new_elf_file s h"
  obtain r xs where spec: "spec_sect_elf sought c h = (r, xs)"
    by (cases "spec_sect_elf sought c h")
  have "with_file ?f (sect_processELF T sought) con = (r, con\<lparr>con_out := con_out con @ xs\<rparr>)" for con
  proof -
    let ?t = "console.extend con (tool.fields ?f)"
    have inv: "elf_inv (te_elf T) ct c h (tl_file ?t)"
      using new_elf_file_inv [of "te_elf T" ct s h] s(1) by simp
    obtain f' where "sect_processELF T sought ?t = (r, ?t\<lparr>con_out := con_out con @ xs, tl_file := f'\<rparr>)"
      using elf_host.sect_processELF_ok [OF E refl n ok inv, of sought] spec by auto
    then show ?thesis
      by (rule with_file_out)
  qed
  then show ?thesis
    using spec by (auto simp: processes_def sect_file_def manager_openELF_def s(2) spec_sect_command_def
        spec_sect_elf_def split: option.splits if_splits)
qed

text \<open>The loop of both commands stops at the first exception that its handler catches.\<close>

interpretation list_command:
  stopping_command "\<lambda>args. catch_gel help_and_error (sbind (sfor process args) (\<lambda>_. sreturn 0))" process
    "\<lambda>a. help_report" 1 for process
proof unfold_locales
  let ?files = "\<lambda>args. catch_gel help_and_error (sbind (sfor process args) (\<lambda>_. sreturn 0))"
  fix a c e c' args
  show "?files [] c = (Inr 0, c)"
    by (simp add: catch_gel_def)
  show "?files (a # args) c = ?files args c'" if "process a c = (Inr (), c')"
    using that by (simp add: catch_gel_def catch_exn.simps sbind_def)
  show "?files (a # args) c = (if is_gel_exception e then (Inr 1, help_report e c') else (Inl (Throw e), c'))"
    if "process a c = (Inl (Throw e), c')"
    using that by (simp add: catch_gel_def catch_exn.simps sbind_def help_and_error_def help_report_def
        slift_def emit_err_def displayHelp_def smodify_def sreturn_def)
qed

text \<open>C21. The command \<open>gel-sect -e\<close>, from the bytes of ELF files to its output: a line for each
  section, in the order of the table; with the option \<open>-f\<close>, the allocated sections that contain
  the address, but the first one of the table. The command stops at the first file that cannot
  be opened, with its help and the status 1. When no section contains the address, the
  exception that the command throws is caught by none of its handlers.\<close>

theorem gel_sect_output:
  assumes A: "elm_array_spec (env_array (te_elf T))" and n: "te_stack T = Suc n"
    and src: "elf_files_opened T ct ps args ds" and ne: "args \<noteq> []"
    and ok: "\<And>c h. Inr (c, h) \<in> set ds \<Longrightarrow> names_ok c h"
  shows "sect_run T (Parsed \<lparr>op_elf = True, op_find = sought\<rparr> args) con =
    until_failure 1 (\<lambda>a. help_report) args (outcomes (spec_sect_command sought) args ds) con"
proof -
  let ?opts = "\<lparr>op_elf = True, op_find = sought\<rparr>"
  have "list_all2 (processes (sect_file T ?opts)) args (outcomes (spec_sect_command sought) args ds)"
    by (rule outcomes_processes [OF src])
      (use sect_file_ok [OF _ A n] ok in \<open>auto simp: processes_def sect_file_def manager_openELF_def\<close>)
  then show ?thesis
    using ne by (simp add: sect_run_def list_files_def list_command.files_until)
qed

theorem gel_sect_output_witness:
  "sect_run (demo_disk sample []) (Parsed \<lparr>op_elf = True, op_find = Some 0x8000\<rparr> [''a.out'', ''b.out''])
     empty_console =
    (Inl (Throw (No_Section_Containing 0x8000)), empty_console)"
proof -
  have "sections_at sample sample_head 0x8000 = []"
    unfolding sections_at_def sec_infos_sample
    by (simp add: upt_rec sec_contains_def) (simp add: sample_sh_def Section32_flags_def)
  moreover have "names_ok sample sample_head"
    using fit_sample(1) strtab_ok_sample name_ok_sample by (simp add: names_ok_def length_sec_infos_sample)
  ultimately show ?thesis
    using gel_sect_output [OF _ _ demo_disk_files(3) [OF content_sample, of "[]"], where n = 0
        and con = empty_console and sought = "Some 0x8000"]
    by (simp add: demo_disk_env sample_host.array spec_sect_command_def empty_console_def)
qed

end
