(* ===== verification/Tool_List_Props.thy ===== *)
theory Tool_List_Props
  imports Tool_Sect_Props Tool_Binary
begin

text \<open>
  The properties of \<open>gel-seg\<close> and of \<open>gel-sect\<close> without options: their output for the files of
  the three formats, as the listings of their segments and of their sections.
\<close>

declare sec_infos.simps [simp del] phdr_infos.simps [simp del] secs_fit.simps [simp del]
  sh_size.simps [simp del] sh_type.simps [simp del]

section \<open>The segments of a file\<close>

definition pe_seg_values :: "'s pe_env \<Rightarrow> mem \<Rightarrow> pe_headers \<Rightarrow> nat \<Rightarrow> seg_values" where
  "pe_seg_values X c x i =
     (let hd = pe_header_at x i; flags = hd_characteristics hd in
      \<lparr>sv_write = (flags AND IMAGE_SCN_MEM_WRITE \<noteq> 0), sv_content = (flags AND IMAGE_SCN_MEM_DISCARDABLE = 0),
       sv_exec = (flags AND IMAGE_SCN_MEM_EXECUTE \<noteq> 0), sv_base = ucast (hd_virtual_address hd),
       sv_size = ucast (hd_virtual_size hd), sv_name = the (spec_pe_name X c x i)\<rparr>)"

definition elf_seg_values :: "phdr_info \<Rightarrow> seg_values" where
  "elf_seg_values p =
     (let x = (ph_flags p AND PF_X \<noteq> 0); w = (ph_flags p AND PF_W \<noteq> 0) in
      \<lparr>sv_write = w, sv_content = True, sv_exec = x, sv_base = ph_vaddr p, sv_size = ph_memsz p,
       sv_name = defaultName x w True\<rparr>)"

definition coff_seg_values :: "coffi_lib \<Rightarrow> coffi_section \<Rightarrow> seg_values" where
  "coff_seg_values L s =
     \<lparr>sv_write = True, sv_content = coffi_hasContent L s, sv_exec = coffi_isExecutable L s,
      sv_base = cs_virtual_address s, sv_size = cs_data_size s, sv_name = cs_name s\<rparr>"

fun segments_of :: "'s gel_env \<Rightarrow> binary \<Rightarrow> seg_values list" where
  "segments_of G (ELF_binary c h) = map elf_seg_values (filter (\<lambda>p. ph_type p = PT_LOAD) (phdr_infos c h))"
| "segments_of G (COFF_binary r b) =
     map (coff_seg_values (ge_coffi G)) (filter (coffi_is_segment (ge_coffi G)) (cr_sections r))"
| "segments_of G (PE_binary c x) = map (pe_seg_values (mg_pe (ge_manager G)) c x) [0..<pe_count_of x]"

lemma load_indices_phdrs:
  "map (\<lambda>i. phdr_infos c h ! i) (load_indices c h) = filter (\<lambda>p. ph_type p = PT_LOAD) (phdr_infos c h)"
  using filter_map [of "\<lambda>p. ph_type p = PT_LOAD" "\<lambda>i. phdr_infos c h ! i" "[0..<length (phdr_infos c h)]"]
  by (simp add: map_nth comp_def load_indices_def)

lemma nth_elf_segments:
  assumes "i < length (load_indices c h)"
  shows "segments_of G (ELF_binary c h) ! i = elf_seg_values (phdr_infos c h ! (load_indices c h ! i))"
  using assms by (simp flip: load_indices_phdrs)

lemma length_elf_segments: "length (segments_of G (ELF_binary c h)) = length (load_indices c h)"
  by (simp flip: load_indices_phdrs)

text \<open>An open ELF file, before and after its program headers are loaded.\<close>

definition elf_seg_fresh ::
  "'s gel_env \<Rightarrow> ('s \<Rightarrow> mem) \<Rightarrow> ('s \<Rightarrow> nat) \<Rightarrow> mem \<Rightarrow> elf_header \<Rightarrow> 's open_file \<Rightarrow> bool" where
  "elf_seg_fresh G ct ps c h f \<longleftrightarrow>
     elf_host (ge_elf G) ct ps \<and> phs_fit c h \<and> (\<exists>x. of_obj f = ELF_file x \<and> elf_inv (ge_elf G) ct c h x)"

definition elf_seg_ready ::
  "'s gel_env \<Rightarrow> ('s \<Rightarrow> mem) \<Rightarrow> ('s \<Rightarrow> nat) \<Rightarrow> mem \<Rightarrow> elf_header \<Rightarrow> 's open_file \<Rightarrow> bool" where
  "elf_seg_ready G ct ps c h f \<longleftrightarrow>
     elf_host (ge_elf G) ct ps \<and> phs_fit c h \<and> (\<exists>x. of_obj f = ELF_file x \<and> phs_opened (ge_elf G) ct c h x)"

interpretation elf_seg_list:
  listing "file_count G" "file_segment G" "segment_values G" "elf_seg_fresh G ct ps c h"
    "elf_seg_ready G ct ps c h" "segments_of G (ELF_binary c h)" for G ct ps c h
proof
  fix f :: "'a open_file" and i
  let ?is = "load_indices c h"
  show "\<exists>g. file_count G f = (Inr (int (length (segments_of G (ELF_binary c h)))), g) \<and>
      elf_seg_ready G ct ps c h g" if f: "elf_seg_fresh G ct ps c h f"
  proof -
    obtain x where x: "of_obj f = ELF_file x" "elf_inv (ge_elf G) ct c h x"
      and E: "elf_host (ge_elf G) ct ps" "phs_fit c h"
      using f by (auto simp: elf_seg_fresh_def)
    obtain y where "elf_count (ge_elf G) x = (Inr (int (length ?is)), y)" "phs_opened (ge_elf G) ct c h y"
      using elf_host.elf_count_ok [OF E(1) x(2) E(2)] by (auto simp: phs_opened_def)
    then show ?thesis
      using x(1) E length_elf_segments [of G c h]
      by (auto simp: file_count_def on_obj_def elf_seg_ready_def simp del: segments_of.simps)
  qed
  show "\<exists>g k r. file_segment G (int i) f = (Inr r, g) \<and>
      segment_values G r g = (Inr (segments_of G (ELF_binary c h) ! i), k) \<and> elf_seg_ready G ct ps c h k"
    if f: "elf_seg_ready G ct ps c h f" and i: "i < length (segments_of G (ELF_binary c h))"
  proof -
    have i': "i < length ?is"
      using i length_elf_segments [of G c h] by simp
    then have j: "?is ! i < length (phdr_infos c h)"
      by (intro load_indices_bound nth_mem)
    obtain x where x: "of_obj f = ELF_file x" "elf_inv (ge_elf G) ct c h x"
      and E: "elf_host (ge_elf G) ct ps" "phs_fit c h"
      using f by (auto simp: elf_seg_ready_def phs_opened_def)
    obtain y where y: "elf_segment (ge_elf G) (int i) x = (Inr (?is ! i), y)" "elf_inv (ge_elf G) ct c h y"
      "el_ph_loaded y"
      using elf_host.elf_segment_ok [OF E(1) x(2) E(2), of "int i"] i' by auto
    let ?g = "f\<lparr>of_obj := ELF_file y\<rparr>"
    have "file_segment G (int i) f = (Inr (Index (?is ! i)), ?g)"
      using x(1) y(1) by (simp add: file_segment_def on_obj_def)
    moreover have "segment_values G (Index (?is ! i)) ?g = (Inr (segments_of G (ELF_binary c h) ! i), ?g)"
      using elf_segment_view_ok [OF y(2,3) j] nth_elf_segments [OF i', of G]
      by (simp add: segment_values_def on_obj_def seg_view_def view_values_def elf_Segment_def
          elf_seg_values_def Let_def)
    moreover have "elf_seg_ready G ct ps c h ?g"
      using E y by (auto simp: elf_seg_ready_def phs_opened_def)
    ultimately show ?thesis
      by blast
  qed
qed

interpretation coff_seg_list:
  listing "file_count G" "file_segment G" "segment_values G"
    "\<lambda>f. of_obj f = COFF_file (coffi_opened (ge_coffi G) r b)"
    "\<lambda>f. of_obj f = COFF_file (coffi_opened (ge_coffi G) r b)" "segments_of G (COFF_binary r b)" for G r b
  by unfold_locales
    (auto simp: file_count_def file_segment_def segment_values_def on_obj_def coffi_count_def coffi_segment_def
      vec_at_def coffi_opened_def view_values_def coffi_Segment_def coff_seg_values_def)

text \<open>An open PE-COFF file all of whose names can be read.\<close>

definition pe_listed ::
  "'s gel_env \<Rightarrow> ('s \<Rightarrow> mem) \<Rightarrow> ('s \<Rightarrow> nat) \<Rightarrow> mem \<Rightarrow> pe_headers \<Rightarrow> 's open_file \<Rightarrow> bool" where
  "pe_listed G ct ps c x f \<longleftrightarrow>
     (let X = mg_pe (ge_manager G) in
      rstream_spec (px_stream X) ct ps \<and> (\<forall>i < pe_count_of x. spec_pe_name X c x i \<noteq> None) \<and>
      (\<exists>y. of_obj f = PE_file y \<and> pe_opened X ct c x y))"

interpretation pe_seg_list:
  listing "file_count G" "file_segment G" "segment_values G" "pe_listed G ct ps c x" "pe_listed G ct ps c x"
    "segments_of G (PE_binary c x)" for G ct ps c x
proof
  fix f :: "'a open_file" and i
  let ?X = "mg_pe (ge_manager G)"
  assume f: "pe_listed G ct ps c x f"
  then obtain y where y: "of_obj f = PE_file y" "pe_opened ?X ct c x y" and R: "rstream_spec (px_stream ?X) ct ps"
    and nms: "\<forall>i < pe_count_of x. spec_pe_name ?X c x i \<noteq> None"
    by (auto simp: pe_listed_def Let_def)
  have len: "length (pe_sects y) = pe_count_of x"
    using y(2) by (simp add: pe_opened_def)
  show "\<exists>g. file_count G f = (Inr (int (length (segments_of G (PE_binary c x)))), g) \<and> pe_listed G ct ps c x g"
    by (rule exI [of _ f]) (simp add: file_count_def pe_count_def y(1) len f)
  show "\<exists>g h r. file_segment G (int i) f = (Inr r, g) \<and>
      segment_values G r g = (Inr (segments_of G (PE_binary c x) ! i), h) \<and> pe_listed G ct ps c x h"
    if "i < length (segments_of G (PE_binary c x))"
  proof -
    have i: "i < pe_count_of x"
      using that by simp
    then obtain nm where nm: "spec_pe_name ?X c x i = Some nm"
      using nms by blast
    obtain y' where y': "pe_name ?X i y = (Inr nm, y')" "pe_opened ?X ct c x y'"
      using pe_name_ok [OF R y(2) i nm] by blast
    have "file_segment G (int i) f = (Inr (Index i), f)"
      using y(1) i len by (simp add: file_segment_def pe_segment_def)
    moreover have "segment_values G (Index i) f =
        (Inr (segments_of G (PE_binary c x) ! i), f\<lparr>of_obj := PE_file y'\<rparr>)"
      using y i nm y'(1) pe_opened_hd [OF y(2), of i]
      by (simp add: segment_values_def on_obj_def pe_values_def pe_seg_values_def Let_def pe_isWritable_def
          pe_hasContent_def pe_isExecutable_def pe_baseAddress_def pe_size_def)
    moreover have "pe_listed G ct ps c x (f\<lparr>of_obj := PE_file y'\<rparr>)"
      using R nms y'(2) by (simp add: pe_listed_def)
    ultimately show ?thesis
      by blast
  qed
qed

section \<open>The sections of a file\<close>

definition elf_sect_values :: "mem \<Rightarrow> elf_header \<Rightarrow> nat \<Rightarrow> seg_values \<times> u64" where
  "elf_sect_values c h i =
     (let p = sec_infos c h ! i in
      (\<lparr>sv_write = sec_isWritable p, sv_content = sec_hasContent p, sv_exec = sec_isExecutable p,
        sv_base = sec_baseAddress p, sv_size = sh_size p, sv_name = projr (spec_name c h i)\<rparr>, sh_offset p))"

text \<open>A PE-COFF file has no section for the generic interface.\<close>

fun sections_of :: "'s gel_env \<Rightarrow> binary \<Rightarrow> (seg_values \<times> u64) list" where
  "sections_of G (ELF_binary c h) = map (elf_sect_values c h) [0..<length (sec_infos c h)]"
| "sections_of G (COFF_binary r b) =
     map (\<lambda>s. (coff_seg_values (ge_coffi G) s, cs_data_offset s)) (cr_sections r)"
| "sections_of G (PE_binary c x) = []"

text \<open>An open ELF file, before and after its sections are loaded.\<close>

definition elf_sect_fresh ::
  "'s gel_env \<Rightarrow> ('s \<Rightarrow> mem) \<Rightarrow> ('s \<Rightarrow> nat) \<Rightarrow> mem \<Rightarrow> elf_header \<Rightarrow> 's open_file \<Rightarrow> bool" where
  "elf_sect_fresh G ct ps c h f \<longleftrightarrow>
     elf_host (ge_elf G) ct ps \<and> names_ok c h \<and> ge_stack G \<noteq> 0 \<and>
     (\<exists>x. of_obj f = ELF_file x \<and> elf_inv (ge_elf G) ct c h x)"

definition elf_sect_ready ::
  "'s gel_env \<Rightarrow> ('s \<Rightarrow> mem) \<Rightarrow> ('s \<Rightarrow> nat) \<Rightarrow> mem \<Rightarrow> elf_header \<Rightarrow> 's open_file \<Rightarrow> bool" where
  "elf_sect_ready G ct ps c h f \<longleftrightarrow>
     elf_host (ge_elf G) ct ps \<and> names_ok c h \<and> ge_stack G \<noteq> 0 \<and>
     (\<exists>x. of_obj f = ELF_file x \<and> elf_opened (ge_elf G) ct c h x)"

lemma elf_section_opened:
  assumes "elf_opened E ct c h x" and "i < length (sec_infos c h)"
  shows "elf_section E (int i) x = (Inr i, x)"
  using assms elf_opened_sects(1) [OF assms(1)]
  by (simp add: elf_section_def initSections_def elf_opened_def)

interpretation elf_sect_list:
  listing "file_countSections G" "file_section G" "section_values G" "elf_sect_fresh G ct ps c h"
    "elf_sect_ready G ct ps c h" "sections_of G (ELF_binary c h)" for G ct ps c h
proof
  fix f :: "'a open_file" and i
  let ?E = "ge_elf G" and ?n = "length (sec_infos c h)"
  show "\<exists>g. file_countSections G f = (Inr (int (length (sections_of G (ELF_binary c h)))), g) \<and>
      elf_sect_ready G ct ps c h g" if f: "elf_sect_fresh G ct ps c h f"
  proof -
    obtain x where x: "of_obj f = ELF_file x" "elf_inv ?E ct c h x"
      and E: "elf_host ?E ct ps" "names_ok c h" "ge_stack G \<noteq> 0"
      using f by (auto simp: elf_sect_fresh_def)
    obtain y where y: "elf_opened ?E ct c h y" "sections ?E x = (Inr (el_sects y), y)"
      using elf_host.opened_sections [OF E(1,2) x(2)] by blast
    then have "countSections ?E x = (Inr (int ?n), y)"
      using elf_opened_sects(1) [OF y(1)]
      by (auto simp: countSections_def sections_def sbind_def split: prod.splits sum.splits)
    then show ?thesis
      using x(1) y(1) E by (auto simp: file_countSections_def on_obj_def elf_sect_ready_def)
  qed
  show "\<exists>g k r. file_section G (int i) f = (Inr r, g) \<and>
      section_values G r g = (Inr (sections_of G (ELF_binary c h) ! i), k) \<and> elf_sect_ready G ct ps c h k"
    if f: "elf_sect_ready G ct ps c h f" and "i < length (sections_of G (ELF_binary c h))"
  proof -
    have i: "i < ?n"
      using that by simp
    obtain x n where x: "of_obj f = ELF_file x" "elf_opened ?E ct c h x" and n: "ge_stack G = Suc n"
      and E: "elf_host ?E ct ps" "names_ok c h"
      using f by (auto simp: elf_sect_ready_def gr0_conv_Suc)
    obtain y where y: "elf_opened ?E ct c h y" "section_name ?E (Suc n) i x = (Inr (projr (spec_name c h i)), y)"
      using elf_host.opened_name [OF E i x(2)] by blast
    have "file_section G (int i) f = (Inr (Index i), f)"
      using x i elf_section_opened [OF x(2) i] by (simp add: file_section_def on_obj_def)
    moreover have "section_values G (Index i) f =
        (Inr (sections_of G (ELF_binary c h) ! i), f\<lparr>of_obj := ELF_file y\<rparr>)"
      using x y(2) n i elf_opened_sects [OF x(2)]
      by (simp add: section_values_def on_obj_def elf_section_values_def elf_sect_values_def Let_def)
    moreover have "elf_sect_ready G ct ps c h (f\<lparr>of_obj := ELF_file y\<rparr>)"
      using E n y(1) by (simp add: elf_sect_ready_def)
    ultimately show ?thesis
      by blast
  qed
qed

interpretation coff_sect_list:
  listing "file_countSections G" "file_section G" "section_values G"
    "\<lambda>f. of_obj f = COFF_file (coffi_opened (ge_coffi G) r b)"
    "\<lambda>f. of_obj f = COFF_file (coffi_opened (ge_coffi G) r b)" "sections_of G (COFF_binary r b)" for G r b
  by unfold_locales
    (auto simp: file_countSections_def file_section_def section_values_def on_obj_def coffi_countSections_def
      coffi_section_at_def vec_at_def coffi_opened_def view_values_def coffi_Segment_def coffi_Section_def
      coff_seg_values_def)

interpretation pe_sect_list:
  listing "file_countSections G" "file_section G" "section_values G"
    "\<lambda>f. \<exists>y. of_obj f = PE_file y" "\<lambda>f. \<exists>y. of_obj f = PE_file y" "sections_of G (PE_binary c x)" for G c x
  by unfold_locales (auto simp: file_countSections_def gel_countSections_def)

section \<open>The commands on a file\<close>

text \<open>What a file needs for the listing of its segments, and of its sections.\<close>

fun segments_named :: "'s gel_env \<Rightarrow> binary \<Rightarrow> bool" where
  "segments_named G (ELF_binary c h) \<longleftrightarrow> phs_fit c h"
| "segments_named G (COFF_binary r b) \<longleftrightarrow> True"
| "segments_named G (PE_binary c x) \<longleftrightarrow> (\<forall>i < pe_count_of x. spec_pe_name (mg_pe (ge_manager G)) c x i \<noteq> None)"

fun sections_named :: "'s gel_env \<Rightarrow> binary \<Rightarrow> bool" where
  "sections_named G (ELF_binary c h) \<longleftrightarrow> names_ok c h \<and> ge_stack G \<noteq> 0"
| "sections_named G b \<longleftrightarrow> True"

definition segment_row :: "nat \<Rightarrow> seg_values \<Rightarrow> out_item list" where
  "segment_row i v = value_fields i v @ [Txt (sv_name v), Endl]"

definition section_row :: "nat \<Rightarrow> seg_values \<times> u64 \<Rightarrow> out_item list" where
  "section_row i = (\<lambda>(v, off). value_fields i v @ [word_fmt off, Chr CHR '' '', Txt (sv_name v), Endl])"

definition segment_title :: "out_item list" where
  "segment_title = [Lit (''INDEX FLAGS VADDR    SIZE     NAME'' @ [newline])]"

definition section_title :: "out_item list" where
  "section_title = [Lit (''INDEX FLAGS VADDR    SIZE     OFFSET    NAME'' @ [newline])]"

lemma seg_process_listing:
  "seg_process T = list_items segment_title (file_count (te_gel T)) (file_segment (te_gel T))
     (segment_values (te_gel T)) segment_row"
  by (simp add: seg_process_def processSegment_def list_items_def segment_title_def segment_row_def)

lemma sect_process_listing:
  "sect_processGeneric T = list_items section_title (file_countSections (te_gel T)) (file_section (te_gel T))
     (section_values (te_gel T)) section_row"
  by (simp add: sect_processGeneric_def list_items_def section_title_def section_row_def case_prod_unfold)

lemma seg_file_lists:
  assumes src: "binary_source (ge_manager (te_gel T)) ct ps a (Inr b)"
    and A: "elm_array_spec (env_array (te_elf T))" and ok: "segments_named (te_gel T) b"
  shows "processes (seg_file T sought) a (Inr (listed segment_title segment_row (segments_of (te_gel T) b)))"
    (is "processes _ _ (Inr ?out)")
proof -
  obtain f where f: "manager_open (te_gel T) a = Inr f" and kind: "case b of
      ELF_binary c h \<Rightarrow> elf_seg_fresh (te_gel T) ct ps c h f
    | COFF_binary r base \<Rightarrow> of_obj f = COFF_file (coffi_opened (ge_coffi (te_gel T)) r base)
    | PE_binary c x \<Rightarrow> pe_listed (te_gel T) ct ps c x f"
    using opened_binary [OF src] A ok
    by (cases b) (auto simp: te_elf_def elf_seg_fresh_def pe_listed_def Let_def)
  have "\<exists>g. seg_process T t = (Inr (), t\<lparr>con_out := con_out t @ ?out, tl_file := g\<rparr>)" if "tl_file t = f" for t
    unfolding seg_process_listing
    using kind that
    by (cases b) (auto simp del: segments_of.simps
        intro!: elf_seg_list.listing_output coff_seg_list.listing_output pe_seg_list.listing_output)
  then have "with_file f (seg_process T) con = (Inr (), con\<lparr>con_out := con_out con @ ?out\<rparr>)" for con
    by (metis with_file_out tool_extend)
  then show ?thesis
    using f by (simp add: processes_def seg_file_def)
qed

lemma sect_file_lists:
  assumes src: "binary_source (ge_manager (te_gel T)) ct ps a (Inr b)"
    and A: "elm_array_spec (env_array (te_elf T))" and ok: "sections_named (te_gel T) b"
    and elf: "\<not> op_elf opts"
  shows "processes (sect_file T opts) a (Inr (listed section_title section_row (sections_of (te_gel T) b)))"
    (is "processes _ _ (Inr ?out)")
proof -
  obtain f where f: "manager_open (te_gel T) a = Inr f" and kind: "case b of
      ELF_binary c h \<Rightarrow> elf_sect_fresh (te_gel T) ct ps c h f
    | COFF_binary r base \<Rightarrow> of_obj f = COFF_file (coffi_opened (ge_coffi (te_gel T)) r base)
    | PE_binary c x \<Rightarrow> (\<exists>y. of_obj f = PE_file y)"
    using opened_binary [OF src] A ok
    by (cases b) (auto simp: te_elf_def elf_sect_fresh_def)
  have "\<exists>g. sect_processGeneric T t = (Inr (), t\<lparr>con_out := con_out t @ ?out, tl_file := g\<rparr>)"
    if "tl_file t = f" for t
    unfolding sect_process_listing
    using kind that
    by (cases b) (auto simp del: sections_of.simps
        intro!: elf_sect_list.listing_output coff_sect_list.listing_output pe_sect_list.listing_output)
  then have "with_file f (sect_processGeneric T) con = (Inr (), con\<lparr>con_out := con_out con @ ?out\<rparr>)" for con
    by (metis with_file_out tool_extend)
  then show ?thesis
    using f elf by (simp add: processes_def sect_file_def)
qed

section \<open>The properties\<close>

definition spec_seg_command :: "'s gel_env \<Rightarrow> string \<Rightarrow> binary \<Rightarrow> processed" where
  "spec_seg_command G a b = Inr (listed segment_title segment_row (segments_of G b))"

definition spec_sect_generic :: "'s gel_env \<Rightarrow> string \<Rightarrow> binary \<Rightarrow> processed" where
  "spec_sect_generic G a b = Inr (listed section_title section_row (sections_of G b))"

lemma seg_run_files:
  assumes A: "elm_array_spec (env_array (te_elf T))" and src: "binaries_opened T ct ps args ds"
    and ne: "args \<noteq> []" and ok: "\<And>b. Inr b \<in> set ds \<Longrightarrow> segments_named (te_gel T) b"
  shows "seg_run T (Parsed sought args) con = until_failure 1 (\<lambda>a. help_report) args
      (outcomes_of (spec_seg_command (te_gel T)) args ds) con"
proof -
  have "list_all2 (processes (seg_file T sought)) args (outcomes_of (spec_seg_command (te_gel T)) args ds)"
    by (rule outcomes_of_processes [OF src])
      (use seg_file_lists [OF _ A] ok in \<open>auto simp: processes_def seg_file_def manager_open_def
        spec_seg_command_def binary_source_def\<close>)
  then show ?thesis
    using ne by (simp add: seg_run_def list_files_def list_command.files_until)
qed

text \<open>C22. The command \<open>gel-seg\<close>, from the bytes of the files to its output, for the three formats:
  a line for each segment, that is, each program header to load of an ELF file, each section of
  a COFF file that is not empty and holds code or data, and each section of a PE-COFF file, with
  its name, from the string table if its header says so. The option \<open>-f\<close> changes nothing. The
  command stops at the first file that cannot be opened, with its help; the status of the
  program is 0 all the same.\<close>

theorem gel_seg_output:
  assumes A: "elm_array_spec (env_array (te_elf T))" and src: "binaries_opened T ct ps args ds"
    and ne: "args \<noteq> []" and ok: "\<And>b. Inr b \<in> set ds \<Longrightarrow> segments_named (te_gel T) b"
  shows "seg_main T (Parsed sought args) con = (Inr 0, snd (until_failure 1 (\<lambda>a. help_report) args
      (outcomes_of (spec_seg_command (te_gel T)) args ds) con))"
  using ignored_binaries [OF src _ seg_run_files [OF assms]]
  by (simp add: seg_main_def spec_seg_command_def)

text \<open>The segments and the sections of the three files of the witnesses.\<close>

lemma segments_of_demo:
  "segments_of (te_gel demo_formats) (ELF_binary sample sample_head) =
     [\<lparr>sv_write = False, sv_content = True, sv_exec = True, sv_base = 0x8000, sv_size = 6,
       sv_name = str_bytes ''code''\<rparr>]"
  "segments_of (te_gel demo_formats) (COFF_binary demo_coff 0) =
     [\<lparr>sv_write = True, sv_content = True, sv_exec = True, sv_base = 0x100, sv_size = 2, sv_name = [116]\<rparr>]"
  "segments_of (te_gel demo_formats) (PE_binary pe_sample pe_sample_headers) =
     [\<lparr>sv_write = False, sv_content = True, sv_exec = True, sv_base = 0x1000, sv_size = 4,
       sv_name = str_bytes ''.text''\<rparr>]"
  by (simp_all add: phdr_infos_sample elf_seg_values_def pe_seg_values_def
      demo_formats_env pe_sample_section pe_sample_name Let_def)
    (simp_all add: coff_seg_values_def sample_ph_def ProgramHeader32_type_def ProgramHeader32_memsz_def ProgramHeader32_flags_def
      ProgramHeader32_vaddr_def PT_LOAD_def PF_X_def PF_W_def defaultName_def demo_coff_simps
      coffi_is_segment_def coffi_hasContent_def coffi_isExecutable_def IMAGE_SCN_MEM_WRITE_def
      IMAGE_SCN_MEM_DISCARDABLE_def IMAGE_SCN_MEM_EXECUTE_def)

theorem gel_seg_output_witness:
  "seg_main demo_formats (Parsed None [''a.out'', ''demo'', ''a.exe'', ''none'']) empty_console =
    (Inr 0, help_report (System_Error ''missing'') (empty_console\<lparr>con_out :=
       listed segment_title segment_row
         [\<lparr>sv_write = False, sv_content = True, sv_exec = True, sv_base = 0x8000, sv_size = 6,
           sv_name = str_bytes ''code''\<rparr>] @
       listed segment_title segment_row
         [\<lparr>sv_write = True, sv_content = True, sv_exec = True, sv_base = 0x100, sv_size = 2, sv_name = [116]\<rparr>] @
       listed segment_title segment_row
         [\<lparr>sv_write = False, sv_content = True, sv_exec = True, sv_base = 0x1000, sv_size = 4,
           sv_name = str_bytes ''.text''\<rparr>]\<rparr>))"
proof -
  have "segments_named (te_gel demo_formats) b"
    if "b \<in> {ELF_binary sample sample_head, COFF_binary demo_coff 0, PE_binary pe_sample pe_sample_headers}" for b
    using that fit_sample(2) by (auto simp: pe_sample_section demo_formats_env pe_sample_name)
  then show ?thesis
    using gel_seg_output [OF _ demo_formats_files, of None empty_console] demo_formats_env(1) sample_host.array
    by (simp add: spec_seg_command_def segments_of_demo empty_console_def del: segments_of.simps segments_named.simps)
qed

text \<open>C23. The command \<open>gel-sect\<close> without options, from the bytes of the files to its output, for
  the three formats: a line for each section of an ELF or COFF file, in the order of the file,
  with its name and its offset, and no line at all for a PE-COFF file, whose sections the
  generic interface does not give. It stops at the first file that cannot be opened, with its
  help and the status 1.\<close>

theorem gel_sect_generic_output:
  assumes A: "elm_array_spec (env_array (te_elf T))" and src: "binaries_opened T ct ps args ds"
    and ne: "args \<noteq> []" and ok: "\<And>b. Inr b \<in> set ds \<Longrightarrow> sections_named (te_gel T) b"
    and elf: "\<not> op_elf opts"
  shows "sect_run T (Parsed opts args) con = until_failure 1 (\<lambda>a. help_report) args
      (outcomes_of (spec_sect_generic (te_gel T)) args ds) con"
proof -
  have "list_all2 (processes (sect_file T opts)) args (outcomes_of (spec_sect_generic (te_gel T)) args ds)"
    by (rule outcomes_of_processes [OF src])
      (use sect_file_lists [OF _ A _ elf] ok elf in \<open>auto simp: processes_def sect_file_def manager_open_def
        spec_sect_generic_def binary_source_def\<close>)
  then show ?thesis
    using ne by (simp add: sect_run_def list_files_def list_command.files_until)
qed

theorem gel_sect_generic_output_witness:
  "\<exists>xs. sect_run demo_formats (Parsed \<lparr>op_elf = False, op_find = None\<rparr> [''a.out'', ''demo'', ''a.exe'', ''none''])
      empty_console =
    (Inr 1, help_report (System_Error ''missing'') (empty_console\<lparr>con_out := xs @
       listed section_title section_row
         [(\<lparr>sv_write = True, sv_content = True, sv_exec = True, sv_base = 0x100, sv_size = 2, sv_name = [116]\<rparr>, 0),
          (\<lparr>sv_write = True, sv_content = True, sv_exec = False, sv_base = 0x300, sv_size = 0, sv_name = [100]\<rparr>, 0)] @
       section_title\<rparr>))"
proof -
  have "sections_of (te_gel demo_formats) (COFF_binary demo_coff 0) =
      [(\<lparr>sv_write = True, sv_content = True, sv_exec = True, sv_base = 0x100, sv_size = 2, sv_name = [116]\<rparr>, 0),
       (\<lparr>sv_write = True, sv_content = True, sv_exec = False, sv_base = 0x300, sv_size = 0, sv_name = [100]\<rparr>, 0)]"
    by (simp add: demo_formats_env coff_seg_values_def demo_coff_simps coffi_hasContent_def coffi_isExecutable_def)
  moreover have "names_ok sample sample_head"
    using fit_sample(1) strtab_ok_sample name_ok_sample by (simp add: names_ok_def length_sec_infos_sample)
  then have "sections_named (te_gel demo_formats) b"
    if "b \<in> {ELF_binary sample sample_head, COFF_binary demo_coff 0, PE_binary pe_sample pe_sample_headers}" for b
    using that by (auto simp: demo_formats_env)
  moreover have "listed section_title section_row [] = section_title"
    by (simp add: listed_def)
  ultimately show ?thesis
    using gel_sect_generic_output [OF _ demo_formats_files, of "\<lparr>op_elf = False, op_find = None\<rparr>" empty_console]
      demo_formats_env(1) sample_host.array
    by (intro exI [of _ "listed section_title section_row
          (sections_of (te_gel demo_formats) (ELF_binary sample sample_head))"])
      (simp add: spec_sect_generic_def empty_console_def del: sections_of.simps(1,2) sections_named.simps)
qed

end
