(* ===== verification/Tool_File.thy ===== *)
theory Tool_File
  imports Tool_Base
begin

text \<open>
  \<open>src/bin/gel-file.cpp\<close>: the identification of a file.
\<close>

section \<open>Names\<close>

text \<open>The table has five names; the test lets the index 5 through.\<close>

definition type_names :: "string list" where
  "type_names = [''ET_NONE'', ''ET_REL'', ''ET_EXEC'', ''ET_DYN'', ''ET_CORE'']"

definition get_type :: "u16 \<Rightarrow> string res" where
  "get_type t =
     (if unat t > length type_names then Inr ''UNKNOWN''
      else if unat t < length type_names then Inr (type_names ! unat t)
      else Inl Memory_Fault)"

definition machines :: "(u16 \<times> string) list" where
  "machines =
    [(0, ''EM_NONE''), (1, ''EM_M32''), (2, ''EM_SPARC''), (3, ''EM_386''), (4, ''EM_68K''),
     (5, ''EM_88K''), (6, ''reserved''), (7, ''EM_860''), (8, ''EM_MIPS''), (9, ''reserved''),
     (10, ''EM_MIPS_RS4_BE''), (15, ''EM_PARISC''), (17, ''EM_VPP500''), (18, ''EM_SPARC32PLUS''),
     (19, ''EM_960''), (20, ''EM_PPC''), (36, ''EM_V800''), (37, ''EM_FR20''), (38, ''EM_RH32''),
     (39, ''EM_RCE''), (40, ''EM_ARM''), (41, ''EM_ALPHA''), (42, ''EM_SH''),
     (43, ''EM_SPARCV9''), (44, ''EM_TRICORE''), (45, ''EM_ARC''), (46, ''EM_H8_300''),
     (47, ''EM_H8_300H''), (48, ''EM_H8S''), (49, ''EM_H8_500''), (50, ''EM_IA_64''),
     (51, ''EM_MIPS_X''), (52, ''EM_COLDFIRE''), (53, ''EM_68HC12''), (54, ''EM_MMA''),
     (55, ''EM_PCP''), (56, ''EM_NCPU''), (57, ''EM_NDR1''), (58, ''EM_STARCORE''),
     (59, ''EM_ME16''), (60, ''EM_ST100''), (61, ''EM_TINYJ''), (66, ''EM_FX66''),
     (67, ''EM_ST9PLUS''), (68, ''EM_ST7''), (69, ''EM_68HC16''), (70, ''EM_68HC11''),
     (71, ''EM_68HC08''), (72, ''EM_68HC05''), (73, ''EM_SVX''), (74, ''EM_ST19''),
     (75, ''EM_VAX''), (76, ''EM_CRIS''), (77, ''EM_JAVELIN''), (78, ''EM_FIREPATH''),
     (79, ''EM_ZSP''), (80, ''EM_MMIX''), (81, ''EM_HUANY''), (82, ''EM_PRISM'')]"

definition get_machine :: "u16 \<Rightarrow> string" where
  "get_machine m = (case map_of machines m of Some x \<Rightarrow> x | None \<Rightarrow> ''unknown'')"

definition get_class :: "u8 \<Rightarrow> string" where
  "get_class x =
     (if x = ELFCLASSNONE then ''ELFCLASSNONE''
      else if x = ELFCLASS32 then ''ELFCLASS32''
      else if x = ELFCLASS64 then ''EFLCLASS64''
      else ''unknown'')"

definition get_data :: "u8 \<Rightarrow> string" where
  "get_data x =
     (if x = ELFDATANONE then ''ELFDATANONE''
      else if x = ELFDATA2LSB then ''ELFDATA2LSB''
      else if x = ELFDATA2MSB then ''ELFDATA2MSB''
      else ''unknown'')"

section \<open>A block of bytes\<close>

definition block_char :: "u8 \<Rightarrow> out_item" where
  "block_char b = Chr (if 32 \<le> b \<and> b < 127 then char_of (unat b) else CHR ''.'')"

definition block_line :: "u8 list \<Rightarrow> out_item list" where
  "block_line bs =
     map (\<lambda>b. Num [Hex, Width 2, Pad CHR ''0''] (uint b)) bs @ [Chr CHR 0x09] @ map block_char bs @ [Endl]"

text \<open>The lines from the index \<open>i\<close> on; a null width would never end.\<close>

function display_block :: "u8 list \<Rightarrow> nat \<Rightarrow> nat \<Rightarrow> nat \<Rightarrow> out_item list res" where
  "display_block bytes n w i =
     (if n \<le> i then Inr []
      else if w = 0 then Inl No_Return
      else if length bytes < min n (i + w) then Inl Memory_Fault
      else
        rbind (display_block bytes n w (i + w)) (\<lambda>xs.
          Inr (block_line (take (min w (n - i)) (drop i bytes)) @ xs)))"
  by pat_completeness auto
termination
  by (relation "measure (\<lambda>(bytes, n, w, i). n - i)") auto

declare display_block.simps [simp del]

section \<open>A file\<close>

text \<open>The options \<open>-a\<close> and \<open>-e\<close>.\<close>

record file_options =
  show_all :: bool
  show_elf :: bool

fun elf_version_field :: "elf_header \<Rightarrow> u16" where
  "elf_version_field (H32 h) = File32_version h"
| "elf_version_field (H64 h) = File64_version h"

fun elf_type_field :: "elf_header \<Rightarrow> int" where
  "elf_type_field (H32 h) = File32_elfType h"
| "elf_type_field (H64 h) = File64_elfType h"

definition line_feed :: out_item where "line_feed = Lit [newline]"

definition show_common :: "'s open_file \<Rightarrow> ('c console_scheme, unit) stm" where
  "show_common f =
     sbind (emit [Lit ''file name = '', Txt (str_bytes (of_path f)), Endl,
                  Lit ''type      = '', Lit (file_type_label (file_type_of (of_obj f))), Endl,
                  Lit ''entry     = '']) (\<lambda>_.
     sbind (slift (file_entry_of (of_obj f))) (\<lambda>a.
     emit [file_format (of_obj f) a, Endl,
           Lit ''machine   = '', Txt (str_bytes (file_machine (of_obj f))), Endl,
           Lit ''os        = '', Txt (str_bytes (file_os (of_obj f))), Endl]))"

text \<open>\<open>f16\<close>. The value \<open>machine()\<close> is a string; \<open>te_half\<close> converts it.\<close>

definition half_fmt :: "int \<Rightarrow> out_item" where
  "half_fmt x = Num [Pad CHR ''0'', Right, Width 4] x"

definition ident_lines :: "u8 list \<Rightarrow> out_item list" where
  "ident_lines ident =
     [Lit ''ident[EI_CLASS] = '', Lit (get_class (ident ! EI_CLASS)), Lit '' ('',
      Num [] (uint (ident ! EI_CLASS)), Lit '')'', line_feed,
      Lit ''ident[EI_DATA] = '', Lit (get_data (ident ! EI_DATA)), Lit '' ('',
      Num [] (uint (ident ! EI_DATA)), Lit '')'', line_feed,
      Lit ''ident[EI_OSABI] = '', Num [] (uint (ident ! EI_OSABI)), line_feed]"

definition show_header :: "'s tool_env \<Rightarrow> bool \<Rightarrow> elf_header \<Rightarrow> ('c console_scheme, unit) stm" where
  "show_header T all h =
     (let m = te_half T (elf_machine h) in
      sbind (if all then emit [line_feed, Lit ''ELF INFORMATION'', line_feed] else sreturn ()) (\<lambda>_.
      sbind (emit [Lit ''type = '']) (\<lambda>_.
      sbind (slift (get_type (word_of_int (elf_type_field h)))) (\<lambda>ty.
      sbind (emit [Lit ty, Lit '' ('', half_fmt (elf_type_field h), Lit '')'', line_feed,
                   Lit ''machine = '', Lit (get_machine m), Lit '' ('', half_fmt (uint m), Lit '')'', line_feed,
                   Lit ''version = '', Num [] (uint (elf_version_field h)), Endl,
                   Lit ''identification'', line_feed]) (\<lambda>_.
      sbind (slift (display_block (elf_ident h) EI_NIDENT 4 0)) (\<lambda>xs.
        emit (xs @ ident_lines (elf_ident h))))))))"

definition file_show :: "'s tool_env \<Rightarrow> file_options \<Rightarrow> 's open_file \<Rightarrow> ('c console_scheme, unit) stm" where
  "file_show T opts f =
     sbind (if \<not> show_elf opts \<or> show_all opts then show_common f else sreturn ()) (\<lambda>_.
       case toELF (of_obj f) of
         None \<Rightarrow> sreturn ()
       | Some e \<Rightarrow>
           if show_elf opts \<or> show_all opts then show_header T (show_all opts) (el_head e)
           else sreturn ())"

section \<open>The command\<close>

fun file_files :: "'s tool_env \<Rightarrow> file_options \<Rightarrow> string list \<Rightarrow> (console, int) stm" where
  "file_files T opts [] = sreturn 0"
| "file_files T opts (arg # args) =
     sbind (catch_gel (\<lambda>e. sbind (plain_error e) (\<lambda>_. sreturn False))
         (sbind (slift (manager_open (te_gel T) arg)) (\<lambda>f.
          sbind (file_show T opts f) (\<lambda>_. sreturn True)))) (\<lambda>ok.
       if ok then file_files T opts args else sreturn 1)"

definition file_run :: "'s tool_env \<Rightarrow> file_options command_line \<Rightarrow> (console, int) stm" where
  "file_run T cl =
     (case cl of
        Bad_Options msg \<Rightarrow> bad_options msg
      | Parsed opts args \<Rightarrow>
          if args = [] then bad_options ''at least one executable file required!''
          else file_files T opts args)"

text \<open>The \<open>main\<close> function ignores the result of \<open>run\<close>.\<close>

definition file_main :: "'s tool_env \<Rightarrow> file_options command_line \<Rightarrow> console \<Rightarrow> int res \<times> console" where
  "file_main T cl con = (case file_run T cl con of (r, con') \<Rightarrow> (ignored_status r, con'))"

end
