(* ===== verification/Tool_File_Props.thy ===== *)
theory Tool_File_Props
  imports Tool_File Tool_Binary
begin

text \<open>
  The properties of \<open>gel-file\<close>: its output for files of the three formats, from the bytes of the
  files on, and the type that is looked up after the end of the table of the names.
\<close>

declare sec_infos.simps [simp del] phdr_infos.simps [simp del]

section \<open>The expected output\<close>

text \<open>The type, the addresses, the entry, the machine and the system of a file.\<close>

fun binary_identity :: "binary \<Rightarrow> file_type \<times> address_type_t \<times> u64 \<times> string \<times> string" where
  "binary_identity (ELF_binary c h) = (elf_type h, elf_addressType h, elf_entry h, elf_machine h, elf_os h)"
| "binary_identity (COFF_binary r b) =
     (program, address_32, co_entry (the (cr_optional r)), ''unknown'', ''unknown'')"
| "binary_identity (PE_binary c (h, f, w, d, t)) =
     (let flags = ch_characteristics h in
      (if flags AND IMAGE_FILE_EXECUTABLE_IMAGE \<noteq> 0 then program
       else if flags AND IMAGE_FILE_DLL \<noteq> 0 then library else no_type,
       if flags AND IMAGE_FILE_32BIT_MACHINE \<noteq> 0 then address_32 else address_16,
       ucast (sf_address_of_entry_point f) + wf_image_base w,
       case map_of pe_machine_table (ch_machine h) of Some x \<Rightarrow> x | None \<Rightarrow> ''unknown'', ''windows''))"

definition spec_common :: "string \<Rightarrow> binary \<Rightarrow> out_item list" where
  "spec_common path b =
     (case binary_identity b of (ty, aty, entry, machine, os) \<Rightarrow>
        [Lit ''file name = '', Txt (str_bytes path), Endl,
         Lit ''type      = '', Lit (file_type_label ty), Endl,
         Lit ''entry     = '', format_address aty entry, Endl,
         Lit ''machine   = '', Txt (str_bytes machine), Endl,
         Lit ''os        = '', Txt (str_bytes os), Endl])"






section \<open>The header\<close>







lemma show_header_five:
  "elf_type_field h = 5 \<Longrightarrow> show_header T all h con =
    (Inl Memory_Fault, con\<lparr>con_out := con_out con @
       (if all then [line_feed, Lit ''ELF INFORMATION'', line_feed] else []) @ [Lit ''type = '']\<rparr>)"
  by (simp add: show_header_def Let_def get_type_def type_names_def)

section \<open>The properties\<close>











text \<open>With one of the options \<open>-a\<close> and \<open>-e\<close>, a header whose type is 5 makes the command read
  after the end of the table of the names.\<close>

theorem gel_file_type_five:
  assumes o: "opens_on (ge_manager (te_gel T)) ct ps path c" and c: "elf_content c h"
    and ty: "elf_type_field h = 5" and opts: "show_elf opts \<or> show_all opts"
  shows "fst (file_run T (Parsed opts [path]) con) = Inl Memory_Fault"
proof -
  obtain s where s: "openFile (ge_manager (te_gel T)) path = Inr (ELF_file (new_elf_file s h))"
    using openFile_elf [OF o c] by blast
  let ?f = "\<lparr>of_path = path, of_obj = ELF_file (new_elf_file s h), of_debug = None\<rparr>"
  have hd: "el_head (new_elf_file s h) = h"
    by (simp add: new_elf_file_def)
  have common: "show_common ?f con' = (Inr (), con'\<lparr>con_out := con_out con' @ spec_common path (ELF_binary c h)\<rparr>)"
    for con' :: console
    by (simp add: show_common_def spec_common_def file_format_def new_elf_file_def)
  have "fst (file_show T opts ?f con) = Inl Memory_Fault"
    using opts hd common by (auto simp: file_show_def elf_toELF_def show_header_five [OF ty])
  then obtain con' where "file_show T opts ?f con = (Inl Memory_Fault, con')"
    by (cases "file_show T opts ?f con") simp
  then show ?thesis
    by (simp add: file_run_def manager_open_def s catch_gel_def catch_exn.simps)
qed

definition five_sample :: mem where
  "five_sample = take 17 sample @ 5 # drop 18 sample"

lemma length_five_sample: "length five_sample = 277"
  by (simp add: five_sample_def length_sample)

lemma load_five_sample:
  "a + 2 \<le> 277 \<Longrightarrow> elf_fix16 2 (load16 five_sample a) = word_of_nat (le_nat (rev (bytes_at five_sample a 2)))"
  "a + 4 \<le> 277 \<Longrightarrow> elf_fix32 2 (load32 five_sample a) = word_of_nat (le_nat (rev (bytes_at five_sample a 4)))"
  by (simp_all add: fix_load length_five_sample word_of_bytes_big)

lemma header_five: "elf32_header five_sample = sample_header\<lparr>e_type32 := 5\<rparr>"
proof -
  have "five_sample ! EI_DATA = 2"
    by (simp add: five_sample_def sample_def elf_ident_consts)
  then show ?thesis
    by (simp add: elf32_header_def sample_header_def conv_Elf32_Ehdr_def load_Elf32_Ehdr_def load_five_sample)
      (simp add: load_defs five_sample_def sample_def bytes_at_def le_word_nat)
qed

lemma content_five: "elf_content five_sample (H32 (sample_header\<lparr>e_type32 := 5\<rparr>))"
  by (simp add: elf_content_def sizeof_Elf32_Ehdr_def length_five_sample header_five sample_header_def)
    (simp add: five_sample_def sample_def elf_ident_consts)

theorem gel_file_type_five_witness:
  "fst (file_run (demo_tools five_sample []) (Parsed \<lparr>show_all = False, show_elf = True\<rparr> [''a.out''])
     empty_console) = Inl Memory_Fault"
  by (rule gel_file_type_five [OF demo_opens_on content_five]) (simp_all add: File32_elfType_def)

end
