(* ===== verification/Tool_Pe_Props.thy ===== *)
theory Tool_Pe_Props
  imports Tool_Dyn Tool_Im Tool_Line Tool_Prog Tool_Sect Tool_Sym Tool_Binary
begin

text \<open>
  What the commands that are not made for PE-COFF files do with one: the image of the file is a
  null pointer, its debug lines are one too, and its symbols are a function without a result.
\<close>

section \<open>A PE-COFF file under the interface\<close>

definition pe_open :: "string \<Rightarrow> 's pe_file \<Rightarrow> 's open_file" where
  "pe_open a y = \<lparr>of_path = a, of_obj = PE_file y, of_debug = None\<rparr>"

lemma pe_open_simps [simp]: "of_obj (pe_open a y) = PE_file y" "of_path (pe_open a y) = a"
  by (simp_all add: pe_open_def)

lemma manager_open_pe:
  assumes "binary_source (ge_manager G) ct ps a (Inr (PE_binary c x))"
  shows "\<exists>y. manager_open G a = Inr (pe_open a y)"
proof -
  have "opens_on (ge_manager G) ct ps a c" "pe_content (mg_pe (ge_manager G)) c x"
    using assms by (simp_all add: binary_source_def)
  from openFile_pe [OF this] show ?thesis
    by (auto simp: manager_open_def pe_open_def)
qed

text \<open>As an ELF file, it has a wrong magic number.\<close>

lemma openELF_pe:
  assumes "binary_source (ge_manager G) ct ps a (Inr (PE_binary c x))"
  shows "manager_openELF G a = Inl (Throw Bad_ELF_Header)"
proof -
  let ?M = "ge_manager G"
  have c: "pe_content (mg_pe ?M) c x"
    using assms by (simp add: binary_source_def)
  have "opens_on ?M ct ps a c"
    using assms by (simp add: binary_source_def)
  then obtain s where R: "rstream_spec (px_stream (mg_pe ?M)) ct ps"
    and s: "mg_open ?M a = Inr s" "ps s = 0" "ct s = c"
    unfolding opens_on_def by blast
  obtain s' where "openELFFile_stream ?M s = spec_open_elf c s'"
    using openELFFile_stream_ok [OF R s(2,3)] by blast
  moreover have "take 4 c \<noteq> ELFMAG"
  proof
    assume "take 4 c = ELFMAG"
    then have "take 4 c ! 0 = 0x7F"
      by (simp add: ELFMAG_def)
    then show False
      using c by (simp add: pe_content_def)
  qed
  moreover have "\<not> length c < EI_NIDENT"
    using c by (simp add: pe_content_def PE_MSDOS_OFFSET_def elf_ident_consts)
  ultimately show ?thesis
    using s(1) by (simp add: manager_openELF_def openELFFile_def spec_open_elf_def)
qed

lemma with_file_fails:
  assumes "\<And>t. tl_file t = f \<Longrightarrow> \<exists>g. m t = (Inl e, t\<lparr>tl_file := g\<rparr>)"
  shows "with_file f m con = (Inl e, con)"
proof -
  obtain g where "m (console.extend con (tool.fields f)) =
      (Inl e, (console.extend con (tool.fields f))\<lparr>tl_file := g\<rparr>)"
    using assms [of "console.extend con (tool.fields f)"] by auto
  then show ?thesis
    by (simp add: with_file_def console.defs tool.defs)
qed

lemma show_pe_fails:
  fixes t :: "'s open_file tool"
  assumes "tl_file t = pe_open a y"
  shows "\<exists>g. im_show T k opts t = (Inl Memory_Fault, t\<lparr>tl_file := g\<rparr>)"
    and "\<exists>g. line_show T code t = (Inl Assert_Failure, t\<lparr>tl_file := g\<rparr>)"
    and "\<exists>g. sym_processGen T only t = (Inl No_Value, t\<lparr>tl_file := g\<rparr>)"
  using assms
  by (simp_all add: im_show_def line_show_def sym_processGen_def file_make_def file_debugLines_def
      file_symbols_def gel_debugLines_def pe_make_def pe_symbols_def in_file_def)
    (auto intro!: exI [of _ "pe_open a y"])

section \<open>The property\<close>

text \<open>C29. On a PE-COFF file that \<open>open\<close> accepts, \<open>gel-im\<close> follows a null pointer, \<open>gel-sym\<close> uses
  the result of a function that returns none and \<open>gel-line\<close> stops on an assertion, before
  anything is written and whatever their options; \<open>gel-dyn\<close> writes nothing and succeeds;
  \<open>gel-prog\<close> and \<open>gel-sect -e\<close>, which open the file as an ELF file, report a bad header, the first
  with the status 0.\<close>

theorem gel_tools_on_pe:
  assumes src: "binary_source (ge_manager (te_gel T)) ct ps a (Inr (PE_binary c x))"
  shows "im_run T k (Parsed iopts [a]) con = (Inl Memory_Fault, con) \<and>
    sym_run T (Parsed only [a]) con = (Inl No_Value, con) \<and>
    line_run T code [a] con = (Inl Assert_Failure, con) \<and>
    dyn_run T k argv (Parsed () [a]) con = (Inr 0, con) \<and>
    prog_run T H k argv (Parsed shown [a]) con =
      (Inr 0, con\<lparr>con_err := con_err con @ opening_message (argv ! 0) Bad_ELF_Header\<rparr>) \<and>
    sect_run T (Parsed \<lparr>op_elf = True, op_find = sought\<rparr> [a]) con = (Inr 1, help_report Bad_ELF_Header con)"
proof -
  obtain y where y: "manager_open (te_gel T) a = Inr (pe_open a y)"
    using manager_open_pe [OF src] by blast
  have elf: "manager_openELF (te_gel T) a = Inl (Throw Bad_ELF_Header)"
    by (rule openELF_pe [OF src])
  note fails = with_file_fails [of "pe_open a y"]
  have "with_file (pe_open a y) (im_show T k iopts) con = (Inl Memory_Fault, con)"
    "with_file (pe_open a y) (sym_processGen T only) con = (Inl No_Value, con)"
    "with_file (pe_open a y) (line_show T code) con = (Inl Assert_Failure, con)"
    by (rule fails, erule show_pe_fails)+
  then show ?thesis
    using y elf
    by (simp add: im_run_def im_file_def sym_run_def sym_file_def line_run_def line_file_def dyn_run_def
        dyn_file_def prog_run_def prog_file_def sect_run_def list_files_def sect_file_def catch_gel_def
        catch_exn.simps gel_toELF_def opening_error_def opening_message_def help_and_error_def
        help_report_def)
qed

theorem gel_tools_on_pe_witness:
  "im_run demo_formats 1 (Parsed \<lparr>no_stack = True, no_content = False\<rparr> [''a.exe'']) empty_console =
     (Inl Memory_Fault, empty_console) \<and>
   dyn_run demo_formats 1 [''gel-dyn''] (Parsed () [''a.exe'']) empty_console = (Inr 0, empty_console)"
proof -
  have "binary_source (ge_manager (te_gel demo_formats)) fst snd ''a.exe''
      (Inr (PE_binary pe_sample pe_sample_headers))"
    using demo_formats_files by simp
  from gel_tools_on_pe [OF this, of 1 "\<lparr>no_stack = True, no_content = False\<rparr>" empty_console _ _ "[''gel-dyn'']"]
  show ?thesis
    by simp
qed

end
