(* ===== verification/Elf_Session.thy ===== *)
theory Elf_Session
  imports Elf_Sample
begin

text \<open>
  Sessions: a client asks an open ELF file its tables, names, contents, strings, symbols and
  segments in any order. The steps of a session are a relation between files; what a step gives
  is a function of the bytes of the file.
\<close>

section \<open>Questions and answers\<close>

datatype elf_question =
  Ask_Sections
| Ask_Section_Name nat
| Ask_Section_Content nat
| Ask_Find_Section "u8 list"
| Ask_String int u64
| Ask_Program_Headers
| Ask_Header_Content nat
| Ask_Count
| Ask_Segment int
| Ask_Symbols

datatype elf_answer =
  Sections_Are "shdr_info list"
| Name_Is "u8 list"
| Content_Is buffer
| Found_At "nat option"
| Headers_Are "phdr_info list"
| Count_Is int
| Segment_Is nat
| Symbols_Are symbol_table

text \<open>
  The calls made for a question; \<open>n\<close> bounds the nested calls for the names. A section or a
  program header is obtained by its index before it is asked something.
\<close>

definition header_at :: "'s elf_env \<Rightarrow> nat \<Rightarrow> ('s elf_file, nat) stm" where
  "header_at E i =
     sbind (programHeaders E) (\<lambda>xs. if i < length xs then sreturn i else sraise Memory_Fault)"

fun elf_ask :: "'s elf_env \<Rightarrow> nat \<Rightarrow> elf_question \<Rightarrow> ('s elf_file, elf_answer) stm" where
  "elf_ask E n Ask_Sections = sbind (sections E) (\<lambda>ss. sreturn (Sections_Are (map sec_info ss)))"
| "elf_ask E n (Ask_Section_Name i) =
     sbind (elf_section E (int i)) (\<lambda>k. sbind (section_name E n k) (\<lambda>x. sreturn (Name_Is x)))"
| "elf_ask E n (Ask_Section_Content i) =
     sbind (elf_section E (int i)) (\<lambda>k. sbind (section_content E n k) (\<lambda>b. sreturn (Content_Is b)))"
| "elf_ask E n (Ask_Find_Section x) = sbind (findSection E n x) (\<lambda>r. sreturn (Found_At r))"
| "elf_ask E n (Ask_String k off) = sbind (stringAt E n k off) (\<lambda>x. sreturn (Name_Is x))"
| "elf_ask E n Ask_Program_Headers =
     sbind (programHeaders E) (\<lambda>xs. sreturn (Headers_Are (map ph_info xs)))"
| "elf_ask E n (Ask_Header_Content i) =
     sbind (header_at E i) (\<lambda>k. sbind (ph_content E k) (\<lambda>b. sreturn (Content_Is b)))"
| "elf_ask E n Ask_Count = sbind (elf_count E) (\<lambda>k. sreturn (Count_Is k))"
| "elf_ask E n (Ask_Segment i) = sbind (elf_segment E i) (\<lambda>k. sreturn (Segment_Is k))"
| "elf_ask E n Ask_Symbols = sbind (symbols E n) (\<lambda>t. sreturn (Symbols_Are t))"

section \<open>The answers from the bytes\<close>

definition section_block :: "mem \<Rightarrow> elf_header \<Rightarrow> nat \<Rightarrow> buffer" where
  "section_block c h i =
     make_buffer (head_decoder h) (Some (sec_data (head_decoder h) c (sec_infos c h ! i)))
       (sh_size (sec_infos c h ! i))"

definition header_block :: "(nat \<Rightarrow> u8) \<Rightarrow> mem \<Rightarrow> elf_header \<Rightarrow> nat \<Rightarrow> buffer" where
  "header_block junk c h i =
     make_buffer (head_decoder h) (Some (ph_data junk c (phdr_infos c h ! i)))
       (ph_memsz (phdr_infos c h ! i))"

definition all_symbols :: "mem \<Rightarrow> elf_header \<Rightarrow> symbol_table" where
  "all_symbols c h =
     spec_table c h empty_symbol_table (symtabs_from c h 0 (length (sec_infos c h)))"

fun spec_answer :: "(nat \<Rightarrow> u8) \<Rightarrow> mem \<Rightarrow> elf_header \<Rightarrow> elf_question \<Rightarrow> elf_answer res" where
  "spec_answer junk c h Ask_Sections = Inr (Sections_Are (sec_infos c h))"
| "spec_answer junk c h (Ask_Section_Name i) =
     (if i < length (sec_infos c h) then rbind (spec_name c h i) (\<lambda>x. Inr (Name_Is x))
      else Inl Memory_Fault)"
| "spec_answer junk c h (Ask_Section_Content i) =
     (if i < length (sec_infos c h) then Inr (Content_Is (section_block c h i))
      else Inl Memory_Fault)"
| "spec_answer junk c h (Ask_Find_Section x) =
     Inr (Found_At (find (\<lambda>i. spec_name c h i = Inr x) [0..<length (sec_infos c h)]))"
| "spec_answer junk c h (Ask_String k off) =
     (if int (length (sec_infos c h)) \<le> k then Inl (Throw Strtab_Out_Of_Bound)
      else if k < 0 then Inl Memory_Fault
      else rbind (cstr_at (sec_data (head_decoder h) c (sec_infos c h ! nat k)) (unat off))
             (\<lambda>x. Inr (Name_Is x)))"
| "spec_answer junk c h Ask_Program_Headers = Inr (Headers_Are (phdr_infos c h))"
| "spec_answer junk c h (Ask_Header_Content i) =
     (if i < length (phdr_infos c h) then Inr (Content_Is (header_block junk c h i))
      else Inl Memory_Fault)"
| "spec_answer junk c h Ask_Count = Inr (Count_Is (int (length (load_indices c h))))"
| "spec_answer junk c h (Ask_Segment i) =
     (if 0 \<le> i \<and> nat i < length (load_indices c h) then Inr (Segment_Is (load_indices c h ! nat i))
      else Inl Memory_Fault)"
| "spec_answer junk c h Ask_Symbols = Inr (Symbols_Are (all_symbols c h))"

text \<open>What a question needs of the bytes; an index out of the tables needs nothing more.\<close>

fun can_ask :: "mem \<Rightarrow> elf_header \<Rightarrow> elf_question \<Rightarrow> bool" where
  "can_ask c h Ask_Sections \<longleftrightarrow> secs_fit c h"
| "can_ask c h (Ask_Section_Name i) \<longleftrightarrow> secs_fit c h \<and>
     (i < length (sec_infos c h) \<longrightarrow>
        strtab_ok c h \<and> sh_name (sec_infos c h ! i) < sh_size (strtab_info c h))"
| "can_ask c h (Ask_Section_Content i) \<longleftrightarrow> secs_fit c h \<and>
     (i < length (sec_infos c h) \<longrightarrow> sec_ok c (sec_infos c h ! i))"
| "can_ask c h (Ask_Find_Section x) \<longleftrightarrow> secs_fit c h \<and> strtab_ok c h \<and>
     (\<forall>i < length (sec_infos c h). name_ok c h i)"
| "can_ask c h (Ask_String k off) \<longleftrightarrow> secs_fit c h \<and>
     (0 \<le> k \<and> nat k < length (sec_infos c h) \<longrightarrow>
        sec_ok c (sec_infos c h ! nat k) \<and> off < sh_size (sec_infos c h ! nat k))"
| "can_ask c h Ask_Program_Headers \<longleftrightarrow> phs_fit c h"
| "can_ask c h (Ask_Header_Content i) \<longleftrightarrow> phs_fit c h \<and>
     (i < length (phdr_infos c h) \<longrightarrow> ph_ok c (phdr_infos c h ! i))"
| "can_ask c h Ask_Count \<longleftrightarrow> phs_fit c h"
| "can_ask c h (Ask_Segment i) \<longleftrightarrow> phs_fit c h"
| "can_ask c h Ask_Symbols \<longleftrightarrow> secs_fit c h \<and> symbols_ok c h"

section \<open>Sessions\<close>

text \<open>A file after some questions, whatever their answers.\<close>

inductive elf_session ::
  "'s elf_env \<Rightarrow> nat \<Rightarrow> (elf_question \<Rightarrow> bool) \<Rightarrow> 's elf_file \<Rightarrow> 's elf_file \<Rightarrow> bool"
  for E n ok f where
  start: "elf_session E n ok f f"
| ask: "elf_session E n ok f g \<Longrightarrow> ok q \<Longrightarrow> elf_ask E n q g = (r, g') \<Longrightarrow> elf_session E n ok f g'"

lemma elf_session_next:
  "elf_session E n ok f g \<Longrightarrow> ok q \<Longrightarrow> elf_session E n ok f (snd (elf_ask E n q g))"
  by (rule elf_session.ask [of E n ok f g q "fst (elf_ask E n q g)"]) simp_all

text \<open>The invariant of a session: the one of the file, and the symbols are all there or not made.\<close>

definition session_inv ::
  "'s elf_env \<Rightarrow> ('s \<Rightarrow> mem) \<Rightarrow> mem \<Rightarrow> elf_header \<Rightarrow> 's elf_file \<Rightarrow> bool" where
  "session_inv E ct c h f \<longleftrightarrow>
     elf_inv E ct c h f \<and> (el_syms f = None \<or> el_syms f = Some (all_symbols c h))"

lemma session_invI:
  "elf_inv E ct c h g \<Longrightarrow> el_syms g = el_syms f \<Longrightarrow> session_inv E ct c h f \<Longrightarrow> session_inv E ct c h g"
  by (simp add: session_inv_def)

context elf_host
begin

lemma elf_section_ok:
  assumes "elf_inv E ct c h f" and "secs_fit c h"
  shows "\<exists>g. elf_section E i f =
      (if 0 \<le> i \<and> nat i < length (sec_infos c h) then Inr (nat i) else Inl Memory_Fault, g) \<and>
    elf_inv E ct c h g \<and> el_sects_loaded g \<and> el_syms g = el_syms f"
proof -
  obtain g where g: "initSections E f = (Inr (), g)" "elf_inv E ct c h g" "el_sects_loaded g"
    "map sec_info (el_sects g) = sec_infos c h" "el_syms g = el_syms f"
    using initSections_ok [OF assms] by (auto simp: elf_inv_def)
  moreover have "length (el_sects g) = length (sec_infos c h)"
    using g(4) by (metis length_map)
  ultimately show ?thesis
    by (intro exI [of _ g]) (simp add: elf_section_def)
qed

lemma header_at_ok:
  assumes "elf_inv E ct c h f" and "phs_fit c h"
  shows "\<exists>g. header_at E i f =
      (if i < length (phdr_infos c h) then Inr i else Inl Memory_Fault, g) \<and>
    elf_inv E ct c h g \<and> el_ph_loaded g \<and> el_syms g = el_syms f"
proof -
  obtain g where g: "programHeaders E f = (Inr (el_phs g), g)" "elf_inv E ct c h g" "el_ph_loaded g"
    "map ph_info (el_phs g) = phdr_infos c h" "el_syms g = el_syms f"
    using programHeaders_ok [OF assms] by blast
  moreover have "length (el_phs g) = length (phdr_infos c h)"
    using g(4) by (metis length_map)
  ultimately show ?thesis
    by (intro exI [of _ g]) (simp add: header_at_def)
qed

lemma ask_section_name:
  assumes "elf_inv E ct c h f" and "can_ask c h (Ask_Section_Name i)"
  shows "\<exists>g. elf_ask E (Suc n) (Ask_Section_Name i) f =
      (spec_answer (env_junk E) c h (Ask_Section_Name i), g) \<and>
    elf_inv E ct c h g \<and> el_syms g = el_syms f"
proof -
  obtain g where g: "elf_section E (int i) f =
      (if i < length (sec_infos c h) then Inr i else Inl Memory_Fault, g)"
    "elf_inv E ct c h g" "el_sects_loaded g" "el_syms g = el_syms f"
    using elf_section_ok [of c h f "int i"] assms by auto
  show ?thesis
  proof (cases "i < length (sec_infos c h)")
    case True
    then obtain g' where "section_name E (Suc n) i g = (spec_name c h i, g')"
      "elf_inv E ct c h g'" "el_syms g' = el_syms g"
      using section_name_ok [of c h g i n] assms(2) g by auto
    then show ?thesis
      using True g by (cases "spec_name c h i") auto
  qed (use g in auto)
qed

lemma ask_section_content:
  assumes "elf_inv E ct c h f" and "can_ask c h (Ask_Section_Content i)"
  shows "\<exists>g. elf_ask E (Suc n) (Ask_Section_Content i) f =
      (spec_answer (env_junk E) c h (Ask_Section_Content i), g) \<and>
    elf_inv E ct c h g \<and> el_syms g = el_syms f"
proof -
  obtain g where g: "elf_section E (int i) f =
      (if i < length (sec_infos c h) then Inr i else Inl Memory_Fault, g)"
    "elf_inv E ct c h g" "el_sects_loaded g" "el_syms g = el_syms f"
    using elf_section_ok [of c h f "int i"] assms by auto
  show ?thesis
  proof (cases "i < length (sec_infos c h)")
    case True
    then obtain g' where "section_content E (Suc n) i g = (Inr (section_block c h i), g')"
      "elf_inv E ct c h g'" "el_syms g' = el_syms g"
      using section_content_ok [of c h g i "Suc n"] assms(2) g by (auto simp: section_block_def)
    then show ?thesis
      using True g by auto
  qed (use g in auto)
qed

lemma ask_header_content:
  assumes "elf_inv E ct c h f" and "can_ask c h (Ask_Header_Content i)"
  shows "\<exists>g. elf_ask E (Suc n) (Ask_Header_Content i) f =
      (spec_answer (env_junk E) c h (Ask_Header_Content i), g) \<and>
    elf_inv E ct c h g \<and> el_syms g = el_syms f"
proof -
  obtain g where g: "header_at E i f =
      (if i < length (phdr_infos c h) then Inr i else Inl Memory_Fault, g)"
    "elf_inv E ct c h g" "el_ph_loaded g" "el_syms g = el_syms f"
    using header_at_ok [of c h f i] assms by auto
  show ?thesis
  proof (cases "i < length (phdr_infos c h)")
    case True
    then obtain g' where "ph_content E i g = (Inr (header_block (env_junk E) c h i), g')"
      "elf_inv E ct c h g'" "el_syms g' = el_syms g"
      using ph_content_ok [of c h g i] assms(2) g by (auto simp: header_block_def)
    then show ?thesis
      using True g by auto
  qed (use g in auto)
qed

lemma ask_string:
  assumes "elf_inv E ct c h f" and "can_ask c h (Ask_String k off)"
  shows "\<exists>g. elf_ask E (Suc n) (Ask_String k off) f =
      (spec_answer (env_junk E) c h (Ask_String k off), g) \<and>
    elf_inv E ct c h g \<and> el_syms g = el_syms f"
proof (cases "0 \<le> k \<and> nat k < length (sec_infos c h)")
  case True
  let ?x = "cstr_at (sec_data (head_decoder h) c (sec_infos c h ! nat k)) (unat off)"
  obtain g where "stringAt E (Suc n) k off f = (?x, g)" "elf_inv E ct c h g" "el_syms g = el_syms f"
    using stringAt_ok [of c h f k off n] assms True by auto
  moreover have "\<not> int (length (sec_infos c h)) \<le> k"
    using True by linarith
  ultimately show ?thesis
    using True by (cases ?x) (auto simp del: stringAt.simps)
next
  case False
  obtain g where g: "sections E f = (Inr (el_sects g), g)" "elf_inv E ct c h g"
    "map sec_info (el_sects g) = sec_infos c h" "el_syms g = el_syms f"
    using sections_ok [of c h f] assms by auto
  then have "length (el_sects g) = length (sec_infos c h)"
    by (metis length_map)
  moreover have "int (length (sec_infos c h)) \<le> k \<or> k < 0"
    using False by linarith
  ultimately show ?thesis
    using g by auto
qed

lemma ask_segment:
  assumes "elf_inv E ct c h f" and "can_ask c h (Ask_Segment i)"
  shows "\<exists>g. elf_ask E (Suc n) (Ask_Segment i) f =
      (spec_answer (env_junk E) c h (Ask_Segment i), g) \<and>
    elf_inv E ct c h g \<and> el_syms g = el_syms f"
  using initSegments_ok [of c h f] assms by (fastforce simp: elf_segment_def)

lemma ask_symbols:
  assumes "session_inv E ct c h f" and "can_ask c h Ask_Symbols"
  shows "\<exists>g. elf_ask E (Suc n) Ask_Symbols f = (spec_answer (env_junk E) c h Ask_Symbols, g) \<and>
    session_inv E ct c h g"
proof (cases "el_syms f")
  case None
  then show ?thesis
    using symbols_refine [of c h f n] assms by (auto simp: session_inv_def all_symbols_def)
next
  case (Some t)
  then show ?thesis
    using assms by (auto simp: session_inv_def symbols_def)
qed

text \<open>A question gives its answer from the bytes and keeps the invariant.\<close>

lemma ask_ok:
  assumes inv: "session_inv E ct c h f" and ok: "can_ask c h q"
  shows "\<exists>g. elf_ask E (Suc n) q f = (spec_answer (env_junk E) c h q, g) \<and> session_inv E ct c h g"
proof -
  have f: "elf_inv E ct c h f"
    using inv by (simp add: session_inv_def)
  note same = session_invI [OF _ _ inv]
  show ?thesis
  proof (cases q)
    case Ask_Sections
    then show ?thesis
      using sections_ok [OF f] ok same by fastforce
  next
    case (Ask_Find_Section x)
    then show ?thesis
      using findSection_ok [OF f, of n x] ok same by fastforce
  next
    case Ask_Program_Headers
    then show ?thesis
      using programHeaders_ok [OF f] ok same by fastforce
  next
    case Ask_Count
    then show ?thesis
      using elf_count_ok [OF f] ok same by fastforce
  next
    case (Ask_Section_Name i)
    then show ?thesis
      using ask_section_name [OF f, of i n] ok same by blast
  next
    case (Ask_Section_Content i)
    then show ?thesis
      using ask_section_content [OF f, of i n] ok same by blast
  next
    case (Ask_Header_Content i)
    then show ?thesis
      using ask_header_content [OF f, of i n] ok same by blast
  next
    case (Ask_String k off)
    then show ?thesis
      using ask_string [OF f, of k off n] ok same by blast
  next
    case (Ask_Segment i)
    then show ?thesis
      using ask_segment [OF f, of i n] ok same by blast
  next
    case Ask_Symbols
    then show ?thesis
      using ask_symbols [OF inv, of n] ok by blast
  qed
qed

lemma session_keeps:
  assumes "elf_session E (Suc n) (can_ask c h) f g" and "session_inv E ct c h f"
  shows "session_inv E ct c h g"
  using assms
proof (induction rule: elf_session.induct)
  case (ask g q r g')
  then obtain g1 where "elf_ask E (Suc n) q g = (spec_answer (env_junk E) c h q, g1)"
    "session_inv E ct c h g1"
    using ask_ok [of c h g q n] by blast
  then show ?case
    using ask by simp
qed

end

text \<open>C2. In a session on an ELF file made of questions that the file can answer (\<open>can_ask\<close>: the
  section table and the program headers fit in the file, and so do the contents, names and
  symbols that are asked for; an index out of the tables is allowed), whatever was asked before
  and in whatever order, the answer to such a question is the function \<open>spec_answer\<close> of the
  bytes of the file and of its header, errors for the indices out of the tables included; the
  tables, contents and symbols that the file keeps for later never show. The restriction to
  these questions, also for those asked before, is needed: on a file whose program headers do
  not fit, a first call of \<open>programHeaders\<close> fails and a second one gives an empty table
  (\<open>programHeaders_after_failure\<close>).\<close>

theorem elf_session_refines:
  assumes "rstream_spec (env_stream E) ct ps" and "elm_array_spec (env_array E)"
    and "elf_session E (Suc n) (can_ask (ct s) h) (new_elf_file s h) f" and "can_ask (ct s) h q"
  shows "fst (elf_ask E (Suc n) q f) = spec_answer (env_junk E) (ct s) h q"
proof -
  note E = elf_host.intro [OF assms(1,2)]
  have "session_inv E ct (ct s) h (new_elf_file s h)"
    using new_elf_file_inv by (simp add: session_inv_def new_elf_file_def)
  then have "session_inv E ct (ct s) h f"
    by (rule elf_host.session_keeps [OF E assms(3)])
  then show ?thesis
    using elf_host.ask_ok [OF E _ assms(4), of f n] by fastforce
qed

text \<open>The symbols of \<open>sample\<close>, a segment that does not exist, then the content of a section.\<close>

theorem elf_session_refines_witness:
  "\<exists>f. elf_session sample_env 1 (can_ask sample sample_head) sample_file f \<and>
    fst (elf_ask sample_env 1 (Ask_Section_Content 3) f) =
      Inr (Content_Is (make_buffer (head_decoder sample_head) (Some [0, 102, 0]) 3)) \<and>
    fst (elf_ask sample_env 1 (Ask_Segment 1) f) = Inl Memory_Fault"
proof -
  let ?c = sample and ?h = sample_head
  have s: "sample_file = new_elf_file (sample, 0) sample_head"
    by (simp add: sample_file_def)
  have ok: "can_ask ?c ?h Ask_Symbols" "can_ask ?c ?h (Ask_Segment 1)"
    "can_ask ?c ?h (Ask_Section_Content 3)"
    using fit_sample symbols_ok_sample by (simp_all add: sec_infos_sample sec_ok_sample)
  obtain f where "elf_session sample_env (Suc 0) (can_ask ?c ?h) sample_file f"
    using elf_session_next [OF elf_session_next [OF elf_session.start]] ok(1,2) by blast
  then have f: "elf_session sample_env (Suc 0) (can_ask ?c ?h) sample_file f"
    "\<And>q. can_ask ?c ?h q \<Longrightarrow> fst (elf_ask sample_env (Suc 0) q f) = spec_answer (env_junk sample_env) ?c ?h q"
    using elf_session_refines [OF sample_host.stream sample_host.array, of 0 "(sample, 0)" ?h f] s
    by simp_all
  have "spec_answer junk ?c ?h (Ask_Section_Content 3) =
      Inr (Content_Is (make_buffer (head_decoder ?h) (Some [0, 102, 0]) 3))"
    "spec_answer junk ?c ?h (Ask_Segment 1) = Inl Memory_Fault" for junk
    by (simp_all add: section_block_def sec_infos_sample sec_data_sample load_indices_sample)
  then show ?thesis
    using f ok(2,3) by (metis One_nat_def)
qed

end
