(* ===== verification/Elf_Encode.thy ===== *)
theory Elf_Encode
  imports Tool_Open
begin

text \<open>
  ELF files made from their header and tables, in both classes and both byte orders, and what
  the library reads of them. The encoding is the layout of the ELF format: it does not refer to
  the operations of the code.
\<close>

section \<open>Words\<close>

text \<open>An integer of \<open>n\<close> bytes in the byte order \<open>e\<close>.\<close>

definition enc_word :: "u8 \<Rightarrow> nat \<Rightarrow> 'a::len word \<Rightarrow> mem" where
  "enc_word e n x = (if e = ELFDATA2LSB then to_le n x else rev (to_le n x))"

definition holds :: "mem \<Rightarrow> nat \<Rightarrow> mem \<Rightarrow> bool" where
  "holds m a bs \<longleftrightarrow> a + length bs \<le> length m \<and> bytes_at m a (length bs) = bs"

lemma length_enc_word [simp]: "length (enc_word e n x) = n"
  by (simp add: enc_word_def)

lemma holds_append: "holds m a (xs @ ys) \<longleftrightarrow> holds m a xs \<and> holds m (a + length xs) ys"
  by (auto simp: holds_def bytes_at_append)

lemma holds_bytes: "holds m a bs \<Longrightarrow> length bs = n \<Longrightarrow> bytes_at m a n = bs"
  by (simp add: holds_def)

lemma holds_prefix: "holds (xs @ bs @ ys) (length xs) bs"
  by (simp add: holds_def bytes_at_def)

lemma word_of_enc: "LENGTH('a) = 8 * n \<Longrightarrow> word_of_bytes e (enc_word e n x) = (x :: 'a::len word)"
  by (simp add: word_of_bytes_def enc_word_def)

lemma holds_fix:
  "holds m a (enc_word e 2 h) \<Longrightarrow> elf_fix16 e (load16 m a) = h"
  "holds m a (enc_word e 4 w) \<Longrightarrow> elf_fix32 e (load32 m a) = w"
  "holds m a (enc_word e 8 x) \<Longrightarrow> elf_fix64 e (load64 m a) = x"
  by (simp_all add: load_defs holds_def elf_fix_le_word word_of_enc)

text \<open>The integers that the code does not convert.\<close>

lemma holds_native:
  "holds m a (enc_word e 2 h) \<Longrightarrow> load16 m a = ENDIAN2 e h"
  "holds m a (enc_word e 4 w) \<Longrightarrow> load32 m a = ENDIAN4 e w"
  by (simp_all add: load_defs holds_def enc_word_def ENDIAN2_def ENDIAN4_def
      flip: to_le_SWAP2 to_le_SWAP4 split: if_splits)

section \<open>Structures\<close>

definition enc_Elf32_Ehdr :: "u8 \<Rightarrow> Elf32_Ehdr \<Rightarrow> mem" where
  "enc_Elf32_Ehdr e p =
     e_ident32 p @ enc_word e 2 (e_type32 p) @ enc_word e 2 (e_machine32 p) @ enc_word e 4 (e_version32 p) @
     enc_word e 4 (e_entry32 p) @ enc_word e 4 (e_phoff32 p) @ enc_word e 4 (e_shoff32 p) @
     enc_word e 4 (e_flags32 p) @ enc_word e 2 (e_ehsize32 p) @ enc_word e 2 (e_phentsize32 p) @
     enc_word e 2 (e_phnum32 p) @ enc_word e 2 (e_shentsize32 p) @ enc_word e 2 (e_shnum32 p) @
     enc_word e 2 (e_shstrndx32 p)"

definition enc_Elf32_Phdr :: "u8 \<Rightarrow> Elf32_Phdr \<Rightarrow> mem" where
  "enc_Elf32_Phdr e p =
     enc_word e 4 (p_type32 p) @ enc_word e 4 (p_offset32 p) @ enc_word e 4 (p_vaddr32 p) @
     enc_word e 4 (p_paddr32 p) @ enc_word e 4 (p_filesz32 p) @ enc_word e 4 (p_memsz32 p) @
     enc_word e 4 (p_flags32 p) @ enc_word e 4 (p_align32 p)"

definition enc_Elf32_Shdr :: "u8 \<Rightarrow> Elf32_Shdr \<Rightarrow> mem" where
  "enc_Elf32_Shdr e p =
     enc_word e 4 (sh_name32 p) @ enc_word e 4 (sh_type32 p) @ enc_word e 4 (sh_flags32 p) @
     enc_word e 4 (sh_addr32 p) @ enc_word e 4 (sh_offset32 p) @ enc_word e 4 (sh_size32 p) @
     enc_word e 4 (sh_link32 p) @ enc_word e 4 (sh_info32 p) @ enc_word e 4 (sh_addralign32 p) @
     enc_word e 4 (sh_entsize32 p)"

definition enc_Elf64_Ehdr :: "u8 \<Rightarrow> Elf64_Ehdr \<Rightarrow> mem" where
  "enc_Elf64_Ehdr e p =
     e_ident64 p @ enc_word e 2 (e_type64 p) @ enc_word e 2 (e_machine64 p) @ enc_word e 4 (e_version64 p) @
     enc_word e 8 (e_entry64 p) @ enc_word e 8 (e_phoff64 p) @ enc_word e 8 (e_shoff64 p) @
     enc_word e 4 (e_flags64 p) @ enc_word e 2 (e_ehsize64 p) @ enc_word e 2 (e_phentsize64 p) @
     enc_word e 2 (e_phnum64 p) @ enc_word e 2 (e_shentsize64 p) @ enc_word e 2 (e_shnum64 p) @
     enc_word e 2 (e_shstrndx64 p)"

definition enc_Elf64_Phdr :: "u8 \<Rightarrow> Elf64_Phdr \<Rightarrow> mem" where
  "enc_Elf64_Phdr e p =
     enc_word e 4 (p_type64 p) @ enc_word e 4 (p_flags64 p) @ enc_word e 8 (p_offset64 p) @
     enc_word e 8 (p_vaddr64 p) @ enc_word e 8 (p_paddr64 p) @ enc_word e 8 (p_filesz64 p) @
     enc_word e 8 (p_memsz64 p) @ enc_word e 8 (p_align64 p)"

definition enc_Elf64_Shdr :: "u8 \<Rightarrow> Elf64_Shdr \<Rightarrow> mem" where
  "enc_Elf64_Shdr e p =
     enc_word e 4 (sh_name64 p) @ enc_word e 4 (sh_type64 p) @ enc_word e 8 (sh_flags64 p) @
     enc_word e 8 (sh_addr64 p) @ enc_word e 8 (sh_offset64 p) @ enc_word e 8 (sh_size64 p) @
     enc_word e 4 (sh_link64 p) @ enc_word e 4 (sh_info64 p) @ enc_word e 8 (sh_addralign64 p) @
     enc_word e 8 (sh_entsize64 p)"

lemmas enc_defs =
  enc_Elf32_Ehdr_def enc_Elf32_Phdr_def enc_Elf32_Shdr_def
  enc_Elf64_Ehdr_def enc_Elf64_Phdr_def enc_Elf64_Shdr_def

lemma length_enc:
  "length (enc_Elf32_Phdr e p32) = 32" "length (enc_Elf32_Shdr e s32) = 40"
  "length (enc_Elf64_Phdr e p64) = 56" "length (enc_Elf64_Shdr e s64) = 64"
  by (simp_all add: enc_defs)

lemma read_enc_tables:
  "holds m a (enc_Elf32_Phdr e p32) \<Longrightarrow> conv_Elf32_Phdr (elf_decoder e) (load_Elf32_Phdr m a) = p32"
  "holds m a (enc_Elf32_Shdr e s32) \<Longrightarrow> conv_Elf32_Shdr (elf_decoder e) (load_Elf32_Shdr m a) = s32"
  "holds m a (enc_Elf64_Phdr e p64) \<Longrightarrow> conv_Elf64_Phdr (elf_decoder e) (load_Elf64_Phdr m a) = p64"
  "holds m a (enc_Elf64_Shdr e s64) \<Longrightarrow> conv_Elf64_Shdr (elf_decoder e) (load_Elf64_Shdr m a) = s64"
  by (simp_all add: enc_defs holds_append holds_fix add.assoc
      conv_Elf32_Phdr_def load_Elf32_Phdr_def conv_Elf32_Shdr_def load_Elf32_Shdr_def
      conv_Elf64_Phdr_def load_Elf64_Phdr_def conv_Elf64_Shdr_def load_Elf64_Shdr_def)

text \<open>The header, but the two fields that are not converted.\<close>

lemma read_enc_headers:
  "holds m 0 (enc_Elf32_Ehdr e h32) \<Longrightarrow> length (e_ident32 h32) = 16 \<Longrightarrow>
   conv_Elf32_Ehdr (elf_decoder e) (load_Elf32_Ehdr m 0) =
     h32\<lparr>e_flags32 := ENDIAN4 e (e_flags32 h32), e_ehsize32 := ENDIAN2 e (e_ehsize32 h32)\<rparr>"
  "holds m 0 (enc_Elf64_Ehdr e h64) \<Longrightarrow> length (e_ident64 h64) = 16 \<Longrightarrow>
   conv_Elf64_Ehdr (elf_decoder e) (load_Elf64_Ehdr m 0) =
     h64\<lparr>e_flags64 := ENDIAN4 e (e_flags64 h64), e_ehsize64 := ENDIAN2 e (e_ehsize64 h64)\<rparr>"
  unfolding enc_defs holds_append
  by (simp_all add: holds_fix add.assoc holds_bytes holds_native
      conv_Elf32_Ehdr_def load_Elf32_Ehdr_def conv_Elf64_Ehdr_def load_Elf64_Ehdr_def)

lemma holds_table:
  assumes "holds m a (concat (map f xs))" and "\<And>x. length (f x) = n" and "i < length xs"
  shows "holds m (a + i * n) (f (xs ! i))"
  using assms(1,3)
proof (induction xs arbitrary: a i)
  case (Cons x xs)
  then show ?case
    using Cons.IH [of "a + n" "i - 1"] assms(2)
    by (cases i) (auto simp: holds_append add.assoc)
qed simp

lemma length_table: "(\<And>x. length (f x) = n) \<Longrightarrow> length (concat (map f xs)) = length xs * n"
  by (induction xs) simp_all

section \<open>Files\<close>

fun enc_header :: "elf_header \<Rightarrow> mem" where
  "enc_header (H32 h) = enc_Elf32_Ehdr (e_ident32 h ! EI_DATA) h"
| "enc_header (H64 h) = enc_Elf64_Ehdr (e_ident64 h ! EI_DATA) h"

fun enc_phdr :: "u8 \<Rightarrow> phdr_info \<Rightarrow> mem" where
  "enc_phdr e (PH32 p) = enc_Elf32_Phdr e p"
| "enc_phdr e (PH64 p) = enc_Elf64_Phdr e p"

fun enc_shdr :: "u8 \<Rightarrow> shdr_info \<Rightarrow> mem" where
  "enc_shdr e (SH32 p) = enc_Elf32_Shdr e p"
| "enc_shdr e (SH64 p) = enc_Elf64_Shdr e p"

text \<open>The header, the program headers, the sections and the rest of the file.\<close>

definition enc_elf :: "elf_header \<Rightarrow> phdr_info list \<Rightarrow> shdr_info list \<Rightarrow> mem \<Rightarrow> mem" where
  "enc_elf h phs shs body =
     enc_header h @ concat (map (enc_phdr (elf_ident h ! EI_DATA)) phs) @
     concat (map (enc_shdr (elf_ident h ! EI_DATA)) shs) @ body"

text \<open>The header describes this layout.\<close>

fun describes :: "elf_header \<Rightarrow> phdr_info list \<Rightarrow> shdr_info list \<Rightarrow> bool" where
  "describes (H32 h) phs shs \<longleftrightarrow>
     length (e_ident32 h) = 16 \<and> take 4 (e_ident32 h) = ELFMAG \<and> e_ident32 h ! EI_CLASS = ELFCLASS32 \<and>
     phs \<in> lists (range PH32) \<and> shs \<in> lists (range SH32) \<and>
     unat (e_phnum32 h) = length phs \<and> unat (e_phentsize32 h) = 32 \<and> unat (e_phoff32 h) = 52 \<and>
     unat (e_shnum32 h) = length shs \<and> unat (e_shentsize32 h) = 40 \<and>
     unat (e_shoff32 h) = 52 + length phs * 32 \<and> e_shstrndx32 h < e_shnum32 h"
| "describes (H64 h) phs shs \<longleftrightarrow>
     length (e_ident64 h) = 16 \<and> take 4 (e_ident64 h) = ELFMAG \<and> e_ident64 h ! EI_CLASS = ELFCLASS64 \<and>
     phs \<in> lists (range PH64) \<and> shs \<in> lists (range SH64) \<and>
     unat (e_phnum64 h) = length phs \<and> unat (e_phentsize64 h) = 56 \<and> unat (e_phoff64 h) = 64 \<and>
     unat (e_shnum64 h) = length shs \<and> unat (e_shentsize64 h) = 64 \<and>
     unat (e_shoff64 h) = 64 + length phs * 56 \<and> e_shstrndx64 h < e_shnum64 h"

text \<open>The header as it is read.\<close>

fun header_read :: "elf_header \<Rightarrow> elf_header" where
  "header_read (H32 h) = (let e = e_ident32 h ! EI_DATA in
     H32 (h\<lparr>e_flags32 := ENDIAN4 e (e_flags32 h), e_ehsize32 := ENDIAN2 e (e_ehsize32 h)\<rparr>))"
| "header_read (H64 h) = (let e = e_ident64 h ! EI_DATA in
     H64 (h\<lparr>e_flags64 := ENDIAN4 e (e_flags64 h), e_ehsize64 := ENDIAN2 e (e_ehsize64 h)\<rparr>))"

lemma enc_elf_parts:
  fixes h phs shs body
  defines "e \<equiv> elf_ident h ! EI_DATA"
  shows "holds (enc_elf h phs shs body) 0 (enc_header h)"
    and "holds (enc_elf h phs shs body) (length (enc_header h)) (concat (map (enc_phdr e) phs))"
    and "holds (enc_elf h phs shs body) (length (enc_header h) + length (concat (map (enc_phdr e) phs)))
      (concat (map (enc_shdr e) shs))"
  using holds_prefix [of "[]" "enc_header h"]
    holds_prefix [of "enc_header h" "concat (map (enc_phdr e) phs)"]
    holds_prefix [of "enc_header h @ concat (map (enc_phdr e) phs)" "concat (map (enc_shdr e) shs)" body]
  by (simp_all add: enc_elf_def e_def)

lemma table_read:
  assumes "holds c a (concat (map f ps))" and "\<And>x. length (f x) = n"
    and "\<And>i. i < length ps \<Longrightarrow> holds c (a + i * n) (f (ps ! i)) \<Longrightarrow> g i = ps ! i" and "k = length ps"
  shows "map g [0..<k] = ps"
  using holds_table [OF assms(1,2)] assms(3,4) by (intro nth_equalityI) simp_all

lemma in_range_map: "xs \<in> lists (range C) \<Longrightarrow> \<exists>ys. xs = map C ys"
  by (auto simp: lists_image)

lemma content_enc_elf32:
  fixes body
  assumes d: "describes (H32 h) (map PH32 phs) (map SH32 shs)"
  defines "c \<equiv> enc_elf (H32 h) (map PH32 phs) (map SH32 shs) body" and "r \<equiv> header_read (H32 h)"
  shows "elf_content c r \<and> secs_fit c r \<and> phs_fit c r \<and> sec_infos c r = map SH32 shs \<and>
    phdr_infos c r = map PH32 phs"
proof -
  let ?e = "e_ident32 h ! EI_DATA"
  let ?h = "h\<lparr>e_flags32 := ENDIAN4 ?e (e_flags32 h), e_ehsize32 := ENDIAN2 ?e (e_ehsize32 h)\<rparr>"
  have r: "r = H32 ?h"
    by (simp add: r_def Let_def)
  have len: "length (enc_Elf32_Ehdr ?e h) = 52"
    using d by (simp add: enc_defs)
  have enc: "map (enc_phdr ?e) (map PH32 phs) = map (enc_Elf32_Phdr ?e) phs"
    "map (enc_shdr ?e) (map SH32 shs) = map (enc_Elf32_Shdr ?e) shs"
    by simp_all
  have parts: "holds c 0 (enc_Elf32_Ehdr ?e h)" "holds c 52 (concat (map (enc_Elf32_Phdr ?e) phs))"
    "holds c (52 + length phs * 32) (concat (map (enc_Elf32_Shdr ?e) shs))"
    using enc_elf_parts [of "H32 h" "map PH32 phs" "map SH32 shs" body] len
      length_table [of "enc_Elf32_Phdr ?e" 32 phs]
    by (simp_all add: c_def length_enc enc del: map_map)
  have ident: "holds c 0 (e_ident32 h)"
    using parts(1) by (simp add: enc_defs holds_append)
  then have nth: "c ! k = e_ident32 h ! k" if "k < 16" for k
    using that d by (auto simp: holds_def dest: arg_cong [of _ _ "\<lambda>xs. xs ! k"])
  have "take 4 c = take 4 (bytes_at c 0 16)"
    by (simp add: bytes_at_def)
  also have "\<dots> = ELFMAG"
    using ident d by (simp add: holds_bytes)
  finally have mag: "take 4 c = ELFMAG" .
  have "elf32_header c = ?h"
    using read_enc_headers(1) [OF parts(1)] d nth [of EI_DATA] by (simp add: elf32_header_def EI_DATA_def)
  then have "elf_content c r"
    using d mag nth [of EI_CLASS] parts(1) len
    by (simp add: r elf_content_def EI_CLASS_def sizeof_Elf32_Ehdr_def holds_def)
  moreover have bound: "length phs < 2 ^ 16" "length shs < 2 ^ 16"
    using d unsigned_less [of "e_phnum32 h", where ?'a = nat] unsigned_less [of "e_shnum32 h", where ?'a = nat]
    by simp_all
  then have "secs_fit c r" "phs_fit c r"
    using d parts(2,3) length_table [of "enc_Elf32_Phdr ?e" 32 phs] length_table [of "enc_Elf32_Shdr ?e" 40 shs]
    by (simp_all add: r shdrs_fit32_def phdrs_fit32_def sizeof_Elf32_Phdr_def sizeof_Elf32_Shdr_def
        holds_def length_enc mult.commute)
  moreover have "map (elf32_shdr c ?h) [0..<length shs] = shs"
    by (rule table_read [OF parts(3)])
      (use d in \<open>simp_all add: length_enc elf32_shdr_def, use read_enc_tables(2) in blast\<close>)
  moreover have "map (elf32_phdr c ?h) [0..<length phs] = phs"
    by (rule table_read [OF parts(2)])
      (use d in \<open>simp_all add: length_enc elf32_phdr_def, use read_enc_tables(1) in blast\<close>)
  ultimately show ?thesis
    using d by (auto simp: r simp flip: map_map [of _ "elf32_shdr c ?h", unfolded comp_def] map_map [of _ "elf32_phdr c ?h", unfolded comp_def])
qed

lemma content_enc_elf64:
  fixes body
  assumes d: "describes (H64 h) (map PH64 phs) (map SH64 shs)"
  defines "c \<equiv> enc_elf (H64 h) (map PH64 phs) (map SH64 shs) body" and "r \<equiv> header_read (H64 h)"
  shows "elf_content c r \<and> secs_fit c r \<and> phs_fit c r \<and> sec_infos c r = map SH64 shs \<and>
    phdr_infos c r = map PH64 phs"
proof -
  let ?e = "e_ident64 h ! EI_DATA"
  let ?h = "h\<lparr>e_flags64 := ENDIAN4 ?e (e_flags64 h), e_ehsize64 := ENDIAN2 ?e (e_ehsize64 h)\<rparr>"
  have r: "r = H64 ?h"
    by (simp add: r_def Let_def)
  have len: "length (enc_Elf64_Ehdr ?e h) = 64"
    using d by (simp add: enc_defs)
  have enc: "map (enc_phdr ?e) (map PH64 phs) = map (enc_Elf64_Phdr ?e) phs"
    "map (enc_shdr ?e) (map SH64 shs) = map (enc_Elf64_Shdr ?e) shs"
    by simp_all
  have parts: "holds c 0 (enc_Elf64_Ehdr ?e h)" "holds c 64 (concat (map (enc_Elf64_Phdr ?e) phs))"
    "holds c (64 + length phs * 56) (concat (map (enc_Elf64_Shdr ?e) shs))"
    using enc_elf_parts [of "H64 h" "map PH64 phs" "map SH64 shs" body] len
      length_table [of "enc_Elf64_Phdr ?e" 56 phs]
    by (simp_all add: c_def length_enc enc del: map_map)
  have ident: "holds c 0 (e_ident64 h)"
    using parts(1) by (simp add: enc_defs holds_append)
  then have nth: "c ! k = e_ident64 h ! k" if "k < 16" for k
    using that d by (auto simp: holds_def dest: arg_cong [of _ _ "\<lambda>xs. xs ! k"])
  have "take 4 c = take 4 (bytes_at c 0 16)"
    by (simp add: bytes_at_def)
  also have "\<dots> = ELFMAG"
    using ident d by (simp add: holds_bytes)
  finally have mag: "take 4 c = ELFMAG" .
  have "elf64_header c = ?h"
    using read_enc_headers(2) [OF parts(1)] d nth [of EI_DATA] by (simp add: elf64_header_def EI_DATA_def)
  then have "elf_content c r"
    using d mag nth [of EI_CLASS] parts(1) len
    by (simp add: r elf_content_def EI_CLASS_def sizeof_Elf64_Ehdr_def holds_def)
  moreover have bound: "length phs < 2 ^ 16" "length shs < 2 ^ 16"
    using d unsigned_less [of "e_phnum64 h", where ?'a = nat] unsigned_less [of "e_shnum64 h", where ?'a = nat]
    by simp_all
  then have "secs_fit c r" "phs_fit c r"
    using d parts(2,3) length_table [of "enc_Elf64_Phdr ?e" 56 phs] length_table [of "enc_Elf64_Shdr ?e" 64 shs]
    by (simp_all add: r shdrs_fit64_def phdrs_fit64_def sizeof_Elf64_Phdr_def sizeof_Elf64_Shdr_def
        holds_def length_enc mult.commute)
  moreover have "map (elf64_shdr c ?h) [0..<length shs] = shs"
    by (rule table_read [OF parts(3)])
      (use d in \<open>simp_all add: length_enc elf64_shdr_def, use read_enc_tables(4) in blast\<close>)
  moreover have "map (elf64_phdr c ?h) [0..<length phs] = phs"
    by (rule table_read [OF parts(2)])
      (use d in \<open>simp_all add: length_enc elf64_phdr_def, use read_enc_tables(3) in blast\<close>)
  ultimately show ?thesis
    using d by (auto simp: r simp flip: map_map [of _ "elf64_shdr c ?h", unfolded comp_def] map_map [of _ "elf64_phdr c ?h", unfolded comp_def])
qed

text \<open>
  Both classes together: the tables of an encoded file are the ones it is made from.
\<close>

lemma content_enc_elf:
  fixes body
  assumes d: "describes h phs shs"
  defines "c \<equiv> enc_elf h phs shs body" and "r \<equiv> header_read h"
  shows "elf_content c r \<and> secs_fit c r \<and> phs_fit c r \<and> sec_infos c r = shs \<and> phdr_infos c r = phs"
proof (cases h)
  case (H32 g)
  then obtain ps ss where "phs = map PH32 ps" "shs = map SH32 ss"
    using d in_range_map [of phs PH32] in_range_map [of shs SH32] by auto
  then show ?thesis
    using content_enc_elf32 [of g ps ss body] d H32 by (simp add: c_def r_def)
next
  case (H64 g)
  then obtain ps ss where "phs = map PH64 ps" "shs = map SH64 ss"
    using d in_range_map [of phs PH64] in_range_map [of shs SH64] by auto
  then show ?thesis
    using content_enc_elf64 [of g ps ss body] d H64 by (simp add: c_def r_def)
qed

section \<open>Round trip\<close>

lemma opens_on_manager:
  assumes "opens_on M ct ps path c" and "elm_array_spec (env_array (mg_elf M))"
  shows "elf_host (mg_elf M) ct ps"
  using assms by (simp add: elf_host_def opens_on_def mg_elf_def)

text \<open>
  C3. A file made from a header, program headers and sections, in either class and either byte
  order, is opened by the manager as an ELF file. Its header is the one it is made from but for
  the two fields that the code does not convert, and its sections and program headers are the
  ones it is made from, whichever table is asked for first. The content of a section that is not
  a symbol table is the bytes placed at its offset.
\<close>

theorem elf_file_roundtrip:
  assumes "describes h phs shs" and "opens_on M ct ps path (enc_elf h phs shs body)"
    and "elm_array_spec (env_array (mg_elf M))"
  shows "\<exists>f ss f1 xs f2 ys g1 ts g2. openFile M path = Inr (ELF_file f) \<and> el_head f = header_read h \<and>
    sections (mg_elf M) f = (Inr ss, f1) \<and> map sec_info ss = shs \<and>
    programHeaders (mg_elf M) f1 = (Inr xs, f2) \<and> map ph_info xs = phs \<and>
    programHeaders (mg_elf M) f = (Inr ys, g1) \<and> map ph_info ys = phs \<and>
    sections (mg_elf M) g1 = (Inr ts, g2) \<and> map sec_info ts = shs \<and>
    (\<forall>i < length shs. \<not> is_symtab (shs ! i) \<and> sec_ok (enc_elf h phs shs body) (shs ! i) \<longrightarrow>
      (\<exists>g. section_content (mg_elf M) n i f1 =
        (Inr (make_buffer (head_decoder h) (Some (sec_raw (enc_elf h phs shs body) (shs ! i)))
          (sh_size (shs ! i))), g)))"
proof -
  let ?c = "enc_elf h phs shs body" and ?r = "header_read h" and ?E = "mg_elf M"
  have c: "elf_content ?c ?r" "secs_fit ?c ?r" "phs_fit ?c ?r" "sec_infos ?c ?r = shs"
    "phdr_infos ?c ?r = phs"
    using content_enc_elf [OF assms(1), of body] by simp_all
  have r: "head_decoder ?r = head_decoder h"
    by (cases h) (simp_all add: head_decoder_def Let_def)
  have E: "elf_host ?E ct ps"
    by (rule opens_on_manager [OF assms(2,3)])
  obtain f where f: "openFile M path = Inr (ELF_file f)" "elf_inv ?E ct ?c ?r f"
    using openFile_elf [OF assms(2) c(1)] new_elf_file_inv by metis
  note secs = elf_host.sections_ok [OF E _ c(2)] and phs = elf_host.programHeaders_ok [OF E _ c(3)]
  obtain f1 where f1: "sections ?E f = (Inr (el_sects f1), f1)" "elf_inv ?E ct ?c ?r f1"
    "el_sects_loaded f1" "map sec_info (el_sects f1) = shs"
    using secs [OF f(2)] c(4) by auto
  obtain f2 where "programHeaders ?E f1 = (Inr (el_phs f2), f2)" "map ph_info (el_phs f2) = phs"
    using phs [OF f1(2)] c(5) by auto
  moreover obtain g1 where g1: "programHeaders ?E f = (Inr (el_phs g1), g1)" "elf_inv ?E ct ?c ?r g1"
    "map ph_info (el_phs g1) = phs"
    using phs [OF f(2)] c(5) by auto
  moreover obtain g2 where "sections ?E g1 = (Inr (el_sects g2), g2)" "map sec_info (el_sects g2) = shs"
    using secs [OF g1(2)] c(4) by auto
  moreover have "\<exists>g. section_content ?E n i f1 =
      (Inr (make_buffer (head_decoder h) (Some (sec_raw ?c (shs ! i))) (sh_size (shs ! i))), g)"
    if "i < length shs" "\<not> is_symtab (shs ! i)" "sec_ok ?c (shs ! i)" for i
    using elf_host.section_content_ok [OF E f1(2,3), of i n] that c(4) r by (auto simp: sec_data_def)
  ultimately show ?thesis
    using f(1,2) f1(1,4) by (auto simp: elf_inv_def)
qed

text \<open>A big-endian file of 64 bits, with one program header and one section of three bytes.\<close>

definition demo_head :: elf_header where
  "demo_head = H64
     \<lparr>e_ident64 = [127, 69, 76, 70, 2, 2, 1, 0, 0, 0, 0, 0, 0, 0, 0, 0], e_type64 = 2,
      e_machine64 = 62, e_version64 = 1, e_entry64 = 0x400000, e_phoff64 = 64, e_shoff64 = 120,
      e_flags64 = 0, e_ehsize64 = 64, e_phentsize64 = 56, e_phnum64 = 1,
      e_shentsize64 = 64, e_shnum64 = 1, e_shstrndx64 = 0\<rparr>"

definition demo_phs :: "phdr_info list" where
  "demo_phs = [PH64
     \<lparr>p_type64 = 1, p_flags64 = 5, p_offset64 = 184, p_vaddr64 = 0x400000, p_paddr64 = 0x400000,
      p_filesz64 = 3, p_memsz64 = 3, p_align64 = 4\<rparr>]"

definition demo_shs :: "shdr_info list" where
  "demo_shs = [SH64
     \<lparr>sh_name64 = 0, sh_type64 = 1, sh_flags64 = 6, sh_addr64 = 0x400000, sh_offset64 = 184,
      sh_size64 = 3, sh_link64 = 0, sh_info64 = 0, sh_addralign64 = 4, sh_entsize64 = 0\<rparr>]"

lemma describes_demo: "describes demo_head demo_phs demo_shs"
  by (simp add: demo_head_def demo_phs_def demo_shs_def elf_ident_consts)

theorem elf_file_roundtrip_witness:
  "\<exists>f ss f1. openFile (demo_manager (enc_elf demo_head demo_phs demo_shs [7, 8, 9])) ''demo'' =
      Inr (ELF_file f) \<and>
    sections sample_env f = (Inr ss, f1) \<and> map sec_info ss = demo_shs"
proof -
  have m: "mg_elf (demo_manager c) = sample_env" for c
    using demo_tools_env(1) [of c] by (simp add: demo_tools_def te_elf_def ge_elf_def)
  have "opens_on (demo_manager c) fst snd path c" for path c
    using demo_opens_on [of c "[]" path] by (simp add: demo_tools_def)
  then show ?thesis
    using elf_file_roundtrip [OF describes_demo, of _ fst snd "''demo''" "[7, 8, 9]" 0]
      sample_host.array m by metis
qed

end
