(* ===== verification/Spec2Isabelle.thy ===== *)
theory Spec2Isabelle
  imports Manager_Props Dwarf_Elf Elf_Props Elf_Image Unix_Props Pecoff_Props Coffi_Props Tool_Dyn_Props
    Tool_Line_Props Tool_Sym_Props Tool_Im_Props Tool_Prog_Props Tool_List_Props Tool_File_Props
    Tool_Pe_Props Elf_Session Elf_Encode
begin

text \<open>
  GEL++ is a C++ library that reads executable files: it opens an ELF, PE-COFF or COFF
  file, gives its sections, segments, symbols and debug lines, and builds from it the image
  of the memory of the program. This development models the library over the memory and the
  streams it uses, operation by operation, and proves what the operations give, for the
  files they accept and for the others.

  The parts and their theories (paths are under \<open>src/\<close> and \<open>include/gel++/\<close>):

  \<^item> \<open>Gel_Prelude\<close>: the machine types as words, memory blocks as lists of bytes, the failures
    of C++ as values (\<open>gel_error\<close>: the exceptions thrown, failed assertions, accesses outside
    of a block, and so on), the results \<open>'a res\<close> and the operations \<open>('s, 'a) stm\<close> with a state
    that survives an exception.
  \<^item> \<open>Gel_Base\<close>, \<open>Gel_Cursor\<close>: \<open>base.h\<close> (ranges, \<open>Buffer\<close>, \<open>Cursor\<close>, \<open>Decoder\<close>) and
    \<open>LittleDecoder\<close>. The contract of a decoder is the locale \<open>decoder_laws\<close>, interpreted on the
    three decoders of the program. \<open>Gel_File\<close>: \<open>gel_File.cpp\<close>, the types and defaults of all formats.
  \<^item> \<open>Elf_Common\<close>, \<open>Elf_Defs32\<close>, \<open>Elf_Defs64\<close>: \<open>elf/common.h\<close>, \<open>elf/defs.h\<close>, \<open>elf/defs64.h\<close>. The
    conversion in place of a structure is the locale \<open>fixable_struct\<close> of \<open>Elf_Struct\<close>, interpreted
    on the ten structures.
  \<^item> \<open>Elf_Core\<close>, \<open>Elf_File32\<close>, \<open>Elf_File64\<close>, \<open>Elf_File\<close>: \<open>elf_File.cpp\<close>, \<open>elf_File32.cpp\<close> and
    \<open>elf_File64.cpp\<close>. The record \<open>elf_file\<close> has the members of \<open>elf::File\<close>: the stream, the header,
    and the tables, contents, symbols and segments that are made on first use.
  \<^item> \<open>Gel_Image\<close>, \<open>Elf_Image\<close>: \<open>gel_Image.cpp\<close> and \<open>elf::File::make\<close>. What \<open>SimpleBuilder\<close> asks of a
    file is the locale \<open>segment_provider\<close>, interpreted on the ELF file and on the COFF file.
  \<^item> \<open>Gel_DebugLine\<close>, \<open>Dwarf_DebugLine\<close>, \<open>Dwarf_Elf\<close>: \<open>gel_DebugLine.cpp\<close>, \<open>dwarf_DebugLine.cpp\<close> and
    \<open>elf::File::debugLines\<close>.
  \<^item> \<open>Unix_Builder\<close>: \<open>elf_UnixBuilder.cpp\<close>, the loading, the stack and the scan of the libraries.
  \<^item> \<open>Pecoff_File\<close>: \<open>pecoff_File.cpp\<close>. \<open>Coffi_File\<close>: \<open>coffi_File.cpp\<close>.
  \<^item> \<open>Gel_Manager\<close>: \<open>gel_Manager.cpp\<close>, the choice of the format and the dump of a buffer.
  \<^item> \<open>Gel_Object\<close>: the virtual functions of \<open>gel::File\<close>, \<open>gel::Segment\<close> and \<open>gel::Section\<close>
    (\<open>File.h\<close>) on a file opened by the manager, whatever its format: the interface of the tools.
  \<^item> \<open>Elf_Arch\<close>: the relocation entries of \<open>elf/defs.h\<close> and \<open>elf/defs64.h\<close>, and the plug-ins of
    architectures, \<open>elf_ArchPlugin.cpp\<close> and \<open>elf_arm.cpp\<close>.
  \<^item> \<open>Gel_Output\<close>: the standard streams as lists of the operands written on them, with the
    formats asked of ELM. \<open>Tool_Base\<close> and \<open>Tool_Dyn\<close>, \<open>Tool_File\<close>, \<open>Tool_Im\<close>, \<open>Tool_Line\<close>,
    \<open>Tool_Prog\<close>, \<open>Tool_Sect\<close> (with \<open>gel-seg\<close>) and \<open>Tool_Sym\<close>: the eight commands of \<open>src/bin\<close>.
    A command is a function \<open>..._run\<close> from its options and arguments and the streams to its exit
    status and the streams, which keep what was written before a failure.

  What the lemmas show:

  \<^item> \<open>Elf_Spec\<close> states what the tables of a file are, from its bytes alone (\<open>sec_infos\<close>, \<open>phdr_infos\<close>,
    \<open>sec_data\<close>, \<open>spec_name\<close>), and \<open>elf_inv\<close>, the invariant that whatever has been loaded agrees
    with them. In the locale \<open>elf_host\<close> (a stream that behaves as documented) each operation gives
    the value of the specification and keeps the invariant. \<open>Elf_Symbols\<close> does it for symbol tables,
    \<open>Elf_Errors\<close> for the files that are cut or malformed; \<open>Elf_Props\<close> has the properties.
  \<^item> \<open>Elf_Session\<close> makes the ten questions a client asks of a file (tables, names, contents, strings,
    symbols, segments) a datatype and the sessions a relation between files: whatever was asked
    before, among the questions that fit in the file (\<open>can_ask\<close>), the answer is a function of the
    bytes. \<open>Elf_Encode\<close> has an encoder of files, for both
    classes and byte orders: what is encoded is opened and read back.
  \<^item> \<open>Elf_Image\<close> relates the image to the program headers, and a byte of the image to a byte of
    the file. \<open>Coffi_Props\<close> does the same for the sections of a COFF file.
  \<^item> \<open>Dwarf_Leb\<close> has the LEB128 numbers, \<open>Dwarf_Machine\<close> the line number machine of the standard
    and the encoding of its programs, \<open>Dwarf_Lines\<close> and \<open>Dwarf_Program\<close> the simulation of the
    machine by \<open>runSM\<close>: the rows are those of the standard on the programs that \<open>op_ok\<close> allows (no
    \<open>DW_LNE_define_file\<close>, addresses of the size of the lengths of the unit and a null \<open>op_index\<close> at
    \<open>DW_LNE_set_address\<close>), but for the flags that \<open>recordLine\<close> sets instead of clearing them, \<open>Dwarf_Unit\<close> the encoding of whole units and their reading,
    \<open>Dwarf_Safety\<close> what holds of a table read from any bytes, \<open>Gel_Lookup\<close> the look-up of an
    address; \<open>Dwarf_Props\<close> and \<open>Dwarf_Elf\<close> compose them from the bytes of a file to a line.
  \<^item> \<open>Unix_Stack\<close> has the layout of the stack at explicit offsets (\<open>stack_words\<close>), which the sizes of
    the code are shown to give, \<open>Unix_Build\<close> the loading of a program, \<open>Unix_Props\<close>
    their properties. \<open>Pecoff_Props\<close> shows that the constructor agrees with a parser of the
    content that has every field at its documented place, \<open>Pecoff_Sections\<close> what the sections and their names are, from the headers and the
    string table. \<open>Manager_Props\<close> composes the formats under \<open>openFile\<close>.
  \<^item> \<open>Tool_Open\<close> says which contents open as ELF files and what is known of an open file; each
    \<open>Tool_..._Props\<close> composes the properties of the library, from the bytes of a file to the
    output of the command, as a specification over the bytes alone. \<open>writes\<close> of \<open>Gel_Output\<close> is
    the judgement the proofs compose: what a computation writes while it keeps an invariant of
    the file. \<open>Tool_Files\<close> has the two ways of the commands on several files, as the locales
    \<open>continuing_command\<close> (\<open>gel-dyn\<close>, \<open>gel-prog\<close>, \<open>gel-line\<close>) and \<open>stopping_command\<close> (the others),
    interpreted on each of them. \<open>Tool_Binary\<close> says what is known of a file of any of the three
    formats (\<open>binary_source\<close>) and has the loop over its segments or sections as the locale
    \<open>listing\<close>, which \<open>Tool_List_Props\<close> interprets on both for each format. \<open>gel-seg\<close>, \<open>gel-sect\<close> and
    \<open>gel-file\<close> are specified for the three formats, \<open>gel-im\<close> and \<open>gel-sym\<close> for ELF and COFF files;
    \<open>Tool_Pe_Props\<close> has what the commands do with a PE-COFF file they are not made for. \<open>Elf_Notes\<close> has the encoding of notes and what \<open>NoteIter\<close> reads of it.

  Bounds. Loops of the code that are structural in the model need no bound. Those that follow the
  content of a file take one as an argument and give \<open>No_Return\<close> (or \<open>None\<close>, for the loop of
  \<open>SimpleBuilder\<close>) when it is reached: the opcodes of a line program (a bound over the number of
  opcodes of the program is enough, \<open>runSM_refines\<close>), the units of a section (their number), the
  segments of a file (one more than their number, \<open>elf_make_segments\<close>), the units that a Unix
  builder loads, the lines of a dump (one more than the lines of eight bytes), and in the commands
  the entries of a dynamic section, the notes of a program header and the bytes of a block (one
  more than their number, the argument \<open>k\<close>). The depth of
  the calls for the name of a section is bounded by \<open>n\<close>, with the value \<open>Stack_Overflow\<close>: one
  level is enough when the section of the names is not a symbol table with garbage. The theorems
  about results take bounds that are large enough and show that the result is given.

  Parameters. The code of ELM and of COFFI is not part of the repository. The random access
  stream is a record of functions with its documented behaviour as \<open>rstream_spec\<close>; the primitives
  on arrays have \<open>elm_array_spec\<close>; the join of two paths, \<open>roundup\<close>, the formatting of numbers and
  what COFFI read from a file are arguments. The bytes of memory that is not initialised come from
  a function \<open>junk\<close> that is left arbitrary. The host is little-endian.

  Also parameters: the analysis of the options of a command line (the type \<open>command_line\<close> has
  its result), the order in which a hash table gives its keys, the loading of plug-ins, and the
  conversion of a string to a number that two commands use by mistake.

  Not modelled: the formatting of the operands that are written (ELM), \<open>demangle\<close> of \<open>gel-sym\<close>
  (never called, it wraps the C++ runtime), the debug traces, the code under \<open>#ifdef\<close> for
  big-endian hosts (it does not compile: \<open>gel_LittleDecoder.cpp\<close> and \<open>pecoff_File.cpp\<close> have
  syntax errors there), the code after a \<open>return\<close> in \<open>coffi_File.cpp\<close>, and the destructors,
  except for what \<open>Image::clean\<close> deletes.
\<close>

end
